(* ===== verification/Sysboost_Prelude.thy ===== *)
theory Sysboost_Prelude
  imports Main "HOL-Library.Word" "HOL-Library.Sublist"
begin

text \<open>
  Shared vocabulary of the development: machine integers at their Rust width, Rust strings as
  UTF-8 byte strings, big-endian integer coding (\<open>to_be_bytes\<close>/\<open>from_be_bytes\<close>), the \<open>?\<close> operator
  on \<open>Result\<close> values, and the list operations of the Rust standard library the sources call
  (\<open>dedup\<close>, \<open>position\<close>, \<open>find\<close>, \<open>iter_mut().find\<close>, \<open>binary_search\<close>).
\<close>

unbundle bit_operations_syntax

named_theorems codec_intros \<open>composition rules for byte decoders\<close>
named_theorems wf_simps \<open>definitions of the type invariants\<close>

section \<open>Machine integers\<close>

type_synonym u8 = "8 word"
type_synonym u16 = "16 word"
type_synonym u32 = "32 word"
type_synonym u64 = "64 word"
type_synonym u128 = "128 word"
type_synonym i8 = "8 word"
type_synonym i64 = "64 word"

text \<open>\<open>usize\<close> is 64 bits wide on every supported target; sizes are natural numbers with this bound.\<close>

definition usize_limit :: nat where
  "usize_limit = 2 ^ 64"

section \<open>Big-endian integers\<close>

fun to_be :: "nat \<Rightarrow> 'a::len word \<Rightarrow> u8 list" where
  "to_be 0 w = []"
| "to_be (Suc n) w = to_be n (drop_bit 8 w) @ [ucast w]"

definition from_be :: "u8 list \<Rightarrow> 'a::len word" where
  "from_be bs = foldl (\<lambda>a b. push_bit 8 a OR ucast b) 0 bs"

lemma length_to_be [simp]: "length (to_be n w) = n"
  by (induction n arbitrary: w) simp_all

lemma from_be_snoc: "from_be (bs @ [b]) = push_bit 8 (from_be bs) OR ucast b"
  by (simp add: from_be_def)

lemma from_be_to_be_take: "from_be (to_be n w) = take_bit (8 * n) (w :: 'a::len word)"
proof (induction n arbitrary: w)
  case 0
  then show ?case by (simp add: from_be_def)
next
  case (Suc n)
  show ?case
    by (rule bit_word_eqI)
      (auto simp: from_be_snoc Suc.IH bit_simps not_less)
qed

lemma from_be_to_be [simp]:
  "LENGTH('a) \<le> 8 * n \<Longrightarrow> from_be (to_be n w) = (w :: 'a::len word)"
  by (simp add: from_be_to_be_take take_bit_word_eq_self)

section \<open>Rust strings\<close>

text \<open>
  A Rust \<open>String\<close> is a byte sequence that is valid UTF-8. It is modelled as a character list in
  which every \<open>char\<close> stands for one byte; \<open>len()\<close> is therefore \<open>length\<close>.
\<close>

definition str_bytes :: "string \<Rightarrow> u8 list" where
  "str_bytes s = map (\<lambda>c. word_of_nat (of_char c)) s"

definition bytes_str :: "u8 list \<Rightarrow> string" where
  "bytes_str bs = map (\<lambda>b. char_of (unat b)) bs"

lemma bytes_str_str_bytes [simp]: "bytes_str (str_bytes s) = s"
proof -
  have "unat (word_of_nat (of_char c) :: u8) = of_char c" for c :: char
    using nat_of_char_less_256 [of c] by (simp add: unat_of_nat take_bit_nat_eq_self)
  then show ?thesis by (simp add: str_bytes_def bytes_str_def comp_def)
qed

lemma str_bytes_bytes_str [simp]: "str_bytes (bytes_str bs) = bs"
proof -
  have "unat b < 256" for b :: u8
    using unsigned_less [of b, where ?'a = nat] by simp
  then show ?thesis by (simp add: str_bytes_def bytes_str_def comp_def map_idI)
qed

lemma length_str_bytes [simp]: "length (str_bytes s) = length s"
  by (simp add: str_bytes_def)

lemma length_bytes_str [simp]: "length (bytes_str s) = length s"
  by (simp add: bytes_str_def)

lemma bytes_str_eq_iff [simp]: "bytes_str bs = bytes_str cs \<longleftrightarrow> bs = cs"
  by (metis str_bytes_bytes_str)

text \<open>
  \<open>core::str::from_utf8\<close>: the well-formed byte sequences of the Unicode standard, by the lead byte
  (no overlong forms, no surrogates, nothing above U+10FFFF).
\<close>

definition utf8_cont :: "u8 \<Rightarrow> bool" where
  "utf8_cont b \<longleftrightarrow> 0x80 \<le> b \<and> b \<le> 0xBF"

definition utf8_second :: "u8 \<Rightarrow> u8 \<Rightarrow> bool" where
  "utf8_second lead b \<longleftrightarrow>
     (if lead = 0xE0 then 0xA0 \<le> b \<and> b \<le> 0xBF
      else if lead = 0xED then 0x80 \<le> b \<and> b \<le> 0x9F
      else if lead = 0xF0 then 0x90 \<le> b \<and> b \<le> 0xBF
      else if lead = 0xF4 then 0x80 \<le> b \<and> b \<le> 0x8F
      else utf8_cont b)"

fun utf8_valid :: "u8 list \<Rightarrow> bool" where
  "utf8_valid [] \<longleftrightarrow> True"
| "utf8_valid (b # bs) \<longleftrightarrow>
     (if b < 0x80 then utf8_valid bs
      else if 0xC2 \<le> b \<and> b \<le> 0xDF then
        (case bs of c # r \<Rightarrow> utf8_cont c \<and> utf8_valid r | _ \<Rightarrow> False)
      else if 0xE0 \<le> b \<and> b \<le> 0xEF then
        (case bs of c # d # r \<Rightarrow> utf8_second b c \<and> utf8_cont d \<and> utf8_valid r | _ \<Rightarrow> False)
      else if 0xF0 \<le> b \<and> b \<le> 0xF4 then
        (case bs of c # d # e # r \<Rightarrow>
           utf8_second b c \<and> utf8_cont d \<and> utf8_cont e \<and> utf8_valid r | _ \<Rightarrow> False)
      else False)"

definition utf8 :: "string \<Rightarrow> bool" where
  "utf8 s \<longleftrightarrow> utf8_valid (str_bytes s)"

text \<open>\<open>str::is_char_boundary\<close>.\<close>

definition is_char_boundary :: "string \<Rightarrow> nat \<Rightarrow> bool" where
  "is_char_boundary s i \<longleftrightarrow>
     i = 0 \<or> i = length s \<or> (i < length s \<and> \<not> utf8_cont (str_bytes s ! i))"

text \<open>\<open>String::from_utf8\<close>.\<close>

definition from_utf8 :: "u8 list \<Rightarrow> string option" where
  "from_utf8 bs = (if utf8_valid bs then Some (bytes_str bs) else None)"

lemma from_utf8_str_bytes [simp]: "utf8 s \<Longrightarrow> from_utf8 (str_bytes s) = Some s"
  by (simp add: from_utf8_def utf8_def)

lemma utf8_ascii: "\<forall>b \<in> set bs. b < 0x80 \<Longrightarrow> utf8_valid bs"
  by (induction bs) simp_all

lemma utf8_second_cont: "utf8_second l b \<Longrightarrow> utf8_cont b"
  by (auto simp: utf8_second_def utf8_cont_def word_le_nat_alt split: if_splits)

text \<open>A valid string is a sequence of encoded characters, each a lead byte and its continuations.\<close>

definition utf8_char :: "u8 list \<Rightarrow> bool" where
  "utf8_char ch \<longleftrightarrow> ch \<noteq> [] \<and> length ch \<le> 4 \<and> \<not> utf8_cont (hd ch)
     \<and> (\<forall>c \<in> set (tl ch). utf8_cont c) \<and> (\<forall>r. utf8_valid (ch @ r) \<longleftrightarrow> utf8_valid r)"

lemma utf8_charI:
  assumes "\<not> utf8_cont b" and "\<forall>c \<in> set cs. utf8_cont c" and "length cs \<le> 3"
    and "\<And>r. utf8_valid (b # cs @ r) \<longleftrightarrow> utf8_valid r"
  shows "utf8_char (b # cs)"
  using assms unfolding utf8_char_def append.simps list.sel by simp

lemma utf8_lead_cases:
  assumes "utf8_valid (b # bs)"
  shows "\<exists>ch r. b # bs = ch @ r \<and> utf8_char ch \<and> utf8_valid r"
proof -
  have lead: "\<not> utf8_cont b" if "b < 0x80 \<or> 0xC2 \<le> b"
    using that by (auto simp: utf8_cont_def word_le_nat_alt word_less_nat_alt)
  consider (one) "b < 0x80" | (two) "\<not> b < 0x80" "0xC2 \<le> b \<and> b \<le> 0xDF"
    | (three) "\<not> b < 0x80" "\<not> (0xC2 \<le> b \<and> b \<le> 0xDF)" "0xE0 \<le> b \<and> b \<le> 0xEF"
    | (four) "\<not> b < 0x80" "\<not> (0xC2 \<le> b \<and> b \<le> 0xDF)" "\<not> (0xE0 \<le> b \<and> b \<le> 0xEF)"
        "0xF0 \<le> b \<and> b \<le> 0xF4"
    using assms by (simp only: utf8_valid.simps split: if_splits) blast+
  then show ?thesis
  proof cases
    case one
    then have "utf8_char [b]" using lead by (simp add: utf8_char_def)
    then show ?thesis using assms one by (intro exI [of _ "[b]"] exI [of _ bs]) simp
  next
    case two
    then obtain c r where r: "bs = c # r" "utf8_cont c" "utf8_valid r"
      using assms by (auto split: list.splits)
    with two lead have "utf8_char [b, c]" by (simp add: utf8_char_def)
    with r show ?thesis by (intro exI [of _ "[b, c]"] exI [of _ r]) simp
  next
    case three
    then obtain c d r where r: "bs = c # d # r" "utf8_second b c" "utf8_cont d" "utf8_valid r"
      using assms by (auto split: list.splits)
    have "0xC2 \<le> b" using three by (auto simp: word_le_nat_alt)
    with r three lead have "utf8_char [b, c, d]" by (simp add: utf8_char_def utf8_second_cont)
    with r show ?thesis by (intro exI [of _ "[b, c, d]"] exI [of _ r]) simp
  next
    case four
    have unfold4: "utf8_valid (b # xs) \<longleftrightarrow> (case xs of c # d # e # r \<Rightarrow>
        utf8_second b c \<and> utf8_cont d \<and> utf8_cont e \<and> utf8_valid r | _ \<Rightarrow> False)" for xs
      unfolding utf8_valid.simps(2) [of b xs] by (simp only: four if_False if_True simp_thms)
    from assms [unfolded unfold4] obtain c d e r where
      r: "bs = c # d # e # r" "utf8_second b c" "utf8_cont d" "utf8_cont e" "utf8_valid r"
      by (auto split: list.splits simp del: utf8_valid.simps)
    have "0xC2 \<le> b" using four by (auto simp: word_le_nat_alt)
    then have "utf8_char [b, c, d, e]"
      using r(2-4) lead by (intro utf8_charI) (simp_all add: unfold4 utf8_second_cont del: utf8_valid.simps)
    then show ?thesis using r(5) unfolding r(1)
      by (intro exI [of _ "[b, c, d, e]"] exI [of _ r] conjI) (simp_all only: append.simps)
  qed
qed

lemma utf8_induct [consumes 1, case_names Nil Char]:
  assumes "utf8_valid bs" and "P []"
    and "\<And>ch r. utf8_char ch \<Longrightarrow> utf8_valid r \<Longrightarrow> P r \<Longrightarrow> P (ch @ r)"
  shows "P bs"
  using assms(1)
proof (induction bs rule: length_induct)
  case (1 bs)
  show ?case
  proof (cases bs)
    case (Cons b bs')
    with "1.prems" obtain ch r where r: "bs = ch @ r" "utf8_char ch" "utf8_valid r"
      using utf8_lead_cases by blast
    then have "length r < length bs" by (auto simp: utf8_char_def)
    with "1.IH" r assms(3) show ?thesis by blast
  qed (use assms(2) in simp)
qed

definition cut_point :: "u8 list \<Rightarrow> nat \<Rightarrow> bool" where
  "cut_point bs k \<longleftrightarrow> k = 0 \<or> k = length bs \<or> (k < length bs \<and> \<not> utf8_cont (bs ! k))"

lemma cut_in_char:
  assumes "utf8_char ch" and "cut_point (ch @ r) k" and "k < length ch"
  shows "k = 0"
proof (rule ccontr)
  assume "k \<noteq> 0"
  then have "ch ! k \<in> set (tl ch)" using assms(3) by (cases ch; cases k) auto
  with assms \<open>k \<noteq> 0\<close> show False by (auto simp: utf8_char_def cut_point_def nth_append)
qed

lemma cut_shift:
  "length ch \<le> k \<Longrightarrow> ch \<noteq> [] \<Longrightarrow> cut_point (ch @ r) k \<Longrightarrow> cut_point r (k - length ch)"
  by (auto simp: cut_point_def nth_append)

lemma utf8_take: "utf8_valid bs \<Longrightarrow> cut_point bs k \<Longrightarrow> utf8_valid (take k bs)"
proof (induction bs arbitrary: k rule: utf8_induct)
  case (Char ch r)
  show ?case
  proof (cases "k < length ch")
    case True
    with cut_in_char [OF Char.hyps(1) Char.prems] show ?thesis by simp
  next
    case False
    with Char have "utf8_valid (take (k - length ch) r)"
      using cut_shift [of ch k r] by (simp add: utf8_char_def)
    with False Char.hyps(1) show ?thesis by (simp add: utf8_char_def)
  qed
qed simp

lemma cut_near:
  "utf8_valid bs \<Longrightarrow> k < length bs \<Longrightarrow> \<exists>j \<le> k. k < j + 4 \<and> cut_point bs j"
proof (induction bs arbitrary: k rule: utf8_induct)
  case (Char ch r)
  show ?case
  proof (cases "k < length ch")
    case True
    with Char.hyps(1) show ?thesis by (intro exI [of _ 0]) (auto simp: utf8_char_def cut_point_def)
  next
    case False
    then have "k - length ch < length r" using Char.prems by simp
    from Char.IH [OF this] obtain j where
      j: "j \<le> k - length ch" "k - length ch < j + 4" "cut_point r j" by blast
    have "cut_point (ch @ r) (length ch + j)"
    proof (cases "j = 0")
      case True
      obtain a rest where a: "r = a # rest" using \<open>k - length ch < length r\<close> by (cases r) auto
      with Char.hyps(2) obtain ch' r' where "a # rest = ch' @ r'" "utf8_char ch'"
        using utf8_lead_cases by blast
      then have "\<not> utf8_cont a" by (cases ch') (auto simp: utf8_char_def)
      with a True show ?thesis by (simp add: cut_point_def)
    qed (use j(3) in \<open>auto simp: cut_point_def\<close>)
    with j False show ?thesis by (intro exI [of _ "length ch + j"]) auto
  qed
qed simp

section \<open>Results and early return\<close>

text \<open>The \<open>?\<close> operator: the first \<open>Err\<close> is the value of the whole function.\<close>

fun rbind :: "'e + 'a \<Rightarrow> ('a \<Rightarrow> 'e + 'b) \<Rightarrow> 'e + 'b" where
  "rbind (Inl e) f = Inl e"
| "rbind (Inr x) f = f x"

lemma rbind_eq_Inr: "rbind m f = Inr y \<longleftrightarrow> (\<exists>x. m = Inr x \<and> f x = Inr y)"
  by (cases m) simp_all

lemma rbind_eq_Inl: "rbind m f = Inl e \<longleftrightarrow> m = Inl e \<or> (\<exists>x. m = Inr x \<and> f x = Inl e)"
  by (cases m) simp_all

lemma rbind_cong [fundef_cong]:
  "m = m' \<Longrightarrow> (\<And>x. m' = Inr x \<Longrightarrow> f x = g x) \<Longrightarrow> rbind m f = rbind m' g"
  by (cases m') simp_all

text \<open>\<open>map_err\<close> with a constant closure, and \<open>ok_or\<close>.\<close>

fun replace_err :: "'e \<Rightarrow> 'd + 'a \<Rightarrow> 'e + 'a" where
  "replace_err e (Inl d) = Inl e"
| "replace_err e (Inr x) = Inr x"

fun map_err :: "('d \<Rightarrow> 'e) \<Rightarrow> 'd + 'a \<Rightarrow> 'e + 'a" where
  "map_err f (Inl d) = Inl (f d)"
| "map_err f (Inr x) = Inr x"

fun ok_or :: "'e \<Rightarrow> 'a option \<Rightarrow> 'e + 'a" where
  "ok_or e None = Inl e"
| "ok_or e (Some x) = Inr x"

lemma replace_err_eq_Inr [simp]: "replace_err e m = Inr x \<longleftrightarrow> m = Inr x"
  by (cases m) simp_all

lemma map_err_eq_Inr [simp]: "map_err f m = Inr x \<longleftrightarrow> m = Inr x"
  by (cases m) simp_all

lemma ok_or_eq_Inr [simp]: "ok_or e m = Inr x \<longleftrightarrow> m = Some x"
  by (cases m) simp_all

text \<open>A loop that checks every element and stops at the first error.\<close>

fun try_each :: "('a \<Rightarrow> 'e + unit) \<Rightarrow> 'a list \<Rightarrow> 'e + unit" where
  "try_each f [] = Inr ()"
| "try_each f (x # xs) = rbind (f x) (\<lambda>_. try_each f xs)"

lemma try_each_eq_Inr: "try_each f xs = Inr u \<longleftrightarrow> (\<forall>x \<in> set xs. f x = Inr ())"
  by (induction xs) (auto simp: rbind_eq_Inr)

lemma try_each_cong [fundef_cong]:
  "xs = ys \<Longrightarrow> (\<And>x. x \<in> set ys \<Longrightarrow> f x = g x) \<Longrightarrow> try_each f xs = try_each g ys"
proof (induction ys arbitrary: xs)
  case (Cons y ys)
  then show ?case by (cases "g y") auto
qed simp

section \<open>Slices and vectors\<close>

text \<open>\<open>iter().position\<close>.\<close>

fun position :: "('a \<Rightarrow> bool) \<Rightarrow> 'a list \<Rightarrow> nat option" where
  "position p [] = None"
| "position p (x # xs) = (if p x then Some 0 else map_option Suc (position p xs))"

lemma position_None: "position p xs = None \<longleftrightarrow> (\<forall>x \<in> set xs. \<not> p x)"
  by (induction xs) auto

lemma position_Some:
  "position p xs = Some i \<Longrightarrow> i < length xs \<and> p (xs ! i) \<and> (\<forall>j < i. \<not> p (xs ! j))"
proof (induction xs arbitrary: i)
  case (Cons x xs)
  then show ?case
    by (auto split: if_splits simp: less_Suc_eq_0_disj)
qed simp

text \<open>Replacing the first element that satisfies a predicate (\<open>iter_mut().find\<close> and a write).\<close>

fun update_first :: "('a \<Rightarrow> bool) \<Rightarrow> ('a \<Rightarrow> 'a) \<Rightarrow> 'a list \<Rightarrow> 'a list" where
  "update_first p f [] = []"
| "update_first p f (x # xs) = (if p x then f x # xs else x # update_first p f xs)"

lemma length_update_first [simp]: "length (update_first p f xs) = length xs"
  by (induction xs) simp_all

lemma map_update_first [simp]:
  "(\<And>x. p x \<Longrightarrow> g (f x) = g x) \<Longrightarrow> map g (update_first p f xs) = map g xs"
  by (induction xs) simp_all

lemma update_first_absent [simp]: "\<forall>x \<in> set xs. \<not> p x \<Longrightarrow> update_first p f xs = xs"
  by (induction xs) simp_all

text \<open>\<open>slice::binary_search(..).is_ok()\<close> on a slice, by halving the interval \<open>[lo, hi)\<close>.\<close>

function bsearch :: "'a::linorder list \<Rightarrow> 'a \<Rightarrow> nat \<Rightarrow> nat \<Rightarrow> bool" where
  "bsearch xs k lo hi =
     (if hi \<le> lo then False
      else let mid = lo + (hi - lo) div 2 in
        if xs ! mid = k then True
        else if xs ! mid < k then bsearch xs k (Suc mid) hi
        else bsearch xs k lo mid)"
  by pat_completeness auto
termination
  by (relation "measure (\<lambda>(xs, k, lo, hi). hi - lo)") auto

declare bsearch.simps [simp del]

lemma bsearch_correct:
  assumes "sorted xs" and "hi \<le> length xs"
  shows "bsearch xs k lo hi \<longleftrightarrow> (\<exists>i. lo \<le> i \<and> i < hi \<and> xs ! i = k)"
  using assms
proof (induction xs k lo hi rule: bsearch.induct)
  case (1 xs k lo hi)
  define mid where "mid = lo + (hi - lo) div 2"
  show ?case
  proof (cases "lo < hi")
    case True
    then have mid: "lo \<le> mid" "mid < hi" by (auto simp: mid_def)
    have mono: "i \<le> j \<Longrightarrow> j < hi \<Longrightarrow> xs ! i \<le> xs ! j" for i j
      using "1.prems" by (auto simp: sorted_iff_nth_mono)
    consider "xs ! mid = k" | "xs ! mid < k" | "k < xs ! mid" by force
    then show ?thesis
    proof cases
      case 1
      with mid have "\<exists>i. lo \<le> i \<and> i < hi \<and> xs ! i = k" by blast
      with True 1 show ?thesis
        by (simp add: bsearch.simps [of xs k lo hi] mid_def Let_def)
    next
      case 2
      have "(\<exists>i. lo \<le> i \<and> i < hi \<and> xs ! i = k) \<longleftrightarrow> (\<exists>i. Suc mid \<le> i \<and> i < hi \<and> xs ! i = k)"
        using 2 mid mono by (metis Suc_leD leD le_trans not_less_eq_eq)
      moreover have "xs ! mid \<noteq> k" using 2 by simp
      ultimately show ?thesis using True 2 "1.IH"(1) [OF _ mid_def] "1.prems"
        by (simp add: bsearch.simps [of xs k lo hi] mid_def Let_def)
    next
      case 3
      have "(\<exists>i. lo \<le> i \<and> i < hi \<and> xs ! i = k) \<longleftrightarrow> (\<exists>i. lo \<le> i \<and> i < mid \<and> xs ! i = k)"
        using 3 mid mono by (metis leD leI less_trans)
      moreover have "xs ! mid \<noteq> k" "\<not> xs ! mid < k" using 3 by simp_all
      ultimately show ?thesis using True "1.IH"(2) [OF _ mid_def] "1.prems" mid
        by (simp add: bsearch.simps [of xs k lo hi] mid_def Let_def)
    qed
  qed (simp add: bsearch.simps [of xs k lo hi])
qed

corollary bsearch_member:
  "sorted xs \<Longrightarrow> bsearch xs k 0 (length xs) \<longleftrightarrow> k \<in> set xs"
  by (auto simp: bsearch_correct in_set_conv_nth)

lemma sort_eq_Nil [simp]: "sort xs = [] \<longleftrightarrow> xs = []"
  by (metis length_0_conv length_sort)

text \<open>\<open>sort_unstable\<close> followed by \<open>dedup\<close> (which drops adjacent repeats).\<close>

lemma sorted_distinct_canonical:
  fixes xs :: "'a::linorder list"
  shows "sorted (remdups_adj (sort xs)) \<and> distinct (remdups_adj (sort xs))
    \<and> set (remdups_adj (sort xs)) = set xs"
proof -
  have "sorted xs \<Longrightarrow> distinct (remdups_adj xs)" for xs :: "'a list"
    by (induction xs rule: remdups_adj.induct) (auto simp: order.antisym)
  then show ?thesis by (simp add: sorted_remdups_adj)
qed

lemma canonical_id:
  fixes xs :: "'a::linorder list"
  shows "sorted xs \<Longrightarrow> distinct xs \<Longrightarrow> remdups_adj (sort xs) = xs"
  by (simp add: sorted_sort_id remdups_adj_distinct)

end
