(* ===== verification/Identifiers.thy ===== *)
theory Identifiers
  imports Sysboost_Prelude "HOL-Library.List_Lexorder" "HOL-Library.Char_ord"
begin

text \<open>
  The identifiers of \<open>sysboost-core/src/ids.rs\<close> and the timestamp of \<open>time.rs\<close>: validated textual
  identifiers, 16-byte plan and session identities, numeric mutation identities, and the
  hexadecimal form of a session identity used for file names and logs. The properties are what the
  validator admits, that every admitted identifier is a single path component, and that the
  hexadecimal form of a session identity parses back to it.
\<close>

section \<open>Textual identifiers\<close>

record identifier_error =
  ie_name :: string
  ie_reason :: string

definition IdentifierError_new :: "string \<Rightarrow> string \<Rightarrow> identifier_error" where
  "IdentifierError_new name reason = \<lparr>ie_name = name, ie_reason = reason\<rparr>"

text \<open>\<open>u8::is_ascii_whitespace\<close> and \<open>u8::is_ascii_alphanumeric\<close> of the standard library.\<close>

definition is_ascii_whitespace :: "char \<Rightarrow> bool" where
  "is_ascii_whitespace c \<longleftrightarrow> (of_char c :: nat) \<in> {9, 10, 12, 13, 32}"

definition is_ascii_digit :: "char \<Rightarrow> bool" where
  "is_ascii_digit c \<longleftrightarrow> 48 \<le> (of_char c :: nat) \<and> (of_char c :: nat) \<le> 57"

definition is_ascii_alphanumeric :: "char \<Rightarrow> bool" where
  "is_ascii_alphanumeric c \<longleftrightarrow> is_ascii_digit c
     \<or> (65 \<le> (of_char c :: nat) \<and> (of_char c :: nat) \<le> 90)
     \<or> (97 \<le> (of_char c :: nat) \<and> (of_char c :: nat) \<le> 122)"

definition nul :: char where
  "nul = CHR 0x00"

definition id_char :: "char \<Rightarrow> bool" where
  "id_char c \<longleftrightarrow> is_ascii_alphanumeric c \<or> c \<in> set ''._:-''"

text \<open>The quoted characters of the alphabet message are written with \<open>CHR 0x27\<close>.\<close>

definition id_alphabet_reason :: string where
  "id_alphabet_reason =
     ''may contain only ASCII letters, digits, '' @ [CHR 0x27] @ ''.'' @ [CHR 0x27] @ '', ''
     @ [CHR 0x27] @ ''_'' @ [CHR 0x27] @ '', '' @ [CHR 0x27] @ '':'' @ [CHR 0x27] @ '', and ''
     @ [CHR 0x27] @ ''-'' @ [CHR 0x27]"

definition validate_text :: "string \<Rightarrow> string \<Rightarrow> identifier_error + unit" where
  "validate_text name value =
     (if value = [] then Inl (IdentifierError_new name ''must not be empty'')
      else if length value > 128 then Inl (IdentifierError_new name ''must be at most 128 bytes'')
      else if list_ex (\<lambda>c. c = nul \<or> is_ascii_whitespace c) value
        then Inl (IdentifierError_new name ''must not contain whitespace or NUL'')
      else if \<not> list_all id_char value
        then Inl (IdentifierError_new name id_alphabet_reason)
      else Inr ())"

datatype backend_id = BackendId (backend_str: string)
datatype capability_id = CapabilityId (capability_str: string)
datatype operation_id = OperationId (operation_str: string)
datatype target_id = TargetId (target_str: string)

definition BackendId_new :: "string \<Rightarrow> identifier_error + backend_id" where
  "BackendId_new value = rbind (validate_text ''BackendId'' value) (\<lambda>_. Inr (BackendId value))"

definition CapabilityId_new :: "string \<Rightarrow> identifier_error + capability_id" where
  "CapabilityId_new value =
     rbind (validate_text ''CapabilityId'' value) (\<lambda>_. Inr (CapabilityId value))"

definition OperationId_new :: "string \<Rightarrow> identifier_error + operation_id" where
  "OperationId_new value =
     rbind (validate_text ''OperationId'' value) (\<lambda>_. Inr (OperationId value))"

definition TargetId_new :: "string \<Rightarrow> identifier_error + target_id" where
  "TargetId_new value = rbind (validate_text ''TargetId'' value) (\<lambda>_. Inr (TargetId value))"

text \<open>The type invariant the private field gives the four types.\<close>

definition valid_id_text :: "string \<Rightarrow> bool" where
  "valid_id_text s \<longleftrightarrow> s \<noteq> [] \<and> length s \<le> 128 \<and> list_all id_char s"

lemma id_char_clean: "id_char c \<Longrightarrow> c \<noteq> nul \<and> \<not> is_ascii_whitespace c"
  by (auto simp: id_char_def nul_def is_ascii_whitespace_def is_ascii_alphanumeric_def
      is_ascii_digit_def)

lemma validate_text_ok: "validate_text name s = Inr u \<longleftrightarrow> valid_id_text s"
  using id_char_clean
  by (auto simp: validate_text_def valid_id_text_def list_ex_iff list_all_iff)

lemma id_new_ok [simp]:
  "BackendId_new s = Inr b \<longleftrightarrow> valid_id_text s \<and> b = BackendId s"
  "CapabilityId_new s = Inr c \<longleftrightarrow> valid_id_text s \<and> c = CapabilityId s"
  "OperationId_new s = Inr p \<longleftrightarrow> valid_id_text s \<and> p = OperationId s"
  "TargetId_new s = Inr t \<longleftrightarrow> valid_id_text s \<and> t = TargetId s"
  by (auto simp: BackendId_new_def CapabilityId_new_def OperationId_new_def TargetId_new_def
      rbind_eq_Inr validate_text_ok)

lemma id_new_valid [simp]:
  assumes "valid_id_text s"
  shows "BackendId_new s = Inr (BackendId s)" "CapabilityId_new s = Inr (CapabilityId s)"
    "OperationId_new s = Inr (OperationId s)" "TargetId_new s = Inr (TargetId s)"
  using assms by simp_all

lemma id_char_ascii: "id_char c \<Longrightarrow> (of_char c :: nat) < 128"
  by (auto simp: id_char_def is_ascii_alphanumeric_def is_ascii_digit_def)

lemma ascii_utf8:
  assumes "\<forall>c \<in> set s. (of_char c :: nat) < 128"
  shows "utf8 s"
proof -
  have "(word_of_nat (of_char c) :: u8) < 0x80" if "c \<in> set s" for c
    using assms that by (simp add: word_less_nat_alt unat_of_nat take_bit_nat_eq_self)
  then show ?thesis by (auto simp: utf8_def str_bytes_def intro!: utf8_ascii)
qed

lemma valid_id_text_utf8: "valid_id_text s \<Longrightarrow> utf8 s"
  by (rule ascii_utf8) (auto simp: valid_id_text_def list_all_iff id_char_ascii)

lemma valid_id_text_no_nul: "valid_id_text s \<Longrightarrow> nul \<notin> set s"
  by (auto simp: valid_id_text_def list_all_iff dest: id_char_clean)

section \<open>Numeric and byte identities\<close>

datatype plan_id = PlanId (plan_bytes: "u8 list")
datatype session_id = SessionId (session_bytes: "u8 list")
datatype mutation_id = MutationId (mutation_num: u32)
datatype timestamp = Timestamp (unix_millis: u128)

definition wf_session_id :: "session_id \<Rightarrow> bool" where
  [wf_simps]: "wf_session_id s \<longleftrightarrow> length (session_bytes s) = 16"

definition wf_plan_id :: "plan_id \<Rightarrow> bool" where
  [wf_simps]: "wf_plan_id p \<longleftrightarrow> length (plan_bytes p) = 16"

text \<open>The derived orders: bytes lexicographically, numbers numerically.\<close>

instantiation session_id :: linorder
begin

definition less_eq_session_id :: "session_id \<Rightarrow> session_id \<Rightarrow> bool" where
  "less_eq_session_id a b \<longleftrightarrow> session_bytes a \<le> session_bytes b"

definition less_session_id :: "session_id \<Rightarrow> session_id \<Rightarrow> bool" where
  "less_session_id a b \<longleftrightarrow> session_bytes a < session_bytes b"

instance
  by standard
    (auto simp: less_eq_session_id_def less_session_id_def session_id.expand
      intro: order.antisym session_id.expand)

end

instantiation mutation_id :: linorder
begin

definition less_eq_mutation_id :: "mutation_id \<Rightarrow> mutation_id \<Rightarrow> bool" where
  "less_eq_mutation_id a b \<longleftrightarrow> mutation_num a \<le> mutation_num b"

definition less_mutation_id :: "mutation_id \<Rightarrow> mutation_id \<Rightarrow> bool" where
  "less_mutation_id a b \<longleftrightarrow> mutation_num a < mutation_num b"

instance
  by standard
    (auto simp: less_eq_mutation_id_def less_mutation_id_def intro: mutation_id.expand)

end

section \<open>Hexadecimal session identities\<close>

definition HEX :: string where
  "HEX = ''0123456789abcdef''"

fun encode_hex :: "u8 list \<Rightarrow> string" where
  "encode_hex [] = []"
| "encode_hex (byte # rest) =
     HEX ! unat (drop_bit 4 byte) # HEX ! unat (byte AND 0x0F) # encode_hex rest"

definition hex_value :: "u8 \<Rightarrow> u8 option" where
  "hex_value byte =
     (if 0x30 \<le> byte \<and> byte \<le> 0x39 then Some (byte - 0x30)
      else if 0x61 \<le> byte \<and> byte \<le> 0x66 then Some (byte - 0x61 + 10)
      else if 0x41 \<le> byte \<and> byte \<le> 0x46 then Some (byte - 0x41 + 10)
      else None)"

fun decode_pairs :: "u8 list \<Rightarrow> unit + u8 list" where
  "decode_pairs (h # l # rest) =
     rbind (ok_or () (hex_value h)) (\<lambda>high.
     rbind (ok_or () (hex_value l)) (\<lambda>low.
     rbind (decode_pairs rest) (\<lambda>bytes. Inr ((push_bit 4 high OR low) # bytes))))"
| "decode_pairs _ = Inr []"

definition decode_hex :: "string \<Rightarrow> unit + u8 list" where
  "decode_hex value =
     (if length value mod 2 \<noteq> 0 then Inl ()
      else rbind (decode_pairs (str_bytes value)) (\<lambda>bytes.
        if length bytes \<noteq> 16 then Inl () else Inr bytes))"

definition to_hex :: "session_id \<Rightarrow> string" where
  "to_hex s = encode_hex (session_bytes s)"

definition SessionId_from_str :: "string \<Rightarrow> identifier_error + session_id" where
  "SessionId_from_str value =
     rbind (replace_err (IdentifierError_new ''SessionId'' ''must be 32 hexadecimal characters'')
       (decode_hex value)) (\<lambda>bytes. Inr (SessionId bytes))"

subsection \<open>Hexadecimal digits\<close>

lemma hex_value_digit:
  assumes "n < 16"
  shows "hex_value (word_of_nat (of_char (HEX ! n))) = Some (word_of_nat n)"
proof -
  have "n \<in> set [0..<16]" using assms by simp
  moreover have "list_all (\<lambda>k. hex_value (word_of_nat (of_char (HEX ! k))) = Some (word_of_nat k)) [0..<16]"
    by code_simp
  ultimately show ?thesis by (simp add: list_all_iff)
qed

lemma nibbles_join: "push_bit 4 (drop_bit 4 b) OR (b AND 0x0F) = (b :: u8)"
proof -
  have m: "(0x0F :: u8) = mask 4" by (simp add: mask_eq_exp_minus_1)
  show ?thesis unfolding m by (rule bit_word_eqI) (auto simp: bit_simps not_less)
qed

lemma nibbles_bound: "unat (drop_bit 4 (b :: u8)) < 16" "unat (b AND 0x0F) < 16"
proof -
  have "unat b < 256" using unsigned_less [of b, where ?'a = nat] by simp
  then show "unat (drop_bit 4 b) < 16" by (simp add: drop_bit_eq_div unat_div)
  have "b AND 0x0F = take_bit 4 b" by (simp add: take_bit_eq_mask mask_eq_exp_minus_1)
  then show "unat (b AND 0x0F) < 16"
    by (simp add: take_bit_eq_mod unat_mod)
qed

lemma length_encode_hex [simp]: "length (encode_hex bs) = 2 * length bs"
  by (induction bs) simp_all

lemma decode_pairs_encode_hex: "decode_pairs (str_bytes (encode_hex bs)) = Inr bs"
proof (induction bs)
  case Nil
  then show ?case by (simp add: str_bytes_def)
next
  case (Cons b bs)
  then show ?case
    by (simp add: str_bytes_def hex_value_digit nibbles_bound nibbles_join)
qed

text \<open>What a parsed string looks like: its lower-case form is the canonical rendering.\<close>

definition ascii_lower :: "char \<Rightarrow> char" where
  "ascii_lower c =
     (if 65 \<le> (of_char c :: nat) \<and> (of_char c :: nat) \<le> 90
      then char_of ((of_char c :: nat) + 32) else c)"

lemma hex_value_Some:
  assumes "hex_value (word_of_nat (of_char c)) = Some v"
  shows "unat v < 16 \<and> HEX ! unat v = ascii_lower c"
proof -
  have "of_char c \<in> set [0..<256]" using nat_of_char_less_256 [of c] by simp
  moreover have "list_all (\<lambda>k. case hex_value (word_of_nat k) of None \<Rightarrow> True
      | Some v \<Rightarrow> unat v < 16 \<and> HEX ! unat v = ascii_lower (char_of k)) [0..<256]"
    by code_simp
  ultimately have "case hex_value (word_of_nat (of_char c)) of None \<Rightarrow> True
      | Some v \<Rightarrow> unat v < 16 \<and> HEX ! unat v = ascii_lower (char_of (of_char c :: nat))"
    unfolding list_all_iff by blast
  then show ?thesis using assms by simp
qed

lemma nibbles_split:
  assumes "unat h < 16" and "unat l < 16"
  shows "drop_bit 4 (push_bit 4 h OR l) = (h :: u8)" "(push_bit 4 h OR l) AND 0x0F = (l :: u8)"
proof -
  have small: "take_bit 4 x = x" if "unat x < 16" for x :: u8
    using that by (simp add: word_unat_eq_iff unsigned_take_bit_eq take_bit_nat_eq_self)
  have m: "(0x0F :: u8) = mask 4" by (simp add: mask_eq_exp_minus_1)
  have h: "n < 4" if "bit h n" for n
    using small [OF assms(1)] that by (metis bit_take_bit_iff)
  have l: "n < 4" if "bit l n" for n
    using small [OF assms(2)] that by (metis bit_take_bit_iff)
  show "drop_bit 4 (push_bit 4 h OR l) = h"
    by (rule bit_word_eqI) (auto simp: bit_simps not_less dest: h l)
  show "(push_bit 4 h OR l) AND 0x0F = l"
    unfolding m by (rule bit_word_eqI) (auto simp: bit_simps not_less dest: h l)
qed

lemma decode_pairs_canonical:
  "decode_pairs (str_bytes s) = Inr bs \<Longrightarrow> even (length s) \<Longrightarrow>
    encode_hex bs = map ascii_lower s"
proof (induction s arbitrary: bs rule: induct_list012)
  case (3 c d s)
  then obtain high low rest where
    hv: "hex_value (word_of_nat (of_char c)) = Some high"
    and lv: "hex_value (word_of_nat (of_char d)) = Some low"
    and r: "decode_pairs (str_bytes s) = Inr rest" "bs = (push_bit 4 high OR low) # rest"
    by (auto simp: str_bytes_def rbind_eq_Inr)
  have "HEX ! unat high = ascii_lower c" "HEX ! unat low = ascii_lower d"
    "drop_bit 4 (push_bit 4 high OR low) = high" "(push_bit 4 high OR low) AND 0x0F = low"
    using hex_value_Some [OF hv] hex_value_Some [OF lv] by (blast intro: nibbles_split)+
  moreover have "encode_hex rest = map ascii_lower s" using 3 r by simp
  ultimately show ?case unfolding r(2) encode_hex.simps by (simp only: list.map)
qed (auto simp: str_bytes_def)

text \<open>
  C23: the hexadecimal rendering of a session identity parses back to it, and a string that parses
  is, up to the case of its digits, the rendering of the identity it names.
\<close>

theorem session_id_hex_roundtrip:
  "(wf_session_id sid \<longrightarrow> SessionId_from_str (to_hex sid) = Inr sid)
   \<and> (SessionId_from_str s = Inr sid \<longrightarrow> wf_session_id sid \<and> to_hex sid = map ascii_lower s)"
proof (intro conjI impI)
  assume "wf_session_id sid"
  then show "SessionId_from_str (to_hex sid) = Inr sid"
    by (simp add: SessionId_from_str_def to_hex_def decode_hex_def wf_session_id_def
        decode_pairs_encode_hex)
next
  assume "SessionId_from_str s = Inr sid"
  then obtain bs where "decode_pairs (str_bytes s) = Inr bs" "even (length s)"
    "length bs = 16" "sid = SessionId bs"
    by (auto simp: SessionId_from_str_def decode_hex_def rbind_eq_Inr even_iff_mod_2_eq_zero
        split: if_splits)
  then show "wf_session_id sid" and "to_hex sid = map ascii_lower s"
    by (simp_all add: wf_session_id_def to_hex_def decode_pairs_canonical)
qed

theorem session_id_hex_roundtrip_witness:
  "SessionId_from_str (to_hex (SessionId (replicate 16 0xAB))) = Inr (SessionId (replicate 16 0xAB))
   \<and> wf_session_id (SessionId (replicate 16 0xAB))"
proof -
  have "wf_session_id (SessionId (replicate 16 0xAB))" by (simp add: wf_session_id_def)
  then show ?thesis using session_id_hex_roundtrip [of "SessionId (replicate 16 0xAB)"] by blast
qed

end
