(* ===== verification/Errors.thy ===== *)
theory Errors
  imports Identifiers
begin

text \<open>
  The structured error taxonomy of \<open>sysboost-core/src/error.rs\<close> and the capability vocabulary of
  \<open>capability.rs\<close>. Every fallible operation of the development returns a \<open>result\<close>.
\<close>

section \<open>Errors\<close>

datatype stage = Detect | Plan | Snapshot | DurableIntent | Apply | Verify | Restore | Recovery
  | Transport | Config

datatype error_code = ConfigError | CapabilityError | Unsupported | AuthorizationError
  | TargetError | PlanningError | SnapshotError | DurabilityError | TransportError | ApplyError
  | VerificationError | RestoreConflict | RestoreError | JournalCorrupt | InvariantViolation
  | InvalidInput

datatype retryability = Never | Retry | AfterRecovery | Unknown

record error_context =
  ec_stage :: "stage option"
  ec_session_id :: "session_id option"
  ec_mutation_id :: "mutation_id option"
  ec_backend_id :: "backend_id option"
  ec_capability_id :: "capability_id option"
  ec_target_id :: "target_id option"

record sysboost_error =
  err_code :: error_code
  err_message :: string
  err_context :: error_context
  err_retryability :: retryability

type_synonym 'a result = "sysboost_error + 'a"

text \<open>
  An operation on mutable state: the result and the state it leaves, also where the result is an
  error (the writes before an early return stay visible to the caller).
\<close>

type_synonym ('s, 'a) action = "'s \<Rightarrow> 'a result \<times> 's"

definition default_context :: error_context where
  "default_context = \<lparr>ec_stage = None, ec_session_id = None, ec_mutation_id = None,
     ec_backend_id = None, ec_capability_id = None, ec_target_id = None\<rparr>"

definition SysboostError_new :: "error_code \<Rightarrow> string \<Rightarrow> sysboost_error" where
  "SysboostError_new code message = \<lparr>err_code = code, err_message = message,
     err_context = default_context, err_retryability = Never\<rparr>"

definition with_stage :: "stage \<Rightarrow> sysboost_error \<Rightarrow> sysboost_error" where
  "with_stage s e = e\<lparr>err_context := (err_context e)\<lparr>ec_stage := Some s\<rparr>\<rparr>"

definition with_session :: "session_id \<Rightarrow> sysboost_error \<Rightarrow> sysboost_error" where
  "with_session s e = e\<lparr>err_context := (err_context e)\<lparr>ec_session_id := Some s\<rparr>\<rparr>"

definition with_mutation :: "mutation_id \<Rightarrow> sysboost_error \<Rightarrow> sysboost_error" where
  "with_mutation m e = e\<lparr>err_context := (err_context e)\<lparr>ec_mutation_id := Some m\<rparr>\<rparr>"

definition with_backend :: "backend_id \<Rightarrow> sysboost_error \<Rightarrow> sysboost_error" where
  "with_backend b e = e\<lparr>err_context := (err_context e)\<lparr>ec_backend_id := Some b\<rparr>\<rparr>"

definition with_capability :: "capability_id \<Rightarrow> sysboost_error \<Rightarrow> sysboost_error" where
  "with_capability c e = e\<lparr>err_context := (err_context e)\<lparr>ec_capability_id := Some c\<rparr>\<rparr>"

definition with_target :: "target_id \<Rightarrow> sysboost_error \<Rightarrow> sysboost_error" where
  "with_target t e = e\<lparr>err_context := (err_context e)\<lparr>ec_target_id := Some t\<rparr>\<rparr>"

definition retryable :: "retryability \<Rightarrow> sysboost_error \<Rightarrow> sysboost_error" where
  "retryable r e = e\<lparr>err_retryability := r\<rparr>"

text \<open>Attaching context never changes the category, the message or the other fields.\<close>

lemma with_code [simp]:
  "err_code (with_stage s e) = err_code e"
  "err_code (with_session sid e) = err_code e"
  "err_code (with_mutation m e) = err_code e"
  "err_code (with_backend b e) = err_code e"
  "err_code (with_capability c e) = err_code e"
  "err_code (with_target t e) = err_code e"
  "err_code (retryable r e) = err_code e"
  "err_code (SysboostError_new k msg) = k"
  by (simp_all add: with_stage_def with_session_def with_mutation_def with_backend_def
      with_capability_def with_target_def retryable_def SysboostError_new_def)

lemma with_message [simp]:
  "err_message (with_stage s e) = err_message e"
  "err_message (with_session sid e) = err_message e"
  "err_message (with_mutation m e) = err_message e"
  "err_message (with_backend b e) = err_message e"
  "err_message (with_capability c e) = err_message e"
  "err_message (with_target t e) = err_message e"
  "err_message (retryable r e) = err_message e"
  "err_message (SysboostError_new k msg) = msg"
  by (simp_all add: with_stage_def with_session_def with_mutation_def with_backend_def
      with_capability_def with_target_def retryable_def SysboostError_new_def)

lemma with_retryability [simp]:
  "err_retryability (with_stage s e) = err_retryability e"
  "err_retryability (with_session sid e) = err_retryability e"
  "err_retryability (with_mutation m e) = err_retryability e"
  "err_retryability (with_backend b e) = err_retryability e"
  "err_retryability (with_capability c e) = err_retryability e"
  "err_retryability (with_target t e) = err_retryability e"
  "err_retryability (retryable r e) = r"
  "err_retryability (SysboostError_new k msg) = Never"
  by (simp_all add: with_stage_def with_session_def with_mutation_def with_backend_def
      with_capability_def with_target_def retryable_def SysboostError_new_def)

section \<open>Capability vocabulary\<close>

datatype capability_state = Available | ReadOnly | Unsupported | Indeterminate | Denied

datatype feature_class = RuntimeMutable | Conditional | Experimental | BootOnlyReportOnly

datatype equality_kind = ByteExact | ScalarExact | SetExact

datatype privilege_requirement = NoPrivilege | ReadOnly | PrivilegedMutation

datatype risk_class = Low | Medium | High | Critical

datatype target_kind = CpuPolicy | CpuSystem | Cgroup | Process | Gpu | Irq | Sysctl

datatype evidence_source = Sysfs | Procfs | CgroupV1 | CgroupV2 | Device | Permission | Synthetic



record capability_evidence =
  ev_source :: evidence_source
  ev_detail :: string

record operation_descriptor =
  od_id :: operation_id
  od_privilege :: privilege_requirement
  od_equality :: equality_kind
  od_classification :: feature_class

record capability_descriptor =
  cd_id :: capability_id
  cd_backend :: backend_id
  cd_target_kind :: target_kind
  cd_state :: capability_state
  cd_operations :: "operation_descriptor list"
  cd_privilege :: privilege_requirement
  cd_equality :: equality_kind
  cd_risk :: risk_class
  cd_classification :: feature_class
  cd_evidence :: "capability_evidence list"

record capability_inventory =
  ci_observed_at :: timestamp
  ci_capabilities :: "capability_descriptor list"

end
