(* ===== verification/Actions.thy ===== *)
theory Actions
  imports Errors
begin

text \<open>
  Operations on mutable state with early returns: how they are sequenced, and the facts about
  sequences that the engine, the helper and the backends share.
\<close>

text \<open>Sequencing with \<open>?\<close>: on an error the rest is skipped and the state so far is kept.\<close>

definition abind :: "('s, 'a) action \<Rightarrow> ('a \<Rightarrow> ('s, 'b) action) \<Rightarrow> ('s, 'b) action" where
  "abind m k s = (case m s of (Inl e, s') \<Rightarrow> (Inl e, s') | (Inr x, s') \<Rightarrow> k x s')"

definition areturn :: "'a result \<Rightarrow> ('s, 'a) action" where
  "areturn r s = (r, s)"

lemma abind_ok: "abind m k s = (Inr x, s') \<longleftrightarrow> (\<exists>y s1. m s = (Inr y, s1) \<and> k y s1 = (Inr x, s'))"
  by (auto simp: abind_def split: prod.splits sum.splits)

lemma abindE:
  assumes "abind m k s = (r, s')"
  obtains (error) e where "m s = (Inl e, s')" "r = Inl e"
    | (step) x s1 where "m s = (Inr x, s1)" "k x s1 = (r, s')"
  using assms by (auto simp: abind_def split: prod.splits sum.splits)

lemma abind_areturn [simp]:
  "abind (areturn (Inr x)) k = k x" "abind (areturn (Inl e)) k = areturn (Inl e)"
  by (simp_all add: abind_def areturn_def fun_eq_iff)

text \<open>Read-only operations: whatever they return, the state is the one they started from.\<close>

definition pure_action :: "('s, 'a) action \<Rightarrow> bool" where
  "pure_action m \<longleftrightarrow> (\<forall>s. snd (m s) = s)"

named_theorems pure_intros

lemma pure_actionD: "pure_action m \<Longrightarrow> m s = (r, s') \<Longrightarrow> s' = s"
  unfolding pure_action_def by (metis snd_conv)

lemma pure_areturn [pure_intros]: "pure_action (areturn r)"
  by (simp add: pure_action_def areturn_def)

lemma pure_abind [pure_intros]: "pure_action m \<Longrightarrow> (\<And>x. pure_action (k x)) \<Longrightarrow> pure_action (abind m k)"
  unfolding pure_action_def abind_def by (simp split: prod.splits sum.splits) (metis snd_conv)

end
