(* ===== verification/Mutations.thy ===== *)
theory Mutations
  imports Errors
begin

text \<open>
  The closed mutation vocabulary of \<open>sysboost-core/src/mutation.rs\<close>: bounded value types with their
  checked constructors, the canonical CPU set, the operation and value enumerations, planned
  mutations, snapshots and receipts. A Rust newtype with a private field is a datatype with one
  constructor plus a \<open>wf_\<close> predicate that says what its checked constructor guarantees.
\<close>

section \<open>Bounded value types\<close>

definition MAX_PREIMAGE_BYTES :: nat where
  "MAX_PREIMAGE_BYTES = 4096"

datatype cpu_policy_id = CpuPolicyId (policy_num: u32)
datatype gpu_id = GpuId (gpu_num: u32)
datatype irq_id = IrqId (irq_num: u32)

datatype cgroup_id = CgroupId (mount_id: u64) (inode: u64) (handle: target_id)

datatype process_id = ProcessId (pid: u32) (start_time_ticks: u64)

definition invalid_input :: "string \<Rightarrow> sysboost_error" where
  "invalid_input message = SysboostError_new InvalidInput message"

definition ProcessId_new :: "u32 \<Rightarrow> u64 \<Rightarrow> process_id result" where
  "ProcessId_new p ticks =
     (if p = 0 \<or> ticks = 0
      then Inl (invalid_input ''process identity requires a positive PID and start time'')
      else Inr (ProcessId p ticks))"

text \<open>Decimal rendering of an unsigned integer (\<open>Display\<close>).\<close>

fun dec_digits :: "nat \<Rightarrow> string" where
  "dec_digits n =
     (if n < 10 then [char_of (48 + n)] else dec_digits (n div 10) @ [char_of (48 + n mod 10)])"

declare dec_digits.simps [simp del]

text \<open>\<open>ProcessId::target_id\<close>; the \<open>expect\<close> on the identifier check is the \<open>None\<close> case (a panic).\<close>

definition process_target_id :: "process_id \<Rightarrow> target_id option" where
  "process_target_id p =
     (case TargetId_new (''process.'' @ dec_digits (unat (pid p)) @ ''.''
        @ dec_digits (unat (start_time_ticks p))) of
        Inl e \<Rightarrow> None | Inr t \<Rightarrow> Some t)"

datatype cgroup_name = CgroupName (cgroup_name_str: string)

definition cgroup_char :: "char \<Rightarrow> bool" where
  "cgroup_char c \<longleftrightarrow> is_ascii_alphanumeric c \<or> c \<in> set ''._-''"

definition CgroupName_new :: "string \<Rightarrow> cgroup_name result" where
  "CgroupName_new value =
     (if value = [] \<or> length value > 64 \<or> value = ''.'' \<or> value = ''..''
        \<or> \<not> list_all cgroup_char value
      then Inl (invalid_input ''cgroup name is not a bounded single component'')
      else Inr (CgroupName value))"

datatype nice_value = NiceValue (nice_get: i8)

definition NICE_MIN :: int where "NICE_MIN = -20"
definition NICE_MAX :: int where "NICE_MAX = 19"

definition NiceValue_new :: "i8 \<Rightarrow> nice_value result" where
  "NiceValue_new value =
     (if \<not> (NICE_MIN \<le> sint value \<and> sint value \<le> NICE_MAX)
      then Inl (invalid_input ''nice value is outside the Linux range'')
      else Inr (NiceValue value))"

datatype io_priority_class = NoClass | BestEffort | Idle

datatype io_priority = IoPriority (io_class: io_priority_class) (io_level: u8)

definition IoPriority_new :: "io_priority_class \<Rightarrow> u8 \<Rightarrow> io_priority result" where
  "IoPriority_new class level =
     (if level > 7
      then Inl (invalid_input ''I/O priority level is outside the Linux range'')
      else Inr (IoPriority class level))"

datatype io_weight = IoWeight (io_weight_get: u16)

definition WEIGHT_MIN :: u16 where "WEIGHT_MIN = 1"
definition WEIGHT_MAX :: u16 where "WEIGHT_MAX = 10000"

definition IoWeight_new :: "u16 \<Rightarrow> io_weight result" where
  "IoWeight_new value =
     (if \<not> (WEIGHT_MIN \<le> value \<and> value \<le> WEIGHT_MAX)
      then Inl (invalid_input ''I/O weight is outside the accepted range'')
      else Inr (IoWeight value))"

datatype uclamp_value = Value u16 | Max

definition UclampValue_new :: "u16 \<Rightarrow> uclamp_value result" where
  "UclampValue_new value =
     (if value > 1024
      then Inl (invalid_input ''utilization clamp is outside the 0..=1024 range'')
      else Inr (Value value))"

datatype cgroup_group_kind = Workload | ConservativeBackground

datatype governor_id = GovernorId (governor_str: string)

definition semantic_name :: "string \<Rightarrow> bool" where
  "semantic_name value \<longleftrightarrow> value \<noteq> [] \<and> length value \<le> 64 \<and> list_all id_char value"

definition GovernorId_new :: "string \<Rightarrow> governor_id result" where
  "GovernorId_new value =
     (if \<not> semantic_name value
      then Inl (invalid_input ''governor identifier is not a bounded semantic value'')
      else Inr (GovernorId value))"

datatype energy_preference = Performance | BalancePerformance | BalancePower | Power

datatype cpu_boost_state = Enabled | Disabled

datatype platform_profile_id = PlatformProfileId (platform_profile_str: string)

definition PlatformProfileId_new :: "string \<Rightarrow> platform_profile_id result" where
  "PlatformProfileId_new value =
     (if \<not> semantic_name value
      then Inl (invalid_input ''platform profile identifier is not a bounded semantic value'')
      else Inr (PlatformProfileId value))"

datatype frequency_khz = FrequencyKHz (khz: u64)

definition FrequencyKHz_new :: "u64 \<Rightarrow> frequency_khz result" where
  "FrequencyKHz_new value =
     (if value = 0 then Inl (invalid_input ''frequency must be greater than zero'')
      else Inr (FrequencyKHz value))"

datatype cpu_weight = CpuWeight (cpu_weight_get: u16)

definition CpuWeight_new :: "u16 \<Rightarrow> cpu_weight result" where
  "CpuWeight_new value =
     (if \<not> (WEIGHT_MIN \<le> value \<and> value \<le> WEIGHT_MAX)
      then Inl (invalid_input ''CPU weight is outside the accepted range'')
      else Inr (CpuWeight value))"

datatype cpu_period = CpuPeriod (period_micros: u64)

definition PERIOD_MIN :: u64 where "PERIOD_MIN = 1000"
definition PERIOD_MAX :: u64 where "PERIOD_MAX = 1000000"

definition CpuPeriod_new :: "u64 \<Rightarrow> cpu_period result" where
  "CpuPeriod_new value =
     (if \<not> (PERIOD_MIN \<le> value \<and> value \<le> PERIOD_MAX)
      then Inl (invalid_input ''CPU period is outside the accepted range'')
      else Inr (CpuPeriod value))"

datatype cpu_quota = Max | Micros u64

definition CpuQuota_micros :: "u64 \<Rightarrow> cpu_quota result" where
  "CpuQuota_micros value =
     (if value = 0 then Inl (invalid_input ''finite CPU quota must be greater than zero'')
      else Inr (Micros value))"

datatype gpu_profile = Performance | Balanced | PowerSave

datatype power_milliwatts = PowerMilliwatts (milliwatts_get: u32)

definition PowerMilliwatts_new :: "u32 \<Rightarrow> power_milliwatts result" where
  "PowerMilliwatts_new value =
     (if value = 0 then Inl (invalid_input ''power limit must be greater than zero'')
      else Inr (PowerMilliwatts value))"

datatype approved_sysctl_key = SchedulerUtilClamping

datatype approved_sysctl_value = ApprovedSysctlValue (sysctl_get: i64)

datatype bounded_bytes = BoundedBytes (raw_bytes: "u8 list")

definition BoundedBytes_new :: "u8 list \<Rightarrow> bounded_bytes result" where
  "BoundedBytes_new value =
     (if length value > MAX_PREIMAGE_BYTES
      then Inl (with_stage Snapshot
        (SysboostError_new SnapshotError ''preimage exceeds the journal byte bound''))
      else Inr (BoundedBytes value))"

datatype state_fingerprint = StateFingerprint (fingerprint_bytes: "u8 list")

datatype target_identity = TargetIdentity (identity_bytes: "u8 list")

section \<open>CPU sets\<close>

datatype cpu_set = CpuSet (cpus_list: "u32 list")

definition CpuSet_new :: "u32 list \<Rightarrow> cpu_set result" where
  "CpuSet_new cpus =
     (let cpus = remdups_adj (sort cpus) in
      if cpus = [] then Inl (invalid_input ''CPU set must not be empty'')
      else Inr (CpuSet cpus))"

definition cpu_len :: "cpu_set \<Rightarrow> nat" where
  "cpu_len s = length (cpus_list s)"

definition cpu_contains :: "cpu_set \<Rightarrow> u32 \<Rightarrow> bool" where
  "cpu_contains s cpu = bsearch (cpus_list s) cpu 0 (length (cpus_list s))"

definition is_subset_of :: "cpu_set \<Rightarrow> cpu_set \<Rightarrow> bool" where
  "is_subset_of s other = list_all (cpu_contains other) (cpus_list s)"

definition intersects :: "cpu_set \<Rightarrow> cpu_set \<Rightarrow> bool" where
  "intersects s other = list_ex (cpu_contains other) (cpus_list s)"

section \<open>Operations and values\<close>

datatype mutation_kind =
    CpuFrequency cpu_policy_id "frequency_khz option" "frequency_khz option"
  | CpuGovernor cpu_policy_id governor_id
  | CpuEnergyPreference cpu_policy_id energy_preference
  | CpuBoost cpu_boost_state
  | PlatformProfile platform_profile_id
  | CgroupCpuWeight cgroup_id cpu_weight
  | CgroupCpuMax cgroup_id cpu_quota cpu_period
  | CgroupCpuset cgroup_id cpu_set
  | CgroupIoWeight cgroup_id io_weight
  | CgroupUclampMin cgroup_id uclamp_value
  | CgroupUclampMax cgroup_id uclamp_value
  | CgroupWorkload cgroup_id cgroup_name
  | CgroupBackground cgroup_id cgroup_name
  | ProcessPlacement process_id cgroup_id
  | ProcessNice process_id nice_value
  | ProcessIoPriority process_id io_priority
  | GpuPerformanceProfile gpu_id gpu_profile
  | GpuPowerLimit gpu_id power_milliwatts
  | IrqAffinity irq_id cpu_set
  | RuntimeSysctl approved_sysctl_key approved_sysctl_value

datatype typed_value =
    CpuFrequency "frequency_khz option" "frequency_khz option"
  | Governor governor_id
  | EnergyPreference energy_preference
  | CpuBoost cpu_boost_state
  | PlatformProfile platform_profile_id
  | CgroupCpuWeight cpu_weight
  | CgroupCpuMax cpu_quota cpu_period
  | CgroupCpuset cpu_set
  | CgroupIoWeight io_weight
  | CgroupUclamp uclamp_value
  | CgroupLifecycle cgroup_group_kind cgroup_name bool
  | ProcessPlacement cgroup_id
  | Nice nice_value
  | IoPriorityValue io_priority
  | GpuPerformanceProfile gpu_profile
  | GpuPowerLimit power_milliwatts
  | IrqAffinity cpu_set
  | RuntimeSysctl approved_sysctl_key approved_sysctl_value

fun operation_name :: "mutation_kind \<Rightarrow> string" where
  "operation_name (mutation_kind.CpuFrequency _ _ _) = ''cpu.frequency''"
| "operation_name (mutation_kind.CpuGovernor _ _) = ''cpu.governor''"
| "operation_name (mutation_kind.CpuEnergyPreference _ _) = ''cpu.energy_preference''"
| "operation_name (mutation_kind.CpuBoost _) = ''cpu.boost''"
| "operation_name (mutation_kind.PlatformProfile _) = ''platform.profile''"
| "operation_name (mutation_kind.CgroupCpuWeight _ _) = ''cgroup.cpu.weight''"
| "operation_name (mutation_kind.CgroupCpuMax _ _ _) = ''cgroup.cpu.max''"
| "operation_name (mutation_kind.CgroupCpuset _ _) = ''cgroup.cpuset.cpus''"
| "operation_name (mutation_kind.CgroupIoWeight _ _) = ''cgroup.io.weight''"
| "operation_name (mutation_kind.CgroupUclampMin _ _) = ''cgroup.uclamp.min''"
| "operation_name (mutation_kind.CgroupUclampMax _ _) = ''cgroup.uclamp.max''"
| "operation_name (mutation_kind.CgroupWorkload _ _) = ''cgroup.workload''"
| "operation_name (mutation_kind.CgroupBackground _ _) = ''cgroup.background''"
| "operation_name (mutation_kind.ProcessPlacement _ _) = ''scheduler.process.placement''"
| "operation_name (mutation_kind.ProcessNice _ _) = ''scheduler.nice''"
| "operation_name (mutation_kind.ProcessIoPriority _ _) = ''scheduler.ioprio''"
| "operation_name (mutation_kind.GpuPerformanceProfile _ _) = ''gpu.performance.profile''"
| "operation_name (mutation_kind.GpuPowerLimit _ _) = ''gpu.power.limit''"
| "operation_name (mutation_kind.IrqAffinity _ _) = ''irq.affinity''"
| "operation_name (mutation_kind.RuntimeSysctl _ _) = ''kernel.sysctl.runtime''"

text \<open>\<open>MutationKind::operation_id\<close>; the \<open>expect\<close> on the static names is the \<open>None\<close> case.\<close>

definition operation_id :: "mutation_kind \<Rightarrow> operation_id option" where
  "operation_id kind =
     (case OperationId_new (operation_name kind) of Inl e \<Rightarrow> None | Inr i \<Rightarrow> Some i)"

fun kind_value :: "mutation_kind \<Rightarrow> typed_value" where
  "kind_value (mutation_kind.CpuFrequency _ lo hi) = typed_value.CpuFrequency lo hi"
| "kind_value (mutation_kind.CpuGovernor _ g) = typed_value.Governor g"
| "kind_value (mutation_kind.CpuEnergyPreference _ v) = typed_value.EnergyPreference v"
| "kind_value (mutation_kind.CpuBoost s) = typed_value.CpuBoost s"
| "kind_value (mutation_kind.PlatformProfile p) = typed_value.PlatformProfile p"
| "kind_value (mutation_kind.CgroupCpuWeight _ w) = typed_value.CgroupCpuWeight w"
| "kind_value (mutation_kind.CgroupCpuMax _ q p) = typed_value.CgroupCpuMax q p"
| "kind_value (mutation_kind.CgroupCpuset _ c) = typed_value.CgroupCpuset c"
| "kind_value (mutation_kind.CgroupIoWeight _ w) = typed_value.CgroupIoWeight w"
| "kind_value (mutation_kind.CgroupUclampMin _ v) = typed_value.CgroupUclamp v"
| "kind_value (mutation_kind.CgroupUclampMax _ v) = typed_value.CgroupUclamp v"
| "kind_value (mutation_kind.CgroupWorkload _ n) = typed_value.CgroupLifecycle Workload n True"
| "kind_value (mutation_kind.CgroupBackground _ n) =
     typed_value.CgroupLifecycle ConservativeBackground n True"
| "kind_value (mutation_kind.ProcessPlacement _ c) = typed_value.ProcessPlacement c"
| "kind_value (mutation_kind.ProcessNice _ n) = typed_value.Nice n"
| "kind_value (mutation_kind.ProcessIoPriority _ p) = typed_value.IoPriorityValue p"
| "kind_value (mutation_kind.GpuPerformanceProfile _ p) = typed_value.GpuPerformanceProfile p"
| "kind_value (mutation_kind.GpuPowerLimit _ m) = typed_value.GpuPowerLimit m"
| "kind_value (mutation_kind.IrqAffinity _ c) = typed_value.IrqAffinity c"
| "kind_value (mutation_kind.RuntimeSysctl k v) = typed_value.RuntimeSysctl k v"

definition planning_error :: "string \<Rightarrow> sysboost_error" where
  "planning_error message = with_stage Plan (SysboostError_new PlanningError message)"

definition validate_kind :: "mutation_kind \<Rightarrow> unit result" where
  "validate_kind kind =
     (case kind of
        mutation_kind.CpuFrequency _ None None \<Rightarrow>
          Inl (planning_error ''CPU frequency mutation must select a minimum or maximum'')
      | mutation_kind.CpuFrequency _ (Some lo) (Some hi) \<Rightarrow>
          (if khz lo > khz hi
           then Inl (planning_error ''CPU frequency minimum exceeds maximum'') else Inr ())
      | mutation_kind.CgroupUclampMin _ uclamp_value.Max \<Rightarrow>
          Inl (planning_error ''cgroup uclamp.min cannot use the max sentinel'')
      | _ \<Rightarrow> Inr ())"

section \<open>Planned mutations, snapshots and receipts\<close>

datatype restore_mode = CompareAndRestore

record rollback_contract =
  rb_equality :: equality_kind
  rb_mode :: restore_mode

record planned_mutation =
  pm_mutation_id :: mutation_id
  pm_capability :: capability_id
  pm_target :: target_id
  pm_kind :: mutation_kind
  pm_desired :: typed_value
  pm_precondition :: state_fingerprint
  pm_equality :: equality_kind
  pm_dependencies :: "mutation_id list"
  pm_rollback :: rollback_contract

definition PlannedMutation_new ::
    "mutation_id \<Rightarrow> capability_id \<Rightarrow> target_id \<Rightarrow> mutation_kind \<Rightarrow> typed_value \<Rightarrow>
     state_fingerprint \<Rightarrow> equality_kind \<Rightarrow> mutation_id list \<Rightarrow> planned_mutation result" where
  "PlannedMutation_new mutation_id capability target kind desired precondition equality dependencies =
     rbind (validate_kind kind) (\<lambda>_.
       if kind_value kind \<noteq> desired then
         Inl (with_mutation mutation_id
           (planning_error ''mutation kind and typed desired value disagree''))
       else if mutation_id \<in> set dependencies then
         Inl (with_mutation mutation_id (planning_error ''mutation cannot depend on itself''))
       else Inr \<lparr>pm_mutation_id = mutation_id, pm_capability = capability, pm_target = target,
         pm_kind = kind, pm_desired = desired, pm_precondition = precondition,
         pm_equality = equality, pm_dependencies = dependencies,
         pm_rollback = \<lparr>rb_equality = equality, rb_mode = CompareAndRestore\<rparr>\<rparr>)"

record snapshot =
  sn_mutation_id :: mutation_id
  sn_target :: target_id
  sn_original_raw :: bounded_bytes
  sn_original_typed :: typed_value
  sn_original_fingerprint :: state_fingerprint
  sn_equality :: equality_kind
  sn_target_identity :: target_identity
  sn_captured_at :: timestamp

record apply_receipt =
  ar_mutation_id :: mutation_id
  ar_observed_precondition :: state_fingerprint
  ar_observed_postcondition :: state_fingerprint
  ar_ownership_fingerprint :: state_fingerprint

record restore_receipt =
  rr_mutation_id :: mutation_id
  rr_restored_fingerprint :: state_fingerprint
  rr_verified :: bool

section \<open>Type invariants\<close>

definition wf_target_id :: "target_id \<Rightarrow> bool" where
  [wf_simps]: "wf_target_id t \<longleftrightarrow> valid_id_text (target_str t)"

definition wf_capability_id :: "capability_id \<Rightarrow> bool" where
  [wf_simps]: "wf_capability_id c \<longleftrightarrow> valid_id_text (capability_str c)"

definition wf_cgroup_id :: "cgroup_id \<Rightarrow> bool" where
  [wf_simps]: "wf_cgroup_id c \<longleftrightarrow> wf_target_id (handle c)"

definition wf_process_id :: "process_id \<Rightarrow> bool" where
  [wf_simps]: "wf_process_id p \<longleftrightarrow> pid p \<noteq> 0 \<and> start_time_ticks p \<noteq> 0"

definition wf_cgroup_name :: "cgroup_name \<Rightarrow> bool" where
  [wf_simps]: "wf_cgroup_name n \<longleftrightarrow> cgroup_name_str n \<noteq> [] \<and> length (cgroup_name_str n) \<le> 64
     \<and> cgroup_name_str n \<noteq> ''.'' \<and> cgroup_name_str n \<noteq> ''..''
     \<and> list_all cgroup_char (cgroup_name_str n)"

definition wf_nice :: "nice_value \<Rightarrow> bool" where
  [wf_simps]: "wf_nice n \<longleftrightarrow> NICE_MIN \<le> sint (nice_get n) \<and> sint (nice_get n) \<le> NICE_MAX"

definition wf_io_priority :: "io_priority \<Rightarrow> bool" where
  [wf_simps]: "wf_io_priority p \<longleftrightarrow> io_level p \<le> 7"

definition wf_io_weight :: "io_weight \<Rightarrow> bool" where
  [wf_simps]: "wf_io_weight w \<longleftrightarrow> WEIGHT_MIN \<le> io_weight_get w \<and> io_weight_get w \<le> WEIGHT_MAX"

definition wf_cpu_weight :: "cpu_weight \<Rightarrow> bool" where
  [wf_simps]: "wf_cpu_weight w \<longleftrightarrow> WEIGHT_MIN \<le> cpu_weight_get w \<and> cpu_weight_get w \<le> WEIGHT_MAX"

fun wf_uclamp :: "uclamp_value \<Rightarrow> bool" where
  "wf_uclamp (Value v) \<longleftrightarrow> v \<le> 1024"
| "wf_uclamp uclamp_value.Max \<longleftrightarrow> True"

definition wf_frequency :: "frequency_khz \<Rightarrow> bool" where
  [wf_simps]: "wf_frequency f \<longleftrightarrow> khz f \<noteq> 0"

definition wf_cpu_period :: "cpu_period \<Rightarrow> bool" where
  [wf_simps]: "wf_cpu_period p \<longleftrightarrow> PERIOD_MIN \<le> period_micros p \<and> period_micros p \<le> PERIOD_MAX"

fun wf_cpu_quota :: "cpu_quota \<Rightarrow> bool" where
  "wf_cpu_quota cpu_quota.Max \<longleftrightarrow> True"
| "wf_cpu_quota (Micros v) \<longleftrightarrow> v \<noteq> 0"

definition wf_power :: "power_milliwatts \<Rightarrow> bool" where
  [wf_simps]: "wf_power m \<longleftrightarrow> milliwatts_get m \<noteq> 0"

definition wf_cpu_set :: "cpu_set \<Rightarrow> bool" where
  [wf_simps]: "wf_cpu_set s \<longleftrightarrow> cpus_list s \<noteq> [] \<and> sorted (cpus_list s) \<and> distinct (cpus_list s)"

definition wf_governor :: "governor_id \<Rightarrow> bool" where
  [wf_simps]: "wf_governor g \<longleftrightarrow> semantic_name (governor_str g)"

definition wf_platform_profile :: "platform_profile_id \<Rightarrow> bool" where
  [wf_simps]: "wf_platform_profile p \<longleftrightarrow> semantic_name (platform_profile_str p)"

definition wf_bounded_bytes :: "bounded_bytes \<Rightarrow> bool" where
  [wf_simps]: "wf_bounded_bytes b \<longleftrightarrow> length (raw_bytes b) \<le> MAX_PREIMAGE_BYTES"

definition wf_fingerprint :: "state_fingerprint \<Rightarrow> bool" where
  [wf_simps]: "wf_fingerprint f \<longleftrightarrow> length (fingerprint_bytes f) = 32"

definition wf_target_identity :: "target_identity \<Rightarrow> bool" where
  [wf_simps]: "wf_target_identity i \<longleftrightarrow> length (identity_bytes i) = 16"

fun wf_kind :: "mutation_kind \<Rightarrow> bool" where
  "wf_kind (mutation_kind.CpuFrequency _ lo hi) \<longleftrightarrow>
     pred_option wf_frequency lo \<and> pred_option wf_frequency hi"
| "wf_kind (mutation_kind.CpuGovernor _ g) \<longleftrightarrow> wf_governor g"
| "wf_kind (mutation_kind.CpuEnergyPreference _ _) \<longleftrightarrow> True"
| "wf_kind (mutation_kind.CpuBoost _) \<longleftrightarrow> True"
| "wf_kind (mutation_kind.PlatformProfile p) \<longleftrightarrow> wf_platform_profile p"
| "wf_kind (mutation_kind.CgroupCpuWeight c w) \<longleftrightarrow> wf_cgroup_id c \<and> wf_cpu_weight w"
| "wf_kind (mutation_kind.CgroupCpuMax c q p) \<longleftrightarrow> wf_cgroup_id c \<and> wf_cpu_quota q \<and> wf_cpu_period p"
| "wf_kind (mutation_kind.CgroupCpuset c s) \<longleftrightarrow> wf_cgroup_id c \<and> wf_cpu_set s"
| "wf_kind (mutation_kind.CgroupIoWeight c w) \<longleftrightarrow> wf_cgroup_id c \<and> wf_io_weight w"
| "wf_kind (mutation_kind.CgroupUclampMin c v) \<longleftrightarrow> wf_cgroup_id c \<and> wf_uclamp v"
| "wf_kind (mutation_kind.CgroupUclampMax c v) \<longleftrightarrow> wf_cgroup_id c \<and> wf_uclamp v"
| "wf_kind (mutation_kind.CgroupWorkload c n) \<longleftrightarrow> wf_cgroup_id c \<and> wf_cgroup_name n"
| "wf_kind (mutation_kind.CgroupBackground c n) \<longleftrightarrow> wf_cgroup_id c \<and> wf_cgroup_name n"
| "wf_kind (mutation_kind.ProcessPlacement p c) \<longleftrightarrow> wf_process_id p \<and> wf_cgroup_id c"
| "wf_kind (mutation_kind.ProcessNice p n) \<longleftrightarrow> wf_process_id p \<and> wf_nice n"
| "wf_kind (mutation_kind.ProcessIoPriority p i) \<longleftrightarrow> wf_process_id p \<and> wf_io_priority i"
| "wf_kind (mutation_kind.GpuPerformanceProfile _ _) \<longleftrightarrow> True"
| "wf_kind (mutation_kind.GpuPowerLimit _ m) \<longleftrightarrow> wf_power m"
| "wf_kind (mutation_kind.IrqAffinity _ s) \<longleftrightarrow> wf_cpu_set s"
| "wf_kind (mutation_kind.RuntimeSysctl _ _) \<longleftrightarrow> True"

fun wf_value :: "typed_value \<Rightarrow> bool" where
  "wf_value (typed_value.CpuFrequency lo hi) \<longleftrightarrow>
     pred_option wf_frequency lo \<and> pred_option wf_frequency hi"
| "wf_value (typed_value.Governor g) \<longleftrightarrow> wf_governor g"
| "wf_value (typed_value.EnergyPreference _) \<longleftrightarrow> True"
| "wf_value (typed_value.CpuBoost _) \<longleftrightarrow> True"
| "wf_value (typed_value.PlatformProfile p) \<longleftrightarrow> wf_platform_profile p"
| "wf_value (typed_value.CgroupCpuWeight w) \<longleftrightarrow> wf_cpu_weight w"
| "wf_value (typed_value.CgroupCpuMax q p) \<longleftrightarrow> wf_cpu_quota q \<and> wf_cpu_period p"
| "wf_value (typed_value.CgroupCpuset s) \<longleftrightarrow> wf_cpu_set s"
| "wf_value (typed_value.CgroupIoWeight w) \<longleftrightarrow> wf_io_weight w"
| "wf_value (typed_value.CgroupUclamp v) \<longleftrightarrow> wf_uclamp v"
| "wf_value (typed_value.CgroupLifecycle _ n _) \<longleftrightarrow> wf_cgroup_name n"
| "wf_value (typed_value.ProcessPlacement c) \<longleftrightarrow> wf_cgroup_id c"
| "wf_value (typed_value.Nice n) \<longleftrightarrow> wf_nice n"
| "wf_value (typed_value.IoPriorityValue p) \<longleftrightarrow> wf_io_priority p"
| "wf_value (typed_value.GpuPerformanceProfile _) \<longleftrightarrow> True"
| "wf_value (typed_value.GpuPowerLimit m) \<longleftrightarrow> wf_power m"
| "wf_value (typed_value.IrqAffinity s) \<longleftrightarrow> wf_cpu_set s"
| "wf_value (typed_value.RuntimeSysctl _ _) \<longleftrightarrow> True"

text \<open>What \<open>PlannedMutation::new\<close> guarantees on top of its arguments' types.\<close>

definition wf_mutation :: "planned_mutation \<Rightarrow> bool" where
  "wf_mutation m \<longleftrightarrow> wf_capability_id (pm_capability m) \<and> wf_target_id (pm_target m)
     \<and> wf_kind (pm_kind m) \<and> wf_fingerprint (pm_precondition m)
     \<and> validate_kind (pm_kind m) = Inr () \<and> pm_desired m = kind_value (pm_kind m)
     \<and> pm_mutation_id m \<notin> set (pm_dependencies m)
     \<and> pm_rollback m = \<lparr>rb_equality = pm_equality m, rb_mode = CompareAndRestore\<rparr>"

definition wf_snapshot :: "snapshot \<Rightarrow> bool" where
  [wf_simps]: "wf_snapshot s \<longleftrightarrow> wf_target_id (sn_target s) \<and> wf_bounded_bytes (sn_original_raw s)
     \<and> wf_value (sn_original_typed s) \<and> wf_fingerprint (sn_original_fingerprint s)
     \<and> wf_target_identity (sn_target_identity s)"

definition wf_apply_receipt :: "apply_receipt \<Rightarrow> bool" where
  [wf_simps]: "wf_apply_receipt r \<longleftrightarrow> wf_fingerprint (ar_observed_precondition r)
     \<and> wf_fingerprint (ar_observed_postcondition r) \<and> wf_fingerprint (ar_ownership_fingerprint r)"

definition wf_restore_receipt :: "restore_receipt \<Rightarrow> bool" where
  [wf_simps]: "wf_restore_receipt r \<longleftrightarrow> wf_fingerprint (rr_restored_fingerprint r)"

section \<open>Checked constructors\<close>

text \<open>
  Each checked constructor succeeds exactly on the values its type invariant describes, and keeps
  the value it was given.
\<close>

lemma new_ok [simp]:
  "ProcessId_new p t = Inr x \<longleftrightarrow> x = ProcessId p t \<and> wf_process_id x"
  "CgroupName_new s = Inr n \<longleftrightarrow> n = CgroupName s \<and> wf_cgroup_name n"
  "NiceValue_new v = Inr nv \<longleftrightarrow> nv = NiceValue v \<and> wf_nice nv"
  "IoPriority_new c l = Inr pr \<longleftrightarrow> pr = IoPriority c l \<and> wf_io_priority pr"
  "IoWeight_new w = Inr iw \<longleftrightarrow> iw = IoWeight w \<and> wf_io_weight iw"
  "UclampValue_new u = Inr uv \<longleftrightarrow> uv = Value u \<and> wf_uclamp uv"
  "GovernorId_new s = Inr g \<longleftrightarrow> g = GovernorId s \<and> wf_governor g"
  "PlatformProfileId_new s = Inr pp \<longleftrightarrow> pp = PlatformProfileId s \<and> wf_platform_profile pp"
  "FrequencyKHz_new f = Inr fq \<longleftrightarrow> fq = FrequencyKHz f \<and> wf_frequency fq"
  "CpuWeight_new w = Inr cw \<longleftrightarrow> cw = CpuWeight w \<and> wf_cpu_weight cw"
  "CpuPeriod_new f = Inr cp \<longleftrightarrow> cp = CpuPeriod f \<and> wf_cpu_period cp"
  "CpuQuota_micros f = Inr cq \<longleftrightarrow> cq = Micros f \<and> wf_cpu_quota cq"
  "PowerMilliwatts_new m = Inr pw \<longleftrightarrow> pw = PowerMilliwatts m \<and> wf_power pw"
  "BoundedBytes_new bs = Inr bb \<longleftrightarrow> bb = BoundedBytes bs \<and> wf_bounded_bytes bb"
  by (auto simp: ProcessId_new_def CgroupName_new_def NiceValue_new_def IoPriority_new_def
      IoWeight_new_def UclampValue_new_def GovernorId_new_def PlatformProfileId_new_def
      FrequencyKHz_new_def CpuWeight_new_def CpuPeriod_new_def CpuQuota_micros_def
      PowerMilliwatts_new_def BoundedBytes_new_def wf_simps not_less)

lemma CpuSet_new_ok: "CpuSet_new xs = Inr s \<longleftrightarrow> xs \<noteq> [] \<and> s = CpuSet (remdups_adj (sort xs))"
  by (auto simp: CpuSet_new_def Let_def)

lemma CpuSet_new_id: "wf_cpu_set s \<Longrightarrow> CpuSet_new (cpus_list s) = Inr s"
  by (simp add: CpuSet_new_ok wf_cpu_set_def canonical_id)

lemma CpuSet_new_wf: "CpuSet_new xs = Inr s \<Longrightarrow> wf_cpu_set s \<and> set (cpus_list s) = set xs"
  using sorted_distinct_canonical [of xs] by (auto simp: CpuSet_new_ok wf_cpu_set_def)

lemma cpu_contains_member [simp]: "wf_cpu_set s \<Longrightarrow> cpu_contains s c \<longleftrightarrow> c \<in> set (cpus_list s)"
  by (simp add: cpu_contains_def wf_cpu_set_def bsearch_member)

text \<open>Canonical sets are equal as values exactly when they are equal as sets.\<close>

lemma cpu_set_extensional:
  "wf_cpu_set a \<Longrightarrow> wf_cpu_set b \<Longrightarrow> a = b \<longleftrightarrow> set (cpus_list a) = set (cpus_list b)"
  by (auto simp: wf_cpu_set_def intro!: cpu_set.expand sorted_distinct_set_unique)

lemma operation_id_Some: "operation_id k = Some (OperationId (operation_name k))"
proof -
  have "valid_id_text (operation_name k)"
    by (cases k) (simp_all add: valid_id_text_def id_char_def is_ascii_alphanumeric_def is_ascii_digit_def)
  then show ?thesis by (simp add: operation_id_def)
qed

lemma wf_kind_value: "wf_kind k \<Longrightarrow> wf_value (kind_value k)"
  by (cases k) simp_all

lemma PlannedMutation_new_ok:
  "PlannedMutation_new i c t k d p e ds = Inr m \<longleftrightarrow>
     validate_kind k = Inr () \<and> d = kind_value k \<and> i \<notin> set ds
     \<and> m = \<lparr>pm_mutation_id = i, pm_capability = c, pm_target = t, pm_kind = k, pm_desired = d,
         pm_precondition = p, pm_equality = e, pm_dependencies = ds,
         pm_rollback = \<lparr>rb_equality = e, rb_mode = CompareAndRestore\<rparr>\<rparr>"
  by (auto simp: PlannedMutation_new_def rbind_eq_Inr)

lemma PlannedMutation_new_self:
  "wf_mutation m \<Longrightarrow>
     PlannedMutation_new (pm_mutation_id m) (pm_capability m) (pm_target m) (pm_kind m)
       (pm_desired m) (pm_precondition m) (pm_equality m) (pm_dependencies m) = Inr m"
  by (cases m) (simp add: wf_mutation_def PlannedMutation_new_ok)

lemma semantic_name_clean: "semantic_name s \<Longrightarrow> utf8 s \<and> nul \<notin> set s \<and> s \<noteq> [] \<and> length s \<le> 4096"
  by (auto simp: semantic_name_def list_all_iff id_char_ascii intro!: ascii_utf8 dest: id_char_clean)

lemma cgroup_char_id: "cgroup_char c \<Longrightarrow> id_char c"
  by (auto simp: cgroup_char_def id_char_def)

lemma cgroup_name_clean:
  "wf_cgroup_name n \<Longrightarrow> utf8 (cgroup_name_str n) \<and> nul \<notin> set (cgroup_name_str n)
     \<and> cgroup_name_str n \<noteq> [] \<and> length (cgroup_name_str n) \<le> 4096"
  by (auto simp: wf_cgroup_name_def list_all_iff intro!: ascii_utf8 id_char_ascii
      dest: cgroup_char_id id_char_clean)

lemma id_text_clean: "valid_id_text s \<Longrightarrow> utf8 s \<and> nul \<notin> set s \<and> s \<noteq> [] \<and> length s \<le> 4096"
  by (auto simp: valid_id_text_utf8 valid_id_text_no_nul) (auto simp: valid_id_text_def)

section \<open>Process targets\<close>

lemma dec_digits_digits: "c \<in> set (dec_digits n) \<Longrightarrow> is_ascii_digit c"
proof (induction n rule: dec_digits.induct)
  case (1 n)
  then show ?case
    by (subst (asm) dec_digits.simps) (auto simp: is_ascii_digit_def split: if_splits)
qed

lemma dec_digits_nonempty: "dec_digits n \<noteq> []"
  by (subst dec_digits.simps) simp

lemma length_dec_digits: "n < 10 ^ k \<Longrightarrow> 0 < k \<Longrightarrow> length (dec_digits n) \<le> k"
proof (induction k arbitrary: n)
  case (Suc k)
  show ?case
  proof (cases "n < 10")
    case True
    then show ?thesis by (subst dec_digits.simps) simp
  next
    case False
    with Suc.prems have "0 < k" by (cases k) auto
    moreover from Suc.prems have "n div 10 < 10 ^ k" by auto
    ultimately have "length (dec_digits (n div 10)) \<le> k" by (rule Suc.IH [rotated])
    with False show ?thesis by (subst dec_digits.simps) simp
  qed
qed simp

definition dec_value :: "string \<Rightarrow> nat" where
  "dec_value s = foldl (\<lambda>a c. a * 10 + (of_char c - 48)) 0 s"

lemma dec_value_digits [simp]: "dec_value (dec_digits n) = n"
proof (induction n rule: dec_digits.induct)
  case (1 n)
  have digit: "of_char (char_of (48 + k) :: char) = 48 + k" if "k < 10" for k :: nat
    using that by (simp add: take_bit_nat_eq_self)
  show ?case
  proof (cases "n < 10")
    case True
    then show ?thesis by (subst dec_digits.simps) (simp add: dec_value_def digit)
  next
    case False
    with 1 have "dec_value (dec_digits (n div 10)) = n div 10" by blast
    with False show ?thesis
      by (subst dec_digits.simps) (simp add: dec_value_def digit)
  qed
qed

lemma dec_digits_inj [simp]: "dec_digits m = dec_digits n \<longleftrightarrow> m = n"
  by (metis dec_value_digits)

lemma dec_digits_no_dot: "CHR ''.'' \<notin> set (dec_digits n)"
  using dec_digits_digits [of "CHR ''.''" n] by (auto simp: is_ascii_digit_def)

lemma split_at_dot:
  assumes "a @ ''.'' @ b = c @ ''.'' @ d" and "CHR ''.'' \<notin> set a" and "CHR ''.'' \<notin> set c"
  shows "a = c \<and> b = d"
proof -
  have tw: "takeWhile (\<lambda>x. x \<noteq> CHR ''.'') (u @ ''.'' @ v) = u" if "CHR ''.'' \<notin> set u" for u v
    using that by (induction u) auto
  have "a = c" using tw [OF assms(2), of b] tw [OF assms(3), of d] assms(1) by simp
  with assms(1) show ?thesis by simp
qed

text \<open>
  The planner target of a process identity always passes the identifier check (the \<open>expect\<close>
  cannot panic), and two process identities that share a target are the same PID and start time.
\<close>

theorem process_target_id_injective:
  "\<exists>t. process_target_id p = Some t \<and> valid_id_text (target_str t)
     \<and> (process_target_id q = Some t \<longrightarrow> q = p)"
proof -
  have text_ok: "valid_id_text (''process.'' @ dec_digits (unat (pid q)) @ ''.''
      @ dec_digits (unat (start_time_ticks q)))" for q
  proof -
    have "unat (pid q) < 10 ^ 10" "unat (start_time_ticks q) < 10 ^ 20"
      using unsigned_less [of "pid q", where ?'a = nat]
        unsigned_less [of "start_time_ticks q", where ?'a = nat] by simp_all
    then have "length (dec_digits (unat (pid q))) \<le> 10"
      "length (dec_digits (unat (start_time_ticks q))) \<le> 20"
      by (simp_all only: length_dec_digits zero_less_numeral)
    moreover have "id_char c" if "c \<in> set (dec_digits n)" for c n
      using dec_digits_digits [OF that] by (simp add: id_char_def is_ascii_alphanumeric_def)
    ultimately show ?thesis
      by (auto simp: valid_id_text_def list_all_iff)
        (simp_all add: id_char_def is_ascii_alphanumeric_def is_ascii_digit_def)
  qed
  then have eq: "process_target_id q = Some (TargetId (''process.'' @ dec_digits (unat (pid q))
      @ ''.'' @ dec_digits (unat (start_time_ticks q))))" for q
    by (simp add: process_target_id_def)
  have "q = p" if "process_target_id q = process_target_id p"
  proof -
    from that have "dec_digits (unat (pid q)) @ ''.'' @ dec_digits (unat (start_time_ticks q))
        = dec_digits (unat (pid p)) @ ''.'' @ dec_digits (unat (start_time_ticks p))"
      unfolding eq by simp
    from split_at_dot [OF this dec_digits_no_dot dec_digits_no_dot]
    have "unat (pid q) = unat (pid p)" "unat (start_time_ticks q) = unat (start_time_ticks p)"
      by simp_all
    then show ?thesis by (auto intro!: process_id.expand simp: word_unat_eq_iff)
  qed
  then show ?thesis using text_ok eq by auto
qed

theorem process_target_id_injective_witness:
  "\<exists>t. process_target_id (ProcessId 4021 77) = Some t \<and> valid_id_text (target_str t)
     \<and> (ProcessId 4021 77) = (ProcessId 4021 77)"
  using process_target_id_injective [of "ProcessId 4021 77" "ProcessId 4021 77"] by blast

end
