(* ===== verification/Plans.thy ===== *)
theory Plans
  imports Mutations
begin

text \<open>
  Plans and their admission check: \<open>sysboost-core/src/plan.rs\<close>, with the plan items and operation
  contracts of \<open>planner.rs\<close> that a plan is made of. The properties characterise exactly which plans
  \<open>Plan::validate\<close> accepts and what the recursive cycle search computes.
\<close>

section \<open>Policies\<close>

datatype policy_mode = Report | Boost

record policy_request =
  pr_capability :: capability_id
  pr_target :: target_id
  pr_operation :: mutation_kind
  pr_required :: bool

definition PolicyRequest_optional ::
    "capability_id \<Rightarrow> target_id \<Rightarrow> mutation_kind \<Rightarrow> policy_request" where
  "PolicyRequest_optional capability target operation =
     \<lparr>pr_capability = capability, pr_target = target, pr_operation = operation,
      pr_required = False\<rparr>"

definition PolicyRequest_required :: "policy_request \<Rightarrow> policy_request" where
  "PolicyRequest_required self = self\<lparr>pr_required := True\<rparr>"

record policy =
  po_mode :: policy_mode
  po_max_risk :: risk_class
  po_allow_experimental :: bool
  po_required_default :: bool
  po_requests :: "policy_request list"
  po_session_timeout_ms :: u64

definition Policy_safe_defaults :: policy where
  "Policy_safe_defaults = \<lparr>po_mode = Report, po_max_risk = Critical,
     po_allow_experimental = True, po_required_default = False, po_requests = [],
     po_session_timeout_ms = 30000\<rparr>"

record plan_request =
  preq_policy :: policy
  preq_inventory :: capability_inventory

section \<open>Plan vocabulary\<close>

datatype profile = Balanced | Performance | Extreme

datatype feature = CpuGovernor | CpuFrequency | CpuEnergyPreference | CpuBoost | PlatformProfile
  | CgroupCpu | CpuPlacement | GpuTuning | IrqTuning | SchedulerTuning | MemoryVm
  | TransparentHugePages | Custom capability_id

datatype control_id = CpuGovernor | CpuEnergyPreference | CpuFrequency | CpuBoost | PlatformProfile
  | CgroupCpuWeight | CgroupCpuMax | CgroupCpuset | CgroupIoWeight | CgroupWorkload
  | CgroupBackground | GpuPerformanceProfile | GpuPowerLimit | IrqAffinity | SchedulerWorkload
  | ProcessPlacement | ProcessNice | ProcessIoPriority | CgroupUclamp | CgroupUclampMin
  | CgroupUclampMax | TransparentHugePages | MemoryVm | ReportOnly

datatype observed_text = ObservedText (observed_str: string)

definition ObservedText_new :: "string \<Rightarrow> observed_text result" where
  "ObservedText_new value =
     (if value = [] \<or> length value > 1024 \<or> nul \<in> set value
      then Inl (invalid_input ''observed text is empty, oversized, or contains NUL'')
      else Inr (ObservedText value))"

datatype plan_value = Typed typed_value | Text observed_text

record snapshot_contract =
  sc_defined :: bool
  sc_typed_preimage :: bool
  sc_raw_preimage :: bool
  sc_equality :: equality_kind

definition SnapshotContract_is_complete :: "snapshot_contract \<Rightarrow> bool" where
  "SnapshotContract_is_complete c \<longleftrightarrow> sc_defined c \<and> sc_typed_preimage c"

record restore_contract =
  rc_defined :: bool
  rc_mode :: "restore_mode option"
  rc_equality :: equality_kind

definition RestoreContract_is_complete :: "restore_contract \<Rightarrow> bool" where
  "RestoreContract_is_complete c \<longleftrightarrow> rc_defined c \<and> rc_mode c \<noteq> None"

record verification_contract =
  vc_defined :: bool
  vc_readback :: bool
  vc_equality :: equality_kind

definition VerificationContract_is_complete :: "verification_contract \<Rightarrow> bool" where
  "VerificationContract_is_complete c \<longleftrightarrow> vc_defined c \<and> vc_readback c"

datatype plan_action = Mutation | NoOp | Unsupported | Preserved | ExplicitOptInRequired
  | ExperimentalDisabled | DeniedByPolicy | CapabilityDenied | Indeterminate

definition is_executable :: "plan_action \<Rightarrow> bool" where
  "is_executable a \<longleftrightarrow> a = Mutation"

datatype experimental_status = NotExperimental | Disabled | OptInRequired | Enabled

record plan_item =
  pi_capability :: capability_id
  pi_operation :: operation_id
  pi_backend :: "backend_id option"
  pi_target :: "target_id option"
  pi_control :: control_id
  pi_current :: "plan_value option"
  pi_desired :: "plan_value option"
  pi_action :: plan_action
  pi_feature :: feature
  pi_feature_class :: feature_class
  pi_risk :: risk_class
  pi_explicit_opt_in_required :: bool
  pi_experimental :: experimental_status
  pi_evidence :: "capability_evidence list"
  pi_rationale :: string
  pi_reason :: "string option"
  pi_target_identity :: "target_identity option"
  pi_snapshot :: snapshot_contract
  pi_restore :: restore_contract
  pi_verification :: verification_contract
  pi_dependencies :: "mutation_id list"
  pi_mutation :: "planned_mutation option"

definition PlanItem_validate :: "plan_item \<Rightarrow> unit result" where
  "PlanItem_validate item =
     (if \<not> is_executable (pi_action item) then
        (if pi_mutation item \<noteq> None
         then Inl (planning_error ''non-mutation plan item contains executable mutation data'')
         else Inr ())
      else case pi_mutation item of
        None \<Rightarrow> Inl (planning_error ''mutation plan item has no typed mutation payload'')
      | Some mutation \<Rightarrow>
        (if pi_backend item = None \<or> pi_target item = None \<or> pi_target_identity item = None
            \<or> pi_current item = None \<or> pi_desired item = None \<or> pi_evidence item = []
         then Inl (with_mutation (pm_mutation_id mutation) (planning_error
           ''mutation plan item is missing target, state, identity, or evidence metadata''))
         else if \<not> SnapshotContract_is_complete (pi_snapshot item)
            \<or> \<not> RestoreContract_is_complete (pi_restore item)
            \<or> \<not> VerificationContract_is_complete (pi_verification item)
         then Inl (with_mutation (pm_mutation_id mutation) (planning_error
           ''mutation plan item lacks a complete snapshot/restore/verification contract''))
         else if Some (pi_operation item) \<noteq> operation_id (pm_kind mutation)
            \<or> pi_capability item \<noteq> pm_capability mutation
            \<or> pi_target item \<noteq> Some (pm_target mutation)
            \<or> pi_desired item \<noteq> Some (Typed (pm_desired mutation))
            \<or> pi_dependencies item \<noteq> pm_dependencies mutation
            \<or> sc_equality (pi_snapshot item) \<noteq> pm_equality mutation
            \<or> rc_equality (pi_restore item) \<noteq> pm_equality mutation
            \<or> vc_equality (pi_verification item) \<noteq> pm_equality mutation
         then Inl (with_mutation (pm_mutation_id mutation) (planning_error
           ''plan item metadata disagrees with its typed mutation''))
         else Inr ()))"

section \<open>Plans\<close>

record plan =
  plan_id :: plan_id
  plan_digest :: "u8 list"
  plan_policy_digest :: "u8 list"
  plan_capability_digest :: "u8 list"
  plan_mutations :: "planned_mutation list"
  plan_items :: "plan_item list"
  plan_profile :: "profile option"

function reaches_cycle :: "mutation_id \<Rightarrow> planned_mutation list \<Rightarrow> mutation_id list \<Rightarrow> bool" where
  "reaches_cycle current mutations stack =
     (if current \<in> set stack then True
      else case find (\<lambda>item. pm_mutation_id item = current) mutations of
        None \<Rightarrow> False
      | Some mutation \<Rightarrow>
          list_ex (\<lambda>dependency. reaches_cycle dependency mutations (stack @ [current]))
            (pm_dependencies mutation))"
  by pat_completeness auto
termination
proof (relation "measure (\<lambda>(c, ms, st). card (pm_mutation_id ` set ms - set st))", goal_cases)
  case (2 c ms st m d)
  then have c: "c \<in> pm_mutation_id ` set ms - set st"
    by (auto simp: find_Some_iff dest: nth_mem)
  have "card (pm_mutation_id ` set ms - set st - {c}) < card (pm_mutation_id ` set ms - set st)"
    by (rule card_Diff1_less [OF _ c]) simp
  moreover have "pm_mutation_id ` set ms - set (st @ [c]) = pm_mutation_id ` set ms - set st - {c}"
    by auto
  ultimately show ?case by simp
qed simp

declare reaches_cycle.simps [simp del]

definition item_mutations :: "plan_item list \<Rightarrow> planned_mutation list" where
  "item_mutations items = sort_key pm_mutation_id (List.map_filter pi_mutation items)"

definition validate_items :: "plan \<Rightarrow> unit result" where
  "validate_items self =
     rbind (try_each PlanItem_validate (plan_items self)) (\<lambda>_.
     if item_mutations (plan_items self) \<noteq> plan_mutations self
     then Inl (planning_error ''plan mutation set does not match its executable decision items'')
     else try_each (\<lambda>index. let item = plan_items self ! index in
       if is_executable (pi_action item) then
         (case pi_target item of
            None \<Rightarrow> Inr ()
          | Some target \<Rightarrow>
            (if list_ex (\<lambda>previous. is_executable (pi_action previous)
                \<and> pi_target previous = Some target \<and> pi_control previous = pi_control item)
                (take index (plan_items self))
             then Inl (planning_error
               ''plan contains conflicting mutations for one target control'')
             else Inr ()))
       else Inr ()) [0..<length (plan_items self)])"

definition validate_references :: "planned_mutation list \<Rightarrow> unit result" where
  "validate_references mutations =
     try_each (\<lambda>index. let mutation = mutations ! index in
       if list_ex (\<lambda>other. pm_mutation_id other = pm_mutation_id mutation) (take index mutations)
       then Inl (with_mutation (pm_mutation_id mutation)
         (planning_error ''plan contains duplicate mutation IDs''))
       else try_each (\<lambda>dependency.
         if count_list (pm_dependencies mutation) dependency > 1
         then Inl (with_mutation (pm_mutation_id mutation)
           (planning_error ''plan contains a duplicate mutation dependency''))
         else if \<not> list_ex (\<lambda>other. pm_mutation_id other = dependency) mutations
         then Inl (with_mutation (pm_mutation_id mutation)
           (planning_error ''plan dependency does not refer to a mutation in the plan''))
         else Inr ()) (pm_dependencies mutation)) [0..<length mutations]"

definition validate_acyclic :: "planned_mutation list \<Rightarrow> unit result" where
  "validate_acyclic mutations =
     try_each (\<lambda>mutation.
       if reaches_cycle (pm_mutation_id mutation) mutations []
       then Inl (with_mutation (pm_mutation_id mutation)
         (planning_error ''plan dependency graph contains a cycle''))
       else Inr ()) mutations"

text \<open>
  The last loop of \<open>validate\<close>. The \<open>expect\<close> on the dependency's position is unreachable after
  \<open>validate_references\<close>; the model reports the same error there.
\<close>

definition validate_order :: "planned_mutation list \<Rightarrow> unit result" where
  "validate_order mutations =
     try_each (\<lambda>index. let mutation = mutations ! index in
       try_each (\<lambda>dependency.
         case position (\<lambda>candidate. pm_mutation_id candidate = dependency) mutations of
           Some dependency_index \<Rightarrow>
             (if dependency_index \<ge> index
              then Inl (with_mutation (pm_mutation_id mutation) (planning_error
                ''plan dependency appears after the mutation that requires it''))
              else Inr ())
         | None \<Rightarrow> Inl (with_mutation (pm_mutation_id mutation) (planning_error
                ''plan dependency appears after the mutation that requires it'')))
         (pm_dependencies mutation)) [0..<length mutations]"

definition Plan_validate :: "plan \<Rightarrow> unit result" where
  "Plan_validate self =
     rbind (if plan_items self \<noteq> [] then validate_items self else Inr ()) (\<lambda>_.
     rbind (validate_references (plan_mutations self)) (\<lambda>_.
     rbind (validate_acyclic (plan_mutations self)) (\<lambda>_.
       validate_order (plan_mutations self))))"

definition Plan_validate_complete :: "plan \<Rightarrow> unit result" where
  "Plan_validate_complete self =
     (if plan_items self = [] \<and> plan_mutations self \<noteq> []
      then Inl (planning_error ''complete plan validation requires explainable decision items'')
      else Plan_validate self)"

definition Plan_new ::
    "plan_id \<Rightarrow> u8 list \<Rightarrow> u8 list \<Rightarrow> u8 list \<Rightarrow> planned_mutation list \<Rightarrow> plan result" where
  "Plan_new i digest policy_digest capability_digest mutations =
     (let plan = \<lparr>plan_id = i, plan_digest = digest, plan_policy_digest = policy_digest,
        plan_capability_digest = capability_digest, plan_mutations = mutations, plan_items = [],
        plan_profile = None\<rparr>
      in rbind (Plan_validate plan) (\<lambda>_. Inr plan))"

definition Plan_from_items ::
    "plan_id \<Rightarrow> u8 list \<Rightarrow> u8 list \<Rightarrow> u8 list \<Rightarrow> profile \<Rightarrow> plan_item list \<Rightarrow> plan result" where
  "Plan_from_items i digest policy_digest capability_digest profile items =
     (let plan = \<lparr>plan_id = i, plan_digest = digest, plan_policy_digest = policy_digest,
        plan_capability_digest = capability_digest, plan_mutations = item_mutations items,
        plan_items = items, plan_profile = Some profile\<rparr>
      in rbind (Plan_validate_complete plan) (\<lambda>_. Inr plan))"

section \<open>The dependency graph\<close>

text \<open>
  The edges the cycle search follows: from an identity to each dependency of the first mutation
  that carries it.
\<close>

definition depends :: "planned_mutation list \<Rightarrow> (mutation_id \<times> mutation_id) set" where
  "depends ms = {(a, b). \<exists>m. find (\<lambda>item. pm_mutation_id item = a) ms = Some m
     \<and> b \<in> set (pm_dependencies m)}"

lemma reaches_cycle_unfold:
  "reaches_cycle c ms st \<longleftrightarrow>
     c \<in> set st \<or> (\<exists>d. (c, d) \<in> depends ms \<and> reaches_cycle d ms (st @ [c]))"
  by (subst reaches_cycle.simps)
    (auto simp: depends_def list_ex_iff split: option.splits)

lemma reaches_cycle_sound:
  "reaches_cycle c ms st \<Longrightarrow> \<forall>s \<in> set st. (s, c) \<in> (depends ms)\<^sup>+ \<Longrightarrow>
    \<exists>x. (c, x) \<in> (depends ms)\<^sup>* \<and> (x, x) \<in> (depends ms)\<^sup>+"
proof (induction c ms st rule: reaches_cycle.induct)
  case (1 c ms st)
  show ?case
  proof (cases "c \<in> set st")
    case False
    with "1.prems"(1) obtain m d where m: "find (\<lambda>item. pm_mutation_id item = c) ms = Some m"
      and d: "d \<in> set (pm_dependencies m)" "reaches_cycle d ms (st @ [c])"
      by (auto simp: reaches_cycle_unfold [of c] depends_def)
    then have edge: "(c, d) \<in> depends ms" by (auto simp: depends_def)
    with "1.prems"(2) have "\<forall>s \<in> set (st @ [c]). (s, d) \<in> (depends ms)\<^sup>+"
      by (auto intro: trancl_into_trancl)
    from "1.IH" [OF False m d this] edge show ?thesis
      by (meson converse_rtrancl_into_rtrancl)
  qed (use "1.prems" in auto)
qed

lemma reaches_cycle_step:
  assumes "(x, y) \<in> (depends ms)\<^sup>+" and "\<not> reaches_cycle x ms st"
  shows "\<exists>st'. x \<in> set st' \<and> \<not> reaches_cycle y ms st'"
  using assms
proof (induction rule: trancl_induct)
  case (base y)
  then have "\<not> reaches_cycle y ms (st @ [x])" by (auto simp: reaches_cycle_unfold [of x])
  then show ?case by (intro exI [of _ "st @ [x]"]) simp
next
  case (step y z)
  then obtain st' where "x \<in> set st'" "\<not> reaches_cycle y ms st'" by blast
  with step.hyps show ?case
    by (intro exI [of _ "st' @ [y]"]) (auto simp: reaches_cycle_unfold [of y])
qed

text \<open>
  The recursive search answers whether some mutation on a dependency cycle can be reached: it
  never misses a cycle and never reports one where there is none.
\<close>

theorem reaches_cycle_correct:
  "reaches_cycle c ms [] \<longleftrightarrow>
     (\<exists>x. (c, x) \<in> (depends ms)\<^sup>* \<and> (x, x) \<in> (depends ms)\<^sup>+)"
proof
  assume "\<exists>x. (c, x) \<in> (depends ms)\<^sup>* \<and> (x, x) \<in> (depends ms)\<^sup>+"
  then obtain x where x: "(c, x) \<in> (depends ms)\<^sup>*" "(x, x) \<in> (depends ms)\<^sup>+" by blast
  show "reaches_cycle c ms []"
  proof (rule ccontr)
    assume "\<not> reaches_cycle c ms []"
    moreover have "c = x \<or> (c, x) \<in> (depends ms)\<^sup>+" using x(1) by (metis rtranclD)
    ultimately obtain st where "\<not> reaches_cycle x ms st"
      using reaches_cycle_step by blast
    from reaches_cycle_step [OF x(2) this] obtain st' where
      "x \<in> set st'" "\<not> reaches_cycle x ms st'" by blast
    then show False by (simp add: reaches_cycle_unfold [of x])
  qed
qed (simp add: reaches_cycle_sound)

section \<open>What an admitted plan is\<close>

text \<open>
  The specification: distinct identities, and every mutation's dependencies are distinct and each
  the identity of an earlier mutation (so the list is a topological order).
\<close>

definition topological :: "planned_mutation list \<Rightarrow> bool" where
  "topological ms \<longleftrightarrow> distinct (map pm_mutation_id ms)
     \<and> (\<forall>i < length ms. distinct (pm_dependencies (ms ! i))
          \<and> set (pm_dependencies (ms ! i)) \<subseteq> pm_mutation_id ` set (take i ms))"

text \<open>
  Decision items agree with the mutation list: every item is valid on its own, the mutations are
  the payloads of the executable items in identity order, and no two executable items write the
  same control of the same target.
\<close>

definition items_agree :: "plan \<Rightarrow> bool" where
  "items_agree p \<longleftrightarrow> (\<forall>item \<in> set (plan_items p). PlanItem_validate item = Inr ())
     \<and> plan_mutations p = item_mutations (plan_items p)
     \<and> (\<forall>i < length (plan_items p). \<forall>j < i.
          is_executable (pi_action (plan_items p ! i)) \<longrightarrow>
          is_executable (pi_action (plan_items p ! j)) \<longrightarrow>
          pi_target (plan_items p ! i) \<noteq> None \<longrightarrow>
          \<not> (pi_target (plan_items p ! j) = pi_target (plan_items p ! i)
             \<and> pi_control (plan_items p ! j) = pi_control (plan_items p ! i)))"

lemma take_any: "list_ex p (take i xs) \<longleftrightarrow> (\<exists>j < i. j < length xs \<and> p (xs ! j))"
  by (force simp: list_ex_iff in_set_conv_nth)

lemma try_each_upt: "try_each f [0..<n] = Inr u \<longleftrightarrow> (\<forall>i < n. f i = Inr ())"
  by (auto simp: try_each_eq_Inr)

lemma conflict_check_ok:
  "(if is_executable (pi_action item) then
      (case pi_target item of
         None \<Rightarrow> Inr ()
       | Some target \<Rightarrow>
         (if list_ex (\<lambda>previous. is_executable (pi_action previous)
             \<and> pi_target previous = Some target \<and> pi_control previous = pi_control item) earlier
          then Inl e else Inr ()))
    else Inr ()) = Inr () \<longleftrightarrow>
   (\<forall>previous \<in> set earlier. is_executable (pi_action item) \<longrightarrow>
      is_executable (pi_action previous) \<longrightarrow> pi_target item \<noteq> None \<longrightarrow>
      \<not> (pi_target previous = pi_target item \<and> pi_control previous = pi_control item))"
  by (cases "pi_target item") (auto simp: list_ex_iff)

lemma all_take: "i < length xs \<Longrightarrow> (\<forall>x \<in> set (take i xs). P x) \<longleftrightarrow> (\<forall>j < i. P (xs ! j))"
  by (auto simp: all_set_conv_all_nth)

lemma validate_items_ok: "validate_items p = Inr u \<longleftrightarrow> items_agree p"
  by (auto simp: validate_items_def items_agree_def rbind_eq_Inr try_each_eq_Inr [of PlanItem_validate]
      try_each_upt Let_def conflict_check_ok all_take)

lemma count_list_distinct: "(\<forall>x \<in> set xs. \<not> count_list xs x > 1) \<longleftrightarrow> distinct xs"
proof (induction xs)
  case (Cons a xs)
  show ?case
  proof (cases "a \<in> set xs")
    case True
    then show ?thesis by (auto simp: count_list_0_iff)
  next
    case False
    then have "\<forall>x \<in> set xs. x \<noteq> a" by blast
    with Cons False show ?thesis by (auto simp: count_list_0_iff)
  qed
qed simp

lemma distinct_take:
  "distinct (map f xs) \<longleftrightarrow> (\<forall>i < length xs. \<forall>x \<in> set (take i xs). f x \<noteq> f (xs ! i))"
proof -
  have "distinct (map f xs) \<longleftrightarrow> (\<forall>i < length xs. \<forall>j < i. f (xs ! j) \<noteq> f (xs ! i))"
    (is "_ \<longleftrightarrow> ?below")
  proof
    assume below: ?below
    show "distinct (map f xs)"
      unfolding distinct_conv_nth
    proof (intro allI impI)
      fix i j
      assume "i < length (map f xs)" "j < length (map f xs)" "i \<noteq> j"
      with below show "map f xs ! i \<noteq> map f xs ! j"
        by (cases i j rule: linorder_cases) (auto dest: sym)
    qed
  qed (auto simp: distinct_conv_nth)
  then show ?thesis by (simp add: all_take)
qed

lemma validate_references_ok:
  "validate_references ms = Inr u \<longleftrightarrow> distinct (map pm_mutation_id ms)
     \<and> (\<forall>i < length ms. distinct (pm_dependencies (ms ! i))
          \<and> set (pm_dependencies (ms ! i)) \<subseteq> pm_mutation_id ` set ms)"
proof -
  have deps: "try_each (\<lambda>dependency.
         if Suc 0 < count_list ds dependency then Inl e
         else if \<not> list_ex (\<lambda>other. pm_mutation_id other = dependency) ms then Inl e'
         else Inr ()) ds = Inr () \<longleftrightarrow> distinct ds \<and> set ds \<subseteq> pm_mutation_id ` set ms" for ds e e'
    by (auto simp: try_each_eq_Inr list_ex_iff count_list_distinct [symmetric] image_iff
        subset_iff split: if_splits)
  have "validate_references ms = Inr u \<longleftrightarrow> (\<forall>i < length ms.
      (\<forall>x \<in> set (take i ms). pm_mutation_id x \<noteq> pm_mutation_id (ms ! i))
      \<and> distinct (pm_dependencies (ms ! i))
      \<and> set (pm_dependencies (ms ! i)) \<subseteq> pm_mutation_id ` set ms)"
    by (simp add: validate_references_def try_each_upt Let_def deps) (auto simp: list_ex_iff)
  then show ?thesis unfolding distinct_take by blast
qed

lemma position_distinct:
  assumes "distinct (map f xs)" and "i < length xs"
  shows "position (\<lambda>x. f x = f (xs ! i)) xs = Some i"
proof (cases "position (\<lambda>x. f x = f (xs ! i)) xs")
  case None
  then show ?thesis using assms by (auto simp: position_None)
next
  case (Some j)
  then show ?thesis using position_Some [OF Some] assms
    by (simp add: distinct_conv_nth) metis
qed

lemma position_before:
  assumes "distinct (map f xs)" and "i < length xs"
  shows "(\<exists>k. position (\<lambda>x. f x = d) xs = Some k \<and> k < i) \<longleftrightarrow> d \<in> f ` set (take i xs)"
proof
  assume "d \<in> f ` set (take i xs)"
  then obtain k where k: "k < i" "k < length xs" "d = f (xs ! k)"
    by (auto simp: in_set_conv_nth)
  show "\<exists>k. position (\<lambda>x. f x = d) xs = Some k \<and> k < i"
    using position_distinct [OF assms(1) k(2)] k by blast
next
  assume "\<exists>k. position (\<lambda>x. f x = d) xs = Some k \<and> k < i"
  then obtain k where "k < i" "k < length xs" "f (xs ! k) = d" by (auto dest: position_Some)
  with assms(2) show "d \<in> f ` set (take i xs)" by (force simp: in_set_conv_nth)
qed

lemma validate_order_ok:
  assumes "distinct (map pm_mutation_id ms)"
  shows "validate_order ms = Inr u \<longleftrightarrow>
    (\<forall>i < length ms. set (pm_dependencies (ms ! i)) \<subseteq> pm_mutation_id ` set (take i ms))"
proof -
  have "(case q of Some k \<Rightarrow> (if k \<ge> i then Inl e else Inr ()) | None \<Rightarrow> Inl e') = Inr ()
    \<longleftrightarrow> (\<exists>k. q = Some k \<and> k < (i :: nat))" for q i and e e' :: sysboost_error
    by (cases q) auto
  then have "validate_order ms = Inr u \<longleftrightarrow> (\<forall>i < length ms. \<forall>d \<in> set (pm_dependencies (ms ! i)).
      \<exists>k. position (\<lambda>x. pm_mutation_id x = d) ms = Some k \<and> k < i)"
    by (auto simp: validate_order_def Let_def try_each_eq_Inr)
  also have "\<dots> \<longleftrightarrow> (\<forall>i < length ms. \<forall>d \<in> set (pm_dependencies (ms ! i)).
      d \<in> pm_mutation_id ` set (take i ms))"
    by (simp add: position_before [OF assms])
  finally show ?thesis by (simp only: subset_eq)
qed

text \<open>On a topologically ordered list every edge points to an earlier index.\<close>

lemma topological_edge:
  assumes "topological ms" and "(pm_mutation_id (ms ! i), d) \<in> depends ms" and "i < length ms"
  shows "\<exists>j < i. d = pm_mutation_id (ms ! j)"
proof -
  from assms(2) obtain m where m: "find (\<lambda>x. pm_mutation_id x = pm_mutation_id (ms ! i)) ms = Some m"
    and d: "d \<in> set (pm_dependencies m)" by (auto simp: depends_def)
  from m obtain k where "k < length ms" "pm_mutation_id (ms ! k) = pm_mutation_id (ms ! i)" "m = ms ! k"
    by (auto simp: find_Some_iff)
  with assms have "m = ms ! i" by (auto simp: topological_def distinct_conv_nth)
  with assms d show ?thesis by (fastforce simp: topological_def in_set_conv_nth)
qed

lemma topological_acyclic:
  assumes "topological ms" and "i < length ms"
  shows "\<not> reaches_cycle (pm_mutation_id (ms ! i)) ms st \<or>
    (\<exists>j \<le> i. pm_mutation_id (ms ! j) \<in> set st)"
  using assms(2)
proof (induction i arbitrary: st rule: less_induct)
  case (less i)
  show ?case
  proof (rule ccontr)
    assume "\<not> ?thesis"
    then have r: "reaches_cycle (pm_mutation_id (ms ! i)) ms st"
      and fresh: "\<forall>j \<le> i. pm_mutation_id (ms ! j) \<notin> set st" by auto
    then obtain d where d: "(pm_mutation_id (ms ! i), d) \<in> depends ms"
      "reaches_cycle d ms (st @ [pm_mutation_id (ms ! i)])"
      by (auto simp: reaches_cycle_unfold [of "pm_mutation_id (ms ! i)"])
    from topological_edge [OF assms(1) d(1) less.prems] obtain j where
      j: "j < i" "d = pm_mutation_id (ms ! j)" by blast
    with less.IH [of j "st @ [pm_mutation_id (ms ! i)]"] less.prems d(2) obtain k where
      "k \<le> j" "pm_mutation_id (ms ! k) \<in> set (st @ [pm_mutation_id (ms ! i)])" by auto
    with fresh j less.prems assms(1) show False
      by (auto simp: topological_def distinct_conv_nth)
  qed
qed

lemma validate_acyclic_ok:
  assumes "topological ms"
  shows "validate_acyclic ms = Inr ()"
proof -
  have "\<not> reaches_cycle (pm_mutation_id m) ms []" if "m \<in> set ms" for m
    using topological_acyclic [OF assms, of _ "[]"] that by (auto simp: in_set_conv_nth)
  then show ?thesis by (simp add: validate_acyclic_def try_each_eq_Inr)
qed

lemma validate_split:
  "topological ms \<longleftrightarrow> validate_references ms = Inr () \<and> validate_acyclic ms = Inr ()
     \<and> validate_order ms = Inr ()"
proof
  assume t: "topological ms"
  then have d: "distinct (map pm_mutation_id ms)" by (simp add: topological_def)
  have "validate_references ms = Inr ()"
    using t set_take_subset [of _ ms] unfolding validate_references_ok topological_def
    by (meson image_mono subset_trans)
  with t d show "validate_references ms = Inr () \<and> validate_acyclic ms = Inr ()
      \<and> validate_order ms = Inr ()"
    by (simp add: validate_acyclic_ok validate_order_ok) (simp add: topological_def)
qed (unfold topological_def validate_references_ok, use validate_order_ok in blast)

lemma Plan_validate_ok:
  "Plan_validate p = Inr () \<longleftrightarrow>
     topological (plan_mutations p) \<and> (plan_items p = [] \<or> items_agree p)"
  by (auto simp: Plan_validate_def rbind_eq_Inr validate_split validate_items_ok)

lemma topological_Nil [simp]: "topological []"
  by (simp add: topological_def)

lemma Plan_validate_complete_ok:
  "Plan_validate_complete p = Inr () \<longleftrightarrow>
     topological (plan_mutations p)
     \<and> (if plan_items p = [] then plan_mutations p = [] else items_agree p)"
  by (auto simp: Plan_validate_complete_def Plan_validate_ok)

text \<open>
  C21: \<open>Plan::validate\<close> accepts exactly the plans whose mutations are topologically ordered with
  distinct identities and distinct dependencies, and whose decision items, when present, agree with
  them; \<open>validate_complete\<close> also requires items for every plan that mutates.
\<close>

theorem Plan_validate_exact:
  "(Plan_validate p = Inr () \<longleftrightarrow>
      topological (plan_mutations p) \<and> (plan_items p = [] \<or> items_agree p))
   \<and> (Plan_validate_complete p = Inr () \<longleftrightarrow>
      topological (plan_mutations p)
      \<and> (if plan_items p = [] then plan_mutations p = [] else items_agree p))"
  by (simp only: Plan_validate_ok Plan_validate_complete_ok simp_thms)

end
