(* ===== verification/Orders.thy ===== *)
theory Orders
  imports Plans "HOL-Library.Product_Lexorder" "HOL-Library.Option_ord"
begin

text \<open>
  The \<open>Ord\<close> instances the source derives on the types it sorts by: identifiers by their bytes,
  enumerations by the order of their variants. They are the library's \<open>linorder\<close>, so that its sorting
  functions and ordered maps apply; tuples and \<open>Option\<close> are ordered by the library's own instances,
  lexicographically and with \<open>None\<close> first, as in Rust.
\<close>

section \<open>Orders on identifiers\<close>

instantiation capability_id :: linorder
begin

definition less_eq_capability_id :: "capability_id \<Rightarrow> capability_id \<Rightarrow> bool" where
  "less_eq_capability_id a b \<longleftrightarrow> capability_str a \<le> capability_str b"

definition less_capability_id :: "capability_id \<Rightarrow> capability_id \<Rightarrow> bool" where
  "less_capability_id a b \<longleftrightarrow> capability_str a < capability_str b"

instance
  by standard (auto simp: less_eq_capability_id_def less_capability_id_def intro: capability_id.expand)

end

instantiation operation_id :: linorder
begin

definition less_eq_operation_id :: "operation_id \<Rightarrow> operation_id \<Rightarrow> bool" where
  "less_eq_operation_id a b \<longleftrightarrow> operation_str a \<le> operation_str b"

definition less_operation_id :: "operation_id \<Rightarrow> operation_id \<Rightarrow> bool" where
  "less_operation_id a b \<longleftrightarrow> operation_str a < operation_str b"

instance
  by standard (auto simp: less_eq_operation_id_def less_operation_id_def intro: operation_id.expand)

end

instantiation timestamp :: linorder
begin

definition less_eq_timestamp :: "timestamp \<Rightarrow> timestamp \<Rightarrow> bool" where
  "less_eq_timestamp a b \<longleftrightarrow> unix_millis a \<le> unix_millis b"

definition less_timestamp :: "timestamp \<Rightarrow> timestamp \<Rightarrow> bool" where
  "less_timestamp a b \<longleftrightarrow> unix_millis a < unix_millis b"

instance
  by standard (auto simp: less_eq_timestamp_def less_timestamp_def intro: timestamp.expand)

end

instantiation backend_id :: linorder
begin

definition less_eq_backend_id :: "backend_id \<Rightarrow> backend_id \<Rightarrow> bool" where
  "less_eq_backend_id a b \<longleftrightarrow> backend_str a \<le> backend_str b"

definition less_backend_id :: "backend_id \<Rightarrow> backend_id \<Rightarrow> bool" where
  "less_backend_id a b \<longleftrightarrow> backend_str a < backend_str b"

instance
  by standard (auto simp: less_eq_backend_id_def less_backend_id_def intro: backend_id.expand)

end

instantiation target_id :: linorder
begin

definition less_eq_target_id :: "target_id \<Rightarrow> target_id \<Rightarrow> bool" where
  "less_eq_target_id a b \<longleftrightarrow> target_str a \<le> target_str b"

definition less_target_id :: "target_id \<Rightarrow> target_id \<Rightarrow> bool" where
  "less_target_id a b \<longleftrightarrow> target_str a < target_str b"

instance
  by standard (auto simp: less_eq_target_id_def less_target_id_def intro: target_id.expand)

end

section \<open>Orders on enumerations\<close>

text \<open>The derived order of \<open>RiskClass\<close>: the order of its variants.\<close>

primrec risk_rank :: "risk_class \<Rightarrow> nat" where
  "risk_rank Low = 0" | "risk_rank Medium = 1" | "risk_rank High = 2" | "risk_rank Critical = 3"

lemma risk_rank_inject: "risk_rank a = risk_rank b \<longleftrightarrow> a = b"
  by (cases a; cases b) simp_all

instantiation risk_class :: linorder
begin

definition less_eq_risk_class :: "risk_class \<Rightarrow> risk_class \<Rightarrow> bool" where
  "less_eq_risk_class a b \<longleftrightarrow> risk_rank a \<le> risk_rank b"

definition less_risk_class :: "risk_class \<Rightarrow> risk_class \<Rightarrow> bool" where
  "less_risk_class a b \<longleftrightarrow> risk_rank a < risk_rank b"

instance
  by standard (auto simp: less_eq_risk_class_def less_risk_class_def simp flip: risk_rank_inject)

end

text \<open>The derived order of \<open>ControlId\<close>.\<close>

primrec control_rank :: "control_id \<Rightarrow> nat" where
  "control_rank control_id.CpuGovernor = 0"
| "control_rank control_id.CpuEnergyPreference = 1"
| "control_rank control_id.CpuFrequency = 2"
| "control_rank control_id.CpuBoost = 3"
| "control_rank control_id.PlatformProfile = 4"
| "control_rank control_id.CgroupCpuWeight = 5"
| "control_rank control_id.CgroupCpuMax = 6"
| "control_rank control_id.CgroupCpuset = 7"
| "control_rank control_id.CgroupIoWeight = 8"
| "control_rank control_id.CgroupWorkload = 9"
| "control_rank control_id.CgroupBackground = 10"
| "control_rank control_id.GpuPerformanceProfile = 11"
| "control_rank control_id.GpuPowerLimit = 12"
| "control_rank control_id.IrqAffinity = 13"
| "control_rank control_id.SchedulerWorkload = 14"
| "control_rank control_id.ProcessPlacement = 15"
| "control_rank control_id.ProcessNice = 16"
| "control_rank control_id.ProcessIoPriority = 17"
| "control_rank control_id.CgroupUclamp = 18"
| "control_rank control_id.CgroupUclampMin = 19"
| "control_rank control_id.CgroupUclampMax = 20"
| "control_rank control_id.TransparentHugePages = 21"
| "control_rank control_id.MemoryVm = 22"
| "control_rank control_id.ReportOnly = 23"

lemma control_rank_inject: "control_rank a = control_rank b \<longleftrightarrow> a = b"
  by (cases a; cases b) simp_all

instantiation control_id :: linorder
begin

definition less_eq_control_id :: "control_id \<Rightarrow> control_id \<Rightarrow> bool" where
  "less_eq_control_id a b \<longleftrightarrow> control_rank a \<le> control_rank b"

definition less_control_id :: "control_id \<Rightarrow> control_id \<Rightarrow> bool" where
  "less_control_id a b \<longleftrightarrow> control_rank a < control_rank b"

instance
  by standard (auto simp: less_eq_control_id_def less_control_id_def simp flip: control_rank_inject)

end

text \<open>The derived order of \<open>PlanAction\<close>.\<close>

primrec action_rank :: "plan_action \<Rightarrow> nat" where
  "action_rank plan_action.Mutation = 0"
| "action_rank plan_action.NoOp = 1"
| "action_rank plan_action.Unsupported = 2"
| "action_rank plan_action.Preserved = 3"
| "action_rank plan_action.ExplicitOptInRequired = 4"
| "action_rank plan_action.ExperimentalDisabled = 5"
| "action_rank plan_action.DeniedByPolicy = 6"
| "action_rank plan_action.CapabilityDenied = 7"
| "action_rank plan_action.Indeterminate = 8"

lemma action_rank_inject: "action_rank a = action_rank b \<longleftrightarrow> a = b"
  by (cases a; cases b) simp_all

instantiation plan_action :: linorder
begin

definition less_eq_plan_action :: "plan_action \<Rightarrow> plan_action \<Rightarrow> bool" where
  "less_eq_plan_action a b \<longleftrightarrow> action_rank a \<le> action_rank b"

definition less_plan_action :: "plan_action \<Rightarrow> plan_action \<Rightarrow> bool" where
  "less_plan_action a b \<longleftrightarrow> action_rank a < action_rank b"

instance
  by standard (auto simp: less_eq_plan_action_def less_plan_action_def simp flip: action_rank_inject)

end

text \<open>The derived order of \<open>Feature\<close>: by variant, and \<open>Custom\<close> by its capability.\<close>

primrec feature_rank :: "feature \<Rightarrow> nat \<times> string" where
  "feature_rank feature.CpuGovernor = (0, [])"
| "feature_rank feature.CpuFrequency = (1, [])"
| "feature_rank feature.CpuEnergyPreference = (2, [])"
| "feature_rank feature.CpuBoost = (3, [])"
| "feature_rank feature.PlatformProfile = (4, [])"
| "feature_rank feature.CgroupCpu = (5, [])"
| "feature_rank feature.CpuPlacement = (6, [])"
| "feature_rank feature.GpuTuning = (7, [])"
| "feature_rank feature.IrqTuning = (8, [])"
| "feature_rank feature.SchedulerTuning = (9, [])"
| "feature_rank feature.MemoryVm = (10, [])"
| "feature_rank feature.TransparentHugePages = (11, [])"
| "feature_rank (feature.Custom c) = (12, capability_str c)"

lemma feature_rank_inject: "feature_rank a = feature_rank b \<longleftrightarrow> a = b"
  by (cases a; cases b) (auto intro: capability_id.expand)

instantiation feature :: linorder
begin

definition less_eq_feature :: "feature \<Rightarrow> feature \<Rightarrow> bool" where
  "less_eq_feature a b \<longleftrightarrow> feature_rank a \<le> feature_rank b"

definition less_feature :: "feature \<Rightarrow> feature \<Rightarrow> bool" where
  "less_feature a b \<longleftrightarrow> feature_rank a < feature_rank b"

instance
  by standard (auto simp: less_eq_feature_def less_feature_def simp flip: feature_rank_inject)

end

end
