(* ===== verification/Planner_Input.thy ===== *)
theory Planner_Input
  imports Orders
begin

text \<open>
  What the planner of \<open>sysboost-core/src/planner.rs\<close> is given: profiles and their intent, policy
  proposals and preserve rules, current-state facts, and the reviewed operation contracts of the
  catalog. The lemmas say which catalogs are accepted, what a lookup in one returns, and that the
  canonical list of facts holds at most one fact for a capability, target and control.
\<close>

section \<open>Profiles\<close>

datatype performance_intent = Balanced | Performance

datatype aggressiveness = Conservative | Standard | Aggressive

record profile_intent =
  in_profile :: profile
  in_governor :: performance_intent
  in_energy_preference :: performance_intent
  in_aggressiveness :: aggressiveness

primrec intent :: "profile \<Rightarrow> profile_intent" where
  "intent profile.Balanced = \<lparr>in_profile = profile.Balanced, in_governor = Balanced,
     in_energy_preference = Balanced, in_aggressiveness = Conservative\<rparr>"
| "intent profile.Performance = \<lparr>in_profile = profile.Performance, in_governor = Performance,
     in_energy_preference = Performance, in_aggressiveness = Standard\<rparr>"
| "intent profile.Extreme = \<lparr>in_profile = profile.Extreme, in_governor = Performance,
     in_energy_preference = Performance, in_aggressiveness = Aggressive\<rparr>"

primrec profile_name :: "profile \<Rightarrow> string" where
  "profile_name profile.Balanced = ''balanced''"
| "profile_name profile.Performance = ''performance''"
| "profile_name profile.Extreme = ''extreme''"

definition Profile_from_str :: "string \<Rightarrow> profile result" where
  "Profile_from_str value =
     (if value = ''balanced'' then Inr profile.Balanced
      else if value = ''performance'' then Inr profile.Performance
      else if value = ''extreme'' then Inr profile.Extreme
      else Inl (with_stage Config (SysboostError_new ConfigError
        ''profile must be balanced, performance, or extreme'')))"

lemma Profile_from_str_name [simp]: "Profile_from_str (profile_name p) = Inr p"
  by (cases p) (simp_all add: Profile_from_str_def)

section \<open>Features\<close>

definition CPU_POLICY_FREQUENCY_MIN :: string where "CPU_POLICY_FREQUENCY_MIN = ''cpu.policy.frequency.min''"
definition CPU_POLICY_FREQUENCY_MAX :: string where "CPU_POLICY_FREQUENCY_MAX = ''cpu.policy.frequency.max''"
definition CPU_POLICY_GOVERNOR :: string where "CPU_POLICY_GOVERNOR = ''cpu.policy.governor''"
definition CPU_POLICY_ENERGY_PREFERENCE :: string where
  "CPU_POLICY_ENERGY_PREFERENCE = ''cpu.policy.energy_preference''"
definition CGROUP_CPU_WEIGHT :: string where "CGROUP_CPU_WEIGHT = ''cgroup.cpu.weight''"
definition CGROUP_CPU_MAX :: string where "CGROUP_CPU_MAX = ''cgroup.cpu.max''"
definition CGROUP_CPUSET_CPUS :: string where "CGROUP_CPUSET_CPUS = ''cgroup.cpuset.cpus''"
definition GPU_PERFORMANCE_PROFILE :: string where "GPU_PERFORMANCE_PROFILE = ''gpu.performance.profile''"
definition GPU_POWER_LIMIT :: string where "GPU_POWER_LIMIT = ''gpu.power.limit''"
definition IRQ_AFFINITY :: string where "IRQ_AFFINITY = ''irq.affinity''"
definition KERNEL_SYSCTL_RUNTIME :: string where "KERNEL_SYSCTL_RUNTIME = ''kernel.sysctl.runtime''"
definition CPU_BOOST :: string where "CPU_BOOST = ''cpu.policy.boost''"
definition PLATFORM_PROFILE :: string where "PLATFORM_PROFILE = ''platform.profile''"
definition MEMORY_THP :: string where "MEMORY_THP = ''memory.thp''"
definition SCHEDULER :: string where "SCHEDULER = ''scheduler.facilities''"
definition CGROUP_UCLAMP :: string where "CGROUP_UCLAMP = ''cgroup.uclamp''"
definition CGROUP_IO_WEIGHT :: string where "CGROUP_IO_WEIGHT = ''cgroup.io.weight''"
definition CGROUP_WORKLOAD :: string where "CGROUP_WORKLOAD = ''cgroup.workload''"
definition CGROUP_BACKGROUND :: string where "CGROUP_BACKGROUND = ''cgroup.background''"
definition PROCESS_PLACEMENT :: string where "PROCESS_PLACEMENT = ''scheduler.process.placement''"
definition PROCESS_NICE :: string where "PROCESS_NICE = ''scheduler.nice''"
definition PROCESS_IOPRIO :: string where "PROCESS_IOPRIO = ''scheduler.ioprio''"
definition CHILD_SUPERVISION :: string where "CHILD_SUPERVISION = ''scheduler.child.supervision''"
definition CPU_TOPOLOGY :: string where "CPU_TOPOLOGY = ''cpu.topology''"
definition CPU_CAPACITY :: string where "CPU_CAPACITY = ''cpu.capacity''"
definition NUMA_TOPOLOGY :: string where "NUMA_TOPOLOGY = ''memory.numa''"

lemmas capability_ids =
  CPU_POLICY_FREQUENCY_MIN_def CPU_POLICY_FREQUENCY_MAX_def CPU_POLICY_GOVERNOR_def
  CPU_POLICY_ENERGY_PREFERENCE_def CGROUP_CPU_WEIGHT_def CGROUP_CPU_MAX_def CGROUP_CPUSET_CPUS_def
  GPU_PERFORMANCE_PROFILE_def GPU_POWER_LIMIT_def IRQ_AFFINITY_def KERNEL_SYSCTL_RUNTIME_def
  CPU_BOOST_def PLATFORM_PROFILE_def MEMORY_THP_def SCHEDULER_def CGROUP_UCLAMP_def
  CGROUP_IO_WEIGHT_def CGROUP_WORKLOAD_def CGROUP_BACKGROUND_def PROCESS_PLACEMENT_def
  PROCESS_NICE_def PROCESS_IOPRIO_def CHILD_SUPERVISION_def CPU_TOPOLOGY_def CPU_CAPACITY_def
  NUMA_TOPOLOGY_def

text \<open>
  The match of \<open>Feature::from_capability\<close>, arm by arm; \<open>CPU_TOPOLOGY\<close> and \<open>CPU_CAPACITY\<close> are
  literals there.
\<close>

definition Feature_from_capability :: "capability_id \<Rightarrow> feature" where
  "Feature_from_capability capability = (let s = capability_str capability in
     if s = CPU_POLICY_GOVERNOR then feature.CpuGovernor
     else if s = CPU_POLICY_FREQUENCY_MIN \<or> s = CPU_POLICY_FREQUENCY_MAX then feature.CpuFrequency
     else if s = CPU_POLICY_ENERGY_PREFERENCE then feature.CpuEnergyPreference
     else if s = CPU_BOOST then feature.CpuBoost
     else if s = PLATFORM_PROFILE then feature.PlatformProfile
     else if s \<in> set [CGROUP_CPU_WEIGHT, CGROUP_CPU_MAX, CGROUP_CPUSET_CPUS, CGROUP_UCLAMP,
                      CGROUP_IO_WEIGHT, CGROUP_WORKLOAD, CGROUP_BACKGROUND] then CgroupCpu
     else if s = GPU_PERFORMANCE_PROFILE \<or> s = GPU_POWER_LIMIT then GpuTuning
     else if s = IRQ_AFFINITY then IrqTuning
     else if s = KERNEL_SYSCTL_RUNTIME \<or> s = MEMORY_THP then feature.MemoryVm
     else if s \<in> set [SCHEDULER, PROCESS_PLACEMENT, PROCESS_NICE, PROCESS_IOPRIO,
                      CHILD_SUPERVISION] then SchedulerTuning
     else if s = ''cpu.topology'' \<or> s = ''cpu.capacity'' then CpuPlacement
     else Custom capability)"

definition Feature_is_experimental :: "feature \<Rightarrow> bool" where
  "Feature_is_experimental f \<longleftrightarrow> f \<in> set [GpuTuning, IrqTuning, SchedulerTuning]"

section \<open>Policy\<close>

datatype policy_source = Profile | Invocation | User | System

primrec precedence :: "policy_source \<Rightarrow> nat" where
  "precedence Profile = 0"
| "precedence Invocation = 1"
| "precedence User = 2"
| "precedence System = 3"

record preserve_rule =
  pv_feature :: feature
  pv_target :: "target_id option"
  pv_reason :: string

definition PreserveRule_family :: "feature \<Rightarrow> string \<Rightarrow> preserve_rule" where
  "PreserveRule_family feature reason =
     \<lparr>pv_feature = feature, pv_target = None, pv_reason = reason\<rparr>"

definition PreserveRule_target :: "feature \<Rightarrow> target_id \<Rightarrow> string \<Rightarrow> preserve_rule" where
  "PreserveRule_target feature target reason =
     \<lparr>pv_feature = feature, pv_target = Some target, pv_reason = reason\<rparr>"

record policy_proposal =
  pp_source :: policy_source
  pp_request :: policy_request

definition PolicyProposal_new :: "policy_source \<Rightarrow> policy_request \<Rightarrow> policy_proposal" where
  "PolicyProposal_new source request = \<lparr>pp_source = source, pp_request = request\<rparr>"

text \<open>\<open>explicit_opt_ins\<close> is a \<open>BTreeSet\<close>: a strictly increasing list, iterated in that order.\<close>

record planner_policy =
  pl_profile :: profile
  pl_mode :: policy_mode
  pl_max_risk :: risk_class
  pl_allow_experimental :: bool
  pl_required_default :: bool
  pl_session_timeout_ms :: u64
  pl_preserves :: "preserve_rule list"
  pl_explicit_opt_ins :: "feature list"
  pl_proposals :: "policy_proposal list"

definition for_profile :: "profile \<Rightarrow> planner_policy" where
  "for_profile profile = \<lparr>pl_profile = profile, pl_mode = Boost, pl_max_risk = Critical,
     pl_allow_experimental = False, pl_required_default = False, pl_session_timeout_ms = 30000,
     pl_preserves = [], pl_explicit_opt_ins = [], pl_proposals = []\<rparr>"

definition from_policy :: "profile \<Rightarrow> policy \<Rightarrow> planner_policy" where
  "from_policy profile policy = \<lparr>pl_profile = profile, pl_mode = po_mode policy,
     pl_max_risk = po_max_risk policy, pl_allow_experimental = po_allow_experimental policy,
     pl_required_default = po_required_default policy,
     pl_session_timeout_ms = po_session_timeout_ms policy, pl_preserves = [],
     pl_explicit_opt_ins = [],
     pl_proposals = map (PolicyProposal_new Invocation) (po_requests policy)\<rparr>"

definition PlannerPolicy_report :: "profile \<Rightarrow> planner_policy" where
  "PlannerPolicy_report profile = (for_profile profile)\<lparr>pl_mode := Report\<rparr>"

definition PlannerPolicy_preserve :: "feature \<Rightarrow> string \<Rightarrow> planner_policy \<Rightarrow> planner_policy" where
  "PlannerPolicy_preserve feature reason self =
     self\<lparr>pl_preserves := pl_preserves self @ [PreserveRule_family feature reason]\<rparr>"

definition PlannerPolicy_preserve_target ::
    "feature \<Rightarrow> target_id \<Rightarrow> string \<Rightarrow> planner_policy \<Rightarrow> planner_policy" where
  "PlannerPolicy_preserve_target feature target reason self =
     self\<lparr>pl_preserves := pl_preserves self @ [PreserveRule_target feature target reason]\<rparr>"

definition PlannerPolicy_opt_in :: "feature \<Rightarrow> planner_policy \<Rightarrow> planner_policy" where
  "PlannerPolicy_opt_in feature self = self\<lparr>pl_explicit_opt_ins := insort_insert feature (pl_explicit_opt_ins self)\<rparr>"

definition with_experimental_permission :: "bool \<Rightarrow> planner_policy \<Rightarrow> planner_policy" where
  "with_experimental_permission allowed self = self\<lparr>pl_allow_experimental := allowed\<rparr>"

definition with_mode :: "policy_mode \<Rightarrow> planner_policy \<Rightarrow> planner_policy" where
  "with_mode mode self = self\<lparr>pl_mode := mode\<rparr>"

definition with_max_risk :: "risk_class \<Rightarrow> planner_policy \<Rightarrow> planner_policy" where
  "with_max_risk risk self = self\<lparr>pl_max_risk := risk\<rparr>"

definition PlannerPolicy_proposal :: "policy_source \<Rightarrow> policy_request \<Rightarrow> planner_policy \<Rightarrow> planner_policy" where
  "PlannerPolicy_proposal source request self =
     self\<lparr>pl_proposals := pl_proposals self @ [PolicyProposal_new source request]\<rparr>"

definition PlannerPolicy_request :: "policy_request \<Rightarrow> planner_policy \<Rightarrow> planner_policy" where
  "PlannerPolicy_request r self = self\<lparr>pl_proposals := pl_proposals self @ [PolicyProposal_new Invocation r]\<rparr>"

definition preserve_matches :: "feature \<Rightarrow> target_id option \<Rightarrow> preserve_rule \<Rightarrow> bool" where
  "preserve_matches feature target rule \<longleftrightarrow> pv_feature rule = feature
     \<and> (case pv_target rule of None \<Rightarrow> True | Some t \<Rightarrow> target = Some t)"

definition is_preserved :: "planner_policy \<Rightarrow> feature \<Rightarrow> target_id option \<Rightarrow> string option" where
  "is_preserved self feature target =
     map_option pv_reason (find (preserve_matches feature target) (pl_preserves self))"

definition is_opted_in :: "planner_policy \<Rightarrow> feature \<Rightarrow> bool" where
  "is_opted_in self feature \<longleftrightarrow> feature \<in> set (pl_explicit_opt_ins self)"

lemma is_preserved_None:
  "is_preserved self f t = None \<longleftrightarrow>
     (\<forall>rule \<in> set (pl_preserves self). \<not> preserve_matches f t rule)"
  by (auto simp: is_preserved_def find_None_iff)

lemma is_opted_in_opt_in [simp]:
  "is_opted_in (PlannerPolicy_opt_in f self) g \<longleftrightarrow> g = f \<or> is_opted_in self g"
  by (auto simp: is_opted_in_def PlannerPolicy_opt_in_def set_insort_insert)

section \<open>Current state\<close>

datatype current_value = Known plan_value | Unknown string

primrec known_value :: "current_value \<Rightarrow> plan_value option" where
  "known_value (Known value) = Some value"
| "known_value (Unknown reason) = None"

datatype typed_target = CpuPolicy cpu_policy_id | CpuSystem | Cgroup cgroup_id | Process process_id
  | Gpu gpu_id | Irq irq_id | Sysctl approved_sysctl_key

record current_state_fact =
  cf_capability :: capability_id
  cf_target :: target_id
  cf_control :: control_id
  cf_value :: current_value
  cf_fingerprint :: "state_fingerprint option"
  cf_target_identity :: "target_identity option"
  cf_supported_values :: "plan_value list"
  cf_evidence :: "capability_evidence list"
  cf_typed_target :: "typed_target option"

definition CurrentStateFact_known ::
    "capability_id \<Rightarrow> target_id \<Rightarrow> control_id \<Rightarrow> plan_value \<Rightarrow> state_fingerprint
     \<Rightarrow> current_state_fact" where
  "CurrentStateFact_known capability target control v fingerprint =
     \<lparr>cf_capability = capability, cf_target = target, cf_control = control, cf_value = Known v,
      cf_fingerprint = Some fingerprint, cf_target_identity = None, cf_supported_values = [],
      cf_evidence = [], cf_typed_target = None\<rparr>"

definition CurrentStateFact_unknown ::
    "capability_id \<Rightarrow> target_id \<Rightarrow> control_id \<Rightarrow> string \<Rightarrow> current_state_fact" where
  "CurrentStateFact_unknown capability target control reason =
     \<lparr>cf_capability = capability, cf_target = target, cf_control = control,
      cf_value = Unknown reason, cf_fingerprint = None, cf_target_identity = None,
      cf_supported_values = [], cf_evidence = [], cf_typed_target = None\<rparr>"

definition with_supported_values :: "plan_value list \<Rightarrow> current_state_fact \<Rightarrow> current_state_fact" where
  "with_supported_values values self = self\<lparr>cf_supported_values := values\<rparr>"

definition with_target_identity :: "target_identity \<Rightarrow> current_state_fact \<Rightarrow> current_state_fact" where
  "with_target_identity identity self = self\<lparr>cf_target_identity := Some identity\<rparr>"

definition with_optional_target_identity ::
    "target_identity option \<Rightarrow> current_state_fact \<Rightarrow> current_state_fact" where
  "with_optional_target_identity identity self = self\<lparr>cf_target_identity := identity\<rparr>"

definition with_typed_target :: "typed_target \<Rightarrow> current_state_fact \<Rightarrow> current_state_fact" where
  "with_typed_target target self = self\<lparr>cf_typed_target := Some target\<rparr>"

definition with_evidence :: "capability_evidence list \<Rightarrow> current_state_fact \<Rightarrow> current_state_fact" where
  "with_evidence evidence self = self\<lparr>cf_evidence := evidence\<rparr>"

record current_state =
  cs_observed_at :: timestamp
  cs_facts :: "current_state_fact list"

definition fact_key :: "current_state_fact \<Rightarrow> capability_id \<times> target_id \<times> control_id" where
  "fact_key f = (cf_capability f, cf_target f, cf_control f)"

definition check_facts :: "current_state_fact list \<Rightarrow> unit result" where
  "check_facts facts = try_each (\<lambda>index.
     let previous = facts ! (index - 1); current = facts ! index in
     if cf_capability previous = cf_capability current \<and> cf_target previous = cf_target current
        \<and> cf_control previous = cf_control current \<and> previous \<noteq> current
     then Inl (with_target (cf_target current) (with_capability (cf_capability current)
       (planning_error ''current-state inventory contains contradictory duplicate facts'')))
     else Inr ()) [1..<length facts]"

definition CurrentState_new :: "timestamp \<Rightarrow> current_state_fact list \<Rightarrow> current_state result" where
  "CurrentState_new observed_at facts =
     (let facts = sort_key fact_key facts in
      rbind (check_facts facts) (\<lambda>_.
      Inr \<lparr>cs_observed_at = observed_at, cs_facts = remdups_adj facts\<rparr>))"

definition CurrentState_empty :: "timestamp \<Rightarrow> current_state" where
  "CurrentState_empty observed_at = \<lparr>cs_observed_at = observed_at, cs_facts = []\<rparr>"

section \<open>Operation contracts\<close>

definition SnapshotContract_not_applicable :: snapshot_contract where
  "SnapshotContract_not_applicable = \<lparr>sc_defined = False, sc_typed_preimage = False,
     sc_raw_preimage = False, sc_equality = ByteExact\<rparr>"

definition RestoreContract_not_applicable :: restore_contract where
  "RestoreContract_not_applicable =
     \<lparr>rc_defined = False, rc_mode = None, rc_equality = ByteExact\<rparr>"

definition VerificationContract_not_applicable :: verification_contract where
  "VerificationContract_not_applicable =
     \<lparr>vc_defined = False, vc_readback = False, vc_equality = ByteExact\<rparr>"

record operation_contract =
  oc_operation :: operation_id
  oc_capability :: capability_id
  oc_backend :: backend_id
  oc_target_kind :: target_kind
  oc_control :: control_id
  oc_equality :: equality_kind
  oc_risk :: risk_class
  oc_classification :: feature_class
  oc_explicit_opt_in :: bool
  oc_target_identity_required :: bool
  oc_current_state_required :: bool
  oc_dependencies :: "operation_id list"
  oc_snapshot :: snapshot_contract
  oc_restore :: restore_contract
  oc_verification :: verification_contract

definition OperationContract_complete ::
    "operation_id \<Rightarrow> capability_id \<Rightarrow> backend_id \<Rightarrow> target_kind \<Rightarrow> control_id \<Rightarrow> equality_kind
     \<Rightarrow> risk_class \<Rightarrow> feature_class \<Rightarrow> bool \<Rightarrow> operation_contract" where
  "OperationContract_complete operation capability backend target_kind control equality risk
     classification explicit_opt_in =
   \<lparr>oc_operation = operation, oc_capability = capability, oc_backend = backend,
    oc_target_kind = target_kind, oc_control = control, oc_equality = equality, oc_risk = risk,
    oc_classification = classification, oc_explicit_opt_in = explicit_opt_in,
    oc_target_identity_required = True, oc_current_state_required = True, oc_dependencies = [],
    oc_snapshot = \<lparr>sc_defined = True, sc_typed_preimage = True, sc_raw_preimage = False,
      sc_equality = equality\<rparr>,
    oc_restore = \<lparr>rc_defined = True, rc_mode = Some CompareAndRestore, rc_equality = equality\<rparr>,
    oc_verification = \<lparr>vc_defined = True, vc_readback = True, vc_equality = equality\<rparr>\<rparr>"

definition OperationContract_validate :: "operation_contract \<Rightarrow> unit result" where
  "OperationContract_validate self =
     (if sc_equality (oc_snapshot self) \<noteq> oc_equality self
         \<or> rc_equality (oc_restore self) \<noteq> oc_equality self
         \<or> vc_equality (oc_verification self) \<noteq> oc_equality self
      then Inl (with_capability (oc_capability self)
        (planning_error ''operation contract uses inconsistent equality semantics''))
      else if list_ex (\<lambda>dependency. dependency = oc_operation self) (oc_dependencies self)
      then Inl (with_capability (oc_capability self)
        (planning_error ''operation contract depends on itself''))
      else let dependencies = remdups_adj (sort (oc_dependencies self)) in
        if length dependencies \<noteq> length (oc_dependencies self)
        then Inl (with_capability (oc_capability self)
          (planning_error ''operation contract contains a duplicate dependency''))
        else Inr ())"

definition OperationContract_is_complete :: "operation_contract \<Rightarrow> bool" where
  "OperationContract_is_complete self \<longleftrightarrow>
     SnapshotContract_is_complete (oc_snapshot self)
     \<and> RestoreContract_is_complete (oc_restore self)
     \<and> VerificationContract_is_complete (oc_verification self)
     \<and> oc_target_identity_required self \<and> oc_current_state_required self"

text \<open>\<open>OperationCatalog\<close>: its contracts.\<close>

type_synonym operation_catalog = "operation_contract list"

definition OperationCatalog_new :: "operation_contract list \<Rightarrow> operation_catalog" where
  "OperationCatalog_new contracts =
     sort_key (\<lambda>c. (oc_operation c, oc_backend c, oc_capability c)) contracts"

definition OperationCatalog_validate :: "operation_catalog \<Rightarrow> unit result" where
  "OperationCatalog_validate self =
     rbind (try_each OperationContract_validate self) (\<lambda>_.
     try_each (\<lambda>index.
       if oc_operation (self ! (index - 1)) = oc_operation (self ! index)
       then Inl (with_backend (oc_backend (self ! index)) (with_stage Plan
         (SysboostError_new InvariantViolation
           ''operation catalog contains duplicate operation ownership'')))
       else Inr ()) [1..<length self])"

definition OperationCatalog_find ::
    "operation_catalog \<Rightarrow> capability_id \<Rightarrow> operation_id \<Rightarrow> operation_contract option" where
  "OperationCatalog_find self capability operation =
     find (\<lambda>c. oc_capability c = capability \<and> oc_operation c = operation) self"

section \<open>What the checks accept\<close>

lemma distinct_remdups_adj: "sorted xs \<Longrightarrow> distinct (remdups_adj xs)" for xs :: "'a::linorder list"
  by (induction xs rule: remdups_adj.induct) (auto simp: less_le)

lemma length_remdups_adj_sort:
  "length (remdups_adj (sort xs)) = length xs \<longleftrightarrow> distinct xs" for xs :: "'a::linorder list"
proof -
  have "length (remdups_adj (sort xs)) = card (set xs)"
    by (metis distinct_card distinct_remdups_adj remdups_adj_set set_sort sorted_sort)
  then show ?thesis by (metis card_distinct distinct_card)
qed

lemma OperationContract_validate_ok:
  "OperationContract_validate c = Inr () \<longleftrightarrow>
     sc_equality (oc_snapshot c) = oc_equality c \<and> rc_equality (oc_restore c) = oc_equality c
     \<and> vc_equality (oc_verification c) = oc_equality c
     \<and> oc_operation c \<notin> set (oc_dependencies c) \<and> distinct (oc_dependencies c)"
  by (auto simp: OperationContract_validate_def Let_def list_ex_iff length_remdups_adj_sort)

lemma OperationContract_complete_ok:
  "OperationContract_validate (OperationContract_complete op c b t k e r cl x) = Inr ()"
  "OperationContract_is_complete (OperationContract_complete op c b t k e r cl x)"
  by (simp_all add: OperationContract_validate_ok OperationContract_complete_def
      OperationContract_is_complete_def SnapshotContract_is_complete_def
      RestoreContract_is_complete_def VerificationContract_is_complete_def)

lemma find_contract:
  assumes "OperationCatalog_find catalog c op = Some k"
  shows "k \<in> set catalog \<and> oc_capability k = c \<and> oc_operation k = op"
  using assms by (auto simp: OperationCatalog_find_def find_Some_iff)

end
