(* ===== verification/Planner_Specs.thy ===== *)
theory Planner_Specs
  imports Planner_Input
begin

text \<open>
  The reviewed feature table of \<open>planner.rs\<close> and the tables around it: which control and target kind
  an operation has, which capability an explicit request must name, what a profile wants of a
  feature, and the closed operation built for a discovered target.
\<close>

section \<open>Operations\<close>

text \<open>\<open>MutationKind::operation_id\<close> behind its \<open>expect\<close>, which the static names always satisfy.\<close>

definition operation_of :: "mutation_kind \<Rightarrow> operation_id" where
  "operation_of kind = the (operation_id kind)"

lemma operation_of [simp]: "operation_of kind = OperationId (operation_name kind)"
  by (simp add: operation_of_def operation_id_Some)

primrec control_name :: "control_id \<Rightarrow> string" where
  "control_name control_id.CpuGovernor = ''CPU governor''"
| "control_name control_id.CpuEnergyPreference = ''CPU EPP''"
| "control_name control_id.CpuFrequency = ''CPU frequency''"
| "control_name control_id.CpuBoost = ''CPU boost/turbo''"
| "control_name control_id.PlatformProfile = ''platform profile''"
| "control_name control_id.CgroupCpuWeight = ''cgroup CPU weight''"
| "control_name control_id.CgroupCpuMax = ''cgroup CPU quota''"
| "control_name control_id.CgroupCpuset = ''cgroup CPU placement''"
| "control_name control_id.CgroupIoWeight = ''cgroup I/O weight''"
| "control_name control_id.CgroupWorkload = ''workload cgroup''"
| "control_name control_id.CgroupBackground = ''conservative background cgroup''"
| "control_name control_id.GpuPerformanceProfile = ''GPU performance profile''"
| "control_name control_id.GpuPowerLimit = ''GPU power limit''"
| "control_name control_id.IrqAffinity = ''IRQ affinity''"
| "control_name control_id.SchedulerWorkload = ''scheduler/workload policy''"
| "control_name control_id.ProcessPlacement = ''process cgroup placement''"
| "control_name control_id.ProcessNice = ''process nice''"
| "control_name control_id.ProcessIoPriority = ''process I/O priority''"
| "control_name control_id.CgroupUclamp = ''cgroup uclamp''"
| "control_name control_id.CgroupUclampMin = ''cgroup uclamp minimum''"
| "control_name control_id.CgroupUclampMax = ''cgroup uclamp maximum''"
| "control_name control_id.TransparentHugePages = ''THP''"
| "control_name control_id.MemoryVm = ''memory/VM policy''"
| "control_name control_id.ReportOnly = ''report-only control''"

fun operation_shape :: "mutation_kind \<Rightarrow> control_id \<times> target_kind" where
  "operation_shape (mutation_kind.CpuFrequency _ _ _) = (control_id.CpuFrequency, target_kind.CpuPolicy)"
| "operation_shape (mutation_kind.CpuGovernor _ _) = (control_id.CpuGovernor, target_kind.CpuPolicy)"
| "operation_shape (mutation_kind.CpuEnergyPreference _ _) = (control_id.CpuEnergyPreference, target_kind.CpuPolicy)"
| "operation_shape (mutation_kind.CpuBoost _) = (control_id.CpuBoost, target_kind.CpuSystem)"
| "operation_shape (mutation_kind.PlatformProfile _) = (control_id.PlatformProfile, target_kind.CpuSystem)"
| "operation_shape (mutation_kind.CgroupCpuWeight _ _) = (control_id.CgroupCpuWeight, target_kind.Cgroup)"
| "operation_shape (mutation_kind.CgroupCpuMax _ _ _) = (control_id.CgroupCpuMax, target_kind.Cgroup)"
| "operation_shape (mutation_kind.CgroupCpuset _ _) = (control_id.CgroupCpuset, target_kind.Cgroup)"
| "operation_shape (mutation_kind.CgroupIoWeight _ _) = (control_id.CgroupIoWeight, target_kind.Cgroup)"
| "operation_shape (mutation_kind.CgroupUclampMin _ _) = (control_id.CgroupUclampMin, target_kind.Cgroup)"
| "operation_shape (mutation_kind.CgroupUclampMax _ _) = (control_id.CgroupUclampMax, target_kind.Cgroup)"
| "operation_shape (mutation_kind.CgroupWorkload _ _) = (control_id.CgroupWorkload, target_kind.Cgroup)"
| "operation_shape (mutation_kind.CgroupBackground _ _) = (control_id.CgroupBackground, target_kind.Cgroup)"
| "operation_shape (mutation_kind.ProcessPlacement _ _) = (control_id.ProcessPlacement, target_kind.Process)"
| "operation_shape (mutation_kind.ProcessNice _ _) = (control_id.ProcessNice, target_kind.Process)"
| "operation_shape (mutation_kind.ProcessIoPriority _ _) = (control_id.ProcessIoPriority, target_kind.Process)"
| "operation_shape (mutation_kind.GpuPerformanceProfile _ _) = (control_id.GpuPerformanceProfile, target_kind.Gpu)"
| "operation_shape (mutation_kind.GpuPowerLimit _ _) = (control_id.GpuPowerLimit, target_kind.Gpu)"
| "operation_shape (mutation_kind.IrqAffinity _ _) = (control_id.IrqAffinity, target_kind.Irq)"
| "operation_shape (mutation_kind.RuntimeSysctl _ _) = (control_id.MemoryVm, target_kind.Sysctl)"

fun expected_capability :: "mutation_kind \<Rightarrow> string" where
  "expected_capability (mutation_kind.CpuFrequency _ _ _) = CPU_POLICY_FREQUENCY_MAX"
| "expected_capability (mutation_kind.CpuGovernor _ _) = CPU_POLICY_GOVERNOR"
| "expected_capability (mutation_kind.CpuEnergyPreference _ _) = CPU_POLICY_ENERGY_PREFERENCE"
| "expected_capability (mutation_kind.CpuBoost _) = CPU_BOOST"
| "expected_capability (mutation_kind.PlatformProfile _) = PLATFORM_PROFILE"
| "expected_capability (mutation_kind.CgroupCpuWeight _ _) = CGROUP_CPU_WEIGHT"
| "expected_capability (mutation_kind.CgroupCpuMax _ _ _) = CGROUP_CPU_MAX"
| "expected_capability (mutation_kind.CgroupCpuset _ _) = CGROUP_CPUSET_CPUS"
| "expected_capability (mutation_kind.CgroupIoWeight _ _) = CGROUP_IO_WEIGHT"
| "expected_capability (mutation_kind.CgroupUclampMin _ _) = CGROUP_UCLAMP"
| "expected_capability (mutation_kind.CgroupUclampMax _ _) = CGROUP_UCLAMP"
| "expected_capability (mutation_kind.CgroupWorkload _ _) = CGROUP_WORKLOAD"
| "expected_capability (mutation_kind.CgroupBackground _ _) = CGROUP_BACKGROUND"
| "expected_capability (mutation_kind.ProcessPlacement _ _) = PROCESS_PLACEMENT"
| "expected_capability (mutation_kind.ProcessNice _ _) = PROCESS_NICE"
| "expected_capability (mutation_kind.ProcessIoPriority _ _) = PROCESS_IOPRIO"
| "expected_capability (mutation_kind.GpuPerformanceProfile _ _) = GPU_PERFORMANCE_PROFILE"
| "expected_capability (mutation_kind.GpuPowerLimit _ _) = GPU_POWER_LIMIT"
| "expected_capability (mutation_kind.IrqAffinity _ _) = IRQ_AFFINITY"
| "expected_capability (mutation_kind.RuntimeSysctl _ _) = KERNEL_SYSCTL_RUNTIME"

definition validate_request :: "policy_request \<Rightarrow> unit result" where
  "validate_request request =
     (let control = fst (operation_shape (pr_operation request));
          expected = expected_capability (pr_operation request)
      in if capability_str (pr_capability request) \<noteq> expected
         then Inl (with_target (pr_target request) (with_capability (pr_capability request)
           (planning_error (''explicit request capability does not match its '' @ control_name control
              @ '' operation''))))
         else Inr ())"

lemma validate_request_ok:
  "validate_request r = Inr ()
     \<longleftrightarrow> pr_capability r = CapabilityId (expected_capability (pr_operation r))"
  by (cases "pr_capability r") (simp add: validate_request_def Let_def)

section \<open>The feature table\<close>

datatype profile_target = GovernorTarget | EnergyPreferenceTarget | PlatformPerformance
  | GpuPerformance | NoTarget

record feature_spec =
  fs_feature :: feature
  fs_capability :: capability_id
  fs_operation :: operation_id
  fs_control :: control_id
  fs_risk :: risk_class
  fs_classification :: feature_class
  fs_explicit_opt_in :: bool
  fs_extreme_candidate :: bool
  fs_profile_target :: profile_target

text \<open>
  One row of the table. \<open>capability_id\<close> and \<open>operation_id\<close> in the source validate a static name and
  \<open>expect\<close> it to be valid; the lemma \<open>feature_specs_static\<close> discharges that for every row.
\<close>

definition FeatureSpec_row ::
    "feature \<Rightarrow> string \<Rightarrow> string \<Rightarrow> control_id \<Rightarrow> risk_class \<Rightarrow> feature_class \<Rightarrow> bool \<Rightarrow> bool
     \<Rightarrow> profile_target \<Rightarrow> feature_spec" where
  "FeatureSpec_row feature capability operation control risk classification explicit extreme target =
   \<lparr>fs_feature = feature, fs_capability = CapabilityId capability,
    fs_operation = OperationId operation, fs_control = control, fs_risk = risk,
    fs_classification = classification, fs_explicit_opt_in = explicit,
    fs_extreme_candidate = extreme, fs_profile_target = target\<rparr>"

definition feature_specs :: "feature_spec list" where
  "feature_specs = [
    FeatureSpec_row feature.CpuGovernor CPU_POLICY_GOVERNOR ''cpu.governor'' control_id.CpuGovernor Low feature_class.RuntimeMutable
      False False GovernorTarget,
    FeatureSpec_row feature.CpuEnergyPreference CPU_POLICY_ENERGY_PREFERENCE ''cpu.energy_preference'' control_id.CpuEnergyPreference Low feature_class.RuntimeMutable
      False False EnergyPreferenceTarget,
    FeatureSpec_row feature.CpuFrequency CPU_POLICY_FREQUENCY_MAX ''cpu.frequency'' control_id.CpuFrequency Medium feature_class.RuntimeMutable
      False False NoTarget,
    FeatureSpec_row feature.CpuPlacement CPU_TOPOLOGY ''report.cpu.topology'' control_id.ReportOnly Low feature_class.BootOnlyReportOnly
      False False NoTarget,
    FeatureSpec_row feature.CpuBoost CPU_BOOST ''cpu.boost'' control_id.CpuBoost Medium feature_class.RuntimeMutable
      False False NoTarget,
    FeatureSpec_row feature.PlatformProfile PLATFORM_PROFILE ''platform.profile'' control_id.PlatformProfile Medium feature_class.Conditional
      False False PlatformPerformance,
    FeatureSpec_row feature.CgroupCpu CGROUP_CPU_WEIGHT ''cgroup.cpu.weight'' control_id.CgroupCpuWeight Medium feature_class.RuntimeMutable
      False False NoTarget,
    FeatureSpec_row feature.CgroupCpu CGROUP_CPU_MAX ''cgroup.cpu.max'' control_id.CgroupCpuMax Medium feature_class.RuntimeMutable
      False False NoTarget,
    FeatureSpec_row feature.CgroupCpu CGROUP_CPUSET_CPUS ''cgroup.cpuset.cpus'' control_id.CgroupCpuset Medium feature_class.Conditional
      False False NoTarget,
    FeatureSpec_row feature.GpuTuning GPU_PERFORMANCE_PROFILE ''gpu.performance.profile'' control_id.GpuPerformanceProfile Critical feature_class.Experimental
      True True GpuPerformance,
    FeatureSpec_row feature.GpuTuning GPU_POWER_LIMIT ''gpu.power.limit'' control_id.GpuPowerLimit Critical feature_class.Experimental
      True True NoTarget,
    FeatureSpec_row feature.IrqTuning IRQ_AFFINITY ''irq.affinity'' control_id.IrqAffinity Critical feature_class.Experimental
      True True NoTarget,
    FeatureSpec_row feature.SchedulerTuning SCHEDULER ''report.scheduler.workload'' control_id.SchedulerWorkload Critical feature_class.Experimental
      True True NoTarget,
    FeatureSpec_row feature.CgroupCpu CGROUP_UCLAMP ''report.cgroup.uclamp'' control_id.CgroupUclamp Medium feature_class.Conditional
      False False NoTarget,
    FeatureSpec_row feature.TransparentHugePages MEMORY_THP ''report.memory.thp'' control_id.TransparentHugePages Medium feature_class.Conditional
      False False NoTarget,
    FeatureSpec_row feature.MemoryVm KERNEL_SYSCTL_RUNTIME ''kernel.sysctl.runtime'' control_id.MemoryVm High feature_class.Conditional
      False False NoTarget]"

lemma feature_specs_static:
  "list_all (\<lambda>s. CapabilityId_new (capability_str (fs_capability s)) = Inr (fs_capability s)
     \<and> OperationId_new (operation_str (fs_operation s)) = Inr (fs_operation s)) feature_specs"
  by (simp add: feature_specs_def FeatureSpec_row_def capability_ids valid_id_text_def id_char_def is_ascii_alphanumeric_def is_ascii_digit_def)

section \<open>What a profile wants\<close>

definition admits :: "current_state_fact \<Rightarrow> plan_value \<Rightarrow> bool" where
  "admits seen v \<longleftrightarrow> cf_supported_values seen = [] \<or> v \<in> set (cf_supported_values seen)"

definition choose_governor :: "current_state_fact option \<Rightarrow> string list \<Rightarrow> plan_value option" where
  "choose_governor seen candidates =
     (case seen of None \<Rightarrow> None
      | Some f \<Rightarrow> find (admits f) (map (\<lambda>c. Typed (Governor (GovernorId c))) candidates))"

definition choose_energy_preference ::
    "current_state_fact option \<Rightarrow> energy_preference list \<Rightarrow> plan_value option" where
  "choose_energy_preference seen candidates =
     (case seen of None \<Rightarrow> None
      | Some f \<Rightarrow> find (admits f) (map (\<lambda>c. Typed (EnergyPreference c)) candidates))"

definition choose_platform_profile :: "current_state_fact option \<Rightarrow> string \<Rightarrow> plan_value option" where
  "choose_platform_profile seen desired =
     (let v = Typed (typed_value.PlatformProfile (PlatformProfileId desired)) in
      if (case seen of None \<Rightarrow> False | Some f \<Rightarrow> admits f v) then Some v else None)"

definition chosen ::
    "plan_value option \<Rightarrow> current_state_fact option \<Rightarrow> string \<Rightarrow> plan_value option \<times> string option" where
  "chosen choice seen reason =
     (case choice of Some v \<Rightarrow> (Some v, None)
      | None \<Rightarrow> (None, if seen \<noteq> None then Some reason else None))"

definition profile_desired ::
    "profile \<Rightarrow> feature_spec \<Rightarrow> current_state_fact option \<Rightarrow> plan_value option \<times> string option" where
  "profile_desired profile spec seen =
     (case fs_profile_target spec of
        GovernorTarget \<Rightarrow>
          chosen (choose_governor seen
              (case in_governor (intent profile) of
                 performance_intent.Balanced \<Rightarrow> [''schedutil'', ''ondemand'']
               | performance_intent.Performance \<Rightarrow> [''performance'']))
            seen ''profile target is not among the values advertised by the interface''
      | EnergyPreferenceTarget \<Rightarrow>
          chosen (choose_energy_preference seen
              (case in_energy_preference (intent profile) of
                 performance_intent.Balanced \<Rightarrow> [BalancePerformance, BalancePower]
               | performance_intent.Performance \<Rightarrow> [energy_preference.Performance]))
            seen ''profile EPP target is not among the values advertised by the interface''
      | PlatformPerformance \<Rightarrow>
          (if profile \<noteq> profile.Balanced
           then chosen (choose_platform_profile seen ''performance'') seen
             ''platform performance profile is not advertised by the interface''
           else (None, None))
      | GpuPerformance \<Rightarrow>
          (if profile = Extreme
           then (Some (Typed (typed_value.GpuPerformanceProfile gpu_profile.Performance)), None)
           else (None, None))
      | NoTarget \<Rightarrow> (None, None))"

text \<open>\<open>default_kind\<close>: the closed operation for a control, a discovered target and a value.\<close>

definition closed_kind :: "control_id \<Rightarrow> typed_target \<Rightarrow> typed_value \<Rightarrow> mutation_kind option" where
  "closed_kind control target desired =
     (case target of
        typed_target.CpuPolicy policy \<Rightarrow>
          (case desired of
             Governor governor \<Rightarrow>
               (if control = control_id.CpuGovernor
                then Some (mutation_kind.CpuGovernor policy governor) else None)
           | EnergyPreference v \<Rightarrow>
               (if control = control_id.CpuEnergyPreference
                then Some (mutation_kind.CpuEnergyPreference policy v) else None)
           | _ \<Rightarrow> None)
      | typed_target.CpuSystem \<Rightarrow>
          (case desired of
             typed_value.CpuBoost state \<Rightarrow>
               (if control = control_id.CpuBoost then Some (mutation_kind.CpuBoost state) else None)
           | typed_value.PlatformProfile profile \<Rightarrow>
               (if control = control_id.PlatformProfile
                then Some (mutation_kind.PlatformProfile profile) else None)
           | _ \<Rightarrow> None)
      | typed_target.Cgroup cgroup \<Rightarrow>
          (case desired of
             typed_value.CgroupCpuWeight weight \<Rightarrow>
               (if control = control_id.CgroupCpuWeight
                then Some (mutation_kind.CgroupCpuWeight cgroup weight) else None)
           | typed_value.CgroupCpuMax quota period \<Rightarrow>
               (if control = control_id.CgroupCpuMax
                then Some (mutation_kind.CgroupCpuMax cgroup quota period) else None)
           | typed_value.CgroupCpuset cpus \<Rightarrow>
               (if control = control_id.CgroupCpuset
                then Some (mutation_kind.CgroupCpuset cgroup cpus) else None)
           | typed_value.CgroupUclamp v \<Rightarrow>
               (if control = control_id.CgroupUclamp \<or> control = control_id.CgroupUclampMin
                then Some (mutation_kind.CgroupUclampMin cgroup v)
                else if control = control_id.CgroupUclampMax
                then Some (mutation_kind.CgroupUclampMax cgroup v) else None)
           | typed_value.CgroupIoWeight weight \<Rightarrow>
               (if control = control_id.CgroupIoWeight
                then Some (mutation_kind.CgroupIoWeight cgroup weight) else None)
           | typed_value.CgroupLifecycle kind name present \<Rightarrow>
               (if control = control_id.CgroupWorkload \<and> kind = Workload \<and> present
                then Some (mutation_kind.CgroupWorkload cgroup name)
                else if control = control_id.CgroupBackground \<and> kind = ConservativeBackground
                  \<and> present
                then Some (mutation_kind.CgroupBackground cgroup name) else None)
           | _ \<Rightarrow> None)
      | typed_target.Process process \<Rightarrow>
          (case desired of
             typed_value.Nice nice \<Rightarrow>
               (if control = control_id.SchedulerWorkload \<or> control = control_id.ProcessNice
                then Some (mutation_kind.ProcessNice process nice) else None)
           | typed_value.IoPriorityValue priority \<Rightarrow>
               (if control = control_id.SchedulerWorkload \<or> control = control_id.ProcessIoPriority
                then Some (mutation_kind.ProcessIoPriority process priority) else None)
           | typed_value.ProcessPlacement cgroup \<Rightarrow>
               (if control = control_id.SchedulerWorkload \<or> control = control_id.ProcessPlacement
                then Some (mutation_kind.ProcessPlacement process cgroup) else None)
           | _ \<Rightarrow> None)
      | typed_target.Gpu device \<Rightarrow>
          (case desired of
             typed_value.GpuPerformanceProfile profile \<Rightarrow>
               (if control = control_id.GpuPerformanceProfile
                then Some (mutation_kind.GpuPerformanceProfile device profile) else None)
           | _ \<Rightarrow> None)
      | _ \<Rightarrow> None)"

lemma closed_kind_value: "closed_kind c t v = Some k \<Longrightarrow> kind_value k = v"
  by (auto simp: closed_kind_def split: typed_target.splits typed_value.splits if_splits)

definition default_kind ::
    "control_id \<Rightarrow> current_state_fact \<Rightarrow> typed_value \<Rightarrow> mutation_kind option" where
  "default_kind control seen desired =
     (case cf_typed_target seen of None \<Rightarrow> None | Some target \<Rightarrow> closed_kind control target desired)"

end
