(* ===== verification/Planner_Candidates.thy ===== *)
theory Planner_Candidates
  imports Planner_Specs Ordered_Maps
begin

text \<open>
  The candidates of \<open>planner.rs\<close> and how they become plan items: the selection of a capability
  descriptor, the keyed collection of candidates, the resolution of operation dependencies on the
  same target, the topological order with its ready set, and the numbering of mutations.
\<close>

text \<open>A loop whose body threads a state and may return early with an error.\<close>

fun try_fold :: "('a \<Rightarrow> 's \<Rightarrow> 'e + 's) \<Rightarrow> 'a list \<Rightarrow> 's \<Rightarrow> 'e + 's" where
  "try_fold f [] s = Inr s"
| "try_fold f (x # xs) s = rbind (f x s) (try_fold f xs)"

section \<open>Descriptors and evidence\<close>

primrec descriptor_rank :: "capability_state \<Rightarrow> nat" where
  "descriptor_rank capability_state.Available = 0"
| "descriptor_rank capability_state.ReadOnly = 1"
| "descriptor_rank capability_state.Denied = 2"
| "descriptor_rank capability_state.Indeterminate = 3"
| "descriptor_rank capability_state.Unsupported = 4"

type_synonym descriptor_index = "capability_descriptor list"

definition DescriptorIndex_new :: "capability_inventory \<Rightarrow> descriptor_index" where
  "DescriptorIndex_new inventory =
     sort_key (\<lambda>d. (cd_id d, descriptor_rank (cd_state d), cd_backend d)) (ci_capabilities inventory)"

text \<open>\<open>Iterator::min_by\<close>: the first of the least elements.\<close>

fun min_by :: "('a \<Rightarrow> 'b::linorder) \<Rightarrow> 'a list \<Rightarrow> 'a option" where
  "min_by k [] = None"
| "min_by k (x # xs) = Some (fold (\<lambda>y least. if k y < k least then y else least) xs x)"

definition DescriptorIndex_select ::
    "descriptor_index \<Rightarrow> capability_id \<Rightarrow> capability_descriptor option" where
  "DescriptorIndex_select self capability =
     min_by (\<lambda>d. (descriptor_rank (cd_state d), cd_backend d))
       (filter (\<lambda>d. cd_id d = capability) self)"

text \<open>The \<open>Debug\<close> form of an evidence source: the name of its variant.\<close>

primrec evidence_name :: "evidence_source \<Rightarrow> string" where
  "evidence_name evidence_source.Sysfs = ''Sysfs''"
| "evidence_name evidence_source.Procfs = ''Procfs''"
| "evidence_name evidence_source.CgroupV1 = ''CgroupV1''"
| "evidence_name evidence_source.CgroupV2 = ''CgroupV2''"
| "evidence_name evidence_source.Device = ''Device''"
| "evidence_name evidence_source.Permission = ''Permission''"
| "evidence_name evidence_source.Synthetic = ''Synthetic''"

definition canonicalize_evidence :: "capability_evidence list \<Rightarrow> capability_evidence list" where
  "canonicalize_evidence evidence =
     remdups_adj (sort_key (\<lambda>e. (evidence_name (ev_source e), ev_detail e)) evidence)"

lemma set_canonicalize_evidence [simp]: "set (canonicalize_evidence es) = set es"
  by (simp add: canonicalize_evidence_def)

lemma canonicalize_evidence_Nil [simp]: "canonicalize_evidence es = [] \<longleftrightarrow> es = []"
  by (metis set_canonicalize_evidence set_empty)

section \<open>Candidates\<close>

type_synonym candidate_key = "capability_id \<times> target_id option \<times> operation_id \<times> u16"

definition CandidateKey_new :: "capability_id \<Rightarrow> target_id \<Rightarrow> operation_id \<Rightarrow> u16 \<Rightarrow> candidate_key" where
  "CandidateKey_new capability target operation order = (capability, Some target, operation, order)"

definition CandidateKey_aggregate :: "capability_id \<Rightarrow> operation_id \<Rightarrow> u16 \<Rightarrow> candidate_key" where
  "CandidateKey_aggregate capability operation order = (capability, None, operation, order)"

record mutation_draft =
  md_capability :: capability_id
  md_target :: target_id
  md_kind :: mutation_kind
  md_desired :: typed_value
  md_precondition :: state_fingerprint
  md_equality :: equality_kind
  md_target_identity :: target_identity
  md_dependencies :: "operation_id list"

record candidate =
  ca_key :: candidate_key
  ca_item :: plan_item
  ca_mutation :: "mutation_draft option"
  ca_dependencies :: "operation_id list"

definition Candidate_non_mutating ::
    "u16 \<Rightarrow> capability_id \<Rightarrow> operation_id \<Rightarrow> backend_id option \<Rightarrow> target_id option \<Rightarrow> control_id
     \<Rightarrow> plan_value option \<Rightarrow> plan_value option \<Rightarrow> plan_action \<Rightarrow> feature \<Rightarrow> feature_class
     \<Rightarrow> risk_class \<Rightarrow> bool \<Rightarrow> experimental_status \<Rightarrow> capability_evidence list \<Rightarrow> string
     \<Rightarrow> string option \<Rightarrow> target_identity option \<Rightarrow> candidate" where
  "Candidate_non_mutating order capability operation backend target control current desired action
     feature feature_class risk explicit_opt_in_required experimental evidence rationale reason
     target_identity =
   \<lparr>ca_key = (case target of
        Some t \<Rightarrow> CandidateKey_new capability t operation order
      | None \<Rightarrow> CandidateKey_aggregate capability operation order),
    ca_item = \<lparr>pi_capability = capability, pi_operation = operation, pi_backend = backend,
      pi_target = target, pi_control = control, pi_current = current, pi_desired = desired,
      pi_action = action, pi_feature = feature, pi_feature_class = feature_class, pi_risk = risk,
      pi_explicit_opt_in_required = explicit_opt_in_required, pi_experimental = experimental,
      pi_evidence = evidence, pi_rationale = rationale, pi_reason = reason,
      pi_target_identity = target_identity, pi_snapshot = SnapshotContract_not_applicable,
      pi_restore = RestoreContract_not_applicable,
      pi_verification = VerificationContract_not_applicable, pi_dependencies = [],
      pi_mutation = None\<rparr>,
    ca_mutation = None, ca_dependencies = []\<rparr>"

definition Candidate_mutation ::
    "u16 \<Rightarrow> capability_id \<Rightarrow> operation_id \<Rightarrow> operation_contract \<Rightarrow> target_id \<Rightarrow> control_id
     \<Rightarrow> plan_value option \<Rightarrow> plan_value option \<Rightarrow> feature \<Rightarrow> capability_evidence list
     \<Rightarrow> mutation_draft \<Rightarrow> candidate" where
  "Candidate_mutation order capability operation contract target control current desired feature
     evidence mutation =
   \<lparr>ca_key = CandidateKey_new capability target operation order,
    ca_item = \<lparr>pi_capability = capability, pi_operation = operation,
      pi_backend = Some (oc_backend contract), pi_target = Some target, pi_control = control,
      pi_current = current, pi_desired = desired, pi_action = Mutation, pi_feature = feature,
      pi_feature_class = oc_classification contract, pi_risk = oc_risk contract,
      pi_explicit_opt_in_required = oc_explicit_opt_in contract,
      pi_experimental = (if oc_classification contract = Experimental then experimental_status.Enabled
        else NotExperimental),
      pi_evidence = evidence,
      pi_rationale = ''typed operation is supported, policy-admitted, and reversible by contract'',
      pi_reason = None, pi_target_identity = Some (md_target_identity mutation),
      pi_snapshot = oc_snapshot contract, pi_restore = oc_restore contract,
      pi_verification = oc_verification contract, pi_dependencies = [], pi_mutation = None\<rparr>,
    ca_mutation = Some mutation, ca_dependencies = md_dependencies mutation\<rparr>"

definition insert_candidate ::
    "candidate \<Rightarrow> (candidate_key \<times> candidate) list \<Rightarrow> (candidate_key \<times> candidate) list result" where
  "insert_candidate candidate candidates =
     (case map_of candidates (ca_key candidate) of
        Some existing \<Rightarrow>
          (if pi_action (ca_item existing) = Mutation \<and> pi_action (ca_item candidate) = Mutation
              \<and> pi_desired (ca_item existing) \<noteq> pi_desired (ca_item candidate)
           then Inl (with_target (the (pi_target (ca_item candidate)))
             (with_capability (pi_capability (ca_item candidate)) (planning_error
               ''duplicate target/control proposals have incompatible desired values'')))
           else if ca_item existing \<noteq> ca_item candidate
           then Inl (with_capability (pi_capability (ca_item candidate)) (planning_error
               ''duplicate plan keys carry contradictory decisions''))
           else Inr candidates)
      | None \<Rightarrow> Inr (bt_insert (ca_key candidate) candidate candidates))"

section \<open>Dependencies\<close>

text \<open>
  The dependencies of one candidate, as indices into the candidate list: for each operation, the
  first candidate with that operation on the same target. One that is already satisfied or
  deliberately preserved adds no edge.
\<close>

fun resolve_dependencies ::
    "candidate list \<Rightarrow> nat \<Rightarrow> target_id \<Rightarrow> operation_id list \<Rightarrow> nat list result" where
  "resolve_dependencies candidates index target [] = Inr []"
| "resolve_dependencies candidates index target (dependency # rest) =
     (let capability = pi_capability (ca_item (candidates ! index)) in
      case position (\<lambda>c. pi_target (ca_item c) = Some target
                          \<and> pi_operation (ca_item c) = dependency) candidates of
        None \<Rightarrow> Inl (with_target target (with_capability capability (planning_error
          ''planned operation depends on a missing executable operation'')))
      | Some matching \<Rightarrow>
          (let action = pi_action (ca_item (candidates ! matching)) in
           if \<not> is_executable action then
             (if action = NoOp \<or> action = Preserved
              then resolve_dependencies candidates index target rest
              else Inl (with_target target (with_capability capability (planning_error
                ''planned operation depends on an operation that was not admitted''))))
           else if matching = index
           then Inl (planning_error ''planned operation depends on itself'')
           else rbind (resolve_dependencies candidates index target rest)
                  (\<lambda>others. Inr (matching # others))))"

definition candidate_dependencies :: "candidate list \<Rightarrow> nat \<Rightarrow> nat list result" where
  "candidate_dependencies candidates index =
     (case pi_target (ca_item (candidates ! index)) of
        None \<Rightarrow> Inr []
      | Some target \<Rightarrow>
          resolve_dependencies candidates index target (ca_dependencies (candidates ! index)))"

fun collect_dependencies ::
    "candidate list \<Rightarrow> nat list \<Rightarrow> (nat \<times> nat list) list \<Rightarrow> (nat \<times> nat list) list result" where
  "collect_dependencies candidates [] dependencies = Inr dependencies"
| "collect_dependencies candidates (index # rest) dependencies =
     rbind (candidate_dependencies candidates index) (\<lambda>required.
     collect_dependencies candidates rest
       (if required = [] then dependencies else bt_insert index required dependencies))"

definition required_of :: "(nat \<times> nat list) list \<Rightarrow> nat \<Rightarrow> nat list" where
  "required_of dependencies index =
     (case map_of dependencies index of None \<Rightarrow> [] | Some required \<Rightarrow> required)"

section \<open>The topological order\<close>

text \<open>
  The loop over the ready set. \<open>release\<close> is the body's walk over the dependency map: it lowers the
  in-degree of every dependent of the popped index and makes it ready at zero. The first argument of
  \<open>order_ready\<close> bounds the number of pops; the number of mutations is enough, since an index becomes
  ready once (\<open>order_ready_drains\<close>).
\<close>

definition release ::
    "candidate list \<Rightarrow> (nat \<times> nat list) list \<Rightarrow> nat
     \<Rightarrow> (candidate_key \<times> nat) list \<times> (nat \<Rightarrow> nat) \<Rightarrow> (candidate_key \<times> nat) list \<times> (nat \<Rightarrow> nat)" where
  "release candidates dependencies index =
     fold (\<lambda>(dependent, required) (ready, indegree).
       if index \<in> set required
       then (let degree = indegree dependent - 1 in
         (if degree = 0 then insort_insert (ca_key (candidates ! dependent), dependent) ready
          else ready, indegree(dependent := degree)))
       else (ready, indegree)) dependencies"

fun order_ready ::
    "nat \<Rightarrow> candidate list \<Rightarrow> (nat \<times> nat list) list
     \<Rightarrow> (candidate_key \<times> nat) list \<times> (nat \<Rightarrow> nat) \<Rightarrow> nat list" where
  "order_ready 0 candidates dependencies st = []"
| "order_ready (Suc n) candidates dependencies ([], indegree) = []"
| "order_ready (Suc n) candidates dependencies ((_, index) # ready, indegree) =
     index # order_ready n candidates dependencies
       (release candidates dependencies index (ready, indegree))"

definition mutation_indices :: "candidate list \<Rightarrow> nat list" where
  "mutation_indices candidates =
     sort_key (\<lambda>i. ca_key (candidates ! i))
       (filter (\<lambda>i. ca_mutation (candidates ! i) \<noteq> None) [0..<length candidates])"

definition initial_ready ::
    "candidate list \<Rightarrow> nat list \<Rightarrow> (nat \<Rightarrow> nat) \<Rightarrow> (candidate_key \<times> nat) list" where
  "initial_ready candidates indices indegree =
     fold (\<lambda>index ready. if indegree index = 0
         then insort_insert (ca_key (candidates ! index), index) ready else ready) indices []"

definition order_candidates :: "candidate list \<Rightarrow> (nat \<times> nat list) list \<Rightarrow> nat list" where
  "order_candidates candidates dependencies =
     (let indices = mutation_indices candidates;
          indegree = (\<lambda>index. length (required_of dependencies index))
      in order_ready (length indices) candidates dependencies
           (initial_ready candidates indices indegree, indegree))"

section \<open>Numbering\<close>

definition mutation_ids :: "nat list \<Rightarrow> nat \<rightharpoonup> mutation_id" where
  "mutation_ids ordered =
     map_of (zip ordered (map (\<lambda>p. MutationId (word_of_nat (p + 1))) [0..<length ordered]))"

definition assign_mutation ::
    "(nat \<rightharpoonup> mutation_id) \<Rightarrow> (nat \<times> nat list) list \<Rightarrow> nat \<Rightarrow> candidate list \<Rightarrow> candidate list result" where
  "assign_mutation ids dependencies index candidates =
     (let candidate = candidates ! index; draft = the (ca_mutation candidate);
          dependency_ids = map (\<lambda>d. the (ids d)) (required_of dependencies index)
      in rbind (PlannedMutation_new (the (ids index)) (md_capability draft) (md_target draft)
             (md_kind draft) (md_desired draft) (md_precondition draft) (md_equality draft)
             dependency_ids) (\<lambda>mutation.
         Inr (candidates[index := candidate\<lparr>ca_mutation := None,
           ca_item := (ca_item candidate)\<lparr>pi_dependencies := dependency_ids,
             pi_mutation := Some mutation,
             pi_target_identity := Some (md_target_identity draft)\<rparr>\<rparr>])))"

record policy_resolution =
  re_profile :: profile
  re_items :: "plan_item list"

definition finalize_candidates ::
    "planner_policy \<Rightarrow> (candidate_key \<times> candidate) list \<Rightarrow> policy_resolution result" where
  "finalize_candidates policy candidates =
     (let candidates = map snd candidates; indices = mutation_indices candidates in
      rbind (collect_dependencies candidates indices []) (\<lambda>dependencies.
      let ordered = order_candidates candidates dependencies in
      if length ordered \<noteq> length indices
      then Inl (planning_error ''planned operation dependencies contain a cycle'')
      else rbind (try_fold (assign_mutation (mutation_ids ordered) dependencies) ordered candidates)
        (\<lambda>candidates.
         Inr \<lparr>re_profile = pl_profile policy,
              re_items = map ca_item
                (sort_key (\<lambda>c. (ca_key c, pi_action (ca_item c))) candidates)\<rparr>)))"

end
