(* ===== verification/Planner.thy ===== *)
theory Planner
  imports Planner_Candidates
begin

text \<open>
  The policy resolver of \<open>planner.rs\<close>: which proposal wins for a target, what becomes of every
  feature on every target (a closed mutation or a visible decision not to mutate), and the
  resolution of a whole policy into ordered plan items.
\<close>

section \<open>Proposals\<close>

definition validate_policy :: "planner_policy \<Rightarrow> unit result" where
  "validate_policy policy =
     (if pl_session_timeout_ms policy = 0
      then Inl (with_stage Config (SysboostError_new ConfigError
        ''planner policy requires a positive session timeout''))
      else Inr ())"

definition proposal_key :: "policy_request \<Rightarrow> capability_id \<times> target_id \<times> operation_id" where
  "proposal_key request =
     (pr_capability request, pr_target request, operation_of (pr_operation request))"

definition request_key :: "policy_request \<Rightarrow> candidate_key" where
  "request_key request =
     CandidateKey_new (pr_capability request) (pr_target request)
       (operation_of (pr_operation request)) 0"

definition select_proposal ::
    "policy_proposal \<Rightarrow> (candidate_key \<times> policy_proposal) list
     \<Rightarrow> (candidate_key \<times> policy_proposal) list result" where
  "select_proposal proposal selected =
     rbind (validate_request (pp_request proposal)) (\<lambda>_.
     let key = request_key (pp_request proposal) in
     case map_of selected key of
       None \<Rightarrow> Inr (bt_insert key proposal selected)
     | Some existing \<Rightarrow>
         (if pr_operation (pp_request existing) = pr_operation (pp_request proposal)
          then Inr selected
          else if precedence (pp_source existing) > precedence (pp_source proposal)
          then Inr selected
          else if precedence (pp_source existing) < precedence (pp_source proposal)
          then Inr (bt_insert key proposal selected)
          else Inl (planning_error
            ''equal-precedence policy sources propose incompatible values'')))"

definition select_proposals ::
    "policy_proposal list \<Rightarrow> (candidate_key \<times> policy_proposal) list result" where
  "select_proposals proposals =
     try_fold select_proposal
       (sort_key (\<lambda>p. (proposal_key (pp_request p), - int (precedence (pp_source p)))) proposals) []"

definition proposal_for ::
    "(candidate_key \<times> policy_proposal) list \<Rightarrow> capability_id \<Rightarrow> operation_id \<Rightarrow> target_id option
     \<Rightarrow> policy_proposal option" where
  "proposal_for proposals capability operation target =
     (case target of None \<Rightarrow> None
      | Some t \<Rightarrow> map_of proposals (CandidateKey_new capability t operation 0))"

section \<open>Admitting a mutation\<close>

text \<open>
  The second half of \<open>resolve_mutation\<close>: the policy gates have passed under a complete contract, and
  the remaining cases are missing state, a missing typed value, target, identity, fingerprint or
  typed target reference.
\<close>

definition admit_mutation ::
    "feature_spec \<Rightarrow> u16 \<Rightarrow> target_id option \<Rightarrow> current_state_fact option \<Rightarrow> policy_proposal option
     \<Rightarrow> plan_value \<Rightarrow> plan_value option \<Rightarrow> target_identity option \<Rightarrow> capability_evidence list
     \<Rightarrow> feature \<Rightarrow> bool \<Rightarrow> experimental_status \<Rightarrow> operation_contract \<Rightarrow> candidate result" where
  "admit_mutation spec order target seen proposal desired current target_identity evidence feature
     explicit_required experimental contract =
   (let capability = fs_capability spec; operation = fs_operation spec;
        refuse = (\<lambda>target current desired action rationale reason identity.
          Inr (Candidate_non_mutating order capability operation (Some (oc_backend contract)) target
            (fs_control spec) current (Some desired) action feature (oc_classification contract)
            (oc_risk contract) (explicit_required \<or> oc_explicit_opt_in contract) experimental
            evidence rationale (Some reason) identity))
    in case seen of
      None \<Rightarrow> refuse target current desired plan_action.Indeterminate
        ''current state is required but was not supplied by discovery''
        ''re-detect current state before planning a mutation'' target_identity
    | Some f \<Rightarrow> (case cf_value f of
      Known (Typed current_typed) \<Rightarrow> (case desired of
        Typed desired_typed \<Rightarrow>
          (let current = Some (Typed current_typed) in
           case target of
             None \<Rightarrow> refuse None current desired plan_action.Indeterminate
               ''mutation target identity is ambiguous''
               ''bind the operation to an enumerated target'' target_identity
           | Some t \<Rightarrow> (case target_identity of
             None \<Rightarrow> refuse target current desired plan_action.Indeterminate
               ''target identity evidence is incomplete''
               ''re-detect the target identity before mutation admission'' None
           | Some identity \<Rightarrow> (case cf_fingerprint f of
             None \<Rightarrow> refuse target current desired plan_action.Indeterminate
               ''current-state fingerprint is missing''
               ''capture a backend-owned precondition before planning'' target_identity
           | Some precondition \<Rightarrow>
             (case (case proposal of Some p \<Rightarrow> Some (pr_operation (pp_request p))
                    | None \<Rightarrow> default_kind (fs_control spec) f desired_typed) of
                None \<Rightarrow> refuse target current desired plan_action.Indeterminate
                  ''typed target information is missing for the closed operation''
                  ''pass a typed target reference from discovery'' target_identity
              | Some kind \<Rightarrow>
                  (if kind_value kind \<noteq> desired_typed
                   then Inl (planning_error
                     ''resolved desired value does not match the closed operation'')
                   else Inr (Candidate_mutation order capability operation contract t
                     (fs_control spec) current (Some desired) feature evidence
                     \<lparr>md_capability = capability, md_target = t, md_kind = kind,
                      md_desired = desired_typed, md_precondition = precondition,
                      md_equality = oc_equality contract, md_target_identity = identity,
                      md_dependencies = oc_dependencies contract\<rparr>))))))
      | Text observed \<Rightarrow> refuse target (Some (Typed current_typed)) desired plan_action.Unsupported
          ''the requested target is not represented by a closed typed operation''
          ''use an approved typed operation instead of a raw interface value'' target_identity)
    | _ \<Rightarrow> refuse target current desired plan_action.Indeterminate
        ''current state is not a typed value admitted by the operation''
        ''retain the feature as report-only until parsing is complete'' target_identity))"

text \<open>The disagreement between evidence and contract that is an invariant violation.\<close>

definition contract_disagrees ::
    "operation_contract \<Rightarrow> capability_descriptor \<Rightarrow> feature_spec \<Rightarrow> bool" where
  "contract_disagrees contract descriptor spec \<longleftrightarrow>
     oc_backend contract \<noteq> cd_backend descriptor
     \<or> oc_target_kind contract \<noteq> cd_target_kind descriptor
     \<or> oc_control contract \<noteq> fs_control spec
     \<or> oc_equality contract \<noteq> cd_equality descriptor
     \<or> oc_classification contract \<noteq> cd_classification descriptor
     \<or> \<not> list_ex (\<lambda>d. od_id d = fs_operation spec) (cd_operations descriptor)"

definition resolve_mutation ::
    "operation_catalog \<Rightarrow> planner_policy \<Rightarrow> descriptor_index \<Rightarrow> feature_spec \<Rightarrow> u16
     \<Rightarrow> target_id option \<Rightarrow> current_state_fact option \<Rightarrow> policy_proposal option \<Rightarrow> plan_value
     \<Rightarrow> plan_value option \<Rightarrow> target_identity option \<Rightarrow> capability_evidence list \<Rightarrow> feature
     \<Rightarrow> feature_class \<Rightarrow> risk_class \<Rightarrow> bool \<Rightarrow> experimental_status \<Rightarrow> candidate result" where
  "resolve_mutation catalog policy descriptors spec order target seen proposal desired current
     target_identity evidence feature class risk explicit_required experimental =
   (let capability = fs_capability spec; operation = fs_operation spec;
        descriptor = the (DescriptorIndex_select descriptors capability);
        refuse = (\<lambda>backend current action class risk explicit experimental rationale reason.
          Inr (Candidate_non_mutating order capability operation (Some backend) target
            (fs_control spec) current (Some desired) action feature class risk explicit experimental
            evidence rationale (Some reason) target_identity))
    in if pl_mode policy = Report
       then refuse (cd_backend descriptor) current DeniedByPolicy class risk explicit_required
         experimental ''report mode prohibits mutation admission''
         ''select an explicit mutation-admitting policy mode''
       else if experimental = experimental_status.Disabled
       then refuse (cd_backend descriptor) current ExperimentalDisabled class risk
         explicit_required experimental ''experimental permission is disabled by effective policy''
         ''enable the trusted experimental policy permission''
       else if experimental = OptInRequired
       then refuse (cd_backend descriptor) current ExplicitOptInRequired class risk
         explicit_required experimental
         ''experimental capability is supported but its feature opt-in is absent''
         ''supply the feature-specific opt-in''
       else case OperationCatalog_find catalog capability operation of
         None \<Rightarrow> refuse (cd_backend descriptor)
           (case seen of None \<Rightarrow> None | Some f \<Rightarrow> known_value (cf_value f)) plan_action.Unsupported
           class risk explicit_required experimental
           ''no approved typed backend operation contract is registered''
           ''operation remains report-only until a reviewed contract exists''
       | Some contract \<Rightarrow>
         rbind (OperationContract_validate contract) (\<lambda>_.
         if oc_explicit_opt_in contract \<and> \<not> is_opted_in policy feature
         then refuse (oc_backend contract) current ExplicitOptInRequired
           (oc_classification contract) (oc_risk contract) True
           (if oc_classification contract = Experimental then OptInRequired else experimental)
           ''backend contract requires an explicit feature opt-in''
           ''supply the feature-specific opt-in''
         else if \<not> OperationContract_is_complete contract
         then Inl (with_backend (oc_backend contract) (with_capability capability (planning_error
           ''a proposed mutation has an incomplete snapshot/restore/verification contract'')))
         else if contract_disagrees contract descriptor spec
         then Inl (with_backend (oc_backend contract) (with_capability capability
           (with_stage Plan (SysboostError_new InvariantViolation
             ''capability evidence and backend operation contract disagree''))))
         else if oc_risk contract > pl_max_risk policy
         then refuse (oc_backend contract) current DeniedByPolicy (oc_classification contract)
           (oc_risk contract) (explicit_required \<or> oc_explicit_opt_in contract) experimental
           ''effective policy risk ceiling denies this operation''
           ''raise the trusted risk ceiling''
         else admit_mutation spec order target seen proposal desired current target_identity
           evidence feature explicit_required experimental contract))"

section \<open>Resolving a feature on a target\<close>

text \<open>The classification of the descriptor's state, \<open>None\<close> where resolution goes on.\<close>

definition descriptor_action ::
    "capability_state option \<Rightarrow> plan_value option \<Rightarrow> plan_value option
     \<Rightarrow> (plan_action \<times> string) option" where
  "descriptor_action state desired current =
     (case state of
        None \<Rightarrow> Some (plan_action.Unsupported,
          ''capability evidence was not present in the inventory'')
      | Some capability_state.Unsupported \<Rightarrow> Some (plan_action.Unsupported,
          ''runtime interface was not detected'')
      | Some capability_state.Denied \<Rightarrow> Some (CapabilityDenied,
          ''capability evidence was permission denied'')
      | Some capability_state.Indeterminate \<Rightarrow> Some (plan_action.Indeterminate,
          ''capability evidence was malformed or incomplete'')
      | Some capability_state.ReadOnly \<Rightarrow>
          (if desired \<noteq> None \<and> current \<noteq> desired
           then Some (plan_action.Unsupported,
             ''interface is readable but no mutation operation is admitted'')
           else None)
      | Some capability_state.Available \<Rightarrow> None)"

definition experimental_of :: "planner_policy \<Rightarrow> feature \<Rightarrow> feature_class \<Rightarrow> bool \<Rightarrow> experimental_status" where
  "experimental_of policy feature class explicit_required =
     (if class = Experimental \<or> Feature_is_experimental feature
      then (if \<not> pl_allow_experimental policy then experimental_status.Disabled
            else if explicit_required \<and> \<not> is_opted_in policy feature then OptInRequired
            else experimental_status.Enabled)
      else NotExperimental)"

definition resolve_spec_inner ::
    "operation_catalog \<Rightarrow> planner_policy \<Rightarrow> descriptor_index \<Rightarrow> feature_spec \<Rightarrow> u16
     \<Rightarrow> target_id option \<Rightarrow> current_state_fact option \<Rightarrow> policy_proposal option
     \<Rightarrow> candidate result" where
  "resolve_spec_inner catalog policy descriptors spec order target seen proposal =
   (let capability = fs_capability spec; operation = fs_operation spec;
        descriptor = DescriptorIndex_select descriptors capability;
        feature = fs_feature spec;
        current = (case seen of None \<Rightarrow> None | Some f \<Rightarrow> known_value (cf_value f));
        target_identity = (case seen of None \<Rightarrow> None | Some f \<Rightarrow> cf_target_identity f);
        evidence = canonicalize_evidence
          ((case descriptor of None \<Rightarrow> [] | Some d \<Rightarrow> cd_evidence d)
           @ (case seen of None \<Rightarrow> [] | Some f \<Rightarrow> cf_evidence f));
        class = (case descriptor of None \<Rightarrow> fs_classification spec | Some d \<Rightarrow> cd_classification d);
        risk = (case descriptor of None \<Rightarrow> fs_risk spec | Some d \<Rightarrow> cd_risk d);
        explicit_required = fs_explicit_opt_in spec;
        experimental = experimental_of policy feature class explicit_required;
        decide = (\<lambda>desired action rationale reason.
          Inr (Candidate_non_mutating order capability operation (map_option cd_backend descriptor)
            target (fs_control spec) current desired action feature class risk explicit_required
            experimental evidence rationale (Some reason) target_identity))
    in case is_preserved policy feature target of
      Some reason \<Rightarrow> decide None Preserved
        ''policy preserve override takes precedence over profile intent'' reason
    | None \<Rightarrow>
      (let (desired, desired_unavailable_reason) = (case proposal of
             Some p \<Rightarrow> (Some (Typed (kind_value (pr_operation (pp_request p)))), None)
           | None \<Rightarrow> profile_desired (pl_profile policy) spec seen)
       in case descriptor_action (map_option cd_state descriptor) desired current of
         Some (action, reason) \<Rightarrow> decide desired action reason reason
       | None \<Rightarrow> (case desired_unavailable_reason of
           Some reason \<Rightarrow> decide desired plan_action.Unsupported reason reason
         | None \<Rightarrow> (case desired of
             None \<Rightarrow>
               (let (action, reason) =
                  (if experimental = experimental_status.Disabled
                   then (ExperimentalDisabled,
                     ''experimental permission is disabled by effective policy'')
                   else if fs_extreme_candidate spec \<and> pl_profile policy = Extreme
                     \<and> experimental = OptInRequired
                   then (ExplicitOptInRequired,
                     ''extreme profile considers this experimental family only after explicit opt-in'')
                   else (Preserved, ''profile has no executable target for this capability family''))
                in decide desired action reason reason)
           | Some v \<Rightarrow>
               (if current = desired
                then decide desired NoOp ''current value already equals the resolved profile target''
                  ''no mutation is required''
                else resolve_mutation catalog policy descriptors spec order target seen proposal v
                  current target_identity evidence feature class risk explicit_required
                  experimental)))))"

definition request_required :: "planner_policy \<Rightarrow> policy_proposal option \<Rightarrow> bool" where
  "request_required policy proposal =
     (case proposal of None \<Rightarrow> False
      | Some p \<Rightarrow> pr_required (pp_request p) \<or> pl_required_default policy)"

definition resolve_spec ::
    "operation_catalog \<Rightarrow> planner_policy \<Rightarrow> descriptor_index \<Rightarrow> feature_spec \<Rightarrow> u16
     \<Rightarrow> target_id option \<Rightarrow> current_state_fact option \<Rightarrow> policy_proposal option
     \<Rightarrow> candidate result" where
  "resolve_spec catalog policy descriptors spec order target seen proposal =
     rbind (resolve_spec_inner catalog policy descriptors spec order target seen proposal)
     (\<lambda>candidate.
       if request_required policy proposal
          \<and> \<not> (pi_action (ca_item candidate) = Mutation \<or> pi_action (ca_item candidate) = NoOp)
       then (let error = with_capability (pi_capability (ca_item candidate))
               (planning_error ''required policy request could not be admitted'')
             in Inl (case pi_target (ca_item candidate) of
                  Some t \<Rightarrow> with_target t error | None \<Rightarrow> error))
       else Inr candidate)"

definition custom_spec :: "policy_request \<Rightarrow> feature_spec" where
  "custom_spec request =
     (let feature = Feature_from_capability (pr_capability request) in
      \<lparr>fs_feature = feature, fs_capability = pr_capability request,
       fs_operation = operation_of (pr_operation request),
       fs_control = fst (operation_shape (pr_operation request)),
       fs_risk = (if Feature_is_experimental feature then Critical else Medium),
       fs_classification =
         (if Feature_is_experimental feature then Experimental else Conditional),
       fs_explicit_opt_in = Feature_is_experimental feature, fs_extreme_candidate = False,
       fs_profile_target = NoTarget\<rparr>)"

definition resolve_custom ::
    "operation_catalog \<Rightarrow> planner_policy \<Rightarrow> descriptor_index \<Rightarrow> policy_proposal \<Rightarrow> current_state
     \<Rightarrow> u16 \<Rightarrow> candidate result" where
  "resolve_custom catalog policy descriptors proposal current_state order =
     (let request = pp_request proposal;
          (control, target_kind) = operation_shape (pr_operation request);
          descriptor = DescriptorIndex_select descriptors (pr_capability request)
      in if (case descriptor of None \<Rightarrow> False | Some d \<Rightarrow> cd_target_kind d \<noteq> target_kind)
         then Inl (with_capability (pr_capability request) (with_stage Plan
           (SysboostError_new InvariantViolation
             ''explicit operation target kind disagrees with capability evidence'')))
         else resolve_spec catalog policy descriptors (custom_spec request) order
           (Some (pr_target request))
           (find (\<lambda>f. cf_capability f = pr_capability request \<and> cf_target f = pr_target request
              \<and> cf_control f = control) (cs_facts current_state))
           (Some proposal))"

section \<open>Resolving a policy\<close>

record planner_input =
  in_policy :: planner_policy
  in_inventory :: capability_inventory
  in_current_state :: current_state

definition spec_facts :: "current_state \<Rightarrow> feature_spec \<Rightarrow> current_state_fact list" where
  "spec_facts state spec =
     filter (\<lambda>f. cf_capability f = fs_capability spec \<and> cf_control f = fs_control spec)
       (cs_facts state)"

definition spec_targets ::
    "(candidate_key \<times> policy_proposal) list \<Rightarrow> feature_spec \<Rightarrow> current_state_fact list
     \<Rightarrow> target_id option list" where
  "spec_targets proposals spec facts =
     (let explicit_targets = map (\<lambda>p. pr_target (pp_request p))
            (filter (\<lambda>p. pr_capability (pp_request p) = fs_capability spec
                \<and> operation_of (pr_operation (pp_request p)) = fs_operation spec)
              (map snd proposals));
          targets = map (\<lambda>f. Some (cf_target f)) facts @ map Some explicit_targets;
          targets = (if targets = [] then [None] else targets)
      in remdups_adj (sort targets))"

definition resolve_target ::
    "operation_catalog \<Rightarrow> planner_policy \<Rightarrow> descriptor_index
     \<Rightarrow> (candidate_key \<times> policy_proposal) list \<Rightarrow> feature_spec \<Rightarrow> u16 \<Rightarrow> current_state_fact list
     \<Rightarrow> target_id option \<Rightarrow> (candidate_key \<times> candidate) list
     \<Rightarrow> (candidate_key \<times> candidate) list result" where
  "resolve_target catalog policy descriptors proposals spec order facts target candidates =
     rbind (resolve_spec catalog policy descriptors spec order target
         (case target of None \<Rightarrow> None | Some t \<Rightarrow> find (\<lambda>f. cf_target f = t) facts)
         (proposal_for proposals (fs_capability spec) (fs_operation spec) target))
       (\<lambda>candidate. insert_candidate candidate candidates)"

definition resolve_feature ::
    "operation_catalog \<Rightarrow> planner_input \<Rightarrow> descriptor_index
     \<Rightarrow> (candidate_key \<times> policy_proposal) list \<Rightarrow> nat \<times> feature_spec
     \<Rightarrow> (candidate_key \<times> candidate) list \<Rightarrow> (candidate_key \<times> candidate) list result" where
  "resolve_feature catalog input descriptors proposals entry candidates =
     (let (order, spec) = entry; facts = spec_facts (in_current_state input) spec in
      try_fold (resolve_target catalog (in_policy input) descriptors proposals spec
          (word_of_nat order) facts)
        (spec_targets proposals spec facts) candidates)"

definition resolve_explicit ::
    "operation_catalog \<Rightarrow> planner_input \<Rightarrow> descriptor_index \<Rightarrow> policy_proposal
     \<Rightarrow> (candidate_key \<times> candidate) list \<Rightarrow> (candidate_key \<times> candidate) list result" where
  "resolve_explicit catalog input descriptors proposal candidates =
     (if list_ex (\<lambda>spec. fs_capability spec = pr_capability (pp_request proposal)
          \<and> fs_operation spec = operation_of (pr_operation (pp_request proposal))) feature_specs
      then Inr candidates
      else rbind (resolve_custom catalog (in_policy input) descriptors proposal
             (in_current_state input) (word_of_nat (length feature_specs)))
           (\<lambda>candidate. insert_candidate candidate candidates))"

definition resolve :: "operation_catalog \<Rightarrow> planner_input \<Rightarrow> policy_resolution result" where
  "resolve catalog input =
     rbind (validate_policy (in_policy input)) (\<lambda>_.
     rbind (OperationCatalog_validate catalog) (\<lambda>_.
     rbind (select_proposals (pl_proposals (in_policy input))) (\<lambda>proposals.
     let descriptors = DescriptorIndex_new (in_inventory input) in
     rbind (try_fold (resolve_feature catalog input descriptors proposals)
         (zip [0..<length feature_specs] feature_specs) []) (\<lambda>candidates.
     rbind (try_fold (resolve_explicit catalog input descriptors) (map snd proposals) candidates)
       (finalize_candidates (in_policy input))))))"

end
