(* ===== verification/Planner_Order.thy ===== *)
theory Planner_Order
  imports Planner
begin

text \<open>
  The ordering loop of \<open>finalize_candidates\<close>. Its invariant relates the ready set and the in-degrees
  to the indices already ordered; from it, what the loop returns is a topological order of the
  mutations it reaches, and it reaches all of them unless the dependencies have a cycle.
\<close>

section \<open>Topological lists\<close>

definition topo :: "(nat \<Rightarrow> nat list) \<Rightarrow> nat list \<Rightarrow> bool" where
  "topo req ord \<longleftrightarrow> (\<forall>j < length ord. set (req (ord ! j)) \<subseteq> set (take j ord))"

lemma topo_Nil [simp]: "topo req []"
  by (simp add: topo_def)

lemma topo_snoc [simp]: "topo req (ord @ [i]) \<longleftrightarrow> topo req ord \<and> set (req i) \<subseteq> set ord"
  by (auto simp: topo_def nth_append less_Suc_eq)

section \<open>The loop invariant\<close>

definition deps_ok :: "nat set \<Rightarrow> (nat \<times> nat list) list \<Rightarrow> bool" where
  "deps_ok M deps \<longleftrightarrow> distinct (map fst deps) \<and> finite M
     \<and> (\<forall>(i, r) \<in> set deps. i \<in> M \<and> set r \<subseteq> M \<and> distinct r)"

definition pending :: "(nat \<times> nat list) list \<Rightarrow> nat list \<Rightarrow> nat \<Rightarrow> nat" where
  "pending deps ord i = length (filter (\<lambda>d. d \<notin> set ord) (required_of deps i))"

definition ordering_inv ::
    "candidate list \<Rightarrow> nat set \<Rightarrow> (nat \<times> nat list) list \<Rightarrow> nat list
     \<Rightarrow> (candidate_key \<times> nat) list \<times> (nat \<Rightarrow> nat) \<Rightarrow> bool" where
  "ordering_inv cs M deps ord st \<longleftrightarrow>
     distinct ord \<and> set ord \<subseteq> M \<and> topo (required_of deps) ord
     \<and> distinct (fst st)
     \<and> set (fst st) = (\<lambda>i. (ca_key (cs ! i), i)) ` {i \<in> M - set ord. pending deps ord i = 0}
     \<and> (\<forall>i \<in> M. snd st i = pending deps ord i)"

lemma required_of_in: "distinct (map fst deps) \<Longrightarrow> (i, r) \<in> set deps \<Longrightarrow> required_of deps i = r"
  by (simp add: required_of_def)

lemma required_of_mem: "d \<in> set (required_of deps i) \<Longrightarrow> (i, required_of deps i) \<in> set deps"
  by (auto simp: required_of_def split: option.splits dest: map_of_SomeD)

lemma deps_okD:
  assumes "deps_ok M deps"
  shows "set (required_of deps i) \<subseteq> M" "distinct (required_of deps i)" "finite M"
  using assms required_of_mem [of _ deps i]
  by (auto simp: deps_ok_def required_of_def split: option.splits dest!: map_of_SomeD)

lemma required_of_Cons:
  "required_of ((j, r) # ds) i = (if i = j then r else required_of ds i)"
  by (simp add: required_of_def)

lemma required_of_outside: "j \<notin> fst ` set ds \<Longrightarrow> required_of ds j = []"
  by (simp add: required_of_def map_of_eq_None_iff [THEN iffD2])

lemma release_Nil [simp]: "release cs [] index st = st"
  by (simp add: release_def)

lemma release_Cons [simp]:
  "release cs ((j, r) # ds) index (ready, indeg) =
     (if index \<in> set r
      then release cs ds index
        (if indeg j - 1 = 0 then insort_insert (ca_key (cs ! j), j) ready else ready,
         indeg(j := indeg j - 1))
      else release cs ds index (ready, indeg))"
  by (simp add: release_def Let_def)

lemma release_snd:
  assumes "distinct (map fst ds)"
  shows "snd (release cs ds index (ready, indeg)) i =
    (if index \<in> set (required_of ds i) then indeg i - 1 else indeg i)"
  using assms
proof (induction ds arbitrary: ready indeg)
  case (Cons d ds)
  obtain j r where d: "d = (j, r)" by force
  with Cons.prems have "required_of ds j = []" by (simp add: required_of_outside)
  with Cons d show ?case by (simp add: required_of_Cons)
qed (simp add: required_of_def)

lemma release_fst:
  assumes "distinct (map fst ds)"
  shows "x \<in> set (fst (release cs ds index (ready, indeg))) \<longleftrightarrow>
    x \<in> set ready \<or> (\<exists>i. x = (ca_key (cs ! i), i) \<and> index \<in> set (required_of ds i) \<and> indeg i - 1 = 0)"
  using assms
proof (induction ds arbitrary: ready indeg)
  case (Cons d ds)
  obtain j r where d: "d = (j, r)" by force
  with Cons.prems have j: "required_of ds j = []" by (simp add: required_of_outside)
  have upd: "(\<exists>i. x = (ca_key (cs ! i), i) \<and> index \<in> set (required_of ds i) \<and> (indeg(j := n)) i - 1 = 0)
    \<longleftrightarrow> (\<exists>i. x = (ca_key (cs ! i), i) \<and> index \<in> set (required_of ds i) \<and> indeg i - 1 = 0)" for n
    by (rule iff_exI) (use j in auto)
  have "(\<exists>i. x = (ca_key (cs ! i), i) \<and> index \<in> set (required_of (d # ds) i) \<and> indeg i - 1 = 0)
    \<longleftrightarrow> (index \<in> set r \<and> indeg j - 1 = 0 \<and> x = (ca_key (cs ! j), j))
      \<or> (\<exists>i. x = (ca_key (cs ! i), i) \<and> index \<in> set (required_of ds i) \<and> indeg i - 1 = 0)"
    using j by (auto simp: d required_of_Cons)
  moreover have "x \<in> set (fst (release cs (d # ds) index (ready, indeg))) \<longleftrightarrow>
      x \<in> set ready \<or> (index \<in> set r \<and> indeg j - 1 = 0 \<and> x = (ca_key (cs ! j), j))
      \<or> (\<exists>i. x = (ca_key (cs ! i), i) \<and> index \<in> set (required_of ds i) \<and> indeg i - 1 = 0)"
    using Cons.prems
    by (cases "index \<in> set r"; cases "indeg j - 1 = 0")
      (simp_all only: d release_Cons Cons.IH upd set_insort_insert if_True if_False insert_iff
        list.map distinct.simps simp_thms disj_assoc disj_ac)
  ultimately show ?case by blast
qed (simp add: required_of_def)

lemma distinct_insort_insert: "distinct xs \<Longrightarrow> distinct (insort_insert x xs)" for x :: "'a::linorder"
  by (simp add: insort_insert_key_def distinct_insort)

lemma release_distinct:
  "distinct ready \<Longrightarrow> distinct (fst (release cs ds index (ready, indeg)))"
proof (induction ds arbitrary: ready indeg)
  case (Cons d ds)
  then show ?case by (cases d) (simp add: distinct_insort_insert)
qed simp

section \<open>One pop\<close>

lemma pending_step:
  assumes "deps_ok M deps" and "index \<notin> set ord"
  shows "pending deps (ord @ [index]) i =
    (if index \<in> set (required_of deps i) then pending deps ord i - 1 else pending deps ord i)"
proof -
  let ?r = "required_of deps i"
  have "distinct ?r" using deps_okD [OF assms(1)] by simp
  then have count: "length (filter (\<lambda>d. d \<notin> set os) ?r) = card (set ?r - set os)" for os
    by (simp add: distinct_length_filter Int_def Diff_eq conj_commute)
  have "set ?r - set (ord @ [index]) = (set ?r - set ord) - {index}" by auto
  with assms(2) show ?thesis
    unfolding pending_def count by (simp add: card_Diff_singleton_if)
qed

lemma pending_pos:
  assumes "index \<in> set (required_of deps i)" and "index \<notin> set ord"
  shows "pending deps ord i > 0"
  using assms by (auto simp: pending_def filter_empty_conv)

lemma pending_0: "pending deps ord i = 0 \<longleftrightarrow> set (required_of deps i) \<subseteq> set ord"
  by (auto simp: pending_def filter_empty_conv)

lemma ordering_inv_pop:
  assumes "deps_ok M deps" and "ordering_inv cs M deps ord ((k, index) # ready, indeg)"
  shows "ordering_inv cs M deps (ord @ [index]) (release cs deps index (ready, indeg))"
proof -
  let ?key = "\<lambda>i. (ca_key (cs ! i), i)"
  from assms(2) have d: "distinct ord" "set ord \<subseteq> M" "topo (required_of deps) ord"
    and ready: "distinct ((k, index) # ready)"
      "set ((k, index) # ready) = ?key ` {i \<in> M - set ord. pending deps ord i = 0}"
    and indeg: "\<forall>i \<in> M. indeg i = pending deps ord i"
    by (simp_all add: ordering_inv_def)
  have dd: "distinct (map fst deps)" using assms(1) by (simp add: deps_ok_def)
  from ready(2) have "(k, index) \<in> ?key ` {i \<in> M - set ord. pending deps ord i = 0}"
    by (metis list.set_intros(1))
  then have i: "index \<in> M" "index \<notin> set ord" "pending deps ord index = 0"
    and k: "k = ca_key (cs ! index)" by auto
  have others: "set ready = ?key ` {i \<in> M - set ord - {index}. pending deps ord i = 0}"
  proof -
    have "set ready = set ((k, index) # ready) - {(k, index)}" using ready(1) by auto
    also have "\<dots> = ?key ` {i \<in> M - set ord - {index}. pending deps ord i = 0}"
      by (subst ready(2)) (auto simp: k)
    finally show ?thesis .
  qed
  have M: "i' \<in> M" if "index \<in> set (required_of deps i')" for i'
    using required_of_mem [OF that] assms(1) by (auto simp: deps_ok_def)
  have not_in: "i' \<notin> set ord" if "index \<in> set (required_of deps i')" for i'
  proof
    assume "i' \<in> set ord"
    then obtain j where "j < length ord" "i' = ord ! j" by (auto simp: in_set_conv_nth)
    with d(3) that have "index \<in> set (take j ord)" by (auto simp: topo_def)
    with i(2) show False by (auto dest: in_set_takeD)
  qed
  have self: "index \<notin> set (required_of deps index)"
    using i pending_pos [of index deps index ord] by auto
  have fst: "set (fst (release cs deps index (ready, indeg))) =
      ?key ` {i \<in> M - set (ord @ [index]). pending deps (ord @ [index]) i = 0}" (is "?L = ?R")
  proof (rule set_eqI)
    fix x
    have "x \<in> ?L \<longleftrightarrow> (\<exists>i'. x = ?key i' \<and> i' \<in> M - set ord - {index}
        \<and> (pending deps ord i' = 0 \<or> index \<in> set (required_of deps i') \<and> pending deps ord i' - 1 = 0))"
      using self M not_in indeg by (auto simp: release_fst [OF dd] others image_iff simp del: One_nat_def)
    also have "\<dots> \<longleftrightarrow> x \<in> ?R"
      using i(2) pending_pos [of index deps _ ord]
      by (auto simp: pending_step [OF assms(1) i(2)] image_iff simp del: One_nat_def)
    finally show "x \<in> ?L \<longleftrightarrow> x \<in> ?R" .
  qed
  have snd: "\<forall>i' \<in> M. snd (release cs deps index (ready, indeg)) i' = pending deps (ord @ [index]) i'"
    using indeg by (simp add: release_snd [OF dd] pending_step [OF assms(1) i(2)])
  show ?thesis
    unfolding ordering_inv_def
    using d i fst snd ready(1) by (simp add: release_distinct pending_0)
qed

section \<open>The whole loop\<close>

definition ordering_done :: "nat set \<Rightarrow> (nat \<times> nat list) list \<Rightarrow> nat list \<Rightarrow> bool" where
  "ordering_done M deps ord \<longleftrightarrow> distinct ord \<and> set ord \<subseteq> M \<and> topo (required_of deps) ord
     \<and> (\<forall>i \<in> M - set ord. \<exists>d \<in> set (required_of deps i). d \<notin> set ord)"

text \<open>
  The bound on the number of pops is never what ends the loop: after as many pops as there are
  mutations, every mutation is ordered.
\<close>

lemma order_ready_drains:
  assumes "deps_ok M deps" and "ordering_inv cs M deps ord st" and "n + length ord = card M"
  shows "ordering_done M deps (ord @ order_ready n cs deps st)"
  using assms(2,3)
proof (induction n arbitrary: ord st)
  case 0
  then have "card (set ord) = card M" by (simp add: ordering_inv_def distinct_card)
  moreover have "set ord \<subseteq> M" using 0 by (simp add: ordering_inv_def)
  ultimately have "set ord = M" using deps_okD(3) [OF assms(1)] by (simp add: card_subset_eq)
  with 0 show ?case by (simp add: ordering_done_def ordering_inv_def)
next
  case (Suc n)
  obtain ready indeg where st: "st = (ready, indeg)" by force
  show ?case
  proof (cases ready)
    case Nil
    with Suc.prems(1) have "\<forall>i \<in> M - set ord. pending deps ord i \<noteq> 0"
      by (auto simp: ordering_inv_def st)
    with Suc.prems(1) Nil show ?thesis
      by (auto simp: st ordering_done_def ordering_inv_def pending_0)
  next
    case (Cons r rest)
    obtain k index where r: "r = (k, index)" by (cases r)
    have "ordering_inv cs M deps (ord @ [index]) (release cs deps index (rest, indeg))"
      using ordering_inv_pop [OF assms(1)] Suc.prems(1) by (simp add: st Cons r)
    from Suc.IH [OF this] Suc.prems(2) show ?thesis by (simp add: st Cons r)
  qed
qed

section \<open>The dependency map\<close>

lemma resolve_dependencies_ok:
  assumes "resolve_dependencies cs index target ds = Inr required"
  shows "(\<forall>m \<in> set required. m < length cs \<and> m \<noteq> index \<and> is_executable (pi_action (ca_item (cs ! m)))
      \<and> pi_target (ca_item (cs ! m)) = Some target \<and> pi_operation (ca_item (cs ! m)) \<in> set ds)
    \<and> (distinct ds \<longrightarrow> distinct required)
    \<and> (\<forall>d \<in> set ds. \<exists>m < length cs. pi_target (ca_item (cs ! m)) = Some target
          \<and> pi_operation (ca_item (cs ! m)) = d
          \<and> (if is_executable (pi_action (ca_item (cs ! m))) then m \<in> set required
              else pi_action (ca_item (cs ! m)) \<in> {NoOp, Preserved}))"
  using assms
proof (induction ds arbitrary: required)
  case (Cons d ds)
  let ?p = "\<lambda>c. pi_target (ca_item c) = Some target \<and> pi_operation (ca_item c) = d"
  from Cons.prems obtain m where m: "position ?p cs = Some m"
    by (auto simp: Let_def split: option.splits)
  note at = position_Some [OF m]
  show ?case
  proof (cases "is_executable (pi_action (ca_item (cs ! m)))")
    case False
    with Cons.prems m have "pi_action (ca_item (cs ! m)) \<in> {NoOp, Preserved}"
      and "resolve_dependencies cs index target ds = Inr required"
      by (auto simp: Let_def split: if_splits)
    with Cons.IH at False show ?thesis by auto
  next
    case True
    with Cons.prems m obtain others where "m \<noteq> index" "required = m # others"
      and "resolve_dependencies cs index target ds = Inr others"
      by (auto simp: Let_def rbind_eq_Inr split: if_splits)
    with Cons.IH [of others] at True show ?thesis by (auto 0 4)
  qed
qed simp

lemma collect_dependencies_ok:
  assumes "collect_dependencies cs indices deps0 = Inr deps" and "bt_sorted deps0"
    and "distinct indices" and "set indices \<inter> fst ` set deps0 = {}"
  shows "bt_sorted deps \<and> fst ` set deps \<subseteq> fst ` set deps0 \<union> set indices
    \<and> (\<forall>i \<in> set indices. candidate_dependencies cs i = Inr (required_of deps i))
    \<and> (\<forall>i. i \<notin> set indices \<longrightarrow> required_of deps i = required_of deps0 i)"
  using assms
proof (induction indices arbitrary: deps0)
  case (Cons i indices)
  from Cons.prems(1) obtain required where r: "candidate_dependencies cs i = Inr required"
    and c: "collect_dependencies cs indices
      (if required = [] then deps0 else bt_insert i required deps0) = Inr deps"
    by (auto simp: rbind_eq_Inr)
  let ?deps1 = "if required = [] then deps0 else bt_insert i required deps0"
  have i: "required_of ?deps1 j = (if j = i then required else required_of deps0 j)" for j
    using Cons.prems(2,4) by (auto simp: required_of_def map_of_eq_None_iff [THEN iffD2] split: option.splits)
  have "set indices \<inter> fst ` set ?deps1 = {}" "bt_sorted ?deps1" "distinct indices" "i \<notin> set indices"
    using Cons.prems by auto
  from Cons.IH [OF c this(2,3,1)] this(4) r show ?case
    by (auto simp: i split: if_splits)
qed simp

section \<open>Numbering\<close>

lemma mutation_ids_nth:
  "distinct ord \<Longrightarrow> j < length ord \<Longrightarrow> mutation_ids ord (ord ! j) = Some (MutationId (word_of_nat (j + 1)))"
  by (simp add: mutation_ids_def map_of_zip_nth)

definition assigned ::
    "(nat \<rightharpoonup> mutation_id) \<Rightarrow> (nat \<times> nat list) list \<Rightarrow> nat \<Rightarrow> candidate \<Rightarrow> candidate \<Rightarrow> bool" where
  "assigned ids deps i c c' \<longleftrightarrow>
     (let draft = the (ca_mutation c); required = map (\<lambda>d. the (ids d)) (required_of deps i) in
      \<exists>m. PlannedMutation_new (the (ids i)) (md_capability draft) (md_target draft) (md_kind draft)
            (md_desired draft) (md_precondition draft) (md_equality draft) required = Inr m
        \<and> c' = c\<lparr>ca_mutation := None,
             ca_item := (ca_item c)\<lparr>pi_dependencies := required, pi_mutation := Some m,
               pi_target_identity := Some (md_target_identity draft)\<rparr>\<rparr>)"

lemma assign_mutation_ok:
  "assign_mutation ids deps i cs = Inr cs' \<longleftrightarrow> (\<exists>c'. assigned ids deps i (cs ! i) c' \<and> cs' = cs[i := c'])"
  by (auto simp: assign_mutation_def assigned_def Let_def rbind_eq_Inr)

lemma assign_mutations_ok:
  assumes "try_fold (assign_mutation ids deps) ord cs = Inr cs'" and "distinct ord"
    and "\<forall>i \<in> set ord. i < length cs"
  shows "length cs' = length cs
    \<and> (\<forall>i < length cs. if i \<in> set ord then assigned ids deps i (cs ! i) (cs' ! i) else cs' ! i = cs ! i)"
  using assms
proof (induction ord arbitrary: cs)
  case (Cons i ord)
  then obtain c where c: "assigned ids deps i (cs ! i) c"
    and rest: "try_fold (assign_mutation ids deps) ord (cs[i := c]) = Inr cs'"
    by (auto simp: rbind_eq_Inr assign_mutation_ok)
  note ih = Cons.IH [OF rest] Cons.prems(2,3)
  have "if j \<in> set (i # ord) then assigned ids deps j (cs ! j) (cs' ! j) else cs' ! j = cs ! j"
    if j: "j < length cs" for j
    using ih c j by (cases "j = i") (auto split: if_splits)
  with ih show ?case by simp
qed simp

section \<open>Finalising candidates\<close>

text \<open>What the resolver keeps of every candidate, as far as the order of mutations needs it.\<close>

definition cand_ordered :: "candidate \<Rightarrow> bool" where
  "cand_ordered c \<longleftrightarrow> (ca_mutation c \<noteq> None \<longleftrightarrow> is_executable (pi_action (ca_item c)))
     \<and> distinct (ca_dependencies c)"

definition mutation_set :: "candidate list \<Rightarrow> nat set" where
  "mutation_set cs = {i. i < length cs \<and> ca_mutation (cs ! i) \<noteq> None}"

lemma mutation_indices_set: "set (mutation_indices cs) = mutation_set cs"
  by (auto simp: mutation_indices_def mutation_set_def)

lemma mutation_indices_distinct: "distinct (mutation_indices cs)"
  by (simp add: mutation_indices_def)

lemma candidate_dependencies_ok:
  assumes "candidate_dependencies cs i = Inr required" and "\<forall>c \<in> set cs. cand_ordered c" and "i < length cs"
  shows "set required \<subseteq> mutation_set cs \<and> distinct required \<and> i \<notin> set required"
  using assms resolve_dependencies_ok [of cs i _ "ca_dependencies (cs ! i)" required]
  by (fastforce simp: candidate_dependencies_def mutation_set_def cand_ordered_def split: option.splits)

lemma collected_deps_ok:
  assumes "collect_dependencies cs (mutation_indices cs) [] = Inr deps" and "\<forall>c \<in> set cs. cand_ordered c"
  shows "deps_ok (mutation_set cs) deps"
    and "\<forall>i \<in> mutation_set cs. candidate_dependencies cs i = Inr (required_of deps i)"
proof -
  note ok = collect_dependencies_ok [OF assms(1) bt_sorted_Nil mutation_indices_distinct]
  then show 2: "\<forall>i \<in> mutation_set cs. candidate_dependencies cs i = Inr (required_of deps i)"
    by (simp add: mutation_indices_set)
  have "distinct (map fst deps)" "fst ` set deps \<subseteq> mutation_set cs"
    using ok bt_sorted_distinct by (auto simp: mutation_indices_set)
  moreover have "finite (mutation_set cs)" by (simp add: mutation_set_def)
  moreover have "set r \<subseteq> mutation_set cs \<and> distinct r" if "(i, r) \<in> set deps" for i r
  proof -
    from that calculation have i: "i \<in> mutation_set cs" "required_of deps i = r"
      by (auto simp: required_of_in)
    with 2 have "candidate_dependencies cs i = Inr r" by auto
    from candidate_dependencies_ok [OF this assms(2)] i(1) show ?thesis by (simp add: mutation_set_def)
  qed
  ultimately show "deps_ok (mutation_set cs) deps" by (auto simp: deps_ok_def)
qed

lemma initial_ready_set:
  "distinct (initial_ready cs indices indeg)
   \<and> set (initial_ready cs indices indeg) = (\<lambda>i. (ca_key (cs ! i), i)) ` {i \<in> set indices. indeg i = 0}"
proof -
  let ?step = "\<lambda>index ready. if indeg index = 0
      then insort_insert (ca_key (cs ! index), index) ready else ready"
  have "distinct (fold ?step is ready) \<and> set (fold ?step is ready) =
      set ready \<union> (\<lambda>i. (ca_key (cs ! i), i)) ` {i \<in> set is. indeg i = 0}" if "distinct ready" for "is" ready
    using that
  proof (induction "is" arbitrary: ready)
    case (Cons i "is")
    from Cons.IH [of "?step i ready"] Cons.prems show ?case
      by (auto simp: distinct_insort_insert set_insort_insert)
  qed simp
  from this [of "[]" indices] show ?thesis by (simp add: initial_ready_def)
qed

lemma order_candidates_done:
  assumes "deps_ok (mutation_set cs) deps"
  shows "ordering_done (mutation_set cs) deps (order_candidates cs deps)"
proof -
  let ?indeg = "\<lambda>i. length (required_of deps i)"
  have "ordering_inv cs (mutation_set cs) deps [] (initial_ready cs (mutation_indices cs) ?indeg, ?indeg)"
    using initial_ready_set [of cs "mutation_indices cs" ?indeg]
    by (simp add: ordering_inv_def pending_def mutation_indices_set)
  moreover have "length (mutation_indices cs) = card (mutation_set cs)"
    by (metis distinct_card mutation_indices_distinct mutation_indices_set)
  ultimately show ?thesis
    using order_ready_drains [OF assms, of cs "[]"] by (simp add: order_candidates_def Let_def)
qed

end
