(* ===== verification/Planner_Safety.thy ===== *)
theory Planner_Safety
  imports Planner_Order
begin

text \<open>
  What the resolver admits. Every candidate is either a plain decision not to mutate or a mutation
  that passed every gate: mode, preserve rules, risk, experimental permission, opt-in, a complete
  contract that agrees with the capability evidence, known typed state, identity and fingerprint.
  The facts are carried through the candidate map and the finalisation to the items of a plan.
\<close>

section \<open>One candidate\<close>

definition plain_decision :: "u16 \<Rightarrow> feature_spec \<Rightarrow> target_id option \<Rightarrow> candidate \<Rightarrow> bool" where
  "plain_decision order spec target c \<longleftrightarrow>
     ca_key c = (fs_capability spec, target, fs_operation spec, order)
     \<and> ca_mutation c = None \<and> ca_dependencies c = [] \<and> pi_action (ca_item c) \<noteq> Mutation
     \<and> pi_capability (ca_item c) = fs_capability spec \<and> pi_operation (ca_item c) = fs_operation spec
     \<and> pi_target (ca_item c) = target \<and> pi_control (ca_item c) = fs_control spec
     \<and> pi_mutation (ca_item c) = None \<and> pi_dependencies (ca_item c) = []"

lemma Candidate_non_mutating_plain [simp]:
  "action \<noteq> Mutation \<Longrightarrow> plain_decision order spec target
     (Candidate_non_mutating order (fs_capability spec) (fs_operation spec) backend target
       (fs_control spec) current desired action feature class risk explicit experimental evidence
       rationale reason identity)"
  by (auto simp: plain_decision_def Candidate_non_mutating_def CandidateKey_new_def
      CandidateKey_aggregate_def split: option.splits)

lemma admit_mutation_cases:
  assumes "admit_mutation spec order target seen proposal desired current identity evidence feature
    explicit experimental contract = Inr c"
  shows "plain_decision order spec target c \<or>
    (\<exists>f cur dv t ident fp kind. seen = Some f \<and> cf_value f = Known (Typed cur) \<and> desired = Typed dv
       \<and> target = Some t \<and> identity = Some ident \<and> cf_fingerprint f = Some fp
       \<and> (case proposal of Some p \<Rightarrow> Some (pr_operation (pp_request p))
            | None \<Rightarrow> default_kind (fs_control spec) f dv) = Some kind
       \<and> kind_value kind = dv
       \<and> c = Candidate_mutation order (fs_capability spec) (fs_operation spec) contract t
           (fs_control spec) (Some (Typed cur)) (Some desired) feature evidence
           \<lparr>md_capability = fs_capability spec, md_target = t, md_kind = kind, md_desired = dv,
            md_precondition = fp, md_equality = oc_equality contract, md_target_identity = ident,
            md_dependencies = oc_dependencies contract\<rparr>)"
  using assms unfolding admit_mutation_def Let_def
  by (auto split: option.splits plan_value.splits current_value.splits if_splits)

lemma resolve_mutation_cases:
  assumes "resolve_mutation catalog policy descriptors spec order target seen proposal desired current
    identity evidence feature class risk explicit experimental = Inr c"
  shows "plain_decision order spec target c \<or>
    (pl_mode policy = Boost \<and> experimental \<noteq> experimental_status.Disabled
     \<and> experimental \<noteq> OptInRequired
     \<and> (\<exists>contract. OperationCatalog_find catalog (fs_capability spec) (fs_operation spec) = Some contract
          \<and> OperationContract_validate contract = Inr ()
          \<and> (oc_explicit_opt_in contract \<longrightarrow> is_opted_in policy feature)
          \<and> OperationContract_is_complete contract
          \<and> \<not> contract_disagrees contract
                (the (DescriptorIndex_select descriptors (fs_capability spec))) spec
          \<and> oc_risk contract \<le> pl_max_risk policy
          \<and> admit_mutation spec order target seen proposal desired current identity evidence
              feature explicit experimental contract = Inr c))"
proof (cases "pl_mode policy = Report \<or> experimental \<in> {experimental_status.Disabled, OptInRequired}
    \<or> OperationCatalog_find catalog (fs_capability spec) (fs_operation spec) = None")
  case True
  with assms have "plain_decision order spec target c"
    unfolding resolve_mutation_def Let_def by (auto split: if_splits option.splits)
  then show ?thesis ..
next
  case False
  then obtain contract where
    contract: "OperationCatalog_find catalog (fs_capability spec) (fs_operation spec) = Some contract"
    by auto
  from False have "pl_mode policy = Boost" by (cases "pl_mode policy") auto
  with False contract assms show ?thesis
    unfolding resolve_mutation_def Let_def
    by (auto simp: rbind_eq_Inr not_less split: if_splits)
qed

definition wanted ::
    "planner_policy \<Rightarrow> feature_spec \<Rightarrow> current_state_fact option \<Rightarrow> policy_proposal option
     \<Rightarrow> plan_value option" where
  "wanted policy spec seen proposal =
     (case proposal of Some p \<Rightarrow> Some (Typed (kind_value (pr_operation (pp_request p))))
      | None \<Rightarrow> fst (profile_desired (pl_profile policy) spec seen))"

definition current_of :: "current_state_fact option \<Rightarrow> plan_value option" where
  "current_of seen = (case seen of None \<Rightarrow> None | Some f \<Rightarrow> known_value (cf_value f))"

lemma descriptor_action_None:
  "descriptor_action state desired current = None \<longleftrightarrow>
     state = Some Available \<or> state = Some capability_state.ReadOnly \<and> (desired = None \<or> current = desired)"
  by (auto simp: descriptor_action_def split: option.splits capability_state.splits)

lemma descriptor_action_plain:
  "descriptor_action state desired current = Some (action, reason) \<Longrightarrow> action \<noteq> Mutation"
  by (auto simp: descriptor_action_def split: option.splits capability_state.splits if_splits)

lemma resolve_spec_inner_cases:
  assumes "resolve_spec_inner catalog policy descriptors spec order target seen proposal = Inr c"
  shows "plain_decision order spec target c \<or>
    (\<exists>d v evidence.
       is_preserved policy (fs_feature spec) target = None
       \<and> DescriptorIndex_select descriptors (fs_capability spec) = Some d \<and> cd_state d = Available
       \<and> wanted policy spec seen proposal = Some v \<and> current_of seen \<noteq> Some v
       \<and> evidence = canonicalize_evidence (cd_evidence d
            @ (case seen of None \<Rightarrow> [] | Some f \<Rightarrow> cf_evidence f))
       \<and> resolve_mutation catalog policy descriptors spec order target seen proposal v
           (current_of seen) (case seen of None \<Rightarrow> None | Some f \<Rightarrow> cf_target_identity f) evidence
           (fs_feature spec) (cd_classification d) (cd_risk d) (fs_explicit_opt_in spec)
           (experimental_of policy (fs_feature spec) (cd_classification d) (fs_explicit_opt_in spec))
         = Inr c)"
proof (cases "is_preserved policy (fs_feature spec) target")
  case (Some reason)
  with assms show ?thesis by (auto simp: resolve_spec_inner_def Let_def)
next
  case None
  let ?d = "DescriptorIndex_select descriptors (fs_capability spec)"
  obtain desired unavailable where pair: "(case proposal of
      Some p \<Rightarrow> (Some (Typed (kind_value (pr_operation (pp_request p)))), None)
    | None \<Rightarrow> profile_desired (pl_profile policy) spec seen) = (desired, unavailable)" by force
  then have w: "wanted policy spec seen proposal = desired"
    by (auto simp: wanted_def split: option.splits)
  show ?thesis
  proof (cases "descriptor_action (map_option cd_state ?d) desired (current_of seen)")
    case (Some a)
    then obtain action reason where a: "a = (action, reason)" by force
    with Some have "action \<noteq> Mutation" by (simp add: descriptor_action_plain)
    with None assms pair Some a show ?thesis
      by (auto simp: resolve_spec_inner_def Let_def current_of_def)
  next
    case pass: None
    show ?thesis
    proof (cases "unavailable \<noteq> None \<or> desired = None \<or> current_of seen = desired")
      case True
      with None assms pair pass have "plain_decision order spec target c"
        by (auto simp: resolve_spec_inner_def Let_def current_of_def split: option.splits if_splits)
      then show ?thesis ..
    next
      case False
      with pass obtain d v where d: "?d = Some d" "cd_state d = Available" and v: "desired = Some v"
        by (auto simp: descriptor_action_None)
      with None assms pair pass False have
        "resolve_mutation catalog policy descriptors spec order target seen proposal v
           (current_of seen) (case seen of None \<Rightarrow> None | Some f \<Rightarrow> cf_target_identity f)
           (canonicalize_evidence (cd_evidence d @ (case seen of None \<Rightarrow> [] | Some f \<Rightarrow> cf_evidence f)))
           (fs_feature spec) (cd_classification d) (cd_risk d) (fs_explicit_opt_in spec)
           (experimental_of policy (fs_feature spec) (cd_classification d) (fs_explicit_opt_in spec))
         = Inr c"
        by (simp add: resolve_spec_inner_def Let_def current_of_def)
      with None d v w False show ?thesis by auto
    qed
  qed
qed

section \<open>Tables\<close>

text \<open>
  The operation of a mutation is the one its feature row names: an explicit request is only looked
  up under its own capability and operation, and a profile default builds the row's operation.
\<close>

definition kind_fits :: "feature_spec \<Rightarrow> mutation_kind \<Rightarrow> bool" where
  "kind_fits spec kind \<longleftrightarrow> fs_capability spec = CapabilityId (expected_capability kind)
     \<and> fs_operation spec = operation_of kind \<and> fs_control spec = fst (operation_shape kind)"

lemma chosen_Some: "fst (chosen choice seen reason) = Some v \<Longrightarrow> choice = Some v"
  by (auto simp: chosen_def split: option.splits)

lemma feature_specs_default:
  assumes "spec \<in> set feature_specs"
    and "fst (profile_desired profile spec seen) = Some (Typed dv)"
    and "closed_kind (fs_control spec) t dv = Some kind"
  shows "kind_fits spec kind"
proof -
  consider (gov) g where "fs_profile_target spec = GovernorTarget" "dv = Governor g"
    | (epp) e where "fs_profile_target spec = EnergyPreferenceTarget" "dv = EnergyPreference e"
    | (plat) q where "fs_profile_target spec = PlatformPerformance" "dv = typed_value.PlatformProfile q"
    | (gpu) "fs_profile_target spec = GpuPerformance"
        "dv = typed_value.GpuPerformanceProfile gpu_profile.Performance"
    using assms(2)
    by (auto simp: profile_desired_def choose_governor_def choose_energy_preference_def
        choose_platform_profile_def Let_def find_Some_iff
        split: profile_target.splits option.splits if_splits dest!: chosen_Some)
  then show ?thesis
    using assms(1,3)
    by cases (auto simp: feature_specs_def FeatureSpec_row_def closed_kind_def kind_fits_def
        split: typed_target.splits if_splits)
qed

lemma feature_specs_explicit:
  assumes "spec \<in> set feature_specs" and "fs_operation spec = operation_of kind"
  shows "kind_fits spec kind"
  using assms by (cases kind) (auto simp: feature_specs_def FeatureSpec_row_def kind_fits_def)

definition order_of :: "operation_id \<Rightarrow> u16" where
  "order_of operation =
     (case position (\<lambda>s. fs_operation s = operation) feature_specs of
        Some i \<Rightarrow> word_of_nat i | None \<Rightarrow> word_of_nat (length feature_specs))"

lemma feature_specs_operations: "distinct (map fs_operation feature_specs)"
  by (simp add: feature_specs_def FeatureSpec_row_def)

lemma order_of_row:
  "i < length feature_specs \<Longrightarrow> order_of (fs_operation (feature_specs ! i)) = word_of_nat i"
  by (simp add: order_of_def position_distinct [OF feature_specs_operations])

lemma order_of_custom:
  "\<forall>spec \<in> set feature_specs. fs_operation spec \<noteq> op \<Longrightarrow> order_of op = word_of_nat (length feature_specs)"
  by (simp add: order_of_def position_None [THEN iffD2])

lemma operation_shape_inject:
  "fst (operation_shape k) = fst (operation_shape k') \<Longrightarrow>
     expected_capability k = expected_capability k' \<and> operation_name k = operation_name k'"
  by (cases k; cases k') simp_all

section \<open>Admission\<close>

definition plan_admitted :: "operation_catalog \<Rightarrow> planner_input \<Rightarrow> plan_item \<Rightarrow> mutation_draft \<Rightarrow> bool" where
  "plan_admitted catalog input item draft \<longleftrightarrow>
     (let policy = in_policy input; feature = pi_feature item in
      pl_mode policy = Boost \<and> is_preserved policy feature (pi_target item) = None
      \<and> (\<exists>contract descriptor f current.
           contract \<in> set catalog \<and> oc_capability contract = pi_capability item
         \<and> oc_operation contract = pi_operation item \<and> oc_control contract = pi_control item
         \<and> OperationContract_validate contract = Inr () \<and> OperationContract_is_complete contract
         \<and> oc_risk contract \<le> pl_max_risk policy
         \<and> (oc_explicit_opt_in contract \<longrightarrow> is_opted_in policy feature)
         \<and> (oc_classification contract = Experimental \<or> Feature_is_experimental feature
              \<longrightarrow> pl_allow_experimental policy)
         \<and> descriptor \<in> set (ci_capabilities (in_inventory input))
         \<and> cd_id descriptor = pi_capability item \<and> cd_state descriptor = Available
         \<and> cd_backend descriptor = oc_backend contract
         \<and> pi_operation item \<in> od_id ` set (cd_operations descriptor)
         \<and> f \<in> set (cs_facts (in_current_state input)) \<and> cf_capability f = pi_capability item
         \<and> pi_target item = Some (cf_target f) \<and> cf_control f = pi_control item
         \<and> cf_value f = Known (Typed current) \<and> pi_current item = Some (Typed current)
         \<and> current \<noteq> md_desired draft
         \<and> cf_fingerprint f = Some (md_precondition draft)
         \<and> cf_target_identity f = Some (md_target_identity draft)
         \<and> pi_evidence item = canonicalize_evidence (cd_evidence descriptor @ cf_evidence f)
         \<and> pi_action item = Mutation \<and> pi_backend item = Some (oc_backend contract)
         \<and> pi_risk item = oc_risk contract \<and> pi_feature_class item = oc_classification contract
         \<and> pi_snapshot item = oc_snapshot contract \<and> pi_restore item = oc_restore contract
         \<and> pi_verification item = oc_verification contract
         \<and> pi_target_identity item = Some (md_target_identity draft)
         \<and> pi_desired item = Some (Typed (md_desired draft))
         \<and> md_capability draft = pi_capability item \<and> pi_target item = Some (md_target draft)
         \<and> kind_value (md_kind draft) = md_desired draft
         \<and> operation_of (md_kind draft) = pi_operation item
         \<and> fst (operation_shape (md_kind draft)) = pi_control item
         \<and> CapabilityId (expected_capability (md_kind draft)) = pi_capability item
         \<and> md_equality draft = oc_equality contract
         \<and> md_dependencies draft = oc_dependencies contract
         \<and> ((\<exists>p \<in> set (pl_proposals policy). md_kind draft = pr_operation (pp_request p)
                \<and> pr_target (pp_request p) = md_target draft)
            \<or> (\<exists>spec \<in> set feature_specs. fs_feature spec = feature
                \<and> fst (profile_desired (pl_profile policy) spec (Some f))
                    = Some (Typed (md_desired draft))))))"

definition candidate_ok :: "operation_catalog \<Rightarrow> planner_input \<Rightarrow> candidate \<Rightarrow> bool" where
  "candidate_ok catalog input c \<longleftrightarrow> (let item = ca_item c in
     ca_key c = (pi_capability item, pi_target item, pi_operation item, order_of (pi_operation item))
     \<and> pi_mutation item = None \<and> pi_dependencies item = []
     \<and> (case ca_mutation c of
          None \<Rightarrow> pi_action item \<noteq> Mutation \<and> ca_dependencies c = []
        | Some draft \<Rightarrow> ca_dependencies c = md_dependencies draft \<and> plan_admitted catalog input item draft))"

lemma plain_decision_ok:
  "plain_decision order spec target c \<Longrightarrow> order = order_of (fs_operation spec) \<Longrightarrow>
     candidate_ok catalog input c"
  by (simp add: plain_decision_def candidate_ok_def Let_def)

lemma min_by_mem: "min_by k xs = Some x \<Longrightarrow> x \<in> set xs"
proof (cases xs)
  case (Cons y ys)
  have "fold (\<lambda>y least. if k y < k least then y else least) zs z \<in> insert z (set zs)" for zs z
    by (induction zs arbitrary: z) force+
  then show "min_by k xs = Some x \<Longrightarrow> x \<in> set xs" using Cons by auto
qed simp

lemma DescriptorIndex_select_mem:
  "DescriptorIndex_select (DescriptorIndex_new inventory) capability = Some d \<Longrightarrow>
     d \<in> set (ci_capabilities inventory) \<and> cd_id d = capability"
  by (auto simp: DescriptorIndex_select_def DescriptorIndex_new_def dest!: min_by_mem)

lemma experimental_of_enabled:
  "experimental_of policy feature class explicit = e \<Longrightarrow> e \<noteq> experimental_status.Disabled \<Longrightarrow>
     class = Experimental \<or> Feature_is_experimental feature \<Longrightarrow> pl_allow_experimental policy"
  by (auto simp: experimental_of_def split: if_splits)

section \<open>Every candidate is sound\<close>

lemma mutation_candidate_ok:
  assumes "admit_mutation spec (order_of (fs_operation spec)) target seen proposal v (current_of seen)
      (case seen of None \<Rightarrow> None | Some f \<Rightarrow> cf_target_identity f) evidence (fs_feature spec) explicit
      experimental contract = Inr c"
    and plain: "\<not> plain_decision (order_of (fs_operation spec)) spec target c"
    and evidence: "evidence = canonicalize_evidence (cd_evidence d
            @ (case seen of None \<Rightarrow> [] | Some f \<Rightarrow> cf_evidence f))"
    and mode: "pl_mode (in_policy input) = Boost"
    and kept: "is_preserved (in_policy input) (fs_feature spec) target = None"
    and contract: "OperationCatalog_find catalog (fs_capability spec) (fs_operation spec) = Some contract"
      "OperationContract_validate contract = Inr ()" "OperationContract_is_complete contract"
      "oc_explicit_opt_in contract \<longrightarrow> is_opted_in (in_policy input) (fs_feature spec)"
      "oc_risk contract \<le> pl_max_risk (in_policy input)" "\<not> contract_disagrees contract d spec"
    and d: "d \<in> set (ci_capabilities (in_inventory input))" "cd_id d = fs_capability spec"
      "cd_state d = Available"
      "cd_classification d = Experimental \<or> Feature_is_experimental (fs_feature spec)
        \<longrightarrow> pl_allow_experimental (in_policy input)"
    and v: "wanted (in_policy input) spec seen proposal = Some v" "current_of seen \<noteq> Some v"
    and seen: "\<forall>f. seen = Some f \<longrightarrow> f \<in> set (cs_facts (in_current_state input))
        \<and> cf_capability f = fs_capability spec \<and> cf_control f = fs_control spec
        \<and> target = Some (cf_target f)"
    and proposal: "\<forall>p. proposal = Some p \<longrightarrow> p \<in> set (pl_proposals (in_policy input))
        \<and> kind_fits spec (pr_operation (pp_request p)) \<and> target = Some (pr_target (pp_request p))"
    and default: "proposal = None \<longrightarrow> spec \<in> set feature_specs"
  shows "candidate_ok catalog input c"
proof -
  from admit_mutation_cases [OF assms(1)] plain obtain f cur dv t ident fp kind where
    f0: "seen = Some f" "cf_value f = Known (Typed cur)"
      "(case seen of None \<Rightarrow> None | Some f \<Rightarrow> cf_target_identity f) = Some ident"
      "cf_fingerprint f = Some fp"
    and v': "v = Typed dv" and t: "target = Some t" and kind: "(case proposal of
        Some p \<Rightarrow> Some (pr_operation (pp_request p))
      | None \<Rightarrow> default_kind (fs_control spec) f dv) = Some kind" "kind_value kind = dv"
    and c: "c = Candidate_mutation (order_of (fs_operation spec)) (fs_capability spec) (fs_operation spec)
        contract t (fs_control spec) (Some (Typed cur)) (Some v) (fs_feature spec) evidence
        \<lparr>md_capability = fs_capability spec, md_target = t, md_kind = kind, md_desired = dv,
         md_precondition = fp, md_equality = oc_equality contract, md_target_identity = ident,
         md_dependencies = oc_dependencies contract\<rparr>"
    by blast
  then have f: "seen = Some f" "cf_value f = Known (Typed cur)" "cf_target_identity f = Some ident"
      "cf_fingerprint f = Some fp" by simp_all
  note f' = seen [rule_format, OF f(1)]
  have fits: "kind_fits spec kind"
  proof (cases proposal)
    case None
    with kind default v v' f show ?thesis
      by (auto simp: default_kind_def wanted_def split: option.splits intro: feature_specs_default)
  next
    case (Some p)
    with kind proposal show ?thesis by auto
  qed
  have origin: "(\<exists>p \<in> set (pl_proposals (in_policy input)). kind = pr_operation (pp_request p)
        \<and> pr_target (pp_request p) = t)
      \<or> (\<exists>spec' \<in> set feature_specs. fs_feature spec' = fs_feature spec
          \<and> fst (profile_desired (pl_profile (in_policy input)) spec' (Some f)) = Some (Typed dv))"
    using kind proposal default v v' f t by (cases proposal) (auto simp: wanted_def)
  have "current_of seen = Some (Typed cur)" using f by (simp add: current_of_def)
  with v v' have changed: "cur \<noteq> dv" by simp
  have ops: "fs_operation spec \<in> od_id ` set (cd_operations d)"
    and agree: "oc_backend contract = cd_backend d" "oc_control contract = fs_control spec"
      "oc_classification contract = cd_classification d"
    using contract(6) by (auto simp: contract_disagrees_def list_ex_iff intro: rev_image_eqI)
  note known = find_contract [OF contract(1)] contract(2-5) agree d ops f f' t changed v' kind(2) mode
    kept [unfolded t]
  have "plan_admitted catalog input (ca_item c) (the (ca_mutation c))"
    unfolding plan_admitted_def Let_def c Candidate_mutation_def evidence
    by (intro conjI exI [of _ contract] exI [of _ d] exI [of _ f] exI [of _ cur])
      (use known fits origin in \<open>simp_all add: kind_fits_def\<close>)
  then show ?thesis
    by (simp add: candidate_ok_def Let_def c Candidate_mutation_def CandidateKey_new_def t)
qed

text \<open>What a lookup in the current state and in the selected proposals provides.\<close>

definition seen_fits ::
    "planner_input \<Rightarrow> feature_spec \<Rightarrow> target_id option \<Rightarrow> current_state_fact option \<Rightarrow> bool" where
  "seen_fits input spec target seen \<longleftrightarrow>
     (\<forall>f. seen = Some f \<longrightarrow> f \<in> set (cs_facts (in_current_state input))
        \<and> cf_capability f = fs_capability spec \<and> cf_control f = fs_control spec
        \<and> target = Some (cf_target f))"

definition proposal_fits ::
    "planner_input \<Rightarrow> feature_spec \<Rightarrow> target_id option \<Rightarrow> policy_proposal option \<Rightarrow> bool" where
  "proposal_fits input spec target proposal \<longleftrightarrow>
     (\<forall>p. proposal = Some p \<longrightarrow> p \<in> set (pl_proposals (in_policy input))
        \<and> kind_fits spec (pr_operation (pp_request p)) \<and> target = Some (pr_target (pp_request p)))
     \<and> (proposal = None \<longrightarrow> spec \<in> set feature_specs)"

lemma resolve_spec_inner_ok:
  assumes "resolve_spec_inner catalog (in_policy input) (DescriptorIndex_new (in_inventory input)) spec
      (order_of (fs_operation spec)) target seen proposal = Inr c"
    and "seen_fits input spec target seen" and "proposal_fits input spec target proposal"
  shows "candidate_ok catalog input c"
proof (cases "plain_decision (order_of (fs_operation spec)) spec target c")
  case True
  then show ?thesis by (rule plain_decision_ok) simp
next
  case False
  from resolve_spec_inner_cases [OF assms(1)] False obtain d v evidence where
    kept: "is_preserved (in_policy input) (fs_feature spec) target = None"
    and d: "DescriptorIndex_select (DescriptorIndex_new (in_inventory input)) (fs_capability spec) = Some d"
      "cd_state d = Available"
    and v: "wanted (in_policy input) spec seen proposal = Some v" "current_of seen \<noteq> Some v"
    and evidence: "evidence = canonicalize_evidence (cd_evidence d
            @ (case seen of None \<Rightarrow> [] | Some f \<Rightarrow> cf_evidence f))"
    and m: "resolve_mutation catalog (in_policy input) (DescriptorIndex_new (in_inventory input)) spec
           (order_of (fs_operation spec)) target seen proposal v (current_of seen)
           (case seen of None \<Rightarrow> None | Some f \<Rightarrow> cf_target_identity f) evidence
           (fs_feature spec) (cd_classification d) (cd_risk d) (fs_explicit_opt_in spec)
           (experimental_of (in_policy input) (fs_feature spec) (cd_classification d)
             (fs_explicit_opt_in spec)) = Inr c"
    by blast
  note d' = DescriptorIndex_select_mem [OF d(1)]
  let ?e = "experimental_of (in_policy input) (fs_feature spec) (cd_classification d)
    (fs_explicit_opt_in spec)"
  from resolve_mutation_cases [OF m] False obtain contract where
    mode: "pl_mode (in_policy input) = Boost" "?e \<noteq> experimental_status.Disabled" and
    contract: "OperationCatalog_find catalog (fs_capability spec) (fs_operation spec) = Some contract"
      "OperationContract_validate contract = Inr ()" "OperationContract_is_complete contract"
      "oc_explicit_opt_in contract \<longrightarrow> is_opted_in (in_policy input) (fs_feature spec)"
      "oc_risk contract \<le> pl_max_risk (in_policy input)" "\<not> contract_disagrees contract d spec"
    and admit: "admit_mutation spec (order_of (fs_operation spec)) target seen proposal v (current_of seen)
           (case seen of None \<Rightarrow> None | Some f \<Rightarrow> cf_target_identity f) evidence (fs_feature spec)
           (fs_explicit_opt_in spec) ?e contract = Inr c"
    unfolding d(1) option.sel by blast
  have allow: "cd_classification d = Experimental \<or> Feature_is_experimental (fs_feature spec)
      \<longrightarrow> pl_allow_experimental (in_policy input)"
    using experimental_of_enabled [OF refl mode(2)] by blast
  show ?thesis
    by (rule mutation_candidate_ok [OF admit False evidence mode(1) kept contract])
      (use d d' allow v assms(2,3) in \<open>auto simp: seen_fits_def proposal_fits_def\<close>)
qed

lemma admit_mutation_not_NoOp:
  "admit_mutation spec order target seen proposal v current identity evidence feature explicit
     experimental contract = Inr c \<Longrightarrow> pi_action (ca_item c) \<noteq> NoOp"
  unfolding admit_mutation_def Let_def
  by (auto simp: Candidate_non_mutating_def Candidate_mutation_def
      split: option.splits plan_value.splits current_value.splits if_splits)

lemma resolve_mutation_not_NoOp:
  "resolve_mutation catalog policy descriptors spec order target seen proposal v current identity
     evidence feature class risk explicit experimental = Inr c \<Longrightarrow> pi_action (ca_item c) \<noteq> NoOp"
  unfolding resolve_mutation_def Let_def
  by (auto simp: Candidate_non_mutating_def rbind_eq_Inr dest: admit_mutation_not_NoOp
      split: option.splits if_splits)

text \<open>A no-op says that the current value is the wanted one.\<close>

lemma resolve_spec_inner_NoOp:
  assumes "resolve_spec_inner catalog policy descriptors spec order target seen proposal = Inr c"
    and "pi_action (ca_item c) = NoOp"
  shows "pi_current (ca_item c) = wanted policy spec seen proposal
    \<and> pi_desired (ca_item c) = wanted policy spec seen proposal
    \<and> current_of seen = wanted policy spec seen proposal"
proof (cases "is_preserved policy (fs_feature spec) target")
  case (Some reason)
  with assms show ?thesis by (auto simp: resolve_spec_inner_def Let_def Candidate_non_mutating_def)
next
  case kept: None
  let ?d = "DescriptorIndex_select descriptors (fs_capability spec)"
  obtain desired unavailable where pair: "(case proposal of
      Some p \<Rightarrow> (Some (Typed (kind_value (pr_operation (pp_request p)))), None)
    | None \<Rightarrow> profile_desired (pl_profile policy) spec seen) = (desired, unavailable)" by force
  then have w: "wanted policy spec seen proposal = desired"
    by (auto simp: wanted_def split: option.splits)
  note unfolded = assms(1) [unfolded resolve_spec_inner_def Let_def kept pair
      current_of_def [symmetric], simplified]
  have pass: "descriptor_action (map_option cd_state ?d) desired (current_of seen) = None"
  proof (cases "descriptor_action (map_option cd_state ?d) desired (current_of seen)")
    case (Some a)
    obtain action reason where a: "a = (action, reason)" by force
    with Some have "action \<noteq> NoOp"
      by (auto simp: descriptor_action_def split: option.splits capability_state.splits if_splits)
    with unfolded assms(2) Some a show ?thesis by (auto simp: Candidate_non_mutating_def)
  qed
  show ?thesis
  proof (cases "unavailable = None \<and> desired \<noteq> None")
    case False
    with unfolded assms(2) pass show ?thesis
      by (auto simp: Candidate_non_mutating_def split: option.splits if_splits)
  next
    case True
    with unfolded assms(2) pass w show ?thesis
      by (auto simp: Candidate_non_mutating_def dest: resolve_mutation_not_NoOp split: if_splits)
  qed
qed

section \<open>Loops\<close>

lemma try_fold_invariant:
  assumes "try_fold f xs s = Inr s'" and "I s"
    and "\<And>x s s'. x \<in> set xs \<Longrightarrow> I s \<Longrightarrow> f x s = Inr s' \<Longrightarrow> I s'"
  shows "I s'"
  using assms
proof (induction xs arbitrary: s)
  case (Cons x xs)
  from Cons.prems(1) obtain s1 where s1: "f x s = Inr s1" "try_fold f xs s1 = Inr s'"
    by (auto simp: rbind_eq_Inr)
  from Cons.prems(3) [OF _ Cons.prems(2) s1(1)] have "I s1" by simp
  then show ?case by (rule Cons.IH [OF s1(2)]) (use Cons.prems(3) in auto)
qed simp

lemma try_fold_reaches:
  assumes "try_fold f xs s = Inr s'" and "x \<in> set xs"
    and "\<And>s s'. f x s = Inr s' \<Longrightarrow> Q s'"
    and "\<And>y s s'. f y s = Inr s' \<Longrightarrow> Q s \<Longrightarrow> Q s'"
  shows "Q s'"
proof -
  have keep: "Q s2" if "try_fold f ys s1 = Inr s2" "Q s1" for ys s1 s2
    using that by (rule try_fold_invariant) (use assms(4) in blast)
  from assms(1,2) show ?thesis
  proof (induction xs arbitrary: s)
    case (Cons y xs)
    from Cons.prems(1) obtain s1 where s1: "f y s = Inr s1" "try_fold f xs s1 = Inr s'"
      by (auto simp: rbind_eq_Inr)
    show ?case
    proof (cases "x = y")
      case True
      with s1 assms(3) keep show ?thesis by blast
    next
      case False
      with Cons s1 show ?thesis by auto
    qed
  qed simp
qed

section \<open>Selected proposals\<close>

definition proposals_ok ::
    "policy_proposal list \<Rightarrow> (candidate_key \<times> policy_proposal) list \<Rightarrow> bool" where
  "proposals_ok all selected \<longleftrightarrow> bt_sorted selected
     \<and> (\<forall>(k, p) \<in> set selected. p \<in> set all \<and> k = request_key (pp_request p)
          \<and> validate_request (pp_request p) = Inr ())"

lemma set_bt_insert: "set (bt_insert k v m) \<subseteq> insert (k, v) (set m)"
  by (induction k v m rule: bt_insert.induct) auto

lemma select_proposal_ok:
  assumes "select_proposal p selected = Inr selected'" and "p \<in> set all" and "proposals_ok all selected"
  shows "proposals_ok all selected'"
proof -
  from assms(1) have "validate_request (pp_request p) = Inr ()"
    and "selected' = selected \<or> selected' = bt_insert (request_key (pp_request p)) p selected"
    by (auto simp: select_proposal_def rbind_eq_Inr Let_def split: option.splits if_splits)
  with assms(2,3) set_bt_insert [of "request_key (pp_request p)" p selected] show ?thesis
    unfolding proposals_ok_def by (elim disjE) (simp, fastforce)
qed

lemma select_proposals_ok:
  assumes "select_proposals ps = Inr selected"
  shows "proposals_ok ps selected"
  using assms unfolding select_proposals_def
  by (rule try_fold_invariant) (auto simp: proposals_ok_def [of _ "[]"] intro: select_proposal_ok)

lemma proposal_for_ok:
  assumes "proposals_ok (pl_proposals (in_policy input)) proposals" and "spec \<in> set feature_specs"
  shows "proposal_fits input spec target (proposal_for proposals (fs_capability spec) (fs_operation spec) target)"
proof -
  have "p \<in> set (pl_proposals (in_policy input)) \<and> kind_fits spec (pr_operation (pp_request p))
      \<and> target = Some (pr_target (pp_request p))"
    if p: "proposal_for proposals (fs_capability spec) (fs_operation spec) target = Some p" for p
  proof -
    from p obtain t where t: "target = Some t"
      and "map_of proposals (CandidateKey_new (fs_capability spec) t (fs_operation spec) 0) = Some p"
      by (auto simp: proposal_for_def split: option.splits)
    from map_of_SomeD [OF this(2)] assms(1)
    have "p \<in> set (pl_proposals (in_policy input))"
      "request_key (pp_request p) = CandidateKey_new (fs_capability spec) t (fs_operation spec) 0"
      by (auto simp: proposals_ok_def)
    with t assms(2) feature_specs_explicit [of spec "pr_operation (pp_request p)"] show ?thesis
      by (auto simp: request_key_def CandidateKey_new_def)
  qed
  with assms(2) show ?thesis by (auto simp: proposal_fits_def)
qed

section \<open>The candidate map\<close>

definition candidates_ok ::
    "operation_catalog \<Rightarrow> planner_input \<Rightarrow> (candidate_key \<times> candidate) list \<Rightarrow> bool" where
  "candidates_ok catalog input m \<longleftrightarrow> bt_sorted m
     \<and> (\<forall>(k, c) \<in> set m. k = ca_key c \<and> candidate_ok catalog input c)"

lemma insert_candidate_ok:
  assumes "insert_candidate c m = Inr m'" and "candidates_ok catalog input m" and "candidate_ok catalog input c"
  shows "candidates_ok catalog input m'"
proof -
  from assms(1) have "m' = m \<or> m' = bt_insert (ca_key c) c m"
    by (auto simp: insert_candidate_def split: option.splits if_splits)
  with assms(2,3) set_bt_insert [of "ca_key c" c m] show ?thesis
    unfolding candidates_ok_def by (elim disjE) (simp, fastforce)
qed

lemma resolve_spec_inner_of:
  "resolve_spec catalog policy descriptors spec order target seen proposal = Inr c \<Longrightarrow>
     resolve_spec_inner catalog policy descriptors spec order target seen proposal = Inr c
     \<and> (request_required policy proposal \<longrightarrow> pi_action (ca_item c) \<in> {Mutation, NoOp})"
  by (auto simp: resolve_spec_def rbind_eq_Inr Let_def split: if_splits)

lemma find_fact_fits:
  "seen_fits input spec target
     (case target of None \<Rightarrow> None
      | Some t \<Rightarrow> find (\<lambda>f. cf_target f = t) (spec_facts (in_current_state input) spec))"
  by (auto simp: seen_fits_def spec_facts_def find_Some_iff split: option.splits dest: nth_mem)

lemma resolve_target_ok:
  assumes "resolve_target catalog (in_policy input) (DescriptorIndex_new (in_inventory input)) proposals
      spec (order_of (fs_operation spec)) (spec_facts (in_current_state input) spec) target m = Inr m'"
    and "proposals_ok (pl_proposals (in_policy input)) proposals" and "spec \<in> set feature_specs"
    and "candidates_ok catalog input m"
  shows "candidates_ok catalog input m'"
proof -
  let ?seen = "case target of None \<Rightarrow> None
    | Some t \<Rightarrow> find (\<lambda>f. cf_target f = t) (spec_facts (in_current_state input) spec)"
  let ?p = "proposal_for proposals (fs_capability spec) (fs_operation spec) target"
  from assms(1) obtain c where
    c: "resolve_spec catalog (in_policy input) (DescriptorIndex_new (in_inventory input)) spec
        (order_of (fs_operation spec)) target ?seen ?p = Inr c"
    and ins: "insert_candidate c m = Inr m'"
    by (auto simp: resolve_target_def rbind_eq_Inr)
  have "candidate_ok catalog input c"
    using resolve_spec_inner_of [OF c] resolve_spec_inner_ok find_fact_fits
      proposal_for_ok [OF assms(2,3)] by blast
  with ins assms(4) show ?thesis by (rule insert_candidate_ok)
qed

lemma resolve_feature_ok:
  assumes "resolve_feature catalog input (DescriptorIndex_new (in_inventory input)) proposals
      (i, feature_specs ! i) m = Inr m'"
    and "i < length feature_specs"
    and "proposals_ok (pl_proposals (in_policy input)) proposals" and "candidates_ok catalog input m"
  shows "candidates_ok catalog input m'"
  using assms(1) unfolding resolve_feature_def Let_def prod.case order_of_row [OF assms(2), symmetric]
  by (rule try_fold_invariant) (use assms in \<open>auto intro: resolve_target_ok\<close>)

lemma custom_spec_fits:
  "validate_request r = Inr () \<Longrightarrow> kind_fits (custom_spec r) (pr_operation r)"
  by (simp add: kind_fits_def custom_spec_def Let_def validate_request_ok)

lemma custom_spec_fields [simp]:
  "fs_operation (custom_spec r) = operation_of (pr_operation r)"
  "fs_capability (custom_spec r) = pr_capability r"
  "fs_control (custom_spec r) = fst (operation_shape (pr_operation r))"
  "fs_feature (custom_spec r) = Feature_from_capability (pr_capability r)"
  by (simp_all add: custom_spec_def Let_def)

lemma no_row_order:
  assumes "validate_request r = Inr ()"
    and "\<not> list_ex (\<lambda>spec. fs_capability spec = pr_capability r
          \<and> fs_operation spec = operation_of (pr_operation r)) feature_specs"
  shows "order_of (operation_of (pr_operation r)) = word_of_nat (length feature_specs)"
  using assms feature_specs_explicit [of _ "pr_operation r"]
  by (intro order_of_custom) (auto simp: list_ex_iff validate_request_ok kind_fits_def)

lemma resolve_explicit_ok:
  assumes "resolve_explicit catalog input (DescriptorIndex_new (in_inventory input)) p m = Inr m'"
    and "p \<in> set (pl_proposals (in_policy input))" and valid: "validate_request (pp_request p) = Inr ()"
    and "candidates_ok catalog input m"
  shows "candidates_ok catalog input m'"
proof (cases "list_ex (\<lambda>spec. fs_capability spec = pr_capability (pp_request p)
    \<and> fs_operation spec = operation_of (pr_operation (pp_request p))) feature_specs")
  case True
  with assms(1,4) show ?thesis by (simp add: resolve_explicit_def)
next
  case False
  note order = no_row_order [OF valid False]
  from False assms(1) obtain c seen where
    c: "resolve_spec catalog (in_policy input) (DescriptorIndex_new (in_inventory input))
        (custom_spec (pp_request p)) (order_of (fs_operation (custom_spec (pp_request p))))
        (Some (pr_target (pp_request p))) seen (Some p) = Inr c"
    and seen: "seen = find (\<lambda>f. cf_capability f = pr_capability (pp_request p)
        \<and> cf_target f = pr_target (pp_request p)
        \<and> cf_control f = fst (operation_shape (pr_operation (pp_request p))))
        (cs_facts (in_current_state input))"
    and ins: "insert_candidate c m = Inr m'"
    by (auto simp: resolve_explicit_def resolve_custom_def rbind_eq_Inr Let_def
        order [unfolded operation_of] case_prod_unfold split: if_splits)
  have "seen_fits input (custom_spec (pp_request p)) (Some (pr_target (pp_request p))) seen"
    unfolding seen by (auto simp: seen_fits_def find_Some_iff dest: nth_mem)
  moreover have "proposal_fits input (custom_spec (pp_request p)) (Some (pr_target (pp_request p))) (Some p)"
    using assms(2) custom_spec_fits [OF valid] by (simp add: proposal_fits_def)
  ultimately have "candidate_ok catalog input c"
    using resolve_spec_inner_of [OF c] resolve_spec_inner_ok by blast
  with ins assms(4) show ?thesis by (rule insert_candidate_ok)
qed

text \<open>The successful part of \<open>resolve\<close>, up to finalisation.\<close>

definition resolved_candidates ::
    "operation_catalog \<Rightarrow> planner_input \<Rightarrow> (candidate_key \<times> policy_proposal) list
     \<Rightarrow> (candidate_key \<times> candidate) list result" where
  "resolved_candidates catalog input proposals =
     (let descriptors = DescriptorIndex_new (in_inventory input) in
      rbind (try_fold (resolve_feature catalog input descriptors proposals)
         (zip [0..<length feature_specs] feature_specs) []) (\<lambda>candidates.
      try_fold (resolve_explicit catalog input descriptors) (map snd proposals) candidates))"

lemma resolve_eq_Inr:
  "resolve catalog input = Inr r \<longleftrightarrow>
     validate_policy (in_policy input) = Inr () \<and> OperationCatalog_validate catalog = Inr ()
     \<and> (\<exists>proposals candidates. select_proposals (pl_proposals (in_policy input)) = Inr proposals
          \<and> resolved_candidates catalog input proposals = Inr candidates
          \<and> finalize_candidates (in_policy input) candidates = Inr r)"
  by (auto simp: resolve_def resolved_candidates_def rbind_eq_Inr Let_def)

lemma resolved_candidates_ok:
  assumes "resolved_candidates catalog input proposals = Inr m"
    and "proposals_ok (pl_proposals (in_policy input)) proposals"
  shows "candidates_ok catalog input m"
proof -
  let ?d = "DescriptorIndex_new (in_inventory input)"
  from assms(1) obtain m1 where
    m1: "try_fold (resolve_feature catalog input ?d proposals)
         (zip [0..<length feature_specs] feature_specs) [] = Inr m1"
    and m: "try_fold (resolve_explicit catalog input ?d) (map snd proposals) m1 = Inr m"
    by (auto simp: resolved_candidates_def rbind_eq_Inr Let_def)
  have "candidates_ok catalog input m1"
    using m1
  proof (rule try_fold_invariant)
    fix x s s'
    assume x: "x \<in> set (zip [0..<length feature_specs] feature_specs)"
      and s: "candidates_ok catalog input s" "resolve_feature catalog input ?d proposals x s = Inr s'"
    from x obtain i where "i < length feature_specs" "x = (i, feature_specs ! i)"
      by (auto simp: set_zip)
    with s assms(2) show "candidates_ok catalog input s'" by (auto intro: resolve_feature_ok)
  qed (simp add: candidates_ok_def)
  with m show ?thesis
    by (rule try_fold_invariant)
      (use assms(2) in \<open>auto simp: proposals_ok_def intro: resolve_explicit_ok\<close>)
qed

end
