(* ===== verification/Plan_Text.thy ===== *)
theory Plan_Text
  imports Planner
begin

text \<open>
  The texts of \<open>planner.rs\<close> and its digests: the \<open>Display\<close> forms of values, features, actions and
  risks, the stable dry-run rendering of a plan, and the length-prefixed digest writer with its
  four-lane byte digest. The derived \<open>Debug\<close> form of a mutation kind, which is only fed to the
  digest, is the parameter \<open>debug_kind\<close>.
\<close>

section \<open>Display\<close>

definition dec_int :: "int \<Rightarrow> string" where
  "dec_int n = (if n < 0 then CHR ''-'' # dec_digits (nat (- n)) else dec_digits (nat n))"

primrec feature_name :: "feature \<Rightarrow> string" where
  "feature_name feature.CpuGovernor = ''CPU governor''"
| "feature_name feature.CpuFrequency = ''CPU frequency''"
| "feature_name feature.CpuEnergyPreference = ''CPU EPP''"
| "feature_name feature.CpuBoost = ''CPU boost/turbo''"
| "feature_name feature.PlatformProfile = ''platform profile''"
| "feature_name feature.CgroupCpu = ''cgroup CPU policy''"
| "feature_name feature.CpuPlacement = ''CPU placement''"
| "feature_name feature.GpuTuning = ''GPU tuning''"
| "feature_name feature.IrqTuning = ''IRQ tuning''"
| "feature_name feature.SchedulerTuning = ''scheduler/workload policy''"
| "feature_name feature.MemoryVm = ''memory/VM policy''"
| "feature_name feature.TransparentHugePages = ''THP''"
| "feature_name (feature.Custom capability) = ''custom capability '' @ capability_str capability"

primrec action_name :: "plan_action \<Rightarrow> string" where
  "action_name plan_action.Mutation = ''change''"
| "action_name plan_action.NoOp = ''no-op''"
| "action_name plan_action.Unsupported = ''unsupported''"
| "action_name plan_action.Preserved = ''preserved''"
| "action_name plan_action.ExplicitOptInRequired = ''explicit opt-in required''"
| "action_name plan_action.ExperimentalDisabled = ''experimental disabled''"
| "action_name plan_action.DeniedByPolicy = ''denied by policy''"
| "action_name plan_action.CapabilityDenied = ''capability denied''"
| "action_name plan_action.Indeterminate = ''indeterminate''"

primrec experimental_name :: "experimental_status \<Rightarrow> string" where
  "experimental_name NotExperimental = ''not-experimental''"
| "experimental_name experimental_status.Disabled = ''disabled''"
| "experimental_name OptInRequired = ''opt-in-required''"
| "experimental_name experimental_status.Enabled = ''enabled''"

primrec render_uclamp :: "uclamp_value \<Rightarrow> string" where
  "render_uclamp (uclamp_value.Value v) = dec_digits (unat v)"
| "render_uclamp uclamp_value.Max = ''max''"

primrec render_energy :: "energy_preference \<Rightarrow> string" where
  "render_energy energy_preference.Performance = ''performance''"
| "render_energy BalancePerformance = ''balance_performance''"
| "render_energy BalancePower = ''balance_power''"
| "render_energy Power = ''power''"

primrec render_gpu_profile :: "gpu_profile \<Rightarrow> string" where
  "render_gpu_profile gpu_profile.Performance = ''performance''"
| "render_gpu_profile gpu_profile.Balanced = ''balanced''"
| "render_gpu_profile PowerSave = ''powersave''"

primrec render_risk :: "risk_class \<Rightarrow> string" where
  "render_risk Low = ''low''"
| "render_risk Medium = ''medium''"
| "render_risk High = ''high''"
| "render_risk Critical = ''critical''"

primrec render_equality :: "equality_kind \<Rightarrow> string" where
  "render_equality ByteExact = ''byte-exact''"
| "render_equality ScalarExact = ''scalar-exact''"
| "render_equality SetExact = ''set-exact''"

definition render_rollback :: "control_id \<Rightarrow> restore_contract \<Rightarrow> string" where
  "render_rollback control contract =
     (case rc_mode contract of Some CompareAndRestore \<Rightarrow> ''compare-and-restore''
        | None \<Rightarrow> ''not defined'')
     @ '' original '' @ control_name control @ '' ('' @ render_equality (rc_equality contract) @ '')''"

fun join :: "string \<Rightarrow> string list \<Rightarrow> string" where
  "join sep [] = []"
| "join sep [s] = s"
| "join sep (s # t # rest) = s @ sep @ join sep (t # rest)"

definition render_cpus :: "cpu_set \<Rightarrow> string" where
  "render_cpus cpus = join '','' (map (\<lambda>c. dec_digits (unat c)) (cpus_list cpus))"

definition render_bound :: "frequency_khz option \<Rightarrow> string" where
  "render_bound b = (case b of None \<Rightarrow> ''preserve'' | Some k \<Rightarrow> dec_digits (unat (khz k)))"

text \<open>The \<open>Debug\<close> forms of field-less enumerations: the names of their variants.\<close>

primrec group_kind_debug :: "cgroup_group_kind \<Rightarrow> string" where
  "group_kind_debug Workload = ''Workload''"
| "group_kind_debug ConservativeBackground = ''ConservativeBackground''"

primrec io_class_debug :: "io_priority_class \<Rightarrow> string" where
  "io_class_debug NoClass = ''None''"
| "io_class_debug BestEffort = ''BestEffort''"
| "io_class_debug Idle = ''Idle''"

primrec sysctl_key_debug :: "approved_sysctl_key \<Rightarrow> string" where
  "sysctl_key_debug SchedulerUtilClamping = ''SchedulerUtilClamping''"

fun render_typed :: "typed_value \<Rightarrow> string" where
  "render_typed (Governor g) = governor_str g"
| "render_typed (EnergyPreference v) = render_energy v"
| "render_typed (typed_value.CpuBoost v) =
     (case v of cpu_boost_state.Enabled \<Rightarrow> ''enabled'' | cpu_boost_state.Disabled \<Rightarrow> ''disabled'')"
| "render_typed (typed_value.PlatformProfile p) = platform_profile_str p"
| "render_typed (typed_value.GpuPerformanceProfile p) = render_gpu_profile p"
| "render_typed (typed_value.GpuPowerLimit m) = dec_digits (unat (milliwatts_get m)) @ '' mW''"
| "render_typed (typed_value.IrqAffinity cpus) = render_cpus cpus"
| "render_typed (typed_value.CgroupCpuset cpus) = render_cpus cpus"
| "render_typed (typed_value.CpuFrequency lo hi) =
     ''min='' @ render_bound lo @ '' kHz max='' @ render_bound hi @ '' kHz''"
| "render_typed (typed_value.CgroupCpuWeight w) = dec_digits (unat (cpu_weight_get w))"
| "render_typed (typed_value.CgroupCpuMax quota period) =
     (case quota of cpu_quota.Max \<Rightarrow> ''max'' | Micros v \<Rightarrow> dec_digits (unat v))
     @ '' / '' @ dec_digits (unat (period_micros period)) @ '' us''"
| "render_typed (typed_value.CgroupIoWeight w) = dec_digits (unat (io_weight_get w))"
| "render_typed (typed_value.CgroupUclamp v) = render_uclamp v"
| "render_typed (CgroupLifecycle kind name present) =
     group_kind_debug kind @ '':'' @ cgroup_name_str name @ '':''
     @ (if present then ''true'' else ''false'')"
| "render_typed (typed_value.ProcessPlacement cgroup) = ''cgroup:'' @ target_str (handle cgroup)"
| "render_typed (Nice n) = dec_int (sint (nice_get n))"
| "render_typed (IoPriorityValue p) = io_class_debug (io_class p) @ '':'' @ dec_digits (unat (io_level p))"
| "render_typed (typed_value.RuntimeSysctl k v) =
     sysctl_key_debug k @ ''='' @ dec_int (sint (sysctl_get v))"

primrec render_value :: "plan_value \<Rightarrow> string" where
  "render_value (Text v) = observed_str v"
| "render_value (Typed v) = render_typed v"

section \<open>Dry run\<close>

definition line :: "string \<Rightarrow> string" where
  "line s = s @ [CHR 0x0A]"

definition render_item :: "plan_item \<Rightarrow> string" where
  "render_item item = line [] @ line (control_name (pi_control item))
     @ (case pi_target item of
          Some target \<Rightarrow> line (''  target: '' @ target_str target)
        | None \<Rightarrow> line ''  target: aggregate/unknown'')
     @ (case pi_current item of None \<Rightarrow> [] | Some v \<Rightarrow> line (''  current: '' @ render_value v))
     @ (case pi_desired item of None \<Rightarrow> [] | Some v \<Rightarrow> line (''  proposed: '' @ render_value v))
     @ line (''  action: '' @ action_name (pi_action item))
     @ line (''  risk: '' @ render_risk (pi_risk item))
     @ line (''  feature: '' @ feature_name (pi_feature item))
     @ (if pi_feature_class item = Experimental
        then line (''  experimental: '' @ experimental_name (pi_experimental item)) else [])
     @ (case pi_reason item of None \<Rightarrow> [] | Some reason \<Rightarrow> line (''  reason: '' @ reason))
     @ (if is_executable (pi_action item)
        then line (''  rollback: '' @ render_rollback (pi_control item) (pi_restore item))
           @ line (''  verify: bounded readback ('' @ render_equality (vc_equality (pi_verification item)) @ '')'')
        else [])
     @ line (''  rationale: '' @ pi_rationale item)"

definition render_dry_run :: "plan \<Rightarrow> string" where
  "render_dry_run plan =
     (case plan_profile plan of
        Some profile \<Rightarrow> line (''Profile: '' @ profile_name profile)
      | None \<Rightarrow> line ''Profile: unspecified'')
     @ concat (map render_item (plan_items plan))"

section \<open>Digests\<close>

text \<open>The bytes each \<open>DigestWriter\<close> method appends.\<close>

definition dw_u8 :: "u8 \<Rightarrow> u8 list" where "dw_u8 v = [v]"

definition dw_bool :: "bool \<Rightarrow> u8 list" where "dw_bool v = dw_u8 (if v then 1 else 0)"

definition dw_u32 :: "u32 \<Rightarrow> u8 list" where "dw_u32 v = to_be 4 v"

definition dw_u64 :: "u64 \<Rightarrow> u8 list" where "dw_u64 v = to_be 8 v"

definition dw_bytes :: "u8 list \<Rightarrow> u8 list" where
  "dw_bytes v = dw_u64 (word_of_nat (length v)) @ v"

definition dw_str :: "string \<Rightarrow> u8 list" where "dw_str v = dw_bytes (str_bytes v)"

definition dw_option_str :: "string option \<Rightarrow> u8 list" where
  "dw_option_str v = (case v of Some s \<Rightarrow> dw_bool True @ dw_str s | None \<Rightarrow> dw_bool False)"

definition digest_lanes :: "u64 list" where
  "digest_lanes = [0xcbf29ce484222325, 0x84222325cbf29ce4, 0x9e3779b185ebca87, 0xd6e8feb86659fd93]"

definition digest_byte :: "nat \<times> u8 \<Rightarrow> u64 list \<Rightarrow> u64 list" where
  "digest_byte entry lanes =
     (let (index, byte) = entry; lane = index mod length lanes;
          w = xor (lanes ! lane) (ucast byte);
          w = w * 0x100000001b3;
          w = xor w (word_rotl 27 w);
          w = w + word_of_nat index * 0x9e37
      in lanes[lane := w])"

definition stable_digest :: "u8 list \<Rightarrow> u8 list" where
  "stable_digest bytes =
     concat (map (to_be 8) (fold digest_byte (zip [0..<length bytes] bytes) digest_lanes))"

primrec target_kind_tag :: "target_kind \<Rightarrow> u8" where
  "target_kind_tag target_kind.CpuPolicy = 0"
| "target_kind_tag target_kind.CpuSystem = 1"
| "target_kind_tag target_kind.Cgroup = 2"
| "target_kind_tag target_kind.Process = 3"
| "target_kind_tag target_kind.Gpu = 4"
| "target_kind_tag target_kind.Irq = 5"
| "target_kind_tag target_kind.Sysctl = 6"

primrec equality_tag :: "equality_kind \<Rightarrow> u8" where
  "equality_tag ByteExact = 0"
| "equality_tag ScalarExact = 1"
| "equality_tag SetExact = 2"

primrec feature_class_tag :: "feature_class \<Rightarrow> u8" where
  "feature_class_tag RuntimeMutable = 0"
| "feature_class_tag Conditional = 1"
| "feature_class_tag Experimental = 2"
| "feature_class_tag BootOnlyReportOnly = 3"

primrec risk_tag :: "risk_class \<Rightarrow> u8" where
  "risk_tag Low = 0"
| "risk_tag Medium = 1"
| "risk_tag High = 2"
| "risk_tag Critical = 3"

primrec experimental_tag :: "experimental_status \<Rightarrow> u8" where
  "experimental_tag NotExperimental = 0"
| "experimental_tag experimental_status.Disabled = 1"
| "experimental_tag OptInRequired = 2"
| "experimental_tag experimental_status.Enabled = 3"

definition write_kind :: "(mutation_kind \<Rightarrow> string) \<Rightarrow> mutation_kind \<Rightarrow> u8 list" where
  "write_kind debug_kind kind = dw_str (operation_str (operation_of kind)) @ dw_str (debug_kind kind)"

definition fingerprint_for_value :: "plan_value \<Rightarrow> state_fingerprint" where
  "fingerprint_for_value v = StateFingerprint (stable_digest (str_bytes (render_value v)))"

definition write_preserve :: "preserve_rule \<Rightarrow> u8 list" where
  "write_preserve rule = dw_str (feature_name (pv_feature rule))
     @ dw_option_str (map_option target_str (pv_target rule)) @ dw_str (pv_reason rule)"

definition write_proposal :: "(mutation_kind \<Rightarrow> string) \<Rightarrow> policy_proposal \<Rightarrow> u8 list" where
  "write_proposal debug_kind proposal =
     dw_u8 (word_of_nat (precedence (pp_source proposal)))
     @ dw_str (capability_str (pr_capability (pp_request proposal)))
     @ dw_str (target_str (pr_target (pp_request proposal)))
     @ dw_bool (pr_required (pp_request proposal))
     @ write_kind debug_kind (pr_operation (pp_request proposal))"

definition digest_policy :: "(mutation_kind \<Rightarrow> string) \<Rightarrow> planner_policy \<Rightarrow> u8 list" where
  "digest_policy debug_kind policy = stable_digest (
     dw_str (profile_name (pl_profile policy))
     @ dw_u8 (case pl_mode policy of Report \<Rightarrow> 0 | Boost \<Rightarrow> 1)
     @ dw_u8 (risk_tag (pl_max_risk policy)) @ dw_bool (pl_allow_experimental policy)
     @ dw_bool (pl_required_default policy) @ dw_u64 (pl_session_timeout_ms policy)
     @ concat (map (\<lambda>feature. dw_str (feature_name feature)) (pl_explicit_opt_ins policy))
     @ concat (map write_preserve
         (sort_key (\<lambda>r. (pv_feature r, pv_target r, pv_reason r)) (pl_preserves policy)))
     @ concat (map (write_proposal debug_kind)
         (sort_key (\<lambda>p. (proposal_key (pp_request p), precedence (pp_source p)))
           (pl_proposals policy))))"

definition write_descriptor :: "capability_descriptor \<Rightarrow> u8 list" where
  "write_descriptor descriptor =
     dw_str (capability_str (cd_id descriptor)) @ dw_str (backend_str (cd_backend descriptor))
     @ dw_u8 (target_kind_tag (cd_target_kind descriptor))
     @ dw_u8 (word_of_nat (descriptor_rank (cd_state descriptor)))
     @ dw_u8 (equality_tag (cd_equality descriptor)) @ dw_u8 (risk_tag (cd_risk descriptor))
     @ dw_u8 (feature_class_tag (cd_classification descriptor))
     @ concat (map (\<lambda>operation. dw_str (operation_str (od_id operation))
           @ dw_u8 (equality_tag (od_equality operation))
           @ dw_u8 (feature_class_tag (od_classification operation)))
         (sort_key od_id (cd_operations descriptor)))
     @ concat (map (\<lambda>e. dw_str (evidence_name (ev_source e)) @ dw_str (ev_detail e))
         (canonicalize_evidence (cd_evidence descriptor)))"

definition digest_inventory :: "capability_inventory \<Rightarrow> u8 list" where
  "digest_inventory inventory = stable_digest (
     dw_u64 (ucast (unix_millis (ci_observed_at inventory)))
     @ concat (map write_descriptor
         (sort_key (\<lambda>d. (cd_id d, cd_backend d, descriptor_rank (cd_state d)))
           (ci_capabilities inventory))))"

definition write_item :: "(mutation_kind \<Rightarrow> string) \<Rightarrow> plan_item \<Rightarrow> u8 list" where
  "write_item debug_kind item =
     dw_str (capability_str (pi_capability item)) @ dw_str (operation_str (pi_operation item))
     @ dw_option_str (map_option backend_str (pi_backend item))
     @ dw_option_str (map_option target_str (pi_target item))
     @ dw_u8 (word_of_nat (control_rank (pi_control item)))
     @ dw_u8 (word_of_nat (action_rank (pi_action item)))
     @ dw_str (feature_name (pi_feature item)) @ dw_u8 (feature_class_tag (pi_feature_class item))
     @ dw_u8 (risk_tag (pi_risk item)) @ dw_u8 (experimental_tag (pi_experimental item))
     @ dw_bool (pi_explicit_opt_in_required item)
     @ dw_option_str (map_option render_value (pi_current item))
     @ dw_option_str (map_option render_value (pi_desired item))
     @ dw_str (pi_rationale item) @ dw_option_str (pi_reason item)
     @ concat (map (\<lambda>d. dw_u32 (mutation_num d)) (pi_dependencies item))
     @ (case pi_mutation item of None \<Rightarrow> []
        | Some mutation \<Rightarrow> dw_u32 (mutation_num (pm_mutation_id mutation))
            @ dw_bytes (fingerprint_bytes (pm_precondition mutation))
            @ write_kind debug_kind (pm_kind mutation))"

definition digest_resolution ::
    "(mutation_kind \<Rightarrow> string) \<Rightarrow> policy_resolution \<Rightarrow> u8 list \<Rightarrow> u8 list \<Rightarrow> u8 list" where
  "digest_resolution debug_kind resolution policy_digest capability_digest = stable_digest (
     dw_str (profile_name (re_profile resolution)) @ dw_bytes policy_digest
     @ dw_bytes capability_digest @ concat (map (write_item debug_kind) (re_items resolution)))"

lemma length_stable_digest [simp]: "length (stable_digest bytes) = 32"
proof -
  have *: "length (digest_byte e lanes) = length lanes" for e lanes
    by (simp add: digest_byte_def Let_def split: prod.split)
  have "length (fold digest_byte es lanes) = length lanes" for es lanes
    by (induction es arbitrary: lanes) (simp_all add: *)
  then have "sum_list (map (\<lambda>w. length (to_be 8 w)) (fold digest_byte es digest_lanes)) = 32" for es
    by (simp add: sum_list_triv digest_lanes_def)
  then show ?thesis by (simp add: stable_digest_def length_concat comp_def)
qed

section \<open>The planner\<close>

definition TypedPlanner_build ::
    "(mutation_kind \<Rightarrow> string) \<Rightarrow> operation_catalog \<Rightarrow> planner_input \<Rightarrow> plan result" where
  "TypedPlanner_build debug_kind catalog input =
     rbind (resolve catalog input) (\<lambda>resolution.
     let policy_digest = digest_policy debug_kind (in_policy input);
         capability_digest = digest_inventory (in_inventory input);
         digest = digest_resolution debug_kind resolution policy_digest capability_digest;
         id_bytes = take 16 digest
     in Plan_from_items (PlanId id_bytes) digest policy_digest capability_digest
          (re_profile resolution) (re_items resolution))"

definition Planner_build ::
    "(mutation_kind \<Rightarrow> string) \<Rightarrow> operation_catalog \<Rightarrow> plan_request \<Rightarrow> plan result" where
  "Planner_build debug_kind catalog request =
     TypedPlanner_build debug_kind catalog
       \<lparr>in_policy = from_policy profile.Balanced (preq_policy request),
        in_inventory = preq_inventory request,
        in_current_state = CurrentState_empty (ci_observed_at (preq_inventory request))\<rparr>"

end
