(* ===== verification/Planner_Build.thy ===== *)
theory Planner_Build
  imports Planner_Safety Plan_Text "HOL-Library.Multiset"
begin

text \<open>
  From candidates to plans. The items of a resolution are the candidates in key order, with the
  mutations numbered in a topological order; a plan built from them passes \<open>Plan::validate\<close>, and
  every mutation in it was admitted by every gate of the policy.
\<close>

section \<open>The items of a resolution\<close>

lemma assigned_fields:
  assumes "assigned ids deps i c c'"
  shows "ca_key c' = ca_key c" and "pi_action (ca_item c') = pi_action (ca_item c)"
  using assms by (auto simp: assigned_def Let_def)

lemma candidate_ok_cand_ordered:
  "candidate_ok catalog input c \<Longrightarrow> cand_ordered c"
  by (auto simp: candidate_ok_def cand_ordered_def plan_admitted_def is_executable_def Let_def
      OperationContract_validate_ok split: option.splits)

definition finalized ::
    "operation_catalog \<Rightarrow> planner_input \<Rightarrow> candidate list \<Rightarrow> (nat \<times> nat list) list \<Rightarrow> nat list
     \<Rightarrow> candidate list \<Rightarrow> bool" where
  "finalized catalog input cs deps ord cs' \<longleftrightarrow>
     (\<forall>c \<in> set cs. candidate_ok catalog input c)
     \<and> sorted_wrt (<) (map ca_key cs)
     \<and> (\<forall>i \<in> mutation_set cs. candidate_dependencies cs i = Inr (required_of deps i))
     \<and> deps_ok (mutation_set cs) deps
     \<and> distinct ord \<and> set ord = mutation_set cs \<and> topo (required_of deps) ord
     \<and> length cs' = length cs
     \<and> (\<forall>i < length cs. if i \<in> set ord
          then assigned (mutation_ids ord) deps i (cs ! i) (cs' ! i) else cs' ! i = cs ! i)"

lemma candidates_ok_list:
  assumes "candidates_ok catalog input m"
  shows "\<forall>c \<in> set (map snd m). candidate_ok catalog input c"
    and "map ca_key (map snd m) = map fst m"
  using assms by (auto simp: candidates_ok_def)

lemma finalize_ok:
  assumes "finalize_candidates policy m = Inr r" and "candidates_ok catalog input m"
  obtains deps ord cs' where "finalized catalog input (map snd m) deps ord cs'"
    "re_items r = map ca_item cs'" "re_profile r = pl_profile policy"
proof -
  let ?cs = "map snd m"
  from assms(1) obtain deps cs' where
    deps: "collect_dependencies ?cs (mutation_indices ?cs) [] = Inr deps"
    and len: "length (order_candidates ?cs deps) = length (mutation_indices ?cs)"
    and cs': "try_fold (assign_mutation (mutation_ids (order_candidates ?cs deps)) deps)
        (order_candidates ?cs deps) ?cs = Inr cs'"
    and r: "re_items r = map ca_item (sort_key (\<lambda>c. (ca_key c, pi_action (ca_item c))) cs')"
      "re_profile r = pl_profile policy"
    by (auto simp: finalize_candidates_def rbind_eq_Inr Let_def split: if_splits)
  let ?ord = "order_candidates ?cs deps"
  note ok = candidates_ok_list [OF assms(2)]
  have ordered: "\<forall>c \<in> set ?cs. cand_ordered c" using ok(1) candidate_ok_cand_ordered by blast
  note dd = collected_deps_ok [OF deps ordered]
  have drained: "ordering_done (mutation_set ?cs) deps ?ord" by (rule order_candidates_done [OF dd(1)])
  have "set ?ord = mutation_set ?cs"
  proof (rule card_subset_eq)
    show "finite (mutation_set ?cs)" by (simp add: mutation_set_def)
    show "set ?ord \<subseteq> mutation_set ?cs" using drained by (simp add: ordering_done_def)
    have "card (set ?ord) = length (mutation_indices ?cs)"
      using drained len by (simp add: ordering_done_def distinct_card)
    then show "card (set ?ord) = card (mutation_set ?cs)"
      by (metis distinct_card mutation_indices_distinct mutation_indices_set)
  qed
  moreover have "distinct ?ord" "topo (required_of deps) ?ord" using drained by (simp_all add: ordering_done_def)
  ultimately have assign: "length cs' = length ?cs" "\<forall>i < length ?cs. if i \<in> set ?ord
          then assigned (mutation_ids ?ord) deps i (?cs ! i) (cs' ! i) else cs' ! i = ?cs ! i"
    using assign_mutations_ok [OF cs'] by (auto simp: mutation_set_def)
  have sorted: "sorted_wrt (<) (map ca_key ?cs)"
    using assms(2) unfolding ok(2) candidates_ok_def bt_sorted_def by blast
  have keys: "map ca_key cs' = map ca_key ?cs"
  proof (rule nth_equalityI)
    fix i assume "i < length (map ca_key cs')"
    then have "i < length ?cs" using assign(1) by simp
    with assign(2) assign(1) show "map ca_key cs' ! i = map ca_key ?cs ! i"
      by (cases "i \<in> set ?ord") (auto simp: assigned_fields(1) dest!: spec [of _ i])
  qed (simp add: assign(1))
  have "sorted (map (\<lambda>c. (ca_key c, pi_action (ca_item c))) cs')"
  proof -
    have "sorted_wrt (<) (map ca_key cs')" using sorted keys by simp
    then show ?thesis
      unfolding sorted_wrt_map by (rule sorted_wrt_mono_rel [rotated]) (auto simp: less_eq_prod_def)
  qed
  then have "re_items r = map ca_item cs'" using r by (simp add: sort_key_id_if_sorted)
  moreover have "finalized catalog input ?cs deps ?ord cs'"
    unfolding finalized_def
    using ok(1) sorted dd \<open>set ?ord = mutation_set ?cs\<close> \<open>distinct ?ord\<close> \<open>topo (required_of deps) ?ord\<close> assign
    by blast
  ultimately show ?thesis using that r(2) by blast
qed

lemma resolve_ok:
  assumes "resolve catalog input = Inr r"
  obtains cs deps ord cs' where "finalized catalog input cs deps ord cs'"
    "re_items r = map ca_item cs'" "re_profile r = pl_profile (in_policy input)"
  using assms unfolding resolve_eq_Inr
  by (elim conjE exE) (rule finalize_ok, assumption, erule resolved_candidates_ok,
      erule select_proposals_ok, blast)

section \<open>Items and their mutations\<close>

lemma finalized_plain:
  assumes "finalized catalog input cs deps ord cs'" and "i < length cs" and "i \<notin> set ord"
  shows "cs' ! i = cs ! i" "ca_mutation (cs ! i) = None" "pi_action (ca_item (cs ! i)) \<noteq> Mutation"
    "pi_mutation (ca_item (cs ! i)) = None"
proof -
  from assms show "cs' ! i = cs ! i" by (simp add: finalized_def)
  from assms have "i \<notin> mutation_set cs" and ok: "candidate_ok catalog input (cs ! i)"
    by (auto simp: finalized_def)
  with assms(2) show m: "ca_mutation (cs ! i) = None" by (simp add: mutation_set_def)
  from ok m show "pi_action (ca_item (cs ! i)) \<noteq> Mutation" "pi_mutation (ca_item (cs ! i)) = None"
    by (auto simp: candidate_ok_def Let_def)
qed

definition drafted :: "mutation_draft \<Rightarrow> planned_mutation \<Rightarrow> bool" where
  "drafted draft m \<longleftrightarrow> pm_capability m = md_capability draft \<and> pm_target m = md_target draft
     \<and> pm_kind m = md_kind draft \<and> pm_desired m = md_desired draft
     \<and> pm_precondition m = md_precondition draft \<and> pm_equality m = md_equality draft"

lemma finalized_mutation:
  assumes "finalized catalog input cs deps ord cs'" and "j < length ord"
  obtains draft m where "ord ! j < length cs" "ca_mutation (cs ! (ord ! j)) = Some draft"
    "plan_admitted catalog input (ca_item (cs ! (ord ! j))) draft"
    "ca_item (cs' ! (ord ! j)) = (ca_item (cs ! (ord ! j)))
       \<lparr>pi_dependencies := pm_dependencies m, pi_mutation := Some m\<rparr>"
    "drafted draft m" "pm_mutation_id m = MutationId (word_of_nat (j + 1))"
    "pm_dependencies m = map (\<lambda>d. the (mutation_ids ord d)) (required_of deps (ord ! j))"
proof -
  let ?i = "ord ! j"
  from assms(2) have "?i \<in> set ord" by simp
  with assms(1) have i: "?i < length cs" "ca_mutation (cs ! ?i) \<noteq> None"
    and a: "assigned (mutation_ids ord) deps ?i (cs ! ?i) (cs' ! ?i)"
    and ok: "candidate_ok catalog input (cs ! ?i)" and "distinct ord"
    by (auto simp: finalized_def mutation_set_def)
  then obtain draft where d: "ca_mutation (cs ! ?i) = Some draft" by blast
  with ok have adm: "plan_admitted catalog input (ca_item (cs ! ?i)) draft"
    by (simp add: candidate_ok_def Let_def)
  then have ident: "pi_target_identity (ca_item (cs ! ?i)) = Some (md_target_identity draft)"
    by (auto simp: plan_admitted_def Let_def)
  have id: "the (mutation_ids ord ?i) = MutationId (word_of_nat (j + 1))"
    using mutation_ids_nth [OF \<open>distinct ord\<close> assms(2)] by simp
  from a d obtain m where m: "PlannedMutation_new (MutationId (word_of_nat (j + 1)))
      (md_capability draft) (md_target draft) (md_kind draft) (md_desired draft)
      (md_precondition draft) (md_equality draft)
      (map (\<lambda>d. the (mutation_ids ord d)) (required_of deps ?i)) = Inr m"
    and c': "ca_item (cs' ! ?i) = (ca_item (cs ! ?i))
      \<lparr>pi_dependencies := map (\<lambda>d. the (mutation_ids ord d)) (required_of deps ?i),
       pi_mutation := Some m, pi_target_identity := Some (md_target_identity draft)\<rparr>"
    by (auto simp: assigned_def Let_def id simp del: of_nat_Suc)
  have same: "x\<lparr>pi_dependencies := ds, pi_mutation := q, pi_target_identity := pi_target_identity x\<rparr>
      = x\<lparr>pi_dependencies := ds, pi_mutation := q\<rparr>" for x :: plan_item and ds q
    by (cases x) simp
  from m have "drafted draft m" "pm_mutation_id m = MutationId (word_of_nat (j + 1))"
    and deps: "pm_dependencies m = map (\<lambda>d. the (mutation_ids ord d)) (required_of deps ?i)"
    by (auto simp: PlannedMutation_new_ok drafted_def)
  with that i d adm c' ident same show ?thesis by metis
qed

lemma admitted_update [simp]:
  "plan_admitted catalog input (item\<lparr>pi_dependencies := ds, pi_mutation := q\<rparr>) draft
     \<longleftrightarrow> plan_admitted catalog input item draft"
  by (simp add: plan_admitted_def)

section \<open>The mutations of a plan\<close>

definition ordered_mutations :: "candidate list \<Rightarrow> nat list \<Rightarrow> planned_mutation list" where
  "ordered_mutations cs' ord = map (\<lambda>i. the (pi_mutation (ca_item (cs' ! i)))) ord"

lemma ordered_mutations_nth:
  assumes "finalized catalog input cs deps ord cs'" and "j < length ord"
  shows "pi_mutation (ca_item (cs' ! (ord ! j))) = Some (ordered_mutations cs' ord ! j)"
    and "pm_mutation_id (ordered_mutations cs' ord ! j) = MutationId (word_of_nat (j + 1))"
    and "pm_dependencies (ordered_mutations cs' ord ! j)
      = map (\<lambda>d. the (mutation_ids ord d)) (required_of deps (ord ! j))"
  by (rule finalized_mutation [OF assms]; simp add: ordered_mutations_def assms(2))+

lemma mutation_id_less:
  assumes "j < k" and "k + 1 < 2 ^ 32"
  shows "MutationId (word_of_nat (j + 1)) < MutationId (word_of_nat (k + 1))"
  using assms
  by (simp add: less_mutation_id_def word_less_nat_alt unat_of_nat take_bit_nat_eq_self del: of_nat_Suc of_nat_add)

lemma ordered_mutations_sorted:
  assumes "finalized catalog input cs deps ord cs'" and "length ord < 2 ^ 32 - 1"
  shows "sorted_wrt (<) (map pm_mutation_id (ordered_mutations cs' ord))"
  unfolding sorted_wrt_iff_nth_less
proof (intro allI impI)
  fix j k assume "j < k" "k < length (map pm_mutation_id (ordered_mutations cs' ord))"
  moreover have "length (ordered_mutations cs' ord) = length ord" by (simp add: ordered_mutations_def)
  ultimately show "map pm_mutation_id (ordered_mutations cs' ord) ! j
      < map pm_mutation_id (ordered_mutations cs' ord) ! k"
    using ordered_mutations_nth(2) [OF assms(1)] mutation_id_less [of j k] assms(2) by simp
qed

lemma map_filter_nth:
  "List.map_filter g xs = map (\<lambda>i. the (g (xs ! i))) (filter (\<lambda>i. g (xs ! i) \<noteq> None) [0..<length xs])"
proof -
  have "List.map_filter g xs = List.map_filter g (map ((!) xs) [0..<length xs])" by (simp only: map_nth)
  also have "\<dots> = map (\<lambda>i. the (g (xs ! i))) (filter (\<lambda>i. g (xs ! i) \<noteq> None) [0..<length xs])"
    by (simp add: List.map_filter_def filter_map comp_def)
  finally show ?thesis .
qed

lemma finalized_mutating:
  assumes "finalized catalog input cs deps ord cs'" and "i < length cs"
  shows "pi_mutation (ca_item (cs' ! i)) \<noteq> None \<longleftrightarrow> i \<in> set ord"
proof
  assume "i \<in> set ord"
  then obtain j where "j < length ord" "i = ord ! j" by (auto simp: in_set_conv_nth)
  with ordered_mutations_nth(1) [OF assms(1)] show "pi_mutation (ca_item (cs' ! i)) \<noteq> None" by auto
qed (use finalized_plain [OF assms] in force)

lemma item_mutations_ordered:
  assumes "finalized catalog input cs deps ord cs'" and "length ord < 2 ^ 32 - 1"
  shows "item_mutations (map ca_item cs') = ordered_mutations cs' ord"
proof -
  let ?f = "\<lambda>i. the (pi_mutation (ca_item (cs' ! i)))"
  let ?xs = "item_mutations (map ca_item cs')" and ?ys = "ordered_mutations cs' ord"
  have len: "length cs' = length cs" using assms(1) by (simp add: finalized_def)
  let ?is = "filter (\<lambda>i. i \<in> set ord) [0..<length cs]"
  have "filter (\<lambda>i. pi_mutation (map ca_item cs' ! i) \<noteq> None) [0..<length (map ca_item cs')] = ?is"
    by (rule filter_cong) (use finalized_mutating [OF assms(1)] in \<open>auto simp: len\<close>)
  then have items: "List.map_filter pi_mutation (map ca_item cs') = map ?f ?is"
    unfolding map_filter_nth by (rule map_cong) (simp add: len)
  have "set ord \<subseteq> {..<length cs}" "distinct ord" using assms(1) by (auto simp: finalized_def mutation_set_def)
  then have "mset ?is = mset ord" by (subst set_eq_iff_mset_eq_distinct [symmetric]) auto
  then have mset: "mset ?xs = mset ?ys"
    by (simp add: item_mutations_def items ordered_mutations_def)
  note sorted = ordered_mutations_sorted [OF assms]
  have keys: "map pm_mutation_id ?xs = map pm_mutation_id ?ys"
  proof (rule properties_for_sort [of "map pm_mutation_id ?ys" "map pm_mutation_id ?xs", THEN trans [rotated]])
    show "mset (map pm_mutation_id ?ys) = mset (map pm_mutation_id ?xs)" using mset by simp
    show "sorted (map pm_mutation_id ?ys)" using sorted by (simp add: strict_sorted_iff)
    show "map pm_mutation_id ?xs = sort (map pm_mutation_id ?xs)"
      by (simp add: item_mutations_def sorted_sort_id)
  qed
  have inj: "inj_on pm_mutation_id (set ?ys)"
    using sorted by (simp add: strict_sorted_iff distinct_map)
  moreover have "set ?xs = set ?ys" using mset by (rule mset_eq_setD)
  ultimately show ?thesis using keys by (metis inj_on_map_eq_map sup.idem)
qed

lemma ordered_mutations_topological:
  assumes "finalized catalog input cs deps ord cs'" and "length ord < 2 ^ 32 - 1"
  shows "topological (ordered_mutations cs' ord)"
proof -
  have d: "distinct ord" "topo (required_of deps) ord" and ok: "deps_ok (mutation_set cs) deps"
    using assms(1) by (simp_all add: finalized_def)
  note nth = ordered_mutations_nth [OF assms(1)]
  have len: "length (ordered_mutations cs' ord) = length ord" by (simp add: ordered_mutations_def)
  have ids: "the (mutation_ids ord (ord ! k)) = pm_mutation_id (ordered_mutations cs' ord ! k)"
    if "k < length ord" for k
    using mutation_ids_nth [OF d(1) that] nth(2) [OF that] by simp
  have distinct: "distinct (map pm_mutation_id (ordered_mutations cs' ord))"
    using ordered_mutations_sorted [OF assms] by (simp add: strict_sorted_iff)
  have "distinct (pm_dependencies (ordered_mutations cs' ord ! j))
      \<and> set (pm_dependencies (ordered_mutations cs' ord ! j))
        \<subseteq> pm_mutation_id ` set (take j (ordered_mutations cs' ord))" if j: "j < length ord" for j
  proof -
    let ?r = "required_of deps (ord ! j)"
    have r: "distinct ?r" "set ?r \<subseteq> set (take j ord)"
      using deps_okD(2) [OF ok] d(2) j by (auto simp: topo_def)
    have below: "\<exists>k < j. x = ord ! k \<and> k < length ord" if "x \<in> set ?r" for x
      using r(2) that j by (fastforce simp: in_set_conv_nth)
    have "inj_on (\<lambda>x. the (mutation_ids ord x)) (set ?r)"
    proof (rule inj_onI)
      fix x y assume xy: "x \<in> set ?r" "y \<in> set ?r" "the (mutation_ids ord x) = the (mutation_ids ord y)"
      from below [OF xy(1)] below [OF xy(2)] obtain k l where
        k: "x = ord ! k" "k < length ord" and l: "y = ord ! l" "l < length ord" by blast
      with xy(3) ids distinct len have "k = l" by (auto simp: distinct_conv_nth)
      with k l show "x = y" by simp
    qed
    then have "distinct (pm_dependencies (ordered_mutations cs' ord ! j))"
      using r(1) by (simp add: nth(3) [OF j] distinct_map)
    moreover have "the (mutation_ids ord x) \<in> pm_mutation_id ` set (take j (ordered_mutations cs' ord))"
      if x: "x \<in> set ?r" for x
    proof -
      from below [OF x] obtain k where k: "k < j" "x = ord ! k" "k < length ord" by blast
      then have "ordered_mutations cs' ord ! k \<in> set (take j (ordered_mutations cs' ord))"
        by (auto simp: in_set_conv_nth len j intro!: exI [of _ k])
      with ids [OF k(3)] k(2) show ?thesis by auto
    qed
    ultimately show ?thesis by (auto simp: nth(3) [OF j])
  qed
  with distinct len show ?thesis by (simp add: topological_def)
qed

section \<open>The items of a plan\<close>

lemma admitted_item_valid:
  assumes "plan_admitted catalog input item draft" and "drafted draft m"
  shows "PlanItem_validate (item\<lparr>pi_dependencies := pm_dependencies m, pi_mutation := Some m\<rparr>) = Inr ()
    \<longleftrightarrow> pi_evidence item \<noteq> []"
proof -
  from assms(1) obtain contract where
    c: "OperationContract_validate contract = Inr ()" "OperationContract_is_complete contract"
    and item: "pi_action item = Mutation" "pi_backend item = Some (oc_backend contract)"
      "pi_snapshot item = oc_snapshot contract" "pi_restore item = oc_restore contract"
      "pi_verification item = oc_verification contract"
      "pi_target_identity item = Some (md_target_identity draft)"
      "pi_desired item = Some (Typed (md_desired draft))" "pi_current item \<noteq> None"
      "md_capability draft = pi_capability item" "pi_target item = Some (md_target draft)"
      "operation_of (md_kind draft) = pi_operation item" "md_equality draft = oc_equality contract"
    unfolding plan_admitted_def Let_def by blast
  have "operation_id (pm_kind m) = Some (pi_operation item)"
    using item(11) assms(2) by (simp add: drafted_def operation_id_Some)
  with c item assms(2) show ?thesis
    by (auto simp: PlanItem_validate_def drafted_def is_executable_def OperationContract_validate_ok
        OperationContract_is_complete_def)
qed

lemma finalized_item_valid:
  assumes "finalized catalog input cs deps ord cs'" and "i < length cs"
  shows "PlanItem_validate (ca_item (cs' ! i)) = Inr () \<longleftrightarrow>
    (pi_action (ca_item (cs' ! i)) = Mutation \<longrightarrow> pi_evidence (ca_item (cs' ! i)) \<noteq> [])"
proof (cases "i \<in> set ord")
  case False
  from finalized_plain [OF assms False] show ?thesis
    by (simp add: PlanItem_validate_def is_executable_def)
next
  case True
  then obtain j where j: "j < length ord" "i = ord ! j" by (auto simp: in_set_conv_nth)
  from finalized_mutation [OF assms(1) j(1)] obtain draft m where
    a: "plan_admitted catalog input (ca_item (cs ! i)) draft" "drafted draft m"
    and item: "ca_item (cs' ! i) = (ca_item (cs ! i))
       \<lparr>pi_dependencies := pm_dependencies m, pi_mutation := Some m\<rparr>"
    unfolding j(2) by blast
  moreover have "pi_action (ca_item (cs ! i)) = Mutation"
    using a(1) by (auto simp: plan_admitted_def Let_def)
  ultimately show ?thesis using admitted_item_valid [OF a] by simp
qed

lemma admitted_control:
  "plan_admitted catalog input item draft \<Longrightarrow> pi_control item = fst (operation_shape (md_kind draft))"
  unfolding plan_admitted_def Let_def by (elim conjE exE) (rule sym)

lemma finalized_executable:
  assumes "finalized catalog input cs deps ord cs'" and "i < length cs"
    and "is_executable (pi_action (ca_item (cs' ! i)))"
  obtains draft where "plan_admitted catalog input (ca_item (cs' ! i)) draft"
    "ca_key (cs ! i) = (CapabilityId (expected_capability (md_kind draft)),
       pi_target (ca_item (cs' ! i)), OperationId (operation_name (md_kind draft)),
       order_of (OperationId (operation_name (md_kind draft))))"
proof -
  have "i \<in> set ord"
  proof (rule ccontr)
    assume "i \<notin> set ord"
    from finalized_plain [OF assms(1,2) this] assms(3) show False by (simp add: is_executable_def)
  qed
  then obtain j where j: "j < length ord" "i = ord ! j" by (auto simp: in_set_conv_nth)
  from finalized_mutation [OF assms(1) j(1)] obtain draft m where
    a: "plan_admitted catalog input (ca_item (cs ! i)) draft"
    and item: "ca_item (cs' ! i) = (ca_item (cs ! i))
       \<lparr>pi_dependencies := pm_dependencies m, pi_mutation := Some m\<rparr>"
    unfolding j(2) by blast
  have "candidate_ok catalog input (cs ! i)" using assms(1,2) by (simp add: finalized_def)
  with a item have "ca_key (cs ! i) = (CapabilityId (expected_capability (md_kind draft)),
       pi_target (ca_item (cs' ! i)), OperationId (operation_name (md_kind draft)),
       order_of (OperationId (operation_name (md_kind draft))))"
    by (auto simp: candidate_ok_def plan_admitted_def Let_def)
  with a item that show ?thesis by simp
qed

lemma finalized_no_conflict:
  assumes "finalized catalog input cs deps ord cs'" and "i < length cs" and "j < i"
    and "is_executable (pi_action (ca_item (cs' ! i)))" "is_executable (pi_action (ca_item (cs' ! j)))"
  shows "\<not> (pi_target (ca_item (cs' ! j)) = pi_target (ca_item (cs' ! i))
     \<and> pi_control (ca_item (cs' ! j)) = pi_control (ca_item (cs' ! i)))"
proof
  assume same: "pi_target (ca_item (cs' ! j)) = pi_target (ca_item (cs' ! i))
     \<and> pi_control (ca_item (cs' ! j)) = pi_control (ca_item (cs' ! i))"
  from assms(2,3) have j: "j < length cs" by simp
  obtain d where d: "plan_admitted catalog input (ca_item (cs' ! i)) d"
    "ca_key (cs ! i) = (CapabilityId (expected_capability (md_kind d)),
       pi_target (ca_item (cs' ! i)), OperationId (operation_name (md_kind d)),
       order_of (OperationId (operation_name (md_kind d))))"
    using finalized_executable [OF assms(1,2,4)] by blast
  obtain e where e: "plan_admitted catalog input (ca_item (cs' ! j)) e"
    "ca_key (cs ! j) = (CapabilityId (expected_capability (md_kind e)),
       pi_target (ca_item (cs' ! j)), OperationId (operation_name (md_kind e)),
       order_of (OperationId (operation_name (md_kind e))))"
    using finalized_executable [OF assms(1) j assms(5)] by blast
  from d(1) e(1) same have "fst (operation_shape (md_kind d)) = fst (operation_shape (md_kind e))"
    by (simp add: admitted_control)
  from operation_shape_inject [OF this] same d(2) e(2) have "ca_key (cs ! i) = ca_key (cs ! j)" by simp
  moreover have "ca_key (cs ! j) < ca_key (cs ! i)"
    using assms(1-3) by (simp add: finalized_def sorted_wrt_iff_nth_less)
  ultimately show False by simp
qed

lemma finalized_items_agree:
  assumes "finalized catalog input cs deps ord cs'"
    and "plan_items p = map ca_item cs'" "plan_mutations p = item_mutations (plan_items p)"
  shows "items_agree p \<longleftrightarrow> (\<forall>item \<in> set (plan_items p). pi_action item = Mutation \<longrightarrow> pi_evidence item \<noteq> [])"
proof -
  have len: "length cs' = length cs" using assms(1) by (simp add: finalized_def)
  have "(\<forall>item \<in> set (map ca_item cs'). PlanItem_validate item = Inr ())
    \<longleftrightarrow> (\<forall>item \<in> set (map ca_item cs'). pi_action item = Mutation \<longrightarrow> pi_evidence item \<noteq> [])"
    using finalized_item_valid [OF assms(1)] len by (simp add: all_set_conv_all_nth)
  then show ?thesis
    using assms(3) finalized_no_conflict [OF assms(1)] len
    unfolding items_agree_def assms(2) by (auto simp: assms(2))
qed

lemma finalized_length:
  assumes "finalized catalog input cs deps ord cs'"
  shows "length ord \<le> length cs"
proof -
  have "distinct ord" "set ord \<subseteq> {..<length cs}" using assms by (auto simp: finalized_def mutation_set_def)
  then show ?thesis using card_mono [of "{..<length cs}" "set ord"] by (simp add: distinct_card)
qed

lemma build_eq_Inr:
  assumes "resolve catalog input = Inr r"
  shows "TypedPlanner_build debug_kind catalog input = Inr plan \<longleftrightarrow>
    plan = \<lparr>plan_id = plan_id plan, plan_digest = plan_digest plan,
        plan_policy_digest = digest_policy debug_kind (in_policy input),
        plan_capability_digest = digest_inventory (in_inventory input),
        plan_mutations = item_mutations (re_items r), plan_items = re_items r,
        plan_profile = Some (re_profile r)\<rparr>
    \<and> plan_digest plan = digest_resolution debug_kind r (digest_policy debug_kind (in_policy input))
        (digest_inventory (in_inventory input))
    \<and> plan_id plan = PlanId (take 16 (plan_digest plan))
    \<and> Plan_validate_complete plan = Inr ()"
  by (cases plan) (auto simp: TypedPlanner_build_def Plan_from_items_def Let_def assms rbind_eq_Inr)

end
