(* ===== verification/Planner_Results.thy ===== *)
theory Planner_Results
  imports Planner_Build
begin

text \<open>
  The results about the planner: what a plan's mutations have passed, when a resolution becomes a
  plan, what a required request gets, which proposal wins, and when the ordering loop orders every
  mutation.
\<close>

section \<open>Required requests\<close>

lemma set_bt_insert_new: "map_of m k = None \<Longrightarrow> set (bt_insert k v m) = insert (k, v) (set m)"
  by (induction k v m rule: bt_insert.induct) (auto split: if_splits)

lemma insert_candidate_set:
  assumes "insert_candidate c m = Inr m'"
  shows "set m \<subseteq> set m' \<and> ca_item c \<in> ca_item ` snd ` set m'"
proof (cases "map_of m (ca_key c)")
  case None
  with assms have "m' = bt_insert (ca_key c) c m" by (simp add: insert_candidate_def)
  with None have "set m' = insert (ca_key c, c) (set m)" by (simp add: set_bt_insert_new)
  then show ?thesis by (simp add: subset_insertI)
next
  case (Some existing)
  with assms have "m' = m" "ca_item existing = ca_item c"
    by (auto simp: insert_candidate_def split: if_splits)
  moreover from map_of_SomeD [OF Some] have "existing \<in> snd ` set m" by force
  ultimately show ?thesis by (metis image_eqI order_refl)
qed

lemma mutation_shape:
  assumes "resolve_spec_inner catalog policy descriptors spec order target seen proposal = Inr c"
  shows "plain_decision order spec target c \<or>
    (\<exists>v contract t cur evidence draft. wanted policy spec seen proposal = Some v \<and> target = Some t
       \<and> c = Candidate_mutation order (fs_capability spec) (fs_operation spec) contract t
           (fs_control spec) cur (Some v) (fs_feature spec) evidence draft)"
  using resolve_spec_inner_cases [OF assms]
proof (elim disjE exE conjE)
  fix d v evidence
  assume v: "wanted policy spec seen proposal = Some v"
    and m: "resolve_mutation catalog policy descriptors spec order target seen proposal v
           (current_of seen) (case seen of None \<Rightarrow> None | Some f \<Rightarrow> cf_target_identity f) evidence
           (fs_feature spec) (cd_classification d) (cd_risk d) (fs_explicit_opt_in spec)
           (experimental_of policy (fs_feature spec) (cd_classification d) (fs_explicit_opt_in spec))
         = Inr c"
  from resolve_mutation_cases [OF m] show ?thesis
    by (elim disjE exE conjE) (simp, drule admit_mutation_cases, use v in blast)
qed simp

lemma resolve_spec_inner_desired:
  assumes "resolve_spec_inner catalog policy descriptors spec order target seen proposal = Inr c"
    and "pi_action (ca_item c) \<in> {Mutation, NoOp}"
  shows "pi_desired (ca_item c) = wanted policy spec seen proposal"
proof (cases "pi_action (ca_item c) = NoOp")
  case True
  with assms(1) resolve_spec_inner_NoOp show ?thesis by blast
next
  case False
  with assms(2) have "\<not> plain_decision order spec target c" by (simp add: plain_decision_def)
  with mutation_shape [OF assms(1)] show ?thesis by (auto simp: Candidate_mutation_def)
qed

lemma resolve_spec_key:
  assumes "resolve_spec_inner catalog policy descriptors spec order target seen proposal = Inr c"
  shows "pi_capability (ca_item c) = fs_capability spec \<and> pi_operation (ca_item c) = fs_operation spec
    \<and> pi_target (ca_item c) = target"
  using mutation_shape [OF assms] by (auto simp: plain_decision_def Candidate_mutation_def)

definition met :: "policy_request \<Rightarrow> plan_item \<Rightarrow> bool" where
  "met request item \<longleftrightarrow> pi_capability item = pr_capability request
     \<and> pi_target item = Some (pr_target request) \<and> pi_operation item = operation_of (pr_operation request)
     \<and> pi_action item \<in> {Mutation, NoOp}
     \<and> pi_desired item = Some (Typed (kind_value (pr_operation request)))"

lemma resolve_spec_met:
  assumes "resolve_spec catalog policy descriptors spec order (Some (pr_target (pp_request p))) seen (Some p)
      = Inr c"
    and "request_required policy (Some p)" and "kind_fits spec (pr_operation (pp_request p))"
    and "fs_capability spec = pr_capability (pp_request p)"
  shows "met (pp_request p) (ca_item c)"
proof -
  note c = resolve_spec_inner_of [OF assms(1)]
  with assms(2) have a: "pi_action (ca_item c) \<in> {Mutation, NoOp}" by blast
  with c resolve_spec_inner_desired
  have "pi_desired (ca_item c) = wanted policy spec seen (Some p)" by blast
  with resolve_spec_key [OF conjunct1 [OF c]] a assms(3,4) show ?thesis
    by (simp add: met_def wanted_def kind_fits_def)
qed

lemma explicit_target_mem:
  assumes "(k, p) \<in> set proposals" and "pr_capability (pp_request p) = fs_capability spec"
    and "operation_of (pr_operation (pp_request p)) = fs_operation spec"
  shows "Some (pr_target (pp_request p)) \<in> set (spec_targets proposals spec facts)"
proof -
  let ?mine = "filter (\<lambda>p. pr_capability (pp_request p) = fs_capability spec
    \<and> operation_of (pr_operation (pp_request p)) = fs_operation spec) (map snd proposals)"
  have "p \<in> snd ` set proposals" using assms(1) by (metis image_eqI snd_conv)
  then have "p \<in> set ?mine" using assms(2,3) by simp
  then have "Some (pr_target (pp_request p)) \<in> set (map Some (map (\<lambda>p. pr_target (pp_request p)) ?mine))"
    unfolding set_map by (intro imageI)
  then have listed: "Some (pr_target (pp_request p)) \<in> set (map (\<lambda>f. Some (cf_target f)) facts
      @ map Some (map (\<lambda>p. pr_target (pp_request p)) ?mine))"
    unfolding set_append by blast
  have "x \<in> set (remdups_adj (sort (if ts = [] then [None] else ts)))"
    if "x \<in> set ts" for x and ts :: "target_id option list" using that by auto
  from this [OF listed] show ?thesis unfolding spec_targets_def Let_def .
qed

lemma required_candidate:
  assumes "resolved_candidates catalog input selected = Inr m"
    and ok: "proposals_ok (pl_proposals (in_policy input)) selected"
    and p: "p \<in> snd ` set selected" "request_required (in_policy input) (Some p)"
  shows "\<exists>item \<in> ca_item ` snd ` set m. met (pp_request p) item"
proof -
  let ?d = "DescriptorIndex_new (in_inventory input)"
  let ?r = "pp_request p"
  let ?Q = "\<lambda>m. \<exists>item \<in> ca_item ` snd ` set m. met ?r item"
  from assms(1) obtain m1 where
    m1: "try_fold (resolve_feature catalog input ?d selected)
         (zip [0..<length feature_specs] feature_specs) [] = Inr m1"
    and m: "try_fold (resolve_explicit catalog input ?d) (map snd selected) m1 = Inr m"
    by (auto simp: resolved_candidates_def rbind_eq_Inr Let_def)
  have keep: "?Q s'" if "insert_candidate c s = Inr s'" "?Q s" for c s s'
    using insert_candidate_set [OF that(1)] that(2) by blast
  have put: "?Q s'" if "insert_candidate c s = Inr s'" "met ?r (ca_item c)" for c s s'
    using insert_candidate_set [OF that(1)] that(2) by blast
  have keep_target: "?Q s'" if "resolve_target catalog pol ds selected spec or fs tg s = Inr s'" "?Q s"
    for pol ds spec "or" fs tg s s'
    using that unfolding resolve_target_def rbind_eq_Inr by (elim exE conjE) (rule keep)
  have keep_feature: "?Q s'" if "resolve_feature catalog input ?d selected x s = Inr s'" "?Q s" for x s s'
  proof -
    obtain n spec where "x = (n, spec)" by (cases x)
    with that(1) have "try_fold (resolve_target catalog (in_policy input) ?d selected spec (word_of_nat n)
        (spec_facts (in_current_state input) spec))
        (spec_targets selected spec (spec_facts (in_current_state input) spec)) s = Inr s'"
      by (simp add: resolve_feature_def Let_def)
    then show ?thesis using that(2) by (rule try_fold_invariant) (rule keep_target)
  qed
  have keep_explicit: "?Q s'" if "resolve_explicit catalog input ?d x s = Inr s'" "?Q s" for x s s'
  proof (cases "s' = s")
    case False
    with that(1) obtain c where "insert_candidate c s = Inr s'"
      by (auto simp: resolve_explicit_def rbind_eq_Inr split: if_splits)
    then show ?thesis using that(2) by (rule keep)
  qed (use that(2) in simp)
  from p(1) ok obtain k where kp: "(k, p) \<in> set selected" and k: "k = request_key ?r"
    and valid: "validate_request ?r = Inr ()" by (auto simp: proposals_ok_def)
  show ?thesis
  proof (cases "list_ex (\<lambda>spec. fs_capability spec = pr_capability ?r
      \<and> fs_operation spec = operation_of (pr_operation ?r)) feature_specs")
    case True
    then obtain i where i: "i < length feature_specs"
      and spec: "fs_capability (feature_specs ! i) = pr_capability ?r"
        "fs_operation (feature_specs ! i) = operation_of (pr_operation ?r)"
      by (auto simp: list_ex_iff in_set_conv_nth)
    let ?spec = "feature_specs ! i"
    let ?facts = "spec_facts (in_current_state input) ?spec"
    have found: "proposal_for selected (fs_capability ?spec) (fs_operation ?spec) (Some (pr_target ?r)) = Some p"
      using kp k ok spec by (simp add: proposal_for_def request_key_def proposals_ok_def map_of_in_set [symmetric])
    have target: "Some (pr_target ?r) \<in> set (spec_targets selected ?spec ?facts)"
      using kp spec by (rule explicit_target_mem [OF _ sym sym])
    have fits: "kind_fits ?spec (pr_operation ?r)"
      using feature_specs_explicit i spec(2) nth_mem by blast
    have row: "?Q s'" if s: "resolve_feature catalog input ?d selected (i, ?spec) s = Inr s'" for s s'
    proof -
      from s have "try_fold (resolve_target catalog (in_policy input) ?d selected ?spec (word_of_nat i) ?facts)
          (spec_targets selected ?spec ?facts) s = Inr s'" by (simp add: resolve_feature_def Let_def)
      then show ?thesis
      proof (rule try_fold_reaches [OF _ target])
        fix s s'
        assume "resolve_target catalog (in_policy input) ?d selected ?spec (word_of_nat i) ?facts
            (Some (pr_target ?r)) s = Inr s'"
        then obtain c seen where "resolve_spec catalog (in_policy input) ?d ?spec (word_of_nat i)
            (Some (pr_target ?r)) seen (Some p) = Inr c" and ins: "insert_candidate c s = Inr s'"
          unfolding resolve_target_def found rbind_eq_Inr by blast
        from resolve_spec_met [OF this(1) p(2) fits spec(1)] show "?Q s'" by (rule put [OF ins])
      qed (rule keep_target)
    qed
    have mem: "(i, ?spec) \<in> set (zip [0..<length feature_specs] feature_specs)"
      using i by (auto simp: set_zip intro!: exI [of _ i])
    have "?Q m1"
      by (rule try_fold_reaches [where Q = ?Q, OF m1 mem]) (rule row, assumption, rule keep_feature)
    with m show ?thesis by (rule try_fold_invariant) (rule keep_explicit)
  next
    case False
    have own: "?Q s'" if s: "resolve_explicit catalog input ?d p s = Inr s'" for s s'
    proof -
      from s False obtain c seen where "resolve_spec catalog (in_policy input) ?d (custom_spec ?r)
          (word_of_nat (length feature_specs)) (Some (pr_target ?r)) seen (Some p) = Inr c"
        "insert_candidate c s = Inr s'"
        by (auto simp: resolve_explicit_def resolve_custom_def rbind_eq_Inr Let_def case_prod_unfold
            split: if_splits)
      from resolve_spec_met [OF this(1) p(2) custom_spec_fits [OF valid]]
      show ?thesis by (intro put [OF \<open>insert_candidate c s = Inr s'\<close>]) simp
    qed
    have mem: "p \<in> set (map snd selected)" using p(1) by simp
    show ?thesis
      by (rule try_fold_reaches [where Q = ?Q, OF m mem]) (rule own, assumption, rule keep_explicit)
  qed
qed

section \<open>Selection\<close>

text \<open>
  The loop over the sorted proposals: every processed proposal is represented by a selected one of
  the same key and at least its precedence, and agrees with it at equal precedence.
\<close>

definition pkey :: "policy_proposal \<Rightarrow> candidate_key" where
  "pkey p = request_key (pp_request p)"

definition prec :: "policy_proposal \<Rightarrow> nat" where
  "prec p = precedence (pp_source p)"

definition represents :: "policy_proposal \<Rightarrow> policy_proposal \<Rightarrow> bool" where
  "represents q p \<longleftrightarrow> pkey q = pkey p \<and> prec p \<le> prec q
     \<and> (prec p = prec q \<longrightarrow> pr_operation (pp_request p) = pr_operation (pp_request q))"

definition selection :: "policy_proposal set \<Rightarrow> (candidate_key \<times> policy_proposal) list \<Rightarrow> bool" where
  "selection P sel \<longleftrightarrow> bt_sorted sel
     \<and> (\<forall>p \<in> P. validate_request (pp_request p) = Inr ())
     \<and> (\<forall>p \<in> P. \<exists>q. map_of sel (pkey p) = Some q \<and> represents q p)
     \<and> (\<forall>k q. map_of sel k = Some q \<longrightarrow> q \<in> P \<and> pkey q = k)"

definition conflict :: "policy_proposal set \<Rightarrow> bool" where
  "conflict P \<longleftrightarrow> (\<exists>p \<in> P. \<exists>q \<in> P. pkey p = pkey q \<and> prec p = prec q
     \<and> pr_operation (pp_request p) \<noteq> pr_operation (pp_request q)
     \<and> (\<forall>s \<in> P. pkey s = pkey p \<longrightarrow> prec s \<le> prec p))"

lemma pkey_eq: "pkey p = pkey q \<longleftrightarrow> proposal_key (pp_request p) = proposal_key (pp_request q)"
  by (auto simp: pkey_def request_key_def proposal_key_def CandidateKey_new_def)

lemma select_proposal_eq:
  "select_proposal p sel = rbind (validate_request (pp_request p)) (\<lambda>_.
     case map_of sel (pkey p) of
       None \<Rightarrow> Inr (bt_insert (pkey p) p sel)
     | Some q \<Rightarrow>
         (if pr_operation (pp_request q) = pr_operation (pp_request p) then Inr sel
          else if prec q > prec p then Inr sel
          else if prec q < prec p then Inr (bt_insert (pkey p) p sel)
          else Inl (planning_error ''equal-precedence policy sources propose incompatible values'')))"
  by (simp add: select_proposal_def pkey_def prec_def Let_def cong: option.case_cong if_cong)

lemma select_proposal_step:
  assumes "selection P sel" and later: "\<forall>q \<in> P. pkey q = pkey p \<longrightarrow> prec p \<le> prec q"
  shows "case select_proposal p sel of
      Inr sel' \<Rightarrow> selection (insert p P) sel'
    | Inl e \<Rightarrow> validate_request (pp_request p) \<noteq> Inr ()
        \<or> (\<exists>q \<in> P. pkey q = pkey p \<and> prec q = prec p
            \<and> pr_operation (pp_request q) \<noteq> pr_operation (pp_request p)
            \<and> (\<forall>s \<in> P. pkey s = pkey p \<longrightarrow> prec s \<le> prec p))"
proof (cases "validate_request (pp_request p)")
  case (Inl e)
  then show ?thesis by (simp add: select_proposal_eq)
next
  case (Inr u)
  show ?thesis
  proof (cases "map_of sel (pkey p)")
    case None
    with assms(1) have fresh: "\<forall>q \<in> P. pkey q \<noteq> pkey p" by (force simp: selection_def)
    have "selection (insert p P) (bt_insert (pkey p) p sel)"
      using assms(1) Inr fresh by (auto simp: selection_def represents_def)
    with Inr None show ?thesis by (simp add: select_proposal_eq)
  next
    case (Some q)
    with assms(1) have q: "q \<in> P" "pkey q = pkey p" unfolding selection_def by blast+
    with later have le: "prec p \<le> prec q" by blast
    show ?thesis
    proof (cases "pr_operation (pp_request q) = pr_operation (pp_request p) \<or> prec q > prec p")
      case True
      with le q have "represents q p" by (auto simp: represents_def)
      with assms(1) Inr Some have "selection (insert p P) sel" by (auto simp: selection_def)
      with True Inr Some show ?thesis by (auto simp: select_proposal_eq)
    next
      case False
      with le have eq: "prec q = prec p" by simp
      have "prec s \<le> prec p" if "s \<in> P" "pkey s = pkey p" for s
      proof -
        from assms(1) that(1) obtain q' where "map_of sel (pkey s) = Some q'" "represents q' s"
          unfolding selection_def by blast
        with Some that(2) eq show ?thesis by (auto simp: represents_def)
      qed
      with False Inr Some le q eq show ?thesis by (auto simp: select_proposal_eq)
    qed
  qed
qed

lemma selection_fold:
  assumes "selection P sel" and "\<forall>q \<in> P. \<forall>x \<in> set xs. pkey q = pkey x \<longrightarrow> prec x \<le> prec q"
    and "sorted_wrt (\<lambda>q x. pkey q = pkey x \<longrightarrow> prec x \<le> prec q) xs"
  shows "case try_fold select_proposal xs sel of
      Inr sel' \<Rightarrow> selection (P \<union> set xs) sel'
    | Inl e \<Rightarrow> (\<exists>p \<in> set xs. validate_request (pp_request p) \<noteq> Inr ()) \<or> conflict (P \<union> set xs)"
  using assms
proof (induction xs arbitrary: P sel)
  case (Cons x xs)
  then have step: "case select_proposal x sel of
      Inr sel' \<Rightarrow> selection (insert x P) sel'
    | Inl e \<Rightarrow> validate_request (pp_request x) \<noteq> Inr ()
        \<or> (\<exists>q \<in> P. pkey q = pkey x \<and> prec q = prec x
            \<and> pr_operation (pp_request q) \<noteq> pr_operation (pp_request x)
            \<and> (\<forall>s \<in> P. pkey s = pkey x \<longrightarrow> prec s \<le> prec x))"
    by (intro select_proposal_step) auto
  show ?case
  proof (cases "select_proposal x sel")
    case (Inr sel')
    have "insert x P \<union> set xs = P \<union> set (x # xs)" by auto
    with step Inr Cons.IH [of "insert x P" sel'] Cons.prems(2,3) show ?thesis
      by (auto split: sum.splits)
  next
    case (Inl e)
    show ?thesis
    proof (cases "validate_request (pp_request x) = Inr ()")
      case True
      with step Inl obtain q where q: "q \<in> P" "pkey q = pkey x" "prec q = prec x"
        "pr_operation (pp_request q) \<noteq> pr_operation (pp_request x)"
        and top: "\<forall>s \<in> P. pkey s = pkey x \<longrightarrow> prec s \<le> prec x" by auto
      have "conflict (P \<union> set (x # xs))"
        unfolding conflict_def using q top Cons.prems(3)
        by (intro bexI [of _ q] bexI [of _ x]) auto
      with Inl show ?thesis by simp
    qed (use Inl in auto)
  qed
qed simp

lemma selection_no_conflict: "selection P sel \<Longrightarrow> \<not> conflict P"
proof
  assume s: "selection P sel" and "conflict P"
  then obtain p q where pq: "p \<in> P" "q \<in> P" "pkey p = pkey q" "prec p = prec q"
    "pr_operation (pp_request p) \<noteq> pr_operation (pp_request q)"
    "\<forall>s \<in> P. pkey s = pkey p \<longrightarrow> prec s \<le> prec p" by (auto simp: conflict_def)
  from s pq(1) obtain r where r: "map_of sel (pkey p) = Some r" "represents r p"
    unfolding selection_def by blast
  from s pq(2) obtain r' where "map_of sel (pkey q) = Some r'" "represents r' q"
    unfolding selection_def by blast
  with r(1) pq(3) have "represents r q" by simp
  moreover have "r \<in> P" "pkey r = pkey p" using s r(1) unfolding selection_def by blast+
  ultimately show False using r(2) pq by (auto simp: represents_def)
qed

lemma sorted_proposals:
  "sorted_wrt (\<lambda>q x. pkey q = pkey x \<longrightarrow> prec x \<le> prec q)
     (sort_key (\<lambda>p. (proposal_key (pp_request p), - int (precedence (pp_source p)))) ps)"
proof -
  let ?k = "\<lambda>p. (proposal_key (pp_request p), - int (precedence (pp_source p)))"
  have "sorted_wrt (\<lambda>q x. ?k q \<le> ?k x) (sort_key ?k ps)"
    using sorted_sort_key [of ?k ps] by (simp only: sorted_map)
  then show ?thesis
    by (rule sorted_wrt_mono_rel [rotated]) (auto simp: pkey_eq prec_def less_eq_prod_def)
qed

text \<open>
  C16: the proposals that win. \<open>select_proposals\<close> accepts exactly the lists in which every request
  names the capability of its operation and no two proposals of the highest precedence for one
  capability, target and operation ask for different values; the result then holds, for every key
  that is proposed, one of the proposals of the highest precedence, and nothing else.
\<close>

theorem selected_proposals_exact:
  "case select_proposals ps of
     Inr selected \<Rightarrow> selection (set ps) selected
       \<and> (\<forall>p \<in> set ps. validate_request (pp_request p) = Inr ()) \<and> \<not> conflict (set ps)
   | Inl e \<Rightarrow> (\<exists>p \<in> set ps. validate_request (pp_request p) \<noteq> Inr ()) \<or> conflict (set ps)"
proof -
  have "selection {} []" by (simp add: selection_def)
  from selection_fold [OF this _ sorted_proposals [of ps]] show ?thesis
    by (auto simp: select_proposals_def selection_no_conflict split: sum.splits)
      (auto simp: selection_def)
qed

text \<open>
  Of two proposals of one source that differ only in the required flag, the one listed first is
  kept: whether the request is required depends on the order of the list.
\<close>

lemma required_flag_depends_on_order:
  assumes "validate_request r = Inr ()"
  shows "select_proposals [PolicyProposal_new s r, PolicyProposal_new s (r\<lparr>pr_required := True\<rparr>)]
      = Inr [(request_key r, PolicyProposal_new s r)]"
    and "select_proposals [PolicyProposal_new s (r\<lparr>pr_required := True\<rparr>), PolicyProposal_new s r]
      = Inr [(request_key r, PolicyProposal_new s (r\<lparr>pr_required := True\<rparr>))]"
  using assms
  by (simp_all add: select_proposals_def select_proposal_def PolicyProposal_new_def validate_request_def
      request_key_def proposal_key_def Let_def split: if_splits)

section \<open>Plans\<close>

lemma same_item:
  "x\<lparr>pi_dependencies := pi_dependencies x, pi_mutation := pi_mutation x\<rparr> = x" for x :: plan_item
  by (cases x) simp

lemma finalized_item_kept:
  assumes "finalized catalog input cs deps ord cs'" and "i < length cs"
  shows "\<exists>ds q. ca_item (cs' ! i) = (ca_item (cs ! i))\<lparr>pi_dependencies := ds, pi_mutation := q\<rparr>"
proof (cases "i \<in> set ord")
  case False
  show ?thesis
    unfolding finalized_plain(1) [OF assms False]
    by (intro exI) (rule same_item [symmetric])
next
  case True
  then obtain j where j: "j < length ord" "i = ord ! j" by (auto simp: in_set_conv_nth)
  from finalized_mutation [OF assms(1) j(1)] show ?thesis unfolding j(2) by blast
qed

lemma item_mutations_mem:
  "m \<in> set (item_mutations items) \<longleftrightarrow> (\<exists>item \<in> set items. pi_mutation item = Some m)"
proof -
  have "m \<in> set (List.map_filter g xs) \<longleftrightarrow> (\<exists>x \<in> set xs. g x = Some m)" for g and xs :: "plan_item list"
    by (induction xs) (auto simp: List.map_filter_def)
  then show ?thesis by (simp add: item_mutations_def)
qed

lemma met_update [simp]:
  "met r (item\<lparr>pi_dependencies := ds, pi_mutation := q\<rparr>) \<longleftrightarrow> met r item"
  by (simp add: met_def)

lemma plan_mutation_admitted:
  assumes "resolve catalog input = Inr r" and "m \<in> set (item_mutations (re_items r))"
  shows "\<exists>item \<in> set (re_items r). \<exists>draft. pi_mutation item = Some m \<and> drafted draft m
    \<and> plan_admitted catalog input item draft"
proof -
  obtain cs deps ord cs' where f: "finalized catalog input cs deps ord cs'"
    and items: "re_items r = map ca_item cs'" and "re_profile r = pl_profile (in_policy input)"
    by (rule resolve_ok [OF assms(1)])
  have len: "length cs' = length cs" using f by (simp add: finalized_def)
  from assms(2) obtain c where "c \<in> set cs'" "pi_mutation (ca_item c) = Some m"
    unfolding item_mutations_mem items set_map by blast
  then obtain i where i: "i < length cs" "pi_mutation (ca_item (cs' ! i)) = Some m"
    unfolding in_set_conv_nth len by blast
  from finalized_mutating [OF f i(1)] i(2) obtain j where j: "j < length ord" "i = ord ! j"
    by (auto simp: in_set_conv_nth)
  from finalized_mutation [OF f j(1)] obtain draft m' where
    d: "plan_admitted catalog input (ca_item (cs ! i)) draft" "drafted draft m'"
    "ca_item (cs' ! i) = (ca_item (cs ! i))\<lparr>pi_dependencies := pm_dependencies m', pi_mutation := Some m'\<rparr>"
    unfolding j(2) by blast
  from i(2) have "m' = m" unfolding d(3) by simp
  moreover from d(1) have "plan_admitted catalog input (ca_item (cs' ! i)) draft"
    unfolding d(3) admitted_update .
  moreover have "ca_item (cs' ! i) \<in> set (re_items r)" using i(1) len by (simp add: items)
  ultimately show ?thesis using d(2) i(2) by blast
qed

lemma build_plan_fields:
  assumes "TypedPlanner_build debug_kind catalog input = Inr plan"
  obtains r where "resolve catalog input = Inr r" "plan_items plan = re_items r"
    "plan_mutations plan = item_mutations (re_items r)"
  using assms by (auto simp: TypedPlanner_build_def Plan_from_items_def rbind_eq_Inr Let_def)

lemma build_iff_evidence:
  assumes "resolve catalog input = Inr r" and "length (re_items r) < 2 ^ 32 - 1"
  shows "(\<exists>plan. TypedPlanner_build debug_kind catalog input = Inr plan) \<longleftrightarrow>
    (\<forall>item \<in> set (re_items r). pi_action item = Mutation \<longrightarrow> pi_evidence item \<noteq> [])"
proof -
  obtain cs deps ord cs' where f: "finalized catalog input cs deps ord cs'"
    and items: "re_items r = map ca_item cs'" and "re_profile r = pl_profile (in_policy input)"
    by (rule resolve_ok [OF assms(1)])
  have "length cs' = length cs" using f by (simp add: finalized_def)
  with assms(2) finalized_length [OF f] have short: "length ord < 2 ^ 32 - 1" by (simp add: items)
  have topo: "topological (item_mutations (re_items r))"
    using ordered_mutations_topological [OF f short] item_mutations_ordered [OF f short] items by simp
  define policy_digest where "policy_digest = digest_policy debug_kind (in_policy input)"
  define capability_digest where "capability_digest = digest_inventory (in_inventory input)"
  define digest where "digest = digest_resolution debug_kind r policy_digest capability_digest"
  let ?plan = "\<lparr>plan_id = PlanId (take 16 digest), plan_digest = digest,
      plan_policy_digest = policy_digest, plan_capability_digest = capability_digest,
      plan_mutations = item_mutations (re_items r), plan_items = re_items r,
      plan_profile = Some (re_profile r)\<rparr>"
  have "(\<exists>plan. TypedPlanner_build debug_kind catalog input = Inr plan)
      \<longleftrightarrow> Plan_validate_complete ?plan = Inr ()"
    by (simp add: TypedPlanner_build_def assms(1) Plan_from_items_def Let_def rbind_eq_Inr
        policy_digest_def capability_digest_def digest_def)
  also have "\<dots> \<longleftrightarrow> (\<forall>item \<in> set (re_items r). pi_action item = Mutation \<longrightarrow> pi_evidence item \<noteq> [])"
    using topo finalized_items_agree [OF f, of ?plan] items
    by (auto simp: Plan_validate_complete_ok item_mutations_def List.map_filter_def)
  finally show ?thesis .
qed

section \<open>Completeness of the order\<close>

definition dependency_edges :: "(nat \<times> nat list) list \<Rightarrow> (nat \<times> nat) set" where
  "dependency_edges deps = {(d, i). d \<in> set (required_of deps i)}"

lemma topo_acyclic:
  assumes "topo req ord" and "distinct ord" and "{(d, i). d \<in> set (req i)} \<subseteq> set ord \<times> set ord"
  shows "acyclic {(d, i). d \<in> set (req i)}"
proof -
  let ?pos = "\<lambda>x. LEAST j. j < length ord \<and> ord ! j = x"
  have pos: "?pos (ord ! j) = j" if "j < length ord" for j
    using that assms(2) by (intro Least_equality) (auto simp: distinct_conv_nth)
  have "?pos d < ?pos i" if "d \<in> set (req i)" for d i
  proof -
    from that assms(3) have "i \<in> set ord" by auto
    then obtain j where j: "j < length ord" "i = ord ! j" by (auto simp: in_set_conv_nth)
    with assms(1) that have "d \<in> set (take j ord)" by (auto simp: topo_def)
    then obtain k where "k < j" "d = ord ! k" by (auto simp: in_set_conv_nth)
    with j pos show ?thesis by simp
  qed
  then have "{(d, i). d \<in> set (req i)} \<subseteq> measure ?pos" by auto
  then show ?thesis by (meson wf_acyclic wf_measure wf_subset)
qed

text \<open>
  C17: the ordering loop terminates with every mutation ordered, dependencies first, exactly when
  the dependencies between the executable candidates are acyclic; otherwise it stops short and
  \<open>finalize_candidates\<close> reports the cycle.
\<close>

theorem ordering_complete_iff_acyclic:
  assumes "\<forall>c \<in> set cs. cand_ordered c"
    and "collect_dependencies cs (mutation_indices cs) [] = Inr deps"
  shows "topo (required_of deps) (order_candidates cs deps)
    \<and> (length (order_candidates cs deps) = length (mutation_indices cs)
       \<longleftrightarrow> acyclic (dependency_edges deps))"
proof -
  let ?ord = "order_candidates cs deps" and ?M = "mutation_set cs"
  note ok = collected_deps_ok(1) [OF assms(2,1)]
  have drained: "ordering_done ?M deps ?ord" by (rule order_candidates_done [OF ok])
  then have d: "distinct ?ord" "set ?ord \<subseteq> ?M" "topo (required_of deps) ?ord"
    by (simp_all add: ordering_done_def)
  have card: "length (mutation_indices cs) = card ?M" and fin: "finite ?M"
    using mutation_indices_set [of cs] mutation_indices_distinct [of cs] deps_okD(3) [OF ok]
    by (metis distinct_card, blast)
  have edges: "dependency_edges deps \<subseteq> ?M \<times> ?M"
    using ok required_of_mem by (fastforce simp: dependency_edges_def deps_ok_def)
  have "length ?ord = card ?M \<longleftrightarrow> set ?ord = ?M"
    using d fin by (metis card_subset_eq distinct_card)
  moreover have "set ?ord = ?M \<longleftrightarrow> acyclic (dependency_edges deps)"
  proof
    assume "set ?ord = ?M"
    with topo_acyclic [OF d(3,1)] edges show "acyclic (dependency_edges deps)"
      by (simp add: dependency_edges_def)
  next
    assume "acyclic (dependency_edges deps)"
    moreover have "finite (dependency_edges deps)" using edges fin by (meson finite_SigmaI finite_subset)
    ultimately have wf: "wf (dependency_edges deps)" by (rule finite_acyclic_wf [rotated])
    show "set ?ord = ?M"
    proof (rule ccontr)
      assume "set ?ord \<noteq> ?M"
      with d(2) obtain x where "x \<in> ?M - set ?ord" by blast
      with wf obtain z where z: "z \<in> ?M - set ?ord"
        and least: "\<And>y. (y, z) \<in> dependency_edges deps \<Longrightarrow> y \<notin> ?M - set ?ord"
        by (rule wfE_min) blast
      from drained z obtain y where y: "y \<in> set (required_of deps z)" "y \<notin> set ?ord"
        by (auto simp: ordering_done_def)
      then have "(y, z) \<in> dependency_edges deps" by (simp add: dependency_edges_def)
      with least edges y(2) show False by blast
    qed
  qed
  ultimately show ?thesis using d(3) card by simp
qed


text \<open>
  C14: a successful resolution becomes a plan exactly when every mutating item carries evidence: the
  numbering is a topological order, no two items write one control of one target, and every item
  agrees with its mutation, so the plan's own validation has nothing else to reject.
\<close>

theorem resolution_builds_plan:
  assumes "resolve catalog input = Inr r" and "length (re_items r) < 2 ^ 32 - 1"
  shows "(\<exists>plan. TypedPlanner_build debug_kind catalog input = Inr plan) \<longleftrightarrow>
    (\<forall>item \<in> set (re_items r). pi_action item = Mutation \<longrightarrow> pi_evidence item \<noteq> [])"
  using assms by (rule build_iff_evidence)

text \<open>
  C15: a required request that was selected is met. If the resolution succeeds, an item for its
  capability, target and operation wants the requested value and either mutates to it or finds it
  already current.
\<close>

theorem required_requests_met:
  assumes "resolve catalog input = Inr r"
    and "select_proposals (pl_proposals (in_policy input)) = Inr selected"
    and "p \<in> snd ` set selected" and "request_required (in_policy input) (Some p)"
  shows "\<exists>item \<in> set (re_items r). met (pp_request p) item"
proof -
  from assms(1,2) obtain m where m: "resolved_candidates catalog input selected = Inr m"
    and fin: "finalize_candidates (in_policy input) m = Inr r" by (auto simp: resolve_eq_Inr)
  note ok = select_proposals_ok [OF assms(2)]
  obtain deps ord cs' where f: "finalized catalog input (map snd m) deps ord cs'"
    and items: "re_items r = map ca_item cs'" and "re_profile r = pl_profile (in_policy input)"
    by (rule finalize_ok [OF fin resolved_candidates_ok [OF m ok]])
  from required_candidate [OF m ok assms(3,4)] obtain i where
    i: "i < length (map snd m)" "met (pp_request p) (ca_item (map snd m ! i))"
    by (auto simp: in_set_conv_nth)
  from finalized_item_kept [OF f i(1)] i(2) have "met (pp_request p) (ca_item (cs' ! i))" by auto
  moreover have "ca_item (cs' ! i) \<in> set (re_items r)"
    using i(1) f by (simp add: items finalized_def)
  ultimately show ?thesis by blast
qed

end
