(* ===== verification/Planner_Witnesses.thy ===== *)
theory Planner_Witnesses
  imports Planner_Results
begin

text \<open>
  One evaluated planner run: a discovered CPU policy, an available governor capability with its
  contract, and a required request. The theorems of \<open>Planner_Results\<close> are applied to it.
\<close>

section \<open>The run\<close>

definition ex_catalog :: operation_catalog where
  "ex_catalog = [OperationContract_complete (OperationId ''cpu.governor'')
     (CapabilityId ''cpu.policy.governor'') (BackendId ''linux.cpu'') target_kind.CpuPolicy
     control_id.CpuGovernor ByteExact Low RuntimeMutable False]"

definition ex_inventory :: capability_inventory where
  "ex_inventory = \<lparr>ci_observed_at = Timestamp 1, ci_capabilities =
     [\<lparr>cd_id = CapabilityId ''cpu.policy.governor'', cd_backend = BackendId ''linux.cpu'',
       cd_target_kind = target_kind.CpuPolicy, cd_state = Available,
       cd_operations = [\<lparr>od_id = OperationId ''cpu.governor'', od_privilege = PrivilegedMutation,
         od_equality = ByteExact, od_classification = RuntimeMutable\<rparr>],
       cd_privilege = PrivilegedMutation, cd_equality = ByteExact, cd_risk = Low,
       cd_classification = RuntimeMutable,
       cd_evidence = [\<lparr>ev_source = Sysfs, ev_detail = ''governor''\<rparr>]\<rparr>]\<rparr>"

definition ex_fact :: current_state_fact where
  "ex_fact = with_typed_target (typed_target.CpuPolicy (CpuPolicyId 0))
     (with_target_identity (TargetIdentity (replicate 32 1))
       (CurrentStateFact_known (CapabilityId ''cpu.policy.governor'') (TargetId ''policy0'')
         control_id.CpuGovernor (Typed (Governor (GovernorId ''powersave'')))
         (StateFingerprint (replicate 32 2))))"

definition ex_request :: policy_request where
  "ex_request = \<lparr>pr_capability = CapabilityId ''cpu.policy.governor'', pr_target = TargetId ''policy0'',
     pr_operation = mutation_kind.CpuGovernor (CpuPolicyId 0) (GovernorId ''performance''),
     pr_required = True\<rparr>"

definition ex_input :: planner_input where
  "ex_input = \<lparr>in_policy = PlannerPolicy_request ex_request (for_profile profile.Performance),
     in_inventory = ex_inventory,
     in_current_state = \<lparr>cs_observed_at = Timestamp 1, cs_facts = [ex_fact]\<rparr>\<rparr>"

definition outcome :: "policy_resolution result \<Rightarrow> (plan_action \<times> bool) list" where
  "outcome result = (case result of Inl e \<Rightarrow> []
     | Inr r \<Rightarrow> map (\<lambda>item. (pi_action item, pi_evidence item = [])) (re_items r))"

lemma ex_outcome:
  "outcome (resolve ex_catalog ex_input) =
     [(plan_action.Unsupported, True), (plan_action.Unsupported, True), (plan_action.Unsupported, True),
      (plan_action.Unsupported, True), (plan_action.Unsupported, True), (plan_action.Unsupported, True),
      (plan_action.Unsupported, True), (Mutation, False), (plan_action.Unsupported, True),
      (plan_action.Unsupported, True), (plan_action.Unsupported, True), (plan_action.Unsupported, True),
      (plan_action.Unsupported, True), (plan_action.Unsupported, True), (plan_action.Unsupported, True),
      (plan_action.Unsupported, True)]"
  by code_simp

lemma ex_selected:
  "select_proposals (pl_proposals (in_policy ex_input))
     = Inr [(request_key ex_request, PolicyProposal_new Invocation ex_request)]"
  by code_simp

lemma ex_resolves:
  obtains r where "resolve ex_catalog ex_input = Inr r" "length (re_items r) = 16"
    "\<forall>item \<in> set (re_items r). pi_action item = Mutation \<longrightarrow> pi_evidence item \<noteq> []"
    "\<exists>item \<in> set (re_items r). pi_action item = Mutation"
proof -
  from ex_outcome obtain r where r: "resolve ex_catalog ex_input = Inr r"
    by (cases "resolve ex_catalog ex_input") (auto simp: outcome_def)
  with ex_outcome have o: "map (\<lambda>item. (pi_action item, pi_evidence item = [])) (re_items r) =
     [(plan_action.Unsupported, True), (plan_action.Unsupported, True), (plan_action.Unsupported, True),
      (plan_action.Unsupported, True), (plan_action.Unsupported, True), (plan_action.Unsupported, True),
      (plan_action.Unsupported, True), (Mutation, False), (plan_action.Unsupported, True),
      (plan_action.Unsupported, True), (plan_action.Unsupported, True), (plan_action.Unsupported, True),
      (plan_action.Unsupported, True), (plan_action.Unsupported, True), (plan_action.Unsupported, True),
      (plan_action.Unsupported, True)]"
    by (simp add: outcome_def)
  from arg_cong [OF o, of length] have "length (re_items r) = 16" by simp
  moreover from arg_cong [OF o, of set] have s: "(\<lambda>item. (pi_action item, pi_evidence item = [])) ` set (re_items r)
      = {(plan_action.Unsupported, True), (Mutation, False)}" by auto
  have "pi_evidence item \<noteq> []" if "item \<in> set (re_items r)" "pi_action item = Mutation" for item
  proof -
    from s that(1) have "(pi_action item, pi_evidence item = []) \<in> {(plan_action.Unsupported, True), (Mutation, False)}"
      by blast
    with that(2) show ?thesis by simp
  qed
  moreover have "\<exists>item \<in> set (re_items r). pi_action item = Mutation"
  proof -
    from s have "(Mutation, False) \<in> (\<lambda>item. (pi_action item, pi_evidence item = [])) ` set (re_items r)"
      by simp
    then obtain item where "item \<in> set (re_items r)" "(Mutation, False) = (pi_action item, pi_evidence item = [])"
      by (rule imageE)
    then show ?thesis by (metis prod.inject)
  qed
  ultimately show ?thesis using that r by blast
qed

lemma ex_plan:
  obtains plan m where "TypedPlanner_build (\<lambda>_. []) ex_catalog ex_input = Inr plan"
    "m \<in> set (plan_mutations plan)"
proof -
  obtain r where r: "resolve ex_catalog ex_input = Inr r" "length (re_items r) = 16"
    "\<forall>item \<in> set (re_items r). pi_action item = Mutation \<longrightarrow> pi_evidence item \<noteq> []"
    and e: "\<exists>item \<in> set (re_items r). pi_action item = Mutation"
    by (rule ex_resolves)
  then obtain plan where plan: "TypedPlanner_build (\<lambda>_. []) ex_catalog ex_input = Inr plan"
    using build_iff_evidence [OF r(1), of "\<lambda>_. []"] by auto
  obtain r' where r': "resolve ex_catalog ex_input = Inr r'" "plan_items plan = re_items r'"
    "plan_mutations plan = item_mutations (re_items r')" by (rule build_plan_fields [OF plan])
  have "r' = r" using r(1) r'(1) by simp
  from e obtain item where item: "item \<in> set (re_items r)" "pi_action item = Mutation" by blast
  have "Plan_validate_complete plan = Inr ()"
    using plan by (auto simp: TypedPlanner_build_def Plan_from_items_def rbind_eq_Inr Let_def)
  with item have "PlanItem_validate item = Inr ()"
    using r'(2) \<open>r' = r\<close> by (auto simp: Plan_validate_complete_ok items_agree_def split: if_splits)
  with item(2) obtain m where "pi_mutation item = Some m"
    by (auto simp: PlanItem_validate_def is_executable_def split: option.splits)
  with item(1) have "m \<in> set (plan_mutations plan)"
    unfolding r'(3) \<open>r' = r\<close> item_mutations_mem by blast
  with that plan show ?thesis by blast
qed

section \<open>Witnesses\<close>


lemma resolution_builds_plan_witness:
  "\<exists>r plan. resolve ex_catalog ex_input = Inr r
     \<and> TypedPlanner_build (\<lambda>_. []) ex_catalog ex_input = Inr plan"
proof -
  obtain r where r: "resolve ex_catalog ex_input = Inr r" "length (re_items r) = 16"
    "\<forall>item \<in> set (re_items r). pi_action item = Mutation \<longrightarrow> pi_evidence item \<noteq> []"
    and "\<exists>item \<in> set (re_items r). pi_action item = Mutation"
    by (rule ex_resolves)
  with resolution_builds_plan [OF r(1), of "\<lambda>_. []"] show ?thesis by auto
qed

lemma required_requests_met_witness:
  "\<exists>r item. resolve ex_catalog ex_input = Inr r \<and> item \<in> set (re_items r) \<and> met ex_request item"
proof -
  obtain r where r: "resolve ex_catalog ex_input = Inr r" "length (re_items r) = 16"
    "\<forall>item \<in> set (re_items r). pi_action item = Mutation \<longrightarrow> pi_evidence item \<noteq> []"
    and "\<exists>item \<in> set (re_items r). pi_action item = Mutation"
    by (rule ex_resolves)
  have "request_required (in_policy ex_input) (Some (PolicyProposal_new Invocation ex_request))"
    by (simp add: request_required_def PolicyProposal_new_def ex_request_def)
  from required_requests_met [OF r(1) ex_selected _ this] r(1) show ?thesis
    by (auto simp: PolicyProposal_new_def)
qed

definition ex_chain :: "candidate list" where
  "ex_chain = (let contract = hd ex_catalog;
     draft = (\<lambda>deps. \<lparr>md_capability = CapabilityId ''c'', md_target = TargetId ''t'',
       md_kind = pr_operation ex_request, md_desired = kind_value (pr_operation ex_request),
       md_precondition = StateFingerprint [], md_equality = ByteExact,
       md_target_identity = TargetIdentity [], md_dependencies = deps\<rparr>);
     cand = (\<lambda>op deps. Candidate_mutation 0 (CapabilityId ''c'') (OperationId op) contract
       (TargetId ''t'') control_id.CpuGovernor None None feature.CpuGovernor [] (draft deps))
   in [cand ''first'' [OperationId ''second''], cand ''second'' []])"

lemma ordering_complete_iff_acyclic_witness:
  "\<exists>deps. collect_dependencies ex_chain (mutation_indices ex_chain) [] = Inr deps
     \<and> order_candidates ex_chain deps = [1, 0] \<and> acyclic (dependency_edges deps)"
proof -
  have deps: "collect_dependencies ex_chain (mutation_indices ex_chain) [] = Inr [(0, [1])]"
    by code_simp
  moreover have ord: "order_candidates ex_chain [(0, [1])] = [1, 0]" by code_simp
  moreover have "length (mutation_indices ex_chain) = 2" by code_simp
  moreover have "\<forall>c \<in> set ex_chain. cand_ordered c"
    by (simp add: ex_chain_def Let_def cand_ordered_def Candidate_mutation_def is_executable_def)
  ultimately show ?thesis
    using ordering_complete_iff_acyclic [of ex_chain "[(0, [1])]"] by auto
qed

lemma selected_proposals_exact_witness:
  "selection {PolicyProposal_new Invocation ex_request}
     [(request_key ex_request, PolicyProposal_new Invocation ex_request)]"
  using selected_proposals_exact [of "pl_proposals (in_policy ex_input)"]
  by (simp only: ex_selected sum.case)
    (simp add: ex_input_def PlannerPolicy_request_def for_profile_def)

end
