(* ===== verification/Sessions.thy ===== *)
theory Sessions
  imports Plans
begin

text \<open>
  The session state machine of \<open>sysboost-core/src/session.rs\<close>: the frozen transition table, the
  session header and the single mutating operation \<open>Session::transition\<close>. The table's consequences
  are proved by rule induction over the states a run of legal transitions reaches.
\<close>

section \<open>States and transitions\<close>

datatype session_state = New | Detected | Planned | Snapshotted | IntentDurable | Applying | Active
  | Restoring | Restored | RollingBack | Degraded | RecoveryPending

definition is_terminal :: "session_state \<Rightarrow> bool" where
  "is_terminal s \<longleftrightarrow> s = Restored \<or> s = Degraded \<or> s = RecoveryPending"

definition session_can_transition :: "session_state \<Rightarrow> session_state \<Rightarrow> bool" where
  "session_can_transition self next_state \<longleftrightarrow> (self, next_state) \<in> set
     [(New, Detected), (Detected, Planned), (Planned, Snapshotted), (Snapshotted, IntentDurable),
      (IntentDurable, Applying), (IntentDurable, RollingBack), (Applying, Active),
      (Applying, RollingBack), (Active, Restoring), (Restoring, Restored), (Restoring, Degraded),
      (RollingBack, Restored), (RollingBack, Degraded), (Degraded, RecoveryPending),
      (RecoveryPending, Restoring), (RecoveryPending, Degraded)]"

record session_header =
  sh_session_id :: session_id
  sh_plan_id :: plan_id
  sh_plan_digest :: "u8 list"
  sh_created_at :: timestamp
  sh_targets :: "target_id list"

record session =
  se_header :: session_header
  se_state :: session_state

definition Session_new :: "session_id \<Rightarrow> plan \<Rightarrow> timestamp \<Rightarrow> session" where
  "Session_new session_id plan created_at =
     \<lparr>se_header = \<lparr>sh_session_id = session_id, sh_plan_id = plan_id plan,
        sh_plan_digest = plan_digest plan, sh_created_at = created_at,
        sh_targets = map pm_target (plan_mutations plan)\<rparr>,
      se_state = New\<rparr>"

fun stage_for_state :: "session_state \<Rightarrow> stage" where
  "stage_for_state New = Detect"
| "stage_for_state Detected = Detect"
| "stage_for_state Planned = Plan"
| "stage_for_state Snapshotted = Snapshot"
| "stage_for_state IntentDurable = DurableIntent"
| "stage_for_state Applying = Apply"
| "stage_for_state Active = Verify"
| "stage_for_state Restoring = Restore"
| "stage_for_state Restored = Restore"
| "stage_for_state RollingBack = Recovery"
| "stage_for_state Degraded = Recovery"
| "stage_for_state RecoveryPending = Recovery"

definition Session_transition :: "session_state \<Rightarrow> (session, unit) action" where
  "Session_transition next_state self =
     (if \<not> session_can_transition (se_state self) next_state
      then (Inl (with_session (sh_session_id (se_header self))
             (with_stage (stage_for_state next_state)
               (SysboostError_new InvariantViolation ''illegal session state transition''))), self)
      else (Inr (), self\<lparr>se_state := next_state\<rparr>))"

record transition_record =
  tr_sequence :: u64
  tr_session_id :: session_id
  tr_from :: session_state
  tr_to :: session_state
  tr_at :: timestamp
  tr_reason :: string

section \<open>Consequences of the table\<close>

text \<open>The runs the table permits, as the list of states visited (oldest first).\<close>

inductive session_run :: "session_state list \<Rightarrow> bool" where
  start: "session_run [New]"
| step: "session_run (run @ [s]) \<Longrightarrow> session_can_transition s t \<Longrightarrow> session_run (run @ [s, t])"

inductive_cases session_run_snocE: "session_run (run @ [s, t])"

lemma session_run_snoc:
  assumes "run \<noteq> []"
  shows "session_run (run @ [t]) \<longleftrightarrow> session_run run \<and> session_can_transition (last run) t"
proof -
  obtain before s where run: "run = before @ [s]" using assms by (cases run rule: rev_cases) auto
  show ?thesis unfolding run by (auto elim: session_run_snocE intro: session_run.step)
qed

text \<open>States before durable intent, in order.\<close>

definition pre_intent :: "session_state set" where
  "pre_intent = {New, Detected, Planned, Snapshotted}"

lemma run_intent:
  "session_run run \<Longrightarrow> last run \<notin> pre_intent \<Longrightarrow> IntentDurable \<in> set run"
proof (induction rule: session_run.induct)
  case (step run s t)
  then show ?case by (cases "s \<in> pre_intent") (auto simp: pre_intent_def session_can_transition_def)
qed (simp add: pre_intent_def)

lemma run_restored_last:
  "session_run run \<Longrightarrow> Restored \<notin> set (butlast run)"
proof (induction rule: session_run.induct)
  case (step run s t)
  then have "s \<noteq> Restored" by (auto simp: session_can_transition_def)
  with step.IH show ?case by (simp add: butlast_append)
qed simp

lemma run_applying_once:
  "session_run run \<Longrightarrow> last run \<in> pre_intent \<union> {IntentDurable} \<Longrightarrow> Applying \<notin> set run"
proof (induction rule: session_run.induct)
  case (step run s t)
  then show ?case by (auto simp: pre_intent_def session_can_transition_def)
qed simp

lemma run_applying_unique:
  "session_run run \<Longrightarrow> count_list run Applying \<le> 1"
proof (induction rule: session_run.induct)
  case (step run s t)
  show ?case
  proof (cases "t = Applying")
    case True
    with step.hyps(2) have "s = IntentDurable" by (simp add: session_can_transition_def)
    with run_applying_once [OF step.hyps(1)] True show ?thesis by simp
  qed (use step.IH in \<open>auto split: if_splits\<close>)
qed simp

text \<open>
  In every run the transition table permits, no state from \<open>Applying\<close> on is entered before
  \<open>IntentDurable\<close>, \<open>Applying\<close> is entered at most once (an interrupted apply is never restarted),
  and \<open>Restored\<close> is final.
\<close>

theorem session_runs_write_ahead:
  assumes "session_run run"
  shows "(last run \<notin> pre_intent \<longrightarrow> IntentDurable \<in> set run)
    \<and> count_list run Applying \<le> 1 \<and> Restored \<notin> set (butlast run)"
  using assms run_intent run_applying_unique run_restored_last by blast

theorem session_runs_write_ahead_witness:
  "IntentDurable \<in> set [New, Detected, Planned, Snapshotted, IntentDurable, Applying, Active]"
proof -
  have "session_run [New, Detected, Planned, Snapshotted, IntentDurable, Applying, Active]"
    using session_run.step [of "[New, Detected, Planned, Snapshotted, IntentDurable]" Applying Active]
      session_run.step [of "[New, Detected, Planned, Snapshotted]" IntentDurable Applying]
      session_run.step [of "[New, Detected, Planned]" Snapshotted IntentDurable]
      session_run.step [of "[New, Detected]" Planned Snapshotted]
      session_run.step [of "[New]" Detected Planned]
      session_run.step [of "[]" New Detected] session_run.start
    by (simp add: session_can_transition_def)
  from session_runs_write_ahead [OF this] show ?thesis by (simp add: pre_intent_def)
qed

end
