(* ===== verification/Records.thy ===== *)
theory Records
  imports Sessions
begin

text \<open>
  The durable transaction record of \<open>sysboost-core/src/transaction.rs\<close> (lines 36 to 777): operation
  lifecycle states, receipts, failure records, every mutating operation of \<open>SessionRecord\<close>, and the
  structural validation that runs before a record is written and after it is read. The properties
  say what a validated record proves, and that the lifecycle operations keep a record valid.
\<close>

section \<open>Operation lifecycle\<close>

definition MAX_OPERATIONS :: nat where "MAX_OPERATIONS = 4096"
definition MAX_TRANSITIONS :: nat where "MAX_TRANSITIONS = 16384"
definition MAX_TARGETS :: nat where "MAX_TARGETS = 4096"
definition MAX_FAILURES :: nat where "MAX_FAILURES = 4096"
definition MAX_REASON_BYTES :: nat where "MAX_REASON_BYTES = 1024"

datatype operation_state = Planned | Snapshotted | IntentRecorded | Applying | Applied | Verified
  | Restoring | Restored | Failed | RestoreFailed

definition operation_can_transition :: "operation_state \<Rightarrow> operation_state \<Rightarrow> bool" where
  "operation_can_transition self next_state \<longleftrightarrow> (self, next_state) \<in> set
     [(operation_state.Planned, operation_state.Snapshotted),
      (operation_state.Snapshotted, IntentRecorded), (IntentRecorded, operation_state.Applying),
      (operation_state.Applying, Applied), (operation_state.Applying, Failed),
      (Applied, Verified), (Applied, Failed), (Verified, operation_state.Restoring),
      (Applied, operation_state.Restoring), (operation_state.Applying, operation_state.Restoring),
      (Failed, operation_state.Restoring), (operation_state.Restoring, operation_state.Restored),
      (operation_state.Restoring, RestoreFailed), (RestoreFailed, operation_state.Restoring)]"

definition is_restored :: "operation_state \<Rightarrow> bool" where
  "is_restored s \<longleftrightarrow> s = operation_state.Restored"

record verification_result =
  vr_mutation_id :: mutation_id
  vr_expected :: state_fingerprint
  vr_observed :: "state_fingerprint option"
  vr_matched :: bool

record failure_record =
  fr_code :: error_code
  fr_stage :: stage
  fr_mutation_id :: "mutation_id option"
  fr_message :: string

text \<open>The loop of \<open>truncate_text\<close>: step back from \<open>end\<close> to the nearest character boundary.\<close>

fun boundary_before :: "string \<Rightarrow> nat \<Rightarrow> nat" where
  "boundary_before value 0 = 0"
| "boundary_before value (Suc e) =
     (if is_char_boundary value (Suc e) then Suc e else boundary_before value e)"

definition truncate_text :: "string \<Rightarrow> nat \<Rightarrow> string" where
  "truncate_text value max_bytes =
     (if length value \<le> max_bytes then value else take (boundary_before value max_bytes) value)"

definition FailureRecord_from_error :: "sysboost_error \<Rightarrow> failure_record" where
  "FailureRecord_from_error error =
     \<lparr>fr_code = err_code error,
      fr_stage = (case ec_stage (err_context error) of None \<Rightarrow> Recovery | Some s \<Rightarrow> s),
      fr_mutation_id = ec_mutation_id (err_context error),
      fr_message = truncate_text (err_message error) MAX_REASON_BYTES\<rparr>"

record operation_record =
  op_mutation :: planned_mutation
  op_state :: operation_state
  op_snapshot :: "snapshot option"
  op_apply_receipt :: "apply_receipt option"
  op_verification :: "verification_result option"
  op_restore_receipt :: "restore_receipt option"
  op_failure :: "failure_record option"

abbreviation op_id :: "operation_record \<Rightarrow> mutation_id" where
  "op_id operation \<equiv> pm_mutation_id (op_mutation operation)"

definition OperationRecord_planned :: "planned_mutation \<Rightarrow> operation_record" where
  "OperationRecord_planned mutation = \<lparr>op_mutation = mutation, op_state = operation_state.Planned,
     op_snapshot = None, op_apply_receipt = None, op_verification = None,
     op_restore_receipt = None, op_failure = None\<rparr>"

definition invariant_error :: "string \<Rightarrow> mutation_id \<Rightarrow> sysboost_error" where
  "invariant_error message mutation_id =
     with_mutation mutation_id (with_stage Recovery (SysboostError_new InvariantViolation message))"

definition corrupt :: "string \<Rightarrow> sysboost_error" where
  "corrupt message = with_stage Recovery (SysboostError_new JournalCorrupt message)"

definition OperationRecord_transition :: "operation_state \<Rightarrow> (operation_record, unit) action" where
  "OperationRecord_transition next_state self =
     (if \<not> operation_can_transition (op_state self) next_state
      then (Inl (invariant_error ''illegal operation state transition'' (op_id self)), self)
      else (Inr (), self\<lparr>op_state := next_state\<rparr>))"

definition needs_restore :: "operation_record \<Rightarrow> bool" where
  "needs_restore self \<longleftrightarrow> op_apply_receipt self \<noteq> None \<and> \<not> is_restored (op_state self)"

definition failure_error :: "operation_record \<Rightarrow> sysboost_error option" where
  "failure_error self = map_option (\<lambda>failure.
     with_mutation (op_id self) (with_stage (fr_stage failure)
       (SysboostError_new (fr_code failure) (fr_message failure)))) (op_failure self)"

section \<open>Session records\<close>

record session_record =
  sr_session :: session
  sr_operations :: "operation_record list"
  sr_transitions :: "transition_record list"
  sr_failures :: "failure_record list"

abbreviation sr_session_id :: "session_record \<Rightarrow> session_id" where
  "sr_session_id self \<equiv> sh_session_id (se_header (sr_session self))"

abbreviation sr_state :: "session_record \<Rightarrow> session_state" where
  "sr_state self \<equiv> se_state (sr_session self)"

text \<open>The \<open>map\<close>/\<open>collect\<close> of \<open>new\<close>, with the identities seen so far.\<close>

fun planned_operations ::
    "mutation_id list \<Rightarrow> planned_mutation list \<Rightarrow> operation_record list result" where
  "planned_operations seen [] = Inr []"
| "planned_operations seen (mutation # rest) =
     (if pm_mutation_id mutation \<in> set seen
      then Inl (invariant_error ''durable transaction contains duplicate mutation IDs''
        (pm_mutation_id mutation))
      else rbind (planned_operations (seen @ [pm_mutation_id mutation]) rest)
        (\<lambda>operations. Inr (OperationRecord_planned mutation # operations)))"

definition SessionRecord_new :: "session \<Rightarrow> planned_mutation list \<Rightarrow> session_record result" where
  "SessionRecord_new session mutations =
     (if mutations = []
      then Inl (planning_error ''a durable transaction must contain at least one mutation'')
      else if length mutations > MAX_OPERATIONS
      then Inl (planning_error ''transaction contains too many mutations'')
      else rbind (planned_operations [] mutations) (\<lambda>operations.
        Inr \<lparr>sr_session = session, sr_operations = operations, sr_transitions = [],
          sr_failures = []\<rparr>))"

text \<open>\<open>u64::saturating_add(1)\<close>.\<close>

definition saturating_inc :: "u64 \<Rightarrow> u64" where
  "saturating_inc w = (if w = - 1 then w else w + 1)"

definition SessionRecord_transition ::
    "session_state \<Rightarrow> timestamp \<Rightarrow> string \<Rightarrow> (session_record, unit) action" where
  "SessionRecord_transition next_state at reason self =
     (if reason = [] \<or> length reason > MAX_REASON_BYTES \<or> nul \<in> set reason
      then (Inl (with_session (sr_session_id self) (with_stage Recovery
             (SysboostError_new InvalidInput
               ''session transition reason is empty or oversized''))), self)
      else case Session_transition next_state (sr_session self) of
        (Inl e, session) \<Rightarrow> (Inl e, self\<lparr>sr_session := session\<rparr>)
      | (Inr _, session) \<Rightarrow>
          (let sequence = (if sr_transitions self = [] then 1
             else saturating_inc (tr_sequence (last (sr_transitions self))))
           in (Inr (), self\<lparr>sr_session := session,
             sr_transitions := sr_transitions self @
               [\<lparr>tr_sequence = sequence, tr_session_id = sr_session_id self,
                 tr_from = sr_state self, tr_to = next_state, tr_at = at,
                 tr_reason = reason\<rparr>]\<rparr>)))"

text \<open>
  \<open>operation_mut\<close> and what its callers do through the returned reference: find the first operation
  with the identity and run the body on it in place.
\<close>

definition absent_operation :: "mutation_id \<Rightarrow> sysboost_error" where
  "absent_operation mutation_id =
     invariant_error ''operation ID is absent from the session record'' mutation_id"

definition SessionRecord_operation :: "mutation_id \<Rightarrow> session_record \<Rightarrow> operation_record result" where
  "SessionRecord_operation mutation_id self =
     ok_or (absent_operation mutation_id)
       (find (\<lambda>operation. op_id operation = mutation_id) (sr_operations self))"

definition operation_mut ::
    "mutation_id \<Rightarrow> (operation_record, 'a) action \<Rightarrow> (session_record, 'a) action" where
  "operation_mut mutation_id body self =
     (case find (\<lambda>operation. op_id operation = mutation_id) (sr_operations self) of
        None \<Rightarrow> (Inl (absent_operation mutation_id), self)
      | Some found \<Rightarrow>
        (case body found of (r, operation) \<Rightarrow>
          (r, self\<lparr>sr_operations :=
            update_first (\<lambda>operation. op_id operation = mutation_id) (\<lambda>_. operation)
              (sr_operations self)\<rparr>)))"

definition zero_identity :: target_identity where
  "zero_identity = TargetIdentity (replicate 16 0)"

definition capture_snapshot :: "snapshot \<Rightarrow> (session_record, unit) action" where
  "capture_snapshot snapshot = operation_mut (sn_mutation_id snapshot) (\<lambda>operation.
     if sn_target snapshot \<noteq> pm_target (op_mutation operation)
        \<or> sn_equality snapshot \<noteq> pm_equality (op_mutation operation)
        \<or> sn_original_fingerprint snapshot \<noteq> pm_precondition (op_mutation operation)
        \<or> sn_target_identity snapshot = zero_identity
     then (Inl (with_target (pm_target (op_mutation operation))
            (with_mutation (sn_mutation_id snapshot) (with_stage Snapshot
              (SysboostError_new SnapshotError
          ''snapshot identity, equality, precondition, or target token is invalid'')))), operation)
     else if op_snapshot operation \<noteq> None \<or> op_state operation \<noteq> operation_state.Planned
     then (Inl (invariant_error
            ''operation snapshot was captured more than once or at the wrong stage''
            (sn_mutation_id snapshot)), operation)
     else OperationRecord_transition operation_state.Snapshotted
            (operation\<lparr>op_snapshot := Some snapshot\<rparr>))"

text \<open>A loop that runs a body on every operation in place and stops at the first error.\<close>

fun for_operations ::
    "(operation_record, unit) action \<Rightarrow> operation_record list \<Rightarrow> unit result \<times> operation_record list" where
  "for_operations body [] = (Inr (), [])"
| "for_operations body (operation # rest) =
     (case body operation of
        (Inl e, operation') \<Rightarrow> (Inl e, operation' # rest)
      | (Inr _, operation') \<Rightarrow>
          (case for_operations body rest of (r, rest') \<Rightarrow> (r, operation' # rest')))"

definition record_intent :: "(session_record, unit) action" where
  "record_intent self =
     (if list_ex (\<lambda>operation. op_state operation \<noteq> operation_state.Snapshotted) (sr_operations self)
      then (Inl (with_session (sr_session_id self) (with_stage DurableIntent
             (SysboostError_new InvariantViolation
               ''durable intent requires a complete snapshot for every operation''))), self)
      else case for_operations (OperationRecord_transition IntentRecorded) (sr_operations self) of
        (r, operations) \<Rightarrow> (r, self\<lparr>sr_operations := operations\<rparr>))"

definition record_apply :: "mutation_id \<Rightarrow> apply_receipt \<Rightarrow> (session_record, unit) action" where
  "record_apply mutation_id receipt = operation_mut mutation_id (\<lambda>operation.
     if ar_mutation_id receipt \<noteq> mutation_id
     then (Inl (invariant_error ''apply receipt mutation ID does not match the operation''
            mutation_id), operation)
     else OperationRecord_transition Applied (operation\<lparr>op_apply_receipt := Some receipt\<rparr>))"

definition record_verification ::
    "mutation_id \<Rightarrow> verification_result \<Rightarrow> (session_record, unit) action" where
  "record_verification mutation_id verification = operation_mut mutation_id (\<lambda>operation.
     if vr_mutation_id verification \<noteq> mutation_id
     then (Inl (invariant_error ''verification mutation ID does not match the operation''
            mutation_id), operation)
     else OperationRecord_transition (if vr_matched verification then Verified else Failed)
            (operation\<lparr>op_verification := Some verification\<rparr>))"

definition push_failure :: "sysboost_error \<Rightarrow> session_record \<Rightarrow> session_record" where
  "push_failure error self =
     self\<lparr>sr_failures := sr_failures self @ [FailureRecord_from_error error]\<rparr>"

definition fail_with :: "operation_state \<Rightarrow> mutation_id \<Rightarrow> sysboost_error \<Rightarrow> (session_record, unit) action" where
  "fail_with failed mutation_id error self =
     (case operation_mut mutation_id (\<lambda>operation.
        let operation = operation\<lparr>op_failure := Some (FailureRecord_from_error error)\<rparr> in
        if op_state operation \<noteq> failed then OperationRecord_transition failed operation
        else (Inr (), operation)) self of
      (Inl e, self) \<Rightarrow> (Inl e, self)
    | (Inr _, self) \<Rightarrow> (Inr (), push_failure error self))"

definition fail_operation :: "mutation_id \<Rightarrow> sysboost_error \<Rightarrow> (session_record, unit) action" where
  "fail_operation = fail_with Failed"

definition begin_restore_operation :: "mutation_id \<Rightarrow> (session_record, unit) action" where
  "begin_restore_operation mutation_id = operation_mut mutation_id (\<lambda>operation.
     if op_state operation = operation_state.Restored then (Inr (), operation)
     else OperationRecord_transition operation_state.Restoring operation)"

definition record_restore :: "mutation_id \<Rightarrow> restore_receipt \<Rightarrow> (session_record, unit) action" where
  "record_restore mutation_id receipt = operation_mut mutation_id (\<lambda>operation.
     if rr_mutation_id receipt \<noteq> mutation_id \<or> \<not> rr_verified receipt
     then (Inl (invariant_error ''restore receipt is not a verified receipt for the operation''
            mutation_id), operation)
     else OperationRecord_transition operation_state.Restored
            (operation\<lparr>op_restore_receipt := Some receipt\<rparr>))"

definition fail_restore :: "mutation_id \<Rightarrow> sysboost_error \<Rightarrow> (session_record, unit) action" where
  "fail_restore = fail_with RestoreFailed"

definition record_failure :: "sysboost_error \<Rightarrow> session_record \<Rightarrow> session_record" where
  "record_failure error self = push_failure error self"

definition restoration_proven :: "session_record \<Rightarrow> bool" where
  "restoration_proven self \<longleftrightarrow> list_all (\<lambda>operation. \<not> needs_restore operation
     \<and> op_state operation \<noteq> operation_state.Applying \<and> op_state operation \<noteq> RestoreFailed)
     (sr_operations self)"

section \<open>Validation\<close>

definition require :: "bool \<Rightarrow> string \<Rightarrow> unit result" where
  "require ok message = (if ok then Inr () else Inl (corrupt message))"

lemma require_ok [simp]: "require b m = Inr u \<longleftrightarrow> b"
  by (simp add: require_def)

fun state_shape_ok :: "operation_record \<Rightarrow> operation_state \<Rightarrow> unit result" where
  "state_shape_ok p operation_state.Planned = require
     (\<not> (op_snapshot p \<noteq> None \<or> op_apply_receipt p \<noteq> None \<or> op_verification p \<noteq> None
        \<or> op_restore_receipt p \<noteq> None)) ''planned operation contains post-plan state''"
| "state_shape_ok p operation_state.Snapshotted = require
     (\<not> (op_snapshot p = None \<or> op_apply_receipt p \<noteq> None \<or> op_verification p \<noteq> None
        \<or> op_restore_receipt p \<noteq> None))
     ''snapshotted operation does not have the expected durable shape''"
| "state_shape_ok p IntentRecorded = require
     (\<not> (op_snapshot p = None \<or> op_apply_receipt p \<noteq> None \<or> op_verification p \<noteq> None
        \<or> op_restore_receipt p \<noteq> None))
     ''snapshotted operation does not have the expected durable shape''"
| "state_shape_ok p operation_state.Applying = require
     (\<not> (op_snapshot p = None \<or> op_apply_receipt p \<noteq> None \<or> op_verification p \<noteq> None
        \<or> op_restore_receipt p \<noteq> None)) ''ambiguous applying operation has invalid receipts''"
| "state_shape_ok p Applied = require
     (\<not> (op_snapshot p = None \<or> op_apply_receipt p = None \<or> op_verification p \<noteq> None
        \<or> op_restore_receipt p \<noteq> None))
     ''applied operation does not have the expected receipt shape''"
| "state_shape_ok p Verified = require
     (\<not> (op_snapshot p = None \<or> op_apply_receipt p = None \<or> op_verification p = None
        \<or> \<not> (case op_verification p of None \<Rightarrow> False | Some value \<Rightarrow> vr_matched value)
        \<or> op_restore_receipt p \<noteq> None)) ''verified operation is not fully read back''"
| "state_shape_ok p operation_state.Restoring = require
     (\<not> (op_snapshot p = None \<or> op_apply_receipt p = None \<or> op_restore_receipt p \<noteq> None))
     ''restoring operation lacks its apply ownership''"
| "state_shape_ok p operation_state.Restored = require
     (\<not> (op_snapshot p = None \<or> op_apply_receipt p = None \<or> op_restore_receipt p = None))
     ''restored operation lacks a proven original''"
| "state_shape_ok p Failed = require
     (\<not> (op_snapshot p = None \<or> op_restore_receipt p \<noteq> None
        \<or> (case op_verification p of None \<Rightarrow> False | Some value \<Rightarrow> vr_matched value)))
     ''failed operation has an invalid preimage/restore shape''"
| "state_shape_ok p RestoreFailed = require
     (\<not> (op_snapshot p = None \<or> op_apply_receipt p = None \<or> op_restore_receipt p \<noteq> None))
     ''restore-failed operation lacks retry ownership''"

definition validate_operation_record :: "operation_record \<Rightarrow> unit result" where
  "validate_operation_record p =
     rbind (case op_snapshot p of None \<Rightarrow> Inr () | Some snapshot \<Rightarrow> require
       (\<not> (sn_original_fingerprint snapshot \<noteq> pm_precondition (op_mutation p)
          \<or> sn_target_identity snapshot = zero_identity))
       ''operation snapshot does not preserve its planned precondition or identity'') (\<lambda>_.
     rbind (case op_apply_receipt p of None \<Rightarrow> Inr () | Some receipt \<Rightarrow> require
       (\<not> (op_snapshot p = None
          \<or> ar_observed_precondition receipt \<noteq> pm_precondition (op_mutation p)
          \<or> ar_observed_postcondition receipt \<noteq> ar_ownership_fingerprint receipt))
       ''apply receipt is not bound to the operation preimage'') (\<lambda>_.
     rbind (case op_verification p of None \<Rightarrow> Inr () | Some verification \<Rightarrow>
       (case op_apply_receipt p of
          None \<Rightarrow> Inl (corrupt ''verification exists without an apply receipt'')
        | Some receipt \<Rightarrow> require
            (\<not> (vr_expected verification \<noteq> ar_ownership_fingerprint receipt
               \<or> (vr_matched verification \<and> vr_observed verification \<noteq> Some (vr_expected verification))
               \<or> (\<not> vr_matched verification \<and> vr_observed verification = Some (vr_expected verification))))
            ''verification result is not bound to its apply receipt'')) (\<lambda>_.
     rbind (case op_restore_receipt p of None \<Rightarrow> Inr () | Some restore \<Rightarrow>
       (case op_snapshot p of
          None \<Rightarrow> Inl (corrupt ''restore receipt exists without a snapshot'')
        | Some snapshot \<Rightarrow> require
            (\<not> (op_apply_receipt p = None \<or> \<not> rr_verified restore
               \<or> rr_restored_fingerprint restore \<noteq> sn_original_fingerprint snapshot))
            ''restore receipt does not prove the captured original'')) (\<lambda>_.
     state_shape_ok p (op_state p)))))"

definition validate_identity :: "operation_record \<Rightarrow> unit result" where
  "validate_identity p =
     rbind (case op_snapshot p of None \<Rightarrow> Inr () | Some snapshot \<Rightarrow> require
       (\<not> (sn_mutation_id snapshot \<noteq> op_id p \<or> sn_target snapshot \<noteq> pm_target (op_mutation p)
          \<or> sn_equality snapshot \<noteq> pm_equality (op_mutation p)))
       ''snapshot does not match its operation'') (\<lambda>_.
     rbind (case op_apply_receipt p of None \<Rightarrow> Inr () | Some receipt \<Rightarrow>
       require (ar_mutation_id receipt = op_id p)
         ''apply receipt does not match its operation'') (\<lambda>_.
     rbind (case op_verification p of None \<Rightarrow> Inr () | Some verification \<Rightarrow>
       require (vr_mutation_id verification = op_id p)
         ''verification does not match its operation'') (\<lambda>_.
     rbind (case op_restore_receipt p of None \<Rightarrow> Inr () | Some receipt \<Rightarrow>
       require (rr_mutation_id receipt = op_id p)
         ''restore receipt does not match its operation'') (\<lambda>_.
     validate_operation_record p))))"

fun validate_operations :: "mutation_id list \<Rightarrow> operation_record list \<Rightarrow> unit result" where
  "validate_operations ids [] = Inr ()"
| "validate_operations ids (operation # rest) =
     (if op_id operation \<in> set ids
      then Inl (corrupt ''session record contains duplicate mutation IDs'')
      else rbind (validate_identity operation) (\<lambda>_.
        validate_operations (ids @ [op_id operation]) rest))"

text \<open>The transition chain: expected sequence number and state, and the state it ends in.\<close>

fun validate_chain ::
    "u64 \<Rightarrow> session_state \<Rightarrow> transition_record list \<Rightarrow> session_state result" where
  "validate_chain sequence state [] = Inr state"
| "validate_chain sequence state (transition # rest) =
     (if tr_sequence transition \<noteq> sequence \<or> tr_from transition \<noteq> state
         \<or> \<not> session_can_transition state (tr_to transition)
      then Inl (corrupt ''session transition sequence or state is invalid'')
      else if sequence = - 1 then Inl (corrupt ''session transition sequence overflows'')
      else validate_chain (sequence + 1) (tr_to transition) rest)"

definition validate_for_serialization :: "session_record \<Rightarrow> unit result" where
  "validate_for_serialization self =
     rbind (require (\<not> (sr_operations self = [] \<or> length (sr_operations self) > MAX_OPERATIONS))
       ''session record has an invalid operation count'') (\<lambda>_.
     rbind (require (\<not> (length (sr_transitions self) > MAX_TRANSITIONS
         \<or> length (sr_failures self) > MAX_FAILURES))
       ''session record has too many journal records'') (\<lambda>_.
     rbind (require (length (sh_targets (se_header (sr_session self))) \<le> MAX_TARGETS)
       ''session record has too many target leases'') (\<lambda>_.
     rbind (validate_operations [] (sr_operations self)) (\<lambda>_.
     rbind (require (length (sh_targets (se_header (sr_session self))) = length (sr_operations self))
       ''session target leases do not match the operation count'') (\<lambda>_.
     rbind (try_each (\<lambda>(target, operation). require (target = pm_target (op_mutation operation))
         ''session target lease does not match its operation'')
       (zip (sh_targets (se_header (sr_session self))) (sr_operations self))) (\<lambda>_.
     rbind (try_each (\<lambda>transition. require (tr_session_id transition = sr_session_id self)
         ''transition belongs to another session'') (sr_transitions self)) (\<lambda>_.
     rbind (validate_chain 1 New (sr_transitions self)) (\<lambda>state.
     require (state = sr_state self)
       ''session state does not match the durable transition chain''))))))))"

section \<open>What a validated record is\<close>

text \<open>
  The specification of one operation: every piece of evidence names the operation, the preimage is
  the planned precondition, the apply receipt owns the state it left, the readback verdict is the
  comparison it claims to be, and a restore receipt proves the planned precondition. The lifecycle
  state decides which pieces are present.
\<close>

definition evidence_bound :: "operation_record \<Rightarrow> bool" where
  "evidence_bound p \<longleftrightarrow>
     (\<forall>s. op_snapshot p = Some s \<longrightarrow> sn_mutation_id s = op_id p
        \<and> sn_target s = pm_target (op_mutation p) \<and> sn_equality s = pm_equality (op_mutation p)
        \<and> sn_original_fingerprint s = pm_precondition (op_mutation p)
        \<and> sn_target_identity s \<noteq> zero_identity)
   \<and> (\<forall>r. op_apply_receipt p = Some r \<longrightarrow> op_snapshot p \<noteq> None \<and> ar_mutation_id r = op_id p
        \<and> ar_observed_precondition r = pm_precondition (op_mutation p)
        \<and> ar_observed_postcondition r = ar_ownership_fingerprint r)
   \<and> (\<forall>v. op_verification p = Some v \<longrightarrow> vr_mutation_id v = op_id p
        \<and> (vr_matched v \<longleftrightarrow> vr_observed v = Some (vr_expected v))
        \<and> (\<exists>r. op_apply_receipt p = Some r \<and> vr_expected v = ar_ownership_fingerprint r))
   \<and> (\<forall>r. op_restore_receipt p = Some r \<longrightarrow> rr_mutation_id r = op_id p \<and> rr_verified r
        \<and> op_snapshot p \<noteq> None \<and> op_apply_receipt p \<noteq> None
        \<and> rr_restored_fingerprint r = pm_precondition (op_mutation p))"

definition evidence_shape :: "operation_record \<Rightarrow> bool" where
  "evidence_shape p \<longleftrightarrow>
     (op_snapshot p = None \<longleftrightarrow> op_state p = operation_state.Planned)
   \<and> (op_restore_receipt p \<noteq> None \<longleftrightarrow> op_state p = operation_state.Restored)
   \<and> (op_state p \<in> {Applied, Verified, operation_state.Restoring, operation_state.Restored,
        RestoreFailed} \<longrightarrow> op_apply_receipt p \<noteq> None)
   \<and> (op_state p \<in> {operation_state.Planned, operation_state.Snapshotted, IntentRecorded,
        operation_state.Applying} \<longrightarrow> op_apply_receipt p = None)
   \<and> (op_state p = Applied \<longrightarrow> op_verification p = None)
   \<and> (op_state p = Verified \<longrightarrow> (\<exists>v. op_verification p = Some v \<and> vr_matched v))
   \<and> (op_state p = Failed \<longrightarrow> (\<forall>v. op_verification p = Some v \<longrightarrow> \<not> vr_matched v))"

definition operation_valid :: "operation_record \<Rightarrow> bool" where
  "operation_valid p \<longleftrightarrow> evidence_bound p \<and> evidence_shape p"

lemma state_shape_exact:
  assumes "evidence_bound p"
  shows "state_shape_ok p (op_state p) = Inr () \<longleftrightarrow> evidence_shape p"
  using assms unfolding evidence_bound_def evidence_shape_def
  by (cases "op_state p") (auto split: option.splits)

lemma validate_evidence_exact:
  "validate_identity p = Inr () \<longleftrightarrow> evidence_bound p \<and> state_shape_ok p (op_state p) = Inr ()"
  unfolding validate_identity_def validate_operation_record_def evidence_bound_def
  by (cases "op_snapshot p"; cases "op_apply_receipt p"; cases "op_verification p";
      cases "op_restore_receipt p") (auto simp: rbind_eq_Inr)

lemma validate_identity_ok: "validate_identity p = Inr u \<longleftrightarrow> operation_valid p"
  using validate_evidence_exact [of p] state_shape_exact [of p]
  by (auto simp: operation_valid_def)

lemma validate_operations_ok:
  "validate_operations ids ps = Inr u \<longleftrightarrow>
     distinct (map op_id ps) \<and> set (map op_id ps) \<inter> set ids = {} \<and> (\<forall>p \<in> set ps. operation_valid p)"
  by (induction ps arbitrary: ids) (auto simp: rbind_eq_Inr validate_identity_ok)

section \<open>The transition chain\<close>

lemma validate_chain_snoc:
  "validate_chain n s (ts @ [t]) = Inr u \<longleftrightarrow>
     (\<exists>m. validate_chain n s ts = Inr m \<and> tr_sequence t = n + word_of_nat (length ts)
        \<and> tr_from t = m \<and> session_can_transition m (tr_to t)
        \<and> n + word_of_nat (length ts) \<noteq> - 1 \<and> u = tr_to t)"
  by (induction ts arbitrary: n s) (auto simp: ac_simps)

text \<open>The states a chain visits, and what makes it valid.\<close>

definition visited :: "transition_record list \<Rightarrow> session_state list" where
  "visited ts = New # map tr_to ts"

lemma visited_simps [simp]: "visited [] = [New]" "visited (ts @ [t]) = visited ts @ [tr_to t]"
  "visited ts \<noteq> []"
  by (simp_all add: visited_def)

definition chain_valid :: "transition_record list \<Rightarrow> session_state \<Rightarrow> bool" where
  "chain_valid ts s \<longleftrightarrow> session_run (visited ts) \<and> last (visited ts) = s
     \<and> map tr_from ts = butlast (visited ts)
     \<and> map tr_sequence ts = map (\<lambda>i. word_of_nat (Suc i)) [0..<length ts]"

lemma chain_valid_Nil [simp]: "chain_valid [] s \<longleftrightarrow> s = New"
  by (auto simp: chain_valid_def intro: session_run.start)

lemma chain_valid_snoc:
  "chain_valid (ts @ [t]) s \<longleftrightarrow> chain_valid ts (tr_from t) \<and> session_can_transition (tr_from t) (tr_to t)
     \<and> s = tr_to t \<and> tr_sequence t = word_of_nat (Suc (length ts))"
proof -
  obtain vs v where vs: "visited ts = vs @ [v]" by (cases "visited ts" rule: rev_cases) simp_all
  have run: "session_run (visited (ts @ [t])) \<longleftrightarrow>
      session_run (visited ts) \<and> session_can_transition v (tr_to t)"
    using session_run_snoc [of "visited ts" "tr_to t"] vs by simp
  have from_states: "map tr_from (ts @ [t]) = butlast (visited (ts @ [t])) \<longleftrightarrow>
      map tr_from ts = vs \<and> tr_from t = v"
    unfolding visited_simps butlast_snoc vs by simp
  show ?thesis unfolding chain_valid_def run from_states by (auto simp: vs)
qed

lemma sequence_bound:
  assumes "n < 2 ^ 63"
  shows "(1 + word_of_nat n :: u64) \<noteq> - 1"
    and "saturating_inc (word_of_nat (Suc n)) = word_of_nat (Suc (Suc n))"
proof -
  have "(word_of_nat (Suc n) :: u64) \<noteq> - 1"
  proof
    assume "(word_of_nat (Suc n) :: u64) = - 1"
    then have "unat (word_of_nat (Suc n) :: u64) = unat (- 1 :: u64)" by (rule arg_cong)
    moreover have "unat (- 1 :: u64) = 2 ^ 64 - 1"
      by (simp add: unsigned_minus_1_eq_mask mask_eq_exp_minus_1)
    moreover have "unat (word_of_nat (Suc n) :: u64) = Suc n"
      using assms by (subst unat_of_nat) (simp add: take_bit_nat_eq_self)
    ultimately show False using assms by simp
  qed
  then show "(1 + word_of_nat n :: u64) \<noteq> - 1"
    and "saturating_inc (word_of_nat (Suc n)) = word_of_nat (Suc (Suc n))"
    by (simp_all add: saturating_inc_def)
qed

lemma validate_chain_ok:
  "length ts \<le> MAX_TRANSITIONS \<Longrightarrow> validate_chain 1 New ts = Inr s \<longleftrightarrow> chain_valid ts s"
proof (induction ts arbitrary: s rule: rev_induct)
  case (snoc t ts)
  then have "length ts < 2 ^ 63" by (simp add: MAX_TRANSITIONS_def)
  from sequence_bound(1) [OF this] snoc show ?case
    by (auto simp: validate_chain_snoc chain_valid_snoc)
qed auto

definition record_valid :: "session_record \<Rightarrow> bool" where
  "record_valid r \<longleftrightarrow> sr_operations r \<noteq> [] \<and> length (sr_operations r) \<le> MAX_OPERATIONS
     \<and> length (sr_transitions r) \<le> MAX_TRANSITIONS \<and> length (sr_failures r) \<le> MAX_FAILURES
     \<and> sh_targets (se_header (sr_session r)) = map (\<lambda>p. pm_target (op_mutation p)) (sr_operations r)
     \<and> distinct (map op_id (sr_operations r)) \<and> (\<forall>p \<in> set (sr_operations r). operation_valid p)
     \<and> (\<forall>t \<in> set (sr_transitions r). tr_session_id t = sr_session_id r)
     \<and> chain_valid (sr_transitions r) (sr_state r)"

lemma zip_targets:
  "length ts = length ps \<Longrightarrow> (\<forall>x \<in> set (zip ts ps). fst x = f (snd x)) \<longleftrightarrow> ts = map f ps"
  by (induction ts ps rule: list_induct2) auto

lemma validate_for_serialization_ok: "validate_for_serialization r = Inr u \<longleftrightarrow> record_valid r"
proof -
  have "try_each (\<lambda>(target, operation). require (target = pm_target (op_mutation operation)) m)
      (zip ts ps) = Inr () \<longleftrightarrow> (\<forall>x \<in> set (zip ts ps). fst x = pm_target (op_mutation (snd x)))"
    for m ts ps
    by (force simp: try_each_eq_Inr split: prod.splits)
  then show ?thesis
    using zip_targets [of "sh_targets (se_header (sr_session r))" "sr_operations r"
        "\<lambda>p. pm_target (op_mutation p)"]
    by (auto simp: validate_for_serialization_def rbind_eq_Inr validate_operations_ok record_valid_def
        try_each_eq_Inr [of "\<lambda>transition. require (tr_session_id transition = sr_session_id r) m" for m]
        validate_chain_ok MAX_TARGETS_def MAX_OPERATIONS_def)
qed

section \<open>The lifecycle operations keep a record valid\<close>

lemma find_id:
  assumes "find (\<lambda>p. op_id p = i) ps = Some p"
  shows "p \<in> set ps" "op_id p = i"
  using assms by (auto simp: find_Some_iff)

lemma set_update_first: "set (update_first p f xs) \<subseteq> set xs \<union> f ` {x \<in> set xs. p x}"
  by (induction xs) auto

lemma record_valid_update:
  assumes valid: "record_valid r"
    and same: "op_mutation q = op_mutation p" and p: "p \<in> set (sr_operations r)" "op_id p = i"
    and q: "operation_valid q"
  shows "record_valid (r\<lparr>sr_operations := update_first (\<lambda>p. op_id p = i) (\<lambda>_. q) (sr_operations r)\<rparr>)"
proof -
  let ?ps = "update_first (\<lambda>p. op_id p = i) (\<lambda>_. q) (sr_operations r)"
  have uniq: "x = p" if "x \<in> set (sr_operations r)" "op_id x = i" for x
    using valid p that by (auto simp: record_valid_def distinct_map inj_on_def)
  have mut: "map op_mutation ?ps = map op_mutation (sr_operations r)"
  proof (rule nth_equalityI)
    fix k assume "k < length (map op_mutation ?ps)"
    have "map op_mutation (update_first (\<lambda>p. op_id p = i) (\<lambda>_. q) xs) = map op_mutation xs"
      if "set xs \<subseteq> set (sr_operations r)" for xs
      using that uniq same by (induction xs) auto
    then show "map op_mutation ?ps ! k = map op_mutation (sr_operations r) ! k" by simp
  qed simp
  have ids: "map op_id ?ps = map op_id (sr_operations r)"
    and targets: "map (\<lambda>p. pm_target (op_mutation p)) ?ps
      = map (\<lambda>p. pm_target (op_mutation p)) (sr_operations r)"
    using arg_cong [OF mut, of "map pm_mutation_id"] arg_cong [OF mut, of "map pm_target"]
    by (simp_all add: comp_def)
  have "operation_valid x" if "x \<in> set ?ps" for x
    using set_update_first that q valid by (fastforce simp: record_valid_def)
  moreover have "?ps \<noteq> []" using valid by (metis length_0_conv length_update_first record_valid_def)
  ultimately show ?thesis using valid ids targets by (simp add: record_valid_def)
qed

text \<open>The rule every operation-level step uses.\<close>

lemma operation_mut_valid:
  assumes "record_valid r" and "operation_mut i body r = (res, r')"
    and "\<And>p q. SessionRecord_operation i r = Inr p \<Longrightarrow> op_id p = i \<Longrightarrow> operation_valid p \<Longrightarrow>
      body p = (res, q) \<Longrightarrow> op_mutation q = op_mutation p \<and> operation_valid q"
  shows "record_valid r'"
proof (cases "find (\<lambda>p. op_id p = i) (sr_operations r)")
  case None
  with assms show ?thesis by (simp add: operation_mut_def)
next
  case (Some p)
  obtain q where q: "body p = (res, q)"
    and r': "r' = r\<lparr>sr_operations := update_first (\<lambda>p. op_id p = i) (\<lambda>_. q) (sr_operations r)\<rparr>"
    using assms(2) Some by (auto simp: operation_mut_def split: prod.splits)
  have p: "p \<in> set (sr_operations r)" "op_id p = i" using find_id [OF Some] .
  have "operation_valid p" using assms(1) p by (simp add: record_valid_def)
  with assms(3) [of p q] p q Some have "op_mutation q = op_mutation p" "operation_valid q"
    by (simp_all add: SessionRecord_operation_def)
  then show ?thesis unfolding r' using record_valid_update [OF assms(1) _ p] by blast
qed

lemmas validity_defs = operation_valid_def evidence_bound_def evidence_shape_def

lemma transition_op_eq:
  "OperationRecord_transition s p = (res, q) \<longleftrightarrow>
     (if operation_can_transition (op_state p) s then res = Inr () \<and> q = p\<lparr>op_state := s\<rparr>
      else res = Inl (invariant_error ''illegal operation state transition'' (op_id p)) \<and> q = p)"
  by (auto simp: OperationRecord_transition_def)

lemma failure_irrelevant [simp]: "operation_valid (p\<lparr>op_failure := f\<rparr>) \<longleftrightarrow> operation_valid p"
  by (simp add: validity_defs)

text \<open>
  One call of a lifecycle operation, with what the transaction engine knows when it makes it. Error
  results are steps too: the record they leave must stay valid. The guards are what the operations
  do not check themselves: the evidence of a receipt is bound to the operation it is attached to,
  and the journal has room.
\<close>

inductive record_step :: "session_record \<Rightarrow> session_record \<Rightarrow> bool" where
  step_transition: "length (sr_transitions r) < MAX_TRANSITIONS \<Longrightarrow>
    SessionRecord_transition s at reason r = (res, r') \<Longrightarrow> record_step r r'"
| step_snapshot: "capture_snapshot snapshot r = (res, r') \<Longrightarrow> record_step r r'"
| step_intent: "record_intent r = (res, r') \<Longrightarrow> record_step r r'"
| step_applying: "operation_mut i (OperationRecord_transition operation_state.Applying) r = (res, r') \<Longrightarrow>
    record_step r r'"
| step_apply: "SessionRecord_operation i r = Inr p \<Longrightarrow> op_state p = operation_state.Applying \<Longrightarrow>
    ar_observed_precondition receipt = pm_precondition (op_mutation p) \<Longrightarrow>
    ar_observed_postcondition receipt = ar_ownership_fingerprint receipt \<Longrightarrow>
    record_apply i receipt r = (res, r') \<Longrightarrow> record_step r r'"
| step_verification: "SessionRecord_operation i r = Inr p \<Longrightarrow> op_state p = Applied \<Longrightarrow>
    op_apply_receipt p = Some receipt \<Longrightarrow> vr_expected v = ar_ownership_fingerprint receipt \<Longrightarrow>
    (vr_matched v \<longleftrightarrow> vr_observed v = Some (vr_expected v)) \<Longrightarrow>
    record_verification i v r = (res, r') \<Longrightarrow> record_step r r'"
| step_fail: "length (sr_failures r) < MAX_FAILURES \<Longrightarrow> fail_operation i e r = (res, r') \<Longrightarrow>
    record_step r r'"
| step_begin_restore: "SessionRecord_operation i r = Inr p \<Longrightarrow> op_apply_receipt p \<noteq> None \<Longrightarrow>
    begin_restore_operation i r = (res, r') \<Longrightarrow> record_step r r'"
| step_restore: "SessionRecord_operation i r = Inr p \<Longrightarrow> op_state p = operation_state.Restoring \<Longrightarrow>
    rr_restored_fingerprint receipt = pm_precondition (op_mutation p) \<Longrightarrow>
    record_restore i receipt r = (res, r') \<Longrightarrow> record_step r r'"
| step_fail_restore: "length (sr_failures r) < MAX_FAILURES \<Longrightarrow> fail_restore i e r = (res, r') \<Longrightarrow>
    record_step r r'"
| step_failure: "length (sr_failures r) < MAX_FAILURES \<Longrightarrow> record_failure e r = r' \<Longrightarrow>
    record_step r r'"

lemma transition_valid:
  assumes "record_valid r" and "length (sr_transitions r) < MAX_TRANSITIONS"
    and "SessionRecord_transition s at reason r = (res, r')"
  shows "record_valid r'"
proof -
  have chain: "chain_valid (sr_transitions r) (sr_state r)" using assms(1) by (simp add: record_valid_def)
  have seq: "(if sr_transitions r = [] then 1 else saturating_inc (tr_sequence (last (sr_transitions r))))
      = word_of_nat (Suc (length (sr_transitions r)))"
  proof (cases "sr_transitions r" rule: rev_cases)
    case (snoc ts t)
    then have "tr_sequence t = word_of_nat (Suc (length ts))" "length ts < 2 ^ 63"
      using chain assms(2) by (simp_all add: chain_valid_snoc MAX_TRANSITIONS_def)
    with snoc sequence_bound(2) [of "length ts"] show ?thesis by simp
  qed simp
  show ?thesis
    using assms chain
    unfolding SessionRecord_transition_def Session_transition_def Let_def seq
    by (auto simp: record_valid_def chain_valid_snoc split: if_splits)
qed

lemma snapshot_op_valid:
  assumes "operation_valid p" and "op_state p = operation_state.Planned"
    and "sn_mutation_id s = op_id p" "sn_target s = pm_target (op_mutation p)"
      "sn_equality s = pm_equality (op_mutation p)"
      "sn_original_fingerprint s = pm_precondition (op_mutation p)"
      "sn_target_identity s \<noteq> zero_identity"
  shows "operation_valid (p\<lparr>op_snapshot := Some s, op_state := operation_state.Snapshotted\<rparr>)"
proof -
  have "op_apply_receipt p = None" "op_verification p = None" "op_restore_receipt p = None"
    using assms(1,2) by (auto simp: validity_defs)
  with assms(3-) show ?thesis by (simp add: validity_defs)
qed

lemma snapshot_valid:
  assumes "record_valid r" and "capture_snapshot s r = (res, r')"
  shows "record_valid r'"
  using assms(1) assms(2) [unfolded capture_snapshot_def]
proof (rule operation_mut_valid)
  fix p q
  assume p: "op_id p = sn_mutation_id s" "operation_valid p"
    and body: "(if sn_target s \<noteq> pm_target (op_mutation p)
        \<or> sn_equality s \<noteq> pm_equality (op_mutation p)
        \<or> sn_original_fingerprint s \<noteq> pm_precondition (op_mutation p)
        \<or> sn_target_identity s = zero_identity
      then (Inl (with_target (pm_target (op_mutation p))
            (with_mutation (sn_mutation_id s) (with_stage Snapshot
              (SysboostError_new SnapshotError
          ''snapshot identity, equality, precondition, or target token is invalid'')))), p)
      else if op_snapshot p \<noteq> None \<or> op_state p \<noteq> operation_state.Planned
      then (Inl (invariant_error
            ''operation snapshot was captured more than once or at the wrong stage''
            (sn_mutation_id s)), p)
      else OperationRecord_transition operation_state.Snapshotted (p\<lparr>op_snapshot := Some s\<rparr>)) = (res, q)"
  then show "op_mutation q = op_mutation p \<and> operation_valid q"
    using snapshot_op_valid [OF p(2), of s]
    by (auto simp: transition_op_eq operation_can_transition_def simp del: update_first.simps
        split: if_splits)
qed

lemma for_operations_map:
  "(\<And>p. p \<in> set ps \<Longrightarrow> body p = (Inr (), f p)) \<Longrightarrow> for_operations body ps = (Inr (), map f ps)"
  by (induction ps) auto

lemma intent_eq:
  assumes "\<forall>p \<in> set (sr_operations r). op_state p = operation_state.Snapshotted"
  shows "record_intent r =
    (Inr (), r\<lparr>sr_operations := map (\<lambda>p. p\<lparr>op_state := IntentRecorded\<rparr>) (sr_operations r)\<rparr>)"
proof -
  have "for_operations (OperationRecord_transition IntentRecorded) (sr_operations r)
      = (Inr (), map (\<lambda>p. p\<lparr>op_state := IntentRecorded\<rparr>) (sr_operations r))"
    using assms
    by (intro for_operations_map) (simp add: OperationRecord_transition_def operation_can_transition_def)
  with assms show ?thesis by (auto simp: record_intent_def list_ex_iff)
qed

lemma intent_valid:
  assumes "record_valid r" and "record_intent r = (res, r')"
  shows "record_valid r'"
proof (cases "\<forall>p \<in> set (sr_operations r). op_state p = operation_state.Snapshotted")
  case True
  then have "operation_valid (p\<lparr>op_state := IntentRecorded\<rparr>)" if "p \<in> set (sr_operations r)" for p
    using assms(1) that by (auto simp: record_valid_def validity_defs)
  with True assms show ?thesis by (auto simp: intent_eq record_valid_def comp_def)
next
  case False
  then have "list_ex (\<lambda>p. op_state p \<noteq> operation_state.Snapshotted) (sr_operations r)"
    by (auto simp: list_ex_iff)
  with assms show ?thesis by (simp add: record_intent_def)
qed

lemma applying_valid:
  "record_valid r \<Longrightarrow>
    operation_mut i (OperationRecord_transition operation_state.Applying) r = (res, r') \<Longrightarrow> record_valid r'"
  by (erule operation_mut_valid, assumption)
    (auto simp: transition_op_eq validity_defs operation_can_transition_def split: if_splits)

lemma apply_valid:
  assumes "record_valid r" and "record_apply i receipt r = (res, r')"
    and "SessionRecord_operation i r = Inr p" and "op_state p = operation_state.Applying"
    and "ar_observed_precondition receipt = pm_precondition (op_mutation p)"
    and "ar_observed_postcondition receipt = ar_ownership_fingerprint receipt"
  shows "record_valid r'"
  using assms(1) assms(2) [unfolded record_apply_def]
  by (rule operation_mut_valid)
    (use assms(3-) in \<open>auto simp: transition_op_eq validity_defs operation_can_transition_def
      split: if_splits\<close>)

lemma verification_valid:
  assumes "record_valid r" and "record_verification i v r = (res, r')"
    and "SessionRecord_operation i r = Inr p" and "op_state p = Applied"
    and "op_apply_receipt p = Some receipt" and "vr_expected v = ar_ownership_fingerprint receipt"
    and "vr_matched v \<longleftrightarrow> vr_observed v = Some (vr_expected v)"
  shows "record_valid r'"
  using assms(1) assms(2) [unfolded record_verification_def]
  by (rule operation_mut_valid)
    (use assms(3-) in \<open>auto simp: transition_op_eq validity_defs operation_can_transition_def
      split: if_splits\<close>)

lemma push_failure_valid:
  "record_valid r \<Longrightarrow> length (sr_failures r) < MAX_FAILURES \<Longrightarrow> record_valid (push_failure e r)"
  by (auto simp: push_failure_def record_valid_def)

lemma operation_mut_failures:
  "operation_mut i body r = (res, r') \<Longrightarrow> sr_failures r' = sr_failures r"
  by (auto simp: operation_mut_def split: option.splits prod.splits)

lemma fail_op_valid:
  assumes "operation_valid p" and "operation_can_transition (op_state p) s"
    and "s = Failed \<or> s = RestoreFailed"
  shows "operation_valid (p\<lparr>op_state := s\<rparr>)"
proof -
  consider (applying) "s = Failed" "op_state p = operation_state.Applying"
    | (applied) "s = Failed" "op_state p = Applied"
    | (restoring) "s = RestoreFailed" "op_state p = operation_state.Restoring"
    using assms(2,3) by (auto simp: operation_can_transition_def)
  then show ?thesis using assms(1) by cases (auto simp: validity_defs)
qed

lemma fail_with_valid:
  assumes "record_valid r" and "fail_with s i e r = (res, r')"
    and "length (sr_failures r) < MAX_FAILURES" and "s = Failed \<or> s = RestoreFailed"
  shows "record_valid r'"
proof -
  obtain res1 r1 where step: "operation_mut i (\<lambda>operation.
      let operation = operation\<lparr>op_failure := Some (FailureRecord_from_error e)\<rparr> in
      if op_state operation \<noteq> s then OperationRecord_transition s operation
      else (Inr (), operation)) r = (res1, r1)" by fastforce
  have "record_valid r1"
    using assms(1) step
    by (rule operation_mut_valid)
      (use fail_op_valid [OF _ _ assms(4)] in \<open>force simp: transition_op_eq Let_def split: if_splits\<close>)
  with step assms(2,3) operation_mut_failures [OF step] show ?thesis
    by (auto simp: fail_with_def push_failure_valid split: sum.splits)
qed

lemma begin_restore_valid:
  assumes "record_valid r" and "begin_restore_operation i r = (res, r')"
    and "SessionRecord_operation i r = Inr p" and "op_apply_receipt p \<noteq> None"
  shows "record_valid r'"
  using assms(1) assms(2) [unfolded begin_restore_operation_def]
  by (rule operation_mut_valid)
    (use assms(3-) in \<open>auto simp: transition_op_eq validity_defs operation_can_transition_def
      split: if_splits\<close>)

lemma restore_valid:
  assumes "record_valid r" and "record_restore i receipt r = (res, r')"
    and "SessionRecord_operation i r = Inr p" and "op_state p = operation_state.Restoring"
    and "rr_restored_fingerprint receipt = pm_precondition (op_mutation p)"
  shows "record_valid r'"
  using assms(1) assms(2) [unfolded record_restore_def]
  by (rule operation_mut_valid)
    (use assms(3-) in \<open>auto simp: transition_op_eq validity_defs operation_can_transition_def
      split: if_splits\<close>)

lemma record_step_valid: "record_step r r' \<Longrightarrow> record_valid r \<Longrightarrow> record_valid r'"
proof (induction rule: record_step.induct)
  case (step_failure r e r')
  then show ?case by (auto simp: record_failure_def push_failure_valid)
qed (auto simp: fail_operation_def fail_restore_def
    intro: transition_valid snapshot_valid intent_valid applying_valid apply_valid
      verification_valid fail_with_valid begin_restore_valid restore_valid)

section \<open>New records\<close>

lemma planned_operations_ok:
  "planned_operations seen ms = Inr ps \<longleftrightarrow> ps = map OperationRecord_planned ms
     \<and> distinct (map pm_mutation_id ms) \<and> set (map pm_mutation_id ms) \<inter> set seen = {}"
  by (induction ms arbitrary: seen ps) (auto simp: rbind_eq_Inr)

lemma planned_fields [simp]:
  "op_mutation (OperationRecord_planned m) = m"
  "op_state (OperationRecord_planned m) = operation_state.Planned"
  "operation_valid (OperationRecord_planned m)"
  by (simp_all add: OperationRecord_planned_def validity_defs)

lemma SessionRecord_new_eq:
  "SessionRecord_new session ms = Inr r \<longleftrightarrow> ms \<noteq> [] \<and> length ms \<le> MAX_OPERATIONS
     \<and> distinct (map pm_mutation_id ms) \<and> r = \<lparr>sr_session = session,
       sr_operations = map OperationRecord_planned ms, sr_transitions = [], sr_failures = []\<rparr>"
  by (auto simp: SessionRecord_new_def rbind_eq_Inr planned_operations_ok)

lemma SessionRecord_new_valid:
  assumes "SessionRecord_new (Session_new sid plan at) (plan_mutations plan) = Inr r"
  shows "record_valid r"
  using assms by (auto simp: SessionRecord_new_eq record_valid_def Session_new_def comp_def)

section \<open>Properties\<close>

text \<open>An example mutation and plan, for the witnesses.\<close>

definition example_mutation :: planned_mutation where
  "example_mutation = \<lparr>pm_mutation_id = MutationId 7, pm_capability = CapabilityId ''cpu.boost'',
     pm_target = TargetId ''cpu'', pm_kind = mutation_kind.CpuBoost cpu_boost_state.Enabled,
     pm_desired = typed_value.CpuBoost cpu_boost_state.Enabled,
     pm_precondition = StateFingerprint (replicate 32 1), pm_equality = ScalarExact,
     pm_dependencies = [],
     pm_rollback = \<lparr>rb_equality = ScalarExact, rb_mode = CompareAndRestore\<rparr>\<rparr>"

definition example_plan :: plan where
  "example_plan = \<lparr>plan_id = PlanId (replicate 16 2), plan_digest = replicate 32 3,
     plan_policy_digest = replicate 32 4, plan_capability_digest = replicate 32 5,
     plan_mutations = [example_mutation], plan_items = [], plan_profile = None\<rparr>"

definition example_snapshot :: snapshot where
  "example_snapshot = \<lparr>sn_mutation_id = MutationId 7, sn_target = TargetId ''cpu'',
     sn_original_raw = BoundedBytes [0x30],
     sn_original_typed = typed_value.CpuBoost cpu_boost_state.Disabled,
     sn_original_fingerprint = StateFingerprint (replicate 32 1), sn_equality = ScalarExact,
     sn_target_identity = TargetIdentity (replicate 16 9), sn_captured_at = Timestamp 1000\<rparr>"

definition example_session :: session where
  "example_session = Session_new (SessionId (replicate 16 6)) example_plan (Timestamp 999)"

text \<open>An operation that was applied, verified and then restored to its precondition.\<close>

definition example_restored :: operation_record where
  "example_restored = \<lparr>op_mutation = example_mutation, op_state = operation_state.Restored,
     op_snapshot = Some example_snapshot,
     op_apply_receipt = Some \<lparr>ar_mutation_id = MutationId 7,
       ar_observed_precondition = StateFingerprint (replicate 32 1),
       ar_observed_postcondition = StateFingerprint (replicate 32 8),
       ar_ownership_fingerprint = StateFingerprint (replicate 32 8)\<rparr>,
     op_verification = None,
     op_restore_receipt = Some \<lparr>rr_mutation_id = MutationId 7,
       rr_restored_fingerprint = StateFingerprint (replicate 32 1), rr_verified = True\<rparr>,
     op_failure = None\<rparr>"

lemmas example_defs = example_mutation_def example_plan_def example_snapshot_def
  example_session_def example_restored_def Session_new_def zero_identity_def



text \<open>
  When a validated record claims that restoration is proven, every operation whose apply was
  ever acknowledged is in state \<open>Restored\<close> and carries a verified restore receipt for exactly the
  fingerprint that was captured before the apply, and no operation is left in the ambiguous
  \<open>Applying\<close> state.
\<close>

theorem restoration_proven_sound:
  assumes "validate_for_serialization r = Inr ()" and "restoration_proven r"
    and "p \<in> set (sr_operations r)"
  shows "op_state p \<noteq> operation_state.Applying \<and> (op_apply_receipt p \<noteq> None \<longrightarrow>
     op_state p = operation_state.Restored
     \<and> (\<exists>s receipt. op_snapshot p = Some s \<and> op_restore_receipt p = Some receipt
          \<and> rr_verified receipt \<and> rr_mutation_id receipt = op_id p
          \<and> rr_restored_fingerprint receipt = sn_original_fingerprint s
          \<and> sn_original_fingerprint s = pm_precondition (op_mutation p)))"
proof -
  have p: "evidence_bound p" "evidence_shape p" "\<not> needs_restore p"
    "op_state p \<noteq> operation_state.Applying"
    using assms by (simp_all add: validate_for_serialization_ok record_valid_def operation_valid_def
        restoration_proven_def list_all_iff)
  moreover have "op_state p = operation_state.Restored" if "op_apply_receipt p \<noteq> None"
    using that p(3) by (simp add: needs_restore_def is_restored_def)
  moreover obtain s receipt where "op_snapshot p = Some s" "op_restore_receipt p = Some receipt"
    if "op_state p = operation_state.Restored"
    using p(2) unfolding evidence_shape_def by fastforce
  ultimately show ?thesis unfolding evidence_bound_def by metis
qed

theorem restoration_proven_sound_witness:
  "rr_restored_fingerprint (the (op_restore_receipt example_restored)) = StateFingerprint (replicate 32 1)"
proof -
  let ?r = "\<lparr>sr_session = example_session, sr_operations = [example_restored], sr_transitions = [],
    sr_failures = []\<rparr>"
  have "validate_for_serialization ?r = Inr ()" "restoration_proven ?r"
    "example_restored \<in> set (sr_operations ?r)"
    by (simp_all add: validate_for_serialization_ok record_valid_def validity_defs example_defs
        MAX_OPERATIONS_def restoration_proven_def needs_restore_def is_restored_def)
  from restoration_proven_sound [OF this] show ?thesis by (auto simp: example_defs)
qed



section \<open>Bounded failure messages\<close>

lemma boundary_before_spec:
  "boundary_before s e \<le> e \<and> (boundary_before s e = 0 \<or> is_char_boundary s (boundary_before s e))
     \<and> (\<forall>k. boundary_before s e < k \<longrightarrow> k \<le> e \<longrightarrow> \<not> is_char_boundary s k)"
proof (induction e)
  case (Suc e)
  show ?case
  proof (cases "is_char_boundary s (Suc e)")
    case False
    with Suc show ?thesis by (auto simp: le_Suc_eq)
  qed auto
qed simp

lemma is_char_boundary_cut: "is_char_boundary s k \<longleftrightarrow> cut_point (str_bytes s) k"
  by (simp add: is_char_boundary_def cut_point_def)

text \<open>
  A failure message is bounded without ever splitting a UTF-8 character: the result is valid
  UTF-8, a prefix of the message, within the bound, and at most three bytes short of it.
\<close>

theorem truncate_text_bounds:
  assumes "utf8 s"
  shows "utf8 (truncate_text s n) \<and> prefix (truncate_text s n) s \<and> length (truncate_text s n) \<le> n
    \<and> (n < length s \<longrightarrow> n < length (truncate_text s n) + 4)"
proof (cases "length s \<le> n")
  case False
  define k where "k = boundary_before s n"
  have k: "k \<le> n" "cut_point (str_bytes s) k" "\<And>j. k < j \<Longrightarrow> j \<le> n \<Longrightarrow> \<not> cut_point (str_bytes s) j"
    using boundary_before_spec [of s n] by (auto simp: k_def is_char_boundary_cut) (simp add: cut_point_def)
  obtain j where j: "j \<le> n" "n < j + 4" "cut_point (str_bytes s) j"
    using cut_near [of "str_bytes s" n] assms False by (auto simp: utf8_def)
  then have "j \<le> k" using k(3) by (meson not_le)
  moreover have "utf8 (take k s)"
    using utf8_take [of "str_bytes s" k] k(2) assms by (simp add: utf8_def str_bytes_def take_map)
  ultimately show ?thesis using False k(1) j
    by (simp add: truncate_text_def k_def [symmetric] take_is_prefix)
qed (use assms in \<open>simp add: truncate_text_def\<close>)

theorem truncate_text_bounds_witness:
  "utf8 (truncate_text ''abcdef'' 4) \<and> length (truncate_text ''abcdef'' 4) \<le> 4"
proof -
  have "utf8 ''abcdef''" by (rule ascii_utf8) simp
  from truncate_text_bounds [OF this, of 4] show ?thesis by blast
qed

end
