(* ===== verification/Record_Frames.thy ===== *)
theory Record_Frames
  imports Records
begin

text \<open>
  What the record operations leave alone: once the preimages are captured, no later operation
  changes the session identity, the planned mutations, their order or their snapshots. The
  transaction engine looks operations up by index and by identity; with distinct identities the two
  agree.
\<close>

section \<open>Frames\<close>

definition same_plan :: "session_record \<Rightarrow> session_record \<Rightarrow> bool" where
  "same_plan r r' \<longleftrightarrow> sr_session_id r' = sr_session_id r
     \<and> map op_mutation (sr_operations r') = map op_mutation (sr_operations r)
     \<and> map op_snapshot (sr_operations r') = map op_snapshot (sr_operations r)"

named_theorems frames

lemma same_plan_refl [simp]: "same_plan r r"
  by (simp add: same_plan_def)

lemma same_plan_trans [trans]: "same_plan r r' \<Longrightarrow> same_plan r' r'' \<Longrightarrow> same_plan r r''"
  by (simp add: same_plan_def)

lemma same_planD:
  assumes "same_plan r r'"
  shows "sr_session_id r' = sr_session_id r" "length (sr_operations r') = length (sr_operations r)"
    "map op_id (sr_operations r') = map op_id (sr_operations r)"
    "i < length (sr_operations r) \<Longrightarrow> op_mutation (sr_operations r' ! i) = op_mutation (sr_operations r ! i)"
    "i < length (sr_operations r) \<Longrightarrow> op_snapshot (sr_operations r' ! i) = op_snapshot (sr_operations r ! i)"
proof -
  have m: "map op_mutation (sr_operations r') = map op_mutation (sr_operations r)"
    and s: "map op_snapshot (sr_operations r') = map op_snapshot (sr_operations r)"
    using assms by (simp_all add: same_plan_def)
  from m show len: "length (sr_operations r') = length (sr_operations r)" by (rule map_eq_imp_length_eq)
  from arg_cong [OF m, of "map pm_mutation_id"]
  show "map op_id (sr_operations r') = map op_id (sr_operations r)" by (simp add: comp_def)
  show "op_mutation (sr_operations r' ! i) = op_mutation (sr_operations r ! i)"
    if "i < length (sr_operations r)"
    using arg_cong [OF m, of "\<lambda>xs. xs ! i"] that len by simp
  show "op_snapshot (sr_operations r' ! i) = op_snapshot (sr_operations r ! i)"
    if "i < length (sr_operations r)"
    using arg_cong [OF s, of "\<lambda>xs. xs ! i"] that len by simp
qed (use assms in \<open>simp add: same_plan_def\<close>)

text \<open>With distinct identities, the operation of an identity is the operation at its index.\<close>

lemma find_at:
  assumes "distinct (map f xs)" and "i < length xs"
  shows "find (\<lambda>x. f x = f (xs ! i)) xs = Some (xs ! i)"
    "update_first (\<lambda>x. f x = f (xs ! i)) g xs = xs[i := g (xs ! i)]"
  using assms
proof (induction xs arbitrary: i)
  case (Cons x xs)
  { case 1 then show ?case by (cases i) (auto simp: Cons.IH) }
  { case 2 then show ?case by (cases i) (auto simp: Cons.IH) }
qed simp_all

lemma operation_mut_at:
  assumes "distinct (map op_id (sr_operations r))" and "i < length (sr_operations r)"
    and "op_id (sr_operations r ! i) = k"
  shows "operation_mut k body r = (case body (sr_operations r ! i) of (res, q) \<Rightarrow>
    (res, r\<lparr>sr_operations := (sr_operations r)[i := q]\<rparr>))"
  using find_at [OF assms(1,2)] assms(3) by (auto simp: operation_mut_def split: prod.splits)

text \<open>Without assuming distinct identities: a successful update hits the first operation of the identity.\<close>

lemma find_first:
  "find Q xs = Some x \<Longrightarrow> \<exists>i < length xs. xs ! i = x \<and> Q x \<and> (\<forall>j < i. \<not> Q (xs ! j))
     \<and> update_first Q g xs = xs[i := g x]"
proof (induction xs)
  case (Cons y ys)
  show ?case
  proof (cases "Q y")
    case True
    with Cons.prems show ?thesis by (intro exI [of _ 0]) auto
  next
    case False
    with Cons obtain i where "i < length ys" "ys ! i = x" "Q x" "\<forall>j < i. \<not> Q (ys ! j)"
      "update_first Q g ys = ys[i := g x]" by auto
    with False show ?thesis by (intro exI [of _ "Suc i"]) (auto simp: less_Suc_eq_0_disj)
  qed
qed simp

lemma operation_mut_first:
  assumes "operation_mut k body r = (Inr u, r')"
  obtains i q where "i < length (sr_operations r)" "op_id (sr_operations r ! i) = k"
    "\<forall>j < i. op_id (sr_operations r ! j) \<noteq> k" "body (sr_operations r ! i) = (Inr u, q)"
    "r' = r\<lparr>sr_operations := (sr_operations r)[i := q]\<rparr>"
proof (cases "find (\<lambda>p. op_id p = k) (sr_operations r)")
  case (Some p)
  obtain q where q: "body p = (Inr u, q)"
    and r': "r' = r\<lparr>sr_operations := update_first (\<lambda>p. op_id p = k) (\<lambda>_. q) (sr_operations r)\<rparr>"
    using assms Some by (auto simp: operation_mut_def split: prod.splits)
  from find_first [OF Some, of "\<lambda>_. q"] q r' that show ?thesis by fastforce
qed (use assms in \<open>simp add: operation_mut_def\<close>)

lemma operation_mut_keeps:
  assumes "operation_mut k body r = (res, r')"
    and "\<And>p res q. body p = (res, q) \<Longrightarrow> g q = g p"
  shows "map g (sr_operations r') = map g (sr_operations r)" "sr_session r' = sr_session r"
    "sr_transitions r' = sr_transitions r"
proof -
  have "map g (update_first (\<lambda>p. op_id p = k) (\<lambda>_. q) ps) = map g ps"
    if "find (\<lambda>p. op_id p = k) ps = Some p" "body p = (res, q)" for ps p q
    using that(1) assms(2) [OF that(2)] by (induction ps) (auto split: if_splits)
  then show "map g (sr_operations r') = map g (sr_operations r)"
    using assms(1) by (auto simp: operation_mut_def split: option.splits prod.splits)
qed (use assms(1) in \<open>auto simp: operation_mut_def split: option.splits prod.splits\<close>)

lemma operation_mut_frame:
  assumes "operation_mut k body r = (res, r')"
    and "\<And>p res q. body p = (res, q) \<Longrightarrow> op_mutation q = op_mutation p \<and> op_snapshot q = op_snapshot p"
  shows "same_plan r r'"
  using operation_mut_keeps(1) [OF assms(1), of op_mutation]
    operation_mut_keeps(1) [OF assms(1), of op_snapshot]
    operation_mut_keeps(2) [OF assms(1), of op_mutation] assms(2)
  by (simp add: same_plan_def)

lemma push_failure_frame [simp]:
  "same_plan r (push_failure e r)" "same_plan r (record_failure e r)"
  by (simp_all add: record_failure_def push_failure_def same_plan_def)

lemma transition_frame [frames]: "SessionRecord_transition s at reason r = (res, r') \<Longrightarrow> same_plan r r'"
  by (auto simp: SessionRecord_transition_def Session_transition_def Let_def same_plan_def
      split: if_splits prod.splits sum.splits)

lemma record_apply_frame [frames]: "record_apply k receipt r = (res, r') \<Longrightarrow> same_plan r r'"
  unfolding record_apply_def
  by (erule operation_mut_frame) (auto simp: transition_op_eq split: if_splits)

lemma record_verification_frame [frames]: "record_verification k v r = (res, r') \<Longrightarrow> same_plan r r'"
  unfolding record_verification_def
  by (erule operation_mut_frame) (auto simp: transition_op_eq split: if_splits)

lemma begin_restore_frame [frames]: "begin_restore_operation k r = (res, r') \<Longrightarrow> same_plan r r'"
  unfolding begin_restore_operation_def
  by (erule operation_mut_frame) (auto simp: transition_op_eq split: if_splits)

lemma record_restore_frame [frames]: "record_restore k receipt r = (res, r') \<Longrightarrow> same_plan r r'"
  unfolding record_restore_def
  by (erule operation_mut_frame) (auto simp: transition_op_eq split: if_splits)

lemma fail_with_frame:
  assumes "fail_with s k e r = (res, r')"
  shows "same_plan r r'"
proof -
  obtain res1 r1 where step: "operation_mut k (\<lambda>operation.
      let operation = operation\<lparr>op_failure := Some (FailureRecord_from_error e)\<rparr> in
      if op_state operation \<noteq> s then OperationRecord_transition s operation
      else (Inr (), operation)) r = (res1, r1)" by fastforce
  then have "same_plan r r1"
    by (rule operation_mut_frame) (auto simp: transition_op_eq Let_def split: if_splits)
  with assms step show ?thesis
    by (auto simp: fail_with_def split: sum.splits intro: same_plan_trans)
qed

lemma fail_frames [frames]:
  "fail_operation k e r = (res, r') \<Longrightarrow> same_plan r r'"
  "fail_restore k e r = (res, r') \<Longrightarrow> same_plan r r'"
  by (auto simp: fail_operation_def fail_restore_def dest: fail_with_frame)

lemma fail_snd_frame [simp]: "same_plan r (snd (fail_restore k e r))" "same_plan r (snd (fail_operation k e r))"
  by (cases "fail_restore k e r"; use fail_frames in fastforce)
    (cases "fail_operation k e r"; use fail_frames in fastforce)

lemma failures_frame: "same_plan r (fold record_failure es r)"
  by (induction es arbitrary: r) (auto intro: same_plan_trans [OF push_failure_frame(2)])

text \<open>Session transitions and failures leave the operations alone.\<close>

lemma transition_operations [simp]:
  "SessionRecord_transition s at reason r = (res, r') \<Longrightarrow> sr_operations r' = sr_operations r"
  by (auto simp: SessionRecord_transition_def Let_def split: if_splits prod.splits sum.splits)

lemma transition_ok_state:
  "SessionRecord_transition s at reason r = (Inr u, r') \<Longrightarrow> sr_state r' = s"
  by (auto simp: SessionRecord_transition_def Session_transition_def Let_def
      split: if_splits prod.splits sum.splits)

lemma transition_ok_length:
  "SessionRecord_transition s at reason r = (Inr u, r') \<Longrightarrow>
   length (sr_transitions r') = Suc (length (sr_transitions r))"
  by (auto simp: SessionRecord_transition_def Let_def split: if_splits prod.splits sum.splits)

lemma failures_operations [simp]: "sr_operations (fold record_failure es r) = sr_operations r"
  "sr_state (fold record_failure es r) = sr_state r"
  by (induction es arbitrary: r) (simp_all add: record_failure_def push_failure_def)

end
