(* ===== verification/Codec.thy ===== *)
theory Codec
  imports Records
begin

text \<open>
  The binary state-file codec of \<open>sysboost-core/src/transaction.rs\<close> (lines 474 to 568 and 779 to
  1981): the byte writer and cursor, one encoder and one decoder per type, the framing with magic,
  version and length, and the integrity checksum. The theorems about it are in \<open>Codec_Roundtrip\<close>.
\<close>

section \<open>Encoder\<close>

text \<open>
  The encoder is the byte vector written so far. Every encoding function is a writer: it appends to
  the vector or fails, and a failure drops the vector because the caller returns it with \<open>?\<close>.
\<close>

definition STATE_FORMAT_VERSION :: u16 where "STATE_FORMAT_VERSION = 1"
definition MAX_SESSION_RECORD_BYTES :: nat where "MAX_SESSION_RECORD_BYTES = 1048576"
definition MAGIC :: "u8 list" where "MAGIC = str_bytes ''SYSBST01''"
definition MAX_DEPENDENCIES :: nat where "MAX_DEPENDENCIES = 4096"
definition MAX_STRING_BYTES :: nat where "MAX_STRING_BYTES = 4096"

type_synonym writer = "u8 list \<Rightarrow> u8 list result"

text \<open>A sequence of writes, each but the last followed by \<open>?\<close>.\<close>

fun write_all :: "writer list \<Rightarrow> writer" where
  "write_all [] e = Inr e"
| "write_all (w # ws) e = rbind (w e) (write_all ws)"

definition put_raw :: "u8 list \<Rightarrow> writer" where "put_raw value e = Inr (e @ value)"
definition put_u8 :: "u8 \<Rightarrow> writer" where "put_u8 value e = Inr (e @ [value])"
definition put_u16 :: "u16 \<Rightarrow> writer" where "put_u16 value = put_raw (to_be 2 value)"
definition put_u32 :: "u32 \<Rightarrow> writer" where "put_u32 value = put_raw (to_be 4 value)"
definition put_u64 :: "u64 \<Rightarrow> writer" where "put_u64 value = put_raw (to_be 8 value)"
definition put_u128 :: "u128 \<Rightarrow> writer" where "put_u128 value = put_raw (to_be 16 value)"
definition put_i64 :: "i64 \<Rightarrow> writer" where "put_i64 value = put_raw (to_be 8 value)"
definition put_fixed :: "u8 list \<Rightarrow> writer" where "put_fixed value = put_raw value"

definition put_bytes :: "u8 list \<Rightarrow> writer" where
  "put_bytes value e =
     (if length value > 2 ^ 32 - 1
      then Inl (corrupt ''encoded byte field exceeds the u32 bound'')
      else write_all [put_u32 (word_of_nat (length value)), put_raw value] e)"

definition put_string :: "string \<Rightarrow> nat \<Rightarrow> writer" where
  "put_string value max_len e =
     (if value = [] \<or> length value > max_len \<or> nul \<in> set value
      then Inl (corrupt ''encoded string is empty, oversized, or contains NUL'')
      else put_bytes (str_bytes value) e)"

definition put_count :: "nat \<Rightarrow> nat \<Rightarrow> writer" where
  "put_count count max_len e =
     (if count > max_len \<or> count > 2 ^ 32 - 1
      then Inl (corrupt ''state collection exceeds its bound'')
      else put_u32 (word_of_nat count) e)"

definition put_list :: "('a \<Rightarrow> writer) \<Rightarrow> nat \<Rightarrow> 'a list \<Rightarrow> writer" where
  "put_list enc max_len xs = write_all (put_count (length xs) max_len # map enc xs)"

definition encode_optional :: "bool \<Rightarrow> writer" where
  "encode_optional present = put_u8 (if present then 1 else 0)"

fun encode_option :: "('a \<Rightarrow> writer) \<Rightarrow> 'a option \<Rightarrow> writer" where
  "encode_option enc None = encode_optional False"
| "encode_option enc (Some x) = write_all [encode_optional True, enc x]"

section \<open>Decoder\<close>

record decoder =
  d_bytes :: "u8 list"
  d_offset :: nat

type_synonym 'a reader = "decoder \<Rightarrow> ('a \<times> decoder) result"

definition Decoder_new :: "u8 list \<Rightarrow> decoder" where
  "Decoder_new bytes = \<lparr>d_bytes = bytes, d_offset = 0\<rparr>"

definition dreturn :: "'a \<Rightarrow> 'a reader" where "dreturn x d = Inr (x, d)"

definition dbind :: "'a reader \<Rightarrow> ('a \<Rightarrow> 'b reader) \<Rightarrow> 'b reader" where
  "dbind m k d = rbind (m d) (\<lambda>(x, d'). k x d')"

text \<open>A fallible pure conversion between two reads.\<close>

definition dlift :: "'a result \<Rightarrow> 'a reader" where "dlift r d = rbind r (\<lambda>x. Inr (x, d))"

definition take_bytes :: "nat \<Rightarrow> u8 list reader" where
  "take_bytes count self =
     (let e = d_offset self + count in
      if e \<ge> usize_limit then Inl (corrupt ''state cursor overflow'')
      else if e > length (d_bytes self) then Inl (corrupt ''state record is truncated'')
      else Inr (take count (drop (d_offset self) (d_bytes self)), self\<lparr>d_offset := e\<rparr>))"

definition get_u8 :: "u8 reader" where "get_u8 = dbind (take_bytes 1) (\<lambda>b. dreturn (b ! 0))"
definition get_u16 :: "u16 reader" where "get_u16 = dbind (take_bytes 2) (\<lambda>b. dreturn (from_be b))"
definition get_u32 :: "u32 reader" where "get_u32 = dbind (take_bytes 4) (\<lambda>b. dreturn (from_be b))"
definition get_u64 :: "u64 reader" where "get_u64 = dbind (take_bytes 8) (\<lambda>b. dreturn (from_be b))"
definition get_u128 :: "u128 reader" where "get_u128 = dbind (take_bytes 16) (\<lambda>b. dreturn (from_be b))"
definition get_i64 :: "i64 reader" where "get_i64 = dbind (take_bytes 8) (\<lambda>b. dreturn (from_be b))"
definition get_fixed :: "nat \<Rightarrow> u8 list reader" where "get_fixed n = take_bytes n"

definition get_bytes :: "nat \<Rightarrow> u8 list reader" where
  "get_bytes max_len = dbind get_u32 (\<lambda>w. let n = unat w in
     if n > max_len then dlift (Inl (corrupt ''state byte field exceeds its bound''))
     else take_bytes n)"

definition get_string :: "nat \<Rightarrow> string reader" where
  "get_string max_len = dbind (get_bytes max_len) (\<lambda>bytes.
     dbind (dlift (ok_or (corrupt ''state string is not UTF-8'') (from_utf8 bytes))) (\<lambda>value.
     if value = [] \<or> nul \<in> set value
     then dlift (Inl (corrupt ''state string is empty or contains NUL''))
     else dreturn value))"

definition get_count :: "nat \<Rightarrow> nat reader" where
  "get_count max_len = dbind get_u32 (\<lambda>w.
     if unat w > max_len then dlift (Inl (corrupt ''state collection exceeds its bound''))
     else dreturn (unat w))"

definition dec_finish :: "unit reader" where
  "dec_finish self =
     (if d_offset self = length (d_bytes self) then Inr ((), self)
      else Inl (corrupt ''state record contains trailing bytes''))"

fun get_many :: "nat \<Rightarrow> 'a reader \<Rightarrow> 'a list reader" where
  "get_many 0 dec = dreturn []"
| "get_many (Suc n) dec = dbind dec (\<lambda>x. dbind (get_many n dec) (\<lambda>xs. dreturn (x # xs)))"

definition get_list :: "'a reader \<Rightarrow> nat \<Rightarrow> 'a list reader" where
  "get_list dec max_len = dbind (get_count max_len) (\<lambda>count. get_many count dec)"

definition decode_option :: "'a reader \<Rightarrow> 'a option reader" where
  "decode_option dec = dbind get_u8 (\<lambda>tag.
     if tag \<noteq> 0 then dbind dec (\<lambda>x. dreturn (Some x)) else dreturn None)"

definition get_bool :: "bool reader" where
  "get_bool = dbind get_u8 (\<lambda>tag. dreturn (tag \<noteq> 0))"

text \<open>A string read followed by a checked constructor.\<close>

definition get_checked :: "(string \<Rightarrow> 'e + 'a) \<Rightarrow> string \<Rightarrow> 'a reader" where
  "get_checked new message = dbind (get_string MAX_STRING_BYTES) (\<lambda>s.
     dlift (replace_err (corrupt message) (new s)))"

section \<open>Tags\<close>

fun session_state_tag :: "session_state \<Rightarrow> u8" where
  "session_state_tag New = 0"
| "session_state_tag Detected = 1"
| "session_state_tag session_state.Planned = 2"
| "session_state_tag session_state.Snapshotted = 3"
| "session_state_tag IntentDurable = 4"
| "session_state_tag session_state.Applying = 5"
| "session_state_tag Active = 6"
| "session_state_tag session_state.Restoring = 7"
| "session_state_tag session_state.Restored = 8"
| "session_state_tag RollingBack = 9"
| "session_state_tag Degraded = 10"
| "session_state_tag RecoveryPending = 11"

text \<open>A \<open>match\<close> on a tag: the value listed for it, or the error of the last arm.\<close>

definition match_tag :: "('t \<times> 'a) list \<Rightarrow> string \<Rightarrow> 't \<Rightarrow> 'a result" where
  "match_tag arms message tag = ok_or (corrupt message) (map_of arms tag)"

definition decode_session_state :: "u8 \<Rightarrow> session_state result" where
  "decode_session_state = match_tag [(0, New), (1, Detected), (2, session_state.Planned),
     (3, session_state.Snapshotted), (4, IntentDurable), (5, session_state.Applying), (6, Active),
     (7, session_state.Restoring), (8, session_state.Restored), (9, RollingBack), (10, Degraded),
     (11, RecoveryPending)] ''unknown session state tag''"

definition encode_session_state :: "session_state \<Rightarrow> writer" where
  "encode_session_state state = put_u8 (session_state_tag state)"

fun operation_state_tag :: "operation_state \<Rightarrow> u8" where
  "operation_state_tag operation_state.Planned = 0"
| "operation_state_tag operation_state.Snapshotted = 1"
| "operation_state_tag IntentRecorded = 2"
| "operation_state_tag operation_state.Applying = 3"
| "operation_state_tag Applied = 4"
| "operation_state_tag Verified = 5"
| "operation_state_tag operation_state.Restoring = 6"
| "operation_state_tag operation_state.Restored = 7"
| "operation_state_tag Failed = 8"
| "operation_state_tag RestoreFailed = 9"

definition encode_operation_state :: "operation_state \<Rightarrow> writer" where
  "encode_operation_state state = put_u8 (operation_state_tag state)"

definition decode_operation_state :: "u8 \<Rightarrow> operation_state result" where
  "decode_operation_state = match_tag [(0, operation_state.Planned),
     (1, operation_state.Snapshotted), (2, IntentRecorded), (3, operation_state.Applying),
     (4, Applied), (5, Verified), (6, operation_state.Restoring), (7, operation_state.Restored),
     (8, Failed), (9, RestoreFailed)] ''unknown operation state tag''"

fun equality_tag :: "equality_kind \<Rightarrow> u8" where
  "equality_tag ByteExact = 0" | "equality_tag ScalarExact = 1" | "equality_tag SetExact = 2"

definition encode_equality :: "equality_kind \<Rightarrow> writer" where
  "encode_equality equality = put_u8 (equality_tag equality)"

definition decode_equality :: "u8 \<Rightarrow> equality_kind result" where
  "decode_equality = match_tag [(0, ByteExact), (1, ScalarExact), (2, SetExact)]
     ''unknown equality tag''"

fun stage_tag :: "stage \<Rightarrow> u8" where
  "stage_tag Detect = 0"
| "stage_tag Plan = 1"
| "stage_tag Snapshot = 2"
| "stage_tag DurableIntent = 3"
| "stage_tag Apply = 4"
| "stage_tag Verify = 5"
| "stage_tag Restore = 6"
| "stage_tag Recovery = 7"
| "stage_tag Transport = 8"
| "stage_tag Config = 9"

definition encode_stage :: "stage \<Rightarrow> writer" where
  "encode_stage stage = put_u8 (stage_tag stage)"

definition decode_stage :: "u8 \<Rightarrow> stage result" where
  "decode_stage = match_tag [(0, Detect), (1, Plan), (2, Snapshot), (3, DurableIntent),
     (4, Apply), (5, Verify), (6, Restore), (7, Recovery), (8, Transport), (9, Config)]
     ''unknown stage tag''"

fun error_code_tag :: "error_code \<Rightarrow> u16" where
  "error_code_tag ConfigError = 1"
| "error_code_tag CapabilityError = 2"
| "error_code_tag error_code.Unsupported = 3"
| "error_code_tag AuthorizationError = 4"
| "error_code_tag TargetError = 5"
| "error_code_tag PlanningError = 6"
| "error_code_tag SnapshotError = 7"
| "error_code_tag DurabilityError = 8"
| "error_code_tag TransportError = 9"
| "error_code_tag ApplyError = 10"
| "error_code_tag VerificationError = 11"
| "error_code_tag RestoreConflict = 12"
| "error_code_tag RestoreError = 13"
| "error_code_tag JournalCorrupt = 14"
| "error_code_tag InvariantViolation = 15"
| "error_code_tag InvalidInput = 16"

definition encode_error_code :: "error_code \<Rightarrow> writer" where
  "encode_error_code code = put_u16 (error_code_tag code)"

definition decode_error_code :: "u16 \<Rightarrow> error_code result" where
  "decode_error_code = match_tag [(1, ConfigError), (2, CapabilityError),
     (3, error_code.Unsupported), (4, AuthorizationError), (5, TargetError), (6, PlanningError),
     (7, SnapshotError), (8, DurabilityError), (9, TransportError), (10, ApplyError),
     (11, VerificationError), (12, RestoreConflict), (13, RestoreError), (14, JournalCorrupt),
     (15, InvariantViolation), (16, InvalidInput)] ''unknown error-code tag''"

fun energy_tag :: "energy_preference \<Rightarrow> u8" where
  "energy_tag energy_preference.Performance = 0"
| "energy_tag BalancePerformance = 1"
| "energy_tag BalancePower = 2"
| "energy_tag Power = 3"

definition decode_energy :: "u8 \<Rightarrow> energy_preference result" where
  "decode_energy = match_tag [(0, energy_preference.Performance), (1, BalancePerformance),
     (2, BalancePower), (3, Power)] ''unknown energy preference tag''"

fun cpu_boost_tag :: "cpu_boost_state \<Rightarrow> u8" where
  "cpu_boost_tag cpu_boost_state.Enabled = 0" | "cpu_boost_tag cpu_boost_state.Disabled = 1"

definition decode_cpu_boost :: "u8 \<Rightarrow> cpu_boost_state result" where
  "decode_cpu_boost = match_tag [(0, cpu_boost_state.Enabled), (1, cpu_boost_state.Disabled)]
     ''unknown CPU boost state tag''"

fun gpu_profile_tag :: "gpu_profile \<Rightarrow> u8" where
  "gpu_profile_tag gpu_profile.Performance = 0"
| "gpu_profile_tag gpu_profile.Balanced = 1"
| "gpu_profile_tag PowerSave = 2"

definition decode_gpu_profile :: "u8 \<Rightarrow> gpu_profile result" where
  "decode_gpu_profile = match_tag [(0, gpu_profile.Performance), (1, gpu_profile.Balanced),
     (2, PowerSave)] ''unknown GPU profile tag''"

fun sysctl_key_tag :: "approved_sysctl_key \<Rightarrow> u8" where
  "sysctl_key_tag SchedulerUtilClamping = 0"

definition decode_sysctl_key :: "u8 \<Rightarrow> approved_sysctl_key result" where
  "decode_sysctl_key = match_tag [(0, SchedulerUtilClamping)] ''unknown approved sysctl key tag''"

fun cgroup_kind_tag :: "cgroup_group_kind \<Rightarrow> u8" where
  "cgroup_kind_tag Workload = 0" | "cgroup_kind_tag ConservativeBackground = 1"

definition decode_cgroup_kind :: "u8 \<Rightarrow> cgroup_group_kind result" where
  "decode_cgroup_kind = match_tag [(0, Workload), (1, ConservativeBackground)]
     ''unknown managed cgroup kind tag''"

fun ioprio_class_tag :: "io_priority_class \<Rightarrow> u8" where
  "ioprio_class_tag NoClass = 0" | "ioprio_class_tag BestEffort = 1" | "ioprio_class_tag Idle = 2"

definition decode_ioprio_class :: "u8 \<Rightarrow> io_priority_class result" where
  "decode_ioprio_class = match_tag [(0, NoClass), (1, BestEffort), (2, Idle)]
     ''unknown I/O priority class tag''"

text \<open>A tag byte followed by its decoding.\<close>

definition get_tag :: "(u8 \<Rightarrow> 'a result) \<Rightarrow> 'a reader" where
  "get_tag dec = dbind get_u8 (\<lambda>tag. dlift (dec tag))"

section \<open>Values\<close>

definition encode_frequency :: "frequency_khz option \<Rightarrow> writer" where
  "encode_frequency = encode_option (\<lambda>f. put_u64 (khz f))"

definition decode_frequency :: "frequency_khz option reader" where
  "decode_frequency = decode_option (dbind get_u64 (\<lambda>v.
     dlift (replace_err (corrupt ''state frequency is invalid'') (FrequencyKHz_new v))))"

definition encode_cgroup :: "cgroup_id \<Rightarrow> writer" where
  "encode_cgroup cgroup = write_all [put_u64 (mount_id cgroup), put_u64 (inode cgroup),
     put_string (target_str (handle cgroup)) MAX_STRING_BYTES]"

definition decode_cgroup :: "cgroup_id reader" where
  "decode_cgroup = dbind get_u64 (\<lambda>mount. dbind get_u64 (\<lambda>ino.
     dbind (get_checked TargetId_new ''state cgroup handle is invalid'') (\<lambda>handle.
     dreturn (CgroupId mount ino handle))))"

definition encode_process :: "process_id \<Rightarrow> writer" where
  "encode_process process = write_all [put_u32 (pid process), put_u64 (start_time_ticks process)]"

definition decode_process :: "process_id reader" where
  "decode_process = dbind get_u32 (\<lambda>p. dbind get_u64 (\<lambda>ticks.
     dlift (replace_err (corrupt ''state process identity is invalid'') (ProcessId_new p ticks))))"

fun encode_uclamp :: "uclamp_value \<Rightarrow> writer" where
  "encode_uclamp (Value v) = write_all [put_u8 0, put_u16 v]"
| "encode_uclamp uclamp_value.Max = write_all [put_u8 1]"

definition decode_uclamp :: "uclamp_value reader" where
  "decode_uclamp = dbind get_u8 (\<lambda>tag.
     if tag = 0 then dbind get_u16 (\<lambda>v.
       dlift (replace_err (corrupt ''state utilization clamp is invalid'') (UclampValue_new v)))
     else if tag = 1 then dreturn uclamp_value.Max
     else dlift (Inl (corrupt ''unknown utilization clamp tag'')))"

definition encode_ioprio :: "io_priority \<Rightarrow> writer" where
  "encode_ioprio priority =
     write_all [put_u8 (ioprio_class_tag (io_class priority)), put_u8 (io_level priority)]"

definition decode_ioprio :: "io_priority reader" where
  "decode_ioprio = dbind (get_tag decode_ioprio_class) (\<lambda>c. dbind get_u8 (\<lambda>level.
     dlift (replace_err (corrupt ''state I/O priority is invalid'') (IoPriority_new c level))))"

definition encode_cpuset :: "cpu_set \<Rightarrow> writer" where
  "encode_cpuset cpus = put_list put_u32 MAX_DEPENDENCIES (cpus_list cpus)"

definition decode_cpuset :: "cpu_set reader" where
  "decode_cpuset = dbind (get_list get_u32 MAX_DEPENDENCIES) (\<lambda>cpus.
     dlift (replace_err (corrupt ''state CPU set is invalid'') (CpuSet_new cpus)))"

fun encode_quota :: "cpu_quota \<Rightarrow> writer" where
  "encode_quota cpu_quota.Max = write_all [put_u8 0]"
| "encode_quota (Micros v) = write_all [put_u8 1, put_u64 v]"

definition decode_quota :: "cpu_quota reader" where
  "decode_quota = dbind get_u8 (\<lambda>tag.
     if tag = 0 then dreturn cpu_quota.Max
     else if tag = 1 then dbind get_u64 (\<lambda>v.
       dlift (replace_err (corrupt ''state CPU quota is invalid'') (CpuQuota_micros v)))
     else dlift (Inl (corrupt ''unknown CPU quota tag'')))"

text \<open>\<open>i64::from(i8)\<close> and \<open>i8::try_from(i64)\<close>, as the nice value is stored.\<close>

definition encode_nice :: "nice_value \<Rightarrow> writer" where
  "encode_nice nice = put_i64 (scast (nice_get nice))"

definition i8_of_i64 :: "i64 \<Rightarrow> i8 option" where
  "i8_of_i64 v = (if - 128 \<le> sint v \<and> sint v \<le> 127 then Some (scast v) else None)"

definition decode_nice :: "string \<Rightarrow> nice_value reader" where
  "decode_nice message = dbind get_i64 (\<lambda>v.
     dbind (dlift (ok_or (corrupt message) (i8_of_i64 v))) (\<lambda>n.
     dlift (replace_err (corrupt message) (NiceValue_new n))))"

text \<open>A number read followed by a checked constructor.\<close>

definition get_u16_checked :: "(u16 \<Rightarrow> 'e + 'a) \<Rightarrow> string \<Rightarrow> 'a reader" where
  "get_u16_checked new message =
     dbind get_u16 (\<lambda>v. dlift (replace_err (corrupt message) (new v)))"

definition get_u32_checked :: "(u32 \<Rightarrow> 'e + 'a) \<Rightarrow> string \<Rightarrow> 'a reader" where
  "get_u32_checked new message =
     dbind get_u32 (\<lambda>v. dlift (replace_err (corrupt message) (new v)))"

definition get_u64_checked :: "(u64 \<Rightarrow> 'e + 'a) \<Rightarrow> string \<Rightarrow> 'a reader" where
  "get_u64_checked new message =
     dbind get_u64 (\<lambda>v. dlift (replace_err (corrupt message) (new v)))"

fun encode_mutation_kind :: "mutation_kind \<Rightarrow> writer" where
  "encode_mutation_kind (mutation_kind.CpuFrequency policy lo hi) = write_all
     [put_u8 0, put_u32 (policy_num policy), encode_frequency lo, encode_frequency hi]"
| "encode_mutation_kind (mutation_kind.CpuGovernor policy governor) = write_all
     [put_u8 1, put_u32 (policy_num policy), put_string (governor_str governor) MAX_STRING_BYTES]"
| "encode_mutation_kind (mutation_kind.CpuEnergyPreference policy v) = write_all
     [put_u8 2, put_u32 (policy_num policy), put_u8 (energy_tag v)]"
| "encode_mutation_kind (mutation_kind.CpuBoost state) = write_all
     [put_u8 10, put_u8 (cpu_boost_tag state)]"
| "encode_mutation_kind (mutation_kind.PlatformProfile profile) = write_all
     [put_u8 11, put_string (platform_profile_str profile) MAX_STRING_BYTES]"
| "encode_mutation_kind (mutation_kind.CgroupCpuWeight cgroup weight) = write_all
     [put_u8 3, encode_cgroup cgroup, put_u16 (cpu_weight_get weight)]"
| "encode_mutation_kind (mutation_kind.CgroupCpuMax cgroup quota period) = write_all
     [put_u8 4, encode_cgroup cgroup, encode_quota quota, put_u64 (period_micros period)]"
| "encode_mutation_kind (mutation_kind.CgroupCpuset cgroup cpus) = write_all
     [put_u8 5, encode_cgroup cgroup, encode_cpuset cpus]"
| "encode_mutation_kind (mutation_kind.CgroupIoWeight cgroup weight) = write_all
     [put_u8 12, encode_cgroup cgroup, put_u16 (io_weight_get weight)]"
| "encode_mutation_kind (mutation_kind.CgroupUclampMin cgroup v) = write_all
     [put_u8 13, encode_cgroup cgroup, encode_uclamp v]"
| "encode_mutation_kind (mutation_kind.CgroupUclampMax cgroup v) = write_all
     [put_u8 14, encode_cgroup cgroup, encode_uclamp v]"
| "encode_mutation_kind (mutation_kind.CgroupWorkload parent name) = write_all
     [put_u8 15, encode_cgroup parent, put_string (cgroup_name_str name) MAX_STRING_BYTES]"
| "encode_mutation_kind (mutation_kind.CgroupBackground parent name) = write_all
     [put_u8 16, encode_cgroup parent, put_string (cgroup_name_str name) MAX_STRING_BYTES]"
| "encode_mutation_kind (mutation_kind.ProcessPlacement process cgroup) = write_all
     [put_u8 17, encode_process process, encode_cgroup cgroup]"
| "encode_mutation_kind (mutation_kind.ProcessNice process nice) = write_all
     [put_u8 18, encode_process process, encode_nice nice]"
| "encode_mutation_kind (mutation_kind.ProcessIoPriority process priority) = write_all
     [put_u8 19, encode_process process, encode_ioprio priority]"
| "encode_mutation_kind (mutation_kind.GpuPerformanceProfile device profile) = write_all
     [put_u8 6, put_u32 (gpu_num device), put_u8 (gpu_profile_tag profile)]"
| "encode_mutation_kind (mutation_kind.GpuPowerLimit device milliwatts) = write_all
     [put_u8 7, put_u32 (gpu_num device), put_u32 (milliwatts_get milliwatts)]"
| "encode_mutation_kind (mutation_kind.IrqAffinity irq cpus) = write_all
     [put_u8 8, put_u32 (irq_num irq), encode_cpuset cpus]"
| "encode_mutation_kind (mutation_kind.RuntimeSysctl key v) = write_all
     [put_u8 9, put_u8 (sysctl_key_tag key), put_i64 (sysctl_get v)]"

definition kind_arms :: "(u8 \<times> mutation_kind reader) list" where
  "kind_arms =
     [(0, dbind get_u32 (\<lambda>p. dbind decode_frequency (\<lambda>lo. dbind decode_frequency (\<lambda>hi.
          dreturn (mutation_kind.CpuFrequency (CpuPolicyId p) lo hi))))),
      (1, dbind get_u32 (\<lambda>p. dbind (get_checked GovernorId_new ''state governor is invalid'') (\<lambda>g.
          dreturn (mutation_kind.CpuGovernor (CpuPolicyId p) g)))),
      (2, dbind get_u32 (\<lambda>p. dbind (get_tag decode_energy) (\<lambda>v.
          dreturn (mutation_kind.CpuEnergyPreference (CpuPolicyId p) v)))),
      (3, dbind decode_cgroup (\<lambda>c.
          dbind (get_u16_checked CpuWeight_new ''state CPU weight is invalid'') (\<lambda>w.
          dreturn (mutation_kind.CgroupCpuWeight c w)))),
      (4, dbind decode_cgroup (\<lambda>c. dbind decode_quota (\<lambda>q.
          dbind (get_u64_checked CpuPeriod_new ''state CPU period is invalid'') (\<lambda>p.
          dreturn (mutation_kind.CgroupCpuMax c q p))))),
      (5, dbind decode_cgroup (\<lambda>c. dbind decode_cpuset (\<lambda>cpus.
          dreturn (mutation_kind.CgroupCpuset c cpus)))),
      (12, dbind decode_cgroup (\<lambda>c.
          dbind (get_u16_checked IoWeight_new ''state I/O weight is invalid'') (\<lambda>w.
          dreturn (mutation_kind.CgroupIoWeight c w)))),
      (13, dbind decode_cgroup (\<lambda>c. dbind decode_uclamp (\<lambda>v.
          dreturn (mutation_kind.CgroupUclampMin c v)))),
      (14, dbind decode_cgroup (\<lambda>c. dbind decode_uclamp (\<lambda>v.
          dreturn (mutation_kind.CgroupUclampMax c v)))),
      (15, dbind decode_cgroup (\<lambda>c.
          dbind (get_checked CgroupName_new ''state workload cgroup name is invalid'') (\<lambda>n.
          dreturn (mutation_kind.CgroupWorkload c n)))),
      (16, dbind decode_cgroup (\<lambda>c.
          dbind (get_checked CgroupName_new ''state background cgroup name is invalid'') (\<lambda>n.
          dreturn (mutation_kind.CgroupBackground c n)))),
      (17, dbind decode_process (\<lambda>p. dbind decode_cgroup (\<lambda>c.
          dreturn (mutation_kind.ProcessPlacement p c)))),
      (18, dbind decode_process (\<lambda>p. dbind (decode_nice ''state nice value is invalid'') (\<lambda>n.
          dreturn (mutation_kind.ProcessNice p n)))),
      (19, dbind decode_process (\<lambda>p. dbind decode_ioprio (\<lambda>i.
          dreturn (mutation_kind.ProcessIoPriority p i)))),
      (6, dbind get_u32 (\<lambda>d. dbind (get_tag decode_gpu_profile) (\<lambda>p.
          dreturn (mutation_kind.GpuPerformanceProfile (GpuId d) p)))),
      (7, dbind get_u32 (\<lambda>d.
          dbind (get_u32_checked PowerMilliwatts_new ''state GPU power limit is invalid'') (\<lambda>m.
          dreturn (mutation_kind.GpuPowerLimit (GpuId d) m)))),
      (8, dbind get_u32 (\<lambda>i. dbind decode_cpuset (\<lambda>cpus.
          dreturn (mutation_kind.IrqAffinity (IrqId i) cpus)))),
      (9, dbind (get_tag decode_sysctl_key) (\<lambda>k. dbind get_i64 (\<lambda>v.
          dreturn (mutation_kind.RuntimeSysctl k (ApprovedSysctlValue v))))),
      (10, dbind (get_tag decode_cpu_boost) (\<lambda>s. dreturn (mutation_kind.CpuBoost s))),
      (11, dbind (get_checked PlatformProfileId_new ''state platform profile is invalid'') (\<lambda>p.
          dreturn (mutation_kind.PlatformProfile p)))]"

definition decode_mutation_kind :: "mutation_kind reader" where
  "decode_mutation_kind = dbind get_u8 (\<lambda>tag. case map_of kind_arms tag of
     Some arm \<Rightarrow> arm | None \<Rightarrow> dlift (Inl (corrupt ''unknown mutation kind tag'')))"

fun encode_typed_value :: "typed_value \<Rightarrow> writer" where
  "encode_typed_value (typed_value.CpuFrequency lo hi) = write_all
     [put_u8 0, encode_frequency lo, encode_frequency hi]"
| "encode_typed_value (typed_value.Governor governor) = write_all
     [put_u8 1, put_string (governor_str governor) MAX_STRING_BYTES]"
| "encode_typed_value (typed_value.EnergyPreference v) = write_all
     [put_u8 2, put_u8 (energy_tag v)]"
| "encode_typed_value (typed_value.CpuBoost state) = write_all
     [put_u8 10, put_u8 (cpu_boost_tag state)]"
| "encode_typed_value (typed_value.PlatformProfile profile) = write_all
     [put_u8 11, put_string (platform_profile_str profile) MAX_STRING_BYTES]"
| "encode_typed_value (typed_value.CgroupCpuWeight weight) = write_all
     [put_u8 3, put_u16 (cpu_weight_get weight)]"
| "encode_typed_value (typed_value.CgroupCpuMax quota period) = write_all
     [put_u8 4, encode_quota quota, put_u64 (period_micros period)]"
| "encode_typed_value (typed_value.CgroupCpuset cpus) = write_all [put_u8 5, encode_cpuset cpus]"
| "encode_typed_value (typed_value.CgroupIoWeight weight) = write_all
     [put_u8 12, put_u16 (io_weight_get weight)]"
| "encode_typed_value (typed_value.CgroupUclamp v) = write_all [put_u8 13, encode_uclamp v]"
| "encode_typed_value (typed_value.CgroupLifecycle kind name present) = write_all
     [put_u8 14, put_u8 (cgroup_kind_tag kind), put_string (cgroup_name_str name) MAX_STRING_BYTES,
      put_u8 (if present then 1 else 0)]"
| "encode_typed_value (typed_value.ProcessPlacement cgroup) = write_all
     [put_u8 15, encode_cgroup cgroup]"
| "encode_typed_value (typed_value.Nice v) = write_all [put_u8 16, encode_nice v]"
| "encode_typed_value (typed_value.IoPriorityValue v) = write_all [put_u8 17, encode_ioprio v]"
| "encode_typed_value (typed_value.GpuPerformanceProfile profile) = write_all
     [put_u8 6, put_u8 (gpu_profile_tag profile)]"
| "encode_typed_value (typed_value.GpuPowerLimit limit) = write_all
     [put_u8 7, put_u32 (milliwatts_get limit)]"
| "encode_typed_value (typed_value.IrqAffinity cpus) = write_all [put_u8 8, encode_cpuset cpus]"
| "encode_typed_value (typed_value.RuntimeSysctl key v) = write_all
     [put_u8 9, put_u8 (sysctl_key_tag key), put_i64 (sysctl_get v)]"

definition value_arms :: "(u8 \<times> typed_value reader) list" where
  "value_arms =
     [(0, dbind decode_frequency (\<lambda>lo. dbind decode_frequency (\<lambda>hi.
          dreturn (typed_value.CpuFrequency lo hi)))),
      (1, dbind (get_checked GovernorId_new ''state typed governor is invalid'') (\<lambda>g.
          dreturn (typed_value.Governor g))),
      (2, dbind (get_tag decode_energy) (\<lambda>v. dreturn (typed_value.EnergyPreference v))),
      (3, dbind (get_u16_checked CpuWeight_new ''state typed CPU weight is invalid'') (\<lambda>w.
          dreturn (typed_value.CgroupCpuWeight w))),
      (4, dbind decode_quota (\<lambda>q.
          dbind (get_u64_checked CpuPeriod_new ''state typed CPU period is invalid'') (\<lambda>p.
          dreturn (typed_value.CgroupCpuMax q p)))),
      (5, dbind decode_cpuset (\<lambda>cpus. dreturn (typed_value.CgroupCpuset cpus))),
      (12, dbind (get_u16_checked IoWeight_new ''state typed I/O weight is invalid'') (\<lambda>w.
          dreturn (typed_value.CgroupIoWeight w))),
      (13, dbind decode_uclamp (\<lambda>v. dreturn (typed_value.CgroupUclamp v))),
      (14, dbind (get_tag decode_cgroup_kind) (\<lambda>k.
          dbind (get_checked CgroupName_new ''state typed cgroup name is invalid'') (\<lambda>n.
          dbind get_bool (\<lambda>present. dreturn (typed_value.CgroupLifecycle k n present))))),
      (15, dbind decode_cgroup (\<lambda>c. dreturn (typed_value.ProcessPlacement c))),
      (16, dbind (decode_nice ''state typed nice value is invalid'') (\<lambda>n.
          dreturn (typed_value.Nice n))),
      (17, dbind decode_ioprio (\<lambda>i. dreturn (typed_value.IoPriorityValue i))),
      (6, dbind (get_tag decode_gpu_profile) (\<lambda>p.
          dreturn (typed_value.GpuPerformanceProfile p))),
      (7, dbind (get_u32_checked PowerMilliwatts_new ''state typed GPU power limit is invalid'') (\<lambda>m.
          dreturn (typed_value.GpuPowerLimit m))),
      (8, dbind decode_cpuset (\<lambda>cpus. dreturn (typed_value.IrqAffinity cpus))),
      (9, dbind (get_tag decode_sysctl_key) (\<lambda>k. dbind get_i64 (\<lambda>v.
          dreturn (typed_value.RuntimeSysctl k (ApprovedSysctlValue v))))),
      (10, dbind (get_tag decode_cpu_boost) (\<lambda>s. dreturn (typed_value.CpuBoost s))),
      (11, dbind (get_checked PlatformProfileId_new ''state typed platform profile is invalid'') (\<lambda>p.
          dreturn (typed_value.PlatformProfile p)))]"

definition decode_typed_value :: "typed_value reader" where
  "decode_typed_value = dbind get_u8 (\<lambda>tag. case map_of value_arms tag of
     Some arm \<Rightarrow> arm | None \<Rightarrow> dlift (Inl (corrupt ''unknown typed-value tag'')))"

section \<open>Records\<close>

definition encode_mutation :: "planned_mutation \<Rightarrow> writer" where
  "encode_mutation mutation = write_all
     [put_u32 (mutation_num (pm_mutation_id mutation)),
      put_string (capability_str (pm_capability mutation)) MAX_STRING_BYTES,
      put_string (target_str (pm_target mutation)) MAX_STRING_BYTES,
      encode_mutation_kind (pm_kind mutation),
      encode_typed_value (pm_desired mutation),
      put_fixed (fingerprint_bytes (pm_precondition mutation)),
      encode_equality (pm_equality mutation),
      put_list (\<lambda>dependency. put_u32 (mutation_num dependency)) MAX_DEPENDENCIES
        (pm_dependencies mutation)]"

definition decode_mutation :: "planned_mutation reader" where
  "decode_mutation =
     dbind get_u32 (\<lambda>mutation_id.
     dbind (get_checked CapabilityId_new ''state capability identifier is invalid'') (\<lambda>capability.
     dbind (get_checked TargetId_new ''state target identifier is invalid'') (\<lambda>target.
     dbind decode_mutation_kind (\<lambda>kind.
     dbind decode_typed_value (\<lambda>desired.
     dbind (get_fixed 32) (\<lambda>precondition.
     dbind (get_tag decode_equality) (\<lambda>equality.
     dbind (get_list (dbind get_u32 (\<lambda>d. dreturn (MutationId d))) MAX_DEPENDENCIES) (\<lambda>dependencies.
     dlift (replace_err (corrupt ''state mutation is not a valid typed mutation'')
       (PlannedMutation_new (MutationId mutation_id) capability target kind desired
          (StateFingerprint precondition) equality dependencies))))))))))"

definition encode_snapshot :: "snapshot \<Rightarrow> writer" where
  "encode_snapshot snapshot = write_all
     [put_u32 (mutation_num (sn_mutation_id snapshot)),
      put_string (target_str (sn_target snapshot)) MAX_STRING_BYTES,
      put_bytes (raw_bytes (sn_original_raw snapshot)),
      encode_typed_value (sn_original_typed snapshot),
      put_fixed (fingerprint_bytes (sn_original_fingerprint snapshot)),
      encode_equality (sn_equality snapshot),
      put_fixed (identity_bytes (sn_target_identity snapshot)),
      put_u128 (unix_millis (sn_captured_at snapshot))]"

definition decode_snapshot :: "snapshot reader" where
  "decode_snapshot =
     dbind get_u32 (\<lambda>mutation_id.
     dbind (get_checked TargetId_new ''state snapshot target is invalid'') (\<lambda>target.
     dbind (dbind (get_bytes MAX_PREIMAGE_BYTES) (\<lambda>raw.
       dlift (replace_err (corrupt ''state snapshot raw preimage is oversized'')
         (BoundedBytes_new raw)))) (\<lambda>original_raw.
     dbind decode_typed_value (\<lambda>original_typed.
     dbind (get_fixed 32) (\<lambda>original_fingerprint.
     dbind (get_tag decode_equality) (\<lambda>equality.
     dbind (get_fixed 16) (\<lambda>target_identity.
     dbind get_u128 (\<lambda>captured_at.
     dreturn \<lparr>sn_mutation_id = MutationId mutation_id, sn_target = target,
       sn_original_raw = original_raw, sn_original_typed = original_typed,
       sn_original_fingerprint = StateFingerprint original_fingerprint, sn_equality = equality,
       sn_target_identity = TargetIdentity target_identity,
       sn_captured_at = Timestamp captured_at\<rparr>))))))))"

definition encode_apply_receipt :: "apply_receipt \<Rightarrow> writer" where
  "encode_apply_receipt receipt = write_all
     [put_u32 (mutation_num (ar_mutation_id receipt)),
      put_fixed (fingerprint_bytes (ar_observed_precondition receipt)),
      put_fixed (fingerprint_bytes (ar_observed_postcondition receipt)),
      put_fixed (fingerprint_bytes (ar_ownership_fingerprint receipt))]"

definition decode_apply_receipt :: "apply_receipt reader" where
  "decode_apply_receipt =
     dbind get_u32 (\<lambda>mutation_id. dbind (get_fixed 32) (\<lambda>pre. dbind (get_fixed 32) (\<lambda>post.
     dbind (get_fixed 32) (\<lambda>ownership.
     dreturn \<lparr>ar_mutation_id = MutationId mutation_id,
       ar_observed_precondition = StateFingerprint pre,
       ar_observed_postcondition = StateFingerprint post,
       ar_ownership_fingerprint = StateFingerprint ownership\<rparr>))))"

definition encode_verification :: "verification_result \<Rightarrow> writer" where
  "encode_verification verification = write_all
     [put_u32 (mutation_num (vr_mutation_id verification)),
      put_fixed (fingerprint_bytes (vr_expected verification)),
      encode_option (\<lambda>observed. put_fixed (fingerprint_bytes observed)) (vr_observed verification),
      encode_optional (vr_matched verification)]"

definition decode_verification :: "verification_result reader" where
  "decode_verification =
     dbind get_u32 (\<lambda>mutation_id. dbind (get_fixed 32) (\<lambda>expected.
     dbind (decode_option (dbind (get_fixed 32) (\<lambda>b. dreturn (StateFingerprint b)))) (\<lambda>observed.
     dbind get_bool (\<lambda>matched.
     dreturn \<lparr>vr_mutation_id = MutationId mutation_id, vr_expected = StateFingerprint expected,
       vr_observed = observed, vr_matched = matched\<rparr>))))"

definition encode_restore_receipt :: "restore_receipt \<Rightarrow> writer" where
  "encode_restore_receipt receipt = write_all
     [put_u32 (mutation_num (rr_mutation_id receipt)),
      put_fixed (fingerprint_bytes (rr_restored_fingerprint receipt)),
      encode_optional (rr_verified receipt)]"

definition decode_restore_receipt :: "restore_receipt reader" where
  "decode_restore_receipt =
     dbind get_u32 (\<lambda>mutation_id. dbind (get_fixed 32) (\<lambda>restored. dbind get_bool (\<lambda>verified.
     dreturn \<lparr>rr_mutation_id = MutationId mutation_id,
       rr_restored_fingerprint = StateFingerprint restored, rr_verified = verified\<rparr>)))"

definition encode_failure :: "failure_record \<Rightarrow> writer" where
  "encode_failure failure = write_all
     [encode_error_code (fr_code failure), encode_stage (fr_stage failure),
      encode_option (\<lambda>i. put_u32 (mutation_num i)) (fr_mutation_id failure),
      put_string (fr_message failure) MAX_REASON_BYTES]"

definition decode_failure :: "failure_record reader" where
  "decode_failure =
     dbind (dbind get_u16 (\<lambda>tag. dlift (decode_error_code tag))) (\<lambda>code.
     dbind (get_tag decode_stage) (\<lambda>stage.
     dbind (decode_option (dbind get_u32 (\<lambda>i. dreturn (MutationId i)))) (\<lambda>mutation_id.
     dbind (get_string MAX_REASON_BYTES) (\<lambda>message.
     dreturn \<lparr>fr_code = code, fr_stage = stage, fr_mutation_id = mutation_id,
       fr_message = message\<rparr>))))"

definition encode_operation :: "operation_record \<Rightarrow> writer" where
  "encode_operation operation = write_all
     [encode_mutation (op_mutation operation),
      encode_operation_state (op_state operation),
      encode_option encode_snapshot (op_snapshot operation),
      encode_option encode_apply_receipt (op_apply_receipt operation),
      encode_option encode_verification (op_verification operation),
      encode_option encode_restore_receipt (op_restore_receipt operation),
      encode_option encode_failure (op_failure operation)]"

definition decode_operation :: "operation_record reader" where
  "decode_operation =
     dbind decode_mutation (\<lambda>mutation.
     dbind (get_tag decode_operation_state) (\<lambda>state.
     dbind (decode_option decode_snapshot) (\<lambda>snapshot.
     dbind (decode_option decode_apply_receipt) (\<lambda>apply_receipt.
     dbind (decode_option decode_verification) (\<lambda>verification.
     dbind (decode_option decode_restore_receipt) (\<lambda>restore_receipt.
     dbind (decode_option decode_failure) (\<lambda>failure.
     dreturn \<lparr>op_mutation = mutation, op_state = state, op_snapshot = snapshot,
       op_apply_receipt = apply_receipt, op_verification = verification,
       op_restore_receipt = restore_receipt, op_failure = failure\<rparr>)))))))"

definition encode_transition :: "transition_record \<Rightarrow> writer" where
  "encode_transition transition = write_all
     [put_u64 (tr_sequence transition), put_fixed (session_bytes (tr_session_id transition)),
      encode_session_state (tr_from transition), encode_session_state (tr_to transition),
      put_u128 (unix_millis (tr_at transition)),
      put_string (tr_reason transition) MAX_REASON_BYTES]"

definition decode_transition :: "transition_record reader" where
  "decode_transition =
     dbind get_u64 (\<lambda>sequence. dbind (get_fixed 16) (\<lambda>session_id.
     dbind (get_tag decode_session_state) (\<lambda>from_state.
     dbind (get_tag decode_session_state) (\<lambda>to_state.
     dbind get_u128 (\<lambda>at. dbind (get_string MAX_REASON_BYTES) (\<lambda>reason.
     dreturn \<lparr>tr_sequence = sequence, tr_session_id = SessionId session_id,
       tr_from = from_state, tr_to = to_state, tr_at = Timestamp at, tr_reason = reason\<rparr>))))))"

definition encode_session :: "session \<Rightarrow> writer" where
  "encode_session session = write_all
     [put_fixed (session_bytes (sh_session_id (se_header session))),
      put_fixed (plan_bytes (sh_plan_id (se_header session))),
      put_fixed (sh_plan_digest (se_header session)),
      put_u128 (unix_millis (sh_created_at (se_header session))),
      encode_session_state (se_state session),
      put_list (\<lambda>target. put_string (target_str target) MAX_STRING_BYTES) MAX_TARGETS
        (sh_targets (se_header session))]"

definition decode_session :: "session reader" where
  "decode_session =
     dbind (get_fixed 16) (\<lambda>session_id. dbind (get_fixed 16) (\<lambda>plan_id.
     dbind (get_fixed 32) (\<lambda>plan_digest. dbind get_u128 (\<lambda>created_at.
     dbind (get_tag decode_session_state) (\<lambda>state.
     dbind (get_list (get_checked TargetId_new ''state target identifier is invalid'')
       MAX_TARGETS) (\<lambda>targets.
     dreturn \<lparr>se_header = \<lparr>sh_session_id = SessionId session_id, sh_plan_id = PlanId plan_id,
       sh_plan_digest = plan_digest, sh_created_at = Timestamp created_at,
       sh_targets = targets\<rparr>, se_state = state\<rparr>))))))"

section \<open>Checksum and framing\<close>

definition initial_lanes :: "u64 list" where
  "initial_lanes = [0xcbf29ce484222325, 0x84222325cbf29ce4, 0x9e3779b185ebca87, 0x517cc1b727220a95]"

text \<open>One byte of the checksum loop: \<open>^=\<close>, \<open>wrapping_mul\<close>, \<open>rotate_left\<close> on the byte's lane.\<close>

definition mix :: "nat \<Rightarrow> u8 \<Rightarrow> u64 \<Rightarrow> u64" where
  "mix index byte lane = word_rotl ((index mod 63) + 1) ((lane XOR ucast byte) * 0x100000001b3)"

fun mix_lanes :: "nat \<Rightarrow> u8 list \<Rightarrow> u64 list \<Rightarrow> u64 list" where
  "mix_lanes index [] lanes = lanes"
| "mix_lanes index (byte # rest) lanes =
     mix_lanes (Suc index) rest
       (lanes[index mod 4 := mix index byte (lanes ! (index mod 4))])"

definition checksum :: "u8 list \<Rightarrow> u8 list" where
  "checksum bytes = concat (map (to_be 8) (mix_lanes 0 bytes initial_lanes))"

definition encode_payload :: "session_record \<Rightarrow> writer" where
  "encode_payload self = write_all
     [encode_session (sr_session self),
      put_list encode_operation MAX_OPERATIONS (sr_operations self),
      put_list encode_transition MAX_TRANSITIONS (sr_transitions self),
      put_list encode_failure MAX_FAILURES (sr_failures self)]"

definition SessionRecord_encode :: "session_record \<Rightarrow> u8 list result" where
  "SessionRecord_encode self =
     rbind (validate_for_serialization self) (\<lambda>_.
     rbind (encode_payload self []) (\<lambda>payload.
     let total = length MAGIC + 2 + 4 + length payload + 32 in
     if total > MAX_SESSION_RECORD_BYTES
     then Inl (with_session (sr_session_id self) (with_stage DurableIntent
       (SysboostError_new DurabilityError ''session record exceeds the durable state-file bound'')))
     else Inr (MAGIC @ to_be 2 STATE_FORMAT_VERSION
       @ to_be 4 (word_of_nat (length payload) :: u32) @ payload @ checksum payload)))"

definition decode_payload :: "session_record reader" where
  "decode_payload =
     dbind decode_session (\<lambda>session.
     dbind (get_list decode_operation MAX_OPERATIONS) (\<lambda>operations.
     dbind (get_list decode_transition MAX_TRANSITIONS) (\<lambda>transitions.
     dbind (get_list decode_failure MAX_FAILURES) (\<lambda>failures.
     dbind dec_finish (\<lambda>_.
     dreturn \<lparr>sr_session = session, sr_operations = operations, sr_transitions = transitions,
       sr_failures = failures\<rparr>)))))"

definition SessionRecord_decode :: "u8 list \<Rightarrow> session_record result" where
  "SessionRecord_decode bytes =
     (if length bytes > MAX_SESSION_RECORD_BYTES \<or> length bytes < length MAGIC + 2 + 4 + 32
      then Inl (corrupt ''state record length is invalid'')
      else if take (length MAGIC) bytes \<noteq> MAGIC
      then Inl (corrupt ''state record magic is invalid'')
      else
        let version_offset = length MAGIC;
            version = (from_be (take 2 (drop version_offset bytes)) :: u16) in
        if version \<noteq> STATE_FORMAT_VERSION
        then Inl (corrupt ''state record version is unsupported'')
        else
          let length_offset = version_offset + 2;
              payload_len = unat (from_be (take 4 (drop length_offset bytes)) :: u32);
              payload_start = length_offset + 4;
              payload_end = payload_start + payload_len in
          if payload_end \<ge> usize_limit
          then Inl (corrupt ''state payload length overflows'')
          else if payload_end + 32 \<noteq> length bytes
          then Inl (corrupt ''state payload length does not match the file'')
          else
            let payload = take payload_len (drop payload_start bytes) in
            if checksum payload \<noteq> drop payload_end bytes
            then Inl (corrupt ''state record checksum does not match'')
            else rbind (decode_payload (Decoder_new payload)) (\<lambda>(record, _).
              rbind (validate_for_serialization record) (\<lambda>_. Inr record)))"

end
