(* ===== verification/Codec_Roundtrip.thy ===== *)
theory Codec_Roundtrip
  imports Codec
begin

text \<open>
  What the state-file codec guarantees: every record the encoder accepts is decoded to itself, the
  checksum detects every change of a single payload byte, and every record the decoder accepts is
  valid. Round trips are composed: \<open>codes w d x\<close> says that whatever the writer \<open>w\<close> appends, the
  reader \<open>d\<close> consumes exactly it and returns \<open>x\<close>; the locale \<open>codec\<close> lifts the law of one
  encoder/decoder pair to options and bounded lists.
\<close>

section \<open>Writers and readers that agree\<close>

definition decodes :: "'a reader \<Rightarrow> u8 list \<Rightarrow> 'a \<Rightarrow> bool" where
  "decodes dec bs x \<longleftrightarrow> (\<forall>pre post. length (pre @ bs @ post) < usize_limit \<longrightarrow>
     dec \<lparr>d_bytes = pre @ bs @ post, d_offset = length pre\<rparr>
       = Inr (x, \<lparr>d_bytes = pre @ bs @ post, d_offset = length pre + length bs\<rparr>))"

definition codes :: "writer \<Rightarrow> 'a reader \<Rightarrow> 'a \<Rightarrow> bool" where
  "codes w dec x \<longleftrightarrow> (\<forall>e e'. w e = Inr e' \<longrightarrow> (\<exists>bs. e' = e @ bs \<and> decodes dec bs x))"

lemma decodes_return: "decodes (dreturn x) [] x"
  by (simp add: decodes_def dreturn_def)

lemma decodes_bind:
  assumes "decodes d bs x" and "decodes (k x) cs y"
  shows "decodes (dbind d k) (bs @ cs) y"
  unfolding decodes_def dbind_def
proof (intro allI impI)
  fix pre post :: "u8 list"
  assume "length (pre @ (bs @ cs) @ post) < usize_limit"
  with assms(1) [unfolded decodes_def, rule_format, of pre "cs @ post"]
    assms(2) [unfolded decodes_def, rule_format, of "pre @ bs" post]
  show "rbind (d \<lparr>d_bytes = pre @ (bs @ cs) @ post, d_offset = length pre\<rparr>) (\<lambda>(x, d'). k x d')
      = Inr (y, \<lparr>d_bytes = pre @ (bs @ cs) @ post, d_offset = length pre + length (bs @ cs)\<rparr>)"
    by (simp add: ac_simps)
qed

lemma decodes_take: "decodes (take_bytes (length bs)) bs bs"
  by (simp add: decodes_def take_bytes_def Let_def)

lemma codes_raw: "decodes d bs x \<Longrightarrow> codes (put_raw bs) d x"
  by (simp add: codes_def put_raw_def)

lemma codes_Nil [codec_intros]: "x = y \<Longrightarrow> codes (write_all []) (dreturn y) x"
  by (simp add: codes_def decodes_return)

lemma codes_lift_last [codec_intros]: "r = Inr x \<Longrightarrow> codes (write_all []) (dlift r) x"
  by (simp add: codes_def decodes_def dlift_def)

lemma codes_Cons [codec_intros]:
  assumes "codes w d x" and "codes (write_all ws) (k x) y"
  shows "codes (write_all (w # ws)) (dbind d k) y"
  unfolding codes_def
proof (intro allI impI)
  fix e e'
  assume "write_all (w # ws) e = Inr e'"
  then obtain e1 where "w e = Inr e1" "write_all ws e1 = Inr e'" by (auto simp: rbind_eq_Inr)
  with assms obtain bs cs where "e1 = e @ bs" "decodes d bs x" "e' = e1 @ cs" "decodes (k x) cs y"
    unfolding codes_def by blast
  then show "\<exists>bs. e' = e @ bs \<and> decodes (dbind d k) bs y"
    by (intro exI [of _ "bs @ cs"]) (simp add: decodes_bind)
qed

lemma write_all_single: "write_all [w] = w"
proof
  fix e show "write_all [w] e = w e" by (cases "w e") simp_all
qed

lemma codes_bind:
  "codes w d x \<Longrightarrow> codes (write_all []) (k x) y \<Longrightarrow> codes w (dbind d k) y"
  using codes_Cons [of w d x "[]" k y] by (simp only: write_all_single)

lemma codes_bind_return: "codes w d x \<Longrightarrow> f x = y \<Longrightarrow> codes w (dbind d (\<lambda>x. dreturn (f x))) y"
  by (erule codes_bind) (simp add: codes_Nil)

lemma codes_bind_lift: "codes w d x \<Longrightarrow> f x = Inr y \<Longrightarrow> codes w (dbind d (\<lambda>x. dlift (f x))) y"
  by (erule codes_bind) (rule codes_lift_last)

section \<open>Primitive fields\<close>

lemma codes_u8 [codec_intros]: "codes (put_u8 v) get_u8 v"
  using decodes_bind [OF decodes_take [of "[v]"] decodes_return, of "\<lambda>b. b ! 0"]
  by (simp add: codes_def put_u8_def get_u8_def)

lemma codes_be:
  assumes "LENGTH('a::len) \<le> 8 * n"
  shows "codes (put_raw (to_be n (v :: 'a word))) (dbind (take_bytes n) (\<lambda>b. dreturn (from_be b))) v"
proof (rule codes_bind_return)
  show "codes (put_raw (to_be n v)) (take_bytes n) (to_be n v)"
    by (rule codes_raw) (use decodes_take [of "to_be n v"] in simp)
  show "from_be (to_be n v) = v" using assms by simp
qed

lemma codes_words [codec_intros]:
  "codes (put_u16 w16) get_u16 w16" "codes (put_u32 w32) get_u32 w32"
  "codes (put_u64 w64) get_u64 w64" "codes (put_u128 w128) get_u128 w128"
  "codes (put_i64 w64) get_i64 w64"
  unfolding put_u16_def put_u32_def put_u64_def put_u128_def put_i64_def
    get_u16_def get_u32_def get_u64_def get_u128_def get_i64_def
  by (rule codes_be, simp)+

lemma codes_fixed [codec_intros]: "length bs = n \<Longrightarrow> codes (put_fixed bs) (get_fixed n) bs"
  unfolding put_fixed_def get_fixed_def by (rule codes_raw) (use decodes_take [of bs] in simp)

lemma length_word32: "n \<le> 2 ^ 32 - 1 \<Longrightarrow> unat (word_of_nat n :: u32) = n"
  by (subst unat_of_nat) (simp add: take_bit_nat_eq_self)

lemma codes_bytes [codec_intros]:
  assumes "length bs \<le> m"
  shows "codes (put_bytes bs) (get_bytes m) bs"
proof (cases "length bs > 2 ^ 32 - 1")
  case False
  then have n: "unat (word_of_nat (length bs) :: u32) = length bs" using length_word32 by simp
  have "codes (write_all [put_u32 (word_of_nat (length bs)), put_raw bs]) (get_bytes m) bs"
    unfolding get_bytes_def
  proof (rule codes_Cons [OF codes_words(2)])
    show "codes (write_all [put_raw bs]) (let n = unat (word_of_nat (length bs) :: u32) in
        if n > m then dlift (Inl (corrupt ''state byte field exceeds its bound'')) else take_bytes n) bs"
      using assms unfolding write_all_single n Let_def by (simp add: codes_raw decodes_take)
  qed
  with False show ?thesis by (simp add: codes_def put_bytes_def del: write_all.simps)
qed (simp add: codes_def put_bytes_def)

lemma codes_string [codec_intros]:
  assumes "utf8 s"
  shows "codes (put_string s m) (get_string m) s"
proof (cases "s = [] \<or> length s > m \<or> nul \<in> set s")
  case False
  then have "codes (put_bytes (str_bytes s)) (get_bytes m) (str_bytes s)"
    by (intro codes_bytes) simp
  then have "codes (put_bytes (str_bytes s)) (get_string m) s"
    unfolding get_string_def
    by (rule codes_bind) (use False assms in \<open>auto simp: codes_def decodes_def dbind_def dlift_def dreturn_def\<close>)
  with False show ?thesis by (auto simp: codes_def put_string_def)
qed (simp add: codes_def put_string_def)

lemma codes_checked:
  "utf8 s \<Longrightarrow> new s = Inr x \<Longrightarrow> codes (put_string s MAX_STRING_BYTES) (get_checked new message) x"
  unfolding get_checked_def by (rule codes_bind_lift [OF codes_string]) simp_all

lemma codes_word_checked:
  "new16 v16 = Inr x \<Longrightarrow> codes (put_u16 v16) (get_u16_checked new16 message) x"
  "new32 v32 = Inr y \<Longrightarrow> codes (put_u32 v32) (get_u32_checked new32 message) y"
  "new64 v64 = Inr z \<Longrightarrow> codes (put_u64 v64) (get_u64_checked new64 message) z"
  unfolding get_u16_checked_def get_u32_checked_def get_u64_checked_def
  by (rule codes_bind_lift, rule codes_words, simp)+

lemma codes_tag: "dec t = Inr x \<Longrightarrow> codes (put_u8 t) (get_tag dec) x"
  unfolding get_tag_def by (rule codes_bind_lift [OF codes_u8])

lemma codes_bool [codec_intros]: "codes (encode_optional b) get_bool b"
  "codes (put_u8 (if b then 1 else 0)) get_bool b"
  unfolding encode_optional_def get_bool_def
  by (rule codes_bind_return [OF codes_u8], simp)+

lemma codes_count: "codes (put_count n m) (get_count m) n"
proof (cases "n > m \<or> n > 2 ^ 32 - 1")
  case False
  then have n: "unat (word_of_nat n :: u32) = n" using length_word32 by simp
  have "codes (put_u32 (word_of_nat n)) (get_count m) n"
    unfolding get_count_def
    by (rule codes_bind [OF codes_words(2)]) (use n False in \<open>simp add: codes_Nil\<close>)
  with False show ?thesis by (auto simp: codes_def put_count_def)
qed (auto simp: codes_def put_count_def)

lemma codes_many:
  "\<forall>x \<in> set xs. codes (enc x) dec x \<Longrightarrow> codes (write_all (map enc xs)) (get_many (length xs) dec) xs"
proof (induction xs)
  case Nil
  show ?case unfolding list.map list.size get_many.simps by (rule codes_Nil) simp
next
  case (Cons x xs)
  show ?case unfolding list.map list.size add_0_right add_Suc_right get_many.simps
  proof (rule codes_Cons)
    show "codes (enc x) dec x" using Cons.prems by simp
    show "codes (write_all (map enc xs)) (dbind (get_many (length xs) dec) (\<lambda>xs. dreturn (x # xs))) (x # xs)"
      using Cons by (intro codes_bind_return) simp_all
  qed
qed

lemma codes_list:
  "\<forall>x \<in> set xs. codes (enc x) dec x \<Longrightarrow> codes (put_list enc m xs) (get_list dec m) xs"
  unfolding put_list_def get_list_def by (intro codes_Cons [OF codes_count] codes_many)

lemma codes_option:
  assumes "\<And>x. v = Some x \<Longrightarrow> codes (enc x) dec x"
  shows "codes (encode_option enc v) (decode_option dec) v"
proof (cases v)
  case None
  have "codes (put_u8 0) (decode_option dec) None"
    unfolding decode_option_def by (rule codes_bind [OF codes_u8]) (simp add: codes_Nil)
  with None show ?thesis by (simp add: encode_optional_def)
next
  case (Some x)
  have "codes (write_all [put_u8 1, enc x]) (decode_option dec) (Some x)"
    unfolding decode_option_def
  proof (rule codes_Cons [OF codes_u8])
    show "codes (write_all [enc x]) (if (1 :: u8) \<noteq> 0 then dbind dec (\<lambda>x. dreturn (Some x))
        else dreturn None) (Some x)"
      unfolding write_all_single using codes_bind_return [OF assms [OF Some], of Some] by simp
  qed
  with Some show ?thesis by (simp add: encode_optional_def del: write_all.simps)
qed

section \<open>Tags\<close>

lemma decode_tag [simp]:
  "decode_session_state (session_state_tag ss) = Inr ss"
  "decode_operation_state (operation_state_tag os) = Inr os"
  "decode_equality (equality_tag eq) = Inr eq"
  "decode_stage (stage_tag st) = Inr st"
  "decode_error_code (error_code_tag ec) = Inr ec"
  "decode_energy (energy_tag en) = Inr en"
  "decode_cpu_boost (cpu_boost_tag cb) = Inr cb"
  "decode_gpu_profile (gpu_profile_tag gp) = Inr gp"
  "decode_sysctl_key (sysctl_key_tag sk) = Inr sk"
  "decode_cgroup_kind (cgroup_kind_tag ck) = Inr ck"
  "decode_ioprio_class (ioprio_class_tag ic) = Inr ic"
proof -
  show "decode_session_state (session_state_tag ss) = Inr ss"
    by (cases ss) (simp_all add: decode_session_state_def match_tag_def)
  show "decode_operation_state (operation_state_tag os) = Inr os"
    by (cases os) (simp_all add: decode_operation_state_def match_tag_def)
  show "decode_equality (equality_tag eq) = Inr eq"
    by (cases eq) (simp_all add: decode_equality_def match_tag_def)
  show "decode_stage (stage_tag st) = Inr st"
    by (cases st) (simp_all add: decode_stage_def match_tag_def)
  show "decode_error_code (error_code_tag ec) = Inr ec"
    by (cases ec) (simp_all add: decode_error_code_def match_tag_def)
  show "decode_energy (energy_tag en) = Inr en"
    by (cases en) (simp_all add: decode_energy_def match_tag_def)
  show "decode_cpu_boost (cpu_boost_tag cb) = Inr cb"
    by (cases cb) (simp_all add: decode_cpu_boost_def match_tag_def)
  show "decode_gpu_profile (gpu_profile_tag gp) = Inr gp"
    by (cases gp) (simp_all add: decode_gpu_profile_def match_tag_def)
  show "decode_sysctl_key (sysctl_key_tag sk) = Inr sk"
    by (cases sk) (simp_all add: decode_sysctl_key_def match_tag_def)
  show "decode_cgroup_kind (cgroup_kind_tag ck) = Inr ck"
    by (cases ck) (simp_all add: decode_cgroup_kind_def match_tag_def)
  show "decode_ioprio_class (ioprio_class_tag ic) = Inr ic"
    by (cases ic) (simp_all add: decode_ioprio_class_def match_tag_def)
qed

lemma codes_tags [codec_intros]:
  "codes (encode_session_state ss) (get_tag decode_session_state) ss"
  "codes (encode_operation_state os) (get_tag decode_operation_state) os"
  "codes (encode_equality eq) (get_tag decode_equality) eq"
  "codes (encode_stage st) (get_tag decode_stage) st"
  "codes (put_u8 (energy_tag en)) (get_tag decode_energy) en"
  "codes (put_u8 (cpu_boost_tag cb)) (get_tag decode_cpu_boost) cb"
  "codes (put_u8 (gpu_profile_tag gp)) (get_tag decode_gpu_profile) gp"
  "codes (put_u8 (sysctl_key_tag sk)) (get_tag decode_sysctl_key) sk"
  "codes (put_u8 (cgroup_kind_tag ck)) (get_tag decode_cgroup_kind) ck"
  "codes (put_u8 (ioprio_class_tag ic)) (get_tag decode_ioprio_class) ic"
  unfolding encode_session_state_def encode_operation_state_def encode_equality_def encode_stage_def
  by (rule codes_tag, simp)+

lemma codes_error_code [codec_intros]:
  "codes (encode_error_code ec) (dbind get_u16 (\<lambda>tag. dlift (decode_error_code tag))) ec"
  unfolding encode_error_code_def by (rule codes_bind_lift [OF codes_words(1)]) simp

section \<open>The law of an encoder and its decoder\<close>

locale codec =
  fixes enc :: "'a \<Rightarrow> writer" and dec :: "'a reader" and wf :: "'a \<Rightarrow> bool"
  assumes round: "wf x \<Longrightarrow> codes (enc x) dec x"
begin

lemma option_field: "pred_option wf v \<Longrightarrow> codes (encode_option enc v) (decode_option dec) v"
  by (rule codes_option) (auto intro: round)

lemma list_field: "list_all wf xs \<Longrightarrow> codes (put_list enc m xs) (get_list dec m) xs"
  by (rule codes_list) (auto simp: list_all_iff intro: round)

end

section \<open>Values\<close>

lemma wf_checked:
  "wf_target_id t \<Longrightarrow> utf8 (target_str t) \<and> TargetId_new (target_str t) = Inr t"
  "wf_capability_id c \<Longrightarrow> utf8 (capability_str c) \<and> CapabilityId_new (capability_str c) = Inr c"
  "wf_governor g \<Longrightarrow> utf8 (governor_str g) \<and> GovernorId_new (governor_str g) = Inr g"
  "wf_platform_profile p \<Longrightarrow>
    utf8 (platform_profile_str p) \<and> PlatformProfileId_new (platform_profile_str p) = Inr p"
  "wf_cgroup_name n \<Longrightarrow> utf8 (cgroup_name_str n) \<and> CgroupName_new (cgroup_name_str n) = Inr n"
  using cgroup_name_clean
  by (auto simp: wf_target_id_def wf_capability_id_def wf_governor_def wf_platform_profile_def
      dest: id_text_clean semantic_name_clean)

lemma codes_ids [codec_intros]:
  "wf_target_id t \<Longrightarrow>
    codes (put_string (target_str t) MAX_STRING_BYTES) (get_checked TargetId_new message) t"
  "wf_capability_id c \<Longrightarrow>
    codes (put_string (capability_str c) MAX_STRING_BYTES) (get_checked CapabilityId_new message) c"
  "wf_governor g \<Longrightarrow>
    codes (put_string (governor_str g) MAX_STRING_BYTES) (get_checked GovernorId_new message) g"
  "wf_platform_profile p \<Longrightarrow> codes (put_string (platform_profile_str p) MAX_STRING_BYTES)
    (get_checked PlatformProfileId_new message) p"
  "wf_cgroup_name n \<Longrightarrow>
    codes (put_string (cgroup_name_str n) MAX_STRING_BYTES) (get_checked CgroupName_new message) n"
  by (simp_all add: codes_checked wf_checked)

lemma codes_numbers [codec_intros]:
  "wf_cpu_weight w \<Longrightarrow> codes (put_u16 (cpu_weight_get w)) (get_u16_checked CpuWeight_new message) w"
  "wf_io_weight i \<Longrightarrow> codes (put_u16 (io_weight_get i)) (get_u16_checked IoWeight_new message) i"
  "wf_power m \<Longrightarrow>
    codes (put_u32 (milliwatts_get m)) (get_u32_checked PowerMilliwatts_new message) m"
  "wf_cpu_period p \<Longrightarrow> codes (put_u64 (period_micros p)) (get_u64_checked CpuPeriod_new message) p"
  by (intro codes_word_checked; simp)+

interpretation frequency_codec: codec "\<lambda>f. put_u64 (khz f)"
  "dbind get_u64 (\<lambda>v. dlift (replace_err (corrupt ''state frequency is invalid'') (FrequencyKHz_new v)))"
  wf_frequency
  by unfold_locales (rule codes_bind_lift [OF codes_words(3)], simp)

lemma codes_frequency [codec_intros]:
  "pred_option wf_frequency f \<Longrightarrow> codes (encode_frequency f) decode_frequency f"
  unfolding encode_frequency_def decode_frequency_def by (rule frequency_codec.option_field)

lemma codes_cgroup [codec_intros]: "wf_cgroup_id c \<Longrightarrow> codes (encode_cgroup c) decode_cgroup c"
  unfolding encode_cgroup_def decode_cgroup_def by ((rule codec_intros | simp add: wf_cgroup_id_def)+)

lemma codes_process [codec_intros]: "wf_process_id p \<Longrightarrow> codes (encode_process p) decode_process p"
  unfolding encode_process_def decode_process_def by ((rule codec_intros | simp)+)

lemma codes_uclamp [codec_intros]:
  assumes "wf_uclamp v"
  shows "codes (encode_uclamp v) decode_uclamp v"
  unfolding decode_uclamp_def using assms
  by (cases v; simp only: encode_uclamp.simps)
    (rule codes_Cons [OF codes_u8], simp add: write_all_single codes_bind_lift [OF codes_words(1)]
      codes_Nil del: write_all.simps)+

lemma codes_quota [codec_intros]:
  assumes "wf_cpu_quota q"
  shows "codes (encode_quota q) decode_quota q"
  unfolding decode_quota_def using assms
  by (cases q; simp only: encode_quota.simps)
    (rule codes_Cons [OF codes_u8], simp add: write_all_single codes_bind_lift [OF codes_words(3)]
      codes_Nil del: write_all.simps)+

lemma codes_ioprio [codec_intros]: "wf_io_priority p \<Longrightarrow> codes (encode_ioprio p) decode_ioprio p"
  unfolding encode_ioprio_def decode_ioprio_def by ((rule codec_intros | simp)+)

lemma codes_cpuset [codec_intros]:
  assumes "wf_cpu_set s"
  shows "codes (encode_cpuset s) decode_cpuset s"
  unfolding encode_cpuset_def decode_cpuset_def
  by (rule codes_bind_lift [OF codes_list]) (simp_all add: codes_words CpuSet_new_id assms)

lemma nice_width: "i8_of_i64 (scast n) = Some (n :: i8)"
proof -
  have "sint (scast n :: i64) = sint n" by (rule sint_up_scast) (simp add: is_up_def source_size target_size word_size)
  moreover have "- 128 \<le> sint n \<and> sint n \<le> 127"
    using sint_greater_eq [of n] sint_less [of n] by simp
  moreover have "scast (scast n :: i64) = n"
    by (rule scast_up_scast_id) (simp add: is_up_def source_size target_size word_size)
  ultimately show ?thesis by (simp add: i8_of_i64_def)
qed

lemma codes_nice [codec_intros]: "wf_nice n \<Longrightarrow> codes (encode_nice n) (decode_nice message) n"
  unfolding encode_nice_def decode_nice_def
  by (rule codes_bind [OF codes_words(5)]) (simp add: nice_width dlift_def dbind_def codes_def decodes_def wf_nice_def NiceValue_new_def)

lemma codes_arm:
  "map_of arms t = Some r \<Longrightarrow> codes (write_all ws) r x \<Longrightarrow>
    codes (write_all (put_u8 t # ws)) (dbind get_u8 (\<lambda>tag. case map_of arms tag of
      Some arm \<Rightarrow> arm | None \<Rightarrow> dlift e)) x"
  by (rule codes_Cons [OF codes_u8]) simp

lemma codes_kind [codec_intros]:
  assumes "wf_kind k"
  shows "codes (encode_mutation_kind k) decode_mutation_kind k"
  using assms unfolding decode_mutation_kind_def
  by (cases k; simp only: encode_mutation_kind.simps)
    (rule codes_arm, (simp add: kind_arms_def; fail) | rule codec_intros | simp)+

lemma codes_value [codec_intros]:
  assumes "wf_value v"
  shows "codes (encode_typed_value v) decode_typed_value v"
  using assms unfolding decode_typed_value_def
  by (cases v; simp only: encode_typed_value.simps)
    (rule codes_arm, (simp add: value_arms_def; fail) | rule codec_intros | simp)+

section \<open>Records\<close>

text \<open>
  The type invariants of the record's parts: the lengths of the fixed arrays, the checked newtypes,
  and that strings are UTF-8. The order of a mutation's fields is the constructor's own check.
\<close>

definition wf_verification :: "verification_result \<Rightarrow> bool" where
  [wf_simps]: "wf_verification v \<longleftrightarrow>
     wf_fingerprint (vr_expected v) \<and> pred_option wf_fingerprint (vr_observed v)"

definition wf_failure :: "failure_record \<Rightarrow> bool" where
  [wf_simps]: "wf_failure f \<longleftrightarrow> utf8 (fr_message f)"

definition wf_transition :: "transition_record \<Rightarrow> bool" where
  [wf_simps]: "wf_transition t \<longleftrightarrow> wf_session_id (tr_session_id t) \<and> utf8 (tr_reason t)"

definition wf_operation :: "operation_record \<Rightarrow> bool" where
  [wf_simps]: "wf_operation p \<longleftrightarrow> wf_mutation (op_mutation p) \<and> pred_option wf_snapshot (op_snapshot p)
     \<and> pred_option wf_apply_receipt (op_apply_receipt p)
     \<and> pred_option wf_verification (op_verification p)
     \<and> pred_option wf_restore_receipt (op_restore_receipt p)
     \<and> pred_option wf_failure (op_failure p)"

definition wf_session :: "session \<Rightarrow> bool" where
  [wf_simps]: "wf_session s \<longleftrightarrow> wf_session_id (sh_session_id (se_header s))
     \<and> wf_plan_id (sh_plan_id (se_header s)) \<and> length (sh_plan_digest (se_header s)) = 32
     \<and> list_all wf_target_id (sh_targets (se_header s))"

definition wf_record :: "session_record \<Rightarrow> bool" where
  [wf_simps]: "wf_record r \<longleftrightarrow> wf_session (sr_session r) \<and> list_all wf_operation (sr_operations r)
     \<and> list_all wf_transition (sr_transitions r) \<and> list_all wf_failure (sr_failures r)"

lemma codes_fingerprint:
  "wf_fingerprint f \<Longrightarrow> codes (put_fixed (fingerprint_bytes f))
    (dbind (get_fixed 32) (\<lambda>b. dreturn (StateFingerprint b))) f"
  by (rule codes_bind_return [OF codes_fixed]) (simp_all add: wf_fingerprint_def)

lemma codes_mutation_id:
  "codes (put_u32 (mutation_num i)) (dbind get_u32 (\<lambda>d. dreturn (MutationId d))) i"
  by (rule codes_bind_return [OF codes_words(2)]) simp

interpretation fingerprint_codec: codec "\<lambda>f. put_fixed (fingerprint_bytes f)"
  "dbind (get_fixed 32) (\<lambda>b. dreturn (StateFingerprint b))" wf_fingerprint
  by unfold_locales (rule codes_fingerprint)

interpretation id_codec: codec "\<lambda>i. put_u32 (mutation_num i)"
  "dbind get_u32 (\<lambda>d. dreturn (MutationId d))" "\<lambda>_. True"
  by unfold_locales (rule codes_mutation_id)

interpretation target_codec: codec "\<lambda>t. put_string (target_str t) MAX_STRING_BYTES"
  "get_checked TargetId_new ''state target identifier is invalid''" wf_target_id
  by unfold_locales (rule codes_ids(1))

lemma id_fields [codec_intros]:
  "codes (encode_option (\<lambda>i. put_u32 (mutation_num i)) v)
    (decode_option (dbind get_u32 (\<lambda>d. dreturn (MutationId d)))) v"
  "codes (put_list (\<lambda>i. put_u32 (mutation_num i)) m is)
    (get_list (dbind get_u32 (\<lambda>d. dreturn (MutationId d))) m) is"
  by (rule id_codec.option_field, simp add: option.pred_True)
    (rule id_codec.list_field, simp add: list_all_iff)

lemmas target_list [codec_intros] = target_codec.list_field

lemmas fingerprint_option [codec_intros] = fingerprint_codec.option_field

lemma codes_raw_preimage [codec_intros]:
  "wf_bounded_bytes b \<Longrightarrow> codes (put_bytes (raw_bytes b)) (dbind (get_bytes MAX_PREIMAGE_BYTES)
    (\<lambda>raw. dlift (replace_err (corrupt message) (BoundedBytes_new raw)))) b"
  by (rule codes_bind_lift [OF codes_bytes]) (simp_all add: wf_bounded_bytes_def)

interpretation mutation_codec: codec encode_mutation decode_mutation wf_mutation
proof
  fix m assume wf: "wf_mutation m"
  then have kind: "wf_kind (pm_kind m)" and desired: "wf_value (pm_desired m)"
    by (simp_all add: wf_mutation_def wf_kind_value)
  from wf have parts: "wf_capability_id (pm_capability m)" "wf_target_id (pm_target m)"
    "length (fingerprint_bytes (pm_precondition m)) = 32"
    by (simp_all add: wf_mutation_def wf_fingerprint_def)
  note new = PlannedMutation_new_self [OF wf]
  show "codes (encode_mutation m) decode_mutation m"
    unfolding encode_mutation_def decode_mutation_def
    by ((rule codec_intros | simp add: kind desired parts new)+)
qed

interpretation snapshot_codec: codec encode_snapshot decode_snapshot wf_snapshot
  by unfold_locales (unfold encode_snapshot_def decode_snapshot_def,
    (rule codec_intros | simp add: wf_snapshot_def wf_fingerprint_def wf_target_identity_def)+)

interpretation apply_codec: codec encode_apply_receipt decode_apply_receipt wf_apply_receipt
  by unfold_locales (unfold encode_apply_receipt_def decode_apply_receipt_def,
    (rule codec_intros | simp add: wf_apply_receipt_def wf_fingerprint_def)+)

interpretation verification_codec: codec encode_verification decode_verification wf_verification
  by unfold_locales (unfold encode_verification_def decode_verification_def,
    (rule codec_intros | simp add: wf_verification_def wf_fingerprint_def)+)

interpretation restore_codec: codec encode_restore_receipt decode_restore_receipt wf_restore_receipt
  by unfold_locales (unfold encode_restore_receipt_def decode_restore_receipt_def,
    (rule codec_intros | simp add: wf_restore_receipt_def wf_fingerprint_def)+)

interpretation failure_codec: codec encode_failure decode_failure wf_failure
  by unfold_locales (unfold encode_failure_def decode_failure_def,
    (rule codec_intros | simp add: wf_failure_def)+)

lemmas record_fields [codec_intros] = mutation_codec.round snapshot_codec.option_field
  apply_codec.option_field verification_codec.option_field restore_codec.option_field
  failure_codec.option_field

interpretation operation_codec: codec encode_operation decode_operation wf_operation
  by unfold_locales (unfold encode_operation_def decode_operation_def,
    (rule codec_intros | simp add: wf_operation_def)+)

interpretation transition_codec: codec encode_transition decode_transition wf_transition
  by unfold_locales (unfold encode_transition_def decode_transition_def,
    (rule codec_intros | simp add: wf_transition_def wf_session_id_def)+)

interpretation session_codec: codec encode_session decode_session wf_session
  by unfold_locales (unfold encode_session_def decode_session_def,
    (rule codec_intros | simp add: wf_session_def wf_session_id_def wf_plan_id_def)+)

lemmas journal_fields [codec_intros] = session_codec.round operation_codec.list_field
  transition_codec.list_field failure_codec.list_field

section \<open>The whole file\<close>

lemma dbind_assoc: "dbind (dbind m f) g = dbind m (\<lambda>x. dbind (f x) g)"
proof
  fix d show "dbind (dbind m f) g d = dbind m (\<lambda>x. dbind (f x) g) d"
    by (cases "m d") (auto simp: dbind_def)
qed

lemma dbind_return: "dbind (dreturn x) f = f x"
  by (rule ext) (simp add: dbind_def dreturn_def)

lemma payload_roundtrip:
  assumes "wf_record r" and "encode_payload r [] = Inr payload" and "length payload < usize_limit"
  shows "\<exists>d. decode_payload (Decoder_new payload) = Inr (r, d)"
proof -
  define body where "body = dbind decode_session (\<lambda>session.
     dbind (get_list decode_operation MAX_OPERATIONS) (\<lambda>operations.
     dbind (get_list decode_transition MAX_TRANSITIONS) (\<lambda>transitions.
     dbind (get_list decode_failure MAX_FAILURES) (\<lambda>failures.
     dreturn \<lparr>sr_session = session, sr_operations = operations, sr_transitions = transitions,
       sr_failures = failures\<rparr>))))"
  have "codes (encode_payload r) body r"
    unfolding encode_payload_def body_def
    by (insert assms(1), (rule codec_intros | simp add: wf_record_def)+)
  then have "decodes body payload r" using assms(2) by (fastforce simp: codes_def)
  then have "body (Decoder_new payload) = Inr (r, \<lparr>d_bytes = payload, d_offset = length payload\<rparr>)"
    using assms(3) unfolding decodes_def Decoder_new_def by (elim allE [where x = "[]"]) simp
  then have "dbind body (\<lambda>r. dbind dec_finish (\<lambda>_. dreturn r)) (Decoder_new payload)
      = Inr (r, \<lparr>d_bytes = payload, d_offset = length payload\<rparr>)"
    by (simp add: dbind_def dec_finish_def dreturn_def)
  moreover have "decode_payload = dbind body (\<lambda>r. dbind dec_finish (\<lambda>_. dreturn r))"
    by (simp add: decode_payload_def body_def dbind_assoc dbind_return)
  ultimately show ?thesis by (intro exI) (simp only:)
qed

lemma length_checksum [simp]: "length (checksum bs) = 32"
proof -
  have "length (mix_lanes i bs lanes) = length lanes" for i lanes
    by (induction bs arbitrary: i lanes) simp_all
  then have "length (mix_lanes 0 bs initial_lanes) = 4" by (simp add: initial_lanes_def)
  moreover have "length (concat (map (to_be 8) ws)) = 8 * length ws" for ws :: "u64 list"
    by (induction ws) simp_all
  ultimately show ?thesis by (simp add: checksum_def)
qed

lemma length_MAGIC [simp]: "length MAGIC = 8"
  by (simp add: MAGIC_def)

lemma decode_encoded:
  assumes "wf_record r" and "SessionRecord_encode r = Inr bytes"
  shows "SessionRecord_decode bytes = Inr r"
proof -
  from assms(2) obtain payload where valid: "validate_for_serialization r = Inr ()"
    and payload: "encode_payload r [] = Inr payload"
    and total: "length MAGIC + 2 + 4 + length payload + 32 \<le> MAX_SESSION_RECORD_BYTES"
    and bytes: "bytes = MAGIC @ to_be 2 STATE_FORMAT_VERSION
       @ to_be 4 (word_of_nat (length payload) :: u32) @ payload @ checksum payload"
    by (auto simp: SessionRecord_encode_def rbind_eq_Inr Let_def split: if_splits)
  have small: "length payload \<le> 2 ^ 32 - 1" "length payload < usize_limit"
    using total by (simp_all add: MAX_SESSION_RECORD_BYTES_def usize_limit_def)
  have version: "from_be (take 2 (drop 8 bytes)) = STATE_FORMAT_VERSION"
    unfolding bytes by simp
  have len: "unat (from_be (take 4 (drop 10 bytes)) :: u32) = length payload"
    unfolding bytes using length_word32 [OF small(1)] by simp
  have cut: "take (length payload) (drop 14 bytes) = payload"
    "drop (14 + length payload) bytes = checksum payload" "take 8 bytes = MAGIC"
    "length bytes = 46 + length payload"
    unfolding bytes by simp_all
  obtain d where "decode_payload (Decoder_new payload) = Inr (r, d)"
    using payload_roundtrip [OF assms(1) payload small(2)] by blast
  then show ?thesis
    using total small valid
    by (simp add: SessionRecord_decode_def Let_def version len cut usize_limit_def
        MAX_SESSION_RECORD_BYTES_def)
qed

text \<open>
  C18: every record the encoder writes is read back as exactly the same record: no field of any
  operation, receipt, snapshot, transition or failure is lost, reordered or changed by a crash and
  reload.
\<close>

theorem encode_decode_roundtrip:
  assumes "wf_record r" and "SessionRecord_encode r = Inr bytes"
  shows "SessionRecord_decode bytes = Inr r"
  using assms by (rule decode_encoded)

section \<open>Corruption is detected\<close>

lemma mult_prime_inj: "x * (0x100000001b3 :: u64) = y * 0x100000001b3 \<longleftrightarrow> x = y"
proof
  assume "x * (0x100000001b3 :: u64) = y * 0x100000001b3"
  then have "x * (0x100000001b3 * 0xce965057aff6957b) = y * ((0x100000001b3 :: u64) * 0xce965057aff6957b)"
    by (simp only: mult.assoc [symmetric])
  moreover have "(0x100000001b3 * 0xce965057aff6957b :: u64) = 1" by simp
  ultimately show "x = y" by (simp only: mult_1_right)
qed simp

lemma mix_inj: "mix i b l = mix i b' l' \<longleftrightarrow> l XOR ucast b = l' XOR ucast b'"
proof -
  have "word_rotl k x = word_rotl k y \<longleftrightarrow> x = y" for k and x y :: u64
    by (metis word_rot_gal)
  then show ?thesis by (simp add: mix_def mult_prime_inj)
qed

lemma xor_cancel: "x XOR z = y XOR z \<longleftrightarrow> x = (y :: 'a::len word)"
  by (metis xor.assoc xor.right_neutral xor_self_eq)

lemma mix_lane_inj: "mix i b l = mix i b l' \<longleftrightarrow> l = l'"
  by (simp add: mix_inj xor_cancel)

lemma mix_byte_inj: "mix i b l = mix i b' l \<longleftrightarrow> b = b'"
proof -
  have "ucast b = (ucast b' :: u64) \<longleftrightarrow> b = b'"
  proof
    assume eq: "ucast b = (ucast b' :: u64)"
    show "b = b'"
    proof (rule bit_word_eqI)
      fix n assume "n < LENGTH(8)"
      with arg_cong [OF eq, of "\<lambda>w. bit w n"] show "bit b n = bit b' n" by (simp add: bit_simps)
    qed
  qed simp
  then show ?thesis by (metis mix_inj xor.commute xor_cancel)
qed

lemma length_mix_lanes [simp]: "length (mix_lanes i bs lanes) = length lanes"
  by (induction bs arbitrary: i lanes) simp_all

lemma mix_lanes_inj:
  "length L = 4 \<Longrightarrow> length L' = 4 \<Longrightarrow> mix_lanes i bs L = mix_lanes i bs L' \<Longrightarrow> L = L'"
proof (induction bs arbitrary: i L L')
  case (Cons b bs)
  have eq: "L[i mod 4 := mix i b (L ! (i mod 4))] = L'[i mod 4 := mix i b (L' ! (i mod 4))]"
    by (rule Cons.IH [of _ _ "Suc i"]) (use Cons.prems in simp_all)
  show ?case
  proof (rule nth_equalityI)
    fix k assume "k < length L"
    with Cons.prems have k: "k < length L" "k < length L'" by simp_all
    show "L ! k = L' ! k"
    proof (cases "i mod 4 = k")
      case True
      have "mix i b (L ! k) = mix i b (L' ! k)"
        using arg_cong [OF eq, of "\<lambda>xs. xs ! k"] k unfolding True by (simp only: nth_list_update_eq)
      then show ?thesis by (simp only: mix_lane_inj)
    next
      case False
      then show ?thesis
        using arg_cong [OF eq, of "\<lambda>xs. xs ! k"] by (metis nth_list_update_neq)
    qed
  qed (use Cons.prems in simp)
qed simp

lemma mix_lanes_append:
  "mix_lanes i (xs @ ys) L = mix_lanes (i + length xs) ys (mix_lanes i xs L)"
  by (induction xs arbitrary: i L) simp_all

lemma concat_be_inj:
  "length ws = length vs \<Longrightarrow> concat (map (to_be 8) ws) = concat (map (to_be 8) vs) \<Longrightarrow>
    ws = (vs :: u64 list)"
proof (induction ws vs rule: list_induct2)
  case (Cons w ws v vs)
  have "to_be 8 w @ concat (map (to_be 8) ws) = to_be 8 v @ concat (map (to_be 8) vs)"
    using Cons.prems by (simp only: list.map concat.simps)
  then have head: "to_be 8 w = to_be 8 v" and rest: "concat (map (to_be 8) ws) = concat (map (to_be 8) vs)"
    using append_eq_append_conv [of "to_be 8 w" "to_be 8 v"] by (auto simp del: to_be.simps)
  have "(from_be (to_be 8 w) :: u64) = from_be (to_be 8 v)" by (simp only: head)
  then have "w = v" by simp
  with Cons.IH [OF rest] show ?case by simp
qed simp

lemma checksum_single_byte:
  assumes "i < length bs" and "b \<noteq> bs ! i"
  shows "checksum (bs[i := b]) \<noteq> checksum bs"
proof
  assume eq: "checksum (bs[i := b]) = checksum bs"
  define L where "L = mix_lanes 0 (take i bs) initial_lanes"
  have len: "length L = 4" by (simp add: L_def initial_lanes_def)
  have split: "bs = take i bs @ bs ! i # drop (Suc i) bs"
    "bs[i := b] = take i bs @ b # drop (Suc i) bs"
    using assms(1) by (simp_all add: id_take_nth_drop upd_conv_take_nth_drop)
  have "mix_lanes 0 (bs[i := b]) initial_lanes = mix_lanes 0 bs initial_lanes"
    using eq unfolding checksum_def by (intro concat_be_inj) simp_all
  moreover have "mix_lanes 0 (take i bs @ c # drop (Suc i) bs) initial_lanes
      = mix_lanes (Suc i) (drop (Suc i) bs) (L[i mod 4 := mix i c (L ! (i mod 4))])" for c
    using assms(1) by (simp add: mix_lanes_append L_def)
  ultimately have "mix_lanes (Suc i) (drop (Suc i) bs) (L[i mod 4 := mix i b (L ! (i mod 4))])
      = mix_lanes (Suc i) (drop (Suc i) bs) (L[i mod 4 := mix i (bs ! i) (L ! (i mod 4))])"
    using split by metis
  from mix_lanes_inj [OF _ _ this] len
  have "L[i mod 4 := mix i b (L ! (i mod 4))] = L[i mod 4 := mix i (bs ! i) (L ! (i mod 4))]"
    by simp
  then have "mix i b (L ! (i mod 4)) = mix i (bs ! i) (L ! (i mod 4))"
    using len by (metis length_list_update mod_less_divisor nth_list_update_eq zero_less_numeral)
  with assms(2) show False by (simp add: mix_byte_inj)
qed

section \<open>Files\<close>

text \<open>The layout of an encoded file, shared by the theorems below.\<close>

lemma encode_layout:
  assumes "SessionRecord_encode r = Inr bytes"
  obtains payload where "bytes = MAGIC @ to_be 2 STATE_FORMAT_VERSION
      @ to_be 4 (word_of_nat (length payload) :: u32) @ payload @ checksum payload"
    and "length payload \<le> 2 ^ 32 - 1" and "length bytes = 46 + length payload"
    and "encode_payload r [] = Inr payload" and "validate_for_serialization r = Inr ()"
    and "length bytes \<le> MAX_SESSION_RECORD_BYTES"
  using assms
  by (auto simp: SessionRecord_encode_def rbind_eq_Inr Let_def MAX_SESSION_RECORD_BYTES_def
      split: if_splits)

text \<open>What the decoder has checked about the frame of a file it accepts.\<close>

lemma decode_checks:
  assumes "SessionRecord_decode bs = Inr r"
  shows "length bs = 46 + unat (from_be (take 4 (drop 10 bs)) :: u32) \<and> take 8 bs = MAGIC
    \<and> (from_be (take 2 (drop 8 bs)) :: u16) = STATE_FORMAT_VERSION
    \<and> checksum (take (unat (from_be (take 4 (drop 10 bs)) :: u32)) (drop 14 bs))
        = drop (14 + unat (from_be (take 4 (drop 10 bs)) :: u32)) bs
    \<and> validate_for_serialization r = Inr ()"
  using assms
  by (auto simp: SessionRecord_decode_def Let_def rbind_eq_Inr split: if_splits prod.splits)

lemma decode_frame:
  assumes "SessionRecord_decode bs = Inr r"
  obtains n where "n = unat (from_be (take 4 (drop 10 bs)) :: u32)" and "length bs = 46 + n"
    and "take 8 bs = MAGIC" and "(from_be (take 2 (drop 8 bs)) :: u16) = STATE_FORMAT_VERSION"
    and "checksum (take n (drop 14 bs)) = drop (14 + n) bs"
    and "validate_for_serialization r = Inr ()"
  using decode_checks [OF assms] that by blast

lemma from_be_bits: "bit (from_be bs :: 'a::len word) n \<Longrightarrow> n < 8 * length bs"
proof (induction bs arbitrary: n rule: rev_induct)
  case (snoc b bs)
  then have "bit (push_bit 8 (from_be bs) :: 'a word) n \<or> bit (ucast b :: 'a word) n"
    by (simp add: from_be_snoc bit_or_iff)
  then show ?case
  proof
    assume "bit (push_bit 8 (from_be bs) :: 'a word) n"
    then have "8 \<le> n" "bit (from_be bs :: 'a word) (n - 8)" by (auto simp: bit_simps)
    with snoc.IH [of "n - 8"] show ?thesis by simp
  next
    assume "bit (ucast b :: 'a word) n"
    then have "bit b n" by (simp add: bit_simps)
    then have "n < LENGTH(8)" by (rule bit_imp_le_length)
    then show ?thesis by simp
  qed
qed (simp add: from_be_def)

lemma to_be_from_be:
  "8 * length bs \<le> LENGTH('a::len) \<Longrightarrow> to_be (length bs) (from_be bs :: 'a word) = bs"
proof (induction bs rule: rev_induct)
  case (snoc b bs)
  let ?w = "push_bit 8 (from_be bs) OR ucast b :: 'a word"
  have bits: "bit b n \<Longrightarrow> n < 8" for n using bit_imp_le_length [of b n] by simp
  have "drop_bit 8 ?w = from_be bs"
  proof (rule bit_word_eqI)
    fix n assume "n < LENGTH('a)"
    then show "bit (drop_bit 8 ?w) n = bit (from_be bs :: 'a word) n"
      using from_be_bits [of bs n, where ?'a = 'a] bits [of "8 + n"] snoc.prems
      by (auto simp: bit_simps)
  qed
  moreover have "ucast ?w = b"
    using snoc.prems by (intro bit_word_eqI) (auto simp: bit_simps)
  ultimately show ?case using snoc by (simp add: from_be_snoc)
qed simp

lemma from_be_inj:
  assumes "length bs = length cs" and "8 * length bs \<le> LENGTH('a::len)"
    and "(from_be bs :: 'a word) = from_be cs"
  shows "bs = cs"
proof -
  have "bs = to_be (length bs) (from_be bs :: 'a word)" using assms(2) by (rule to_be_from_be [symmetric])
  also have "\<dots> = to_be (length cs) (from_be cs :: 'a word)" by (simp only: assms(1,3))
  also have "\<dots> = cs" using assms(1,2) by (intro to_be_from_be) simp
  finally show ?thesis .
qed

text \<open>
  C19: a single changed byte anywhere in a state file (magic, version, length, payload or checksum)
  is always rejected: the checksum loop is a bijection of each lane, so no single-byte corruption
  of the payload can collide.
\<close>

theorem single_byte_corruption_rejected:
  assumes "SessionRecord_encode r = Inr bytes" and "i < length bytes" and "b \<noteq> bytes ! i"
  shows "\<exists>e. SessionRecord_decode (bytes[i := b]) = Inl e"
proof (cases "SessionRecord_decode (bytes[i := b])")
  case (Inr r')
  obtain payload where layout: "bytes = MAGIC @ to_be 2 STATE_FORMAT_VERSION
      @ to_be 4 (word_of_nat (length payload) :: u32) @ payload @ checksum payload"
    and small: "length payload \<le> 2 ^ 32 - 1" and len: "length bytes = 46 + length payload"
    using encode_layout [OF assms(1)] by metis
  obtain n where n: "n = unat (from_be (take 4 (drop 10 (bytes[i := b]))) :: u32)"
    "length (bytes[i := b]) = 46 + n"
    and frame: "take 8 (bytes[i := b]) = MAGIC"
    "(from_be (take 2 (drop 8 (bytes[i := b]))) :: u16) = STATE_FORMAT_VERSION"
    "checksum (take n (drop 14 (bytes[i := b]))) = drop (14 + n) (bytes[i := b])"
    using decode_frame [OF Inr] by metis
  have n_len: "n = length payload" using n(2) len by simp
  have slices: "take 8 bytes = MAGIC" "take 2 (drop 8 bytes) = to_be 2 STATE_FORMAT_VERSION"
    "take 4 (drop 10 bytes) = to_be 4 (word_of_nat (length payload) :: u32)"
    "take (length payload) (drop 14 bytes) = payload"
    "drop (14 + length payload) bytes = checksum payload"
    unfolding layout by simp_all
  have differ: "xs[j := b] \<noteq> xs" if "j < length xs" "xs ! j \<noteq> b" for xs j
    using that by (metis nth_list_update_eq)
  consider "i < 8" | "8 \<le> i" "i < 10" | "10 \<le> i" "i < 14" | "14 \<le> i" "i < 14 + n"
    | "14 + n \<le> i" by linarith
  then have False
  proof cases
    case 1
    have "take 8 (bytes[i := b]) = (take 8 bytes)[i := b]" by (simp add: take_update_swap)
    moreover have "(take 8 bytes)[i := b] \<noteq> take 8 bytes"
      by (rule differ) (use 1 assms in auto)
    ultimately show False using frame(1) slices(1) by simp
  next
    case 2
    have "take 2 (drop 8 (bytes[i := b])) = (take 2 (drop 8 bytes))[i - 8 := b]"
      using 2 by (simp add: drop_update_swap take_update_swap)
    moreover have "(take 2 (drop 8 bytes))[i - 8 := b] \<noteq> take 2 (drop 8 bytes)"
      by (rule differ) (use 2 assms len in auto)
    moreover have "take 2 (drop 8 (bytes[i := b])) = take 2 (drop 8 bytes)"
    proof (rule from_be_inj [where ?'a = 16])
      show "(from_be (take 2 (drop 8 (bytes[i := b]))) :: u16) = from_be (take 2 (drop 8 bytes))"
        unfolding frame(2) slices(2) by simp
    qed simp_all
    ultimately show False by simp
  next
    case 3
    have "take 4 (drop 10 (bytes[i := b])) = (take 4 (drop 10 bytes))[i - 10 := b]"
      using 3 by (simp add: drop_update_swap take_update_swap)
    moreover have "(take 4 (drop 10 bytes))[i - 10 := b] \<noteq> take 4 (drop 10 bytes)"
      by (rule differ) (use 3 assms len in auto)
    moreover have "take 4 (drop 10 (bytes[i := b])) = take 4 (drop 10 bytes)"
    proof (rule from_be_inj [where ?'a = 32])
      have "unat (from_be (take 4 (drop 10 (bytes[i := b]))) :: u32)
          = unat (from_be (take 4 (drop 10 bytes)) :: u32)"
        unfolding n(1) [symmetric] n_len slices(3) using length_word32 [OF small] by simp
      then show "(from_be (take 4 (drop 10 (bytes[i := b]))) :: u32) = from_be (take 4 (drop 10 bytes))"
        by (simp only: word_unat_eq_iff)
    qed simp_all
    ultimately show False by simp
  next
    case 4
    have "take n (drop 14 (bytes[i := b])) = payload[i - 14 := b]"
      using 4 slices(4) n_len by (simp add: drop_update_swap take_update_swap)
    moreover have "drop (14 + n) (bytes[i := b]) = checksum payload"
      using 4 slices(5) n_len by simp
    moreover have "payload ! (i - 14) = bytes ! i"
      using 4 n_len len arg_cong [OF slices(4), of "\<lambda>xs. xs ! (i - 14)"] by (simp add: nth_drop)
    ultimately show False
      using frame(3) checksum_single_byte [of "i - 14" payload b] 4 assms(3) n_len by simp
  next
    case 5
    have "take n (drop 14 (bytes[i := b])) = payload"
      using 5 slices(4) n_len by (simp add: drop_update_swap take_update_cancel)
    moreover have "drop (14 + n) (bytes[i := b]) = (drop (14 + n) bytes)[i - (14 + n) := b]"
      using 5 by (simp add: drop_update_swap)
    moreover have "(drop (14 + n) bytes)[i - (14 + n) := b] \<noteq> drop (14 + n) bytes"
      by (rule differ) (use 5 assms len in auto)
    ultimately show False using frame(3) slices(5) n_len by simp
  qed
  then show ?thesis ..
qed blast

text \<open>
  A state file cut short at any point, or with anything appended, is rejected: a torn write can
  never be mistaken for a record.
\<close>

theorem torn_file_rejected:
  assumes "SessionRecord_encode r = Inr bytes"
  shows "(k < length bytes \<longrightarrow> (\<exists>e. SessionRecord_decode (take k bytes) = Inl e))
    \<and> (junk \<noteq> [] \<longrightarrow> (\<exists>e. SessionRecord_decode (bytes @ junk) = Inl e))"
proof -
  obtain payload where layout: "bytes = MAGIC @ to_be 2 STATE_FORMAT_VERSION
      @ to_be 4 (word_of_nat (length payload) :: u32) @ payload @ checksum payload"
    and small: "length payload \<le> 2 ^ 32 - 1" and len: "length bytes = 46 + length payload"
    using encode_layout [OF assms] by metis
  have header: "unat (from_be (take 4 (drop 10 bytes)) :: u32) = length payload"
    unfolding layout using length_word32 [OF small] by simp
  have same: "length content = length bytes"
    if "SessionRecord_decode content = Inr r'" "take 14 content = take 14 bytes" for content r'
  proof -
    have "take 4 (drop 10 xs) = drop 10 (take 14 xs)" for xs :: "u8 list"
      by (simp add: take_drop add.commute)
    with that(2) have "take 4 (drop 10 content) = take 4 (drop 10 bytes)" by simp
    with header decode_frame [OF that(1)] len show ?thesis by metis
  qed
  have "\<exists>e. SessionRecord_decode content = Inl e"
    if "length content \<noteq> length bytes" "46 \<le> length content \<longrightarrow> take 14 content = take 14 bytes" for content
  proof (cases "SessionRecord_decode content")
    case (Inr r')
    then have "46 \<le> length content" using decode_frame [OF Inr] by (metis le_add1)
    with same [OF Inr] that show ?thesis by blast
  qed blast
  from this [of "take k bytes"] this [of "bytes @ junk"] len show ?thesis
    by (auto simp: take_append min_def)
qed

text \<open>
  Whatever bytes are read, a record that decodes has passed the full structural validation, so
  no caller of \<open>decode\<close> ever sees an operation whose evidence is not bound to it.
\<close>

theorem decode_validates:
  assumes "SessionRecord_decode bytes = Inr r"
  shows "validate_for_serialization r = Inr () \<and> (\<forall>p \<in> set (sr_operations r). operation_valid p)"
proof -
  have "validate_for_serialization r = Inr ()" using decode_frame [OF assms] by metis
  then show ?thesis by (simp add: validate_for_serialization_ok record_valid_def)
qed

section \<open>Witnesses\<close>

definition example_record :: session_record where
  "example_record = \<lparr>sr_session = example_session, sr_operations = [example_restored],
     sr_transitions = [], sr_failures = []\<rparr>"

lemma example_record_wf: "wf_record example_record"
  by (simp add: example_record_def example_defs wf_simps wf_mutation_def valid_id_text_def
      id_char_def is_ascii_alphanumeric_def is_ascii_digit_def validate_kind_def MAX_PREIMAGE_BYTES_def)

lemmas writer_defs = put_raw_def put_u8_def put_u16_def put_u32_def put_u64_def put_u128_def
  put_i64_def put_fixed_def put_bytes_def put_string_def put_count_def put_list_def
  encode_optional_def encode_session_state_def encode_operation_state_def encode_equality_def

lemma example_payload: "\<exists>payload. encode_payload example_record [] = Inr payload \<and> length payload < 1000"
  by (simp add: encode_payload_def example_record_def example_defs encode_session_def
      encode_operation_def encode_mutation_def encode_snapshot_def encode_apply_receipt_def
      encode_restore_receipt_def writer_defs nul_def MAX_STRING_BYTES_def MAX_OPERATIONS_def
      MAX_TRANSITIONS_def MAX_FAILURES_def MAX_TARGETS_def MAX_DEPENDENCIES_def)

lemma example_valid: "validate_for_serialization example_record = Inr ()"
  by (simp add: example_record_def validate_for_serialization_ok record_valid_def validity_defs
      example_defs MAX_OPERATIONS_def)

lemma example_encodes: "\<not> isl (SessionRecord_encode example_record)"
  using example_payload example_valid
  by (auto simp: SessionRecord_encode_def Let_def MAX_SESSION_RECORD_BYTES_def)

text \<open>The encoded form of the example, shared by the witnesses.\<close>

definition example_bytes :: "u8 list" where
  "example_bytes = projr (SessionRecord_encode example_record)"

lemma example_bytes_eq: "SessionRecord_encode example_record = Inr example_bytes"
  using example_encodes by (simp add: example_bytes_def)

lemma example_bytes_nonempty: "0 < length example_bytes"
  using encode_layout [OF example_bytes_eq] by fastforce

theorem encode_decode_roundtrip_witness:
  "wf_record example_record \<and> SessionRecord_decode example_bytes = Inr example_record"
  using encode_decode_roundtrip [OF example_record_wf example_bytes_eq] example_record_wf by blast

theorem single_byte_corruption_rejected_witness:
  "\<exists>e. SessionRecord_decode (example_bytes[0 := 0]) = Inl e"
proof -
  have "take 8 example_bytes = MAGIC"
    using decode_checks [OF decode_encoded [OF example_record_wf example_bytes_eq]] by blast
  then have "take 8 example_bytes ! 0 = MAGIC ! 0" by simp
  then have "example_bytes ! 0 = 0x53" by (simp add: MAGIC_def str_bytes_def)
  then have "0 \<noteq> example_bytes ! 0" by simp
  from single_byte_corruption_rejected [OF example_bytes_eq example_bytes_nonempty this]
  show ?thesis .
qed

theorem torn_file_rejected_witness:
  "\<exists>e. SessionRecord_decode (take 0 example_bytes) = Inl e"
  using torn_file_rejected [OF example_bytes_eq, of 0 "[]"] example_bytes_nonempty by blast

theorem decode_validates_witness:
  "validate_for_serialization example_record = Inr ()"
  using decode_validates
    [OF decode_encoded [OF example_record_wf example_bytes_eq]] by blast

end
