(* ===== verification/Engine.thy ===== *)
theory Engine
  imports Record_Frames Actions
begin

text \<open>
  The transaction coordinator \<open>sysboost-platform/src/transaction.rs\<close>. The engine is generic over its
  backend, state store, lock, session-ID source and clock, and so is the model: the ports are a
  record of functions on an arbitrary world, and every engine method is a function on the engine's
  state that performs the calls, the record updates and the early returns of the source in order.
\<close>

section \<open>Ports\<close>

text \<open>
  \<open>MutationBackend\<close> (\<open>backend.rs\<close>), \<open>SessionStateStore\<close>, \<open>ExclusiveSessionLock\<close>, \<open>SessionIdSource\<close>
  (\<open>state.rs\<close>) and \<open>Clock\<close> (\<open>clock.rs\<close>). \<open>'w\<close> is the world the ports act on, \<open>'g\<close> the lock guard;
  \<open>port_release\<close> is the guard's destructor.
\<close>

record ('w, 'g) ports =
  port_snapshot :: "planned_mutation \<Rightarrow> timestamp \<Rightarrow> ('w, snapshot) action"
  port_apply :: "planned_mutation \<Rightarrow> snapshot \<Rightarrow> ('w, apply_receipt) action"
  port_verify :: "planned_mutation \<Rightarrow> state_fingerprint \<Rightarrow> target_identity \<Rightarrow>
    ('w, state_fingerprint) action"
  port_restore :: "planned_mutation \<Rightarrow> snapshot \<Rightarrow> state_fingerprint \<Rightarrow> ('w, restore_receipt) action"
  port_create :: "session_record \<Rightarrow> ('w, unit) action"
  port_replace :: "session_record \<Rightarrow> ('w, unit) action"
  port_load :: "session_id \<Rightarrow> ('w, session_record) action"
  port_load_unfinished :: "('w, session_record list) action"
  port_remove :: "session_id \<Rightarrow> ('w, unit) action"
  port_acquire :: "('w, 'g) action"
  port_release :: "'g \<Rightarrow> 'w \<Rightarrow> 'w"
  port_next_id :: "('w, session_id) action"
  port_now :: "('w, timestamp) action"

record 'g active_lease =
  al_session_id :: session_id
  al_guard :: 'g

record ('w, 'g) engine =
  world :: 'w
  active :: "'g active_lease option"

record transaction_status =
  ts_session_id :: session_id
  ts_state :: session_state

text \<open>A port call from the engine, with the error adjustment of its \<open>map_err\<close>.\<close>

definition call ::
    "('w, 'a) action \<Rightarrow> (sysboost_error \<Rightarrow> sysboost_error) \<Rightarrow> (('w, 'g) engine, 'a) action" where
  "call port adjust eng =
     (case port (world eng) of (r, w) \<Rightarrow> (map_err adjust r, eng\<lparr>world := w\<rparr>))"

section \<open>Helpers\<close>

definition contextual ::
    "stage \<Rightarrow> session_id option \<Rightarrow> mutation_id option \<Rightarrow> sysboost_error \<Rightarrow> sysboost_error" where
  "contextual stage session_id mutation_id error =
     (let error = with_stage stage error;
          error = (case session_id of None \<Rightarrow> error | Some s \<Rightarrow> with_session s error)
      in case mutation_id of None \<Rightarrow> error | Some i \<Rightarrow> with_mutation i error)"

text \<open>The \<open>Display\<close> form of an error code (\<open>error.rs\<close>) and the \<open>Debug\<close> form of a session state.\<close>

fun error_code_name :: "error_code \<Rightarrow> string" where
  "error_code_name ConfigError = ''config_error''"
| "error_code_name CapabilityError = ''capability_error''"
| "error_code_name error_code.Unsupported = ''unsupported''"
| "error_code_name AuthorizationError = ''authorization_error''"
| "error_code_name TargetError = ''target_error''"
| "error_code_name PlanningError = ''planning_error''"
| "error_code_name SnapshotError = ''snapshot_error''"
| "error_code_name DurabilityError = ''durability_error''"
| "error_code_name TransportError = ''transport_error''"
| "error_code_name ApplyError = ''apply_error''"
| "error_code_name VerificationError = ''verification_error''"
| "error_code_name RestoreConflict = ''restore_conflict''"
| "error_code_name RestoreError = ''restore_error''"
| "error_code_name JournalCorrupt = ''journal_corrupt''"
| "error_code_name InvariantViolation = ''invariant_violation''"
| "error_code_name InvalidInput = ''invalid_input''"

fun session_state_name :: "session_state \<Rightarrow> string" where
  "session_state_name New = ''New''"
| "session_state_name Detected = ''Detected''"
| "session_state_name session_state.Planned = ''Planned''"
| "session_state_name session_state.Snapshotted = ''Snapshotted''"
| "session_state_name IntentDurable = ''IntentDurable''"
| "session_state_name session_state.Applying = ''Applying''"
| "session_state_name Active = ''Active''"
| "session_state_name session_state.Restoring = ''Restoring''"
| "session_state_name session_state.Restored = ''Restored''"
| "session_state_name RollingBack = ''RollingBack''"
| "session_state_name Degraded = ''Degraded''"
| "session_state_name RecoveryPending = ''RecoveryPending''"

definition combine_failure :: "sysboost_error \<Rightarrow> sysboost_error \<Rightarrow> session_id \<Rightarrow> sysboost_error" where
  "combine_failure trigger rollback session_id =
     retryable AfterRecovery (with_session session_id (with_stage Recovery
       (SysboostError_new
         (case err_code rollback of JournalCorrupt \<Rightarrow> JournalCorrupt
          | RestoreConflict \<Rightarrow> RestoreConflict | _ \<Rightarrow> RestoreError)
         (''transaction failed with '' @ error_code_name (err_code trigger)
          @ ''; rollback also failed with '' @ error_code_name (err_code rollback)))))"

definition validate_snapshot :: "planned_mutation \<Rightarrow> snapshot \<Rightarrow> unit result" where
  "validate_snapshot mutation snapshot =
     (if sn_mutation_id snapshot \<noteq> pm_mutation_id mutation
         \<or> sn_target snapshot \<noteq> pm_target mutation
         \<or> sn_equality snapshot \<noteq> pm_equality mutation
      then Inl (with_target (pm_target mutation) (with_mutation (pm_mutation_id mutation)
        (with_stage Snapshot (SysboostError_new SnapshotError
          ''backend snapshot does not satisfy the typed mutation contract''))))
      else Inr ())"

definition require_active :: "session_id \<Rightarrow> (('w, 'g) engine, unit) action" where
  "require_active session_id eng =
     (case active eng of
        Some lease \<Rightarrow>
          (if al_session_id lease = session_id then (Inr (), eng)
           else (Inl (with_session (al_session_id lease) (with_stage Transport
             (SysboostError_new AuthorizationError
               ''requested session is not owned by this coordinator''))), eng))
      | None \<Rightarrow> (Inl (with_stage Transport (SysboostError_new AuthorizationError
          ''no mutating-session lease is held by this coordinator'')), eng))"

definition load_active_record ::
    "('w, 'g) ports \<Rightarrow> session_id \<Rightarrow> (('w, 'g) engine, session_record) action" where
  "load_active_record P session_id =
     call (port_load P session_id) (contextual Recovery (Some session_id) None)"

definition persist ::
    "('w, 'g) ports \<Rightarrow> session_record \<Rightarrow> stage \<Rightarrow> (('w, 'g) engine, unit) action" where
  "persist P record stage =
     call (port_replace P record) (contextual stage (Some (sr_session_id record)) None)"

definition engine_now :: "('w, 'g) ports \<Rightarrow> stage \<Rightarrow> (('w, 'g) engine, timestamp) action" where
  "engine_now P stage = call (port_now P) (with_stage stage)"

text \<open>\<open>self.now(..).unwrap_or(Timestamp::from_unix_millis(0))\<close>.\<close>

definition now_or_zero :: "('w, 'g) ports \<Rightarrow> stage \<Rightarrow> ('w, 'g) engine \<Rightarrow> timestamp \<times> ('w, 'g) engine" where
  "now_or_zero P stage eng =
     (case engine_now P stage eng of
        (Inl _, eng) \<Rightarrow> (Timestamp 0, eng) | (Inr now, eng) \<Rightarrow> (now, eng))"

text \<open>Dropping the active lease runs the guard's destructor.\<close>

definition drop_lease :: "('w, 'g) ports \<Rightarrow> ('w, 'g) engine \<Rightarrow> ('w, 'g) engine" where
  "drop_lease P eng =
     (case active eng of None \<Rightarrow> eng
      | Some lease \<Rightarrow> eng\<lparr>world := port_release P (al_guard lease) (world eng), active := None\<rparr>)"

definition release_if_restored :: "('w, 'g) ports \<Rightarrow> session_id \<Rightarrow> ('w, 'g) engine \<Rightarrow> ('w, 'g) engine" where
  "release_if_restored P session_id eng =
     (case active eng of
        Some lease \<Rightarrow> (if al_session_id lease = session_id then drop_lease P eng else eng)
      | None \<Rightarrow> eng)"

section \<open>Restoration\<close>

text \<open>The locals of \<open>restore_record\<close> that its loop updates.\<close>

record restore_progress =
  rp_record :: session_record
  rp_failures :: "sysboost_error list"
  rp_uncertain :: bool

text \<open>\<open>failures.push(error); uncertain = true;\<close>\<close>

definition uncertain_failure :: "sysboost_error \<Rightarrow> restore_progress \<Rightarrow> restore_progress" where
  "uncertain_failure error p = p\<lparr>rp_failures := rp_failures p @ [error], rp_uncertain := True\<rparr>"

text \<open>\<open>record.record_failure(&error); failures.push(error); uncertain = true;\<close>\<close>

definition recorded_failure :: "sysboost_error \<Rightarrow> restore_progress \<Rightarrow> restore_progress" where
  "recorded_failure error p =
     uncertain_failure error (p\<lparr>rp_record := record_failure error (rp_record p)\<rparr>)"

definition persist_progress ::
    "('w, 'g) ports \<Rightarrow> restore_progress \<Rightarrow> ('w, 'g) engine \<Rightarrow> restore_progress \<times> ('w, 'g) engine" where
  "persist_progress P p eng =
     (case persist P (rp_record p) Restore eng of
        (Inl error, eng) \<Rightarrow> (recorded_failure error p, eng)
      | (Inr _, eng) \<Rightarrow> (p, eng))"

text \<open>\<open>let _ = record.fail_restore(..); let _ = self.persist(..); failures.push(error);\<close>\<close>

definition failed_restore ::
    "('w, 'g) ports \<Rightarrow> mutation_id \<Rightarrow> sysboost_error \<Rightarrow> restore_progress \<Rightarrow> ('w, 'g) engine \<Rightarrow>
     restore_progress \<times> ('w, 'g) engine" where
  "failed_restore P mutation_id error p eng =
     (let record = snd (fail_restore mutation_id error (rp_record p));
          eng = snd (persist P record Restore eng)
      in (p\<lparr>rp_record := record, rp_failures := rp_failures p @ [error]\<rparr>, eng))"

text \<open>Recording a proven restore and persisting it.\<close>

definition proven_restore ::
    "('w, 'g) ports \<Rightarrow> mutation_id \<Rightarrow> restore_receipt \<Rightarrow> restore_progress \<Rightarrow> ('w, 'g) engine \<Rightarrow>
     restore_progress \<times> ('w, 'g) engine" where
  "proven_restore P mutation_id receipt p eng =
     (case record_restore mutation_id receipt (rp_record p) of
        (Inl error, record) \<Rightarrow> (uncertain_failure error (p\<lparr>rp_record := record\<rparr>), eng)
      | (Inr _, record) \<Rightarrow> persist_progress P (p\<lparr>rp_record := record\<rparr>) eng)"

definition session_error :: "error_code \<Rightarrow> string \<Rightarrow> stage \<Rightarrow> session_id \<Rightarrow> mutation_id \<Rightarrow> sysboost_error" where
  "session_error code message stage session_id mutation_id =
     with_mutation mutation_id (with_session session_id
       (with_stage stage (SysboostError_new code message)))"

text \<open>The backend part of one iteration: read back, compare with the ownership, restore.\<close>

definition restore_owned ::
    "('w, 'g) ports \<Rightarrow> planned_mutation \<Rightarrow> snapshot \<Rightarrow> state_fingerprint \<Rightarrow> restore_progress \<Rightarrow>
     ('w, 'g) engine \<Rightarrow> restore_progress \<times> ('w, 'g) engine" where
  "restore_owned P mutation snapshot ownership p eng =
     (let session_id = sr_session_id (rp_record p);
          mutation_id = pm_mutation_id mutation;
          context = contextual Restore (Some session_id) (Some mutation_id)
      in case call (port_verify P mutation (sn_original_fingerprint snapshot)
                (sn_target_identity snapshot)) context eng of
        (Inl error, eng) \<Rightarrow> failed_restore P mutation_id error p eng
      | (Inr observed, eng) \<Rightarrow>
        (if observed = sn_original_fingerprint snapshot
         then proven_restore P mutation_id \<lparr>rr_mutation_id = mutation_id,
                rr_restored_fingerprint = observed, rr_verified = True\<rparr> p eng
         else if observed \<noteq> ownership
         then failed_restore P mutation_id (session_error RestoreConflict
           ''target changed outside the session; compare-and-restore refused to overwrite it''
           Restore session_id mutation_id) p eng
         else case call (port_restore P mutation snapshot ownership) context eng of
            (Inl error, eng) \<Rightarrow> failed_restore P mutation_id error p eng
          | (Inr receipt, eng) \<Rightarrow>
            (if rr_mutation_id receipt = mutation_id \<and> rr_verified receipt
                \<and> rr_restored_fingerprint receipt = sn_original_fingerprint snapshot
             then proven_restore P mutation_id receipt p eng
             else failed_restore P mutation_id (session_error RestoreError
               ''backend restore did not prove the original fingerprint''
               Restore session_id mutation_id) p eng)))"

text \<open>One iteration of the loop of \<open>restore_record\<close>.\<close>

definition restore_one ::
    "('w, 'g) ports \<Rightarrow> nat \<Rightarrow> restore_progress \<Rightarrow> ('w, 'g) engine \<Rightarrow>
     restore_progress \<times> ('w, 'g) engine" where
  "restore_one P index p eng =
     (let record = rp_record p;
          session_id = sr_session_id record;
          operation = sr_operations record ! index;
          mutation_id = op_id operation
      in if op_state operation = operation_state.Restored then (p, eng)
      else case op_apply_receipt operation of
        None \<Rightarrow>
          (if op_state operation = operation_state.Applying
           then (recorded_failure (session_error JournalCorrupt
             ''operation may have applied before its receipt became durable''
             Recovery session_id mutation_id) p, eng)
           else (p, eng))
      | Some applied \<Rightarrow>
        (case op_snapshot operation of
          None \<Rightarrow> (recorded_failure (session_error InvariantViolation
             ''applied operation is missing its original snapshot''
             Restore session_id mutation_id) p, eng)
        | Some snapshot \<Rightarrow>
          (case begin_restore_operation mutation_id record of
            (Inl error, record) \<Rightarrow> (uncertain_failure error (p\<lparr>rp_record := record\<rparr>), eng)
          | (Inr _, record) \<Rightarrow>
            (case persist_progress P (p\<lparr>rp_record := record\<rparr>) eng of (p, eng) \<Rightarrow>
              restore_owned P (op_mutation operation) snapshot
                (ar_ownership_fingerprint applied) p eng))))"

fun restore_loop ::
    "('w, 'g) ports \<Rightarrow> nat list \<Rightarrow> restore_progress \<Rightarrow> ('w, 'g) engine \<Rightarrow>
     restore_progress \<times> ('w, 'g) engine" where
  "restore_loop P [] p eng = (p, eng)"
| "restore_loop P (index # rest) p eng =
     (case restore_one P index p eng of (p, eng) \<Rightarrow> restore_loop P rest p eng)"

text \<open>What a function with an \<open>&mut SessionRecord\<close> argument leaves: result, record, engine.\<close>

type_synonym ('w, 'g, 'a) on_record =
  "session_record \<Rightarrow> ('w, 'g) engine \<Rightarrow> 'a result \<times> session_record \<times> ('w, 'g) engine"

text \<open>The success exit of \<open>restore_record\<close>; both branches of its inner \<open>if\<close> are \<open>Restored\<close>.\<close>

definition restore_success :: "('w, 'g) ports \<Rightarrow> timestamp \<Rightarrow> ('w, 'g, session_state) on_record" where
  "restore_success P now record eng =
     (let session_id = sr_session_id record in
      case (if sr_state record \<noteq> session_state.Restored
            then SessionRecord_transition session_state.Restored now
              ''all captured originals verified'' record
            else (Inr (), record)) of
        (Inl e, record) \<Rightarrow> (Inl e, record, eng)
      | (Inr _, record) \<Rightarrow>
        (case persist P record Restore eng of
          (Inl e, eng) \<Rightarrow> (Inl e, record, eng)
        | (Inr _, eng) \<Rightarrow>
            (Inr session_state.Restored, record, release_if_restored P session_id eng)))"

text \<open>The failure exit.\<close>

definition restore_failure ::
    "('w, 'g) ports \<Rightarrow> timestamp \<Rightarrow> sysboost_error list \<Rightarrow> bool \<Rightarrow> ('w, 'g, session_state) on_record" where
  "restore_failure P now failures uncertain record eng =
     (let session_id = sr_session_id record;
          record = fold record_failure failures record
      in case (if sr_state record = session_state.Restoring \<or> sr_state record = RollingBack
               then SessionRecord_transition Degraded now
                 ''one or more originals remain unproven'' record
               else (Inr (), record)) of
        (Inl e, record) \<Rightarrow> (Inl e, record, eng)
      | (Inr _, record) \<Rightarrow>
        (case (if uncertain
               then SessionRecord_transition RecoveryPending now
                 ''crash or durability boundary left recovery uncertain'' record
               else (Inr (), record)) of
          (Inl e, record) \<Rightarrow> (Inl e, record, eng)
        | (Inr _, record) \<Rightarrow>
          (case persist P record Recovery eng of (r, eng) \<Rightarrow>
            let failures = (case r of Inl error \<Rightarrow> failures @ [error] | Inr _ \<Rightarrow> failures)
            in (Inl (case failures of
                  failure # _ \<Rightarrow> failure
                | [] \<Rightarrow> with_session session_id (with_stage Restore
                    (SysboostError_new RestoreError
                      ''original state could not be proven restored''))), record, eng))))"

definition restore_record :: "('w, 'g) ports \<Rightarrow> ('w, 'g, session_state) on_record" where
  "restore_record P record eng =
     (case now_or_zero P Restore eng of (now, eng) \<Rightarrow>
      case restore_loop P (rev [0..<length (sr_operations record)])
          \<lparr>rp_record = record, rp_failures = [], rp_uncertain = False\<rparr> eng of (p, eng) \<Rightarrow>
      if rp_failures p = [] \<and> restoration_proven (rp_record p) \<and> \<not> rp_uncertain p
      then restore_success P now (rp_record p) eng
      else restore_failure P now (rp_failures p) (rp_uncertain p) (rp_record p) eng)"

definition prepare_restore_state :: "('w, 'g) ports \<Rightarrow> ('w, 'g, unit) on_record" where
  "prepare_restore_state P record eng =
     (case engine_now P Restore eng of
        (Inl e, eng) \<Rightarrow> (Inl e, record, eng)
      | (Inr now, eng) \<Rightarrow>
        let persisted = (\<lambda>(r, record). case r of
              Inl e \<Rightarrow> (Inl e, record, eng)
            | Inr _ \<Rightarrow> (case persist P record Restore eng of (r, eng) \<Rightarrow> (r, record, eng)))
        in (case sr_state record of
          Active \<Rightarrow> persisted
            (SessionRecord_transition session_state.Restoring now ''normal restore started'' record)
        | Degraded \<Rightarrow> persisted
            (abind (SessionRecord_transition RecoveryPending now ''retrying degraded restore'')
              (\<lambda>_. SessionRecord_transition session_state.Restoring now
                ''recovery restore started'') record)
        | RecoveryPending \<Rightarrow> persisted
            (SessionRecord_transition session_state.Restoring now ''recovery restore resumed'' record)
        | IntentDurable \<Rightarrow> persisted
            (SessionRecord_transition RollingBack now ''rollback/recovery started'' record)
        | session_state.Applying \<Rightarrow> persisted
            (SessionRecord_transition RollingBack now ''rollback/recovery started'' record)
        | RollingBack \<Rightarrow> persisted (Inr (), record)
        | session_state.Restoring \<Rightarrow> persisted (Inr (), record)
        | session_state.Restored \<Rightarrow> (Inr (), record, eng)
        | state \<Rightarrow> (Inl (with_session (sr_session_id record) (with_stage Restore
            (SysboostError_new InvariantViolation
              (''restore is not legal from durable state '' @ session_state_name state)))),
            record, eng)))"

section \<open>Rollback\<close>

definition rollback_after_failure ::
    "('w, 'g) ports \<Rightarrow> session_record \<Rightarrow> sysboost_error \<Rightarrow> bool \<Rightarrow>
     (('w, 'g) engine, session_state) action" where
  "rollback_after_failure P record trigger from_apply eng =
     (let session_id = sr_session_id record in
      case (if from_apply then
              (case now_or_zero P Recovery eng of (now, eng) \<Rightarrow>
                (case (if sr_state record = session_state.Applying \<or> sr_state record = IntentDurable
                      then Some (RollingBack, ''apply failure triggered reverse rollback'')
                      else if sr_state record = Active
                      then Some (session_state.Restoring,
                        ''apply durability failure triggered normal restore'')
                      else None) of
                  None \<Rightarrow> (record, eng)
                | Some (next_state, reason) \<Rightarrow>
                    (case SessionRecord_transition next_state now reason record of
                       (Inl error, record) \<Rightarrow> (record_failure error record, eng)
                     | (Inr _, record) \<Rightarrow> (record, eng))))
            else (record, eng)) of (record, eng) \<Rightarrow>
      case persist P record Recovery eng of (r, eng) \<Rightarrow>
      let record = (case r of Inl error \<Rightarrow> record_failure error record | Inr _ \<Rightarrow> record) in
      (case restore_record P record eng of
        (Inr state, _, eng) \<Rightarrow>
          (if state = session_state.Restored then (Inl trigger, eng)
           else (Inl (with_session session_id (with_stage Recovery
             (SysboostError_new RestoreError
               (''transaction failed and ended in '' @ session_state_name state)))), eng))
      | (Inl rollback_error, _, eng) \<Rightarrow>
          (Inl (combine_failure trigger rollback_error session_id), eng)))"

section \<open>Apply\<close>

text \<open>
  One iteration of the apply loop either returns from \<open>apply\<close> with a result (\<open>Inl\<close>) or goes on with
  the updated record (\<open>Inr\<close>).
\<close>

type_synonym 'a flow = "'a result + session_record"

text \<open>\<open>record.record_failure(&error); return self.rollback_after_failure(record, error, true);\<close>\<close>

definition recorded_rollback ::
    "('w, 'g) ports \<Rightarrow> sysboost_error \<Rightarrow> session_record \<Rightarrow> ('w, 'g) engine \<Rightarrow>
     session_state flow \<times> ('w, 'g) engine" where
  "recorded_rollback P error record eng =
     (case rollback_after_failure P (record_failure error record) error True eng of
       (r, eng) \<Rightarrow> (Inl r, eng))"

text \<open>\<open>let _ = self.persist(&record, stage); return self.rollback_after_failure(..);\<close>\<close>

definition persisted_rollback ::
    "('w, 'g) ports \<Rightarrow> stage \<Rightarrow> sysboost_error \<Rightarrow> session_record \<Rightarrow> ('w, 'g) engine \<Rightarrow>
     session_state flow \<times> ('w, 'g) engine" where
  "persisted_rollback P stage error record eng =
     (case rollback_after_failure P record error True (snd (persist P record stage eng)) of
       (r, eng) \<Rightarrow> (Inl r, eng))"

text \<open>\<open>if let Err(error) = self.persist(..) { record_failure; return rollback }\<close>\<close>

definition persist_or_rollback ::
    "('w, 'g) ports \<Rightarrow> stage \<Rightarrow> session_record \<Rightarrow> ('w, 'g) engine \<Rightarrow>
     session_state flow \<times> ('w, 'g) engine" where
  "persist_or_rollback P stage record eng =
     (case persist P record stage eng of
        (Inl error, eng) \<Rightarrow> recorded_rollback P error record eng
      | (Inr _, eng) \<Rightarrow> (Inr record, eng))"

text \<open>\<open>record.operations[index].transition(..)?\<close>\<close>

definition operation_at ::
    "nat \<Rightarrow> (operation_record, 'a) action \<Rightarrow> (session_record, 'a) action" where
  "operation_at index body record =
     (case body (sr_operations record ! index) of (r, operation) \<Rightarrow>
       (r, record\<lparr>sr_operations := (sr_operations record)[index := operation]\<rparr>))"

text \<open>The readback after an accepted receipt.\<close>

definition verify_applied ::
    "('w, 'g) ports \<Rightarrow> planned_mutation \<Rightarrow> snapshot \<Rightarrow> state_fingerprint \<Rightarrow> session_record \<Rightarrow>
     ('w, 'g) engine \<Rightarrow> session_state flow \<times> ('w, 'g) engine" where
  "verify_applied P mutation snapshot ownership record eng =
     (let session_id = sr_session_id record; mutation_id = pm_mutation_id mutation in
      case call (port_verify P mutation ownership (sn_target_identity snapshot))
          (contextual Verify (Some session_id) (Some mutation_id)) eng of
        (Inl error, eng) \<Rightarrow>
          (case record_verification mutation_id \<lparr>vr_mutation_id = mutation_id,
               vr_expected = ownership, vr_observed = None, vr_matched = False\<rparr> record of
             (Inl e, _) \<Rightarrow> (Inl (Inl e), eng)
           | (Inr _, record) \<Rightarrow>
               persisted_rollback P Verify error (snd (fail_operation mutation_id error record)) eng)
      | (Inr observed, eng) \<Rightarrow>
          (let verification = \<lparr>vr_mutation_id = mutation_id, vr_expected = ownership,
             vr_observed = Some observed, vr_matched = (observed = ownership)\<rparr> in
           case record_verification mutation_id verification record of
             (Inl e, _) \<Rightarrow> (Inl (Inl e), eng)
           | (Inr _, record) \<Rightarrow>
             (if \<not> vr_matched verification
              then
                let error = session_error VerificationError
                  ''apply readback did not match the session-owned value''
                  Verify session_id mutation_id
                in persisted_rollback P Verify error
                     (snd (fail_operation mutation_id error record)) eng
              else persist_or_rollback P Verify record eng)))"

text \<open>What follows a backend apply that returned a receipt.\<close>

definition accept_receipt ::
    "('w, 'g) ports \<Rightarrow> planned_mutation \<Rightarrow> snapshot \<Rightarrow> apply_receipt \<Rightarrow> session_record \<Rightarrow>
     ('w, 'g) engine \<Rightarrow> session_state flow \<times> ('w, 'g) engine" where
  "accept_receipt P mutation snapshot receipt record eng =
     (let session_id = sr_session_id record; mutation_id = pm_mutation_id mutation in
      if ar_mutation_id receipt \<noteq> mutation_id
         \<or> ar_observed_precondition receipt \<noteq> pm_precondition mutation
         \<or> ar_observed_postcondition receipt \<noteq> ar_ownership_fingerprint receipt
      then
        let error = session_error ApplyError
          ''backend apply receipt failed its typed identity or precondition checks''
          Apply session_id mutation_id
        in case record_apply mutation_id receipt record of
            (Inl e, _) \<Rightarrow> (Inl (Inl e), eng)
          | (Inr _, record) \<Rightarrow>
              persisted_rollback P Apply error (snd (fail_operation mutation_id error record)) eng
      else case record_apply mutation_id receipt record of
          (Inl e, _) \<Rightarrow> (Inl (Inl e), eng)
        | (Inr _, record) \<Rightarrow>
          (case persist_or_rollback P Apply record eng of
            (Inl r, eng) \<Rightarrow> (Inl r, eng)
          | (Inr record, eng) \<Rightarrow>
              verify_applied P mutation snapshot (ar_ownership_fingerprint receipt) record eng))"

text \<open>The backend call on a durable \<open>Applying\<close> operation.\<close>

definition apply_backend ::
    "('w, 'g) ports \<Rightarrow> nat \<Rightarrow> session_record \<Rightarrow> ('w, 'g) engine \<Rightarrow>
     session_state flow \<times> ('w, 'g) engine" where
  "apply_backend P index record eng =
     (let session_id = sr_session_id record;
          mutation = op_mutation (sr_operations record ! index);
          mutation_id = pm_mutation_id mutation
      in case op_snapshot (sr_operations record ! index) of
        None \<Rightarrow> (Inl (Inl (session_error InvariantViolation
            ''durable intent operation is missing its snapshot'' Apply session_id mutation_id)), eng)
      | Some snapshot \<Rightarrow>
        (case call (port_apply P mutation snapshot)
            (contextual Apply (Some session_id) (Some mutation_id)) eng of
          (Inl error, eng) \<Rightarrow>
            persisted_rollback P Apply error
              (if err_retryability error \<noteq> Unknown then snd (fail_operation mutation_id error record)
               else record_failure error record) eng
        | (Inr receipt, eng) \<Rightarrow> accept_receipt P mutation snapshot receipt record eng))"

definition apply_one ::
    "('w, 'g) ports \<Rightarrow> nat \<Rightarrow> session_record \<Rightarrow> ('w, 'g) engine \<Rightarrow>
     session_state flow \<times> ('w, 'g) engine" where
  "apply_one P index record eng =
     (let operation = sr_operations record ! index;
          session_id = sr_session_id record;
          mutation_id = op_id operation
      in if op_state operation = Verified \<or> op_state operation = operation_state.Restored
      then (Inr record, eng)
      else if op_state operation = operation_state.Applying
      then recorded_rollback P (session_error JournalCorrupt
        ''crash-state shows an apply with no durable completion'' Recovery session_id mutation_id)
        record eng
      else if op_state operation \<noteq> IntentRecorded
      then recorded_rollback P (session_error InvariantViolation
        ''operation is not at durable intent before apply'' Apply session_id mutation_id)
        record eng
      else case operation_at index (OperationRecord_transition operation_state.Applying) record of
        (Inl e, _) \<Rightarrow> (Inl (Inl e), eng)
      | (Inr _, record) \<Rightarrow>
        (case persist_or_rollback P Apply record eng of
          (Inl r, eng) \<Rightarrow> (Inl r, eng)
        | (Inr record, eng) \<Rightarrow> apply_backend P index record eng))"

fun apply_loop ::
    "('w, 'g) ports \<Rightarrow> nat list \<Rightarrow> session_record \<Rightarrow> ('w, 'g) engine \<Rightarrow>
     session_state flow \<times> ('w, 'g) engine" where
  "apply_loop P [] record eng = (Inr record, eng)"
| "apply_loop P (index # rest) record eng =
     (case apply_one P index record eng of
        (Inl r, eng) \<Rightarrow> (Inl r, eng)
      | (Inr record, eng) \<Rightarrow> apply_loop P rest record eng)"

text \<open>\<open>apply\<close> from the first transition on.\<close>

definition apply_prepared ::
    "('w, 'g) ports \<Rightarrow> session_record \<Rightarrow> (('w, 'g) engine, session_state) action" where
  "apply_prepared P record eng =
     (case engine_now P Apply eng of
        (Inl e, eng) \<Rightarrow> (Inl e, eng)
      | (Inr now, eng) \<Rightarrow>
      (case SessionRecord_transition session_state.Applying now
          ''ordered mutation application started'' record of
        (Inl e, _) \<Rightarrow> (Inl e, eng)
      | (Inr _, record) \<Rightarrow>
      (case persist_or_rollback P Apply record eng of
        (Inl r, eng) \<Rightarrow> (r, eng)
      | (Inr record, eng) \<Rightarrow>
      (case apply_loop P [0..<length (sr_operations record)] record eng of
        (Inl r, eng) \<Rightarrow> (r, eng)
      | (Inr record, eng) \<Rightarrow>
      (case engine_now P Verify eng of
        (Inl e, eng) \<Rightarrow> (Inl e, eng)
      | (Inr now, eng) \<Rightarrow>
      (case SessionRecord_transition Active now
          ''all ordered applies and readbacks verified'' record of
        (Inl e, _) \<Rightarrow> (Inl e, eng)
      | (Inr _, record) \<Rightarrow>
      (case persist_or_rollback P Verify record eng of
        (Inl r, eng) \<Rightarrow> (r, eng)
      | (Inr _, eng) \<Rightarrow> (Inr Active, eng))))))))"

definition engine_apply ::
    "('w, 'g) ports \<Rightarrow> session_id \<Rightarrow> (('w, 'g) engine, session_state) action" where
  "engine_apply P session_id =
     abind (require_active session_id) (\<lambda>_.
     abind (load_active_record P session_id) (\<lambda>record eng.
       case sr_state record of
         IntentDurable \<Rightarrow> apply_prepared P record eng
       | Active \<Rightarrow> (Inr Active, eng)
       | session_state.Restored \<Rightarrow>
           (Inr session_state.Restored, release_if_restored P session_id eng)
       | state \<Rightarrow> (Inl (with_session session_id (with_stage Apply
           (SysboostError_new InvariantViolation
             (''apply is not legal from durable state '' @ session_state_name state)))), eng)))"

section \<open>Restore, recovery and status\<close>

text \<open>\<open>restore\<close> once the lease is known to be needed.\<close>

definition restore_held ::
    "('w, 'g) ports \<Rightarrow> session_id \<Rightarrow> (('w, 'g) engine, session_state) action" where
  "restore_held P session_id =
     abind (require_active session_id) (\<lambda>_.
     abind (load_active_record P session_id) (\<lambda>record eng.
       if sr_state record = session_state.Restored
       then (Inr session_state.Restored, release_if_restored P session_id eng)
       else case prepare_restore_state P record eng of
         (Inl e, _, eng) \<Rightarrow> (Inl e, eng)
       | (Inr _, record, eng) \<Rightarrow>
         (case restore_record P record eng of
           (Inl e, _, eng) \<Rightarrow> (Inl e, eng)
         | (Inr state, _, eng) \<Rightarrow>
           (Inr state, if state = session_state.Restored
             then release_if_restored P session_id eng else eng))))"

definition engine_restore ::
    "('w, 'g) ports \<Rightarrow> session_id \<Rightarrow> (('w, 'g) engine, session_state) action" where
  "engine_restore P session_id eng =
     (if active eng = None
      then case load_active_record P session_id eng of
          (Inl e, eng) \<Rightarrow> (Inl e, eng)
        | (Inr record, eng) \<Rightarrow>
          (if sr_state record = session_state.Restored then (Inr session_state.Restored, eng)
           else restore_held P session_id eng)
      else restore_held P session_id eng)"

record recovery_progress =
  rv_statuses :: "transaction_status list"
  rv_first_error :: "sysboost_error option"

text \<open>One iteration of the loop of \<open>recover_unfinished\<close>.\<close>

definition recover_one ::
    "('w, 'g) ports \<Rightarrow> session_record \<Rightarrow> recovery_progress \<Rightarrow> ('w, 'g) engine \<Rightarrow>
     recovery_progress \<times> ('w, 'g) engine" where
  "recover_one P record p eng =
     (let session_id = sr_session_id record;
          failed = (\<lambda>error record p. p\<lparr>
            rv_statuses := rv_statuses p
              @ [\<lparr>ts_session_id = session_id, ts_state = sr_state record\<rparr>],
            rv_first_error := Some (case rv_first_error p of None \<Rightarrow> error | Some e \<Rightarrow> e)\<rparr>)
      in case prepare_restore_state P record eng of
        (Inl error, record, eng) \<Rightarrow> (failed error record p, eng)
      | (Inr _, record, eng) \<Rightarrow>
        (case restore_record P record eng of
          (Inl error, record, eng) \<Rightarrow> (failed error record p, eng)
        | (Inr state, _, eng) \<Rightarrow>
            (p\<lparr>rv_statuses := rv_statuses p
              @ [\<lparr>ts_session_id = session_id, ts_state = state\<rparr>]\<rparr>, eng)))"

fun recover_loop ::
    "('w, 'g) ports \<Rightarrow> session_record list \<Rightarrow> recovery_progress \<Rightarrow> ('w, 'g) engine \<Rightarrow>
     recovery_progress \<times> ('w, 'g) engine" where
  "recover_loop P [] p eng = (p, eng)"
| "recover_loop P (record # rest) p eng =
     (case recover_one P record p eng of (p, eng) \<Rightarrow> recover_loop P rest p eng)"

text \<open>
  The guard is a local of \<open>recover_unfinished\<close>: leaving the function drops it unless it was moved
  into the active lease.
\<close>

definition recover_unfinished ::
    "('w, 'g) ports \<Rightarrow> (('w, 'g) engine, transaction_status list) action" where
  "recover_unfinished P eng =
     (if active eng \<noteq> None
      then (Inl (SysboostError_new AuthorizationError
        ''cannot recover while this coordinator owns an active session''), eng)
      else (case call (port_acquire P)
          (\<lambda>error. retryable Retry (with_stage Recovery error)) eng of
        (Inl e, eng) \<Rightarrow> (Inl e, eng)
      | (Inr guard, eng) \<Rightarrow>
      let drop_guard = (\<lambda>eng. eng\<lparr>world := port_release P guard (world eng)\<rparr>) in
      (case call (port_load_unfinished P) (\<lambda>e. e) eng of
        (Inl e, eng) \<Rightarrow> (Inl e, drop_guard eng)
      | (Inr records, eng) \<Rightarrow>
      let records = sort_key sr_session_id records in
      if records = [] then (Inr [], drop_guard eng)
      else (case recover_loop P records \<lparr>rv_statuses = [], rv_first_error = None\<rparr> eng of (p, eng) \<Rightarrow>
      if list_all (\<lambda>status. ts_state status = session_state.Restored) (rv_statuses p)
         \<and> rv_first_error p = None
      then (Inr (rv_statuses p), drop_guard eng)
      else
        let session_id = (case find (\<lambda>status. ts_state status \<noteq> session_state.Restored)
              (rv_statuses p) of Some status \<Rightarrow> ts_session_id status
            | None \<Rightarrow> ts_session_id (rv_statuses p ! 0))
        in (Inl (case rv_first_error p of
              Some error \<Rightarrow> error
            | None \<Rightarrow> with_session session_id (with_stage Recovery
                (SysboostError_new RestoreError
                  ''one or more unfinished sessions remain unresolved''))),
            eng\<lparr>active := Some \<lparr>al_session_id = session_id, al_guard = guard\<rparr>\<rparr>)))))"

definition engine_status ::
    "('w, 'g) ports \<Rightarrow> session_id \<Rightarrow> (('w, 'g) engine, transaction_status) action" where
  "engine_status P session_id =
     abind (load_active_record P session_id) (\<lambda>record.
       areturn (Inr \<lparr>ts_session_id = session_id, ts_state = sr_state record\<rparr>))"

section \<open>Prepare and abort\<close>

text \<open>The loop that captures every preimage.\<close>

fun capture_all ::
    "('w, 'g) ports \<Rightarrow> timestamp \<Rightarrow> planned_mutation list \<Rightarrow> (('w, 'g) engine, snapshot list) action" where
  "capture_all P now [] eng = (Inr [], eng)"
| "capture_all P now (mutation # rest) eng =
     abind (call (port_snapshot P mutation now)
         (contextual Snapshot None (Some (pm_mutation_id mutation)))) (\<lambda>snapshot.
     abind (areturn (validate_snapshot mutation snapshot)) (\<lambda>_.
     abind (areturn (if sn_original_fingerprint snapshot \<noteq> pm_precondition mutation
         then Inl (with_target (pm_target mutation) (with_mutation (pm_mutation_id mutation)
           (with_stage Snapshot (SysboostError_new TargetError
             ''target changed between planning and snapshot''))))
         else Inr ())) (\<lambda>_.
     abind (capture_all P now rest) (\<lambda>snapshots. areturn (Inr (snapshot # snapshots)))))) eng"

fun capture_snapshots :: "snapshot list \<Rightarrow> (session_record, unit) action" where
  "capture_snapshots [] record = (Inr (), record)"
| "capture_snapshots (snapshot # rest) record =
     abind (capture_snapshot snapshot) (\<lambda>_. capture_snapshots rest) record"

text \<open>The record of one candidate identity, up to durable intent.\<close>

definition intent_record ::
    "session_id \<Rightarrow> plan \<Rightarrow> timestamp \<Rightarrow> snapshot list \<Rightarrow> session_record result" where
  "intent_record session_id plan now snapshots =
     rbind (SessionRecord_new (Session_new session_id plan now) (plan_mutations plan)) (\<lambda>record.
     case abind (SessionRecord_transition Detected now ''capability evidence accepted'') (\<lambda>_.
          abind (SessionRecord_transition session_state.Planned now ''complete typed plan accepted'') (\<lambda>_.
          abind (capture_snapshots snapshots) (\<lambda>_.
          abind (SessionRecord_transition session_state.Snapshotted now
            ''all original states captured'') (\<lambda>_.
          abind record_intent (\<lambda>_.
          SessionRecord_transition IntentDurable now
            ''snapshots and mutation intent are durable''))))) record of
       (Inl e, _) \<Rightarrow> Inl e
     | (Inr _, record) \<Rightarrow> Inr record)"

text \<open>The bounded retry over candidate identities; \<open>fuel\<close> counts the attempts left of 32.\<close>

fun allocate_session ::
    "('w, 'g) ports \<Rightarrow> 'g \<Rightarrow> plan \<Rightarrow> timestamp \<Rightarrow> snapshot list \<Rightarrow> nat \<Rightarrow>
     (('w, 'g) engine, session_id) action" where
  "allocate_session P guard plan now snapshots 0 eng =
     (Inl (with_stage DurableIntent (SysboostError_new InvariantViolation
        ''unable to allocate a unique boost session ID'')), eng)"
| "allocate_session P guard plan now snapshots (Suc attempts) eng =
     (case call (port_next_id P) (with_stage DurableIntent) eng of
        (Inl e, eng) \<Rightarrow> (Inl e, eng)
      | (Inr session_id, eng) \<Rightarrow>
      (case intent_record session_id plan now snapshots of
        Inl e \<Rightarrow> (Inl e, eng)
      | Inr record \<Rightarrow>
      (case call (port_create P record) (\<lambda>e. e) eng of
        (Inr _, eng) \<Rightarrow>
          (Inr session_id,
           eng\<lparr>active := Some \<lparr>al_session_id = session_id, al_guard = guard\<rparr>\<rparr>)
      | (Inl error, eng) \<Rightarrow>
          (if err_code error = InvariantViolation
           then allocate_session P guard plan now snapshots attempts eng
           else (Inl (contextual DurableIntent (Some session_id) None error), eng)))))"

definition SESSION_ID_ATTEMPTS :: nat where "SESSION_ID_ATTEMPTS = 32"

text \<open>\<open>prepare\<close> once the lock is held; every error leaves the guard to be dropped by \<open>prepare\<close>.\<close>

definition prepare_locked ::
    "('w, 'g) ports \<Rightarrow> plan \<Rightarrow> 'g \<Rightarrow> (('w, 'g) engine, session_id) action" where
  "prepare_locked P plan guard =
     abind (call (port_load_unfinished P) (with_stage Recovery)) (\<lambda>unfinished.
     abind (areturn (if unfinished \<noteq> []
         then Inl (retryable AfterRecovery (with_stage Recovery
           (SysboostError_new AuthorizationError
             ''an unfinished session requires recovery before a new mutation'')))
         else Inr ())) (\<lambda>_.
     abind (call (port_now P) (with_stage Detect)) (\<lambda>now.
     abind (capture_all P now (plan_mutations plan)) (\<lambda>snapshots.
       allocate_session P guard plan now snapshots SESSION_ID_ATTEMPTS))))"

definition prepare :: "('w, 'g) ports \<Rightarrow> plan \<Rightarrow> (('w, 'g) engine, session_id) action" where
  "prepare P plan eng =
     (if active eng \<noteq> None
      then (Inl (retryable Retry (SysboostError_new AuthorizationError
        ''this coordinator already owns a mutating session'')), eng)
      else (case Plan_validate_complete plan of
        Inl e \<Rightarrow> (Inl e, eng)
      | Inr _ \<Rightarrow>
      if plan_mutations plan = []
      then (Inl (with_stage Plan (SysboostError_new AuthorizationError
        ''a report-only or no-op plan cannot enter the mutation engine'')), eng)
      else (case call (port_acquire P)
          (\<lambda>error. retryable Retry (with_stage DurableIntent error)) eng of
        (Inl e, eng) \<Rightarrow> (Inl e, eng)
      | (Inr guard, eng) \<Rightarrow>
        (case prepare_locked P plan guard eng of
          (Inl e, eng) \<Rightarrow> (Inl e, eng\<lparr>world := port_release P guard (world eng)\<rparr>)
        | (Inr session_id, eng) \<Rightarrow> (Inr session_id, eng)))))"

definition abort_prepared ::
    "('w, 'g) ports \<Rightarrow> session_id \<Rightarrow> (('w, 'g) engine, unit) action" where
  "abort_prepared P session_id =
     abind (require_active session_id) (\<lambda>_.
     abind (load_active_record P session_id) (\<lambda>record.
     abind (areturn (if sr_state record \<noteq> IntentDurable
           \<or> list_ex (\<lambda>operation. op_state operation \<noteq> IntentRecorded) (sr_operations record)
         then Inl (with_session session_id (with_stage DurableIntent
           (SysboostError_new InvariantViolation
             ''only an unapplied durable intent can be aborted'')))
         else Inr ())) (\<lambda>_.
     abind (call (port_remove P session_id) (contextual DurableIntent (Some session_id) None)) (\<lambda>_ eng.
       (Inr (), drop_lease P eng)))))"

end
