(* ===== verification/Engine_Safety.thy ===== *)
theory Engine_Safety
  imports Engine
begin

text \<open>
  Safety of the transaction engine. The locales \<open>passive_ports\<close>, \<open>restore_protocol\<close> and
  \<open>engine_protocol\<close> state when the engine calls each port; their consequence is that an invariant of
  the world that the ports keep under that protocol is kept by every engine method. Interpreting them on logging ports (\<open>Engine_Log\<close>) turns the protocol into theorems
  about the sequence of calls (write-ahead, compare-and-restore).
\<close>

section \<open>The port protocol\<close>

text \<open>
  \<open>intent_on record m s\<close>: the record holds mutation \<open>m\<close> in state \<open>Applying\<close> together with its
  captured preimage \<open>s\<close>, and every operation before it in the plan has been applied and read back
  (or was restored).
\<close>

definition done_before :: "nat \<Rightarrow> session_record \<Rightarrow> bool" where
  "done_before i record \<longleftrightarrow> (\<forall>j < i. op_state (sr_operations record ! j) \<in> {Verified, operation_state.Restored})"

definition intent_on :: "session_record \<Rightarrow> planned_mutation \<Rightarrow> snapshot \<Rightarrow> bool" where
  "intent_on record m s \<longleftrightarrow> (\<exists>i < length (sr_operations record).
     op_mutation (sr_operations record ! i) = m
     \<and> op_state (sr_operations record ! i) = operation_state.Applying
     \<and> op_snapshot (sr_operations record ! i) = Some s \<and> done_before i record)"

locale passive_ports =
  fixes P :: "('w, 'g) ports" and I :: "'w \<Rightarrow> bool"
  assumes snapshot_keeps: "port_snapshot P m t w = (rs, w') \<Longrightarrow> I w \<Longrightarrow> I w'"
    and verify_keeps: "port_verify P m e ident w = (rv, w') \<Longrightarrow> I w \<Longrightarrow> I w'"
    and create_keeps: "port_create P rec w = (ru, w') \<Longrightarrow> I w \<Longrightarrow> I w'"
    and replace_keeps: "port_replace P rec w = (ru, w') \<Longrightarrow> I w \<Longrightarrow> I w'"
    and load_keeps: "port_load P sid w = (rl, w') \<Longrightarrow> I w \<Longrightarrow> I w'"
    and load_unfinished_keeps: "port_load_unfinished P w = (rls, w') \<Longrightarrow> I w \<Longrightarrow> I w'"
    and remove_keeps: "port_remove P sid w = (ru, w') \<Longrightarrow> I w \<Longrightarrow> I w'"
    and acquire_keeps: "port_acquire P w = (rg, w') \<Longrightarrow> I w \<Longrightarrow> I w'"
    and release_keeps: "I w \<Longrightarrow> I (port_release P g w)"
    and next_id_keeps: "port_next_id P w = (ri, w') \<Longrightarrow> I w \<Longrightarrow> I w'"
    and now_keeps: "port_now P w = (rt, w') \<Longrightarrow> I w \<Longrightarrow> I w'"
begin

lemma call_keeps:
  assumes "call port adjust eng = (r, eng')" and "I (world eng)"
    and "\<And>r w'. port (world eng) = (r, w') \<Longrightarrow> I (world eng) \<Longrightarrow> I w'"
  shows "I (world eng')"
  using assms by (auto simp: call_def split: prod.splits)

lemma persist_keeps: "persist P rec st eng = (r, eng') \<Longrightarrow> I (world eng) \<Longrightarrow> I (world eng')"
  unfolding persist_def by (erule call_keeps, assumption) (rule replace_keeps)

lemma persist_snd_keeps: "I (world eng) \<Longrightarrow> I (world (snd (persist P rec st eng)))"
  by (cases "persist P rec st eng") (auto dest: persist_keeps)

lemma now_keeps_eng: "engine_now P st eng = (r, eng') \<Longrightarrow> I (world eng) \<Longrightarrow> I (world eng')"
  unfolding engine_now_def by (erule call_keeps, assumption) (rule now_keeps)

lemma now_or_zero_keeps: "now_or_zero P st eng = (t, eng') \<Longrightarrow> I (world eng) \<Longrightarrow> I (world eng')"
  by (auto simp: now_or_zero_def dest: now_keeps_eng split: prod.splits sum.splits)

lemma drop_lease_keeps: "I (world eng) \<Longrightarrow> I (world (drop_lease P eng))"
  by (auto simp: drop_lease_def release_keeps split: option.splits)

lemma release_if_restored_keeps: "I (world eng) \<Longrightarrow> I (world (release_if_restored P sid eng))"
  by (auto simp: release_if_restored_def drop_lease_keeps split: option.splits)

lemma load_active_keeps:
  "load_active_record P sid eng = (r, eng') \<Longrightarrow> I (world eng) \<Longrightarrow> I (world eng')"
  unfolding load_active_record_def by (erule call_keeps, assumption) (rule load_keeps)

lemma require_active_keeps: "require_active sid eng = (r, eng') \<Longrightarrow> eng' = eng"
  by (auto simp: require_active_def split: option.splits if_splits)

subsection \<open>Methods that touch no target\<close>

lemma status_keeps_engine:
  "engine_status P sid eng = (r, eng') \<Longrightarrow> I (world eng) \<Longrightarrow> I (world eng')"
  by (auto simp: engine_status_def abind_def areturn_def split: prod.splits sum.splits
      dest: load_active_keeps)

lemma capture_all_keeps:
  "capture_all P now ms eng = (r, eng') \<Longrightarrow> I (world eng) \<Longrightarrow> I (world eng')"
proof (induction ms arbitrary: r eng)
  case (Cons m ms)
  then show ?case
    by (auto simp: abind_def areturn_def call_def split: prod.splits sum.splits
        dest!: snapshot_keeps)
qed simp

lemma allocate_keeps:
  "allocate_session P g plan now ss n eng = (r, eng') \<Longrightarrow> I (world eng) \<Longrightarrow> I (world eng')"
proof (induction n arbitrary: eng)
  case (Suc n)
  then show ?case
    by (auto simp: call_def split: prod.splits sum.splits if_splits
        dest!: next_id_keeps create_keeps)
qed simp

lemma prepare_keeps_engine:
  "prepare P plan eng = (r, eng') \<Longrightarrow> I (world eng) \<Longrightarrow> I (world eng')"
  by (auto simp: prepare_def prepare_locked_def abind_def areturn_def call_def
      split: prod.splits sum.splits if_splits
      dest!: acquire_keeps load_unfinished_keeps now_keeps capture_all_keeps allocate_keeps
      intro!: release_keeps)

lemma abort_keeps_engine:
  "abort_prepared P sid eng = (r, eng') \<Longrightarrow> I (world eng) \<Longrightarrow> I (world eng')"
  by (auto simp: abort_prepared_def abind_def areturn_def call_def
      split: prod.splits sum.splits if_splits
      dest!: require_active_keeps load_active_keeps remove_keeps intro!: drop_lease_keeps)

end

text \<open>
  Restoring writes a target only right after a readback that found the session's own value there.
\<close>

locale restore_protocol = passive_ports +
  assumes restore_keeps: "port_verify P m (sn_original_fingerprint s) (sn_target_identity s) w0 = (Inr own, w) \<Longrightarrow>
      I w0 \<Longrightarrow> own \<noteq> sn_original_fingerprint s \<Longrightarrow> port_restore P m s own w = (rr, w') \<Longrightarrow> I w'"
begin

subsection \<open>Restoration\<close>

lemma persist_progress_keeps:
  "persist_progress P p eng = (p', eng') \<Longrightarrow> I (world eng) \<Longrightarrow> I (world eng')"
  by (auto simp: persist_progress_def dest: persist_keeps split: prod.splits sum.splits)

lemma failed_restore_keeps:
  "failed_restore P i e p eng = (p', eng') \<Longrightarrow> I (world eng) \<Longrightarrow> I (world eng')"
  by (auto simp: failed_restore_def Let_def persist_snd_keeps)

lemma proven_restore_keeps:
  "proven_restore P i rc p eng = (p', eng') \<Longrightarrow> I (world eng) \<Longrightarrow> I (world eng')"
  by (auto simp: proven_restore_def dest: persist_progress_keeps split: prod.splits sum.splits)

lemma restore_owned_keeps:
  assumes "restore_owned P m s own p eng = (p', eng')" and "I (world eng)"
  shows "I (world eng')"
proof (cases "port_verify P m (sn_original_fingerprint s) (sn_target_identity s) (world eng)")
  case (Pair rv w)
  then have w: "I w" using verify_keeps assms(2) by blast
  show ?thesis
  proof (cases rv)
    case (Inr observed)
    show ?thesis
    proof (cases "observed = sn_original_fingerprint s \<or> observed \<noteq> own")
      case False
      then have "observed = own" "own \<noteq> sn_original_fingerprint s" by auto
      with Pair Inr have "port_restore P m s own w = (rr, w') \<Longrightarrow> I w'" for rr w'
        using restore_keeps assms(2) by blast
      with assms(1) Pair Inr False show ?thesis
        by (auto simp: restore_owned_def call_def Let_def split: prod.splits sum.splits if_splits
            dest!: failed_restore_keeps proven_restore_keeps)
    qed (use assms(1) Pair Inr w in \<open>auto simp: restore_owned_def call_def Let_def
        dest!: failed_restore_keeps proven_restore_keeps split: if_splits\<close>)
  qed (use assms(1) Pair w in \<open>auto simp: restore_owned_def call_def Let_def
      dest!: failed_restore_keeps\<close>)
qed

lemma restore_one_keeps:
  "restore_one P i p eng = (p', eng') \<Longrightarrow> I (world eng) \<Longrightarrow> I (world eng')"
  by (auto simp: restore_one_def Let_def split: if_splits option.splits prod.splits sum.splits
      dest!: persist_progress_keeps restore_owned_keeps)

lemma restore_loop_keeps:
  "restore_loop P is p eng = (p', eng') \<Longrightarrow> I (world eng) \<Longrightarrow> I (world eng')"
proof (induction "is" arbitrary: p eng)
  case (Cons i "is")
  then show ?case by (auto split: prod.splits dest: restore_one_keeps)
qed simp

lemma restore_success_keeps:
  "restore_success P now rec eng = (r, rec', eng') \<Longrightarrow> I (world eng) \<Longrightarrow> I (world eng')"
  by (auto simp: restore_success_def Let_def split: prod.splits sum.splits
      intro!: release_if_restored_keeps dest: persist_keeps)

lemma restore_failure_keeps:
  "restore_failure P now es u rec eng = (r, rec', eng') \<Longrightarrow> I (world eng) \<Longrightarrow> I (world eng')"
  by (auto simp: restore_failure_def Let_def split: prod.splits sum.splits dest: persist_keeps)

lemma restore_record_keeps:
  "restore_record P rec eng = (r, rec', eng') \<Longrightarrow> I (world eng) \<Longrightarrow> I (world eng')"
  by (auto simp: restore_record_def split: prod.splits if_splits
      dest!: now_or_zero_keeps restore_loop_keeps restore_success_keeps restore_failure_keeps)

lemma prepare_restore_keeps:
  "prepare_restore_state P rec eng = (r, rec', eng') \<Longrightarrow> I (world eng) \<Longrightarrow> I (world eng')"
  by (cases "sr_state rec")
    (auto simp: prepare_restore_state_def Let_def split: prod.splits sum.splits
      dest!: now_keeps_eng persist_keeps)

subsection \<open>Rollback\<close>

lemma rollback_after_failure_keeps:
  assumes run: "rollback_after_failure P rec e from_apply eng = (r, eng')" and I: "I (world eng)"
  shows "I (world eng')"
proof -
  obtain now eng1 where now: "now_or_zero P Recovery eng = (now, eng1)" by fastforce
  then have I1: "I (world eng1)" using I now_or_zero_keeps by blast
  have *: "persist P rec1 Recovery eng2 = (rp, eng3) \<Longrightarrow> I (world eng2) \<Longrightarrow>
    restore_record P rec2 eng3 = (r', rec', eng') \<Longrightarrow> I (world eng')" for rec1 eng2 rp eng3 rec2 r' rec'
    using persist_keeps restore_record_keeps by blast
  show ?thesis
    using run I I1 now *
    by (auto simp: rollback_after_failure_def Let_def split: prod.splits sum.splits if_splits)
qed

lemma recorded_rollback_keeps:
  "recorded_rollback P e rec eng = (r, eng') \<Longrightarrow> I (world eng) \<Longrightarrow> I (world eng')"
  by (auto simp: recorded_rollback_def split: prod.splits dest: rollback_after_failure_keeps)

lemma persisted_rollback_keeps:
  "persisted_rollback P st e rec eng = (r, eng') \<Longrightarrow> I (world eng) \<Longrightarrow> I (world eng')"
  by (auto simp: persisted_rollback_def split: prod.splits
      dest!: rollback_after_failure_keeps intro: persist_snd_keeps)

lemma persist_or_rollback_keeps:
  "persist_or_rollback P st rec eng = (r, eng') \<Longrightarrow> I (world eng) \<Longrightarrow> I (world eng')"
  by (auto simp: persist_or_rollback_def split: prod.splits sum.splits
      dest: persist_keeps recorded_rollback_keeps)

lemma verify_applied_keeps:
  assumes "verify_applied P m s own rec eng = (r, eng')" and "I (world eng)"
  shows "I (world eng')"
proof -
  obtain rv w where v: "port_verify P m own (sn_target_identity s) (world eng) = (rv, w)" by fastforce
  then have "I w" using verify_keeps assms(2) by blast
  with assms(1) v show ?thesis
    by (auto simp: verify_applied_def call_def Let_def split: prod.splits sum.splits if_splits
        dest!: persisted_rollback_keeps persist_or_rollback_keeps)
qed

lemma accept_receipt_keeps:
  "accept_receipt P m s rc rec eng = (r, eng') \<Longrightarrow> I (world eng) \<Longrightarrow> I (world eng')"
  by (auto simp: accept_receipt_def Let_def split: prod.splits sum.splits if_splits
      dest!: persisted_rollback_keeps persist_or_rollback_keeps verify_applied_keeps)

subsection \<open>Restore and recovery\<close>

lemma restore_keeps_engine:
  assumes run: "engine_restore P sid eng = (r, eng')" and I: "I (world eng)"
  shows "I (world eng')"
proof -
  have held: "restore_held P sid eng = (r, eng') \<Longrightarrow> I (world eng) \<Longrightarrow> I (world eng')" for eng
    by (auto simp: restore_held_def abind_def split: prod.splits sum.splits if_splits
        dest!: require_active_keeps load_active_keeps prepare_restore_keeps restore_record_keeps
        intro: release_if_restored_keeps)
  show ?thesis
    using run I by (auto simp: engine_restore_def split: if_splits prod.splits sum.splits
        dest!: load_active_keeps held)
qed

lemma recover_one_keeps:
  "recover_one P rec p eng = (p', eng') \<Longrightarrow> I (world eng) \<Longrightarrow> I (world eng')"
  by (auto simp: recover_one_def Let_def split: prod.splits sum.splits
      dest!: prepare_restore_keeps restore_record_keeps)

lemma recover_loop_keeps:
  "recover_loop P rs p eng = (p', eng') \<Longrightarrow> I (world eng) \<Longrightarrow> I (world eng')"
proof (induction rs arbitrary: p eng)
  case (Cons rec rs)
  then show ?case by (auto split: prod.splits dest: recover_one_keeps)
qed simp

lemma recover_keeps_engine:
  "recover_unfinished P eng = (r, eng') \<Longrightarrow> I (world eng) \<Longrightarrow> I (world eng')"
  by (auto simp: recover_unfinished_def call_def Let_def split: prod.splits sum.splits if_splits
      dest!: acquire_keeps load_unfinished_keeps recover_loop_keeps intro!: release_keeps)

end

lemma persist_okD:
  "persist P rec st eng = (Inr x, eng') \<Longrightarrow> port_replace P rec (world eng) = (Inr (), world eng')"
  by (auto simp: persist_def call_def split: prod.splits sum.splits elim!: map_err.elims)

lemma persist_or_rollback_okD:
  assumes "persist_or_rollback P st rec eng = (Inr rec', eng')"
  shows "rec' = rec" "port_replace P rec (world eng) = (Inr (), world eng')"
  using assms persist_okD[of P rec st eng]
  by (auto simp: persist_or_rollback_def recorded_rollback_def split: prod.splits sum.splits)

lemma operation_at_okD:
  assumes "operation_at i (OperationRecord_transition st) rec = (Inr x, rec')"
    and "i < length (sr_operations rec)"
  shows "op_state (sr_operations rec' ! i) = st" "length (sr_operations rec') = length (sr_operations rec)"
  using assms
  by (auto simp: operation_at_def OperationRecord_transition_def split: prod.splits if_splits)

section \<open>What a completed step of the apply loop leaves\<close>

lemma verify_applied_okD:
  assumes "verify_applied P m s own rec eng = (Inr rec', eng')"
  shows "\<exists>eng1. call (port_verify P m own (sn_target_identity s))
      (contextual Verify (Some (sr_session_id rec)) (Some (pm_mutation_id m))) eng = (Inr own, eng1)
    \<and> record_verification (pm_mutation_id m) \<lparr>vr_mutation_id = pm_mutation_id m, vr_expected = own,
        vr_observed = Some own, vr_matched = True\<rparr> rec = (Inr (), rec')
    \<and> port_replace P rec' (world eng1) = (Inr (), world eng')"
  using assms
  by (auto simp: verify_applied_def Let_def persisted_rollback_def
      split: prod.splits sum.splits if_splits dest: persist_or_rollback_okD)

lemma accept_receipt_okD:
  assumes "accept_receipt P m s rc rec eng = (Inr rec', eng')"
  shows "\<exists>rec1 eng1. ar_mutation_id rc = pm_mutation_id m
    \<and> ar_observed_precondition rc = pm_precondition m
    \<and> ar_observed_postcondition rc = ar_ownership_fingerprint rc
    \<and> record_apply (pm_mutation_id m) rc rec = (Inr (), rec1)
    \<and> port_replace P rec1 (world eng) = (Inr (), world eng1)
    \<and> verify_applied P m s (ar_ownership_fingerprint rc) rec1 eng1 = (Inr rec', eng')"
  using assms
  by (auto simp: accept_receipt_def Let_def persisted_rollback_def
      split: prod.splits sum.splits if_splits dest: persist_or_rollback_okD)

lemma accept_receipt_frame:
  assumes "accept_receipt P m s rc rec eng = (Inr rec', eng')"
  shows "same_plan rec rec'"
proof -
  obtain rec1 eng1 where 1: "record_apply (pm_mutation_id m) rc rec = (Inr (), rec1)"
    and 2: "verify_applied P m s (ar_ownership_fingerprint rc) rec1 eng1 = (Inr rec', eng')"
    using accept_receipt_okD [OF assms] by blast
  have "same_plan rec1 rec'"
    using verify_applied_okD [OF 2] by (auto dest: record_verification_frame)
  with record_apply_frame [OF 1] show ?thesis by (rule same_plan_trans)
qed

lemma apply_backend_okD:
  assumes "apply_backend P i rec eng = (Inr rec', eng')"
  shows "\<exists>s rc eng1. op_snapshot (sr_operations rec ! i) = Some s
    \<and> port_apply P (op_mutation (sr_operations rec ! i)) s (world eng) = (Inr rc, world eng1)
    \<and> accept_receipt P (op_mutation (sr_operations rec ! i)) s rc rec eng1 = (Inr rec', eng')"
  using assms
  by (auto simp: apply_backend_def call_def Let_def persisted_rollback_def
      split: prod.splits sum.splits if_splits option.splits) (metis engine.select_convs(1) engine.surjective engine.update_convs(1))+

lemma apply_one_okE:
  assumes "apply_one P i rec eng = (Inr rec', eng')"
  obtains (skip) "rec' = rec" "eng' = eng" "op_state (sr_operations rec ! i) \<in> {Verified, operation_state.Restored}"
  | (go) u rec1 eng1 where "op_state (sr_operations rec ! i) = IntentRecorded"
      "operation_at i (OperationRecord_transition operation_state.Applying) rec = (Inr u, rec1)"
      "port_replace P rec1 (world eng) = (Inr (), world eng1)"
      "apply_backend P i rec1 eng1 = (Inr rec', eng')"
  using assms
  by (auto simp: apply_one_def Let_def recorded_rollback_def split: if_splits prod.splits sum.splits
      dest: persist_or_rollback_okD)

lemma operation_at_frame:
  assumes "operation_at i (OperationRecord_transition st) rec = (res, rec')"
  shows "same_plan rec rec'"
proof (cases "i < length (sr_operations rec)")
  case True
  with assms show ?thesis
    by (auto simp: operation_at_def same_plan_def transition_op_eq map_update list_update_id
        split: prod.splits if_splits)
       (metis list_update_id map_update nth_map)+
qed (use assms in \<open>auto simp: operation_at_def list_update_beyond split: prod.splits\<close>)

lemma apply_one_frame:
  assumes "apply_one P i rec eng = (Inr rec', eng')"
  shows "same_plan rec rec'"
  using assms
proof (cases rule: apply_one_okE)
  case (go u rec1 eng1)
  then have "same_plan rec rec1" using operation_at_frame by blast
  also from apply_backend_okD [OF go(4)] have "same_plan rec1 rec'"
    using accept_receipt_frame by blast
  finally show ?thesis .
qed simp

text \<open>A completed step extends the prefix of the plan that is applied and read back.\<close>

lemma record_apply_done:
  assumes "record_apply k rc rec = (Inr u, rec')" and "i < length (sr_operations rec)"
    and "op_id (sr_operations rec ! i) = k" and "done_before i rec"
  shows "done_before i rec'" "op_state (sr_operations rec' ! i) = Applied"
proof -
  from assms(1) [unfolded record_apply_def] obtain j q where j: "j < length (sr_operations rec)"
      "op_id (sr_operations rec ! j) = k" "\<forall>l < j. op_id (sr_operations rec ! l) \<noteq> k"
    and body: "(if ar_mutation_id rc \<noteq> k
     then (Inl (invariant_error ''apply receipt mutation ID does not match the operation'' k), sr_operations rec ! j)
     else OperationRecord_transition Applied ((sr_operations rec ! j)\<lparr>op_apply_receipt := Some rc\<rparr>)) = (Inr u, q)"
    and rec': "rec' = rec\<lparr>sr_operations := (sr_operations rec)[j := q]\<rparr>"
    by (rule operation_mut_first)
  have q: "op_state (sr_operations rec ! j) = operation_state.Applying" "op_state q = Applied"
    using body assms(2) by (auto simp: transition_op_eq operation_can_transition_def split: if_splits)
  have "\<not> i < j" using j(3) assms(3) by blast
  moreover have "\<not> j < i" using q(1) assms(4) by (auto simp: done_before_def)
  ultimately have "j = i" by simp
  then show "done_before i rec'" "op_state (sr_operations rec' ! i) = Applied"
    using q(2) rec' j(1) assms(4) by (auto simp: done_before_def nth_list_update)
qed

lemma record_verification_done:
  assumes "record_verification k v rec = (Inr u, rec')" and "vr_matched v"
    and "i < length (sr_operations rec)" and "op_id (sr_operations rec ! i) = k" and "done_before i rec"
  shows "done_before (Suc i) rec'"
proof -
  from assms(1) [unfolded record_verification_def] obtain j q where j: "j < length (sr_operations rec)"
      "op_id (sr_operations rec ! j) = k" "\<forall>l < j. op_id (sr_operations rec ! l) \<noteq> k"
    and body: "(if vr_mutation_id v \<noteq> k
     then (Inl (invariant_error ''verification mutation ID does not match the operation'' k), sr_operations rec ! j)
     else OperationRecord_transition (if vr_matched v then Verified else Failed)
            ((sr_operations rec ! j)\<lparr>op_verification := Some v\<rparr>)) = (Inr u, q)"
    and rec': "rec' = rec\<lparr>sr_operations := (sr_operations rec)[j := q]\<rparr>"
    by (rule operation_mut_first)
  have q: "op_state (sr_operations rec ! j) = Applied" "op_state q = Verified"
    using body assms(2) by (auto simp: transition_op_eq operation_can_transition_def split: if_splits)
  have "\<not> i < j" using j(3) assms(4) by blast
  moreover have "\<not> j < i" using q(1) assms(5) by (auto simp: done_before_def)
  ultimately have "j = i" by simp
  then show ?thesis
    using q(2) rec' j(1) assms(5) by (auto simp: done_before_def nth_list_update less_Suc_eq)
qed

lemma accept_receipt_done:
  assumes "accept_receipt P m s rc rec eng = (Inr rec', eng')" and i: "i < length (sr_operations rec)"
    and k: "op_id (sr_operations rec ! i) = pm_mutation_id m" and d: "done_before i rec"
  shows "done_before (Suc i) rec'"
proof -
  obtain rec1 eng1 where 1: "record_apply (pm_mutation_id m) rc rec = (Inr (), rec1)"
    and 2: "verify_applied P m s (ar_ownership_fingerprint rc) rec1 eng1 = (Inr rec', eng')"
    using accept_receipt_okD [OF assms(1)] by blast
  have "same_plan rec rec1" using 1 by (rule record_apply_frame)
  then have 3: "i < length (sr_operations rec1)" "op_id (sr_operations rec1 ! i) = pm_mutation_id m"
    using i k same_planD(2,4) by simp_all
  from verify_applied_okD [OF 2] obtain eng2 where
    "record_verification (pm_mutation_id m) \<lparr>vr_mutation_id = pm_mutation_id m,
        vr_expected = ar_ownership_fingerprint rc,
        vr_observed = Some (ar_ownership_fingerprint rc), vr_matched = True\<rparr> rec1 = (Inr (), rec')"
    by auto
  then show ?thesis
    by (rule record_verification_done) (use 3 record_apply_done(1) [OF 1 i k d] in simp_all)
qed

lemma apply_one_done:
  assumes "apply_one P i rec eng = (Inr rec', eng')" and i: "i < length (sr_operations rec)"
    and d: "done_before i rec"
  shows "done_before (Suc i) rec'"
  using assms(1)
proof (cases rule: apply_one_okE)
  case skip
  with d show ?thesis by (auto simp: done_before_def less_Suc_eq)
next
  case (go u rec1 eng1)
  have len: "i < length (sr_operations rec1)" using operation_at_okD(2) [OF go(2) i] i by simp
  have "done_before i rec1" using go(2) d by (auto simp: operation_at_def done_before_def split: prod.splits)
  with len apply_backend_okD [OF go(4)] accept_receipt_done show ?thesis by fastforce
qed

section \<open>Applying\<close>

text \<open>
  The backend's apply is called only right after a successful \<open>replace\<close> of a record that holds the
  mutation in state \<open>Applying\<close> with its preimage.
\<close>

locale engine_protocol = restore_protocol +
  assumes apply_keeps: "port_replace P rec w0 = (Inr (), w) \<Longrightarrow> I w0 \<Longrightarrow> intent_on rec m s \<Longrightarrow>
      port_apply P m s w = (ra, w') \<Longrightarrow> I w'"
begin

lemma apply_backend_keeps:
  assumes run: "apply_backend P i rec eng = (r, eng')"
    and durable: "port_replace P rec w0 = (Inr (), world eng)" and I: "I w0"
    and i: "i < length (sr_operations rec)"
    and st: "op_state (sr_operations rec ! i) = operation_state.Applying" and before: "done_before i rec"
  shows "I (world eng')"
proof -
  have I1: "I (world eng)" using replace_keeps durable I by blast
  show ?thesis
  proof (cases "op_snapshot (sr_operations rec ! i)")
    case (Some s)
    let ?m = "op_mutation (sr_operations rec ! i)"
    have "intent_on rec ?m s"
      unfolding intent_on_def using i st Some before by blast
    moreover obtain ra w where a: "port_apply P ?m s (world eng) = (ra, w)" by fastforce
    ultimately have "I w" using apply_keeps durable I by blast
    with run a Some show ?thesis
      by (auto simp: apply_backend_def call_def Let_def split: sum.splits if_splits
          dest!: persisted_rollback_keeps accept_receipt_keeps)
  qed (use run I1 in \<open>auto simp: apply_backend_def\<close>)
qed


lemma apply_one_keeps:
  assumes run: "apply_one P i rec eng = (r, eng')" and I: "I (world eng)"
    and i: "i < length (sr_operations rec)" and before: "done_before i rec"
  shows "I (world eng')"
proof -
  consider (skip) "eng' = eng" | (rollback) e where "recorded_rollback P e rec eng = (r, eng')"
    | (go) u rec1 where "operation_at i (OperationRecord_transition operation_state.Applying) rec = (Inr u, rec1)"
      "(case persist_or_rollback P Apply rec1 eng of (Inl r, eng) \<Rightarrow> (Inl r, eng)
        | (Inr record, eng) \<Rightarrow> apply_backend P i record eng) = (r, eng')"
    using run by (auto simp: apply_one_def Let_def split: if_splits prod.splits sum.splits)
  then show ?thesis
  proof cases
    case rollback
    then show ?thesis using I recorded_rollback_keeps by blast
  next
    case go
    obtain rp eng1 where p: "persist_or_rollback P Apply rec1 eng = (rp, eng1)" by fastforce
    show ?thesis
    proof (cases rp)
      case Inl
      with go p I show ?thesis by (auto dest: persist_or_rollback_keeps)
    next
      case (Inr rec2)
      then have "rec2 = rec1" and "port_replace P rec1 (world eng) = (Inr (), world eng1)"
        using p persist_or_rollback_okD[of P Apply rec1 eng rec2 eng1] by simp_all
      moreover have "done_before i rec1"
        using go(1) before by (auto simp: operation_at_def done_before_def split: prod.splits)
      ultimately show ?thesis
        using go p Inr I i operation_at_okD [OF go(1) i] by (auto intro: apply_backend_keeps)
    qed
  qed (use I in simp)
qed

lemma apply_loop_keeps:
  "apply_loop P [i..<length (sr_operations rec)] rec eng = (r, eng') \<Longrightarrow> I (world eng) \<Longrightarrow>
   done_before i rec \<Longrightarrow> I (world eng')"
proof (induction "length (sr_operations rec) - i" arbitrary: i rec eng)
  case (Suc n)
  then have i: "i < length (sr_operations rec)" by simp
  obtain r1 eng1 where one: "apply_one P i rec eng = (r1, eng1)" by fastforce
  then have I: "I (world eng1)" using Suc.prems i apply_one_keeps by blast
  show ?case
  proof (cases r1)
    case (Inr rec1)
    then have "length (sr_operations rec1) = length (sr_operations rec)" "done_before (Suc i) rec1"
      using one same_planD(2) apply_one_frame apply_one_done i Suc.prems(3) by blast+
    with Suc.hyps(1) [of rec1 "Suc i" eng1] Suc.hyps(2) Suc.prems one Inr I i show ?thesis
      by (simp add: upt_conv_Cons)
  qed (use Suc.prems one I i in \<open>simp add: upt_conv_Cons\<close>)
qed simp

lemma apply_prepared_keeps:
  assumes run: "apply_prepared P rec eng = (r, eng')" and I: "I (world eng)"
  shows "I (world eng')"
proof -
  have loop: "apply_loop P [0..<length (sr_operations rec)] rec eng = (r, eng') \<Longrightarrow> I (world eng) \<Longrightarrow>
      I (world eng')" for rec eng r eng'
    by (erule apply_loop_keeps) (auto simp: done_before_def)
  show ?thesis
    using run I unfolding apply_prepared_def
    by (auto split: prod.splits sum.splits
        dest!: now_keeps_eng persist_or_rollback_keeps loop)
qed

subsection \<open>The engine's methods\<close>

lemma apply_keeps_engine:
  "engine_apply P sid eng = (r, eng') \<Longrightarrow> I (world eng) \<Longrightarrow> I (world eng')"
  by (auto simp: engine_apply_def abind_def split: prod.splits sum.splits session_state.splits
      dest!: require_active_keeps load_active_keeps apply_prepared_keeps
      intro: release_if_restored_keeps)

end

end
