(* ===== verification/Engine_Log.thy ===== *)
theory Engine_Log
  imports Engine_Safety
begin

text \<open>
  The call protocol of the transaction engine as properties of its traces. \<open>logged P\<close> are the ports
  \<open>P\<close> with a log of the calls that matter for safety (newest first); the locales of \<open>Engine_Safety\<close>
  are interpreted on them for arbitrary \<open>P\<close>, so whatever the backend, the store and the clock
  answer, and whichever methods are called after however many crashes, the log is disciplined.
\<close>

section \<open>Logging ports\<close>

datatype event =
    Apply_called planned_mutation snapshot
  | Verify_called planned_mutation state_fingerprint target_identity "state_fingerprint result"
  | Restore_called planned_mutation snapshot state_fingerprint
  | Replace_called session_record "unit result"
  | Other_called

definition recording ::
    "('w, 'a) action \<Rightarrow> ('a result \<Rightarrow> event) \<Rightarrow> ('w \<times> event list, 'a) action" where
  "recording port entry = (\<lambda>(w, log). case port w of (r, w') \<Rightarrow> (r, w', entry r # log))"

definition logged :: "('w, 'g) ports \<Rightarrow> ('w \<times> event list, 'g) ports" where
  "logged P = \<lparr>
     port_snapshot = (\<lambda>m t. recording (port_snapshot P m t) (\<lambda>_. Other_called)),
     port_apply = (\<lambda>m s. recording (port_apply P m s) (\<lambda>_. Apply_called m s)),
     port_verify = (\<lambda>m e ident. recording (port_verify P m e ident) (Verify_called m e ident)),
     port_restore = (\<lambda>m s own. recording (port_restore P m s own) (\<lambda>_. Restore_called m s own)),
     port_create = (\<lambda>r. recording (port_create P r) (\<lambda>_. Other_called)),
     port_replace = (\<lambda>r. recording (port_replace P r) (Replace_called r)),
     port_load = (\<lambda>i. recording (port_load P i) (\<lambda>_. Other_called)),
     port_load_unfinished = recording (port_load_unfinished P) (\<lambda>_. Other_called),
     port_remove = (\<lambda>i. recording (port_remove P i) (\<lambda>_. Other_called)),
     port_acquire = recording (port_acquire P) (\<lambda>_. Other_called),
     port_release = (\<lambda>g (w, log). (port_release P g w, Other_called # log)),
     port_next_id = recording (port_next_id P) (\<lambda>_. Other_called),
     port_now = recording (port_now P) (\<lambda>_. Other_called)\<rparr>"

lemma recording_iff:
  "recording port entry w = (r, w') \<longleftrightarrow>
     (\<exists>v. port (fst w) = (r, v) \<and> w' = (v, entry r # snd w))"
  by (cases w) (auto simp: recording_def split: prod.splits)

lemma logged_simps [simp]:
  "port_snapshot (logged P) m t = recording (port_snapshot P m t) (\<lambda>_. Other_called)"
  "port_apply (logged P) m s = recording (port_apply P m s) (\<lambda>_. Apply_called m s)"
  "port_verify (logged P) m e ident = recording (port_verify P m e ident) (Verify_called m e ident)"
  "port_restore (logged P) m s own = recording (port_restore P m s own) (\<lambda>_. Restore_called m s own)"
  "port_create (logged P) rec = recording (port_create P rec) (\<lambda>_. Other_called)"
  "port_replace (logged P) rec = recording (port_replace P rec) (Replace_called rec)"
  "port_load (logged P) sid = recording (port_load P sid) (\<lambda>_. Other_called)"
  "port_load_unfinished (logged P) = recording (port_load_unfinished P) (\<lambda>_. Other_called)"
  "port_remove (logged P) sid = recording (port_remove P sid) (\<lambda>_. Other_called)"
  "port_acquire (logged P) = recording (port_acquire P) (\<lambda>_. Other_called)"
  "port_release (logged P) g w = (port_release P g (fst w), Other_called # snd w)"
  "port_next_id (logged P) = recording (port_next_id P) (\<lambda>_. Other_called)"
  "port_now (logged P) = recording (port_now P) (\<lambda>_. Other_called)"
  by (simp_all add: logged_def case_prod_unfold)

section \<open>Disciplined logs\<close>

text \<open>When a call may follow the calls before it (newest first).\<close>

fun permitted :: "event \<Rightarrow> event list \<Rightarrow> bool" where
  "permitted (Apply_called m s) log \<longleftrightarrow> (case log of
     Replace_called record (Inr _) # _ \<Rightarrow> intent_on record m s | _ \<Rightarrow> False)"
| "permitted (Restore_called m s own) log \<longleftrightarrow> (case log of
     Verify_called m' e ident (Inr observed) # _ \<Rightarrow> m' = m \<and> e = sn_original_fingerprint s
       \<and> ident = sn_target_identity s \<and> observed = own \<and> own \<noteq> sn_original_fingerprint s
   | _ \<Rightarrow> False)"
| "permitted _ log \<longleftrightarrow> True"

fun disciplined :: "event list \<Rightarrow> bool" where
  "disciplined [] \<longleftrightarrow> True"
| "disciplined (e # log) \<longleftrightarrow> permitted e log \<and> disciplined log"

lemma disciplined_at: "disciplined (later @ e # log) \<Longrightarrow> permitted e log"
  by (induction later) auto

fun mutating :: "event \<Rightarrow> bool" where
  "mutating (Apply_called m s) \<longleftrightarrow> True"
| "mutating (Restore_called m s own) \<longleftrightarrow> True"
| "mutating _ \<longleftrightarrow> False"

fun is_apply :: "event \<Rightarrow> bool" where
  "is_apply (Apply_called m s) \<longleftrightarrow> True"
| "is_apply _ \<longleftrightarrow> False"

text \<open>The part of a log that satisfies \<open>q\<close> is the list \<open>es\<close>.\<close>

definition log_has :: "(event \<Rightarrow> bool) \<Rightarrow> event list \<Rightarrow> 'w \<times> event list \<Rightarrow> bool" where
  "log_has q es w \<longleftrightarrow> List.filter q (snd w) = es"

interpretation quiet: passive_ports "logged P" "log_has mutating es" for P :: "('w, 'g) ports" and es
  by unfold_locales (auto simp: recording_iff log_has_def)

interpretation restoring: restore_protocol "logged P" "log_has is_apply es"
  for P :: "('w, 'g) ports" and es
  by unfold_locales (auto simp: recording_iff log_has_def)

interpretation logs: engine_protocol "logged P" "\<lambda>w. disciplined (snd w)" for P :: "('w, 'g) ports"
  by unfold_locales (auto simp: recording_iff)

section \<open>Runs of the engine\<close>

text \<open>
  One method call on the coordinator, with whatever result, or the end of the process: a new
  coordinator starts without a lease over the same world.
\<close>

inductive engine_step :: "('w, 'g) ports \<Rightarrow> ('w, 'g) engine \<Rightarrow> ('w, 'g) engine \<Rightarrow> bool" for P where
  step_prepare: "prepare P plan eng = (r, eng') \<Longrightarrow> engine_step P eng eng'"
| step_apply: "engine_apply P sid eng = (r, eng') \<Longrightarrow> engine_step P eng eng'"
| step_restore: "engine_restore P sid eng = (r, eng') \<Longrightarrow> engine_step P eng eng'"
| step_recover: "recover_unfinished P eng = (r, eng') \<Longrightarrow> engine_step P eng eng'"
| step_abort: "abort_prepared P sid eng = (r, eng') \<Longrightarrow> engine_step P eng eng'"
| step_status: "engine_status P sid eng = (r, eng') \<Longrightarrow> engine_step P eng eng'"
| step_crash: "engine_step P eng (eng\<lparr>active := None\<rparr>)"

lemma run_disciplined:
  assumes "(engine_step (logged P))\<^sup>*\<^sup>* eng eng'" and "disciplined (snd (world eng))"
  shows "disciplined (snd (world eng'))"
  using assms
proof (induction rule: rtranclp_induct)
  case (step e1 e2)
  from step(2) step.IH [OF step.prems] show ?case
    by cases (auto dest: logs.prepare_keeps_engine logs.apply_keeps_engine
        logs.restore_keeps_engine logs.recover_keeps_engine logs.abort_keeps_engine
        logs.status_keeps_engine)
qed

section \<open>An example world\<close>

text \<open>
  A store with one slot and a backend with one value, for the witnesses: \<open>apply\<close> sets the value to
  fingerprint 8 and \<open>restore\<close> back to the original.
\<close>

record example_world =
  ex_record :: session_record
  ex_value :: state_fingerprint

definition example_item :: plan_item where
  "example_item = \<lparr>pi_capability = CapabilityId ''cpu.boost'', pi_operation = OperationId ''cpu.boost'',
     pi_backend = Some (BackendId ''cpu''), pi_target = Some (TargetId ''cpu''),
     pi_control = control_id.CpuBoost,
     pi_current = Some (Typed (typed_value.CpuBoost cpu_boost_state.Disabled)),
     pi_desired = Some (Typed (typed_value.CpuBoost cpu_boost_state.Enabled)),
     pi_action = plan_action.Mutation, pi_feature = feature.CpuBoost,
     pi_feature_class = RuntimeMutable, pi_risk = Low, pi_explicit_opt_in_required = False,
     pi_experimental = NotExperimental, pi_evidence = [\<lparr>ev_source = Sysfs, ev_detail = ''boost''\<rparr>],
     pi_rationale = ''boost'', pi_reason = None,
     pi_target_identity = Some (TargetIdentity (replicate 16 9)),
     pi_snapshot = \<lparr>sc_defined = True, sc_typed_preimage = True, sc_raw_preimage = True,
       sc_equality = ScalarExact\<rparr>,
     pi_restore = \<lparr>rc_defined = True, rc_mode = Some CompareAndRestore, rc_equality = ScalarExact\<rparr>,
     pi_verification = \<lparr>vc_defined = True, vc_readback = True, vc_equality = ScalarExact\<rparr>,
     pi_dependencies = [], pi_mutation = Some example_mutation\<rparr>"

definition example_full_plan :: plan where
  "example_full_plan = example_plan\<lparr>plan_items := [example_item]\<rparr>"

definition example_intent :: session_record where
  "example_intent = projr (intent_record (SessionId (replicate 16 6)) example_plan (Timestamp 999)
     [example_snapshot])"

definition example_owned :: state_fingerprint where
  "example_owned = StateFingerprint (replicate 32 8)"

definition example_ports :: "(example_world, unit) ports" where
  "example_ports = \<lparr>
     port_snapshot = (\<lambda>m t w. (Inr example_snapshot, w)),
     port_apply = (\<lambda>m s w. (Inr \<lparr>ar_mutation_id = pm_mutation_id m,
       ar_observed_precondition = ex_value w, ar_observed_postcondition = example_owned,
       ar_ownership_fingerprint = example_owned\<rparr>, w\<lparr>ex_value := example_owned\<rparr>)),
     port_verify = (\<lambda>m e ident w. (Inr (ex_value w), w)),
     port_restore = (\<lambda>m s own w. (Inr \<lparr>rr_mutation_id = pm_mutation_id m,
       rr_restored_fingerprint = sn_original_fingerprint s, rr_verified = True\<rparr>,
       w\<lparr>ex_value := sn_original_fingerprint s\<rparr>)),
     port_create = (\<lambda>r w. (Inr (), w\<lparr>ex_record := r\<rparr>)),
     port_replace = (\<lambda>r w. (Inr (), w\<lparr>ex_record := r\<rparr>)),
     port_load = (\<lambda>i w. (Inr (ex_record w), w)),
     port_load_unfinished = (\<lambda>w. (Inr [], w)),
     port_remove = (\<lambda>i w. (Inr (), w)),
     port_acquire = (\<lambda>w. (Inr (), w)),
     port_release = (\<lambda>g w. w),
     port_next_id = (\<lambda>w. (Inr (SessionId (replicate 16 6)), w)),
     port_now = (\<lambda>w. (Inr (Timestamp 1000), w))\<rparr>"

definition example_engine :: "(example_world \<times> event list, unit) engine" where
  "example_engine = \<lparr>world = (\<lparr>ex_record = example_intent,
     ex_value = StateFingerprint (replicate 32 1)\<rparr>, []),
     active = Some \<lparr>al_session_id = SessionId (replicate 16 6), al_guard = ()\<rparr>\<rparr>"

definition example_applied :: "(example_world \<times> event list, unit) engine" where
  "example_applied = snd (engine_apply (logged example_ports) (SessionId (replicate 16 6)) example_engine)"

definition example_done :: "(example_world \<times> event list, unit) engine" where
  "example_done = snd (engine_restore (logged example_ports) (SessionId (replicate 16 6)) example_applied)"

lemma example_runs:
  "(engine_step (logged example_ports))\<^sup>*\<^sup>* example_engine example_applied"
  "(engine_step (logged example_ports))\<^sup>*\<^sup>* example_engine example_done"
proof -
  have "engine_step (logged example_ports) example_engine example_applied"
    unfolding example_applied_def by (rule step_apply) (rule surjective_pairing)
  moreover have "engine_step (logged example_ports) example_applied example_done"
    unfolding example_done_def by (rule step_restore) (rule surjective_pairing)
  ultimately show "(engine_step (logged example_ports))\<^sup>*\<^sup>* example_engine example_applied"
    "(engine_step (logged example_ports))\<^sup>*\<^sup>* example_engine example_done" by simp_all
qed

section \<open>Properties\<close>

text \<open>
  C1: write-ahead ordering. In every run of the coordinator, over any sequence of methods, errors
  and crashes, each call of the backend's \<open>apply\<close> comes directly after a successful durable replace
  of a record that shows this mutation as \<open>Applying\<close> with the very preimage that is passed, and
  shows every earlier operation of the plan as applied and read back (or restored).
\<close>

theorem apply_is_write_ahead:
  assumes "(engine_step (logged P))\<^sup>*\<^sup>* \<lparr>world = (w, []), active = lease\<rparr> eng"
    and "snd (world eng) = later @ Apply_called m s # earlier"
  shows "\<exists>record rest u. earlier = Replace_called record (Inr u) # rest \<and> intent_on record m s"
proof -
  have "disciplined (snd (world eng))" using run_disciplined [OF assms(1)] by simp
  then have "permitted (Apply_called m s) earlier" unfolding assms(2) by (rule disciplined_at)
  then show ?thesis by (auto split: list.splits event.splits sum.splits)
qed

theorem apply_is_write_ahead_witness:
  "\<exists>later record u rest. snd (world example_applied)
     = later @ Apply_called example_mutation example_snapshot # Replace_called record (Inr u) # rest
     \<and> intent_on record example_mutation example_snapshot"
proof -
  have "Apply_called example_mutation example_snapshot \<in> set (snd (world example_applied))"
    by code_simp
  then obtain later earlier where split:
    "snd (world example_applied) = later @ Apply_called example_mutation example_snapshot # earlier"
    by (auto simp: in_set_conv_decomp)
  from apply_is_write_ahead [OF example_runs(1) [unfolded example_engine_def] split] split
  show ?thesis by auto
qed

text \<open>
  C2: compare-and-restore. In every run of the coordinator, each call of the backend's \<open>restore\<close>
  comes directly after a readback of the same target that returned exactly the ownership
  fingerprint passed to it, and that differs from the original: a value the session does not own is
  never overwritten, and a target that is already original is never written.
\<close>

theorem restore_is_compare_and_restore:
  assumes "(engine_step (logged P))\<^sup>*\<^sup>* \<lparr>world = (w, []), active = lease\<rparr> eng"
    and "snd (world eng) = later @ Restore_called m s own # earlier"
  shows "(\<exists>rest. earlier = Verify_called m (sn_original_fingerprint s) (sn_target_identity s) (Inr own) # rest)
    \<and> own \<noteq> sn_original_fingerprint s"
proof -
  have "disciplined (snd (world eng))" using run_disciplined [OF assms(1)] by simp
  then have "permitted (Restore_called m s own) earlier" unfolding assms(2) by (rule disciplined_at)
  then show ?thesis by (auto split: list.splits event.splits sum.splits)
qed

theorem restore_is_compare_and_restore_witness:
  "\<exists>later rest. snd (world example_done)
     = later @ Restore_called example_mutation example_snapshot example_owned
       # Verify_called example_mutation (sn_original_fingerprint example_snapshot)
           (sn_target_identity example_snapshot) (Inr example_owned) # rest"
proof -
  have "Restore_called example_mutation example_snapshot example_owned \<in> set (snd (world example_done))"
    by code_simp
  then obtain later earlier where split:
    "snd (world example_done) = later @ Restore_called example_mutation example_snapshot example_owned # earlier"
    by (auto simp: in_set_conv_decomp)
  from restore_is_compare_and_restore [OF example_runs(2) [unfolded example_engine_def] split] split
  show ?thesis by auto
qed

text \<open>
  Preparing, aborting and querying a session never touch a target: whatever they return, they
  call neither the backend's apply nor its restore.
\<close>

theorem prepare_abort_status_never_mutate:
  assumes "prepare (logged P) plan eng = (r, eng') \<or> abort_prepared (logged P) sid eng = (r', eng')
    \<or> engine_status (logged P) sid eng = (r'', eng')"
  shows "List.filter mutating (snd (world eng')) = List.filter mutating (snd (world eng))"
  using assms quiet.prepare_keeps_engine quiet.abort_keeps_engine quiet.status_keeps_engine
  unfolding log_has_def by metis

theorem prepare_abort_status_never_mutate_witness:
  "List.filter mutating (snd (world (snd (prepare (logged example_ports) example_full_plan
     (example_engine\<lparr>active := None\<rparr>))))) = []"
  using prepare_abort_status_never_mutate
    [of example_ports example_full_plan "example_engine\<lparr>active := None\<rparr>" _ _ undefined undefined undefined,
     OF disjI1, OF surjective_pairing]
  by (simp add: example_engine_def)

text \<open>
  Restoring and recovering never apply a mutation: whatever they return, they do not call the
  backend's apply.
\<close>

theorem restore_recover_never_apply:
  assumes "engine_restore (logged P) sid eng = (r, eng') \<or> recover_unfinished (logged P) eng = (r', eng')"
  shows "List.filter is_apply (snd (world eng')) = List.filter is_apply (snd (world eng))"
  using assms restoring.restore_keeps_engine restoring.recover_keeps_engine
  unfolding log_has_def by metis

theorem restore_recover_never_apply_witness:
  "length (List.filter is_apply (snd (world example_done))) = 1"
proof -
  have "length (List.filter is_apply (snd (world example_applied))) = 1" by code_simp
  with restore_recover_never_apply [of example_ports "SessionId (replicate 16 6)" example_applied _ example_done
      undefined, OF disjI1, OF surjective_pairing [of "engine_restore (logged example_ports)
        (SessionId (replicate 16 6)) example_applied", folded example_done_def]]
  show ?thesis by simp
qed

end
