(* ===== verification/Engine_Outcome.thy ===== *)
theory Engine_Outcome
  imports Engine_Log
begin

text \<open>
  What the results of the engine's methods mean: success is returned only after the corresponding
  record was made durable, restoration only after it is proven, and rollback never turns a failed
  apply into a success.
\<close>

section \<open>Frames of the restore loop\<close>

lemma persist_progress_frame:
  "persist_progress P p eng = (p', eng') \<Longrightarrow> same_plan (rp_record p) (rp_record p')"
  by (auto simp: persist_progress_def recorded_failure_def uncertain_failure_def
      split: prod.splits sum.splits)

lemma failed_restore_frame:
  "failed_restore P k e p eng = (p', eng') \<Longrightarrow> same_plan (rp_record p) (rp_record p')"
  by (auto simp: failed_restore_def Let_def)

lemma proven_restore_frame:
  "proven_restore P k rc p eng = (p', eng') \<Longrightarrow> same_plan (rp_record p) (rp_record p')"
  by (auto simp: proven_restore_def uncertain_failure_def split: prod.splits sum.splits
      dest!: persist_progress_frame record_restore_frame intro: same_plan_trans)

lemma restore_owned_frame:
  "restore_owned P m s own p eng = (p', eng') \<Longrightarrow> same_plan (rp_record p) (rp_record p')"
  by (auto simp: restore_owned_def Let_def split: prod.splits sum.splits if_splits
      dest: failed_restore_frame proven_restore_frame)

lemma restore_one_frame:
  assumes "restore_one P i p eng = (p', eng')"
  shows "same_plan (rp_record p) (rp_record p')"
proof -
  have go: "same_plan r (rp_record p')"
    if "begin_restore_operation k r = (res, r1)"
      and "persist_progress P (p\<lparr>rp_record := r1\<rparr>) eng = (p1, eng1)"
      and "restore_owned P m s own p1 eng1 = (p', eng')" for k r res r1 p1 eng1 m s own
    using begin_restore_frame [OF that(1)] persist_progress_frame [OF that(2)]
      restore_owned_frame [OF that(3)] by (simp add: same_plan_def)
  show ?thesis
    using assms go
    by (auto simp: restore_one_def Let_def recorded_failure_def uncertain_failure_def
        split: if_splits option.splits prod.splits sum.splits dest: begin_restore_frame)
qed

lemma restore_loop_frame:
  "restore_loop P is p eng = (p', eng') \<Longrightarrow> same_plan (rp_record p) (rp_record p')"
proof (induction "is" arbitrary: p eng)
  case (Cons i "is")
  then show ?case by (auto split: prod.splits dest: restore_one_frame intro: same_plan_trans)
qed simp

section \<open>Exits\<close>

lemma restore_success_okD:
  assumes "restore_success P now rec eng = (Inr st, rec', eng')"
  shows "st = session_state.Restored" "sr_state rec' = session_state.Restored"
    "sr_operations rec' = sr_operations rec" "same_plan rec rec'"
    "\<exists>w'. port_replace P rec' (world eng) = (Inr (), w')"
  using assms
  by (auto simp: restore_success_def Let_def split: prod.splits sum.splits if_splits
      dest: persist_okD transition_ok_state transition_frame)

lemma restore_failure_Inl: "\<exists>e. fst (restore_failure P now es u rec eng) = Inl e"
  by (auto simp: restore_failure_def Let_def split: prod.splits sum.splits)

lemma restore_record_okD:
  assumes "restore_record P rec eng = (Inr st, rec', eng')"
  shows "st = session_state.Restored" "sr_state rec' = session_state.Restored"
    "restoration_proven rec'" "same_plan rec rec'"
    "\<exists>w w'. port_replace P rec' w = (Inr (), w')"
proof -
  obtain now eng1 where now: "now_or_zero P Restore eng = (now, eng1)" by fastforce
  obtain p eng2 where loop: "restore_loop P (rev [0..<length (sr_operations rec)])
    \<lparr>rp_record = rec, rp_failures = [], rp_uncertain = False\<rparr> eng1 = (p, eng2)" by fastforce
  have ok: "restore_success P now (rp_record p) eng2 = (Inr st, rec', eng')"
    and proven: "restoration_proven (rp_record p)"
    using assms restore_failure_Inl [of P now "rp_failures p" "rp_uncertain p" "rp_record p" eng2]
    by (auto simp: restore_record_def now loop split: if_splits)
  note fin = restore_success_okD [OF ok]
  show "st = session_state.Restored" "sr_state rec' = session_state.Restored"
    "\<exists>w w'. port_replace P rec' w = (Inr (), w')" using fin by auto
  show "restoration_proven rec'" using proven fin(3) by (simp add: restoration_proven_def)
  show "same_plan rec rec'" using restore_loop_frame [OF loop] fin(4) by (simp add: same_plan_def)
qed

text \<open>
  The store accepted a record of the same session and plan whose state is \<open>Restored\<close> and whose
  operations prove the restoration.
\<close>

definition durably_restored :: "('w, 'g) ports \<Rightarrow> session_record \<Rightarrow> bool" where
  "durably_restored P rec \<longleftrightarrow> (\<exists>rec' w w'. port_replace P rec' w = (Inr (), w')
     \<and> same_plan rec rec' \<and> sr_state rec' = session_state.Restored \<and> restoration_proven rec')"

lemma restore_record_ok:
  "restore_record P rec eng = (Inr st, rec', eng') \<Longrightarrow> st = session_state.Restored \<and> durably_restored P rec"
  using restore_record_okD [of P rec eng st rec' eng'] unfolding durably_restored_def by blast

lemma durably_restored_same: "same_plan rec rec' \<Longrightarrow> durably_restored P rec' \<Longrightarrow> durably_restored P rec"
  unfolding durably_restored_def by (blast intro: same_plan_trans)

lemma prepare_restore_frame:
  "prepare_restore_state P rec eng = (r, rec', eng') \<Longrightarrow> same_plan rec rec'"
  by (cases "sr_state rec")
    (auto simp: prepare_restore_state_def Let_def abind_def split: prod.splits sum.splits
      dest: transition_frame intro: same_plan_trans)

lemma load_active_okD:
  "load_active_record P sid eng = (Inr rec, eng') \<Longrightarrow> \<exists>w w'. port_load P sid w = (Inr rec, w')"
  by (auto simp: load_active_record_def call_def split: prod.splits)

lemma restore_held_ok:
  assumes "restore_held P sid eng = (Inr st, eng')"
  shows "st = session_state.Restored \<and> (\<exists>rec w w'. port_load P sid w = (Inr rec, w')
    \<and> (sr_state rec = session_state.Restored \<or> durably_restored P rec))"
proof -
  obtain eng1 rec eng2 where load: "load_active_record P sid eng1 = (Inr rec, eng2)"
    and "(if sr_state rec = session_state.Restored
       then (Inr session_state.Restored, release_if_restored P sid eng2)
       else case prepare_restore_state P rec eng2 of
         (Inl e, _, eng) \<Rightarrow> (Inl e, eng)
       | (Inr _, rec, eng) \<Rightarrow>
         (case restore_record P rec eng of
           (Inl e, _, eng) \<Rightarrow> (Inl e, eng)
         | (Inr state, _, eng) \<Rightarrow>
           (Inr state, if state = session_state.Restored
             then release_if_restored P sid eng else eng))) = (Inr st, eng')"
    using assms by (auto simp: restore_held_def abind_def split: prod.splits sum.splits)
  then have "st = session_state.Restored \<and> (sr_state rec = session_state.Restored \<or> durably_restored P rec)"
    by (auto split: prod.splits sum.splits if_splits
        dest!: prepare_restore_frame restore_record_ok dest: durably_restored_same)
  with load_active_okD [OF load] show ?thesis by blast
qed

lemma rollback_never_ok: "rollback_after_failure P rec e0 from_apply eng \<noteq> (Inr st, eng')"
proof
  assume run: "rollback_after_failure P rec e0 from_apply eng = (Inr st, eng')"
  have tail: "False" if "(case restore_record P rec1 eng1 of
        (Inr state, _, eng) \<Rightarrow> (if state = session_state.Restored then (Inl e0, eng)
           else (Inl (e1 state), eng))
      | (Inl e, _, eng) \<Rightarrow> (Inl (e2 e), eng)) = (Inr st, eng')" for rec1 eng1 e1 e2
    using that by (auto split: prod.splits sum.splits if_splits)
  show False
    using run tail unfolding rollback_after_failure_def Let_def
    by (fastforce split: prod.splits)
qed

section \<open>A failed apply is never a success\<close>

lemma recorded_never_ok: "recorded_rollback P e rec eng \<noteq> (Inl (Inr st), eng')"
  using rollback_never_ok by (fastforce simp: recorded_rollback_def split: prod.splits)

lemma persisted_never_ok: "persisted_rollback P sg e rec eng \<noteq> (Inl (Inr st), eng')"
  using rollback_never_ok by (fastforce simp: persisted_rollback_def split: prod.splits)

lemma persist_or_never_ok: "persist_or_rollback P sg rec eng \<noteq> (Inl (Inr st), eng')"
  using recorded_never_ok by (fastforce simp: persist_or_rollback_def split: prod.splits sum.splits)

lemmas never_ok = recorded_never_ok persisted_never_ok persist_or_never_ok

lemma verify_never_ok: "verify_applied P m s own rec eng \<noteq> (Inl (Inr st), eng')"
  by (auto simp: verify_applied_def Let_def never_ok split: prod.splits sum.splits if_splits)

lemma accept_never_ok: "accept_receipt P m s rc rec eng \<noteq> (Inl (Inr st), eng')"
  by (auto simp: accept_receipt_def Let_def never_ok verify_never_ok
      split: prod.splits sum.splits if_splits)

lemma apply_one_never_ok: "apply_one P i rec eng \<noteq> (Inl (Inr st), eng')"
proof -
  have "apply_backend P i rec eng \<noteq> (Inl (Inr st), eng')" for rec eng
    by (auto simp: apply_backend_def Let_def never_ok accept_never_ok
        split: prod.splits sum.splits if_splits option.splits)
  then show ?thesis
    by (auto simp: apply_one_def Let_def never_ok split: prod.splits sum.splits if_splits)
qed

lemma apply_loop_never_ok: "apply_loop P is rec eng \<noteq> (Inl (Inr st), eng')"
  by (induction "is" arbitrary: rec eng)
    (auto simp: apply_one_never_ok split: prod.splits sum.splits)

lemma apply_loop_ok:
  "apply_loop P [i..<length (sr_operations rec)] rec eng = (Inr rec', eng') \<Longrightarrow> done_before i rec \<Longrightarrow>
   i \<le> length (sr_operations rec) \<Longrightarrow> same_plan rec rec' \<and> done_before (length (sr_operations rec)) rec'"
proof (induction "length (sr_operations rec) - i" arbitrary: i rec eng)
  case (Suc n)
  then have i: "i < length (sr_operations rec)" by simp
  with Suc.prems obtain rec1 eng1 where one: "apply_one P i rec eng = (Inr rec1, eng1)"
    and rest: "apply_loop P [Suc i..<length (sr_operations rec)] rec1 eng1 = (Inr rec', eng')"
    by (auto simp: upt_conv_Cons split: prod.splits sum.splits)
  have "same_plan rec rec1" "done_before (Suc i) rec1"
    using one apply_one_frame apply_one_done i Suc.prems(2) by blast+
  moreover have "length (sr_operations rec1) = length (sr_operations rec)"
    using \<open>same_plan rec rec1\<close> by (rule same_planD)
  ultimately show ?case
    using Suc.hyps(1) [of rec1 "Suc i" eng1] Suc.hyps(2) rest i by (auto intro: same_plan_trans)
qed simp

text \<open>The store accepted a record of the same plan in state \<open>Active\<close> with every operation read back.\<close>

definition durably_active :: "('w, 'g) ports \<Rightarrow> session_record \<Rightarrow> bool" where
  "durably_active P rec \<longleftrightarrow> (\<exists>rec' w w'. port_replace P rec' w = (Inr (), w') \<and> same_plan rec rec'
     \<and> sr_state rec' = Active \<and> done_before (length (sr_operations rec')) rec')"

lemma apply_prepared_ok:
  assumes "apply_prepared P rec eng = (Inr st, eng')"
  shows "st = Active \<and> durably_active P rec"
proof -
  obtain now rec1 eng0 rec2 eng2 rec3 eng3 now' rec4 eng4 rec5 where
      1: "SessionRecord_transition session_state.Applying now ''ordered mutation application started'' rec = (Inr (), rec1)"
    and 2: "persist_or_rollback P Apply rec1 eng0 = (Inr rec2, eng2)"
    and 3: "apply_loop P [0..<length (sr_operations rec2)] rec2 eng2 = (Inr rec3, eng3)"
    and 4: "SessionRecord_transition Active now' ''all ordered applies and readbacks verified'' rec3 = (Inr (), rec4)"
    and 5: "persist_or_rollback P Verify rec4 eng4 = (Inr rec5, eng')" and st: "st = Active"
    using assms
    by (auto simp: apply_prepared_def never_ok apply_loop_never_ok persist_or_rollback_okD(1)
        split: prod.splits sum.splits)
  have rec2: "rec2 = rec1" using 2 by (rule persist_or_rollback_okD)
  have "same_plan rec2 rec3" "done_before (length (sr_operations rec2)) rec3"
    using apply_loop_ok [OF 3] by (auto simp: done_before_def)
  moreover have "same_plan rec rec1" "same_plan rec3 rec4" "sr_operations rec4 = sr_operations rec3"
    "sr_state rec4 = Active" using 1 4 transition_frame transition_ok_state by auto
  ultimately have "same_plan rec rec4" "done_before (length (sr_operations rec4)) rec4"
    using rec2 same_planD(2) [of rec2 rec3]
    by (auto intro: same_plan_trans simp: done_before_def)
  with st \<open>sr_state rec4 = Active\<close> persist_or_rollback_okD [OF 5] show ?thesis
    unfolding durably_active_def by blast
qed

section \<open>Prepared sessions\<close>

text \<open>The invariant of building the record of a prepared session.\<close>

definition captured :: "planned_mutation list \<Rightarrow> snapshot list \<Rightarrow> session_id \<Rightarrow> session_record \<Rightarrow> bool" where
  "captured ms ss sid r \<longleftrightarrow> record_valid r \<and> sr_session_id r = sid
     \<and> map op_mutation (sr_operations r) = ms
     \<and> (\<forall>p \<in> set (sr_operations r). \<forall>s. op_snapshot p = Some s \<longrightarrow> s \<in> set ss)"

lemma captured_transition:
  assumes "SessionRecord_transition st at reason r = (Inr u, r')"
    and "captured ms ss sid r" and "length (sr_transitions r) < MAX_TRANSITIONS"
  shows "captured ms ss sid r'" "length (sr_transitions r') = Suc (length (sr_transitions r))"
    "sr_state r' = st" "sr_operations r' = sr_operations r"
  using assms(2) transition_valid [OF _ assms(3,1)] transition_frame [OF assms(1)]
    transition_ok_state [OF assms(1)] transition_ok_length [OF assms(1)]
    transition_operations [OF assms(1)]
  by (simp_all add: captured_def same_plan_def)

lemma captured_snapshot:
  assumes "capture_snapshot s r = (res, r')" and "captured ms ss sid r" and "s \<in> set ss"
  shows "captured ms ss sid r'" "sr_transitions r' = sr_transitions r"
proof -
  note step = assms(1) [unfolded capture_snapshot_def]
  from step have keeps: "map op_mutation (sr_operations r') = map op_mutation (sr_operations r)"
    "sr_session r' = sr_session r" and tr: "sr_transitions r' = sr_transitions r"
    by (rule operation_mut_keeps [where g = op_mutation]; force simp: transition_op_eq split: if_splits)+
  have "\<forall>p \<in> set (sr_operations r'). \<forall>s. op_snapshot p = Some s \<longrightarrow> s \<in> set ss"
  proof (cases "find (\<lambda>p. op_id p = sn_mutation_id s) (sr_operations r)")
    case (Some p)
    then have "\<forall>s. op_snapshot p = Some s \<longrightarrow> s \<in> set ss"
      using assms(2) find_id(1) by (auto simp: captured_def)
    then have "\<exists>q. sr_operations r' = update_first (\<lambda>p. op_id p = sn_mutation_id s) (\<lambda>_. q) (sr_operations r)
        \<and> (\<forall>s. op_snapshot q = Some s \<longrightarrow> s \<in> set ss)"
      using step Some assms(3)
      by (auto simp: operation_mut_def transition_op_eq split: prod.splits if_splits)
    with assms(2) set_update_first show ?thesis unfolding captured_def by fastforce
  qed (use step assms(2) in \<open>simp add: operation_mut_def captured_def\<close>)
  with keeps assms(2) snapshot_valid [OF _ assms(1)] show "captured ms ss sid r'"
    by (simp add: captured_def)
  show "sr_transitions r' = sr_transitions r" by (fact tr)
qed

lemma captured_snapshots:
  "capture_snapshots new r = (res, r') \<Longrightarrow> captured ms ss sid r \<Longrightarrow> set new \<subseteq> set ss \<Longrightarrow>
   captured ms ss sid r' \<and> sr_transitions r' = sr_transitions r"
proof (induction new arbitrary: r)
  case (Cons s new)
  obtain res1 r1 where "capture_snapshot s r = (res1, r1)" by fastforce
  with Cons captured_snapshot [OF this] show ?case by (auto simp: abind_def split: sum.splits)
qed simp

text \<open>The prepared record of a session.\<close>

definition prepared_record :: "planned_mutation list \<Rightarrow> snapshot list \<Rightarrow> session_id \<Rightarrow> session_record \<Rightarrow> bool" where
  "prepared_record ms ss sid r \<longleftrightarrow> validate_for_serialization r = Inr () \<and> sr_session_id r = sid
     \<and> sr_state r = IntentDurable \<and> map op_mutation (sr_operations r) = ms
     \<and> (\<forall>p \<in> set (sr_operations r). op_state p = IntentRecorded
        \<and> (\<exists>s \<in> set ss. op_snapshot p = Some s \<and> sn_mutation_id s = op_id p
           \<and> sn_original_fingerprint s = pm_precondition (op_mutation p)))"

lemma captured_intent:
  assumes "record_intent r = (Inr u, r')" and "captured ms ss sid r"
  shows "captured ms ss sid r'" "sr_transitions r' = sr_transitions r"
    "\<forall>p \<in> set (sr_operations r'). op_state p = IntentRecorded"
proof -
  have "\<forall>p \<in> set (sr_operations r). op_state p = operation_state.Snapshotted"
    using assms(1) by (auto simp: record_intent_def list_ex_iff split: if_splits)
  then have r': "r' = r\<lparr>sr_operations := map (\<lambda>p. p\<lparr>op_state := IntentRecorded\<rparr>) (sr_operations r)\<rparr>"
    using intent_eq assms(1) by simp
  show "captured ms ss sid r'"
    using assms(2) intent_valid [OF _ assms(1)] by (auto simp: r' captured_def comp_def)
  show "sr_transitions r' = sr_transitions r"
    "\<forall>p \<in> set (sr_operations r'). op_state p = IntentRecorded" by (simp_all add: r')
qed

lemma built_ok:
  "(case x of (Inl e, _) \<Rightarrow> Inl e | (Inr _, rec) \<Rightarrow> Inr rec) = Inr r \<longleftrightarrow> x = (Inr (), r)"
  by (cases x; cases "fst x") auto

lemma intent_record_ok:
  assumes "intent_record sid plan now ss = Inr r"
  shows "prepared_record (plan_mutations plan) ss sid r"
proof -
  obtain r0 r1 r2 r3 r4 r5 where
      0: "SessionRecord_new (Session_new sid plan now) (plan_mutations plan) = Inr r0"
    and 1: "SessionRecord_transition Detected now ''capability evidence accepted'' r0 = (Inr (), r1)"
    and 2: "SessionRecord_transition session_state.Planned now ''complete typed plan accepted'' r1 = (Inr (), r2)"
    and 3: "capture_snapshots ss r2 = (Inr (), r3)"
    and 4: "SessionRecord_transition session_state.Snapshotted now ''all original states captured'' r3 = (Inr (), r4)"
    and 5: "record_intent r4 = (Inr (), r5)"
    and 6: "SessionRecord_transition IntentDurable now ''snapshots and mutation intent are durable'' r5 = (Inr (), r)"
    using assms by (auto simp: intent_record_def built_ok abind_ok rbind_eq_Inr)
  let ?c = "captured (plan_mutations plan) ss sid"
  have c0: "?c r0" "sr_transitions r0 = []"
    using SessionRecord_new_valid [OF 0] 0
    by (auto simp: captured_def SessionRecord_new_eq Session_new_def comp_def OperationRecord_planned_def)
  have room: "n < 16 \<Longrightarrow> n < MAX_TRANSITIONS" for n by (simp add: MAX_TRANSITIONS_def)
  note c1 = captured_transition [OF 1 c0(1)]
  have c1: "?c r1" "length (sr_transitions r1) = 1"
    using captured_transition [OF 1 c0(1)] c0(2) room by simp_all
  have c2: "?c r2" "length (sr_transitions r2) = 2"
    using captured_transition [OF 2 c1(1)] c1(2) room by simp_all
  have c3: "?c r3" "length (sr_transitions r3) = 2"
    using captured_snapshots [OF 3 c2(1)] c2(2) by simp_all
  have c4: "?c r4" "length (sr_transitions r4) = 3"
    using captured_transition [OF 4 c3(1)] c3(2) room by simp_all
  have c5: "?c r5" "length (sr_transitions r5) = 3" "\<forall>p \<in> set (sr_operations r5). op_state p = IntentRecorded"
    using captured_intent [OF 5 c4(1)] c4(2) by simp_all
  have c6: "?c r" "sr_state r = IntentDurable" "sr_operations r = sr_operations r5"
    using captured_transition [OF 6 c5(1)] c5(2) room by simp_all
  have "\<exists>s \<in> set ss. op_snapshot p = Some s \<and> sn_mutation_id s = op_id p
      \<and> sn_original_fingerprint s = pm_precondition (op_mutation p)" if "p \<in> set (sr_operations r)" for p
  proof -
    have "operation_valid p" "op_state p = IntentRecorded"
      using c6 c5(3) that by (auto simp: captured_def record_valid_def)
    then obtain s where "op_snapshot p = Some s" "sn_mutation_id s = op_id p"
      "sn_original_fingerprint s = pm_precondition (op_mutation p)"
      by (auto simp: operation_valid_def evidence_shape_def evidence_bound_def)
    moreover from this(1) have "s \<in> set ss" using c6(1) that by (auto simp: captured_def)
    ultimately show ?thesis by blast
  qed
  with c6 c5(3) show ?thesis
    by (simp add: prepared_record_def captured_def validate_for_serialization_ok)
qed

lemma call_ok:
  "call port adjust eng = (Inr x, eng') \<longleftrightarrow>
     (\<exists>w'. port (world eng) = (Inr x, w') \<and> eng' = eng\<lparr>world := w'\<rparr>)"
  by (auto simp: call_def split: prod.splits)

lemma capture_all_ok:
  "capture_all P now ms eng = (Inr ss, eng') \<Longrightarrow> s \<in> set ss \<Longrightarrow>
   \<exists>m \<in> set ms. sn_mutation_id s = pm_mutation_id m \<and> (\<exists>w w'. port_snapshot P m now w = (Inr s, w'))"
proof (induction ms arbitrary: eng ss)
  case (Cons m ms)
  obtain s1 w1 eng1 ss1 where s1: "port_snapshot P m now (world eng) = (Inr s1, w1)"
    and v: "validate_snapshot m s1 = Inr ()"
    and rest: "capture_all P now ms eng1 = (Inr ss1, eng')" and ss: "ss = s1 # ss1"
    using Cons.prems(1) by (auto simp: abind_ok areturn_def call_ok)
  have "sn_mutation_id s1 = pm_mutation_id m"
    using v by (simp add: validate_snapshot_def split: if_splits)
  with s1 Cons.IH [OF rest] Cons.prems(2) ss show ?case by (cases "s = s1") auto
qed simp

lemma allocate_ok:
  "allocate_session P g plan now ss n eng = (Inr sid, eng') \<Longrightarrow>
   (\<exists>rec w w'. intent_record sid plan now ss = Inr rec \<and> port_create P rec w = (Inr (), w')
     \<and> world eng' = w') \<and> active eng' = Some \<lparr>al_session_id = sid, al_guard = g\<rparr>"
proof (induction n arbitrary: eng)
  case (Suc n)
  obtain r eng1 where id: "call (port_next_id P) (with_stage DurableIntent) eng = (r, eng1)" by fastforce
  show ?case
  proof (cases r)
    case (Inr sid1)
    show ?thesis
    proof (cases "intent_record sid1 plan now ss")
      case rec: (Inr rec)
      obtain rc eng2 where c: "call (port_create P rec) (\<lambda>e. e) eng1 = (rc, eng2)" by fastforce
      show ?thesis
      proof (cases rc)
        case (Inl e)
        with Suc id Inr rec c show ?thesis by (auto split: if_splits)
      qed (use Suc.prems id Inr rec c in \<open>auto simp: call_ok\<close>)
    qed (use Suc.prems id Inr in simp)
  qed (use Suc.prems id in simp)
qed simp

lemma prepare_ok:
  assumes "prepare P plan eng = (Inr sid, eng')"
  obtains rec ss now w where "prepared_record (plan_mutations plan) ss sid rec"
    "port_create P rec w = (Inr (), world eng')"
    "\<forall>s \<in> set ss. \<exists>m \<in> set (plan_mutations plan). sn_mutation_id s = pm_mutation_id m
       \<and> (\<exists>w w'. port_snapshot P m now w = (Inr s, w'))"
    "\<exists>g w w'. port_acquire P w = (Inr g, w')
       \<and> active eng' = Some \<lparr>al_session_id = sid, al_guard = g\<rparr>"
proof -
  obtain g eng1 where g: "\<exists>w'. port_acquire P (world eng) = (Inr g, w')"
    and locked: "prepare_locked P plan g eng1 = (Inr sid, eng')"
    using assms by (auto simp: prepare_def call_ok split: if_splits sum.splits prod.splits)
  obtain now eng2 ss eng3 where ss: "capture_all P now (plan_mutations plan) eng2 = (Inr ss, eng3)"
    and alloc: "allocate_session P g plan now ss SESSION_ID_ATTEMPTS eng3 = (Inr sid, eng')"
    using locked by (auto simp: prepare_locked_def abind_ok areturn_def)
  from allocate_ok [OF alloc] capture_all_ok [OF ss] intent_record_ok g that show ?thesis by blast
qed

section \<open>A crash during a restore\<close>

text \<open>Only the operation at index \<open>i\<close> may have changed.\<close>

definition only_at :: "nat \<Rightarrow> session_record \<Rightarrow> session_record \<Rightarrow> bool" where
  "only_at i r r' \<longleftrightarrow> same_plan r r' \<and> (\<forall>j < length (sr_operations r). j \<noteq> i \<longrightarrow>
     sr_operations r' ! j = sr_operations r ! j)"

lemma only_at_refl [simp]: "only_at i r r"
  by (simp add: only_at_def)

lemma only_at_trans [trans]:
  assumes "only_at i r r'" and "only_at i r' r''"
  shows "only_at i r r''"
proof -
  have "same_plan r r''" using assms unfolding only_at_def by (blast intro: same_plan_trans)
  moreover have "length (sr_operations r') = length (sr_operations r)"
    using assms(1) same_planD(2) by (auto simp: only_at_def)
  ultimately show ?thesis using assms by (simp add: only_at_def)
qed

lemma operation_mut_only:
  assumes "distinct (map op_id (sr_operations r))" and "i < length (sr_operations r)"
    and "operation_mut (op_id (sr_operations r ! i)) body r = (res, r')" and "same_plan r r'"
  shows "only_at i r r'"
  using assms by (auto simp: operation_mut_at only_at_def split: prod.splits)

lemma fail_restore_only:
  assumes "distinct (map op_id (sr_operations r))" and "i < length (sr_operations r)"
  shows "only_at i r (snd (fail_restore (op_id (sr_operations r ! i)) e r))"
proof -
  let ?k = "op_id (sr_operations r ! i)"
  have "same_plan r (snd (fail_restore ?k e r))" by simp
  then show ?thesis
    using assms
    by (auto simp: fail_restore_def fail_with_def operation_mut_at only_at_def push_failure_def
        split: prod.splits sum.splits)
qed

text \<open>The steps of one iteration change only its operation, and never clear the uncertainty.\<close>

definition progress_at :: "nat \<Rightarrow> restore_progress \<Rightarrow> restore_progress \<Rightarrow> bool" where
  "progress_at i p p' \<longleftrightarrow> only_at i (rp_record p) (rp_record p') \<and> (rp_uncertain p \<longrightarrow> rp_uncertain p')"

lemma progress_at_refl [simp]: "progress_at i p p"
  by (simp add: progress_at_def)

lemma progress_at_trans: "progress_at i p p' \<Longrightarrow> progress_at i p' p'' \<Longrightarrow> progress_at i p p''"
  using only_at_trans by (auto simp: progress_at_def)

lemma failure_only [simp]: "only_at i r (record_failure e r)"
  by (simp add: only_at_def) (simp add: record_failure_def push_failure_def)

lemma persist_progress_at: "persist_progress P p eng = (p', eng') \<Longrightarrow> progress_at i p p'"
  by (auto simp: persist_progress_def recorded_failure_def uncertain_failure_def progress_at_def
      split: prod.splits sum.splits)

lemma recorded_failure_at [simp]: "progress_at i p (recorded_failure e p)" "progress_at i p (uncertain_failure e p)"
  by (simp_all add: recorded_failure_def uncertain_failure_def progress_at_def)

text \<open>The operation at \<open>i\<close> is the only one with its identity.\<close>

definition at_index :: "nat \<Rightarrow> mutation_id \<Rightarrow> session_record \<Rightarrow> bool" where
  "at_index i k r \<longleftrightarrow> distinct (map op_id (sr_operations r)) \<and> i < length (sr_operations r)
     \<and> op_id (sr_operations r ! i) = k"

lemma at_index_same: "at_index i k r \<Longrightarrow> same_plan r r' \<Longrightarrow> at_index i k r'"
  using same_planD(2,3,4) [of r r'] by (auto simp: at_index_def)

lemma failed_restore_at:
  "failed_restore P k e p eng = (p', eng') \<Longrightarrow> at_index i k (rp_record p) \<Longrightarrow> progress_at i p p'"
  using fail_restore_only [of "rp_record p" i e]
  by (auto simp: failed_restore_def Let_def progress_at_def at_index_def)

lemma proven_restore_at:
  assumes "proven_restore P k rc p eng = (p', eng')" and "at_index i k (rp_record p)"
  shows "progress_at i p p'"
proof -
  obtain res r1 where r1: "record_restore k rc (rp_record p) = (res, r1)" by fastforce
  have "only_at i (rp_record p) r1"
    using operation_mut_only assms(2) r1 record_restore_frame [OF r1]
    by (auto simp: at_index_def record_restore_def)
  then have "progress_at i p (p\<lparr>rp_record := r1\<rparr>)" by (simp add: progress_at_def)
  with assms(1) r1 show ?thesis
    by (auto simp: proven_restore_def split: sum.splits
        dest!: persist_progress_at [of _ _ _ _ _ i] intro: progress_at_trans recorded_failure_at)
qed

lemma restore_owned_at:
  "restore_owned P m s own p eng = (p', eng') \<Longrightarrow> at_index i (pm_mutation_id m) (rp_record p) \<Longrightarrow>
   progress_at i p p'"
  by (auto simp: restore_owned_def Let_def split: prod.splits sum.splits if_splits
      dest: failed_restore_at proven_restore_at)

lemma restore_one_at:
  assumes run: "restore_one P i p eng = (p', eng')"
    and d: "distinct (map op_id (sr_operations (rp_record p)))"
    and i: "i < length (sr_operations (rp_record p))"
  shows "progress_at i p p'"
proof -
  let ?op = "sr_operations (rp_record p) ! i"
  have at: "at_index i (op_id ?op) (rp_record p)" using d i by (simp add: at_index_def)
  obtain res r1 where r1: "begin_restore_operation (op_id ?op) (rp_record p) = (res, r1)" by fastforce
  have "only_at i (rp_record p) r1"
    using operation_mut_only d i r1 begin_restore_frame [OF r1] by (auto simp: begin_restore_operation_def)
  then have p1: "progress_at i p (p\<lparr>rp_record := r1\<rparr>)" by (simp add: progress_at_def)
  obtain p2 eng2 where p2: "persist_progress P (p\<lparr>rp_record := r1\<rparr>) eng = (p2, eng2)" by fastforce
  have p02: "progress_at i p p2" using p1 persist_progress_at [OF p2] by (rule progress_at_trans)
  then have at2: "at_index i (op_id ?op) (rp_record p2)"
    using at at_index_same by (auto simp: progress_at_def only_at_def)
  have owned: "progress_at i p p'" if "restore_owned P (op_mutation ?op) s own p2 eng2 = (p', eng')" for s own
    using progress_at_trans [OF p02] restore_owned_at [OF that at2] by blast
  show ?thesis
    using run r1 p2 owned progress_at_trans [OF p1 recorded_failure_at(2)]
    by (auto simp: restore_one_def Let_def split: if_splits option.splits sum.splits)
qed

text \<open>
  An operation that is durably \<open>Restoring\<close> cannot begin to restore again, so the loop leaves it as it
  is and ends uncertain.
\<close>

definition stuck :: "operation_record \<Rightarrow> bool" where
  "stuck q \<longleftrightarrow> op_state q = operation_state.Restoring \<and> op_apply_receipt q \<noteq> None \<and> op_snapshot q \<noteq> None"

lemma restore_one_stuck:
  assumes "restore_one P i p eng = (p', eng')"
    and "distinct (map op_id (sr_operations (rp_record p)))" and "i < length (sr_operations (rp_record p))"
    and "stuck (sr_operations (rp_record p) ! i)"
  shows "rp_uncertain p' \<and> sr_operations (rp_record p') = sr_operations (rp_record p)"
  using assms
  by (auto simp: restore_one_def stuck_def begin_restore_operation_def operation_mut_at
      OperationRecord_transition_def operation_can_transition_def uncertain_failure_def Let_def)

lemma restore_loop_stuck:
  "restore_loop P is p eng = (p', eng') \<Longrightarrow> distinct (map op_id (sr_operations (rp_record p))) \<Longrightarrow>
   \<forall>i \<in> set is. i < length (sr_operations (rp_record p)) \<Longrightarrow> j < length (sr_operations (rp_record p)) \<Longrightarrow>
   sr_operations (rp_record p) ! j = q \<Longrightarrow> stuck q \<Longrightarrow>
   sr_operations (rp_record p') ! j = q \<and> (j \<in> set is \<or> rp_uncertain p \<longrightarrow> rp_uncertain p')"
proof (induction "is" arbitrary: p eng)
  case (Cons i "is")
  obtain p1 eng1 where one: "restore_one P i p eng = (p1, eng1)" by fastforce
  have at: "progress_at i p p1" using restore_one_at [OF one] Cons.prems by simp
  then have plan: "same_plan (rp_record p) (rp_record p1)" by (simp add: progress_at_def only_at_def)
  have j: "sr_operations (rp_record p1) ! j = q \<and> (i = j \<longrightarrow> rp_uncertain p1)"
  proof (cases "i = j")
    case True
    with restore_one_stuck [OF one] Cons.prems show ?thesis by simp
  next
    case False
    with at Cons.prems show ?thesis by (simp add: progress_at_def only_at_def)
  qed
  have "restore_loop P is p1 eng1 = (p', eng')" using Cons.prems(1) one by simp
  from Cons.IH [OF this] j at Cons.prems same_planD(2,3) [OF plan]
  show ?case by (auto simp: progress_at_def)
qed simp

lemma restore_record_stuck:
  assumes "restore_record P rec eng = (r, rec', eng')"
    and "distinct (map op_id (sr_operations rec))" and "j < length (sr_operations rec)"
    and "stuck (sr_operations rec ! j)"
  shows "(\<exists>e. r = Inl e) \<and> sr_operations rec' ! j = sr_operations rec ! j"
proof -
  obtain now eng1 where now: "now_or_zero P Restore eng = (now, eng1)" by fastforce
  obtain p eng2 where loop: "restore_loop P (rev [0..<length (sr_operations rec)])
    \<lparr>rp_record = rec, rp_failures = [], rp_uncertain = False\<rparr> eng1 = (p, eng2)" by fastforce
  have p: "rp_uncertain p" "sr_operations (rp_record p) ! j = sr_operations rec ! j"
    using restore_loop_stuck [OF loop, of j "sr_operations rec ! j"] assms by auto
  have "restore_failure P now (rp_failures p) (rp_uncertain p) (rp_record p) eng2 = (r, rec', eng')"
    using assms(1) p(1) by (simp add: restore_record_def now loop)
  moreover from this have "sr_operations rec' = sr_operations (rp_record p)"
    by (auto simp: restore_failure_def Let_def split: prod.splits sum.splits if_splits)
  ultimately show ?thesis
    using p(2) restore_failure_Inl [of P now "rp_failures p" "rp_uncertain p" "rp_record p" eng2] by auto
qed

text \<open>The engine without the log.\<close>

definition plain :: "('w \<times> event list, 'g) engine \<Rightarrow> ('w, 'g) engine" where
  "plain eng = \<lparr>world = fst (world eng), active = active eng\<rparr>"

section \<open>Properties\<close>

text \<open>
  C5: a session is handed out only after durable intent. When \<open>prepare\<close> returns a session identity,
  the store has accepted, as the last call, a new record of that session which passes validation,
  is in state \<open>IntentDurable\<close>, lists exactly the plan's mutations in plan order, and holds for each
  of them the preimage the backend captured, matching the planned precondition; and the coordinator
  holds the session lock.
\<close>

theorem prepare_success_is_durable:
  assumes "prepare P plan eng = (Inr sid, eng')"
  shows "\<exists>rec w. port_create P rec w = (Inr (), world eng') \<and> validate_for_serialization rec = Inr ()
    \<and> sr_session_id rec = sid \<and> sr_state rec = IntentDurable
    \<and> map op_mutation (sr_operations rec) = plan_mutations plan
    \<and> (\<forall>p \<in> set (sr_operations rec). op_state p = IntentRecorded \<and> (\<exists>s m now w w'.
         op_snapshot p = Some s \<and> port_snapshot P m now w = (Inr s, w') \<and> m \<in> set (plan_mutations plan)
         \<and> sn_mutation_id s = op_id p \<and> pm_mutation_id m = op_id p
         \<and> sn_original_fingerprint s = pm_precondition (op_mutation p)))
    \<and> (\<exists>guard w w'. port_acquire P w = (Inr guard, w')
         \<and> active eng' = Some \<lparr>al_session_id = sid, al_guard = guard\<rparr>)"
proof -
  obtain rec ss now w where rec: "prepared_record (plan_mutations plan) ss sid rec"
    and "port_create P rec w = (Inr (), world eng')"
    and ss: "\<forall>s \<in> set ss. \<exists>m \<in> set (plan_mutations plan). sn_mutation_id s = pm_mutation_id m
       \<and> (\<exists>w w'. port_snapshot P m now w = (Inr s, w'))"
    and "\<exists>g w w'. port_acquire P w = (Inr g, w')
       \<and> active eng' = Some \<lparr>al_session_id = sid, al_guard = g\<rparr>"
    using prepare_ok [OF assms] .
  moreover have "\<exists>s m now w w'. op_snapshot p = Some s \<and> port_snapshot P m now w = (Inr s, w')
      \<and> m \<in> set (plan_mutations plan) \<and> sn_mutation_id s = op_id p \<and> pm_mutation_id m = op_id p
      \<and> sn_original_fingerprint s = pm_precondition (op_mutation p)" if "p \<in> set (sr_operations rec)" for p
    using rec ss that unfolding prepared_record_def by metis
  ultimately show ?thesis unfolding prepared_record_def by blast
qed

theorem prepare_success_is_durable_witness:
  "\<exists>rec w. port_create example_ports rec w
      = (Inr (), world (snd (prepare example_ports example_full_plan (plain example_engine\<lparr>active := None\<rparr>))))
    \<and> sr_state rec = IntentDurable \<and> map op_mutation (sr_operations rec) = [example_mutation]"
proof -
  have "fst (prepare example_ports example_full_plan (plain example_engine\<lparr>active := None\<rparr>))
      = Inr (SessionId (replicate 16 6))" by code_simp
  then have "prepare example_ports example_full_plan (plain example_engine\<lparr>active := None\<rparr>)
      = (Inr (SessionId (replicate 16 6)),
         snd (prepare example_ports example_full_plan (plain example_engine\<lparr>active := None\<rparr>)))"
    by (metis prod.collapse)
  from prepare_success_is_durable [OF this] show ?thesis
    by (fastforce simp: example_full_plan_def example_plan_def)
qed




definition example_active :: session_record where
  "example_active = ex_record (world (plain example_applied))"


text \<open>
  C6: a session that crashed while an operation was durably \<open>Restoring\<close> is never restored: whatever
  the backend, the store and the clock do, \<open>restore_record\<close> returns an error for such a record and
  leaves the operation \<open>Restoring\<close>, because beginning the restore again is an illegal transition. (The
  architecture asks restoration to be retryable after a crash; see the findings.)
\<close>

theorem restoring_crash_never_restores:
  assumes "restore_record P rec eng = (r, rec', eng')" and "validate_for_serialization rec = Inr ()"
    and "j < length (sr_operations rec)" and "op_state (sr_operations rec ! j) = operation_state.Restoring"
  shows "(\<exists>e. r = Inl e) \<and> op_state (sr_operations rec' ! j) = operation_state.Restoring"
proof -
  have "record_valid rec" using assms(2) by (simp add: validate_for_serialization_ok)
  then have "distinct (map op_id (sr_operations rec))" "operation_valid (sr_operations rec ! j)"
    using assms(3) by (auto simp: record_valid_def)
  moreover from this(2) have "stuck (sr_operations rec ! j)"
    using assms(4) by (auto simp: stuck_def operation_valid_def evidence_shape_def)
  ultimately show ?thesis using restore_record_stuck [OF assms(1) _ assms(3)] assms(4) by simp
qed

text \<open>The example session, crashed after beginning its restore.\<close>

definition example_crashed :: session_record where
  "example_crashed = snd (abind (SessionRecord_transition session_state.Restoring (Timestamp 1001)
     ''normal restore started'') (\<lambda>_. begin_restore_operation (MutationId 7))
     example_active)"

theorem restoring_crash_never_restores_witness:
  "\<exists>e. fst (restore_record example_ports example_crashed (plain example_applied)) = Inl e"
proof -
  have "validate_for_serialization example_crashed = Inr ()" "0 < length (sr_operations example_crashed)"
    "op_state (sr_operations example_crashed ! 0) = operation_state.Restoring" by code_simp+
  from restoring_crash_never_restores [OF _ this, of example_ports "plain example_applied"]
  show ?thesis by (cases "restore_record example_ports example_crashed (plain example_applied)") auto
qed

end
