(* ===== verification/Backends.thy ===== *)
theory Backends
  imports Records Orders Actions "HOL-Library.Multiset"
begin

text \<open>
  \<open>sysboost-platform/src/backend.rs\<close>: backend descriptors, the default admission check and the
  registry that routes each typed operation to the backend that owns it. A backend is a record of
  functions on the world its trait object acts on.
\<close>

section \<open>Backends\<close>

record backend_descriptor =
  bd_id :: backend_id
  bd_version :: string
  bd_capabilities :: "capability_id list"
  bd_operations :: "operation_id list"

record 'w backend =
  be_descriptor :: backend_descriptor
  be_owns :: "backend_id \<Rightarrow> bool"
  be_detect :: "('w, timestamp) action \<Rightarrow> ('w, capability_inventory) action"
  be_snapshot :: "planned_mutation \<Rightarrow> timestamp \<Rightarrow> ('w, snapshot) action"
  be_apply :: "planned_mutation \<Rightarrow> snapshot \<Rightarrow> ('w, apply_receipt) action"
  be_verify :: "planned_mutation \<Rightarrow> state_fingerprint \<Rightarrow> target_identity \<Rightarrow> ('w, state_fingerprint) action"
  be_restore :: "planned_mutation \<Rightarrow> snapshot \<Rightarrow> state_fingerprint \<Rightarrow> ('w, restore_receipt) action"
  be_admission :: "planned_mutation \<Rightarrow> target_identity \<Rightarrow> ('w, unit) action"
  be_target :: "planned_mutation \<Rightarrow> target_identity \<Rightarrow> ('w, unit) action"

text \<open>\<open>operations.contains(&mutation.kind.operation_id())\<close>.\<close>

definition owns_operation :: "backend_descriptor \<Rightarrow> planned_mutation \<Rightarrow> bool" where
  "owns_operation d m \<longleftrightarrow> list_ex (\<lambda>operation. Some operation = operation_id (pm_kind m)) (bd_operations d)"

text \<open>The provided methods of the trait.\<close>

definition default_owns :: "backend_descriptor \<Rightarrow> backend_id \<Rightarrow> bool" where
  "default_owns d backend \<longleftrightarrow> bd_id d = backend"

definition default_target :: "planned_mutation \<Rightarrow> target_identity \<Rightarrow> ('w, unit) action" where
  "default_target mutation expected w =
     (Inl (with_mutation (pm_mutation_id mutation) (SysboostError_new error_code.Unsupported
       ''backend has no target allowlist for this operation'')), w)"

definition default_admission ::
    "backend_descriptor \<Rightarrow> (planned_mutation \<Rightarrow> target_identity \<Rightarrow> ('w, unit) action) \<Rightarrow>
     planned_mutation \<Rightarrow> target_identity \<Rightarrow> ('w, unit) action" where
  "default_admission descriptor target mutation expected w =
     (if \<not> owns_operation descriptor mutation
      then (Inl (with_mutation (pm_mutation_id mutation) (with_backend (bd_id descriptor)
        (SysboostError_new error_code.Unsupported
          ''backend does not own the requested typed operation''))), w)
      else if pm_capability mutation \<notin> set (bd_capabilities descriptor)
      then (Inl (with_mutation (pm_mutation_id mutation) (with_capability (pm_capability mutation)
        (with_backend (bd_id descriptor) (SysboostError_new error_code.Unsupported
          ''backend does not own the requested capability'')))), w)
      else target mutation expected w)"

section \<open>The registry\<close>

record 'w registry =
  rg_backends :: "'w backend list"
  rg_descriptor :: backend_descriptor

definition BackendRegistry_new :: "'w registry" where
  "BackendRegistry_new = \<lparr>rg_backends = [], rg_descriptor = \<lparr>bd_id = BackendId ''sysboost.registry'',
     bd_version = ''1'', bd_capabilities = [], bd_operations = []\<rparr>\<rparr>"

definition register :: "'w backend \<Rightarrow> ('w registry, unit) action" where
  "register backend self =
     (let descriptor = be_descriptor backend;
          existing = map be_descriptor (rg_backends self)
      in if list_ex (\<lambda>d. backend_str (bd_id d) = backend_str (bd_id descriptor)) existing
      then (Inl (SysboostError_new InvariantViolation ''duplicate backend registration''), self)
      else case find (\<lambda>c. list_ex (\<lambda>d. c \<in> set (bd_capabilities d)) existing)
          (bd_capabilities descriptor) of
        Some capability \<Rightarrow> (Inl (with_capability capability
          (SysboostError_new InvariantViolation ''duplicate capability ownership'')), self)
      | None \<Rightarrow>
        (if list_ex (\<lambda>p. list_ex (\<lambda>d. p \<in> set (bd_operations d)) existing) (bd_operations descriptor)
         then (Inl (SysboostError_new InvariantViolation ''duplicate operation ownership''), self)
         else (Inr (), self\<lparr>rg_backends := rg_backends self @ [backend],
           rg_descriptor := (rg_descriptor self)\<lparr>
             bd_capabilities := sort (bd_capabilities (rg_descriptor self) @ bd_capabilities descriptor),
             bd_operations := sort (bd_operations (rg_descriptor self) @ bd_operations descriptor)\<rparr>\<rparr>)))"

text \<open>The condition of the search, and the search.\<close>

definition owns_mutation :: "backend_descriptor \<Rightarrow> planned_mutation \<Rightarrow> bool" where
  "owns_mutation d m \<longleftrightarrow> owns_operation d m \<and> pm_capability m \<in> set (bd_capabilities d)"

definition backend_for :: "'w registry \<Rightarrow> planned_mutation \<Rightarrow> 'w backend result" where
  "backend_for self mutation =
     ok_or (with_mutation (pm_mutation_id mutation) (with_capability (pm_capability mutation)
         (SysboostError_new error_code.Unsupported
           ''no registered backend owns the typed operation'')))
       (find (\<lambda>backend. owns_mutation (be_descriptor backend) mutation) (rg_backends self))"

definition routed :: "'w registry \<Rightarrow> planned_mutation \<Rightarrow> ('w backend \<Rightarrow> ('w, 'a) action) \<Rightarrow> ('w, 'a) action" where
  "routed self mutation f w =
     (case backend_for self mutation of Inl e \<Rightarrow> (Inl e, w) | Inr backend \<Rightarrow> f backend w)"

text \<open>The loop of \<open>detect\<close>: the latest observation time and the capabilities so far.\<close>

fun detect_all ::
    "'w backend list \<Rightarrow> ('w, timestamp) action \<Rightarrow> timestamp option \<Rightarrow> capability_descriptor list \<Rightarrow>
     ('w, timestamp option \<times> capability_descriptor list) action" where
  "detect_all [] clock at capabilities w = (Inr (at, capabilities), w)"
| "detect_all (backend # rest) clock at capabilities w =
     (case be_detect backend clock w of
        (Inl e, w) \<Rightarrow> (Inl e, w)
      | (Inr inventory, w) \<Rightarrow>
          detect_all rest clock
            (Some (case at of None \<Rightarrow> ci_observed_at inventory
              | Some current \<Rightarrow> max current (ci_observed_at inventory)))
            (capabilities @ ci_capabilities inventory) w)"

definition registry_detect ::
    "'w registry \<Rightarrow> ('w, timestamp) action \<Rightarrow> ('w, capability_inventory) action" where
  "registry_detect self clock w =
     (case detect_all (rg_backends self) clock None [] w of
        (Inl e, w) \<Rightarrow> (Inl e, w)
      | (Inr (at, capabilities), w) \<Rightarrow>
        (case at of
           Some at \<Rightarrow> (Inr \<lparr>ci_observed_at = at, ci_capabilities = capabilities\<rparr>, w)
         | None \<Rightarrow>
           (case clock w of (r, w) \<Rightarrow>
             (Inr \<lparr>ci_observed_at = (case r of Inl _ \<Rightarrow> Timestamp 0 | Inr now \<Rightarrow> now),
               ci_capabilities = capabilities\<rparr>, w))))"

definition registry_backend :: "'w registry \<Rightarrow> 'w backend" where
  "registry_backend self = \<lparr>
     be_descriptor = rg_descriptor self,
     be_owns = (\<lambda>b. list_ex (\<lambda>candidate. be_owns candidate b) (rg_backends self)),
     be_detect = registry_detect self,
     be_snapshot = (\<lambda>m now. routed self m (\<lambda>b. be_snapshot b m now)),
     be_apply = (\<lambda>m s. routed self m (\<lambda>b. be_apply b m s)),
     be_verify = (\<lambda>m e i. routed self m (\<lambda>b. be_verify b m e i)),
     be_restore = (\<lambda>m s own. routed self m (\<lambda>b. be_restore b m s own)),
     be_admission = (\<lambda>m i. routed self m (\<lambda>b. be_admission b m i)),
     be_target = (\<lambda>m i. routed self m (\<lambda>b. be_target b m i))\<rparr>"

section \<open>Ownership is exclusive\<close>

text \<open>
  What registration maintains: no two backends share an identity, a capability or an operation, and
  the registry's own descriptor lists exactly what its backends own, in order.
\<close>

definition foreign_owners :: "backend_descriptor \<Rightarrow> backend_descriptor \<Rightarrow> bool" where
  "foreign_owners d e \<longleftrightarrow> bd_id d \<noteq> bd_id e
     \<and> set (bd_capabilities d) \<inter> set (bd_capabilities e) = {}
     \<and> set (bd_operations d) \<inter> set (bd_operations e) = {}"

definition disjoint_owners :: "backend_descriptor list \<Rightarrow> bool" where
  "disjoint_owners = sorted_wrt foreign_owners"

definition registry_ok :: "'w registry \<Rightarrow> bool" where
  "registry_ok r \<longleftrightarrow> (let ds = map be_descriptor (rg_backends r) in disjoint_owners ds
     \<and> bd_capabilities (rg_descriptor r) = sort (concat (map bd_capabilities ds))
     \<and> bd_operations (rg_descriptor r) = sort (concat (map bd_operations ds)))"

lemma registry_new_ok: "registry_ok BackendRegistry_new"
  by (simp add: registry_ok_def BackendRegistry_new_def disjoint_owners_def)

lemma sort_sort_append: "sort (sort xs @ ys) = sort (xs @ ys)"
  by (rule properties_for_sort) simp_all

lemma backend_str_eq [simp]: "backend_str a = backend_str b \<longleftrightarrow> a = b"
  by (auto intro: backend_id.expand)

lemma register_ok:
  "register b r = (Inr u, r') \<longleftrightarrow>
     (\<forall>d \<in> set (rg_backends r). foreign_owners (be_descriptor d) (be_descriptor b))
     \<and> r' = r\<lparr>rg_backends := rg_backends r @ [b], rg_descriptor := (rg_descriptor r)\<lparr>
         bd_capabilities := sort (bd_capabilities (rg_descriptor r) @ bd_capabilities (be_descriptor b)),
         bd_operations := sort (bd_operations (rg_descriptor r) @ bd_operations (be_descriptor b))\<rparr>\<rparr>"
proof -
  let ?d = "be_descriptor b" and ?ds = "map be_descriptor (rg_backends r)"
  have "(\<forall>d \<in> set ?ds. foreign_owners d ?d) \<longleftrightarrow> \<not> list_ex (\<lambda>d. bd_id d = bd_id ?d) ?ds
      \<and> find (\<lambda>c. list_ex (\<lambda>d. c \<in> set (bd_capabilities d)) ?ds) (bd_capabilities ?d) = None
      \<and> \<not> list_ex (\<lambda>p. list_ex (\<lambda>d. p \<in> set (bd_operations d)) ?ds) (bd_operations ?d)"
    unfolding foreign_owners_def list_ex_iff find_None_iff by blast
  then show ?thesis
    by (auto simp: register_def Let_def split: option.splits)
qed

text \<open>The registries that registration builds, refused registrations included.\<close>

inductive registered :: "'w registry \<Rightarrow> bool" where
  "registered BackendRegistry_new"
| "registered r \<Longrightarrow> register b r = (res, r') \<Longrightarrow> registered r'"

lemma registered_ok: "registered r \<Longrightarrow> registry_ok r"
proof (induction rule: registered.induct)
  case (2 r b res r')
  show ?case
  proof (cases res)
    case Inl
    with 2 have "r' = r" by (auto simp: register_def Let_def split: if_splits option.splits)
    with 2 show ?thesis by simp
  next
    case (Inr u)
    with 2 register_ok [of b r u r'] show ?thesis
      by (auto simp: registry_ok_def Let_def disjoint_owners_def sorted_wrt_append sort_sort_append)
  qed
qed (rule registry_new_ok)

text \<open>
  C24: registration keeps ownership exclusive. From an empty registry, whatever backends are
  registered, and whether or not some registrations are refused, no two registered backends share an
  identity, a capability or an operation, and the registry advertises exactly the sorted union of
  what its backends own.
\<close>

theorem registry_ownership_exclusive: "registered r \<Longrightarrow> registry_ok r"
  by (rule registered_ok)

text \<open>An example: one backend that owns the CPU boost operation, registered.\<close>

definition example_backend :: "unit backend" where
  "example_backend = (let d = \<lparr>bd_id = BackendId ''cpu'', bd_version = ''1'',
       bd_capabilities = [CapabilityId ''cpu.boost''], bd_operations = [OperationId ''cpu.boost'']\<rparr>
     in \<lparr>be_descriptor = d, be_owns = default_owns d,
       be_detect = (\<lambda>clock w. (Inr \<lparr>ci_observed_at = Timestamp 5, ci_capabilities = []\<rparr>, w)),
       be_snapshot = (\<lambda>m t w. (Inr example_snapshot, w)),
       be_apply = (\<lambda>m s w. (Inl (SysboostError_new ApplyError ''refused''), w)),
       be_verify = (\<lambda>m e i w. (Inr e, w)),
       be_restore = (\<lambda>m s own w. (Inl (SysboostError_new RestoreError ''refused''), w)),
       be_admission = default_admission d default_target, be_target = default_target\<rparr>)"

definition example_registry :: "unit registry" where
  "example_registry = snd (register example_backend BackendRegistry_new)"

lemma example_registered: "registered example_registry"
  unfolding example_registry_def by (rule registered.intros(2) [OF registered.intros(1) prod.collapse [symmetric]])

theorem registry_ownership_exclusive_witness: "registry_ok example_registry"
  by (rule registry_ownership_exclusive [OF example_registered])

text \<open>
  Dispatch is determined by ownership, not by registration order: a registered backend that owns
  the operation and the capability of a mutation is the one every call of the registry for that
  mutation reaches, with the same result and effect; if no backend owns it, the registry refuses and
  changes nothing.
\<close>

theorem registry_routes_to_owner:
  assumes "registered r"
  shows "(b \<in> set (rg_backends r) \<longrightarrow> owns_mutation (be_descriptor b) m \<longrightarrow>
      be_snapshot (registry_backend r) m t w = be_snapshot b m t w
      \<and> be_apply (registry_backend r) m s w = be_apply b m s w
      \<and> be_verify (registry_backend r) m e ident w = be_verify b m e ident w
      \<and> be_restore (registry_backend r) m s own w = be_restore b m s own w
      \<and> be_admission (registry_backend r) m ident w = be_admission b m ident w)
    \<and> ((\<forall>b \<in> set (rg_backends r). \<not> owns_mutation (be_descriptor b) m) \<longrightarrow>
      (\<exists>error. be_apply (registry_backend r) m s w = (Inl error, w)
        \<and> be_restore (registry_backend r) m s own w = (Inl error, w)
        \<and> err_code error = error_code.Unsupported))"
proof -
  let ?owns = "\<lambda>b. owns_mutation (be_descriptor b) m"
  have ex: "sorted_wrt foreign_owners (map be_descriptor (rg_backends r))"
    using registered_ok [OF assms] by (simp add: registry_ok_def disjoint_owners_def Let_def)
  have unique: "sorted_wrt foreign_owners (map be_descriptor bs) \<Longrightarrow> b \<in> set bs \<Longrightarrow> ?owns b \<Longrightarrow>
      find ?owns bs = Some b" for b bs
    by (induction bs) (auto simp: foreign_owners_def owns_mutation_def)
  have none: "find ?owns (rg_backends r) = None" if "\<forall>b \<in> set (rg_backends r). \<not> ?owns b"
    using that by (auto simp: find_None_iff)
  show ?thesis
    using unique [OF ex] none by (auto simp: registry_backend_def routed_def backend_for_def)
qed

theorem registry_routes_to_owner_witness:
  "\<forall>e ident. be_verify (registry_backend example_registry) example_mutation e ident () = (Inr e, ())"
proof (intro allI)
  fix e ident
  have "rg_backends example_registry = [example_backend]"
    by (simp add: example_registry_def register_def BackendRegistry_new_def Let_def list_ex_iff find_None_iff
        split: option.split)
  then have "example_backend \<in> set (rg_backends example_registry)" by simp
  moreover have "owns_mutation (be_descriptor example_backend) example_mutation" by code_simp
  ultimately have "be_verify (registry_backend example_registry) example_mutation e ident ()
      = be_verify example_backend example_mutation e ident ()"
    using registry_routes_to_owner [OF example_registered] by blast
  then show "be_verify (registry_backend example_registry) example_mutation e ident () = (Inr e, ())"
    by (simp add: example_backend_def Let_def)
qed


end
