(* ===== verification/Testkit.thy ===== *)
theory Testkit
  imports Engine Backends Ordered_Maps Codec_Roundtrip
begin

text \<open>
  The executable ports of \<open>sysboost-testkit/src/lib.rs\<close>: the in-memory state store over encoded
  state files, the session lock, the fixed session-ID source, the fake mutation backend and the
  fixed clock, and the ports of a transaction engine built from them. The \<open>Debug\<close> rendering of typed
  values, which the fake backend fingerprints, is the parameter \<open>debug\<close>.
\<close>

section \<open>The state store\<close>

record memory_store =
  ms_files :: "(session_id \<times> u8 list) list"
  ms_write_count :: nat
  ms_fail_create :: bool
  ms_fail_replace :: bool
  ms_fail_on_write :: "nat option"
  ms_fail_load :: bool

definition should_fail_write :: "bool \<Rightarrow> memory_store \<Rightarrow> bool \<times> memory_store" where
  "should_fail_write creating self =
     (let count = (if Suc (ms_write_count self) < usize_limit then Suc (ms_write_count self)
           else ms_write_count self)
      in (ms_fail_on_write self = Some count \<or> creating \<and> ms_fail_create self
          \<or> \<not> creating \<and> ms_fail_replace self,
          self\<lparr>ms_write_count := count\<rparr>))"

definition store_insert :: "session_record \<Rightarrow> (memory_store, unit) action" where
  "store_insert r self =
     (case SessionRecord_encode r of
        Inl e \<Rightarrow> (Inl e, self)
      | Inr bytes \<Rightarrow> (Inr (), self\<lparr>ms_files := bt_insert (sr_session_id r) bytes (ms_files self)\<rparr>))"

definition memory_create :: "session_record \<Rightarrow> (memory_store, unit) action" where
  "memory_create r self =
     (case should_fail_write True self of (failing, self) \<Rightarrow>
      if failing
      then (Inl (SysboostError_new DurabilityError ''memory state store injected create failure''), self)
      else if map_of (ms_files self) (sr_session_id r) \<noteq> None
      then (Inl (SysboostError_new InvariantViolation ''memory state store session ID collision''), self)
      else store_insert r self)"

definition memory_replace :: "session_record \<Rightarrow> (memory_store, unit) action" where
  "memory_replace r self =
     (case should_fail_write False self of (failing, self) \<Rightarrow>
      if failing
      then (Inl (SysboostError_new DurabilityError
        ''memory state store injected replacement failure''), self)
      else if map_of (ms_files self) (sr_session_id r) = None
      then (Inl (SysboostError_new DurabilityError
        ''memory state store replacement target is missing''), self)
      else store_insert r self)"

definition memory_record :: "session_id \<Rightarrow> memory_store \<Rightarrow> session_record result" where
  "memory_record session_id self =
     rbind (ok_or (SysboostError_new TargetError ''memory state is missing'')
       (map_of (ms_files self) session_id)) SessionRecord_decode"

definition memory_load :: "session_id \<Rightarrow> (memory_store, session_record) action" where
  "memory_load session_id self =
     (if ms_fail_load self
      then (Inl (SysboostError_new DurabilityError ''memory state store injected load failure''), self)
      else (memory_record session_id self, self))"

text \<open>\<open>.collect::<Result<Vec<_>, _>>()\<close> stops at the first file that does not decode.\<close>

fun decode_all :: "u8 list list \<Rightarrow> session_record list result" where
  "decode_all [] = Inr []"
| "decode_all (bytes # rest) =
     rbind (SessionRecord_decode bytes) (\<lambda>r. rbind (decode_all rest) (\<lambda>rs. Inr (r # rs)))"

definition memory_load_unfinished :: "(memory_store, session_record list) action" where
  "memory_load_unfinished self =
     (if ms_fail_load self
      then (Inl (SysboostError_new DurabilityError ''memory state store injected load failure''), self)
      else (rbind (decode_all (map snd (ms_files self))) (\<lambda>records.
          Inr (sort_key sr_session_id
            (List.filter (\<lambda>r. sr_state r \<noteq> session_state.Restored) records))), self))"

definition memory_remove :: "session_id \<Rightarrow> (memory_store, unit) action" where
  "memory_remove session_id self =
     (Inr (), self\<lparr>ms_files := bt_remove session_id (ms_files self)\<rparr>)"

definition seed_raw :: "session_id \<Rightarrow> u8 list \<Rightarrow> memory_store \<Rightarrow> memory_store" where
  "seed_raw session_id bytes self = self\<lparr>ms_files := bt_insert session_id bytes (ms_files self)\<rparr>"

section \<open>The fake backend\<close>

record fake_backend =
  fb_values :: "target_id \<rightharpoonup> typed_value"
  fb_apply_order :: "mutation_id list"
  fb_restore_order :: "mutation_id list"
  fb_verify_order :: "mutation_id list"
  fb_fail_snapshot :: "mutation_id option"
  fb_fail_apply :: "mutation_id option"
  fb_fail_apply_after_write :: "mutation_id option"
  fb_fail_verify :: "mutation_id option"
  fb_fail_restore :: "mutation_id option"

text \<open>\<open>fingerprint\<close>: the byte loop and the initial lanes are those of the record checksum.\<close>

definition fake_fingerprint :: "(typed_value \<Rightarrow> string) \<Rightarrow> typed_value \<Rightarrow> state_fingerprint" where
  "fake_fingerprint debug v = StateFingerprint (concat (map (to_be 8)
     (mix_lanes 0 (str_bytes (debug v))
       [0xcbf29ce484222325, 0x84222325cbf29ce4, 0x9e3779b185ebca87, 0x517cc1b727220a95])))"

definition fake_current :: "target_id \<Rightarrow> fake_backend \<Rightarrow> typed_value result" where
  "fake_current target self =
     ok_or (SysboostError_new SnapshotError ''fake target has no seeded value'') (fb_values self target)"

definition fake_failure :: "error_code \<Rightarrow> stage \<Rightarrow> string \<Rightarrow> sysboost_error" where
  "fake_failure code st message = with_stage st (SysboostError_new code message)"

definition fake_seed :: "target_id \<Rightarrow> typed_value \<Rightarrow> fake_backend \<Rightarrow> fake_backend" where
  "fake_seed target v self = self\<lparr>fb_values := (fb_values self)(target \<mapsto> v)\<rparr>"

definition fake_external_replace :: "target_id \<Rightarrow> typed_value \<Rightarrow> fake_backend \<Rightarrow> fake_backend" where
  "fake_external_replace target v self =
     (if fb_values self target = None then self else fake_seed target v self)"

definition fake_snapshot ::
    "(typed_value \<Rightarrow> string) \<Rightarrow> planned_mutation \<Rightarrow> timestamp \<Rightarrow> (fake_backend, snapshot) action" where
  "fake_snapshot debug mutation now self =
     (if fb_fail_snapshot self = Some (pm_mutation_id mutation)
      then (Inl (fake_failure SnapshotError Snapshot ''fake snapshot failure''), self)
      else (rbind (fake_current (pm_target mutation) self) (\<lambda>current.
        rbind (BoundedBytes_new (str_bytes (debug current))) (\<lambda>raw.
        Inr \<lparr>sn_mutation_id = pm_mutation_id mutation, sn_target = pm_target mutation,
          sn_original_raw = raw, sn_original_typed = current,
          sn_original_fingerprint = fake_fingerprint debug current, sn_equality = ScalarExact,
          sn_target_identity = TargetIdentity (replicate 16 (ucast (mutation_num (pm_mutation_id mutation)))),
          sn_captured_at = now\<rparr>)), self))"

definition fake_apply ::
    "(typed_value \<Rightarrow> string) \<Rightarrow> planned_mutation \<Rightarrow> snapshot \<Rightarrow> (fake_backend, apply_receipt) action" where
  "fake_apply debug mutation snapshot self =
     (case fake_current (pm_target mutation) self of
        Inl e \<Rightarrow> (Inl e, self)
      | Inr current \<Rightarrow>
      if fb_fail_apply self = Some (pm_mutation_id mutation)
      then (Inl (fake_failure ApplyError Apply ''fake apply failure before write''), self)
      else
        let self = fake_seed (pm_target mutation) (pm_desired mutation) self;
            self = self\<lparr>fb_apply_order := fb_apply_order self @ [pm_mutation_id mutation]\<rparr>;
            ownership = fake_fingerprint debug (pm_desired mutation)
        in if fb_fail_apply_after_write self = Some (pm_mutation_id mutation)
        then (Inl (retryable Unknown (fake_failure ApplyError Apply ''fake apply failure after write'')), self)
        else (Inr \<lparr>ar_mutation_id = pm_mutation_id mutation,
          ar_observed_precondition = fake_fingerprint debug current,
          ar_observed_postcondition = ownership, ar_ownership_fingerprint = ownership\<rparr>, self))"

definition fake_verify ::
    "(typed_value \<Rightarrow> string) \<Rightarrow> planned_mutation \<Rightarrow> state_fingerprint \<Rightarrow> target_identity \<Rightarrow>
     (fake_backend, state_fingerprint) action" where
  "fake_verify debug mutation expected ident self =
     (let self = self\<lparr>fb_verify_order := fb_verify_order self @ [pm_mutation_id mutation]\<rparr> in
      if fb_fail_verify self = Some (pm_mutation_id mutation)
      then (Inl (fake_failure VerificationError Verify ''fake verification failure''),
        self\<lparr>fb_fail_verify := None\<rparr>)
      else (rbind (fake_current (pm_target mutation) self) (\<lambda>v. Inr (fake_fingerprint debug v)), self))"

definition fake_restore ::
    "(typed_value \<Rightarrow> string) \<Rightarrow> planned_mutation \<Rightarrow> snapshot \<Rightarrow> state_fingerprint \<Rightarrow>
     (fake_backend, restore_receipt) action" where
  "fake_restore debug mutation snapshot expected_ownership self =
     (let self = self\<lparr>fb_restore_order := fb_restore_order self @ [pm_mutation_id mutation]\<rparr> in
      if fb_fail_restore self = Some (pm_mutation_id mutation)
      then (Inl (fake_failure RestoreError Restore ''fake restore failure''), self)
      else case fake_current (pm_target mutation) self of
        Inl e \<Rightarrow> (Inl e, self)
      | Inr v \<Rightarrow>
        (if fake_fingerprint debug v \<noteq> expected_ownership
         then (Inl (fake_failure RestoreConflict Restore ''fake restore ownership precondition changed''), self)
         else (Inr \<lparr>rr_mutation_id = pm_mutation_id mutation,
             rr_restored_fingerprint = fake_fingerprint debug (sn_original_typed snapshot),
             rr_verified = True\<rparr>,
           fake_seed (pm_target mutation) (sn_original_typed snapshot) self)))"

definition fake_descriptor :: backend_descriptor where
  "fake_descriptor = \<lparr>bd_id = BackendId ''fixture.fake'', bd_version = ''fixture-v1'',
     bd_capabilities = [CapabilityId ''cpu.policy.governor''],
     bd_operations = [OperationId ''cpu.governor'']\<rparr>"

definition fake_validate_target :: "planned_mutation \<Rightarrow> target_identity \<Rightarrow> ('w, unit) action" where
  "fake_validate_target mutation expected w =
     (case pm_kind mutation of
        mutation_kind.CpuGovernor policy _ \<Rightarrow>
          (if target_str (pm_target mutation) \<noteq> ''fixture.cpu.policy.'' @ dec_digits (unat (policy_num policy))
              \<or> expected \<noteq> TargetIdentity (replicate 16 (ucast (policy_num policy)))
           then (Inl (with_target (pm_target mutation) (SysboostError_new TargetError
             ''fake backend rejected a target outside its compiled-in allowlist'')), w)
           else (Inr (), w))
      | _ \<Rightarrow> (Inl (SysboostError_new error_code.Unsupported
          ''fake backend target allowlist covers only CPU governor fixtures''), w))"

definition fake_detect :: "('w, capability_inventory) action" where
  "fake_detect w = (Inl (fake_failure error_code.Unsupported Detect
     ''fake mutation backend has no discovery implementation''), w)"

definition FakeMutationBackend :: "(typed_value \<Rightarrow> string) \<Rightarrow> fake_backend backend" where
  "FakeMutationBackend debug = \<lparr>be_descriptor = fake_descriptor, be_owns = default_owns fake_descriptor,
     be_detect = (\<lambda>_. fake_detect), be_snapshot = fake_snapshot debug, be_apply = fake_apply debug,
     be_verify = fake_verify debug, be_restore = fake_restore debug,
     be_admission = default_admission fake_descriptor fake_validate_target,
     be_target = fake_validate_target\<rparr>"

section \<open>The test engine\<close>

record testkit =
  tk_store :: memory_store
  tk_held :: bool
  tk_ids :: "session_id list"
  tk_backend :: fake_backend
  tk_now :: timestamp

definition lock_acquire :: "(bool, unit) action" where
  "lock_acquire held =
     (if held then (Inl (SysboostError_new AuthorizationError ''memory mutation lock is already held''), held)
      else (Inr (), True))"

definition next_fixed_id :: "(session_id list, session_id) action" where
  "next_fixed_id ids =
     (case ids of
        [] \<Rightarrow> (Inl (SysboostError_new DurabilityError ''fixed session-ID fixture is exhausted''), ids)
      | i # rest \<Rightarrow> (Inr i, rest))"

text \<open>A port on one field of the world.\<close>

definition on_store :: "(memory_store, 'a) action \<Rightarrow> (testkit, 'a) action" where
  "on_store f w = (case f (tk_store w) of (r, s) \<Rightarrow> (r, w\<lparr>tk_store := s\<rparr>))"

definition on_backend :: "(fake_backend, 'a) action \<Rightarrow> (testkit, 'a) action" where
  "on_backend f w = (case f (tk_backend w) of (r, b) \<Rightarrow> (r, w\<lparr>tk_backend := b\<rparr>))"

definition testkit_ports :: "(typed_value \<Rightarrow> string) \<Rightarrow> (testkit, unit) ports" where
  "testkit_ports debug = \<lparr>
     port_snapshot = (\<lambda>m t. on_backend (be_snapshot (FakeMutationBackend debug) m t)),
     port_apply = (\<lambda>m s. on_backend (be_apply (FakeMutationBackend debug) m s)),
     port_verify = (\<lambda>m e i. on_backend (be_verify (FakeMutationBackend debug) m e i)),
     port_restore = (\<lambda>m s own. on_backend (be_restore (FakeMutationBackend debug) m s own)),
     port_create = (\<lambda>r. on_store (memory_create r)),
     port_replace = (\<lambda>r. on_store (memory_replace r)),
     port_load = (\<lambda>i. on_store (memory_load i)),
     port_load_unfinished = on_store memory_load_unfinished,
     port_remove = (\<lambda>i. on_store (memory_remove i)),
     port_acquire = (\<lambda>w. case lock_acquire (tk_held w) of (r, held) \<Rightarrow> (r, w\<lparr>tk_held := held\<rparr>)),
     port_release = (\<lambda>_ w. w\<lparr>tk_held := False\<rparr>),
     port_next_id = (\<lambda>w. case next_fixed_id (tk_ids w) of (r, ids) \<Rightarrow> (r, w\<lparr>tk_ids := ids\<rparr>)),
     port_now = (\<lambda>w. (Inr (tk_now w), w))\<rparr>"

section \<open>The store refines a map of records\<close>

text \<open>
  The interface a client of the state store relies on: an abstract content, which loads read and
  successful writes update, for records of the Rust types (\<open>admissible\<close>).
\<close>

locale session_store =
  fixes admissible :: "session_record \<Rightarrow> bool"
    and contents :: "'s \<Rightarrow> session_id \<rightharpoonup> session_record"
    and invariant :: "'s \<Rightarrow> bool"
    and create replace :: "session_record \<Rightarrow> ('s, unit) action"
    and load :: "session_id \<Rightarrow> ('s, session_record) action"
    and remove :: "session_id \<Rightarrow> ('s, unit) action"
  assumes create_inv: "invariant s \<Longrightarrow> create r s = (res, s') \<Longrightarrow> invariant s'"
    and replace_inv: "invariant s \<Longrightarrow> replace r s = (res, s') \<Longrightarrow> invariant s'"
    and load_inv: "invariant s \<Longrightarrow> load i s = (lres, s') \<Longrightarrow> invariant s' \<and> contents s' = contents s"
    and remove_inv: "invariant s \<Longrightarrow> remove i s = (res, s') \<Longrightarrow> invariant s'"
    and create_ok: "invariant s \<Longrightarrow> admissible r \<Longrightarrow> create r s = (Inr (), s') \<Longrightarrow>
      contents s (sr_session_id r) = None \<and> contents s' = (contents s)(sr_session_id r \<mapsto> r)"
    and replace_ok: "invariant s \<Longrightarrow> admissible r \<Longrightarrow> replace r s = (Inr (), s') \<Longrightarrow>
      contents s' = (contents s)(sr_session_id r \<mapsto> r)"
    and write_fails: "invariant s \<Longrightarrow> create r s = (Inl e, s') \<or> replace r s = (Inl e, s') \<Longrightarrow>
      contents s' = contents s"
    and load_ok: "invariant s \<Longrightarrow> load i s = (Inr r, s') \<Longrightarrow> contents s i = Some r"
    and remove_ok: "invariant s \<Longrightarrow> remove i s = (Inr (), s') \<Longrightarrow> contents s' = (contents s)(i := None)"
begin

text \<open>A write that returned an error leaves what later loads can return unchanged.\<close>

lemma failed_write_invisible:
  assumes "invariant s" and "create r s = (Inl e, s') \<or> replace r s = (Inl e, s')"
    and "load i s' = (Inr r', s'')"
  shows "contents s i = Some r'"
  using assms create_inv replace_inv write_fails load_ok by metis

lemma read_your_write:
  assumes "invariant s" and "admissible r" and "create r s = (Inr (), s') \<or> replace r s = (Inr (), s')"
    and "load (sr_session_id r) s' = (Inr r', s'')"
  shows "r' = r"
  using assms create_inv replace_inv create_ok replace_ok load_ok by (metis fun_upd_same option.inject)

end

definition memory_contents :: "memory_store \<Rightarrow> session_id \<rightharpoonup> session_record" where
  "memory_contents s i = (case map_of (ms_files s) i of
     Some bytes \<Rightarrow> (case SessionRecord_decode bytes of Inr r \<Rightarrow> Some r | Inl _ \<Rightarrow> None) | None \<Rightarrow> None)"

definition memory_inv :: "memory_store \<Rightarrow> bool" where
  "memory_inv s \<longleftrightarrow> bt_sorted (ms_files s)"

lemma should_fail_files [simp]: "ms_files (snd (should_fail_write b s)) = ms_files s"
  "ms_fail_load (snd (should_fail_write b s)) = ms_fail_load s"
  by (simp_all add: should_fail_write_def Let_def)

lemma store_insert_cases:
  assumes "store_insert r s = (res, s')" and "memory_inv s"
  shows "memory_inv s' \<and> ms_fail_load s' = ms_fail_load s"
    "res = Inl e \<Longrightarrow> s' = s"
    "res = Inr u \<Longrightarrow> \<exists>bytes. SessionRecord_encode r = Inr bytes
       \<and> map_of (ms_files s') = (map_of (ms_files s))(sr_session_id r \<mapsto> bytes)"
  using assms by (auto simp: store_insert_def memory_inv_def split: sum.splits)

lemma memory_write_cases:
  assumes "memory_create r s = (res, s') \<or> memory_replace r s = (res, s')" and "memory_inv s"
  shows "memory_inv s' \<and> ms_fail_load s' = ms_fail_load s"
    "res = Inl e \<Longrightarrow> ms_files s' = ms_files s"
    "res = Inr u \<Longrightarrow> \<exists>bytes. SessionRecord_encode r = Inr bytes
       \<and> map_of (ms_files s') = (map_of (ms_files s))(sr_session_id r \<mapsto> bytes)"
proof -
  define s1 where "s1 = snd (should_fail_write True s)"
  define s2 where "s2 = snd (should_fail_write False s)"
  have s: "ms_files s1 = ms_files s" "ms_files s2 = ms_files s"
    "ms_fail_load s1 = ms_fail_load s" "ms_fail_load s2 = ms_fail_load s"
    by (simp_all add: s1_def s2_def)
  have "(\<exists>e. res = Inl e \<and> (s' = s1 \<or> s' = s2)) \<or> store_insert r s1 = (res, s') \<or> store_insert r s2 = (res, s')"
    using assms(1) unfolding memory_create_def memory_replace_def s1_def s2_def
    by (auto split: prod.splits if_splits)
  moreover have "memory_inv s1" "memory_inv s2" using assms(2) s by (simp_all add: memory_inv_def)
  ultimately show "memory_inv s' \<and> ms_fail_load s' = ms_fail_load s"
    "res = Inl e \<Longrightarrow> ms_files s' = ms_files s"
    "res = Inr u \<Longrightarrow> \<exists>bytes. SessionRecord_encode r = Inr bytes
       \<and> map_of (ms_files s') = (map_of (ms_files s))(sr_session_id r \<mapsto> bytes)"
    using s store_insert_cases [of r s1 res s'] store_insert_cases [of r s2 res s'] by auto
qed

lemma memory_contents_write:
  assumes "SessionRecord_encode r = Inr bytes" and "wf_record r"
    and "map_of (ms_files s') = (map_of (ms_files s))(sr_session_id r \<mapsto> bytes)"
  shows "memory_contents s' = (memory_contents s)(sr_session_id r \<mapsto> r)"
  using assms decode_encoded by (auto simp: memory_contents_def fun_eq_iff)

lemma memory_load_simp [simp]: "snd (memory_load i s) = s"
  by (simp add: memory_load_def)

interpretation memory: session_store wf_record memory_contents memory_inv
  memory_create memory_replace memory_load memory_remove
proof
  fix s r s' res and lres :: "session_record result" and i e
  show "memory_inv s'" if "memory_inv s" "memory_create r s = (res, s')"
    using that memory_write_cases(1) by blast
  show "memory_inv s'" if "memory_inv s" "memory_replace r s = (res, s')"
    using that memory_write_cases(1) by blast
  show "memory_inv s' \<and> memory_contents s' = memory_contents s"
    if "memory_inv s" "memory_load i s = (lres, s')"
    using that memory_load_simp [of i s] by simp
  show "memory_inv s'" if "memory_inv s" "memory_remove i s = (res, s')"
    using that by (auto simp: memory_remove_def memory_inv_def)
  show "memory_contents s (sr_session_id r) = None
      \<and> memory_contents s' = (memory_contents s)(sr_session_id r \<mapsto> r)"
    if "memory_inv s" "wf_record r" "memory_create r s = (Inr (), s')"
  proof
    show "memory_contents s (sr_session_id r) = None"
      using that(3) by (auto simp: memory_create_def memory_contents_def should_fail_write_def Let_def
          split: if_splits)
    show "memory_contents s' = (memory_contents s)(sr_session_id r \<mapsto> r)"
      using that memory_write_cases(3) memory_contents_write by blast
  qed
  show "memory_contents s' = (memory_contents s)(sr_session_id r \<mapsto> r)"
    if "memory_inv s" "wf_record r" "memory_replace r s = (Inr (), s')"
    using that memory_write_cases(3) memory_contents_write by blast
  show "memory_contents s' = memory_contents s"
    if "memory_inv s" "memory_create r s = (Inl e, s') \<or> memory_replace r s = (Inl e, s')"
    using memory_write_cases(2) [OF that(2,1) refl] by (simp add: memory_contents_def fun_eq_iff)
  show "memory_contents s i = Some r" if "memory_inv s" "memory_load i s = (Inr r, s')"
    using that(2) by (auto simp: memory_load_def memory_record_def memory_contents_def rbind_eq_Inr
        split: if_splits)
  show "memory_contents s' = (memory_contents s)(i := None)"
    if "memory_inv s" "memory_remove i s = (Inr (), s')"
    using that by (auto simp: memory_remove_def memory_contents_def memory_inv_def fun_eq_iff)
qed

section \<open>Properties of the store\<close>

text \<open>
  The store gives back what was written. After a successful create or replace of a record, a
  load of that session returns exactly that record, and every other session loads as before; after a
  write that returned an error, every session loads as before.
\<close>

theorem store_reads_its_writes:
  assumes "memory_inv s" and "wf_record r"
    and "memory_create r s = (res, s') \<or> memory_replace r s = (res, s')"
  shows "(res = Inr () \<longrightarrow> \<not> ms_fail_load s \<longrightarrow> memory_load (sr_session_id r) s' = (Inr r, s'))
    \<and> (\<forall>i. (res = Inr () \<longrightarrow> i \<noteq> sr_session_id r) \<longrightarrow> fst (memory_load i s') = fst (memory_load i s))"
proof -
  note cases = memory_write_cases [OF assms(3,1)]
  have "fst (memory_load i s') = fst (memory_load i s)"
    if "map_of (ms_files s') i = map_of (ms_files s) i" for i
    using that cases(1) by (simp add: memory_load_def memory_record_def)
  moreover have "memory_load (sr_session_id r) s' = (Inr r, s')" if "res = Inr ()" "\<not> ms_fail_load s"
    using cases(1) cases(3) [OF that(1)] that(2) decode_encoded [OF assms(2)]
    by (auto simp: memory_load_def memory_record_def)
  ultimately show ?thesis
    using cases(2) cases(3) by (cases res) auto
qed

lemma decode_all_ok: "decode_all bs = Inr rs \<longleftrightarrow> map SessionRecord_decode bs = map Inr rs"
  by (induction bs arbitrary: rs) (auto simp: rbind_eq_Inr Cons_eq_map_conv)

text \<open>
  Recovery sees every unfinished session, in identity order, or fails closed. If any retained
  state file does not decode, \<open>load_unfinished\<close> is an error; otherwise it returns exactly the records
  of the files whose state is not \<open>Restored\<close>, sorted by session identity.
\<close>

theorem load_unfinished_exact:
  assumes "\<not> ms_fail_load s"
  shows "(\<exists>e. fst (memory_load_unfinished s) = Inl e) \<and> (\<exists>i b e. (i, b) \<in> set (ms_files s) \<and> SessionRecord_decode b = Inl e)
    \<or> (\<exists>rs. fst (memory_load_unfinished s) = Inr rs \<and> sorted (map sr_session_id rs)
        \<and> (\<forall>(i, b) \<in> set (ms_files s). \<exists>r. SessionRecord_decode b = Inr r)
        \<and> set rs = {r. sr_state r \<noteq> session_state.Restored \<and> (\<exists>i b. (i, b) \<in> set (ms_files s) \<and> SessionRecord_decode b = Inr r)})"
proof (cases "decode_all (map snd (ms_files s))")
  case (Inl e)
  have "\<exists>b \<in> set bs. \<exists>e. SessionRecord_decode b = Inl e" if "decode_all bs = Inl e" for bs e
    using that by (induction bs arbitrary: e) (auto simp: rbind_eq_Inl)
  with Inl assms show ?thesis by (fastforce simp: memory_load_unfinished_def)
next
  case (Inr rs)
  then have "map SessionRecord_decode (map snd (ms_files s)) = map Inr rs" by (simp add: decode_all_ok)
  from arg_cong [OF this, of set]
  have image: "(\<lambda>f. SessionRecord_decode (snd f)) ` set (ms_files s) = Inr ` set rs"
    by (simp add: image_image)
  have all: "\<exists>r \<in> set rs. SessionRecord_decode b = Inr r" if "(i, b) \<in> set (ms_files s)" for i b
    using image that by (metis (mono_tags) imageE image_eqI snd_conv)
  have sound: "\<exists>i b. (i, b) \<in> set (ms_files s) \<and> SessionRecord_decode b = Inr r" if "r \<in> set rs" for r
    using image that by (metis (mono_tags, lifting) imageE image_eqI prod.collapse)
  have "{r. sr_state r \<noteq> session_state.Restored \<and> (\<exists>i b. (i, b) \<in> set (ms_files s) \<and> SessionRecord_decode b = Inr r)}
      = {r \<in> set rs. sr_state r \<noteq> session_state.Restored}"
    using all sound by (metis (no_types, opaque_lifting) sum.inject(2))
  moreover have "\<forall>(i, b) \<in> set (ms_files s). \<exists>r. SessionRecord_decode b = Inr r" using all by blast
  ultimately show ?thesis using Inr assms
    by (intro disjI2 exI [of _ "sort_key sr_session_id (List.filter (\<lambda>r. sr_state r \<noteq> session_state.Restored) rs)"])
      (auto simp: memory_load_unfinished_def)
qed

definition example_store :: memory_store where
  "example_store = \<lparr>ms_files = [], ms_write_count = 0, ms_fail_create = False, ms_fail_replace = False,
     ms_fail_on_write = None, ms_fail_load = False\<rparr>"

theorem store_reads_its_writes_witness:
  "memory_load (sr_session_id example_record) (snd (memory_create example_record example_store))
     = (Inr example_record, snd (memory_create example_record example_store))"
proof -
  have "fst (memory_create example_record example_store) = Inr ()"
    by (simp add: memory_create_def should_fail_write_def Let_def example_store_def store_insert_def
        example_bytes_eq)
  then have "memory_create example_record example_store
      = (Inr (), snd (memory_create example_record example_store))" by (metis prod.collapse)
  from store_reads_its_writes [OF _ example_record_wf disjI1 [OF this]] show ?thesis
    by (simp add: memory_inv_def example_store_def)
qed

theorem load_unfinished_exact_witness:
  "fst (memory_load_unfinished (seed_raw (SessionId (replicate 16 1)) [] example_store)) \<noteq> Inr []"
proof -
  let ?s = "seed_raw (SessionId (replicate 16 1)) [] example_store"
  have "\<not> ms_fail_load ?s" by (simp add: seed_raw_def example_store_def)
  moreover have "\<exists>e. SessionRecord_decode [] = Inl e"
    by (simp add: SessionRecord_decode_def Let_def MAGIC_def)
  moreover have "ms_files ?s = [(SessionId (replicate 16 1), [])]"
    by (simp add: seed_raw_def example_store_def)
  ultimately show ?thesis using load_unfinished_exact [of ?s] by auto
qed

end
