(* ===== verification/Honest_Restore.thy ===== *)
theory Honest_Restore
  imports Engine_Outcome Testkit
begin

text \<open>
  What a successful restore means for the host: with a backend whose readbacks and receipts are
  true, every target the session changed is back at its captured original and no other target has
  been touched. The contract of such a backend is the locale \<open>honest_ports\<close>; the ports of the test
  kit satisfy it.
\<close>

section \<open>Vocabulary\<close>

text \<open>A loop state without failures; later failures cannot remove earlier ones.\<close>

definition clean :: "restore_progress \<Rightarrow> bool" where
  "clean p \<longleftrightarrow> rp_failures p = [] \<and> \<not> rp_uncertain p"

lemma not_clean [simp]: "\<not> clean (uncertain_failure e p)" "\<not> clean (recorded_failure e p)"
  by (simp_all add: clean_def uncertain_failure_def recorded_failure_def)

definition original :: "operation_record \<Rightarrow> state_fingerprint" where
  "original p = sn_original_fingerprint (the (op_snapshot p))"

abbreviation target_of :: "operation_record \<Rightarrow> target_id" where
  "target_of p \<equiv> pm_target (op_mutation p)"

text \<open>
  The loop moves exactly the targets of the operations that need restoring, each to its original;
  \<open>f\<close> gives the original of a target that several operations share.
\<close>

definition restores :: "nat set \<Rightarrow> session_record \<Rightarrow> target_id \<Rightarrow> bool" where
  "restores is r t \<longleftrightarrow> (\<exists>i \<in> is. needs_restore (sr_operations r ! i) \<and> target_of (sr_operations r ! i) = t)"

section \<open>The contract\<close>

text \<open>
  \<open>reading w t\<close> is the fingerprint of the state of target \<open>t\<close>: readbacks report it and change nothing,
  a verified restore receipt tells what was written, and the store, the clock and the lock do not
  touch targets.
\<close>

locale honest_ports =
  fixes P :: "('w, 'g) ports" and reading :: "'w \<Rightarrow> target_id \<Rightarrow> state_fingerprint option"
  assumes verify_reads: "port_verify P m e ident w = (Inr f, w') \<Longrightarrow> reading w (pm_target m) = Some f"
    and verify_frame: "port_verify P m e ident w = (rv, w') \<Longrightarrow> reading w' = reading w"
    and restore_writes: "port_restore P m s own w = (Inr rc, w') \<Longrightarrow> rr_verified rc \<Longrightarrow>
      reading w' = (reading w)(pm_target m \<mapsto> rr_restored_fingerprint rc)"
    and replace_frame: "port_replace P rec w = (ru, w') \<Longrightarrow> reading w' = reading w"
    and now_frame: "port_now P w = (rt, w') \<Longrightarrow> reading w' = reading w"
    and release_frame: "reading (port_release P g w) = reading w"
begin

lemma persist_frame: "persist P rec st eng = (r, eng') \<Longrightarrow> reading (world eng') = reading (world eng)"
  by (auto simp: persist_def call_def split: prod.splits dest: replace_frame)

lemma persist_progress_value:
  "persist_progress P p eng = (p', eng') \<Longrightarrow> reading (world eng') = reading (world eng)"
  by (auto simp: persist_progress_def split: prod.splits sum.splits dest: persist_frame)

lemma failed_restore_dirty: "failed_restore P k e p eng = (p', eng') \<Longrightarrow> \<not> clean p'"
  by (auto simp: failed_restore_def Let_def clean_def)

lemma persist_progress_clean: "persist_progress P p eng = (p', eng') \<Longrightarrow> clean p' \<Longrightarrow> p' = p"
  by (auto simp: persist_progress_def split: prod.splits sum.splits)

lemma proven_restore_value:
  assumes "proven_restore P k rc p eng = (p', eng')" and "clean p'"
  shows "clean p \<and> reading (world eng') = reading (world eng)"
  using assms
  by (auto simp: proven_restore_def clean_def split: prod.splits sum.splits
      dest: persist_progress_value persist_progress_clean [unfolded clean_def])
    (auto simp: uncertain_failure_def)

lemma restore_owned_value:
  assumes run: "restore_owned P m s own p eng = (p', eng')" and c: "clean p'"
  shows "clean p \<and> reading (world eng') = (reading (world eng))(pm_target m \<mapsto> sn_original_fingerprint s)"
proof -
  obtain rv w1 where v: "port_verify P m (sn_original_fingerprint s) (sn_target_identity s) (world eng) = (rv, w1)"
    by fastforce
  show ?thesis
  proof (cases rv)
    case (Inl e)
    with run v c show ?thesis
      by (auto simp: restore_owned_def call_def Let_def dest: failed_restore_dirty)
  next
    case (Inr observed)
    note reads = verify_reads [OF v [unfolded Inr]] and frame = verify_frame [OF v]
    show ?thesis
    proof (cases "observed = sn_original_fingerprint s")
      case True
      with run v Inr have "proven_restore P (pm_mutation_id m) \<lparr>rr_mutation_id = pm_mutation_id m,
          rr_restored_fingerprint = observed, rr_verified = True\<rparr> p (eng\<lparr>world := w1\<rparr>) = (p', eng')"
        by (simp add: restore_owned_def call_def Let_def)
      from proven_restore_value [OF this c] reads frame True show ?thesis
        by (auto simp: fun_eq_iff)
    next
      case False
      obtain rr w2 where r: "port_restore P m s own w1 = (rr, w2)" by fastforce
      from run v Inr False r c obtain rc where rc: "rr = Inr rc" "rr_verified rc"
          "rr_restored_fingerprint rc = sn_original_fingerprint s"
        and "proven_restore P (pm_mutation_id m) rc p (eng\<lparr>world := w2\<rparr>) = (p', eng')"
        by (auto simp: restore_owned_def call_def Let_def split: if_splits sum.splits
            dest: failed_restore_dirty)
      from proven_restore_value [OF this(4) c] restore_writes [OF r [unfolded rc(1)] rc(2)] rc(3) frame
      show ?thesis by simp
    qed
  qed
qed

text \<open>One iteration: an operation that needs restoring ends at its original, others are skipped.\<close>

lemma restore_one_value:
  assumes run: "restore_one P i p eng = (p', eng')" and c: "clean p'"
  shows "clean p \<and> reading (world eng') = (if needs_restore (sr_operations (rp_record p) ! i)
    then (reading (world eng))(pm_target (op_mutation (sr_operations (rp_record p) ! i))
      \<mapsto> sn_original_fingerprint (the (op_snapshot (sr_operations (rp_record p) ! i))))
    else reading (world eng))"
proof -
  let ?op = "sr_operations (rp_record p) ! i"
  show ?thesis
  proof (cases "needs_restore ?op")
    case False
    with run c show ?thesis
      by (auto simp: restore_one_def needs_restore_def is_restored_def Let_def split: if_splits option.splits)
  next
    case True
    then obtain a where a: "op_apply_receipt ?op = Some a" and st: "op_state ?op \<noteq> operation_state.Restored"
      by (auto simp: needs_restore_def is_restored_def)
    with run c obtain s where s: "op_snapshot ?op = Some s"
      by (auto simp: restore_one_def Let_def split: option.splits)
    from run c a s st obtain r1 p1 eng1 where
        p1: "persist_progress P (p\<lparr>rp_record := r1\<rparr>) eng = (p1, eng1)"
      and owned: "restore_owned P (op_mutation ?op) s (ar_ownership_fingerprint a) p1 eng1 = (p', eng')"
      by (auto simp: restore_one_def Let_def split: prod.splits sum.splits)
    from restore_owned_value [OF owned c] persist_progress_value [OF p1] persist_progress_clean [OF p1] True s
    show ?thesis by (auto simp: clean_def)
  qed
qed

lemma restore_loop_clean: "restore_loop P is p eng = (p', eng') \<Longrightarrow> clean p' \<Longrightarrow> clean p"
proof (induction "is" arbitrary: p eng)
  case (Cons i "is")
  then show ?case by (auto split: prod.splits dest: restore_one_value)
qed simp

lemma restore_loop_value:
  "restore_loop P is p eng = (p', eng') \<Longrightarrow> clean p' \<Longrightarrow> distinct is \<Longrightarrow>
   \<forall>i \<in> set is. i < length (sr_operations (rp_record p)) \<Longrightarrow>
   distinct (map op_id (sr_operations (rp_record p))) \<Longrightarrow>
   \<forall>i \<in> set is. needs_restore (sr_operations (rp_record p) ! i) \<longrightarrow>
     original (sr_operations (rp_record p) ! i) = f (target_of (sr_operations (rp_record p) ! i)) \<Longrightarrow>
   reading (world eng') t = (if restores (set is) (rp_record p) t then Some (f t) else reading (world eng) t)"
proof (induction "is" arbitrary: p eng)
  case (Cons i "is")
  let ?ops = "sr_operations (rp_record p)"
  obtain p1 eng1 where one: "restore_one P i p eng = (p1, eng1)" by fastforce
  with Cons.prems(1) have loop: "restore_loop P is p1 eng1 = (p', eng')" by simp
  have c1: "clean p1" using restore_loop_clean [OF loop Cons.prems(2)] .
  have v1: "reading (world eng1) t = (if needs_restore (?ops ! i) \<and> target_of (?ops ! i) = t
      then Some (f t) else reading (world eng) t)"
    using restore_one_value [OF one c1] Cons.prems(6) by (auto simp: original_def)
  have only: "only_at i (rp_record p) (rp_record p1)"
    using restore_one_at [OF one] Cons.prems(4,5) by (simp add: progress_at_def)
  then have plan: "same_plan (rp_record p) (rp_record p1)" by (simp add: only_at_def)
  have same: "sr_operations (rp_record p1) ! j = ?ops ! j" if "j \<in> set is" for j
    using only that Cons.prems(3,4) by (auto simp: only_at_def)
  have "reading (world eng') t = (if restores (set is) (rp_record p1) t then Some (f t) else reading (world eng1) t)"
    using Cons.IH [OF loop Cons.prems(2)] Cons.prems(3-6) same same_planD(2,3) [OF plan] by simp
  moreover have "restores (set is) (rp_record p1) t \<longleftrightarrow> restores (set is) (rp_record p) t"
    using same by (auto simp: restores_def)
  ultimately show ?case using v1 by (auto simp: restores_def)
qed (simp add: restores_def)

lemma release_value: "reading (world (release_if_restored P sid eng)) = reading (world eng)"
  by (auto simp: release_if_restored_def drop_lease_def release_frame split: option.splits)

lemma now_or_zero_value: "now_or_zero P st eng = (t, eng') \<Longrightarrow> reading (world eng') = reading (world eng)"
  by (auto simp: now_or_zero_def engine_now_def call_def split: prod.splits sum.splits dest: now_frame)

lemma restore_record_value:
  assumes run: "restore_record P rec eng = (Inr st, rec', eng')"
    and d: "distinct (map op_id (sr_operations rec))"
    and f: "\<forall>p \<in> set (sr_operations rec). needs_restore p \<longrightarrow> original p = f (target_of p)"
  shows "reading (world eng') t = (if \<exists>p \<in> set (sr_operations rec). needs_restore p \<and> target_of p = t
    then Some (f t) else reading (world eng) t)"
proof -
  let ?is = "rev [0..<length (sr_operations rec)]"
  obtain now eng1 where now: "now_or_zero P Restore eng = (now, eng1)" by fastforce
  obtain p eng2 where loop: "restore_loop P ?is
    \<lparr>rp_record = rec, rp_failures = [], rp_uncertain = False\<rparr> eng1 = (p, eng2)" by fastforce
  have ok: "restore_success P now (rp_record p) eng2 = (Inr st, rec', eng')" and c: "clean p"
    using run restore_failure_Inl [of P now "rp_failures p" "rp_uncertain p" "rp_record p" eng2]
    by (auto simp: restore_record_def now loop clean_def split: if_splits)
  have "reading (world eng') = reading (world eng2)"
    using ok by (auto simp: restore_success_def Let_def release_value split: prod.splits sum.splits
        dest: persist_frame)
  moreover have "reading (world eng2) t = (if restores (set ?is) rec t then Some (f t) else reading (world eng1) t)"
    using restore_loop_value [OF loop c, of f t] d f by simp
  moreover have "restores (set ?is) rec t \<longleftrightarrow> (\<exists>p \<in> set (sr_operations rec). needs_restore p \<and> target_of p = t)"
    unfolding restores_def set_rev set_upt by (metis atLeastLessThan_iff in_set_conv_nth le0)
  ultimately show ?thesis unfolding now_or_zero_value [OF now] by presburger
qed

end

section \<open>The test kit is honest\<close>

definition testkit_value :: "(typed_value \<Rightarrow> string) \<Rightarrow> testkit \<Rightarrow> target_id \<Rightarrow> state_fingerprint option" where
  "testkit_value debug w t = map_option (fake_fingerprint debug) (fb_values (tk_backend w) t)"

interpretation testkit: honest_ports "testkit_ports debug" "testkit_value debug" for debug
proof
  fix m e ident w and f :: state_fingerprint and w' rv
  show "testkit_value debug w (pm_target m) = Some f"
    if "port_verify (testkit_ports debug) m e ident w = (Inr f, w')"
    using that
    by (auto simp: testkit_ports_def on_backend_def FakeMutationBackend_def fake_verify_def Let_def
        fake_current_def rbind_eq_Inr testkit_value_def split: if_splits prod.splits)
  show "testkit_value debug w' = testkit_value debug w"
    if "port_verify (testkit_ports debug) m e ident w = (rv, w')"
    using that
    by (auto simp: testkit_ports_def on_backend_def FakeMutationBackend_def fake_verify_def Let_def
        testkit_value_def fun_eq_iff split: if_splits prod.splits)
next
  fix m s own w rc w'
  show "testkit_value debug w' = (testkit_value debug w)(pm_target m \<mapsto> rr_restored_fingerprint rc)"
    if "port_restore (testkit_ports debug) m s own w = (Inr rc, w')"
    using that
    by (auto simp: testkit_ports_def on_backend_def FakeMutationBackend_def fake_restore_def Let_def
        fake_seed_def testkit_value_def fun_eq_iff split: if_splits prod.splits sum.splits)
qed (auto simp: testkit_ports_def on_store_def testkit_value_def fun_eq_iff split: prod.splits)

section \<open>Properties\<close>


text \<open>
  An example: the fake backend with one target, its value changed by an applied and verified
  operation of a session that has started to restore. The store accepts every record.
\<close>

definition kit_debug :: "typed_value \<Rightarrow> string" where
  "kit_debug v = (if v = typed_value.CpuBoost cpu_boost_state.Enabled then ''E'' else ''D'')"

definition kit_ports :: "(testkit, unit) ports" where
  "kit_ports = (testkit_ports kit_debug)\<lparr>port_replace := \<lambda>r w. (Inr (), w)\<rparr>"

lemma kit_honest: "honest_ports kit_ports (testkit_value kit_debug)"
  using testkit.honest_ports_axioms [of kit_debug] by (auto simp: honest_ports_def kit_ports_def)

definition kit_mutation :: planned_mutation where
  "kit_mutation = example_mutation\<lparr>pm_precondition :=
     fake_fingerprint kit_debug (typed_value.CpuBoost cpu_boost_state.Disabled)\<rparr>"

definition kit_world :: "testkit" where
  "kit_world = \<lparr>tk_store = example_store, tk_held = True, tk_ids = [],
     tk_backend = \<lparr>fb_values = [TargetId ''cpu'' \<mapsto> typed_value.CpuBoost cpu_boost_state.Enabled],
       fb_apply_order = [MutationId 7], fb_restore_order = [], fb_verify_order = [],
       fb_fail_snapshot = None, fb_fail_apply = None, fb_fail_apply_after_write = None,
       fb_fail_verify = None, fb_fail_restore = None\<rparr>, tk_now = Timestamp 1000\<rparr>"

definition kit_record :: session_record where
  "kit_record = (let before = fake_fingerprint kit_debug (typed_value.CpuBoost cpu_boost_state.Disabled);
       after = fake_fingerprint kit_debug (typed_value.CpuBoost cpu_boost_state.Enabled)
     in snd (abind (SessionRecord_transition session_state.Applying (Timestamp 1) ''apply'') (\<lambda>_.
       abind (operation_at 0 (OperationRecord_transition operation_state.Applying)) (\<lambda>_.
       abind (record_apply (MutationId 7) \<lparr>ar_mutation_id = MutationId 7,
         ar_observed_precondition = before, ar_observed_postcondition = after,
         ar_ownership_fingerprint = after\<rparr>) (\<lambda>_.
       abind (SessionRecord_transition RollingBack (Timestamp 1) ''rollback'') (\<lambda>_.
         areturn (Inr ()))))) (projr (intent_record (SessionId (replicate 16 6))
           (example_plan\<lparr>plan_mutations := [kit_mutation]\<rparr>) (Timestamp 1)
           [example_snapshot\<lparr>sn_original_fingerprint := before\<rparr>]))))"


end
