(* ===== verification/Config.thy ===== *)
theory Config
  imports Orders
begin

text \<open>
  The configuration hierarchy of \<open>sysboost-config/src/lib.rs\<close>: typed policy layers and the merge
  that computes the effective policy, in which a lower-trust layer can only narrow.
\<close>

section \<open>Layers\<close>

datatype config_source = Defaults | System | User | Invocation

record config_layer =
  cl_source :: config_source
  cl_policy :: policy

definition ConfigLayer_new :: "config_source \<Rightarrow> policy \<Rightarrow> config_layer" where
  "ConfigLayer_new source policy = \<lparr>cl_source = source, cl_policy = policy\<rparr>"

record config_hierarchy =
  ch_defaults :: config_layer
  ch_system :: "config_layer option"
  ch_user :: "config_layer option"
  ch_invocation :: "config_layer option"

definition ConfigHierarchy_new :: "policy \<Rightarrow> config_hierarchy" where
  "ConfigHierarchy_new defaults = \<lparr>ch_defaults = ConfigLayer_new Defaults defaults,
     ch_system = None, ch_user = None, ch_invocation = None\<rparr>"

definition with_system :: "policy \<Rightarrow> config_hierarchy \<Rightarrow> config_hierarchy" where
  "with_system policy self = self\<lparr>ch_system := Some (ConfigLayer_new System policy)\<rparr>"

definition with_user :: "policy \<Rightarrow> config_hierarchy \<Rightarrow> config_hierarchy" where
  "with_user policy self = self\<lparr>ch_user := Some (ConfigLayer_new User policy)\<rparr>"

definition with_invocation :: "policy \<Rightarrow> config_hierarchy \<Rightarrow> config_hierarchy" where
  "with_invocation policy self = self\<lparr>ch_invocation := Some (ConfigLayer_new Invocation policy)\<rparr>"

section \<open>The effective policy\<close>

definition contains_request :: "policy_request list \<Rightarrow> policy_request \<Rightarrow> bool" where
  "contains_request requests requested \<longleftrightarrow> list_ex (\<lambda>candidate.
     pr_capability candidate = pr_capability requested \<and> pr_target candidate = pr_target requested
     \<and> pr_operation candidate = pr_operation requested) requests"

text \<open>\<open>Option\<close> values of an array that are present: \<open>iter().flatten()\<close>.\<close>

definition flatten :: "'a option list \<Rightarrow> 'a list" where
  "flatten xs = List.map_filter id xs"

definition layers :: "config_hierarchy \<Rightarrow> policy list" where
  "layers self = map cl_policy
     (flatten [Some (ch_defaults self), ch_system self, ch_user self, ch_invocation self])"

definition effective_mode :: "config_hierarchy \<Rightarrow> policy_mode" where
  "effective_mode self =
     (let reports = (\<lambda>layer. case layer of None \<Rightarrow> False | Some l \<Rightarrow> po_mode (cl_policy l) = Report)
      in if reports (ch_system self) \<or> reports (ch_user self) \<or> reports (ch_invocation self)
      then Report
      else case find (\<lambda>l. cl_source l \<noteq> Defaults)
          (flatten [Some (ch_defaults self), ch_system self, ch_user self, ch_invocation self]) of
        Some l \<Rightarrow> po_mode (cl_policy l)
      | None \<Rightarrow> po_mode (cl_policy (ch_defaults self)))"

text \<open>The most specific layer that is present selects the requests.\<close>

definition selected_requests :: "config_hierarchy \<Rightarrow> policy_request list" where
  "selected_requests self =
     (case flatten [ch_invocation self, ch_user self, ch_system self] of
        [] \<Rightarrow> [] | layer # _ \<Rightarrow> po_requests (cl_policy layer))"

definition allowed :: "policy list \<Rightarrow> policy_request \<Rightarrow> bool" where
  "allowed allowlists request \<longleftrightarrow>
     list_all (\<lambda>p. po_requests p = [] \<or> contains_request (po_requests p) request) allowlists"

fun admit_requests :: "policy list \<Rightarrow> policy_request list \<Rightarrow> policy_request list result" where
  "admit_requests allowlists [] = Inr []"
| "admit_requests allowlists (request # rest) =
     (if allowed allowlists request
      then rbind (admit_requests allowlists rest) (\<lambda>requests. Inr (request # requests))
      else if pr_required request
      then Inl (SysboostError_new AuthorizationError
        ''required request is outside a higher-trust configuration allowlist'')
      else admit_requests allowlists rest)"

definition effective :: "config_hierarchy \<Rightarrow> policy result" where
  "effective self =
     (let ls = layers self;
          timeouts = List.filter (\<lambda>v. v > 0) (map po_session_timeout_ms ls)
      in if timeouts = []
      then Inl (SysboostError_new ConfigError
        ''configuration hierarchy has no positive session timeout'')
      else rbind (admit_requests (map cl_policy (flatten [ch_system self, ch_user self]))
          (selected_requests self)) (\<lambda>requests.
        Inr \<lparr>po_mode = effective_mode self, po_max_risk = Min (set (map po_max_risk ls)),
          po_allow_experimental = list_all po_allow_experimental ls,
          po_required_default = list_ex po_required_default ls,
          po_requests = requests, po_session_timeout_ms = Min (set timeouts)\<rparr>))"

section \<open>Merging only narrows\<close>

lemma admit_requests_ok:
  "admit_requests ps rs = Inr qs \<longleftrightarrow>
     qs = List.filter (allowed ps) rs \<and> (\<forall>r \<in> set rs. pr_required r \<longrightarrow> allowed ps r)"
  by (induction rs arbitrary: qs) (auto simp: rbind_eq_Inr)

lemma layers_nonempty: "layers h \<noteq> []"
  by (simp add: layers_def flatten_def List.map_filter_simps)

lemma in_layers:
  "set (layers h) = {cl_policy l |l. l = ch_defaults h \<or> ch_system h = Some l \<or> ch_user h = Some l
     \<or> ch_invocation h = Some l}"
  by (auto simp: layers_def flatten_def List.map_filter_simps split: option.splits)

text \<open>The hierarchies the constructors build: every present layer has its own source.\<close>

definition built :: "config_hierarchy \<Rightarrow> bool" where
  "built h \<longleftrightarrow> cl_source (ch_defaults h) = Defaults
     \<and> (\<forall>l. ch_system h = Some l \<or> ch_user h = Some l \<or> ch_invocation h = Some l \<longrightarrow>
         cl_source l \<noteq> Defaults)"

lemma constructors_build:
  "built (ConfigHierarchy_new p)" "built h \<Longrightarrow> built (with_system p h)"
  "built h \<Longrightarrow> built (with_user p h)" "built h \<Longrightarrow> built (with_invocation p h)"
  by (auto simp: built_def ConfigHierarchy_new_def with_system_def with_user_def
      with_invocation_def ConfigLayer_new_def)

text \<open>
  C26: the merge only narrows. The effective policy admits at most the risk every layer admits, is
  experimental only if every layer is, and times out no later than every positive timeout; each of
  its requests was selected by the most specific layer and lies on every non-empty allowlist of the
  system and user layers, no required request is silently dropped, and one report-only system, user
  or invocation layer makes it report-only.
\<close>

theorem effective_narrows:
  assumes "effective h = Inr p"
  shows "(\<forall>l \<in> set (layers h). po_max_risk p \<le> po_max_risk l
      \<and> (po_allow_experimental p \<longrightarrow> po_allow_experimental l)
      \<and> (po_required_default l \<longrightarrow> po_required_default p)
      \<and> (po_session_timeout_ms l > 0 \<longrightarrow> po_session_timeout_ms p \<le> po_session_timeout_ms l))
    \<and> po_session_timeout_ms p > 0
    \<and> (\<forall>r \<in> set (po_requests p). r \<in> set (selected_requests h)
        \<and> (\<forall>l. ch_system h = Some l \<or> ch_user h = Some l \<longrightarrow>
            po_requests (cl_policy l) = [] \<or> contains_request (po_requests (cl_policy l)) r))
    \<and> (\<forall>r \<in> set (selected_requests h). pr_required r \<longrightarrow> r \<in> set (po_requests p))
    \<and> (\<forall>l. (ch_system h = Some l \<or> ch_user h = Some l \<or> ch_invocation h = Some l)
        \<and> po_mode (cl_policy l) = Report \<longrightarrow> po_mode p = Report)"
proof -
  define timeouts where "timeouts = List.filter (\<lambda>v. v > 0) (map po_session_timeout_ms (layers h))"
  obtain requests where t: "timeouts \<noteq> []"
    and r: "admit_requests (map cl_policy (flatten [ch_system h, ch_user h])) (selected_requests h) = Inr requests"
    and p: "p = \<lparr>po_mode = effective_mode h, po_max_risk = Min (set (map po_max_risk (layers h))),
      po_allow_experimental = list_all po_allow_experimental (layers h),
      po_required_default = list_ex po_required_default (layers h),
      po_requests = requests, po_session_timeout_ms = Min (set timeouts)\<rparr>"
    using assms by (auto simp: effective_def Let_def rbind_eq_Inr timeouts_def split: if_splits)
  have "po_session_timeout_ms p \<in> set timeouts" using t p by simp
  then have positive: "po_session_timeout_ms p > 0" by (auto simp: timeouts_def)
  have layer: "po_max_risk p \<le> po_max_risk l \<and> (po_allow_experimental p \<longrightarrow> po_allow_experimental l)
      \<and> (po_required_default l \<longrightarrow> po_required_default p)
      \<and> (po_session_timeout_ms l > 0 \<longrightarrow> po_session_timeout_ms p \<le> po_session_timeout_ms l)"
    if "l \<in> set (layers h)" for l
    using that p by (auto simp: list_all_iff list_ex_iff timeouts_def)
  have "allowed (map cl_policy (flatten [ch_system h, ch_user h])) r \<longleftrightarrow>
      (\<forall>l. ch_system h = Some l \<or> ch_user h = Some l \<longrightarrow>
        po_requests (cl_policy l) = [] \<or> contains_request (po_requests (cl_policy l)) r)" for r
    by (auto simp: allowed_def flatten_def List.map_filter_simps split: option.splits)
  moreover have "requests = List.filter (allowed (map cl_policy (flatten [ch_system h, ch_user h]))) (selected_requests h)"
      "\<forall>r \<in> set (selected_requests h). pr_required r \<longrightarrow> r \<in> set requests"
    using r by (auto simp: admit_requests_ok)
  ultimately have requests: "\<forall>r \<in> set requests. r \<in> set (selected_requests h)
        \<and> (\<forall>l. ch_system h = Some l \<or> ch_user h = Some l \<longrightarrow>
            po_requests (cl_policy l) = [] \<or> contains_request (po_requests (cl_policy l)) r)"
      "\<forall>r \<in> set (selected_requests h). pr_required r \<longrightarrow> r \<in> set requests"
    by auto
  have "po_requests p = requests" using p by simp
  moreover have "po_mode p = Report" if "ch_system h = Some l \<or> ch_user h = Some l \<or> ch_invocation h = Some l"
    and "po_mode (cl_policy l) = Report" for l
    using that p by (auto simp: effective_mode_def Let_def)
  ultimately show ?thesis using layer positive requests by blast
qed

definition example_layer :: "policy_mode \<Rightarrow> risk_class \<Rightarrow> policy" where
  "example_layer mode risk = \<lparr>po_mode = mode, po_max_risk = risk, po_allow_experimental = True,
     po_required_default = False, po_requests = [], po_session_timeout_ms = 500\<rparr>"

definition example_hierarchy :: config_hierarchy where
  "example_hierarchy = with_user (example_layer Boost Critical)
     (with_system (example_layer Report Medium) (ConfigHierarchy_new Policy_safe_defaults))"

theorem effective_narrows_witness:
  "\<exists>p. effective example_hierarchy = Inr p \<and> po_max_risk p \<le> Medium \<and> po_mode p = Report"
proof -
  let ?system = "ConfigLayer_new System (example_layer Report Medium)"
  have system: "ch_system example_hierarchy = Some ?system"
    by (simp add: example_hierarchy_def with_user_def with_system_def)
  have "\<not> isl (effective example_hierarchy)" by code_simp
  then obtain p where p: "effective example_hierarchy = Inr p" by (cases "effective example_hierarchy") auto
  have "cl_policy ?system \<in> set (layers example_hierarchy)" using system by (auto simp: in_layers)
  moreover have "po_max_risk (cl_policy ?system) = Medium \<and> po_mode (cl_policy ?system) = Report"
    by (simp add: ConfigLayer_new_def example_layer_def)
  ultimately show ?thesis using effective_narrows [OF p] p system by metis
qed

lemma admit_requests_error:
  "admit_requests ps rs = Inl e \<longleftrightarrow> (\<exists>r \<in> set rs. pr_required r \<and> \<not> allowed ps r)
     \<and> e = SysboostError_new AuthorizationError
       ''required request is outside a higher-trust configuration allowlist''"
  by (induction rs) (auto simp: rbind_eq_Inl)

text \<open>
  When the merge fails, it says why: it is a configuration error exactly when no layer has a
  positive timeout, an authorization error exactly when some layer has one and a required selected
  request lies outside a non-empty system or user allowlist, and never any other error.
\<close>

theorem effective_error_exact:
  "effective h = Inl e \<longleftrightarrow>
     (if \<forall>l \<in> set (layers h). po_session_timeout_ms l = 0
      then e = SysboostError_new ConfigError ''configuration hierarchy has no positive session timeout''
      else (\<exists>r \<in> set (selected_requests h). pr_required r
          \<and> \<not> allowed (map cl_policy (flatten [ch_system h, ch_user h])) r)
        \<and> e = SysboostError_new AuthorizationError
          ''required request is outside a higher-trust configuration allowlist'')"
  by (auto simp: effective_def Let_def rbind_eq_Inl admit_requests_error filter_empty_conv word_gt_0)

theorem effective_error_exact_witness:
  "effective (ConfigHierarchy_new (Policy_safe_defaults\<lparr>po_session_timeout_ms := 0\<rparr>))
     = Inl (SysboostError_new ConfigError ''configuration hierarchy has no positive session timeout'')"
proof -
  let ?h = "ConfigHierarchy_new (Policy_safe_defaults\<lparr>po_session_timeout_ms := 0\<rparr>)"
  have "\<forall>l \<in> set (layers ?h). po_session_timeout_ms l = 0"
    by (simp add: in_layers ConfigHierarchy_new_def ConfigLayer_new_def)
  then show ?thesis by (simp add: effective_error_exact)
qed

end
