(* ===== verification/Rust_Strings.thy ===== *)
theory Rust_Strings
  imports Mutations
begin

text \<open>
  The string methods of the Rust standard library that the parsers use: \<open>chars\<close>, \<open>split\<close>,
  \<open>split_whitespace\<close>, \<open>trim\<close>, \<open>lines\<close>, \<open>rfind\<close> and the integer \<open>parse\<close>. A string is a list of
  bytes (\<open>Sysboost_Prelude\<close>); a Unicode character of it is the group of bytes its lead byte announces.
\<close>

section \<open>Characters\<close>

definition char_width :: "char \<Rightarrow> nat" where
  "char_width c = (let b = of_char c :: nat in
     if b < 0xC0 then 1 else if b < 0xE0 then 2 else if b < 0xF0 then 3 else 4)"

function chars :: "string \<Rightarrow> string list" where
  "chars [] = []"
| "chars (c # s) = (c # take (char_width c - 1) s) # chars (drop (char_width c - 1) s)"
  by pat_completeness auto
termination by (relation "measure length") auto

text \<open>\<open>char::is_whitespace\<close>: the Unicode property White_Space, by its encodings.\<close>

definition is_whitespace :: "string \<Rightarrow> bool" where
  "is_whitespace ch \<longleftrightarrow> (let bs = map of_char ch :: nat list in
     (\<exists>b \<in> set bs. bs = [b] \<and> (9 \<le> b \<and> b \<le> 13 \<or> b = 32))
     \<or> bs \<in> {[0xC2, 0x85], [0xC2, 0xA0], [0xE1, 0x9A, 0x80], [0xE2, 0x80, 0xA8], [0xE2, 0x80, 0xA9],
         [0xE2, 0x80, 0xAF], [0xE2, 0x81, 0x9F], [0xE3, 0x80, 0x80]}
     \<or> (\<exists>b \<in> set bs. bs = [0xE2, 0x80, b] \<and> 0x80 \<le> b \<and> b \<le> 0x8A))"

lemma concat_chars [simp]: "concat (chars s) = s"
  by (induction s rule: chars.induct) simp_all

lemma char_width_ascii: "(of_char c :: nat) < 0x80 \<Longrightarrow> char_width c = 1"
  by (simp add: char_width_def Let_def)

lemma chars_ascii: "\<forall>c \<in> set s. (of_char c :: nat) < 0x80 \<Longrightarrow> chars s = map (\<lambda>c. [c]) s"
  by (induction s) (simp_all add: char_width_ascii)

section \<open>Splitting\<close>

text \<open>The pieces between the separators; there is always one piece.\<close>

fun split_by :: "('a \<Rightarrow> bool) \<Rightarrow> 'a list \<Rightarrow> 'a list list" where
  "split_by sep [] = [[]]"
| "split_by sep (x # xs) =
     (if sep x then [] # split_by sep xs
      else case split_by sep xs of [] \<Rightarrow> [[x]] | p # ps \<Rightarrow> (x # p) # ps)"

definition split_char :: "char \<Rightarrow> string \<Rightarrow> string list" where
  "split_char c = split_by (\<lambda>d. d = c)"

definition split_whitespace :: "string \<Rightarrow> string list" where
  "split_whitespace s = List.filter (\<lambda>w. w \<noteq> []) (map concat (split_by is_whitespace (chars s)))"

definition trim_start :: "string \<Rightarrow> string" where
  "trim_start s = concat (dropWhile is_whitespace (chars s))"

definition trim_end :: "string \<Rightarrow> string" where
  "trim_end s = concat (rev (dropWhile is_whitespace (rev (chars s))))"

definition trim :: "string \<Rightarrow> string" where
  "trim s = concat (rev (dropWhile is_whitespace (rev (dropWhile is_whitespace (chars s)))))"

text \<open>\<open>lines\<close>: a line feed, with a carriage return before it, ends a line; a last empty line is dropped.\<close>

definition strip_cr :: "string \<Rightarrow> string" where
  "strip_cr line = (if line \<noteq> [] \<and> last line = CHR 0x0D then butlast line else line)"

definition lines :: "string \<Rightarrow> string list" where
  "lines s = (let ps = split_char (CHR 0x0A) s in
     map strip_cr (butlast ps) @ (if last ps = [] then [] else [last ps]))"

definition rfind :: "char \<Rightarrow> string \<Rightarrow> nat option" where
  "rfind c s = map_option (\<lambda>i. length s - 1 - i) (position (\<lambda>d. d = c) (rev s))"

definition starts_with :: "string \<Rightarrow> string \<Rightarrow> bool" where
  "starts_with p s \<longleftrightarrow> take (length p) s = p"

definition strip_prefix :: "string \<Rightarrow> string \<Rightarrow> string option" where
  "strip_prefix p s = (if starts_with p s then Some (drop (length p) s) else None)"

definition ends_with :: "string \<Rightarrow> string \<Rightarrow> bool" where
  "ends_with p s \<longleftrightarrow> starts_with (rev p) (rev s)"

definition strip_suffix :: "string \<Rightarrow> string \<Rightarrow> string option" where
  "strip_suffix p s = (if ends_with p s then Some (take (length s - length p) s) else None)"

text \<open>\<open>split_once\<close> with an ASCII separator.\<close>

definition split_once :: "char \<Rightarrow> string \<Rightarrow> (string \<times> string) option" where
  "split_once c s = map_option (\<lambda>i. (take i s, drop (Suc i) s)) (position (\<lambda>d. d = c) s)"

lemma split_by_nonempty [simp]: "split_by sep xs \<noteq> []"
  by (cases xs) (auto split: list.splits)

lemma split_by_none: "\<forall>x \<in> set xs. \<not> sep x \<Longrightarrow> split_by sep xs = [xs]"
  by (induction xs) auto

lemma split_by_append:
  "sep y \<Longrightarrow> \<forall>x \<in> set xs. \<not> sep x \<Longrightarrow> split_by sep (xs @ y # ys) = xs # split_by sep ys"
  by (induction xs) auto

lemma split_by_pieces: "\<forall>p \<in> set (split_by sep xs). \<forall>x \<in> set p. x \<in> set xs \<and> \<not> sep x"
  by (induction xs) (auto split: list.splits)

lemma split_by_elements: "x \<in> set xs \<Longrightarrow> \<not> sep x \<Longrightarrow> \<exists>p \<in> set (split_by sep xs). x \<in> set p"
  by (induction xs) (auto split: if_splits list.splits)

lemma rfind_last:
  assumes "c \<notin> set s"
  shows "rfind c (pre @ c # s) = Some (length pre)"
proof -
  have "position (\<lambda>d. d = c) (xs @ c # ys) = Some (length xs)" if "c \<notin> set xs" for xs ys
    using that by (induction xs) auto
  from this [of "rev s" "rev pre"] assms show ?thesis by (simp add: rfind_def)
qed

text \<open>Words and lines of ASCII text.\<close>

lemma is_whitespace_ascii:
  "(of_char c :: nat) < 0x80 \<Longrightarrow>
     is_whitespace [c] \<longleftrightarrow> 9 \<le> (of_char c :: nat) \<and> (of_char c :: nat) \<le> 13 \<or> (of_char c :: nat) = 32"
  by (auto simp: is_whitespace_def Let_def)

lemma split_by_map: "split_by p (map f xs) = map (map f) (split_by (p \<circ> f) xs)"
  by (induction xs) (auto split: list.splits)

lemma split_whitespace_ascii:
  assumes "\<forall>c \<in> set s. (of_char c :: nat) < 0x80"
  shows "split_whitespace s = List.filter (\<lambda>w. w \<noteq> []) (split_by (\<lambda>c. is_whitespace [c]) s)"
proof -
  have "concat (map (\<lambda>c. [c]) w) = w" for w :: string by (induction w) simp_all
  then show ?thesis
    using assms by (simp add: split_whitespace_def chars_ascii split_by_map comp_def)
qed

lemma lines_of:
  assumes "\<forall>c \<in> set a. c \<noteq> CHR 0x0A \<and> c \<noteq> CHR 0x0D"
  shows "lines (a @ CHR 0x0A # s) = a # lines s"
proof -
  have "split_char (CHR 0x0A) (a @ CHR 0x0A # s) = a # split_char (CHR 0x0A) s"
    unfolding split_char_def using assms by (intro split_by_append) auto
  moreover have "strip_cr a = a" using assms by (auto simp: strip_cr_def dest: last_in_set)
  ultimately show ?thesis by (simp add: lines_def Let_def split_char_def)
qed

lemma lines_nil: "lines [] = []"
  by (simp add: lines_def split_char_def Let_def)

section \<open>Parsing integers\<close>

text \<open>
  \<open>str::parse\<close> for an unsigned integer of \<open>w\<close> bits: an optional plus sign, at least one ASCII digit
  and nothing else, and no overflow.
\<close>

definition parse_uint :: "nat \<Rightarrow> string \<Rightarrow> nat option" where
  "parse_uint w s =
     (let digits = (case s of [] \<Rightarrow> [] | c # rest \<Rightarrow> if c = CHR ''+'' then rest else s)
      in if digits = [] \<or> \<not> list_all is_ascii_digit digits then None
      else if dec_value digits < 2 ^ w then Some (dec_value digits) else None)"

lemma parse_uint_digits [simp]: "n < 2 ^ w \<Longrightarrow> parse_uint w (dec_digits n) = Some n"
proof -
  assume n: "n < 2 ^ w"
  have d: "list_all is_ascii_digit (dec_digits n)" using dec_digits_digits by (auto simp: list_all_iff)
  obtain c s where s: "dec_digits n = c # s" using dec_digits_nonempty [of n] by (cases "dec_digits n") auto
  with d have "c \<noteq> CHR ''+''" by (auto simp: is_ascii_digit_def)
  with d n s show ?thesis using dec_value_digits [of n] by (simp add: parse_uint_def Let_def)
qed

lemma parse_uint_bound: "parse_uint w s = Some n \<Longrightarrow> n < 2 ^ w"
  by (auto simp: parse_uint_def Let_def split: if_splits)

end
