(* ===== verification/Process.thy ===== *)
theory Process
  imports Rust_Strings
begin

text \<open>
  \<open>sysboost-platform/src/process.rs\<close>: process identities, and the parsers of the kernel text they are
  built from. What the kernel files contain is a parameter: the result of reading a file.
\<close>

section \<open>Identities\<close>

record process_identity =
  ps_pid :: u32
  ps_generation :: u64
  ps_boot_id :: "u8 list"

definition ProcessIdentity_new :: "u32 \<Rightarrow> u64 \<Rightarrow> process_identity result" where
  "ProcessIdentity_new p generation =
     (if p = 0 then Inl (SysboostError_new InvalidInput ''process ID must be non-zero'')
      else Inr \<lparr>ps_pid = p, ps_generation = generation, ps_boot_id = replicate 16 0\<rparr>)"

definition with_boot_id :: "u32 \<Rightarrow> u64 \<Rightarrow> u8 list \<Rightarrow> process_identity result" where
  "with_boot_id p generation boot_id =
     (if p = 0 then Inl (SysboostError_new InvalidInput ''process ID must be non-zero'')
      else if generation = 0 \<or> boot_id = replicate 16 0
      then Inl (SysboostError_new InvalidInput
        ''process identity requires a non-zero start and boot identity'')
      else Inr \<lparr>ps_pid = p, ps_generation = generation, ps_boot_id = boot_id\<rparr>)"

definition fixture :: "u32 \<Rightarrow> u64 \<Rightarrow> u8 list \<Rightarrow> process_identity" where
  "fixture p generation boot_id =
     \<lparr>ps_pid = p, ps_generation = generation, ps_boot_id = boot_id\<rparr>"

definition same_generation :: "process_identity \<Rightarrow> process_identity \<Rightarrow> bool" where
  "same_generation self other \<longleftrightarrow> ps_pid self = ps_pid other
     \<and> ps_generation self \<noteq> 0 \<and> ps_generation self = ps_generation other
     \<and> ps_boot_id self \<noteq> replicate 16 0 \<and> ps_boot_id self = ps_boot_id other"

text \<open>A match of generations is equality, on identities that carry real evidence only.\<close>

lemma same_generation_iff:
  "same_generation a b \<longleftrightarrow> a = b \<and> ps_generation a \<noteq> 0 \<and> ps_boot_id a \<noteq> replicate 16 0"
  by (cases a; cases b) (auto simp: same_generation_def)

section \<open>Kernel text\<close>

datatype 'a file_read = Content 'a | Missing | Unreadable

definition parse_start_time :: "string \<Rightarrow> u64 option" where
  "parse_start_time stat =
     Option.bind (rfind (CHR '')'') stat) (\<lambda>close.
       let fs = split_whitespace (drop (close + 1) stat) in
       if 19 < length fs
       then Option.bind (parse_uint 64 (fs ! 19)) (\<lambda>value.
         if value \<noteq> 0 then Some (word_of_nat value) else None)
       else None)"

definition read_boot_id :: "string file_read \<Rightarrow> u8 list result" where
  "read_boot_id contents =
     (case contents of
        Content text \<Rightarrow>
          let text = List.filter (\<lambda>c. c \<noteq> CHR ''-'') (trim text) in
          if length text \<noteq> 32
          then Inl (SysboostError_new JournalCorrupt ''boot identity metadata has an invalid length'')
          else rbind (replace_err (SysboostError_new JournalCorrupt
              ''boot identity metadata is not hexadecimal'') (decode_pairs (str_bytes text))) (\<lambda>output.
            if output = replicate 16 0
            then Inl (SysboostError_new JournalCorrupt ''boot identity metadata is zero'')
            else Inr output)
      | _ \<Rightarrow> Inl (SysboostError_new DurabilityError ''boot identity could not be inspected''))"

text \<open>\<open>stat\<close> and \<open>boot\<close> are what \<open>/proc/PID/stat\<close> and the boot-ID file hold when they are read.\<close>

definition probe_process ::
    "string file_read \<Rightarrow> string file_read \<Rightarrow> u32 \<Rightarrow> process_identity option result" where
  "probe_process stat boot p =
     (case stat of
        Missing \<Rightarrow> Inr None
      | Unreadable \<Rightarrow> Inl (SysboostError_new DurabilityError ''process identity could not be inspected'')
      | Content text \<Rightarrow>
          rbind (ok_or (SysboostError_new JournalCorrupt ''process identity metadata is malformed'')
            (parse_start_time text)) (\<lambda>generation.
          rbind (read_boot_id boot) (\<lambda>boot_id.
          rbind (with_boot_id p generation boot_id) (\<lambda>identity. Inr (Some identity)))))"

definition current_process_identity ::
    "string file_read \<Rightarrow> string file_read \<Rightarrow> u32 \<Rightarrow> process_identity result" where
  "current_process_identity stat boot p =
     rbind (probe_process stat boot p) (\<lambda>identity.
       ok_or (SysboostError_new DurabilityError ''current process identity disappeared'') identity)"

section \<open>The start time cannot be forged by the command name\<close>

text \<open>A field of \<open>stat\<close> after the command name: ASCII, no space or control, no parenthesis.\<close>

definition stat_field :: "string \<Rightarrow> bool" where
  "stat_field f \<longleftrightarrow> f \<noteq> [] \<and> list_all (\<lambda>c. 32 < (of_char c :: nat) \<and> (of_char c :: nat) < 0x80
     \<and> c \<noteq> CHR '')'') f"

definition stat_tail :: "string list \<Rightarrow> string" where
  "stat_tail fs = concat (map (\<lambda>f. CHR '' '' # f) fs)"

lemma stat_fieldD:
  assumes "stat_field f"
  shows "\<forall>c \<in> set f. \<not> is_whitespace [c]" "\<forall>c \<in> set f. (of_char c :: nat) < 0x80 \<and> c \<noteq> CHR '')''" "f \<noteq> []"
proof -
  have chars: "32 < (of_char c :: nat) \<and> (of_char c :: nat) < 0x80 \<and> c \<noteq> CHR '')''" if "c \<in> set f" for c
    using assms that unfolding stat_field_def list_all_iff by blast
  show "\<forall>c \<in> set f. \<not> is_whitespace [c]"
  proof
    fix c assume "c \<in> set f"
    from chars [OF this] show "\<not> is_whitespace [c]" using is_whitespace_ascii [of c] by linarith
  qed
  show "\<forall>c \<in> set f. (of_char c :: nat) < 0x80 \<and> c \<noteq> CHR '')''" using chars by blast
  show "f \<noteq> []" using assms unfolding stat_field_def by blast
qed

lemma stat_tail_chars:
  assumes "\<forall>f \<in> set fs. stat_field f"
  shows "\<forall>c \<in> set (stat_tail fs). (of_char c :: nat) < 0x80 \<and> c \<noteq> CHR '')''"
proof
  fix c assume "c \<in> set (stat_tail fs)"
  then consider "c = CHR '' ''" | f where "f \<in> set fs" "c \<in> set f" by (auto simp: stat_tail_def split: if_splits)
  then show "(of_char c :: nat) < 0x80 \<and> c \<noteq> CHR '')''"
    by cases (simp, use assms stat_fieldD(2) in blast)
qed

lemma split_tail:
  "\<forall>f \<in> set fs. stat_field f \<Longrightarrow>
     split_by (\<lambda>c. is_whitespace [c]) (stat_tail fs) = [] # fs"
proof (induction fs)
  case (Cons f fs)
  then have plain: "\<forall>c \<in> set f. \<not> is_whitespace [c]" using stat_fieldD(1) [of f] by (meson list.set_intros(1))
  have space: "is_whitespace [CHR '' '']" by (simp add: is_whitespace_ascii)
  have "split_by (\<lambda>c. is_whitespace [c]) (f @ stat_tail fs) = f # fs"
  proof (cases fs)
    case Nil
    with plain show ?thesis by (simp add: stat_tail_def split_by_none)
  next
    case (Cons g rest)
    then have tail: "stat_tail fs = CHR '' '' # (g @ stat_tail rest)" by (simp add: stat_tail_def)
    have "split_by (\<lambda>c. is_whitespace [c]) (g @ stat_tail rest) = fs"
      using Cons.IH Cons.prems space unfolding tail by simp
    with plain space show ?thesis unfolding tail by (simp add: split_by_append)
  qed
  with space show ?case by (simp add: stat_tail_def)
qed (simp add: stat_tail_def)

text \<open>
  C27: a process cannot forge its start time through its command name. Whatever precedes the closing
  parenthesis of the command name in \<open>/proc/PID/stat\<close>, spaces and parentheses included, the parsed
  start time is the twentieth field after it, and a zero start time is refused.
\<close>

theorem start_time_not_forgeable:
  assumes "\<forall>f \<in> set fs. stat_field f" and "19 < length fs"
    and "fs ! 19 = dec_digits n" and "n < 2 ^ 64"
  shows "parse_start_time (command @ CHR '')'' # stat_tail fs)
    = (if n = 0 then None else Some (word_of_nat n))"
proof -
  note ascii = stat_tail_chars [OF assms(1)]
  then have "rfind (CHR '')'') (command @ CHR '')'' # stat_tail fs) = Some (length command)"
    by (intro rfind_last) blast
  moreover have "List.filter (\<lambda>w. w \<noteq> []) fs = fs"
    using assms(1) stat_fieldD(3) by (simp add: filter_id_conv)
  then have "split_whitespace (stat_tail fs) = fs"
    using ascii split_tail [OF assms(1)] by (simp add: split_whitespace_ascii)
  ultimately show ?thesis
    using assms by (simp add: parse_start_time_def Let_def)
qed

theorem start_time_not_forgeable_witness:
  "parse_start_time (''7 (a) R 1 1 (b'' @ CHR '')'' # stat_tail (replicate 19 ''1'' @ [dec_digits 777, ''0'']))
     = Some 777"
proof -
  let ?fs = "replicate 19 ''1'' @ [dec_digits 777, ''0'']"
  have "list_all stat_field ?fs" by code_simp
  then have "\<forall>f \<in> set ?fs. stat_field f" by (simp add: list_all_iff)
  moreover have "?fs ! 19 = dec_digits 777" by (simp add: nth_append)
  ultimately show ?thesis
    using start_time_not_forgeable [of ?fs 777 "''7 (a) R 1 1 (b''"] by simp
qed

end
