(* ===== verification/Protocol.thy ===== *)
theory Protocol
  imports Codec_Roundtrip
begin

text \<open>
  The controller/helper wire protocol of \<open>sysboost-protocol/src/lib.rs\<close>: request and response
  messages, the frame with magic, version, tag and length, and the cursor that reads a payload. The
  cursor is the same structure as the state-file decoder, with its own errors.
\<close>

section \<open>Messages\<close>

datatype request_id = RequestId (request_num: u64)

definition RequestId_new :: "u64 \<Rightarrow> request_id result" where
  "RequestId_new v =
     (if v = 0 then Inl (SysboostError_new InvalidInput ''request ID must be non-zero'')
      else Inr (RequestId v))"

datatype request =
    Prepare request_id plan_id "u8 list"
  | Apply request_id session_id
  | Restore request_id session_id
  | Status request_id session_id

primrec request_request_id :: "request \<Rightarrow> request_id" where
  "request_request_id (request.Prepare i _ _) = i"
| "request_request_id (request.Apply i _) = i"
| "request_request_id (request.Restore i _) = i"
| "request_request_id (request.Status i _) = i"

datatype response =
    Accepted request_id session_id
  | Status request_id session_id session_state
  | Rejected request_id error_code

definition protocol_error :: "string \<Rightarrow> sysboost_error" where
  "protocol_error message = SysboostError_new TransportError message"

section \<open>Frames\<close>

definition PROTOCOL_VERSION :: u16 where "PROTOCOL_VERSION = 1"
definition MAX_FRAME_BYTES :: nat where "MAX_FRAME_BYTES = 65536"
definition FRAME_MAGIC :: "u8 list" where "FRAME_MAGIC = str_bytes ''SBP1''"

definition frame :: "u8 \<Rightarrow> u8 list \<Rightarrow> u8 list result" where
  "frame tag payload =
     (if 4 + 2 + 1 + 4 + length payload > MAX_FRAME_BYTES
      then Inl (protocol_error ''protocol frame exceeds maximum size'')
      else Inr (FRAME_MAGIC @ to_be 2 PROTOCOL_VERSION @ [tag]
        @ to_be 4 (word_of_nat (length payload) :: u32) @ payload))"

definition unframe :: "u8 list \<Rightarrow> (u8 \<times> u8 list) result" where
  "unframe bytes =
     (if length bytes > MAX_FRAME_BYTES \<or> length bytes < 11
      then Inl (protocol_error ''protocol frame length is invalid'')
      else if take 4 bytes \<noteq> FRAME_MAGIC
      then Inl (protocol_error ''protocol magic is invalid'')
      else if from_be [bytes ! 4, bytes ! 5] \<noteq> PROTOCOL_VERSION
      then Inl (protocol_error ''protocol version is unsupported'')
      else if unat (from_be [bytes ! 7, bytes ! 8, bytes ! 9, bytes ! 10] :: u32) \<noteq> length bytes - 11
      then Inl (protocol_error ''protocol payload length does not match frame'')
      else Inr (bytes ! 6, drop 11 bytes))"

section \<open>The cursor\<close>

definition cursor_take :: "nat \<Rightarrow> u8 list reader" where
  "cursor_take count self =
     (let e = d_offset self + count in
      if e \<ge> usize_limit then Inl (protocol_error ''protocol cursor overflow'')
      else if e > length (d_bytes self) then Inl (protocol_error ''protocol payload is truncated'')
      else Inr (take count (drop (d_offset self) (d_bytes self)), self\<lparr>d_offset := e\<rparr>))"

definition cursor_u8 :: "u8 reader" where "cursor_u8 = dbind (cursor_take 1) (\<lambda>b. dreturn (b ! 0))"
definition cursor_u16 :: "u16 reader" where
  "cursor_u16 = dbind (cursor_take 2) (\<lambda>b. dreturn (from_be b))"
definition cursor_u64 :: "u64 reader" where
  "cursor_u64 = dbind (cursor_take 8) (\<lambda>b. dreturn (from_be b))"

definition cursor_finish :: "unit reader" where
  "cursor_finish self =
     (if d_offset self = length (d_bytes self) then Inr ((), self)
      else Inl (protocol_error ''protocol payload contains trailing bytes''))"

section \<open>Tags\<close>

primrec state_tag :: "session_state \<Rightarrow> u8" where
  "state_tag session_state.New = 0"
| "state_tag session_state.Detected = 1"
| "state_tag session_state.Planned = 2"
| "state_tag session_state.Snapshotted = 3"
| "state_tag session_state.IntentDurable = 4"
| "state_tag session_state.Applying = 5"
| "state_tag session_state.Active = 6"
| "state_tag session_state.Restoring = 7"
| "state_tag session_state.Restored = 8"
| "state_tag session_state.RollingBack = 9"
| "state_tag session_state.Degraded = 10"
| "state_tag session_state.RecoveryPending = 11"

definition state_from_tag :: "u8 \<Rightarrow> session_state result" where
  "state_from_tag tag = ok_or (protocol_error ''unknown session-state tag'') (map_of
     [(0, session_state.New), (1, session_state.Detected), (2, session_state.Planned),
      (3, session_state.Snapshotted), (4, session_state.IntentDurable), (5, session_state.Applying),
      (6, session_state.Active), (7, session_state.Restoring), (8, session_state.Restored),
      (9, session_state.RollingBack), (10, session_state.Degraded),
      (11, session_state.RecoveryPending)] tag)"

primrec error_tag :: "error_code \<Rightarrow> u16" where
  "error_tag ConfigError = 1"
| "error_tag CapabilityError = 2"
| "error_tag error_code.Unsupported = 3"
| "error_tag AuthorizationError = 4"
| "error_tag TargetError = 5"
| "error_tag PlanningError = 6"
| "error_tag SnapshotError = 7"
| "error_tag DurabilityError = 8"
| "error_tag TransportError = 9"
| "error_tag ApplyError = 10"
| "error_tag VerificationError = 11"
| "error_tag RestoreConflict = 12"
| "error_tag RestoreError = 13"
| "error_tag JournalCorrupt = 14"
| "error_tag InvariantViolation = 15"
| "error_tag InvalidInput = 16"

definition error_from_tag :: "u16 \<Rightarrow> error_code result" where
  "error_from_tag tag = ok_or (protocol_error ''unknown error tag'') (map_of
     [(1, ConfigError), (2, CapabilityError), (3, error_code.Unsupported), (4, AuthorizationError),
      (5, TargetError), (6, PlanningError), (7, SnapshotError), (8, DurabilityError),
      (9, TransportError), (10, ApplyError), (11, VerificationError), (12, RestoreConflict),
      (13, RestoreError), (14, JournalCorrupt), (15, InvariantViolation), (16, InvalidInput)] tag)"

section \<open>Encoding and decoding\<close>

definition two_ids :: "request_id \<Rightarrow> session_id \<Rightarrow> u8 list" where
  "two_ids request_id session_id = to_be 8 (request_num request_id) @ session_bytes session_id"

fun Request_encode :: "request \<Rightarrow> u8 list result" where
  "Request_encode (request.Prepare i plan digest) =
     frame 1 (to_be 8 (request_num i) @ plan_bytes plan @ digest)"
| "Request_encode (request.Apply i session_id) = frame 2 (two_ids i session_id)"
| "Request_encode (request.Restore i session_id) = frame 3 (two_ids i session_id)"
| "Request_encode (request.Status i session_id) = frame 4 (two_ids i session_id)"

fun Response_encode :: "response \<Rightarrow> u8 list result" where
  "Response_encode (Accepted i session_id) = frame 0x81 (two_ids i session_id)"
| "Response_encode (response.Status i session_id state) =
     frame 0x82 (two_ids i session_id @ [state_tag state])"
| "Response_encode (Rejected i code) =
     frame 0x83 (to_be 8 (request_num i) @ to_be 2 (error_tag code))"

definition cursor_session :: "session_id reader" where
  "cursor_session = dbind (cursor_take 16) (\<lambda>b. dreturn (SessionId b))"

text \<open>The payload of a message: the request ID, the fields of its tag, and the end of the payload.\<close>

definition request_fields :: "u8 \<Rightarrow> request_id \<Rightarrow> request reader" where
  "request_fields tag request_id =
     (if tag = 1 then dbind (cursor_take 16) (\<lambda>plan. dbind (cursor_take 32) (\<lambda>digest.
        dreturn (request.Prepare request_id (PlanId plan) digest)))
      else if tag = 2 then dbind cursor_session (\<lambda>s. dreturn (request.Apply request_id s))
      else if tag = 3 then dbind cursor_session (\<lambda>s. dreturn (request.Restore request_id s))
      else if tag = 4 then dbind cursor_session (\<lambda>s. dreturn (request.Status request_id s))
      else dlift (Inl (protocol_error ''unknown request tag'')))"

definition response_fields :: "u8 \<Rightarrow> request_id \<Rightarrow> response reader" where
  "response_fields tag request_id =
     (if tag = 0x81 then dbind cursor_session (\<lambda>s. dreturn (Accepted request_id s))
      else if tag = 0x82 then dbind cursor_session (\<lambda>s. dbind cursor_u8 (\<lambda>t.
        dbind (dlift (state_from_tag t)) (\<lambda>state. dreturn (response.Status request_id s state))))
      else if tag = 0x83 then dbind cursor_u16 (\<lambda>t.
        dbind (dlift (error_from_tag t)) (\<lambda>code. dreturn (Rejected request_id code)))
      else dlift (Inl (protocol_error ''unknown response tag'')))"

definition decode_message :: "(u8 \<Rightarrow> request_id \<Rightarrow> 'm reader) \<Rightarrow> u8 list \<Rightarrow> 'm result" where
  "decode_message arms bytes =
     rbind (unframe bytes) (\<lambda>(tag, payload).
     rbind (dbind cursor_u64 (\<lambda>v. dbind (dlift (RequestId_new v)) (\<lambda>request_id.
       dbind (arms tag request_id) (\<lambda>m. dbind cursor_finish (\<lambda>_. dreturn m))))
       (Decoder_new payload)) (\<lambda>(m, _). Inr m))"

definition Request_decode :: "u8 list \<Rightarrow> request result" where
  "Request_decode bytes = decode_message request_fields bytes"

definition Response_decode :: "u8 list \<Rightarrow> response result" where
  "Response_decode bytes = decode_message response_fields bytes"

section \<open>The messages of the Rust types\<close>

text \<open>A request ID is non-zero, identities are 16 bytes and digests 32: what the types promise.\<close>

definition wf_request_id :: "request_id \<Rightarrow> bool" where
  "wf_request_id i \<longleftrightarrow> request_num i \<noteq> 0"

primrec wf_request :: "request \<Rightarrow> bool" where
  "wf_request (request.Prepare i p d) \<longleftrightarrow>
     wf_request_id i \<and> length (plan_bytes p) = 16 \<and> length d = 32"
| "wf_request (request.Apply i s) \<longleftrightarrow> wf_request_id i \<and> length (session_bytes s) = 16"
| "wf_request (request.Restore i s) \<longleftrightarrow> wf_request_id i \<and> length (session_bytes s) = 16"
| "wf_request (request.Status i s) \<longleftrightarrow> wf_request_id i \<and> length (session_bytes s) = 16"

primrec wf_response :: "response \<Rightarrow> bool" where
  "wf_response (Accepted i s) \<longleftrightarrow> wf_request_id i \<and> length (session_bytes s) = 16"
| "wf_response (response.Status i s _) \<longleftrightarrow> wf_request_id i \<and> length (session_bytes s) = 16"
| "wf_response (Rejected i _) \<longleftrightarrow> wf_request_id i"

section \<open>Decoding what was encoded\<close>

lemma to_be_from_be_n: "length bs = n \<Longrightarrow> 8 * n \<le> LENGTH('a::len) \<Longrightarrow> to_be n (from_be bs :: 'a word) = bs"
  using to_be_from_be by blast

lemma dbind_ok: "dbind m k c = Inr (y, c') \<longleftrightarrow> (\<exists>x c1. m c = Inr (x, c1) \<and> k x c1 = Inr (y, c'))"
  by (auto simp: dbind_def rbind_eq_Inr)

lemma dlift_ok: "dlift r c = Inr (y, c') \<longleftrightarrow> r = Inr y \<and> c' = c"
  by (auto simp: dlift_def rbind_eq_Inr)

lemma dreturn_ok: "dreturn x c = Inr (y, c') \<longleftrightarrow> y = x \<and> c' = c"
  by (auto simp: dreturn_def)

lemma decodes_cursor_take: "length bs = n \<Longrightarrow> decodes (cursor_take n) bs bs"
  by (auto simp: decodes_def cursor_take_def Let_def)

lemma decodes_last: "decodes d bs x \<Longrightarrow> f x = y \<Longrightarrow> decodes (dbind d (\<lambda>x. dreturn (f x))) bs y"
  using decodes_bind [OF _ decodes_return, of d bs x f] by simp

lemma decodes_cursor_words:
  "decodes cursor_u8 [b] b" "decodes cursor_u16 (to_be 2 h) h" "decodes cursor_u64 (to_be 8 w) w"
  unfolding cursor_u8_def cursor_u16_def cursor_u64_def
  by (rule decodes_last [OF decodes_cursor_take]; simp)+

lemma decodes_cursor_session:
  "length (session_bytes s) = 16 \<Longrightarrow> decodes cursor_session (session_bytes s) s"
  unfolding cursor_session_def by (rule decodes_last [OF decodes_cursor_take]) simp_all

lemma decodes_lift: "r = Inr x \<Longrightarrow> decodes (dlift r) [] x"
  by (simp add: decodes_def dlift_def)

lemma state_tags [simp]: "state_from_tag (state_tag s) = Inr s"
  by (cases s) (simp_all add: state_from_tag_def)

lemma error_tags [simp]: "error_from_tag (error_tag c) = Inr c"
  by (cases c) (simp_all add: error_from_tag_def)

lemma unframe_frame:
  assumes "frame tag payload = Inr bytes"
  shows "unframe bytes = Inr (tag, payload)"
proof -
  have len: "length payload \<le> 65525" and
    b: "bytes = FRAME_MAGIC @ to_be 2 PROTOCOL_VERSION @ [tag]
        @ to_be 4 (word_of_nat (length payload) :: u32) @ payload"
    using assms by (auto simp: frame_def MAX_FRAME_BYTES_def split: if_splits)
  have magic: "FRAME_MAGIC = [0x53, 0x42, 0x50, 0x31]"
    by (simp add: FRAME_MAGIC_def str_bytes_def)
  have four: "to_be 4 w = [to_be 4 w ! 0, to_be 4 w ! 1, to_be 4 w ! 2, to_be 4 w ! 3]" for w :: u32
    by (simp add: numeral_eq_Suc)
  have two: "to_be 2 PROTOCOL_VERSION = [0, 1]"
    by (simp add: PROTOCOL_VERSION_def numeral_2_eq_2)
  have n: "unat (word_of_nat (length payload) :: u32) = length payload"
    using length_word32 len by simp
  have "from_be (to_be 4 (word_of_nat (length payload) :: u32)) = (word_of_nat (length payload) :: u32)"
    by simp
  moreover have "from_be [0, 1 :: u8] = PROTOCOL_VERSION"
    by (simp add: from_be_def PROTOCOL_VERSION_def)
  moreover obtain a0 a1 a2 a3 where ws: "to_be 4 (word_of_nat (length payload) :: u32) = [a0, a1, a2, a3]"
    using four by blast
  ultimately show ?thesis
    using len n unfolding b magic two ws by (simp add: unframe_def magic MAX_FRAME_BYTES_def)
qed

lemma decode_framed:
  assumes bytes: "frame tag (to_be 8 (request_num i) @ rest) = Inr bytes"
    and wf: "wf_request_id i" and arms: "decodes (arms tag i) rest m"
  shows "decode_message arms bytes = Inr m"
proof -
  let ?payload = "to_be 8 (request_num i) @ rest"
  have small: "length ?payload < usize_limit"
    using bytes by (auto simp: frame_def MAX_FRAME_BYTES_def usize_limit_def split: if_splits)
  have "RequestId_new (request_num i) = Inr i"
    using wf by (cases i) (simp add: RequestId_new_def wf_request_id_def)
  then have "decodes (dbind cursor_u64 (\<lambda>v. dbind (dlift (RequestId_new v)) (\<lambda>i. arms tag i)))
      (to_be 8 (request_num i) @ [] @ rest) m"
    by (rule decodes_bind [OF decodes_cursor_words(3) decodes_bind [OF decodes_lift]]) (rule arms)
  from this [unfolded decodes_def, rule_format, of "[]" "[]"] small
  have "dbind cursor_u64 (\<lambda>v. dbind (dlift (RequestId_new v)) (\<lambda>i. arms tag i)) (Decoder_new ?payload)
      = Inr (m, \<lparr>d_bytes = ?payload, d_offset = length ?payload\<rparr>)"
    by (simp add: Decoder_new_def)
  moreover have fin: "cursor_finish \<lparr>d_bytes = ?payload, d_offset = length ?payload\<rparr>
      = Inr ((), \<lparr>d_bytes = ?payload, d_offset = length ?payload\<rparr>)"
    by (simp add: cursor_finish_def)
  ultimately have "dbind cursor_u64 (\<lambda>v. dbind (dlift (RequestId_new v)) (\<lambda>i. dbind (arms tag i)
      (\<lambda>m. dbind cursor_finish (\<lambda>_. dreturn m)))) (Decoder_new ?payload)
      = Inr (m, \<lparr>d_bytes = ?payload, d_offset = length ?payload\<rparr>)"
    using fin by (fastforce simp: dbind_ok dreturn_ok)
  with unframe_frame [OF bytes] show ?thesis by (simp add: decode_message_def)
qed

lemma request_decodes: "Request_encode r = Inr bytes \<Longrightarrow> wf_request r \<Longrightarrow> Request_decode bytes = Inr r"
  unfolding Request_decode_def
  by (cases r) (auto simp: two_ids_def request_fields_def plan_id.expand intro!: decode_framed
      decodes_bind [OF decodes_cursor_take] decodes_last [OF decodes_cursor_take]
      decodes_last [OF decodes_cursor_session])

lemma response_decodes:
  "Response_encode r = Inr bytes \<Longrightarrow> wf_response r \<Longrightarrow> Response_decode bytes = Inr r"
  unfolding Response_decode_def
  by (cases r) (auto simp: two_ids_def response_fields_def intro!: decode_framed decodes_lift
      decodes_bind [OF decodes_cursor_session] decodes_last [OF decodes_cursor_session]
      decodes_last [OF decodes_lift] decodes_bind [OF decodes_cursor_words(1), where cs = "[]", simplified]
      decodes_bind [OF decodes_cursor_words(2), where cs = "[]", simplified])

section \<open>Accepting only what is encoded\<close>

text \<open>\<open>took c bs c'\<close>: a successful read from \<open>c\<close> consumed exactly \<open>bs\<close>.\<close>

definition took :: "decoder \<Rightarrow> u8 list \<Rightarrow> decoder \<Rightarrow> bool" where
  "took c bs c' \<longleftrightarrow> drop (d_offset c) (d_bytes c) = bs @ drop (d_offset c') (d_bytes c')"

lemma took_refl: "took c [] c"
  by (simp add: took_def)

lemma took_trans: "took c bs c' \<Longrightarrow> took c' bs' c'' \<Longrightarrow> took c (bs @ bs') c''"
  by (simp add: took_def)

lemma cursor_take_took: "cursor_take n c = Inr (bs, c') \<Longrightarrow> took c bs c' \<and> length bs = n"
  using append_take_drop_id [of n "drop (d_offset c) (d_bytes c)"]
  by (auto simp: cursor_take_def Let_def took_def add.commute split: if_splits)

lemma cursor_words_took:
  "cursor_u8 c = Inr (b, c') \<Longrightarrow> took c [b] c'"
  "cursor_u16 c = Inr (h, c') \<Longrightarrow> took c (to_be 2 h) c'"
  "cursor_u64 c = Inr (w, c') \<Longrightarrow> took c (to_be 8 w) c'"
proof -
  show "took c [b] c'" if read: "cursor_u8 c = Inr (b, c')"
  proof -
    from read obtain bs where "cursor_take 1 c = Inr (bs, c')" "b = bs ! 0"
      by (auto simp: cursor_u8_def dbind_ok dreturn_ok)
    with cursor_take_took [OF this(1)] show ?thesis by (cases bs) auto
  qed
qed (auto simp: cursor_u16_def cursor_u64_def dbind_ok dreturn_ok to_be_from_be_n dest!: cursor_take_took)

lemma cursor_session_took:
  "cursor_session c = Inr (s, c') \<Longrightarrow> took c (session_bytes s) c' \<and> length (session_bytes s) = 16"
  by (auto simp: cursor_session_def dbind_ok dreturn_ok dest!: cursor_take_took)

lemma cursor_finish_took: "cursor_finish c = Inr (u, c') \<Longrightarrow> d_offset c = length (d_bytes c)"
  by (simp add: cursor_finish_def split: if_splits)

lemma state_from_tag_ok: "state_from_tag t = Inr s \<Longrightarrow> state_tag s = t"
  by (auto simp: state_from_tag_def split: if_splits)

lemma error_from_tag_ok: "error_from_tag t = Inr s \<Longrightarrow> error_tag s = t"
  by (auto simp: error_from_tag_def split: if_splits)

lemma frame_unframe:
  assumes "unframe bytes = Inr (tag, payload)"
  shows "frame tag payload = Inr bytes"
proof -
  have len: "11 \<le> length bytes" "length bytes \<le> 65536"
    and magic: "take 4 bytes = FRAME_MAGIC"
    and version: "from_be [bytes ! 4, bytes ! 5] = PROTOCOL_VERSION" and tag: "tag = bytes ! 6"
    and n: "unat (from_be [bytes ! 7, bytes ! 8, bytes ! 9, bytes ! 10] :: u32) = length bytes - 11"
    and payload: "payload = drop 11 bytes"
    using assms by (auto simp: unframe_def MAX_FRAME_BYTES_def split: if_splits)
  have "to_be 2 PROTOCOL_VERSION = [bytes ! 4, bytes ! 5]"
    unfolding version [symmetric] by (rule to_be_from_be_n) simp_all
  moreover have "word_of_nat (length payload) = (from_be [bytes ! 7, bytes ! 8, bytes ! 9, bytes ! 10] :: u32)"
    using arg_cong [OF n, of "word_of_nat :: nat \<Rightarrow> u32"] payload by simp
  then have "to_be 4 (word_of_nat (length payload) :: u32) = [bytes ! 7, bytes ! 8, bytes ! 9, bytes ! 10]"
    by (simp add: to_be_from_be_n)
  moreover have "bytes = take 4 bytes @ [bytes ! 4, bytes ! 5] @ [bytes ! 6]
      @ [bytes ! 7, bytes ! 8, bytes ! 9, bytes ! 10] @ drop 11 bytes"
    using len(1) by (auto simp: numeral_eq_Suc Suc_le_length_iff)
  ultimately show ?thesis
    using len payload tag magic by (simp add: frame_def MAX_FRAME_BYTES_def)
qed

lemma decode_message_ok:
  assumes "decode_message arms bytes = Inr m"
  obtains tag payload i c c' where "unframe bytes = Inr (tag, payload)" "wf_request_id i"
    "arms tag i c = Inr (m, c')" "d_offset c' = length (d_bytes c')"
    "\<And>bs. took c bs c' \<Longrightarrow> payload = to_be 8 (request_num i) @ bs"
proof -
  from assms obtain tag payload v c i c' where unframed: "unframe bytes = Inr (tag, payload)"
    and v: "cursor_u64 (Decoder_new payload) = Inr (v, c)" and i: "RequestId_new v = Inr i"
    and m: "arms tag i c = Inr (m, c')" and fin: "d_offset c' = length (d_bytes c')"
    by (auto simp: decode_message_def rbind_eq_Inr dbind_ok dlift_ok dreturn_ok
        dest!: cursor_finish_took)
  have id: "wf_request_id i" "request_num i = v"
    using i by (auto simp: RequestId_new_def wf_request_id_def split: if_splits)
  have "payload = to_be 8 (request_num i) @ bs" if "took c bs c'" for bs
    using took_trans [OF cursor_words_took(3) [OF v] that] fin id(2)
    by (simp add: took_def Decoder_new_def)
  with that unframed id(1) m fin show thesis by blast
qed

lemma framed_canonical:
  assumes "decode_message arms bytes = Inr m"
    and arms: "\<And>tag i c c'. arms tag i c = Inr (m, c') \<Longrightarrow> wf_request_id i \<Longrightarrow>
      ok m \<and> (\<exists>bs. took c bs c' \<and> encode m = frame tag (to_be 8 (request_num i) @ bs))"
  shows "encode m = Inr bytes \<and> ok m"
  using assms(1)
proof (rule decode_message_ok)
  fix tag payload i c c'
  assume *: "unframe bytes = Inr (tag, payload)" "wf_request_id i" "arms tag i c = Inr (m, c')"
    and payload: "\<And>bs. took c bs c' \<Longrightarrow> payload = to_be 8 (request_num i) @ bs"
  from arms [OF *(3,2)] payload frame_unframe [OF *(1)] show ?thesis by auto
qed

lemma request_canonical: "Request_decode bytes = Inr r \<Longrightarrow> Request_encode r = Inr bytes \<and> wf_request r"
  unfolding Request_decode_def
proof (erule framed_canonical [where encode = Request_encode])
  fix tag i c c'
  assume "request_fields tag i c = Inr (r, c')" "wf_request_id i"
  then show "wf_request r \<and>
      (\<exists>bs. took c bs c' \<and> Request_encode r = frame tag (to_be 8 (request_num i) @ bs))"
    by (auto simp: request_fields_def two_ids_def dbind_ok dlift_ok dreturn_ok split: if_splits
        dest!: cursor_session_took cursor_take_took intro: took_trans)
qed

lemma response_canonical:
  "Response_decode bytes = Inr r \<Longrightarrow> Response_encode r = Inr bytes \<and> wf_response r"
  unfolding Response_decode_def
proof (erule framed_canonical [where encode = Response_encode])
  fix tag i c c'
  assume "response_fields tag i c = Inr (r, c')" "wf_request_id i"
  then show "wf_response r \<and>
      (\<exists>bs. took c bs c' \<and> Response_encode r = frame tag (to_be 8 (request_num i) @ bs))"
    by (auto simp: response_fields_def two_ids_def dbind_ok dlift_ok dreturn_ok
        dest!: cursor_session_took state_from_tag_ok error_from_tag_ok cursor_words_took
        intro: took_trans split: if_splits)
qed

section \<open>Properties\<close>

lemma request_encodes: "wf_request r \<Longrightarrow> \<exists>bytes. Request_encode r = Inr bytes"
  by (cases r) (auto simp: frame_def two_ids_def MAX_FRAME_BYTES_def)

lemma response_encodes: "wf_response r \<Longrightarrow> \<exists>bytes. Response_encode r = Inr bytes"
  by (cases r) (auto simp: frame_def two_ids_def MAX_FRAME_BYTES_def)

text \<open>
  C25: requests have one encoding each. A frame decodes to a request exactly when it is the encoding
  of that request and the request has a non-zero ID and full-length identities; so decoding inverts
  encoding, no two frames mean the same request, and every such request has its frame.
\<close>

theorem request_decode_exact:
  "(Request_decode bytes = Inr r \<longleftrightarrow> wf_request r \<and> Request_encode r = Inr bytes)
   \<and> (wf_request r \<longleftrightarrow> (\<exists>frame. Request_decode frame = Inr r))"
  using request_decodes request_canonical request_encodes by blast

text \<open>
  Responses have one encoding each: a frame decodes to a response exactly when it is the
  encoding of that response and the response has a non-zero ID and a full-length identity, and every
  such response has its frame.
\<close>

theorem response_decode_exact:
  "(Response_decode bytes = Inr r \<longleftrightarrow> wf_response r \<and> Response_encode r = Inr bytes)
   \<and> (wf_response r \<longleftrightarrow> (\<exists>frame. Response_decode frame = Inr r))"
  using response_decodes response_canonical response_encodes by blast

end
