(* ===== verification/Privilege.thy ===== *)
theory Privilege
  imports Engine_Log Protocol Process
begin

text \<open>
  The privilege boundary \<open>sysboost-platform/src/privilege.rs\<close>: the catalog of approved plans and the
  helper service that authenticates a peer, rejects replays, binds sessions to their owner and
  reaches the transaction engine only through it. The backend's ownership and admission checks join
  the ports of the engine as parameters.
\<close>

section \<open>State\<close>

record session_handle =
  sh_session_id :: session_id
  sh_plan_id :: plan_id
  sh_plan_digest :: "u8 list"
  sh_owner :: process_identity

text \<open>\<open>BTreeMap\<close>s that are only looked up and inserted into are maps.\<close>

type_synonym catalog = "plan_id \<rightharpoonup> plan"

record ('w, 'g) privilege_service =
  sv_engine :: "('w, 'g) engine"
  sv_expected_peer :: process_identity
  sv_catalog :: catalog
  sv_sessions :: "session_id \<rightharpoonup> session_handle"
  sv_last_request :: "process_identity \<rightharpoonup> u64"

text \<open>The engine's ports with the two methods of the backend that only the helper calls.\<close>

record ('w, 'g) helper =
  hp_ports :: "('w, 'g) ports"
  hp_owns :: "backend_id \<Rightarrow> bool"
  hp_admission :: "planned_mutation \<Rightarrow> target_identity \<Rightarrow> ('w, unit) action"

definition boundary_error :: "error_code \<Rightarrow> string \<Rightarrow> sysboost_error" where
  "boundary_error code message = with_stage Transport (SysboostError_new code message)"

section \<open>The plan catalog\<close>

definition catalog_register :: "plan \<Rightarrow> (catalog, unit) action" where
  "catalog_register plan self =
     (case Plan_validate_complete plan of
        Inl e \<Rightarrow> (Inl e, self)
      | Inr _ \<Rightarrow>
        (case self (plan_id plan) of
           Some existing \<Rightarrow>
             (if existing = plan then (Inr (), self)
              else (Inl (boundary_error AuthorizationError
                ''plan identity is already bound to different content''), self))
         | None \<Rightarrow> (Inr (), self(plan_id plan \<mapsto> plan))))"

definition catalog_get :: "plan_id \<Rightarrow> u8 list \<Rightarrow> catalog \<Rightarrow> plan option" where
  "catalog_get plan_key digest self =
     Option.bind (self plan_key) (\<lambda>plan. if plan_digest plan = digest then Some plan else None)"

section \<open>Admission\<close>

text \<open>The plan item of a mutation.\<close>

definition item_of :: "plan \<Rightarrow> mutation_id \<Rightarrow> plan_item option" where
  "item_of plan i =
     find (\<lambda>item. pi_action item = plan_action.Mutation
       \<and> (case pi_mutation item of None \<Rightarrow> False | Some candidate \<Rightarrow> pm_mutation_id candidate = i))
       (plan_items plan)"

definition admit_one :: "('w, 'g) helper \<Rightarrow> plan \<Rightarrow> planned_mutation \<Rightarrow> (('w, 'g) engine, unit) action" where
  "admit_one H plan mutation =
     abind (areturn (
       rbind (ok_or (boundary_error PlanningError
           ''executable mutation is absent from the approved plan items'')
         (item_of plan (pm_mutation_id mutation))) (\<lambda>item.
       if \<not> (case pi_backend item of None \<Rightarrow> False | Some backend \<Rightarrow> hp_owns H backend)
       then Inl (boundary_error AuthorizationError
         ''operation/backend ownership does not match the approved plan'')
       else ok_or (boundary_error TargetError
           ''approved mutation has no stable target identity'') (pi_target_identity item))))
     (\<lambda>ident. call (hp_admission H mutation ident) (\<lambda>e. e))"

fun admit_all :: "('w, 'g) helper \<Rightarrow> plan \<Rightarrow> planned_mutation list \<Rightarrow> (('w, 'g) engine, unit) action" where
  "admit_all H plan [] = areturn (Inr ())"
| "admit_all H plan (m # ms) = abind (admit_one H plan m) (\<lambda>_. admit_all H plan ms)"

definition validate_plan_admission ::
    "('w, 'g) helper \<Rightarrow> plan \<Rightarrow> (('w, 'g) engine, unit) action" where
  "validate_plan_admission H plan =
     abind (areturn (Plan_validate_complete plan)) (\<lambda>_.
     if plan_mutations plan = []
     then areturn (Inl (boundary_error AuthorizationError
       ''report-only or empty plans cannot enter the privileged executor''))
     else admit_all H plan (plan_mutations plan))"

definition snapshot_identity :: "plan \<Rightarrow> operation_record \<Rightarrow> unit result" where
  "snapshot_identity plan operation =
     rbind (ok_or (boundary_error SnapshotError ''durable intent operation has no complete snapshot'')
       (op_snapshot operation)) (\<lambda>snapshot.
     if Option.bind (item_of plan (pm_mutation_id (op_mutation operation))) pi_target_identity
         \<noteq> Some (sn_target_identity snapshot)
     then Inl (boundary_error TargetError ''snapshot target identity does not match the approved target'')
     else Inr ())"

definition validate_snapshot_identities ::
    "('w, 'g) helper \<Rightarrow> session_id \<Rightarrow> plan \<Rightarrow> (('w, 'g) engine, unit) action" where
  "validate_snapshot_identities H session_id plan =
     abind (call (port_load (hp_ports H) session_id) (\<lambda>e. e)) (\<lambda>record.
       areturn (try_each (snapshot_identity plan) (sr_operations record)))"

section \<open>The service\<close>

text \<open>An engine method called on the service.\<close>

definition on_engine ::
    "(('w, 'g) engine, 'a) action \<Rightarrow> (('w, 'g) privilege_service, 'a) action" where
  "on_engine call_it self =
     (case call_it (sv_engine self) of (r, eng) \<Rightarrow> (r, self\<lparr>sv_engine := eng\<rparr>))"

definition PrivilegeService_new ::
    "('w, 'g) helper \<Rightarrow> process_identity \<Rightarrow> (('w, 'g) engine, ('w, 'g) privilege_service) action" where
  "PrivilegeService_new H expected_peer eng =
     (if ps_generation expected_peer = 0 \<or> ps_boot_id expected_peer = replicate 16 0
      then (Inl (boundary_error AuthorizationError
        ''helper peer policy requires a strong process identity''), eng)
      else (case recover_unfinished (hp_ports H) eng of
        (Inl error, eng) \<Rightarrow> (Inl (retryable AfterRecovery (with_stage Recovery error)), eng)
      | (Inr _, eng) \<Rightarrow> (Inr \<lparr>sv_engine = eng, sv_expected_peer = expected_peer,
          sv_catalog = Map.empty, sv_sessions = Map.empty, sv_last_request = Map.empty\<rparr>, eng)))"

definition register_plan :: "plan \<Rightarrow> (('w, 'g) privilege_service, unit) action" where
  "register_plan plan self =
     (case catalog_register plan (sv_catalog self) of (r, catalog) \<Rightarrow> (r, self\<lparr>sv_catalog := catalog\<rparr>))"

definition authenticate_peer :: "process_identity \<Rightarrow> (('w, 'g) privilege_service, unit) action" where
  "authenticate_peer peer self =
     (if same_generation peer (sv_expected_peer self) then (Inr (), self)
      else (Inl (boundary_error AuthorizationError
        ''local peer identity is not authorized for this helper session''), self))"

definition accept_request_id ::
    "process_identity \<Rightarrow> request_id \<Rightarrow> (('w, 'g) privilege_service, unit) action" where
  "accept_request_id peer request_id self =
     (if case sv_last_request self peer of None \<Rightarrow> False | Some latest \<Rightarrow> request_num request_id \<le> latest
      then (Inl (boundary_error TransportError ''duplicate or replayed request ID''), self)
      else (Inr (), self\<lparr>sv_last_request := (sv_last_request self)(peer \<mapsto> request_num request_id)\<rparr>))"

definition authorize_session ::
    "process_identity \<Rightarrow> session_handle \<Rightarrow> (('w, 'g) privilege_service, unit) action" where
  "authorize_session peer bound self =
     (case sv_sessions self (sh_session_id bound) of
        None \<Rightarrow> (Inl (boundary_error AuthorizationError
          ''session handle is not known to this helper lifecycle''), self)
      | Some known \<Rightarrow>
        (if known \<noteq> bound \<or> \<not> same_generation peer (sh_owner bound)
            \<or> sh_owner bound \<noteq> sh_owner known
         then (Inl (boundary_error AuthorizationError
           ''session handle identity, owner, or plan binding is invalid''), self)
         else (Inr (), self)))"

definition lookup_session ::
    "process_identity \<Rightarrow> session_id \<Rightarrow> (('w, 'g) privilege_service, session_handle) action" where
  "lookup_session peer session_id self =
     (case sv_sessions self session_id of
        None \<Rightarrow> (Inl (boundary_error AuthorizationError
          ''session is not known to this helper lifecycle''), self)
      | Some bound \<Rightarrow> abind (authorize_session peer bound) (\<lambda>_. areturn (Inr bound)) self)"

text \<open>The captured identities disagree with the plan: the session is aborted, and the error returned.\<close>

definition bind_session ::
    "('w, 'g) helper \<Rightarrow> process_identity \<Rightarrow> plan_id \<Rightarrow> u8 list \<Rightarrow> plan \<Rightarrow> session_id \<Rightarrow>
     (('w, 'g) privilege_service, session_handle) action" where
  "bind_session H peer plan_key digest plan session_id self =
     (case on_engine (validate_snapshot_identities H session_id plan) self of
        (Inl error, self) \<Rightarrow>
          abind (on_engine (abort_prepared (hp_ports H) session_id)) (\<lambda>_. areturn (Inl error)) self
      | (Inr _, self) \<Rightarrow>
          (let bound = \<lparr>sh_session_id = session_id, sh_plan_id = plan_key, sh_plan_digest = digest,
             sh_owner = peer\<rparr>
           in (Inr bound, self\<lparr>sv_sessions := (sv_sessions self)(session_id \<mapsto> bound)\<rparr>)))"

definition prepare_by_identity ::
    "('w, 'g) helper \<Rightarrow> process_identity \<Rightarrow> plan_id \<Rightarrow> u8 list \<Rightarrow>
     (('w, 'g) privilege_service, session_handle) action" where
  "prepare_by_identity H peer plan_key digest self =
     (case catalog_get plan_key digest (sv_catalog self) of
        None \<Rightarrow> (Inl (boundary_error AuthorizationError
          ''requested plan identity or digest is not approved''), self)
      | Some plan \<Rightarrow>
          abind (on_engine (validate_plan_admission H plan)) (\<lambda>_.
          abind (on_engine (prepare (hp_ports H) plan)) (\<lambda>session_id.
          bind_session H peer plan_key digest plan session_id)) self)"

definition dispatch ::
    "('w, 'g) helper \<Rightarrow> process_identity \<Rightarrow> request \<Rightarrow> (('w, 'g) privilege_service, response) action" where
  "dispatch H peer request =
     (case request of
        request.Prepare i plan_key digest \<Rightarrow>
          abind (prepare_by_identity H peer plan_key digest) (\<lambda>bound.
            areturn (Inr (Accepted i (sh_session_id bound))))
      | request.Apply i session_id \<Rightarrow>
          abind (lookup_session peer session_id) (\<lambda>bound.
          abind (on_engine (engine_apply (hp_ports H) (sh_session_id bound))) (\<lambda>state.
            areturn (Inr (response.Status i session_id state))))
      | request.Restore i session_id \<Rightarrow>
          abind (lookup_session peer session_id) (\<lambda>bound.
          abind (on_engine (engine_restore (hp_ports H) (sh_session_id bound))) (\<lambda>state.
            areturn (Inr (response.Status i session_id state))))
      | request.Status i session_id \<Rightarrow>
          abind (lookup_session peer session_id) (\<lambda>bound.
          abind (on_engine (engine_status (hp_ports H) (sh_session_id bound))) (\<lambda>status.
            areturn (Inr (response.Status i session_id (ts_state status))))))"

text \<open>The answer to an admitted request: an error of the dispatch is a typed rejection.\<close>

definition answer ::
    "('w, 'g) helper \<Rightarrow> process_identity \<Rightarrow> request \<Rightarrow> (('w, 'g) privilege_service, u8 list) action" where
  "answer H peer request self =
     (case dispatch H peer request self of
        (Inr response, self) \<Rightarrow> (Response_encode response, self)
      | (Inl error, self) \<Rightarrow>
          (Response_encode (Rejected (request_request_id request) (err_code error)), self))"

definition handle_frame ::
    "('w, 'g) helper \<Rightarrow> process_identity option \<Rightarrow> u8 list \<Rightarrow>
     (('w, 'g) privilege_service, u8 list) action" where
  "handle_frame H peer bytes =
     abind (areturn (Request_decode bytes)) (\<lambda>request.
     abind (areturn (ok_or (boundary_error AuthorizationError
       ''authenticated local peer credentials are required'') peer)) (\<lambda>peer.
     abind (authenticate_peer peer) (\<lambda>_.
     abind (accept_request_id peer (request_request_id request)) (\<lambda>_.
     answer H peer request))))"

definition prepare_for_peer ::
    "('w, 'g) helper \<Rightarrow> process_identity \<Rightarrow> plan \<Rightarrow> (('w, 'g) privilege_service, session_handle) action" where
  "prepare_for_peer H peer plan =
     abind (authenticate_peer peer) (\<lambda>_.
     abind (register_plan plan) (\<lambda>_.
     prepare_by_identity H peer (plan_id plan) (plan_digest plan)))"

definition apply_for_peer ::
    "('w, 'g) helper \<Rightarrow> process_identity \<Rightarrow> session_handle \<Rightarrow>
     (('w, 'g) privilege_service, session_state) action" where
  "apply_for_peer H peer bound =
     abind (authenticate_peer peer) (\<lambda>_.
     abind (authorize_session peer bound) (\<lambda>_.
     on_engine (engine_apply (hp_ports H) (sh_session_id bound))))"

definition restore_for_peer ::
    "('w, 'g) helper \<Rightarrow> process_identity \<Rightarrow> session_handle \<Rightarrow>
     (('w, 'g) privilege_service, session_state) action" where
  "restore_for_peer H peer bound =
     abind (authenticate_peer peer) (\<lambda>_.
     abind (authorize_session peer bound) (\<lambda>_.
     on_engine (engine_restore (hp_ports H) (sh_session_id bound))))"

definition status_for_peer ::
    "('w, 'g) helper \<Rightarrow> process_identity \<Rightarrow> session_handle \<Rightarrow>
     (('w, 'g) privilege_service, session_state) action" where
  "status_for_peer H peer bound =
     abind (authenticate_peer peer) (\<lambda>_.
     abind (authorize_session peer bound) (\<lambda>_.
     abind (on_engine (engine_status (hp_ports H) (sh_session_id bound))) (\<lambda>status.
       areturn (Inr (ts_state status)))))"

text \<open>The broker interface of the controller: the expected peer acts.\<close>

definition broker_prepare :: "('w, 'g) helper \<Rightarrow> plan \<Rightarrow> (('w, 'g) privilege_service, session_handle) action" where
  "broker_prepare H plan self = prepare_for_peer H (sv_expected_peer self) plan self"

definition broker_apply ::
    "('w, 'g) helper \<Rightarrow> session_handle \<Rightarrow> (('w, 'g) privilege_service, session_state) action" where
  "broker_apply H session self = apply_for_peer H (sv_expected_peer self) session self"

definition broker_restore ::
    "('w, 'g) helper \<Rightarrow> session_handle \<Rightarrow> (('w, 'g) privilege_service, session_state) action" where
  "broker_restore H session self = restore_for_peer H (sv_expected_peer self) session self"

definition broker_status ::
    "('w, 'g) helper \<Rightarrow> session_handle \<Rightarrow> (('w, 'g) privilege_service, session_state) action" where
  "broker_status H session self = status_for_peer H (sv_expected_peer self) session self"

end
