(* ===== verification/Privilege_Safety.thy ===== *)
theory Privilege_Safety
  imports Privilege
begin

text \<open>
  What the privilege boundary guarantees: requests that are not authenticated, well formed and fresh
  change nothing; only an authorized apply or restore request reaches a mutating call of the backend;
  sessions are bound to approved plans; and the call discipline of the engine (\<open>Engine_Log\<close>) holds
  for everything the helper does. The locales extend those of \<open>Engine_Safety\<close> with the helper's own
  backend calls and are interpreted on the logging ports.
\<close>

section \<open>The helper over the engine's ports\<close>

lemma on_engineE:
  assumes "on_engine call_it self = (r, self')"
  obtains eng where "call_it (sv_engine self) = (r, eng)" "self' = self\<lparr>sv_engine := eng\<rparr>"
  using assms by (auto simp: on_engine_def split: prod.splits)

lemma areturn_eq [simp]: "areturn r s = (r', s') \<longleftrightarrow> r = r' \<and> s = s'"
  by (auto simp: areturn_def)

lemma register_plan_engine:
  "register_plan plan self = (r, self') \<Longrightarrow> sv_engine self' = sv_engine self"
  by (auto simp: register_plan_def split: prod.splits)

lemma authenticate_peer_eq:
  "authenticate_peer peer self = (r, self') \<longleftrightarrow> self' = self
     \<and> (if same_generation peer (sv_expected_peer self) then r = Inr ()
        else r = Inl (boundary_error AuthorizationError
          ''local peer identity is not authorized for this helper session''))"
  by (auto simp: authenticate_peer_def)

lemma accept_request_id_engine:
  "accept_request_id peer i self = (r, self') \<Longrightarrow> sv_engine self' = sv_engine self"
  by (auto simp: accept_request_id_def split: option.splits if_splits)

lemma authorize_session_eq:
  "authorize_session peer bound self = (r, self') \<Longrightarrow> self' = self
     \<and> (r = Inr () \<longrightarrow> sv_sessions self (sh_session_id bound) = Some bound
        \<and> same_generation peer (sh_owner bound))"
  by (auto simp: authorize_session_def split: option.splits if_splits)

lemma lookup_session_eq:
  "lookup_session peer sid self = (r, self') \<Longrightarrow> self' = self
     \<and> (\<forall>h. r = Inr h \<longrightarrow> sv_sessions self sid = Some h \<and> sv_sessions self (sh_session_id h) = Some h
        \<and> same_generation peer (sh_owner h))"
  by (auto simp: lookup_session_def split: option.splits elim!: abindE dest: authorize_session_eq)

locale passive_helper = passive_ports "hp_ports H" I
  for H :: "('w, 'g) helper" and I :: "'w \<Rightarrow> bool" +
  assumes admission_keeps: "hp_admission H m ident w = (ru, w') \<Longrightarrow> I w \<Longrightarrow> I w'"
begin

lemma admit_one_keeps:
  "admit_one H plan m eng = (r, eng') \<Longrightarrow> I (world eng) \<Longrightarrow> I (world eng')"
  unfolding admit_one_def by (erule abindE) (auto intro: call_keeps admission_keeps)

lemma admit_all_keeps:
  "admit_all H plan ms eng = (r, eng') \<Longrightarrow> I (world eng) \<Longrightarrow> I (world eng')"
  by (induction ms arbitrary: eng) (auto elim!: abindE dest: admit_one_keeps)

lemma validate_plan_admission_keeps:
  "validate_plan_admission H plan eng = (r, eng') \<Longrightarrow> I (world eng) \<Longrightarrow> I (world eng')"
  by (auto simp: validate_plan_admission_def elim!: abindE dest: admit_all_keeps split: if_splits)

lemma validate_snapshot_identities_keeps:
  "validate_snapshot_identities H sid plan eng = (r, eng') \<Longrightarrow> I (world eng) \<Longrightarrow> I (world eng')"
  unfolding validate_snapshot_identities_def
  by (erule abindE) (auto intro: call_keeps load_keeps)

lemma bind_session_keeps:
  "bind_session H peer key digest plan sid self = (r, self') \<Longrightarrow> I (world (sv_engine self)) \<Longrightarrow>
     I (world (sv_engine self'))"
  by (auto simp: bind_session_def Let_def split: prod.splits sum.splits elim!: on_engineE abindE
      dest!: validate_snapshot_identities_keeps abort_keeps_engine)

lemma prepare_by_identity_keeps:
  "prepare_by_identity H peer key digest self = (r, self') \<Longrightarrow> I (world (sv_engine self)) \<Longrightarrow>
     I (world (sv_engine self'))"
  by (auto simp: prepare_by_identity_def split: option.splits elim!: on_engineE abindE
      dest!: validate_plan_admission_keeps prepare_keeps_engine bind_session_keeps)

end

locale active_helper = passive_helper H I + engine_protocol "hp_ports H" I
  for H :: "('w, 'g) helper" and I :: "'w \<Rightarrow> bool"
begin

lemma dispatch_keeps:
  assumes run: "dispatch H peer request self = (r, self')" and I: "I (world (sv_engine self))"
  shows "I (world (sv_engine self'))"
  using run I
  by (cases request) (auto simp: dispatch_def elim!: abindE on_engineE
      dest!: prepare_by_identity_keeps lookup_session_eq apply_keeps_engine restore_keeps_engine
        status_keeps_engine)

lemma handle_frame_keeps:
  "handle_frame H peer bytes self = (r, self') \<Longrightarrow> I (world (sv_engine self)) \<Longrightarrow>
     I (world (sv_engine self'))"
  by (auto simp: handle_frame_def answer_def authenticate_peer_eq elim!: abindE
      split: prod.splits sum.splits dest!: dispatch_keeps accept_request_id_engine)

lemma for_peer_keeps:
  "prepare_for_peer H peer plan self = (rp, self') \<Longrightarrow> I (world (sv_engine self)) \<Longrightarrow> I (world (sv_engine self'))"
  "apply_for_peer H peer bound self = (ra, self') \<Longrightarrow> I (world (sv_engine self)) \<Longrightarrow> I (world (sv_engine self'))"
  "restore_for_peer H peer bound self = (ra, self') \<Longrightarrow> I (world (sv_engine self)) \<Longrightarrow> I (world (sv_engine self'))"
  "status_for_peer H peer bound self = (ra, self') \<Longrightarrow> I (world (sv_engine self)) \<Longrightarrow> I (world (sv_engine self'))"
  by (auto simp: prepare_for_peer_def apply_for_peer_def restore_for_peer_def status_for_peer_def
      authenticate_peer_eq elim!: abindE on_engineE dest!: register_plan_engine authorize_session_eq
        prepare_by_identity_keeps apply_keeps_engine restore_keeps_engine status_keeps_engine)

lemma new_keeps:
  assumes "PrivilegeService_new H peer eng = (r, eng')" and "I (world eng)"
  shows "I (world eng')" "r = Inr self \<Longrightarrow> sv_engine self = eng'"
  using assms by (auto simp: PrivilegeService_new_def split: if_splits prod.splits sum.splits
      dest: recover_keeps_engine)

end

section \<open>Logging and runs\<close>

definition logged_helper :: "('w, 'g) helper \<Rightarrow> ('w \<times> event list, 'g) helper" where
  "logged_helper H = \<lparr>hp_ports = logged (hp_ports H), hp_owns = hp_owns H,
     hp_admission = (\<lambda>m ident. recording (hp_admission H m ident) (\<lambda>_. Other_called))\<rparr>"

lemma logged_helper_simps [simp]:
  "hp_ports (logged_helper H) = logged (hp_ports H)" "hp_owns (logged_helper H) = hp_owns H"
  "hp_admission (logged_helper H) m ident = recording (hp_admission H m ident) (\<lambda>_. Other_called)"
  by (simp_all add: logged_helper_def)

interpretation quiet_helper: passive_helper "logged_helper H" "log_has mutating es"
  for H :: "('w, 'g) helper" and es
  by unfold_locales (auto simp: recording_iff log_has_def)

interpretation helper_logs: active_helper "logged_helper H" "\<lambda>w. disciplined (snd w)"
  for H :: "('w, 'g) helper"
  by unfold_locales (auto simp: recording_iff)

text \<open>One call on the service, with whatever result.\<close>

inductive serve_step ::
    "('w, 'g) helper \<Rightarrow> ('w, 'g) privilege_service \<Rightarrow> ('w, 'g) privilege_service \<Rightarrow> bool" for H where
  serve_frame: "handle_frame H peer bytes self = (r, self') \<Longrightarrow> serve_step H self self'"
| serve_register: "register_plan plan self = (r, self') \<Longrightarrow> serve_step H self self'"
| serve_prepare: "prepare_for_peer H peer plan self = (r, self') \<Longrightarrow> serve_step H self self'"
| serve_apply: "apply_for_peer H peer bound self = (r, self') \<Longrightarrow> serve_step H self self'"
| serve_restore: "restore_for_peer H peer bound self = (r, self') \<Longrightarrow> serve_step H self self'"
| serve_status: "status_for_peer H peer bound self = (r, self') \<Longrightarrow> serve_step H self self'"

text \<open>
  The worlds a helper leaves over its lifetimes: a service starts over a world, whatever the outcome,
  serves, and may stop at any time; the next lifetime starts over the world it left.
\<close>

inductive lifetimes :: "('w, 'g) helper \<Rightarrow> 'w \<Rightarrow> ('w, 'g) engine \<Rightarrow> bool" for H w0 where
  first: "lifetimes H w0 \<lparr>world = w0, active = lease\<rparr>"
| started: "lifetimes H w0 eng \<Longrightarrow> PrivilegeService_new H peer \<lparr>world = world eng, active = None\<rparr> = (r, eng') \<Longrightarrow>
    lifetimes H w0 eng'"
| served: "lifetimes H w0 eng \<Longrightarrow> PrivilegeService_new H peer \<lparr>world = world eng, active = None\<rparr> = (Inr self, eng') \<Longrightarrow>
    (serve_step H)\<^sup>*\<^sup>* self self' \<Longrightarrow> lifetimes H w0 (sv_engine self')"

lemma serve_disciplined:
  assumes "(serve_step (logged_helper H))\<^sup>*\<^sup>* self self'" and "disciplined (snd (world (sv_engine self)))"
  shows "disciplined (snd (world (sv_engine self')))"
  using assms
proof (induction rule: rtranclp_induct)
  case (step s1 s2)
  from step(2) step.IH [OF step.prems] show ?case
    by cases (auto dest: helper_logs.handle_frame_keeps helper_logs.for_peer_keeps register_plan_engine)
qed

lemma lifetimes_disciplined:
  "lifetimes (logged_helper H) (w, []) eng \<Longrightarrow> disciplined (snd (world eng))"
proof (induction rule: lifetimes.induct)
  case (served eng peer self eng' self')
  then have "disciplined (snd (world (sv_engine self)))"
    using helper_logs.new_keeps [OF served.hyps(2)] by simp
  with served.hyps(3) show ?case by (rule serve_disciplined)
qed (auto dest: helper_logs.new_keeps(1))

section \<open>What a call leaves alone\<close>

text \<open>The fields of the service that an engine call and a dispatch do not touch.\<close>

definition same_boundary :: "('w, 'g) privilege_service \<Rightarrow> ('w, 'g) privilege_service \<Rightarrow> bool" where
  "same_boundary a b \<longleftrightarrow> sv_expected_peer b = sv_expected_peer a \<and> sv_last_request b = sv_last_request a"

lemma on_engine_boundary:
  "on_engine call_it self = (r, self') \<Longrightarrow> same_boundary self self' \<and> sv_catalog self' = sv_catalog self
     \<and> sv_sessions self' = sv_sessions self"
  by (auto simp: same_boundary_def elim!: on_engineE)

lemma same_boundary_trans: "same_boundary a b \<Longrightarrow> same_boundary b c \<Longrightarrow> same_boundary a c"
  by (simp add: same_boundary_def)

lemma same_boundary_refl [simp]: "same_boundary a a"
  by (simp add: same_boundary_def)

text \<open>A call binds at most one session, to an approved plan and the peer that asked for it.\<close>

definition binds_for :: "process_identity \<Rightarrow> ('w, 'g) privilege_service \<Rightarrow> ('w, 'g) privilege_service \<Rightarrow> bool" where
  "binds_for peer a b \<longleftrightarrow> same_boundary a b \<and> sv_catalog b = sv_catalog a
     \<and> (sv_sessions b = sv_sessions a \<or>
       (\<exists>sid key digest. catalog_get key digest (sv_catalog a) \<noteq> None \<and>
         sv_sessions b = (sv_sessions a)(sid \<mapsto> \<lparr>sh_session_id = sid, sh_plan_id = key,
          sh_plan_digest = digest, sh_owner = peer\<rparr>)))"

lemma binds_for_refl [simp]: "binds_for peer a a"
  by (simp add: binds_for_def)

lemma engine_call_binds:
  "on_engine call_it self = (r, self') \<Longrightarrow> binds_for peer self self'"
  by (auto simp: binds_for_def dest: on_engine_boundary)

lemma bind_session_binds:
  assumes "bind_session H peer key digest plan sid self = (r, self')"
    and "catalog_get key digest (sv_catalog self) \<noteq> None"
  shows "binds_for peer self self'"
proof -
  have "same_boundary self self' \<and> sv_catalog self' = sv_catalog self
     \<and> (sv_sessions self' = sv_sessions self \<or> sv_sessions self' = (sv_sessions self)(sid \<mapsto>
        \<lparr>sh_session_id = sid, sh_plan_id = key, sh_plan_digest = digest, sh_owner = peer\<rparr>))"
    using assms(1) by (auto simp: bind_session_def Let_def same_boundary_def split: prod.splits sum.splits
      elim!: abindE on_engineE)
  with assms(2) show ?thesis unfolding binds_for_def by blast
qed

lemma binds_for_after:
  "on_engine call_it self = (r, self1) \<Longrightarrow> binds_for peer self1 self' \<Longrightarrow> binds_for peer self self'"
  using on_engine_boundary [of call_it self r self1] by (simp add: binds_for_def same_boundary_def)

lemma bind_after_calls:
  assumes "on_engine f self = (a, s1)" and "on_engine g s1 = (b, s2)"
    and "bind_session H peer key digest plan sid s2 = (r, self')"
    and "catalog_get key digest (sv_catalog self) = Some approved"
  shows "binds_for peer self self'"
proof -
  have "catalog_get key digest (sv_catalog s2) \<noteq> None"
    using on_engine_boundary [OF assms(1)] on_engine_boundary [OF assms(2)] assms(4) by simp
  then show ?thesis
    using bind_session_binds [OF assms(3)] binds_for_after [OF assms(2)] binds_for_after [OF assms(1)] by blast
qed

lemma prepare_by_identity_binds:
  assumes "prepare_by_identity H peer key digest self = (r, self')"
  shows "binds_for peer self self'"
proof -
  from assms show ?thesis
    unfolding prepare_by_identity_def
    by (cases "catalog_get key digest (sv_catalog self)")
      (auto elim!: abindE intro: engine_call_binds binds_for_after bind_after_calls)
qed

lemma dispatch_binds: "dispatch H peer request self = (r, self') \<Longrightarrow> binds_for peer self self'"
  by (cases request) (auto simp: dispatch_def elim!: abindE
      intro: engine_call_binds prepare_by_identity_binds dest!: lookup_session_eq)

lemma answer_binds: "answer H peer request self = (r, self') \<Longrightarrow> binds_for peer self self'"
  by (auto simp: answer_def split: prod.splits sum.splits dest: dispatch_binds)

lemma answer_last_request:
  assumes "answer H peer request self = (r, self')"
  shows "sv_last_request self' = sv_last_request self"
  using answer_binds [OF assms] unfolding binds_for_def same_boundary_def by blast

section \<open>Admitted frames\<close>

definition fresh :: "('w, 'g) privilege_service \<Rightarrow> process_identity \<Rightarrow> request_id \<Rightarrow> bool" where
  "fresh self peer i \<longleftrightarrow> (\<forall>latest. sv_last_request self peer = Some latest \<longrightarrow> latest < request_num i)"

definition admitted :: "('w, 'g) privilege_service \<Rightarrow> process_identity option \<Rightarrow> u8 list \<Rightarrow> bool" where
  "admitted self peer bytes \<longleftrightarrow> (\<exists>p request. peer = Some p \<and> same_generation p (sv_expected_peer self)
     \<and> Request_decode bytes = Inr request \<and> fresh self p (request_request_id request))"

lemma accept_request_id_eq:
  "accept_request_id peer i self = (r, self') \<longleftrightarrow>
     (if fresh self peer i
      then r = Inr () \<and> self' = self\<lparr>sv_last_request := (sv_last_request self)(peer \<mapsto> request_num i)\<rparr>
      else r = Inl (boundary_error TransportError ''duplicate or replayed request ID'') \<and> self' = self)"
  by (auto simp: accept_request_id_def fresh_def not_le split: option.splits)

lemma handle_admitted:
  assumes "Request_decode bytes = Inr request" and "same_generation p (sv_expected_peer self)"
    and "fresh self p (request_request_id request)"
  shows "handle_frame H (Some p) bytes self = answer H p request
    (self\<lparr>sv_last_request := (sv_last_request self)(p \<mapsto> request_num (request_request_id request))\<rparr>)"
proof -
  have "accept_request_id p (request_request_id request) self = (Inr (),
      self\<lparr>sv_last_request := (sv_last_request self)(p \<mapsto> request_num (request_request_id request))\<rparr>)"
    using assms(3) by (simp add: accept_request_id_eq)
  with assms show ?thesis by (simp add: handle_frame_def abind_def areturn_def authenticate_peer_def)
qed

lemma handle_refused:
  assumes "\<not> admitted self peer bytes" and "handle_frame H peer bytes self = (r, self')"
  shows "self' = self \<and> (\<exists>e. r = Inl e)"
  using assms
  by (auto simp: handle_frame_def admitted_def authenticate_peer_eq accept_request_id_eq
      elim!: abindE split: if_splits)

primrec response_request_id :: "response \<Rightarrow> request_id" where
  "response_request_id (Accepted i _) = i"
| "response_request_id (response.Status i _ _) = i"
| "response_request_id (Rejected i _) = i"

lemma dispatch_correlates:
  "dispatch H p request self = (Inr response, self') \<Longrightarrow>
     response_request_id response = request_request_id request"
  by (cases request) (auto simp: dispatch_def elim!: abindE)

lemma answer_correlates:
  assumes "answer H p request self = (r, self')"
  shows "\<exists>response. r = Response_encode response
    \<and> response_request_id response = request_request_id request"
proof (cases "dispatch H p request self")
  case (Pair d s)
  show ?thesis
  proof (cases d)
    case (Inl e)
    with Pair assms have "r = Response_encode (Rejected (request_request_id request) (err_code e))"
      by (simp add: answer_def)
    then show ?thesis by (metis response_request_id.simps(3))
  next
    case (Inr response)
    with Pair assms have "r = Response_encode response" by (simp add: answer_def)
    with dispatch_correlates Pair Inr show ?thesis by blast
  qed
qed

section \<open>Mutations need authority\<close>

lemma dispatch_quiet:
  assumes "dispatch (logged_helper H) p request self = (r, self')"
    and "\<nexists>i sid h. request \<in> {request.Apply i sid, request.Restore i sid}
      \<and> sv_sessions self sid = Some h \<and> same_generation p (sh_owner h)"
    and "log_has mutating es (world (sv_engine self))"
  shows "log_has mutating es (world (sv_engine self'))"
  using assms
  by (cases request) (auto simp: dispatch_def elim!: abindE on_engineE dest!: lookup_session_eq
      quiet_helper.prepare_by_identity_keeps quiet.status_keeps_engine)

lemma answer_quiet:
  assumes "answer (logged_helper H) p request self = (r, self')"
    and "\<nexists>i sid h. request \<in> {request.Apply i sid, request.Restore i sid}
      \<and> sv_sessions self sid = Some h \<and> same_generation p (sh_owner h)"
    and "log_has mutating es (world (sv_engine self))"
  shows "log_has mutating es (world (sv_engine self'))"
  using assms dispatch_quiet [of H p request self]
  by (auto simp: answer_def split: prod.splits sum.splits)

section \<open>Invariants of a lifetime\<close>

text \<open>Sessions are bound to approved plans; approved plans are complete and keep their identity.\<close>

definition service_ok :: "('w, 'g) privilege_service \<Rightarrow> bool" where
  "service_ok self \<longleftrightarrow>
     (\<forall>key plan. sv_catalog self key = Some plan \<longrightarrow>
        plan_id plan = key \<and> Plan_validate_complete plan = Inr ())
     \<and> (\<forall>sid h. sv_sessions self sid = Some h \<longrightarrow> sh_session_id h = sid
        \<and> same_generation (sh_owner h) (sv_expected_peer self)
        \<and> catalog_get (sh_plan_id h) (sh_plan_digest h) (sv_catalog self) \<noteq> None)"

text \<open>What a step may change: nothing that was approved, bound to a peer, or acknowledged is undone.\<close>

definition advances :: "('w, 'g) privilege_service \<Rightarrow> ('w, 'g) privilege_service \<Rightarrow> bool" where
  "advances a b \<longleftrightarrow> sv_expected_peer b = sv_expected_peer a
     \<and> sv_catalog a \<subseteq>\<^sub>m sv_catalog b \<and> dom (sv_sessions a) \<subseteq> dom (sv_sessions b)
     \<and> (\<forall>p n. sv_last_request a p = Some n \<longrightarrow> (\<exists>m \<ge> n. sv_last_request b p = Some m))"

lemma advances_refl [simp]: "advances a a"
  by (auto simp: advances_def)

lemma advances_request:
  assumes "advances a b" and "sv_last_request a p = Some n"
  shows "\<exists>m \<ge> n. sv_last_request b p = Some m"
  using assms unfolding advances_def by blast

lemma advances_rest:
  "advances a b \<Longrightarrow> sv_expected_peer b = sv_expected_peer a \<and> sv_catalog a \<subseteq>\<^sub>m sv_catalog b
     \<and> dom (sv_sessions a) \<subseteq> dom (sv_sessions b)"
  unfolding advances_def by blast

lemma advances_trans:
  assumes "advances a b" and "advances b c"
  shows "advances a c"
  unfolding advances_def
proof (intro conjI allI impI)
  fix p n
  assume "sv_last_request a p = Some n"
  then obtain k where k: "k \<ge> n" "sv_last_request b p = Some k" using advances_request [OF assms(1)] by blast
  then obtain m where "m \<ge> k" "sv_last_request c p = Some m" using advances_request [OF assms(2)] by blast
  with k show "\<exists>m \<ge> n. sv_last_request c p = Some m" by (meson order_trans)
qed (metis advances_rest assms map_le_trans subset_trans)+

lemma binds_for_ok:
  assumes "binds_for peer a b" and "same_generation peer (sv_expected_peer a)" and "service_ok a"
  shows "service_ok b \<and> advances a b"
proof -
  from assms(1) have same: "sv_expected_peer b = sv_expected_peer a" "sv_last_request b = sv_last_request a"
    "sv_catalog b = sv_catalog a" by (auto simp: binds_for_def same_boundary_def)
  from assms(1) consider "sv_sessions b = sv_sessions a"
    | sid key digest where "catalog_get key digest (sv_catalog a) \<noteq> None"
      "sv_sessions b = (sv_sessions a)(sid \<mapsto> \<lparr>sh_session_id = sid, sh_plan_id = key,
          sh_plan_digest = digest, sh_owner = peer\<rparr>)"
    unfolding binds_for_def by blast
  then show ?thesis
    by cases (use same assms(2,3) in \<open>auto simp: service_ok_def advances_def\<close>)
qed

lemma accept_ok:
  assumes "service_ok self" and "fresh self p i"
  shows "service_ok (self\<lparr>sv_last_request := (sv_last_request self)(p \<mapsto> request_num i)\<rparr>)"
    "advances self (self\<lparr>sv_last_request := (sv_last_request self)(p \<mapsto> request_num i)\<rparr>)"
  using assms by (auto simp: service_ok_def advances_def fresh_def map_le_def intro: less_imp_le)

lemma handle_frame_ok:
  assumes ok: "service_ok self" and run: "handle_frame H peer bytes self = (r, self')"
  shows "service_ok self' \<and> advances self self'"
proof (cases "admitted self peer bytes")
  case True
  then obtain p request where *: "peer = Some p" "same_generation p (sv_expected_peer self)"
    "Request_decode bytes = Inr request" "fresh self p (request_request_id request)"
    by (auto simp: admitted_def)
  let ?self = "self\<lparr>sv_last_request := (sv_last_request self)(p \<mapsto> request_num (request_request_id request))\<rparr>"
  have "answer H p request ?self = (r, self')"
    using run handle_admitted [OF *(3,2,4)] *(1) by simp
  from binds_for_ok [OF answer_binds [OF this]] *(2) accept_ok [OF ok *(4)]
  show ?thesis by (auto intro: advances_trans)
qed (use handle_refused [OF _ run] ok in auto)

lemma catalog_register_cases:
  assumes "catalog_register plan cat = (r, cat')"
  obtains "cat' = cat"
    | "cat (plan_id plan) = None" "cat' = cat(plan_id plan \<mapsto> plan)" "Plan_validate_complete plan = Inr ()"
  using assms by (auto simp: catalog_register_def split: sum.splits option.splits if_splits)

lemma catalog_get_mono:
  "catalog_get key digest cat \<noteq> None \<Longrightarrow> cat \<subseteq>\<^sub>m cat' \<Longrightarrow> catalog_get key digest cat' = catalog_get key digest cat"
  by (cases "cat key") (force simp: catalog_get_def map_le_def dom_def)+

lemma register_plan_ok:
  assumes ok: "service_ok self" and run: "register_plan plan self = (r, self')"
  shows "service_ok self' \<and> advances self self'"
proof -
  from run obtain cat where cat: "catalog_register plan (sv_catalog self) = (r, cat)"
    and self': "self' = self\<lparr>sv_catalog := cat\<rparr>"
    by (auto simp: register_plan_def split: prod.splits)
  from cat show ?thesis
  proof (rule catalog_register_cases)
    assume "cat = sv_catalog self"
    then show ?thesis using ok self' by (simp add: service_ok_def)
  next
    assume *: "sv_catalog self (plan_id plan) = None" "cat = (sv_catalog self)(plan_id plan \<mapsto> plan)"
      "Plan_validate_complete plan = Inr ()"
    then have le: "sv_catalog self \<subseteq>\<^sub>m cat" by (simp add: map_le_def dom_def)
    then have "service_ok self'"
      using ok * self' catalog_get_mono [OF _ le] by (simp add: service_ok_def)
    then show ?thesis using le self' by (auto simp: advances_def)
  qed
qed

lemma binds_step:
  "service_ok self \<Longrightarrow> authenticate_peer peer self = (Inr (), s1) \<Longrightarrow> s1 = self
     \<and> same_generation peer (sv_expected_peer self)"
  by (auto simp: authenticate_peer_eq split: if_splits)

lemma for_peer_ok:
  assumes ok: "service_ok self"
  shows "prepare_for_peer H peer plan self = (rp, self') \<Longrightarrow> service_ok self' \<and> advances self self'"
    "apply_for_peer H peer bound self = (ra, self') \<Longrightarrow> service_ok self' \<and> advances self self'"
    "restore_for_peer H peer bound self = (ra, self') \<Longrightarrow> service_ok self' \<and> advances self self'"
    "status_for_peer H peer bound self = (ra, self') \<Longrightarrow> service_ok self' \<and> advances self self'"
proof -
  note call = binds_for_ok [OF engine_call_binds _ ok]
  have refused: "authenticate_peer peer self = (Inl e, self') \<Longrightarrow> service_ok self' \<and> advances self self'"
    "authorize_session peer bound self = (Inl e, self') \<Longrightarrow> service_ok self' \<and> advances self self'" for e
    using ok by (auto simp: authenticate_peer_eq dest: authorize_session_eq split: if_splits)
  show "apply_for_peer H peer bound self = (ra, self') \<Longrightarrow> service_ok self' \<and> advances self self'"
    "restore_for_peer H peer bound self = (ra, self') \<Longrightarrow> service_ok self' \<and> advances self self'"
    "status_for_peer H peer bound self = (ra, self') \<Longrightarrow> service_ok self' \<and> advances self self'"
    unfolding apply_for_peer_def restore_for_peer_def status_for_peer_def
    using ok by (auto elim!: abindE dest!: binds_step [OF ok] authorize_session_eq dest: refused call)
  assume "prepare_for_peer H peer plan self = (rp, self')"
  then show "service_ok self' \<and> advances self self'"
    unfolding prepare_for_peer_def
  proof (elim abindE)
    fix x s1 y s2
    assume "authenticate_peer peer self = (Inr x, s1)" and reg: "register_plan plan s1 = (Inr y, s2)"
      and prep: "prepare_by_identity H peer (plan_id plan) (plan_digest plan) s2 = (rp, self')"
    then have s1: "s1 = self" "same_generation peer (sv_expected_peer self)"
      using binds_step [OF ok] by auto
    from register_plan_ok [OF ok reg [unfolded s1]] have "service_ok s2" "advances self s2" by auto
    moreover from this have "same_generation peer (sv_expected_peer s2)"
      using s1(2) by (simp add: advances_def)
    ultimately show ?thesis
      using binds_for_ok [OF prepare_by_identity_binds [OF prep]] by (blast intro: advances_trans)
  next
    fix x s1 e
    assume "authenticate_peer peer self = (Inr x, s1)" "register_plan plan s1 = (Inl e, self')"
    then show ?thesis using binds_step [OF ok, of peer s1] register_plan_ok [OF ok] by simp
  qed (use refused in auto)
qed

lemma serve_ok:
  "(serve_step H)\<^sup>*\<^sup>* self self' \<Longrightarrow> service_ok self \<Longrightarrow> service_ok self' \<and> advances self self'"
proof (induction rule: rtranclp_induct)
  case (step s1 s2)
  then have ok: "service_ok s1" "advances self s1" by auto
  from step(2) have "service_ok s2 \<and> advances s1 s2"
    by cases (auto dest: handle_frame_ok [OF ok(1)] register_plan_ok [OF ok(1)] for_peer_ok [OF ok(1)])
  with ok(2) show ?case by (blast intro: advances_trans)
qed simp

lemma service_new_ok: "PrivilegeService_new H peer eng = (Inr self, eng') \<Longrightarrow> service_ok self"
  by (auto simp: PrivilegeService_new_def service_ok_def split: if_splits prod.splits sum.splits)

section \<open>An example helper\<close>

definition example_peer :: process_identity where
  "example_peer = fixture 42 7 (replicate 16 1)"

definition example_helper :: "(example_world, unit) helper" where
  "example_helper = \<lparr>hp_ports = example_ports, hp_owns = (\<lambda>b. b = BackendId ''cpu''),
     hp_admission = (\<lambda>m ident w. (Inr (), w))\<rparr>"

definition example_start :: "(example_world \<times> event list, unit) engine" where
  "example_start = \<lparr>world = (\<lparr>ex_record = example_intent, ex_value = StateFingerprint (replicate 32 1)\<rparr>, []),
     active = None\<rparr>"

definition example_service :: "(example_world \<times> event list, unit) privilege_service" where
  "example_service = projr (fst (PrivilegeService_new (logged_helper example_helper) example_peer example_start))"

definition example_registered :: "(example_world \<times> event list, unit) privilege_service" where
  "example_registered = snd (register_plan example_full_plan example_service)"

text \<open>The state after an admitted request of the example peer.\<close>

definition accepted :: "request \<Rightarrow> (example_world \<times> event list, unit) privilege_service \<Rightarrow>
    (example_world \<times> event list, unit) privilege_service" where
  "accepted request self = snd (dispatch (logged_helper example_helper) example_peer request
     (self\<lparr>sv_last_request := (sv_last_request self)(example_peer \<mapsto> request_num (request_request_id request))\<rparr>))"

definition example_prepare :: request where
  "example_prepare = request.Prepare (RequestId 1) (plan_id example_full_plan) (plan_digest example_full_plan)"

definition example_apply :: request where
  "example_apply = request.Apply (RequestId 2) (SessionId (replicate 16 6))"

definition example_prepared :: "(example_world \<times> event list, unit) privilege_service" where
  "example_prepared = accepted example_prepare example_registered"

definition example_served :: "(example_world \<times> event list, unit) privilege_service" where
  "example_served = accepted example_apply example_prepared"

lemma accepted_frame:
  assumes "same_generation example_peer (sv_expected_peer self)" and "fresh self example_peer (request_request_id request)"
    and "Request_decode bytes = Inr request"
  shows "\<exists>r. handle_frame (logged_helper example_helper) (Some example_peer) bytes self = (r, accepted request self)"
proof -
  have "snd (answer H p request s) = snd (dispatch H p request s)" for H :: "('x, 'g) helper" and p request s
    by (auto simp: answer_def split: prod.splits sum.splits)
  then show ?thesis
    unfolding handle_admitted [OF assms(3,1,2)] accepted_def by (metis prod.collapse)
qed

lemma example_log:
  "Apply_called example_mutation example_snapshot \<in> set (snd (world (sv_engine example_served)))"
  by code_simp

lemma example_facts:
  "sv_expected_peer example_registered = example_peer" "sv_expected_peer example_prepared = example_peer"
  "sv_last_request example_registered example_peer = None"
  "sv_last_request example_prepared example_peer = Some 1"
  "\<not> isl (fst (PrivilegeService_new (logged_helper example_helper) example_peer example_start))"
  "same_generation example_peer example_peer" "wf_request example_prepare" "wf_request example_apply"
  by code_simp+

lemma example_lifetime:
  "\<exists>eng. PrivilegeService_new (logged_helper example_helper) example_peer example_start
     = (Inr example_service, eng)"
  "(serve_step (logged_helper example_helper))\<^sup>*\<^sup>* example_service example_prepared"
  "\<exists>bytes r. Request_decode bytes = Inr example_apply
     \<and> handle_frame (logged_helper example_helper) (Some example_peer) bytes example_prepared = (r, example_served)"
proof -
  show "\<exists>eng. PrivilegeService_new (logged_helper example_helper) example_peer example_start
     = (Inr example_service, eng)"
    using example_facts(5) unfolding example_service_def
    by (cases "PrivilegeService_new (logged_helper example_helper) example_peer example_start") auto
  have "serve_step (logged_helper example_helper) example_service example_registered"
    unfolding example_registered_def by (rule serve_register) (rule surjective_pairing)
  moreover obtain bytes where "Request_decode bytes = Inr example_prepare"
    using request_encodes [OF example_facts(7)] request_decodes [OF _ example_facts(7)] by blast
  then obtain r where "handle_frame (logged_helper example_helper) (Some example_peer) bytes example_registered
      = (r, accepted example_prepare example_registered)"
    using accepted_frame [of example_registered example_prepare] example_facts
    by (auto simp: fresh_def)
  then have "serve_step (logged_helper example_helper) example_registered example_prepared"
    unfolding example_prepared_def by (rule serve_frame)
  ultimately show "(serve_step (logged_helper example_helper))\<^sup>*\<^sup>* example_service example_prepared"
    by simp
  obtain bytes where "Request_decode bytes = Inr example_apply"
    using request_encodes [OF example_facts(8)] request_decodes [OF _ example_facts(8)] by blast
  moreover from this obtain r where "handle_frame (logged_helper example_helper) (Some example_peer) bytes example_prepared
      = (r, accepted example_apply example_prepared)"
    using accepted_frame [of example_prepared example_apply bytes] example_facts
    by (auto simp: fresh_def example_apply_def)
  ultimately show "\<exists>bytes r. Request_decode bytes = Inr example_apply
     \<and> handle_frame (logged_helper example_helper) (Some example_peer) bytes example_prepared = (r, example_served)"
    unfolding example_served_def by blast
qed

section \<open>Properties\<close>

text \<open>
  C9: the discipline of the engine is the discipline of the helper. Over all lifetimes of the helper
  service, whatever frames and calls arrive from whatever peers, and however often it stops and
  starts, each backend apply directly follows a successful durable replace of a record that shows
  the mutation Applying with that preimage and everything before it done, and each backend restore
  directly follows a readback of the session's own value, different from the original.
\<close>

theorem helper_is_write_ahead:
  assumes "lifetimes (logged_helper H) (w, []) eng"
  shows "(snd (world eng) = later @ Apply_called m s # earlier \<longrightarrow>
      (\<exists>record u rest. earlier = Replace_called record (Inr u) # rest \<and> intent_on record m s))
    \<and> (snd (world eng) = later @ Restore_called m s own # earlier \<longrightarrow>
      (\<exists>rest. earlier = Verify_called m (sn_original_fingerprint s) (sn_target_identity s) (Inr own) # rest)
      \<and> own \<noteq> sn_original_fingerprint s)"
proof -
  have "permitted e earlier" if "snd (world eng) = later @ e # earlier" for e
    using lifetimes_disciplined [OF assms] disciplined_at that by metis
  from this [of "Apply_called m s"] this [of "Restore_called m s own"] show ?thesis
    by (auto split: list.splits event.splits sum.splits)
qed

theorem helper_is_write_ahead_witness:
  "\<exists>later record u rest. snd (world (sv_engine example_served))
     = later @ Apply_called example_mutation example_snapshot # Replace_called record (Inr u) # rest
     \<and> intent_on record example_mutation example_snapshot"
proof -
  obtain eng where new: "PrivilegeService_new (logged_helper example_helper) example_peer
      \<lparr>world = world example_start, active = None\<rparr> = (Inr example_service, eng)"
    using example_lifetime(1) by (auto simp: example_start_def)
  have "lifetimes (logged_helper example_helper) (world example_start) example_start"
    using first [of "logged_helper example_helper" "world example_start" None] by (simp add: example_start_def)
  note start = served [OF this new]
  have "serve_step (logged_helper example_helper) example_prepared example_served"
    using example_lifetime(3) by (blast intro: serve_frame)
  with example_lifetime(2) have "(serve_step (logged_helper example_helper))\<^sup>*\<^sup>* example_service example_served"
    by (rule rtranclp.rtrancl_into_rtrancl)
  from start [OF this]
  have run: "lifetimes (logged_helper example_helper) (fst (world example_start), []) (sv_engine example_served)"
    by (simp add: example_start_def)
  obtain later earlier where split: "snd (world (sv_engine example_served))
      = later @ Apply_called example_mutation example_snapshot # earlier"
    using example_log by (auto simp: in_set_conv_decomp)
  with helper_is_write_ahead [OF run, of later example_mutation example_snapshot earlier] show ?thesis
    by auto
qed

text \<open>
  C8: only authority mutates. If a frame makes the helper call the backend's apply or restore, then
  the transport authenticated the sender as the expected peer, the frame is an apply or restore
  request with a request ID above every one accepted from that peer before, and the session it names
  was prepared in this lifetime for that very process generation.
\<close>

theorem mutation_requires_authority:
  assumes "handle_frame (logged_helper H) peer bytes self = (r, self')"
    and "List.filter mutating (snd (world (sv_engine self'))) \<noteq> List.filter mutating (snd (world (sv_engine self)))"
  shows "\<exists>p i sid h. peer = Some p \<and> same_generation p (sv_expected_peer self)
    \<and> (Request_decode bytes = Inr (request.Apply i sid) \<or> Request_decode bytes = Inr (request.Restore i sid))
    \<and> fresh self p i \<and> sv_sessions self sid = Some h \<and> same_generation p (sh_owner h)"
proof -
  have "admitted self peer bytes" using handle_refused [OF _ assms(1)] assms(2) by blast
  then obtain p request where *: "peer = Some p" "same_generation p (sv_expected_peer self)"
    "Request_decode bytes = Inr request" "fresh self p (request_request_id request)"
    by (auto simp: admitted_def)
  let ?self = "self\<lparr>sv_last_request := (sv_last_request self)(p \<mapsto> request_num (request_request_id request))\<rparr>"
  have "answer (logged_helper H) p request ?self = (r, self')"
    using assms(1) handle_admitted [OF *(3,2,4)] *(1) by simp
  note quiet = answer_quiet [OF this]
  have "\<exists>i sid h. request \<in> {request.Apply i sid, request.Restore i sid}
      \<and> sv_sessions ?self sid = Some h \<and> same_generation p (sh_owner h)"
  proof (rule ccontr)
    assume "\<not> ?thesis"
    from quiet [OF this, of "List.filter mutating (snd (world (sv_engine self)))"] assms(2)
    show False by (simp add: log_has_def)
  qed
  with * show ?thesis by auto
qed

theorem mutation_requires_authority_witness:
  "\<exists>i sid h. sv_sessions example_prepared sid = Some h \<and> fresh example_prepared example_peer i
     \<and> same_generation example_peer (sh_owner h)"
proof -
  obtain bytes r where "handle_frame (logged_helper example_helper) (Some example_peer) bytes example_prepared
      = (r, example_served)" using example_lifetime(3) by blast
  moreover have "length (List.filter mutating (snd (world (sv_engine example_prepared)))) = 0"
    "length (List.filter mutating (snd (world (sv_engine example_served)))) = 1" by code_simp+
  then have "List.filter mutating (snd (world (sv_engine example_served)))
      \<noteq> List.filter mutating (snd (world (sv_engine example_prepared)))" by force
  ultimately show ?thesis using mutation_requires_authority by blast
qed

text \<open>
  C12: a frame is served or has no effect. A frame without authenticated credentials, from another
  process than the expected peer, that does not decode, or whose request ID is not above the last one
  accepted from that peer is an error and leaves the whole service as it was; any other frame is
  recorded under its request ID and answered with a response that carries that ID.
\<close>

theorem frame_served_or_inert:
  assumes "handle_frame H peer bytes self = (r, self')"
  shows "if admitted self peer bytes
    then (\<exists>p request response. peer = Some p \<and> Request_decode bytes = Inr request
      \<and> sv_last_request self' = (sv_last_request self)(p \<mapsto> request_num (request_request_id request))
      \<and> r = Response_encode response \<and> response_request_id response = request_request_id request)
    else self' = self \<and> (\<exists>e. r = Inl e)"
proof (cases "admitted self peer bytes")
  case True
  then obtain p request where *: "peer = Some p" "same_generation p (sv_expected_peer self)"
    "Request_decode bytes = Inr request" "fresh self p (request_request_id request)"
    by (auto simp: admitted_def)
  let ?self = "self\<lparr>sv_last_request := (sv_last_request self)(p \<mapsto> request_num (request_request_id request))\<rparr>"
  have run: "answer H p request ?self = (r, self')"
    using assms handle_admitted [OF *(3,2,4)] *(1) by simp
  then have "sv_last_request self' = sv_last_request ?self" by (rule answer_last_request)
  with True * answer_correlates [OF run] show ?thesis by auto
qed (use handle_refused [OF _ assms] in auto)

theorem frame_served_or_inert_witness:
  "\<exists>e. handle_frame (logged_helper example_helper) None [] example_prepared = (Inl e, example_prepared)"
proof -
  obtain r self' where run: "handle_frame (logged_helper example_helper) None [] example_prepared = (r, self')"
    by fastforce
  have "\<not> admitted example_prepared None []" by (simp add: admitted_def)
  with frame_served_or_inert [OF run] run show ?thesis by auto
qed

text \<open>
  C11: no replay. Once a frame of a peer was admitted, then after any further calls on the service no
  frame of that peer with the same or a smaller request ID is ever served: it is an error and changes
  nothing.
\<close>

theorem replay_rejected:
  assumes "service_ok self" and "admitted self (Some p) bytes"
    and "handle_frame H (Some p) bytes self = (r, self1)" and "(serve_step H)\<^sup>*\<^sup>* self1 self2"
    and "Request_decode bytes = Inr request" and "Request_decode bytes' = Inr request'"
    and "request_num (request_request_id request') \<le> request_num (request_request_id request)"
    and "handle_frame H (Some p) bytes' self2 = (r', self3)"
  shows "self3 = self2 \<and> (\<exists>e. r' = Inl e)"
proof -
  let ?n = "request_num (request_request_id request)"
  have fresh: "same_generation p (sv_expected_peer self)" "fresh self p (request_request_id request)"
    using assms(2,5) by (auto simp: admitted_def)
  have "answer H p request (self\<lparr>sv_last_request := (sv_last_request self)(p \<mapsto> ?n)\<rparr>) = (r, self1)"
    using assms(3) handle_admitted [OF assms(5) fresh] by simp
  then have "sv_last_request self1 p = Some ?n" by (simp add: answer_last_request)
  moreover have "advances self1 self2"
    using serve_ok [OF assms(4)] handle_frame_ok [OF assms(1,3)] by blast
  ultimately obtain m where "m \<ge> ?n" "sv_last_request self2 p = Some m"
    using advances_request by blast
  then have "\<not> fresh self2 p (request_request_id request')"
    using assms(7) by (auto simp: fresh_def not_less intro: order_trans)
  then have "\<not> admitted self2 (Some p) bytes'" using assms(6) by (auto simp: admitted_def)
  from handle_refused [OF this assms(8)] show ?thesis .
qed

theorem replay_rejected_witness:
  "\<exists>bytes r e. handle_frame (logged_helper example_helper) (Some example_peer) bytes example_prepared = (r, example_served)
     \<and> handle_frame (logged_helper example_helper) (Some example_peer) bytes example_served = (Inl e, example_served)"
proof -
  obtain eng where "PrivilegeService_new (logged_helper example_helper) example_peer example_start
     = (Inr example_service, eng)" using example_lifetime(1) by blast
  from serve_ok [OF example_lifetime(2) service_new_ok [OF this]] have ok: "service_ok example_prepared" by blast
  obtain bytes r where run: "Request_decode bytes = Inr example_apply"
    "handle_frame (logged_helper example_helper) (Some example_peer) bytes example_prepared = (r, example_served)"
    using example_lifetime(3) by blast
  have adm: "admitted example_prepared (Some example_peer) bytes"
    using example_facts run(1) by (auto simp: admitted_def fresh_def example_apply_def)
  obtain r' self3 where again: "handle_frame (logged_helper example_helper) (Some example_peer) bytes example_served
      = (r', self3)" by fastforce
  from replay_rejected [OF ok adm run(2) rtranclp.rtrancl_refl run(1) run(1) order_refl again] run(2) again
  show ?thesis by blast
qed

text \<open>
  Sessions stay bound to approved plans. In every lifetime of the helper, after any calls, each
  known session belongs to the process the helper was started for and to a plan that was registered
  under that identity and digest and passed complete validation, and no later call changes or
  withdraws a registered plan.
\<close>

theorem sessions_stay_approved:
  assumes "PrivilegeService_new H peer eng = (Inr self, eng')" and "(serve_step H)\<^sup>*\<^sup>* self self'"
    and "(serve_step H)\<^sup>*\<^sup>* self' self''"
  shows "(sv_sessions self' sid = Some h \<longrightarrow> sh_session_id h = sid \<and> same_generation (sh_owner h) peer
      \<and> (\<exists>plan. catalog_get (sh_plan_id h) (sh_plan_digest h) (sv_catalog self') = Some plan
          \<and> plan_id plan = sh_plan_id h \<and> Plan_validate_complete plan = Inr ()))
    \<and> (sv_catalog self' key = Some plan \<longrightarrow> sv_catalog self'' key = Some plan)"
proof -
  have ok: "service_ok self'" "advances self self'" using serve_ok [OF assms(2) service_new_ok [OF assms(1)]] by auto
  have "sv_expected_peer self = peer"
    using assms(1) by (auto simp: PrivilegeService_new_def split: if_splits prod.splits sum.splits)
  with ok have expected: "sv_expected_peer self' = peer" by (simp add: advances_def)
  have le: "sv_catalog self' \<subseteq>\<^sub>m sv_catalog self''"
    using serve_ok [OF assms(3) ok(1)] advances_rest by blast
  have "\<exists>plan. catalog_get k d (sv_catalog self') = Some plan \<and> plan_id plan = k
      \<and> Plan_validate_complete plan = Inr ()" if "catalog_get k d (sv_catalog self') \<noteq> None" for k d
    using that ok(1) by (cases "sv_catalog self' k") (auto simp: catalog_get_def service_ok_def split: if_splits)
  moreover have "sv_catalog self'' key = Some plan" if "sv_catalog self' key = Some plan"
    using le that by (auto simp: map_le_def dom_def)
  ultimately show ?thesis using ok(1) expected unfolding service_ok_def by blast
qed

theorem sessions_stay_approved_witness:
  "\<exists>h. sv_sessions example_prepared (SessionId (replicate 16 6)) = Some h \<and> same_generation (sh_owner h) example_peer"
proof -
  obtain eng where new: "PrivilegeService_new (logged_helper example_helper) example_peer example_start
     = (Inr example_service, eng)" using example_lifetime(1) by blast
  have "sv_sessions example_prepared (SessionId (replicate 16 6)) \<noteq> None" by code_simp
  then obtain h where "sv_sessions example_prepared (SessionId (replicate 16 6)) = Some h" by blast
  with sessions_stay_approved [OF new example_lifetime(2) rtranclp.rtrancl_refl] show ?thesis by blast
qed

lemma admit_all_ok:
  "admit_all H plan ms eng = (Inr (), eng') \<Longrightarrow> m \<in> set ms \<Longrightarrow>
     \<exists>item ident backend w w'. item_of plan (pm_mutation_id m) = Some item \<and> pi_backend item = Some backend
       \<and> hp_owns H backend \<and> pi_target_identity item = Some ident \<and> hp_admission H m ident w = (Inr (), w')"
proof (induction ms arbitrary: eng)
  case (Cons a ms)
  then obtain eng1 where one: "admit_one H plan a eng = (Inr (), eng1)"
    and rest: "admit_all H plan ms eng1 = (Inr (), eng')" by (auto elim!: abindE)
  show ?case
  proof (cases "m = a")
    case True
    with one show ?thesis
      by (auto simp: admit_one_def rbind_eq_Inr call_def elim!: abindE split: if_splits option.splits prod.splits)
        blast
  next
    case False
    with Cons.prems(2) Cons.IH [OF rest] show ?thesis by simp
  qed
qed simp

text \<open>
  C10: a session is handed out only after admission. A prepared session is bound to the sender and
  to an approved plan with at least one mutation; before the engine prepared it, a plan item with an
  owned backend and a target identity was found for every mutation and the backend admitted the
  mutation on that very target, and afterwards every preimage of the durable record was captured from
  the target the plan approved.
\<close>

theorem prepared_session_admitted:
  assumes "prepare_by_identity H peer key digest self = (Inr h, self')"
  shows "\<exists>plan. catalog_get key digest (sv_catalog self) = Some plan \<and> plan_mutations plan \<noteq> []
    \<and> (\<forall>m \<in> set (plan_mutations plan). \<exists>item ident backend w w'. item_of plan (pm_mutation_id m) = Some item
        \<and> pi_backend item = Some backend \<and> hp_owns H backend \<and> pi_target_identity item = Some ident
        \<and> hp_admission H m ident w = (Inr (), w'))
    \<and> (\<exists>eng eng' rec w. prepare (hp_ports H) plan eng = (Inr (sh_session_id h), eng')
        \<and> port_load (hp_ports H) (sh_session_id h) (world eng') = (Inr rec, w)
        \<and> (\<forall>p \<in> set (sr_operations rec). \<exists>s item. op_snapshot p = Some s
            \<and> item_of plan (pm_mutation_id (op_mutation p)) = Some item
            \<and> pi_target_identity item = Some (sn_target_identity s)))
    \<and> sh_plan_id h = key \<and> sh_plan_digest h = digest \<and> sh_owner h = peer
    \<and> sv_sessions self' = (sv_sessions self)(sh_session_id h \<mapsto> h)"
proof -
  from assms obtain plan s1 sid s2 where plan: "catalog_get key digest (sv_catalog self) = Some plan"
    and admission: "on_engine (validate_plan_admission H plan) self = (Inr (), s1)"
    and prep: "on_engine (prepare (hp_ports H) plan) s1 = (Inr sid, s2)"
    and bind: "bind_session H peer key digest plan sid s2 = (Inr h, self')"
    by (auto simp: prepare_by_identity_def split: option.splits elim!: abindE)
  have sessions: "sv_sessions s2 = sv_sessions self"
    using on_engine_boundary [OF admission] on_engine_boundary [OF prep] by simp
  from bind obtain s3 where h: "h = \<lparr>sh_session_id = sid, sh_plan_id = key, sh_plan_digest = digest, sh_owner = peer\<rparr>"
      "sv_sessions self' = (sv_sessions s2)(sid \<mapsto> h)"
    and checked: "on_engine (validate_snapshot_identities H sid plan) s2 = (Inr (), s3)"
    by (auto simp: bind_session_def Let_def split: prod.splits sum.splits elim!: abindE dest: on_engine_boundary)
  from checked obtain rec w where load: "port_load (hp_ports H) sid (world (sv_engine s2)) = (Inr rec, w)"
    and "\<forall>p \<in> set (sr_operations rec). snapshot_identity plan p = Inr ()"
    by (auto simp: validate_snapshot_identities_def try_each_eq_Inr call_def elim!: on_engineE abindE
        split: prod.splits)
  then have identities: "\<forall>p \<in> set (sr_operations rec). \<exists>s item. op_snapshot p = Some s
      \<and> item_of plan (pm_mutation_id (op_mutation p)) = Some item
      \<and> pi_target_identity item = Some (sn_target_identity s)"
    by (auto simp: snapshot_identity_def rbind_eq_Inr bind_eq_Some_conv split: if_splits)
  have "prepare (hp_ports H) plan (sv_engine s1) = (Inr sid, sv_engine s2)"
    using prep by (auto elim!: on_engineE)
  with load identities have prepared: "\<exists>eng eng' rec w. prepare (hp_ports H) plan eng = (Inr sid, eng')
        \<and> port_load (hp_ports H) sid (world eng') = (Inr rec, w)
        \<and> (\<forall>p \<in> set (sr_operations rec). \<exists>s item. op_snapshot p = Some s
            \<and> item_of plan (pm_mutation_id (op_mutation p)) = Some item
            \<and> pi_target_identity item = Some (sn_target_identity s))" by blast
  obtain eng where "validate_plan_admission H plan (sv_engine self) = (Inr (), eng)"
    using admission by (auto elim!: on_engineE)
  then have "plan_mutations plan \<noteq> []"
    and "admit_all H plan (plan_mutations plan) (sv_engine self) = (Inr (), eng)"
    by (auto simp: validate_plan_admission_def elim!: abindE split: if_splits)
  with prepared plan admit_all_ok [OF this(2)] sessions show ?thesis
    by (intro exI [of _ plan]) (simp add: h)
qed

theorem prepared_session_admitted_witness:
  "\<exists>item ident backend. item_of example_full_plan (pm_mutation_id example_mutation) = Some item
     \<and> pi_backend item = Some backend \<and> backend = BackendId ''cpu'' \<and> pi_target_identity item = Some ident"
proof -
  let ?run = "prepare_by_identity (logged_helper example_helper) example_peer (plan_id example_full_plan)
      (plan_digest example_full_plan) example_registered"
  have "\<not> isl (fst ?run)" by code_simp
  then obtain h self' where run: "?run = (Inr h, self')" by (cases ?run; cases "fst ?run") auto
  have "catalog_get (plan_id example_full_plan) (plan_digest example_full_plan) (sv_catalog example_registered)
      = Some example_full_plan" by code_simp
  moreover have "plan_mutations example_full_plan = [example_mutation]"
    by (simp add: example_full_plan_def example_plan_def)
  ultimately show ?thesis
    using prepared_session_admitted [OF run] by (fastforce simp: example_helper_def)
qed

end
