(* ===== verification/Host_Files.thy ===== *)
theory Host_Files
  imports Actions Rust_Strings
begin

text \<open>
  The calls of \<open>std::fs\<close>, \<open>std::path\<close> and \<open>rustix::process\<close> that the file-backed components make, as
  a record of functions on the world they act on. What the kernel answers is the parameter: any call
  may fail, and two reads of one path may differ. The adapters of the program are written over such
  a record.
\<close>

section \<open>Paths\<close>

text \<open>A path is its byte string; \<open>join\<close> and \<open>push\<close> replace it by an absolute component.\<close>

type_synonym path = string

definition path_join :: "path \<Rightarrow> string \<Rightarrow> path" where
  "path_join base component =
     (if starts_with ''/'' component then component
      else if base = [] \<or> ends_with ''/'' base then base @ component
      else base @ ''/'' @ component)"

section \<open>Metadata and errors\<close>

datatype io_kind = NotFound | PermissionDenied | AlreadyExists | OtherKind

datatype file_type = RegularFile | Directory | Symlink | OtherFile

record metadata =
  md_type :: file_type
  md_dev :: u64
  md_ino :: u64
  md_uid :: u32
  md_gid :: u32
  md_mode :: u32
  md_nlink :: u64

unbundle bit_operations_syntax

text \<open>\<open>Permissions::readonly\<close>: no write bit is set.\<close>

definition is_readonly :: "metadata \<Rightarrow> bool" where
  "is_readonly m \<longleftrightarrow> md_mode m AND 0x92 = 0"

record open_options =
  oo_write :: bool
  oo_create_new :: bool
  oo_mode :: u32
  oo_flags :: u32

text \<open>One item of a \<open>ReadDir\<close>: the name as bytes, and what \<open>DirEntry::file_type\<close> returns.\<close>

record dir_entry =
  de_name :: "u8 list"
  de_type :: "io_kind + file_type"

definition entry_str :: "dir_entry \<Rightarrow> string option" where
  "entry_str entry = from_utf8 (de_name entry)"

section \<open>The host\<close>

type_synonym ('w, 'a) io = "'w \<Rightarrow> (io_kind + 'a) \<times> 'w"

text \<open>
  \<open>h_clock_nanos\<close> is the time since the epoch, 0 for a clock before it; \<open>h_read_to_string\<close> fails with
  \<open>OtherKind\<close> on contents that are not UTF-8.
\<close>

text \<open>An open \<open>File\<close> is a number; dropping it has no effect that the program sees.\<close>

type_synonym fd = nat

record 'w host =
  h_symlink_metadata :: "path \<Rightarrow> ('w, metadata) io"
  h_canonicalize :: "path \<Rightarrow> ('w, path) io"
  h_read_dir :: "path \<Rightarrow> ('w, (io_kind + dir_entry) list) io"
  h_open :: "open_options \<Rightarrow> path \<Rightarrow> ('w, fd) io"
  h_metadata :: "fd \<Rightarrow> ('w, metadata) io"
  h_read :: "fd \<Rightarrow> nat option \<Rightarrow> ('w, u8 list) io"
  h_write_all :: "fd \<Rightarrow> u8 list \<Rightarrow> ('w, unit) io"
  h_sync_all :: "fd \<Rightarrow> ('w, unit) io"
  h_create_dir :: "u32 \<Rightarrow> path \<Rightarrow> ('w, unit) io"
  h_remove_dir :: "path \<Rightarrow> ('w, unit) io"
  h_remove_file :: "path \<Rightarrow> ('w, unit) io"
  h_rename :: "path \<Rightarrow> path \<Rightarrow> ('w, unit) io"
  h_getpriority :: "u32 \<Rightarrow> ('w, int) io"
  h_setpriority :: "u32 \<Rightarrow> int \<Rightarrow> ('w, unit) io"
  h_process_id :: u32
  h_read_to_string :: "path \<Rightarrow> ('w, string) io"
  h_clock_nanos :: "'w \<Rightarrow> nat \<times> 'w"

text \<open>\<open>call.map_err(f)?\<close>: the error of a call becomes one of the program.\<close>

definition io_call :: "('w, 'a) io \<Rightarrow> (io_kind \<Rightarrow> sysboost_error) \<Rightarrow> ('w, 'a) action" where
  "io_call f err w = (case f w of (r, w) \<Rightarrow> (map_err err r, w))"

text \<open>\<open>File::take(limit)\<close> before \<open>read_to_end\<close>: no more than the limit, and all of a short file.\<close>

definition limited :: "nat option \<Rightarrow> 'a list \<Rightarrow> 'a list" where
  "limited limit bytes = (case limit of None \<Rightarrow> bytes | Some n \<Rightarrow> take n bytes)"

definition read_options :: "u32 \<Rightarrow> open_options" where
  "read_options flags = \<lparr>oo_write = False, oo_create_new = False, oo_mode = 0, oo_flags = flags\<rparr>"

definition create_options :: "u32 \<Rightarrow> u32 \<Rightarrow> open_options" where
  "create_options mode flags = \<lparr>oo_write = True, oo_create_new = True, oo_mode = mode, oo_flags = flags\<rparr>"

definition write_options :: "u32 \<Rightarrow> open_options" where
  "write_options flags = \<lparr>oo_write = True, oo_create_new = False, oo_mode = 0, oo_flags = flags\<rparr>"

text \<open>Sequencing inside a closure that returns \<open>io::Error\<close>, and an error of the program reported as one.\<close>

definition io_bind :: "('w, 'a) io \<Rightarrow> ('a \<Rightarrow> ('w, 'b) io) \<Rightarrow> ('w, 'b) io" where
  "io_bind m k w = (case m w of (Inl e, w) \<Rightarrow> (Inl e, w) | (Inr x, w) \<Rightarrow> k x w)"

definition io_return :: "io_kind + 'a \<Rightarrow> ('w, 'a) io" where
  "io_return r w = (r, w)"

definition as_io :: "io_kind \<Rightarrow> ('w, 'a) action \<Rightarrow> ('w, 'a) io" where
  "as_io kind m w = (case m w of (r, w) \<Rightarrow> (replace_err kind r, w))"

text \<open>\<open>collect\<close> of an iterator of results: the values, or the first error.\<close>

fun try_map :: "('a \<Rightarrow> 'b result) \<Rightarrow> 'a list \<Rightarrow> 'b list result" where
  "try_map f [] = Inr []"
| "try_map f (x # xs) = rbind (f x) (\<lambda>y. rbind (try_map f xs) (\<lambda>ys. Inr (y # ys)))"

text \<open>The flags of \<open>open\<close> on Linux.\<close>

definition open_nofollow_flags :: u32 where "open_nofollow_flags = 0x20000"
definition open_directory_flags :: u32 where "open_directory_flags = 0x10000"
definition open_cloexec_flags :: u32 where "open_cloexec_flags = 0x80000"

end
