(* ===== verification/Cpu_Backend.thy ===== *)
theory Cpu_Backend
  imports Backends Plan_Text
begin

text \<open>
  The CPU power-policy backend of \<open>sysboost-linux/src/cpu.rs\<close> over its typed control port: closed CPU
  nodes, the snapshot, apply, verify and restore stages with their compare-and-restore checks, the
  admission and target checks, capability detection, and the operation catalog given to the planner.
  The port is a record of functions on the world it acts on; \<open>Cpu_Fixture\<close> and \<open>Cpu_Sysfs\<close> hold the
  two implementations.
\<close>

section \<open>Nodes and node states\<close>

datatype cpu_boost_interface = Boost | NoTurbo

datatype cpu_node =
    Governor cpu_policy_id
  | EnergyPreference cpu_policy_id
  | Frequency cpu_policy_id
  | Boost "cpu_boost_interface option"
  | PlatformProfile

record cpu_node_state =
  cs_raw :: bounded_bytes
  cs_typed :: typed_value
  cs_fingerprint :: state_fingerprint
  cs_target_identity :: target_identity
  cs_boost_interface :: "cpu_boost_interface option"

record 'w cpu_control_io =
  cpu_list_policies :: "('w, cpu_policy_id list) action"
  cpu_read :: "cpu_node \<Rightarrow> ('w, cpu_node_state) action"
  cpu_choices :: "cpu_node \<Rightarrow> ('w, typed_value list) action"
  cpu_validate_desired :: "cpu_node \<Rightarrow> typed_value \<Rightarrow> ('w, unit) action"
  cpu_write :: "cpu_node \<Rightarrow> typed_value \<Rightarrow> ('w, unit) action"

definition cpu_target_error :: "string \<Rightarrow> sysboost_error" where
  "cpu_target_error message = with_stage Detect (SysboostError_new TargetError message)"

definition cpu_unsupported :: "string \<Rightarrow> sysboost_error" where
  "cpu_unsupported message = with_stage Detect (SysboostError_new error_code.Unsupported message)"

definition CPU_BACKEND_ID :: string where "CPU_BACKEND_ID = ''linux.cpu''"
definition CPU_BOOST_TARGET :: string where "CPU_BOOST_TARGET = ''system.cpu.boost''"
definition PLATFORM_PROFILE_TARGET :: string where "PLATFORM_PROFILE_TARGET = ''system.platform.profile''"

definition boost_text :: "cpu_boost_interface \<Rightarrow> cpu_boost_state \<Rightarrow> string" where
  "boost_text interface state =
     (case (interface, state) of
        (cpu_boost_interface.Boost, cpu_boost_state.Enabled) \<Rightarrow> ''1''
      | (NoTurbo, cpu_boost_state.Disabled) \<Rightarrow> ''1''
      | _ \<Rightarrow> ''0'')"

section \<open>Which node and target a mutation names\<close>

definition node_for_mutation :: "planned_mutation \<Rightarrow> cpu_node result" where
  "node_for_mutation mutation =
     (case pm_kind mutation of
        mutation_kind.CpuFrequency policy _ _ \<Rightarrow> Inr (Frequency policy)
      | mutation_kind.CpuGovernor policy _ \<Rightarrow> Inr (cpu_node.Governor policy)
      | mutation_kind.CpuEnergyPreference policy _ \<Rightarrow> Inr (cpu_node.EnergyPreference policy)
      | mutation_kind.CpuBoost _ \<Rightarrow> Inr (cpu_node.Boost None)
      | mutation_kind.PlatformProfile _ \<Rightarrow> Inr cpu_node.PlatformProfile
      | _ \<Rightarrow> Inl (cpu_unsupported ''CPU backend does not own this typed operation''))"

definition policy_target :: "cpu_policy_id \<Rightarrow> target_id result" where
  "policy_target policy =
     replace_err (cpu_target_error ''CPU policy target is invalid'')
       (TargetId_new (''cpu.policy.'' @ dec_digits (unat (policy_num policy))))"

definition cpu_expected_target :: "planned_mutation \<Rightarrow> target_id result" where
  "cpu_expected_target mutation =
     (case pm_kind mutation of
        mutation_kind.CpuFrequency policy _ _ \<Rightarrow> policy_target policy
      | mutation_kind.CpuGovernor policy _ \<Rightarrow> policy_target policy
      | mutation_kind.CpuEnergyPreference policy _ \<Rightarrow> policy_target policy
      | mutation_kind.CpuBoost _ \<Rightarrow> replace_err (cpu_target_error ''CPU boost target is invalid'')
          (TargetId_new CPU_BOOST_TARGET)
      | mutation_kind.PlatformProfile _ \<Rightarrow>
          replace_err (cpu_target_error ''platform profile target is invalid'')
            (TargetId_new PLATFORM_PROFILE_TARGET)
      | _ \<Rightarrow> Inl (cpu_unsupported ''CPU backend does not own this typed operation''))"

section \<open>Checks on a node state\<close>

text \<open>\<open>Option::or\<close> and \<open>Option::unwrap_or\<close>.\<close>

definition option_or :: "'a option \<Rightarrow> 'a option \<Rightarrow> 'a option" where
  "option_or a b = (case a of None \<Rightarrow> b | Some x \<Rightarrow> Some x)"

definition unwrap_or :: "'a option \<Rightarrow> 'a \<Rightarrow> 'a" where
  "unwrap_or a d = (case a of None \<Rightarrow> d | Some x \<Rightarrow> x)"

lemma option_or_Some [simp]: "option_or a (Some d) = Some (unwrap_or a d)"
  by (simp add: option_or_def unwrap_or_def split: option.split)

lemma unwrap_or_simps [simp]: "unwrap_or None d = d" "unwrap_or (Some x) d = x" "option_or None b = b"
    "option_or (Some x) b = Some x"
  by (simp_all add: option_or_def unwrap_or_def)

definition effective_desired :: "planned_mutation \<Rightarrow> typed_value \<Rightarrow> typed_value result" where
  "effective_desired mutation current =
     (case (pm_kind mutation, pm_desired mutation, current) of
        (mutation_kind.CpuFrequency _ _ _, typed_value.CpuFrequency desired_min desired_max,
         typed_value.CpuFrequency current_min current_max) \<Rightarrow>
          (let min_khz = option_or desired_min current_min; max_khz = option_or desired_max current_max
           in if min_khz = None \<or> max_khz = None
              then Inl (cpu_target_error ''CPU frequency state is incomplete for a reversible mutation'')
              else Inr (typed_value.CpuFrequency min_khz max_khz))
      | (_, desired, _) \<Rightarrow> Inr desired)"

definition matching_shape :: "mutation_kind \<Rightarrow> typed_value \<Rightarrow> bool" where
  "matching_shape kind typed \<longleftrightarrow>
     (case kind of
        mutation_kind.CpuFrequency _ _ _ \<Rightarrow> (case typed of typed_value.CpuFrequency _ _ \<Rightarrow> True | _ \<Rightarrow> False)
      | mutation_kind.CpuGovernor _ _ \<Rightarrow> (case typed of typed_value.Governor _ \<Rightarrow> True | _ \<Rightarrow> False)
      | mutation_kind.CpuEnergyPreference _ _ \<Rightarrow>
          (case typed of typed_value.EnergyPreference _ \<Rightarrow> True | _ \<Rightarrow> False)
      | mutation_kind.CpuBoost _ \<Rightarrow> (case typed of typed_value.CpuBoost _ \<Rightarrow> True | _ \<Rightarrow> False)
      | mutation_kind.PlatformProfile _ \<Rightarrow>
          (case typed of typed_value.PlatformProfile _ \<Rightarrow> True | _ \<Rightarrow> False)
      | _ \<Rightarrow> False)"

definition valid_range :: "typed_value \<Rightarrow> bool" where
  "valid_range typed \<longleftrightarrow>
     (case typed of
        typed_value.CpuFrequency (Some lo) (Some hi) \<Rightarrow> khz lo \<le> khz hi
      | _ \<Rightarrow> False)"

definition is_frequency :: "mutation_kind \<Rightarrow> bool" where
  "is_frequency kind \<longleftrightarrow> (case kind of mutation_kind.CpuFrequency _ _ _ \<Rightarrow> True | _ \<Rightarrow> False)"

definition validate_state :: "planned_mutation \<Rightarrow> cpu_node_state \<Rightarrow> unit result" where
  "validate_state mutation state =
     (let blame = \<lambda>stage e. with_mutation (pm_mutation_id mutation) (with_stage stage e)
      in if cs_target_identity state = TargetIdentity (replicate 16 0)
          \<or> cs_fingerprint state \<noteq> fingerprint_for_value (Typed (cs_typed state))
      then Inl (blame Snapshot (SysboostError_new TargetError
        ''CPU adapter returned invalid target identity or value fingerprint''))
      else if \<not> matching_shape (pm_kind mutation) (cs_typed state)
          \<or> cs_fingerprint state \<noteq> pm_precondition mutation
      then Inl (blame Snapshot (SysboostError_new TargetError
        ''CPU target changed or its typed state does not match the plan precondition''))
      else if is_frequency (pm_kind mutation) \<and> \<not> valid_range (cs_typed state)
      then Inl (blame Snapshot (cpu_target_error
        ''CPU frequency snapshot does not contain a complete valid range''))
      else rbind (effective_desired mutation (cs_typed state)) (\<lambda>desired.
        if desired = cs_typed state
        then Inl (blame Plan (SysboostError_new InvariantViolation
          ''CPU mutation is already equal to its current typed state''))
        else Inr ()))"

definition resolved_node :: "cpu_node \<Rightarrow> cpu_node_state \<Rightarrow> cpu_node" where
  "resolved_node node state =
     (case node of cpu_node.Boost None \<Rightarrow> cpu_node.Boost (cs_boost_interface state) | other \<Rightarrow> other)"

section \<open>The mutation stages\<close>

definition validate_target_state ::
    "'w cpu_control_io \<Rightarrow> planned_mutation \<Rightarrow> target_identity \<Rightarrow> ('w, cpu_node \<times> cpu_node_state) action" where
  "validate_target_state io mutation expected =
     abind (areturn (cpu_expected_target mutation)) (\<lambda>expected_target.
     if pm_target mutation \<noteq> expected_target
     then areturn (Inl (with_mutation (pm_mutation_id mutation)
       (cpu_target_error ''CPU mutation target is not the canonical backend target'')))
     else abind (areturn (node_for_mutation mutation)) (\<lambda>node.
     abind (cpu_read io node) (\<lambda>state.
     if cs_target_identity state \<noteq> expected
     then areturn (Inl (with_target (pm_target mutation) (with_mutation (pm_mutation_id mutation)
       (cpu_target_error ''CPU target identity changed since planning''))))
     else abind (\<lambda>w. case cpu_validate_desired io node (pm_desired mutation) w of
            (r, w) \<Rightarrow> (map_err (with_mutation (pm_mutation_id mutation)) r, w)) (\<lambda>_.
          areturn (Inr (node, state))))))"

definition restore_after_failed_apply ::
    "'w cpu_control_io \<Rightarrow> cpu_node \<Rightarrow> snapshot \<Rightarrow> ('w, unit) action" where
  "restore_after_failed_apply io node snapshot =
     abind (cpu_read io node) (\<lambda>current.
     if cs_target_identity current \<noteq> sn_target_identity snapshot
     then areturn (Inl (cpu_target_error ''CPU target identity changed during failed apply''))
     else let resolved = resolved_node node current in
     abind (cpu_write io resolved (sn_original_typed snapshot)) (\<lambda>_.
     abind (cpu_read io resolved) (\<lambda>restored.
     if cs_target_identity restored \<noteq> sn_target_identity snapshot
        \<or> cs_fingerprint restored \<noteq> sn_original_fingerprint snapshot
     then areturn (Inl (SysboostError_new RestoreError
       ''CPU backend could not prove its internal failed-apply restore''))
     else areturn (Inr ()))))"

definition cpu_snapshot :: "'w cpu_control_io \<Rightarrow> planned_mutation \<Rightarrow> timestamp \<Rightarrow> ('w, snapshot) action" where
  "cpu_snapshot io mutation now =
     abind (areturn (node_for_mutation mutation)) (\<lambda>node.
     abind (cpu_read io node) (\<lambda>state.
     abind (areturn (validate_state mutation state)) (\<lambda>_.
     areturn (Inr \<lparr>sn_mutation_id = pm_mutation_id mutation, sn_target = pm_target mutation,
       sn_original_raw = cs_raw state, sn_original_typed = cs_typed state,
       sn_original_fingerprint = cs_fingerprint state, sn_equality = ScalarExact,
       sn_target_identity = cs_target_identity state, sn_captured_at = now\<rparr>))))"

text \<open>A failure after the write: the original is put back first, and the outcome marks the error.\<close>

definition recover_apply ::
    "'w cpu_control_io \<Rightarrow> cpu_node \<Rightarrow> snapshot \<Rightarrow> sysboost_error \<Rightarrow> ('w, 'a) action" where
  "recover_apply io node snapshot error w =
     (case restore_after_failed_apply io node snapshot w of
        (Inr _, w) \<Rightarrow> (Inl (retryable retryability.Retry error), w)
      | (Inl _, w) \<Rightarrow> (Inl (retryable retryability.Unknown error), w))"

definition cpu_apply :: "'w cpu_control_io \<Rightarrow> planned_mutation \<Rightarrow> snapshot \<Rightarrow> ('w, apply_receipt) action" where
  "cpu_apply io mutation snapshot =
     abind (areturn (node_for_mutation mutation)) (\<lambda>node.
     abind (cpu_read io node) (\<lambda>current.
     if cs_target_identity current \<noteq> sn_target_identity snapshot
        \<or> cs_fingerprint current \<noteq> pm_precondition mutation
     then areturn (Inl (cpu_target_error ''CPU target changed before apply''))
     else abind (cpu_validate_desired io node (pm_desired mutation)) (\<lambda>_.
     abind (areturn (effective_desired mutation (cs_typed current))) (\<lambda>desired.
     let resolved = resolved_node node current in
     (\<lambda>w. case cpu_write io resolved (pm_desired mutation) w of
       (Inl error, w) \<Rightarrow> recover_apply io node snapshot error w
     | (Inr _, w) \<Rightarrow>
       (case cpu_read io resolved w of
          (Inl error, w) \<Rightarrow> recover_apply io node snapshot error w
        | (Inr after, w) \<Rightarrow>
          (if cs_target_identity after \<noteq> sn_target_identity snapshot
              \<or> cs_fingerprint after \<noteq> fingerprint_for_value (Typed desired)
           then recover_apply io node snapshot (SysboostError_new VerificationError
             ''CPU apply readback did not prove the desired typed value'') w
           else (Inr \<lparr>ar_mutation_id = pm_mutation_id mutation,
             ar_observed_precondition = cs_fingerprint current,
             ar_observed_postcondition = cs_fingerprint after,
             ar_ownership_fingerprint = cs_fingerprint after\<rparr>, w))))))))"

definition cpu_verify ::
    "'w cpu_control_io \<Rightarrow> planned_mutation \<Rightarrow> target_identity \<Rightarrow> ('w, state_fingerprint) action" where
  "cpu_verify io mutation expected =
     abind (areturn (node_for_mutation mutation)) (\<lambda>node.
     abind (cpu_read io node) (\<lambda>state.
     if cs_target_identity state \<noteq> expected
     then areturn (Inl (cpu_target_error ''CPU target identity changed during verification''))
     else areturn (Inr (cs_fingerprint state))))"

definition cpu_restore ::
    "'w cpu_control_io \<Rightarrow> planned_mutation \<Rightarrow> snapshot \<Rightarrow> state_fingerprint \<Rightarrow> ('w, restore_receipt) action" where
  "cpu_restore io mutation snapshot ownership =
     abind (areturn (node_for_mutation mutation)) (\<lambda>node.
     abind (cpu_read io node) (\<lambda>current.
     if cs_target_identity current \<noteq> sn_target_identity snapshot
     then areturn (Inl (cpu_target_error ''CPU target identity changed before restore''))
     else if cs_fingerprint current \<noteq> ownership
     then areturn (Inl (SysboostError_new RestoreConflict
       ''CPU target changed outside this session; restore refused''))
     else let resolved = resolved_node node current in
     abind (cpu_write io resolved (sn_original_typed snapshot)) (\<lambda>_.
     abind (cpu_read io resolved) (\<lambda>restored.
     if cs_target_identity restored \<noteq> sn_target_identity snapshot
        \<or> cs_fingerprint restored \<noteq> sn_original_fingerprint snapshot
     then areturn (Inl (SysboostError_new RestoreError
       ''CPU restore readback did not prove the captured original''))
     else areturn (Inr \<lparr>rr_mutation_id = pm_mutation_id mutation,
       rr_restored_fingerprint = cs_fingerprint restored, rr_verified = True\<rparr>)))))"

section \<open>Detection\<close>

text \<open>\<open>iter().any\<close> over calls of the port: it stops at the first policy that passes.\<close>

fun any_policy :: "(cpu_policy_id \<Rightarrow> 'w \<Rightarrow> bool \<times> 'w) \<Rightarrow> cpu_policy_id list \<Rightarrow> 'w \<Rightarrow> bool \<times> 'w" where
  "any_policy test [] w = (False, w)"
| "any_policy test (p # ps) w =
     (case test p w of (True, w) \<Rightarrow> (True, w) | (False, w) \<Rightarrow> any_policy test ps w)"

definition readable :: "'w cpu_control_io \<Rightarrow> cpu_node \<Rightarrow> 'w \<Rightarrow> bool \<times> 'w" where
  "readable io node w = (case cpu_read io node w of (Inr _, w) \<Rightarrow> (True, w) | (Inl _, w) \<Rightarrow> (False, w))"

text \<open>\<open>read(..).is_ok() && choices(..).is_ok_and(|choices| !choices.is_empty())\<close>.\<close>

definition has_choices :: "'w cpu_control_io \<Rightarrow> cpu_node \<Rightarrow> 'w \<Rightarrow> bool \<times> 'w" where
  "has_choices io node w =
     (case readable io node w of
        (False, w) \<Rightarrow> (False, w)
      | (True, w) \<Rightarrow>
        (case cpu_choices io node w of (Inr cs, w) \<Rightarrow> (cs \<noteq> [], w) | (Inl _, w) \<Rightarrow> (False, w)))"

definition cpu_capability_descriptor ::
    "string \<Rightarrow> string \<Rightarrow> target_kind \<Rightarrow> bool \<Rightarrow> feature_class \<Rightarrow> capability_descriptor" where
  "cpu_capability_descriptor capability operation target_kind available classification =
     \<lparr>cd_id = CapabilityId capability, cd_backend = BackendId CPU_BACKEND_ID,
      cd_target_kind = target_kind,
      cd_state = (if available then Available else capability_state.Unsupported),
      cd_operations = [\<lparr>od_id = OperationId operation, od_privilege = PrivilegedMutation,
        od_equality = ScalarExact, od_classification = classification\<rparr>],
      cd_privilege = PrivilegedMutation, cd_equality = ScalarExact,
      cd_risk = (if classification = Conditional then Medium else Low),
      cd_classification = classification,
      cd_evidence = [\<lparr>ev_source = Sysfs, ev_detail = ''reviewed typed CPU backend''\<rparr>]\<rparr>"

text \<open>The table of \<open>detect\<close>, from what the probes found.\<close>

definition cpu_capabilities ::
    "bool \<Rightarrow> bool \<Rightarrow> bool \<Rightarrow> bool \<Rightarrow> bool \<Rightarrow> capability_descriptor list" where
  "cpu_capabilities frequency governor epp boost profile =
     [cpu_capability_descriptor ''cpu.policy.frequency.min'' ''cpu.frequency'' target_kind.CpuPolicy
        frequency RuntimeMutable,
      cpu_capability_descriptor ''cpu.policy.frequency.max'' ''cpu.frequency'' target_kind.CpuPolicy
        frequency RuntimeMutable,
      cpu_capability_descriptor ''cpu.policy.governor'' ''cpu.governor'' target_kind.CpuPolicy
        governor RuntimeMutable,
      cpu_capability_descriptor ''cpu.policy.energy_preference'' ''cpu.energy_preference''
        target_kind.CpuPolicy epp RuntimeMutable,
      cpu_capability_descriptor ''cpu.policy.boost'' ''cpu.boost'' target_kind.CpuSystem boost RuntimeMutable,
      cpu_capability_descriptor ''platform.profile'' ''platform.profile'' target_kind.CpuSystem profile
        Conditional]"

definition cpu_detect ::
    "'w cpu_control_io \<Rightarrow> ('w, timestamp) action \<Rightarrow> ('w, capability_inventory) action" where
  "cpu_detect io clock w =
     (case (case cpu_list_policies io w of
          (Inl error, w) \<Rightarrow> if err_code error = error_code.Unsupported then (Inr [], w) else (Inl error, w)
        | (Inr policies, w) \<Rightarrow> (Inr policies, w)) of
        (Inl error, w) \<Rightarrow> (Inl error, w)
      | (Inr policies, w) \<Rightarrow>
        (case any_policy (\<lambda>p. has_choices io (cpu_node.Governor p)) policies w of (governor, w) \<Rightarrow>
        (case any_policy (\<lambda>p. has_choices io (cpu_node.EnergyPreference p)) policies w of (epp, w) \<Rightarrow>
        (case any_policy (\<lambda>p. readable io (Frequency p)) policies w of (frequency, w) \<Rightarrow>
        (case readable io (cpu_node.Boost None) w of (boost, w) \<Rightarrow>
        (case has_choices io cpu_node.PlatformProfile w of (profile, w) \<Rightarrow>
        (case clock w of
           (Inl e, w) \<Rightarrow> (Inl e, w)
         | (Inr observed_at, w) \<Rightarrow> (Inr \<lparr>ci_observed_at = observed_at,
             ci_capabilities = cpu_capabilities frequency governor epp boost profile\<rparr>, w))))))))"

section \<open>Ownership, admission and the backend\<close>

definition cpu_descriptor :: backend_descriptor where
  "cpu_descriptor = \<lparr>bd_id = BackendId CPU_BACKEND_ID, bd_version = ''0.1.0-cpu'',
     bd_capabilities = map CapabilityId [''cpu.policy.frequency.min'', ''cpu.policy.frequency.max'',
       ''cpu.policy.governor'', ''cpu.policy.energy_preference'', ''cpu.policy.boost'',
       ''platform.profile''],
     bd_operations = map OperationId [''cpu.frequency'', ''cpu.governor'', ''cpu.energy_preference'',
       ''cpu.boost'', ''platform.profile'']\<rparr>"

text \<open>The capabilities that own each operation of this backend; \<open>None\<close> for the operations of others.\<close>

definition cpu_owners :: "mutation_kind \<Rightarrow> string list option" where
  "cpu_owners kind =
     (case kind of
        mutation_kind.CpuFrequency _ _ _ \<Rightarrow> Some [''cpu.policy.frequency.min'', ''cpu.policy.frequency.max'']
      | mutation_kind.CpuGovernor _ _ \<Rightarrow> Some [''cpu.policy.governor'']
      | mutation_kind.CpuEnergyPreference _ _ \<Rightarrow> Some [''cpu.policy.energy_preference'']
      | mutation_kind.CpuBoost _ \<Rightarrow> Some [''cpu.policy.boost'']
      | mutation_kind.PlatformProfile _ \<Rightarrow> Some [''platform.profile'']
      | _ \<Rightarrow> None)"

definition cpu_validate_target ::
    "'w cpu_control_io \<Rightarrow> planned_mutation \<Rightarrow> target_identity \<Rightarrow> ('w, unit) action" where
  "cpu_validate_target io mutation expected =
     abind (validate_target_state io mutation expected) (\<lambda>(node, state).
     if cs_fingerprint state = pm_precondition mutation then areturn (Inr ())
     else areturn (Inl (cpu_target_error ''CPU target value changed since planning'')))"

definition cpu_validate_admission ::
    "'w cpu_control_io \<Rightarrow> planned_mutation \<Rightarrow> target_identity \<Rightarrow> ('w, unit) action" where
  "cpu_validate_admission io mutation expected =
     (case cpu_owners (pm_kind mutation) of
        None \<Rightarrow> areturn (Inl (with_mutation (pm_mutation_id mutation)
          (cpu_unsupported ''CPU backend does not own this typed operation'')))
      | Some owners \<Rightarrow>
        (if \<not> owns_operation cpu_descriptor mutation
            \<or> pm_capability mutation \<notin> CapabilityId ` set owners
         then areturn (Inl (with_mutation (pm_mutation_id mutation)
           (with_capability (pm_capability mutation)
             (cpu_unsupported ''CPU operation and capability ownership do not match''))))
         else cpu_validate_target io mutation expected))"

definition CpuBackend :: "'w cpu_control_io \<Rightarrow> 'w backend" where
  "CpuBackend io = \<lparr>be_descriptor = cpu_descriptor, be_owns = default_owns cpu_descriptor,
     be_detect = cpu_detect io, be_snapshot = cpu_snapshot io, be_apply = cpu_apply io,
     be_verify = (\<lambda>m _ identity. cpu_verify io m identity), be_restore = cpu_restore io,
     be_admission = cpu_validate_admission io, be_target = cpu_validate_target io\<rparr>"

section \<open>The operation catalog\<close>

definition complete_cpu_contract ::
    "string \<Rightarrow> string \<Rightarrow> target_kind \<Rightarrow> control_id \<Rightarrow> equality_kind \<Rightarrow> risk_class \<Rightarrow> feature_class
     \<Rightarrow> bool \<Rightarrow> operation_contract" where
  "complete_cpu_contract operation capability target_kind control equality risk classification opt_in =
     (let contract = OperationContract_complete (OperationId operation) (CapabilityId capability)
        (BackendId CPU_BACKEND_ID) target_kind control equality risk classification opt_in
      in contract\<lparr>oc_snapshot := (oc_snapshot contract)\<lparr>sc_raw_preimage := True\<rparr>\<rparr>)"

definition cpu_operation_catalog :: operation_catalog where
  "cpu_operation_catalog = OperationCatalog_new
     [complete_cpu_contract ''cpu.frequency'' ''cpu.policy.frequency.max'' target_kind.CpuPolicy
        control_id.CpuFrequency ScalarExact Medium RuntimeMutable False,
      complete_cpu_contract ''cpu.governor'' ''cpu.policy.governor'' target_kind.CpuPolicy
        control_id.CpuGovernor ScalarExact Low RuntimeMutable False,
      (complete_cpu_contract ''cpu.energy_preference'' ''cpu.policy.energy_preference''
        target_kind.CpuPolicy control_id.CpuEnergyPreference ScalarExact Low RuntimeMutable False)
        \<lparr>oc_dependencies := [OperationId ''cpu.governor'']\<rparr>,
      complete_cpu_contract ''cpu.boost'' ''cpu.policy.boost'' target_kind.CpuSystem control_id.CpuBoost
        ScalarExact Medium RuntimeMutable False,
      complete_cpu_contract ''platform.profile'' ''platform.profile'' target_kind.CpuSystem
        control_id.PlatformProfile ScalarExact Medium Conditional False]"

end
