(* ===== verification/Cpu_Fixture.thy ===== *)
theory Cpu_Fixture
  imports Cpu_Backend "HOL-Library.AList"
begin

text \<open>
  \<open>CpuFixture\<close> of \<open>sysboost-linux/src/cpu.rs\<close>: the in-memory control port of the CPU backend, with its
  injected write failures. Over it the backend is atomic: an apply that fails leaves every value as
  it was, and the restore of a successful apply brings the whole fixture back.
\<close>

section \<open>The fixture\<close>

record cpu_fixture_policy =
  fp_identity :: target_identity
  fp_governor :: governor_id
  fp_governor_choices :: "governor_id list"
  fp_epp :: energy_preference
  fp_epp_choices :: "energy_preference list"
  fp_min_khz :: frequency_khz
  fp_max_khz :: frequency_khz
  fp_hardware_min :: frequency_khz
  fp_hardware_max :: frequency_khz

record cpu_fixture_boost =
  xb_identity :: target_identity
  xb_interface :: cpu_boost_interface
  xb_state :: cpu_boost_state

record cpu_fixture_profile =
  xp_identity :: target_identity
  xp_profile :: platform_profile_id
  xp_choices :: "platform_profile_id list"

record cpu_fixture =
  fx_policies :: "(cpu_policy_id \<times> cpu_fixture_policy) list"
  fx_boost :: "cpu_fixture_boost option"
  fx_platform_profile :: "cpu_fixture_profile option"
  fx_fail_writes :: "cpu_node set"

definition CpuFixture_new :: cpu_fixture where
  "CpuFixture_new = \<lparr>fx_policies = [], fx_boost = None, fx_platform_profile = None, fx_fail_writes = {}\<rparr>"

definition add_policy :: "cpu_policy_id \<Rightarrow> cpu_fixture_policy \<Rightarrow> cpu_fixture \<Rightarrow> cpu_fixture" where
  "add_policy policy layout fx = fx\<lparr>fx_policies := AList.update policy layout (fx_policies fx)\<rparr>"

definition set_boost ::
    "target_identity \<Rightarrow> cpu_boost_interface \<Rightarrow> cpu_boost_state \<Rightarrow> cpu_fixture \<Rightarrow> cpu_fixture" where
  "set_boost identity interface state fx =
     fx\<lparr>fx_boost := Some \<lparr>xb_identity = identity, xb_interface = interface, xb_state = state\<rparr>\<rparr>"

definition set_platform_profile ::
    "target_identity \<Rightarrow> platform_profile_id \<Rightarrow> platform_profile_id list \<Rightarrow> cpu_fixture \<Rightarrow> cpu_fixture" where
  "set_platform_profile identity profile choices fx =
     fx\<lparr>fx_platform_profile := Some \<lparr>xp_identity = identity, xp_profile = profile, xp_choices = choices\<rparr>\<rparr>"

definition fail_writes_for :: "cpu_node \<Rightarrow> cpu_fixture \<Rightarrow> cpu_fixture" where
  "fail_writes_for node fx = fx\<lparr>fx_fail_writes := insert node (fx_fail_writes fx)\<rparr>"

definition replace_policy_identity :: "cpu_policy_id \<Rightarrow> target_identity \<Rightarrow> cpu_fixture \<Rightarrow> cpu_fixture" where
  "replace_policy_identity policy identity fx =
     fx\<lparr>fx_policies := AList.map_entry policy (\<lambda>p. p\<lparr>fp_identity := identity\<rparr>) (fx_policies fx)\<rparr>"

definition remove_policy :: "cpu_policy_id \<Rightarrow> cpu_fixture \<Rightarrow> cpu_fixture" where
  "remove_policy policy fx = fx\<lparr>fx_policies := AList.delete policy (fx_policies fx)\<rparr>"

section \<open>The control port\<close>

definition fixture_missing :: sysboost_error where
  "fixture_missing = SysboostError_new error_code.Unsupported ''CPU fixture node is unavailable''"

definition fixture_list_policies :: "(cpu_fixture, cpu_policy_id list) action" where
  "fixture_list_policies fx = (Inr (map CpuPolicyId (sort (map policy_num (map fst (fx_policies fx))))), fx)"

definition fixture_policy :: "cpu_fixture \<Rightarrow> cpu_policy_id \<Rightarrow> cpu_fixture_policy result" where
  "fixture_policy fx policy = ok_or fixture_missing (map_of (fx_policies fx) policy)"

text \<open>The match of \<open>read\<close>: typed value, identity, interface and raw text of a node.\<close>

definition fixture_node ::
    "cpu_fixture \<Rightarrow> cpu_node
     \<Rightarrow> (typed_value \<times> target_identity \<times> cpu_boost_interface option \<times> string) result" where
  "fixture_node fx node =
     (case node of
        cpu_node.Governor policy \<Rightarrow> rbind (fixture_policy fx policy) (\<lambda>v.
          Inr (typed_value.Governor (fp_governor v), fp_identity v, None, governor_str (fp_governor v)))
      | cpu_node.EnergyPreference policy \<Rightarrow> rbind (fixture_policy fx policy) (\<lambda>v.
          Inr (typed_value.EnergyPreference (fp_epp v), fp_identity v, None, render_energy (fp_epp v)))
      | Frequency policy \<Rightarrow> rbind (fixture_policy fx policy) (\<lambda>v.
          Inr (typed_value.CpuFrequency (Some (fp_min_khz v)) (Some (fp_max_khz v)), fp_identity v, None,
            dec_digits (unat (khz (fp_min_khz v))) @ nul # dec_digits (unat (khz (fp_max_khz v)))))
      | cpu_node.Boost _ \<Rightarrow> rbind (ok_or fixture_missing (fx_boost fx)) (\<lambda>v.
          Inr (typed_value.CpuBoost (xb_state v), xb_identity v, Some (xb_interface v),
            boost_text (xb_interface v) (xb_state v)))
      | cpu_node.PlatformProfile \<Rightarrow> rbind (ok_or fixture_missing (fx_platform_profile fx)) (\<lambda>v.
          Inr (typed_value.PlatformProfile (xp_profile v), xp_identity v, None,
            platform_profile_str (xp_profile v))))"

definition fixture_read :: "cpu_node \<Rightarrow> (cpu_fixture, cpu_node_state) action" where
  "fixture_read node fx =
     (rbind (fixture_node fx node) (\<lambda>(typed, identity, interface, raw).
      rbind (BoundedBytes_new (str_bytes raw)) (\<lambda>raw.
      Inr \<lparr>cs_raw = raw, cs_typed = typed, cs_fingerprint = fingerprint_for_value (Typed typed),
        cs_target_identity = identity, cs_boost_interface = interface\<rparr>)), fx)"

definition fixture_choices :: "cpu_node \<Rightarrow> (cpu_fixture, typed_value list) action" where
  "fixture_choices node fx =
     (case node of
        cpu_node.Governor policy \<Rightarrow> rbind (fixture_policy fx policy) (\<lambda>v.
          Inr (map typed_value.Governor (fp_governor_choices v)))
      | cpu_node.EnergyPreference policy \<Rightarrow> rbind (fixture_policy fx policy) (\<lambda>v.
          Inr (map typed_value.EnergyPreference (fp_epp_choices v)))
      | Frequency _ \<Rightarrow> Inr []
      | cpu_node.Boost _ \<Rightarrow> Inr [typed_value.CpuBoost cpu_boost_state.Enabled,
          typed_value.CpuBoost cpu_boost_state.Disabled]
      | cpu_node.PlatformProfile \<Rightarrow> rbind (ok_or fixture_missing (fx_platform_profile fx)) (\<lambda>v.
          Inr (map typed_value.PlatformProfile (xp_choices v))), fx)"

text \<open>The checks of \<open>validate_desired\<close> on a frequency pair.\<close>

definition fixture_frequency_ok ::
    "cpu_fixture_policy \<Rightarrow> frequency_khz option \<Rightarrow> frequency_khz option \<Rightarrow> unit result" where
  "fixture_frequency_ok current min_khz max_khz =
     (let inverted = (case (min_khz, max_khz) of (Some lo, Some hi) \<Rightarrow> khz lo > khz hi | _ \<Rightarrow> False);
          lo = khz (unwrap_or min_khz (fp_min_khz current));
          hi = khz (unwrap_or max_khz (fp_max_khz current))
      in if inverted then Inl (cpu_target_error ''CPU fixture minimum exceeds maximum'')
      else if lo > hi then Inl (cpu_target_error ''CPU fixture frequency range is invalid'')
      else if lo < khz (fp_hardware_min current) \<or> lo > khz (fp_hardware_max current)
          \<or> hi < khz (fp_hardware_min current) \<or> hi > khz (fp_hardware_max current)
      then Inl (cpu_target_error ''CPU fixture frequency is outside hardware bounds'')
      else Inr ())"

definition fixture_validate_desired :: "cpu_node \<Rightarrow> typed_value \<Rightarrow> (cpu_fixture, unit) action" where
  "fixture_validate_desired node desired fx =
     (case node of
        Frequency policy \<Rightarrow>
          (case desired of
             typed_value.CpuFrequency min_khz max_khz \<Rightarrow>
               rbind (fixture_policy fx policy) (\<lambda>current. fixture_frequency_ok current min_khz max_khz)
           | _ \<Rightarrow> Inl (cpu_target_error ''CPU fixture frequency value is not typed''))
      | _ \<Rightarrow> rbind (fst (fixture_choices node fx)) (\<lambda>choices.
          if desired \<in> set choices then Inr ()
          else Inl (cpu_unsupported ''CPU fixture desired value is not advertised'')), fx)"

text \<open>\<open>policies.get_mut(..).ok_or_else(fixture_missing)?\<close>, then the assignment.\<close>

definition set_policy ::
    "cpu_policy_id \<Rightarrow> (cpu_fixture_policy \<Rightarrow> cpu_fixture_policy) \<Rightarrow> (cpu_fixture, unit) action" where
  "set_policy policy f fx =
     (case map_of (fx_policies fx) policy of
        None \<Rightarrow> (Inl fixture_missing, fx)
      | Some v \<Rightarrow> (Inr (), fx\<lparr>fx_policies := AList.update policy (f v) (fx_policies fx)\<rparr>))"

text \<open>The match of \<open>write\<close>.\<close>

definition fixture_assign :: "cpu_node \<Rightarrow> typed_value \<Rightarrow> (cpu_fixture, unit) action" where
  "fixture_assign node desired fx =
     (case node of
        cpu_node.Governor policy \<Rightarrow>
          (case desired of
             typed_value.Governor g \<Rightarrow> set_policy policy (\<lambda>v. v\<lparr>fp_governor := g\<rparr>) fx
           | _ \<Rightarrow> (Inl (cpu_target_error ''CPU fixture governor value is not typed''), fx))
      | cpu_node.EnergyPreference policy \<Rightarrow>
          (case desired of
             typed_value.EnergyPreference e \<Rightarrow> set_policy policy (\<lambda>v. v\<lparr>fp_epp := e\<rparr>) fx
           | _ \<Rightarrow> (Inl (cpu_target_error ''CPU fixture EPP value is not typed''), fx))
      | Frequency policy \<Rightarrow>
          (case desired of
             typed_value.CpuFrequency lo hi \<Rightarrow>
               set_policy policy (\<lambda>v. v\<lparr>
                 fp_min_khz := unwrap_or lo (fp_min_khz v), fp_max_khz := unwrap_or hi (fp_max_khz v)\<rparr>) fx
           | _ \<Rightarrow> (Inl (cpu_target_error ''CPU fixture frequency value is not typed''), fx))
      | cpu_node.Boost _ \<Rightarrow>
          (case desired of
             typed_value.CpuBoost s \<Rightarrow>
               (case fx_boost fx of
                  None \<Rightarrow> (Inl fixture_missing, fx)
                | Some b \<Rightarrow> (Inr (), fx\<lparr>fx_boost := Some (b\<lparr>xb_state := s\<rparr>)\<rparr>))
           | _ \<Rightarrow> (Inl (cpu_target_error ''CPU fixture boost value is not typed''), fx))
      | cpu_node.PlatformProfile \<Rightarrow>
          (case desired of
             typed_value.PlatformProfile p \<Rightarrow>
               (case fx_platform_profile fx of
                  None \<Rightarrow> (Inl fixture_missing, fx)
                | Some x \<Rightarrow> (Inr (), fx\<lparr>fx_platform_profile := Some (x\<lparr>xp_profile := p\<rparr>)\<rparr>))
           | _ \<Rightarrow> (Inl (cpu_target_error ''CPU fixture profile value is not typed''), fx)))"

definition fixture_write :: "cpu_node \<Rightarrow> typed_value \<Rightarrow> (cpu_fixture, unit) action" where
  "fixture_write node desired fx =
     (if node \<in> fx_fail_writes fx
      then (Inl (SysboostError_new ApplyError ''CPU fixture write failed''),
        fx\<lparr>fx_fail_writes := fx_fail_writes fx - {node}\<rparr>)
      else fixture_assign node desired fx)"

definition CpuFixture_io :: "cpu_fixture cpu_control_io" where
  "CpuFixture_io = \<lparr>cpu_list_policies = fixture_list_policies, cpu_read = fixture_read,
     cpu_choices = fixture_choices, cpu_validate_desired = fixture_validate_desired,
     cpu_write = fixture_write\<rparr>"

lemma CpuFixture_io_simps [simp]:
  "cpu_list_policies CpuFixture_io = fixture_list_policies" "cpu_read CpuFixture_io = fixture_read"
  "cpu_choices CpuFixture_io = fixture_choices" "cpu_write CpuFixture_io = fixture_write"
  "cpu_validate_desired CpuFixture_io = fixture_validate_desired"
  by (simp_all add: CpuFixture_io_def)

end
