(* ===== verification/Cpu_Atomic.thy ===== *)
theory Cpu_Atomic
  imports Cpu_Fixture
begin

text \<open>
  What the CPU backend makes of a control port that keeps its contract: an apply that fails leaves
  every node reading as before, and the restore of a successful apply succeeds and brings every node
  back. The contract is the locale \<open>cpu_port\<close>; the fixture fulfils it.
\<close>

section \<open>What a port shows\<close>

text \<open>The value, identity and interface a node reads as; \<open>None\<close> when the read fails.\<close>

definition view ::
    "'w cpu_control_io \<Rightarrow> cpu_node \<Rightarrow> 'w \<Rightarrow> (typed_value \<times> target_identity \<times> cpu_boost_interface option) option" where
  "view io node w =
     (case cpu_read io node w of
        (Inl _, _) \<Rightarrow> None
      | (Inr st, _) \<Rightarrow> Some (cs_typed st, cs_target_identity st, cs_boost_interface st))"

text \<open>What a node holds after a write: a frequency bound that is not given is kept.\<close>

definition overlay :: "typed_value \<Rightarrow> typed_value \<Rightarrow> typed_value" where
  "overlay desired current =
     (case (desired, current) of
        (typed_value.CpuFrequency lo hi, typed_value.CpuFrequency lo' hi') \<Rightarrow>
          typed_value.CpuFrequency (option_or lo lo') (option_or hi hi')
      | _ \<Rightarrow> desired)"

lemma effective_desired_overlay:
  assumes "effective_desired m t = Inr d" and "pm_desired m = kind_value (pm_kind m)"
  shows "d = overlay (pm_desired m) t"
  using assms
  by (cases "pm_kind m"; cases t) (auto simp: effective_desired_def overlay_def Let_def split: if_splits)

lemma resolved_node_cong:
  "cs_boost_interface st = cs_boost_interface st' \<Longrightarrow> resolved_node n st = resolved_node n st'"
  by (cases n) (simp_all add: resolved_node_def split: option.split)

section \<open>The contract\<close>

locale cpu_port =
  fixes io :: "'w cpu_control_io"
  assumes read_pure: "pure_action (cpu_read io n)"
    and validate_pure: "pure_action (cpu_validate_desired io n d)"
    and read_fingerprint: "cpu_read io n w = (Inr st, w1) \<Longrightarrow>
      cs_fingerprint st = fingerprint_for_value (Typed (cs_typed st))"
    and read_resolved: "cpu_read io n w = (Inr st, w1) \<Longrightarrow>
      cpu_read io (resolved_node n st) w = (Inr st, w1)"
    and write_refused: "cpu_write io n d w = (Inl e, w') \<Longrightarrow> view io k w' = view io k w"
    and write_done: "cpu_read io n w = (Inr st, w1) \<Longrightarrow>
      cpu_write io (resolved_node n st) d w = (Inr (), w') \<Longrightarrow> wf_value d \<Longrightarrow>
      view io n w' = Some (overlay d (cs_typed st), cs_target_identity st, cs_boost_interface st)"
    and write_undone: "cpu_read io n w = (Inr st, w1) \<Longrightarrow>
      cpu_write io (resolved_node n st) d w = (Inr (), w') \<Longrightarrow>
      \<exists>w''. cpu_write io (resolved_node n st) (cs_typed st) w' = (Inr (), w'')
        \<and> (\<forall>k. view io k w'' = view io k w)"
    and write_same: "cpu_read io n w = (Inr st, w1) \<Longrightarrow>
      cpu_write io (resolved_node n st) (cs_typed st) w = (r, w') \<Longrightarrow> view io k w' = view io k w"
begin

lemma read_keeps: "cpu_read io n w = (r, w') \<Longrightarrow> w' = w"
  by (rule pure_actionD [OF read_pure])

lemma validate_keeps: "cpu_validate_desired io n d w = (r, w') \<Longrightarrow> w' = w"
  by (rule pure_actionD [OF validate_pure])

lemma view_read:
  assumes "view io n w = Some (t, i, b)"
  obtains st where "cpu_read io n w = (Inr st, w)" "cs_typed st = t" "cs_target_identity st = i"
    "cs_boost_interface st = b" "cs_fingerprint st = fingerprint_for_value (Typed t)"
proof -
  obtain r w1 where r: "cpu_read io n w = (r, w1)" by fastforce
  with assms obtain st where "r = Inr st" by (auto simp: view_def split: sum.splits)
  with r assms read_keeps [OF r] read_fingerprint [of n w st w1] that show thesis
    by (auto simp: view_def)
qed

text \<open>After a refused write, the recovery leaves every node as it reads.\<close>

lemma recover_views:
  assumes snap: "view io n w0 = Some (sn_original_typed s, sn_target_identity s, b)"
    and views: "\<forall>k. view io k w = view io k w0" and run: "recover_apply io n s e w = (r, w')"
  shows "view io k w' = view io k w0"
proof -
  from snap views have "view io n w = Some (sn_original_typed s, sn_target_identity s, b)" by simp
  then obtain st where st: "cpu_read io n w = (Inr st, w)" "cs_typed st = sn_original_typed s"
    by (rule view_read)
  obtain x w1 where w1: "cpu_write io (resolved_node n st) (sn_original_typed s) w = (x, w1)" by fastforce
  have same: "view io k w1 = view io k w0" for k
    using write_same [OF st(1), of x w1 k] w1 st(2) views by simp
  have "w' = w \<or> w' = w1"
    using run st w1
    by (auto simp: recover_apply_def restore_after_failed_apply_def abind_def areturn_def Let_def
        split: prod.splits sum.splits if_splits dest!: read_keeps)
  then show ?thesis using same views by auto
qed

lemma apply_atomic:
  assumes snap: "cpu_snapshot io m now w = (Inr s, w0)"
    and wf: "wf_value (pm_desired m)" "pm_desired m = kind_value (pm_kind m)"
    and run: "cpu_apply io m s w = (r, w1)"
  shows "w0 = w \<and> (case r of
      Inl e \<Rightarrow> \<forall>k. view io k w1 = view io k w
    | Inr rc \<Rightarrow> \<exists>rr w2. cpu_restore io m s (ar_ownership_fingerprint rc) w1 = (Inr rr, w2)
        \<and> (\<forall>k. view io k w2 = view io k w))"
proof -
  from snap obtain n st where n: "node_for_mutation m = Inr n" and st0: "cpu_read io n w = (Inr st, w0)"
    and v: "validate_state m st = Inr ()"
    and s: "sn_original_typed s = cs_typed st" "sn_target_identity s = cs_target_identity st"
      "sn_original_fingerprint s = cs_fingerprint st"
    by (auto simp: cpu_snapshot_def abind_ok areturn_def)
  from read_keeps [OF st0] st0 have "w0 = w" and st: "cpu_read io n w = (Inr st, w)" by simp_all
  let ?n = "resolved_node n st"
  have orig: "view io n w = Some (sn_original_typed s, sn_target_identity s, cs_boost_interface st)"
    using st s by (simp add: view_def)
  from v obtain d where d: "effective_desired m (cs_typed st) = Inr d"
    and pre: "cs_fingerprint st = pm_precondition m"
    by (auto simp: validate_state_def Let_def rbind_eq_Inr split: if_splits)
  obtain vr w2 where vd: "cpu_validate_desired io n (pm_desired m) w = (vr, w2)" by fastforce
  obtain wr w3 where wr: "cpu_write io ?n (pm_desired m) w = (wr, w3)" by fastforce
  show ?thesis
  proof (cases vr)
    case (Inl e)
    with run n st s pre vd validate_keeps [OF vd] \<open>w0 = w\<close> show ?thesis
      by (auto simp: cpu_apply_def abind_def areturn_def)
  next
    case (Inr u)
    note run = run [unfolded cpu_apply_def]
    show ?thesis
    proof (cases wr)
      case (Inl e)
      have "recover_apply io n s e w3 = (r, w1)"
        using run n st s pre vd validate_keeps [OF vd] Inr wr Inl d
        by (simp add: abind_def areturn_def Let_def)
      moreover have "\<forall>k. view io k w3 = view io k w" using write_refused wr Inl by blast
      ultimately have "view io k w1 = view io k w" for k using recover_views [OF orig] by blast
      moreover obtain e' where "r = Inl e'"
        using \<open>recover_apply io n s e w3 = (r, w1)\<close> by (auto simp: recover_apply_def split: prod.splits sum.splits)
      ultimately show ?thesis using \<open>w0 = w\<close> by simp
    next
      case (Inr u')
      have after: "view io n w3 = Some (d, cs_target_identity st, cs_boost_interface st)"
        using write_done [OF st] wr Inr wf effective_desired_overlay [OF d wf(2)] by simp
      then obtain st3 where st3: "cpu_read io n w3 = (Inr st3, w3)" "cs_typed st3 = d"
          "cs_target_identity st3 = cs_target_identity st"
          "cs_boost_interface st3 = cs_boost_interface st"
          "cs_fingerprint st3 = fingerprint_for_value (Typed d)"
        by (rule view_read)
      have res: "resolved_node n st3 = ?n" using st3(4) by (rule resolved_node_cong)
      have st3': "cpu_read io ?n w3 = (Inr st3, w3)" using read_resolved [OF st3(1)] by (simp add: res)
      have r: "w1 = w3" "r = Inr \<lparr>ar_mutation_id = pm_mutation_id m,
          ar_observed_precondition = cs_fingerprint st, ar_observed_postcondition = cs_fingerprint st3,
          ar_ownership_fingerprint = cs_fingerprint st3\<rparr>"
        using run n st s pre vd validate_keeps [OF vd] \<open>vr = Inr u\<close> wr Inr d st3 st3'
        by (simp_all add: abind_def areturn_def Let_def)
      from write_undone [OF st, of "pm_desired m" w3] wr Inr obtain w4 where
        w4: "cpu_write io ?n (cs_typed st) w3 = (Inr (), w4)" "\<forall>k. view io k w4 = view io k w" by auto
      from w4(2) orig have "view io n w4 = Some (sn_original_typed s, sn_target_identity s, cs_boost_interface st)"
        by simp
      then obtain st4 where st4: "cpu_read io n w4 = (Inr st4, w4)" "cs_typed st4 = sn_original_typed s"
          "cs_target_identity st4 = sn_target_identity s" "cs_boost_interface st4 = cs_boost_interface st"
          "cs_fingerprint st4 = fingerprint_for_value (Typed (sn_original_typed s))"
        by (rule view_read)
      have "resolved_node n st4 = ?n" using st4(4) by (rule resolved_node_cong)
      then have "cpu_read io ?n w4 = (Inr st4, w4)" using read_resolved [OF st4(1)] by simp
      then have "\<exists>rr. cpu_restore io m s (cs_fingerprint st3) w3 = (Inr rr, w4)"
        using n st3 res s w4(1) st4 read_fingerprint [OF st]
        by (simp add: cpu_restore_def abind_def areturn_def Let_def)
      with w4(2) r \<open>w0 = w\<close> show ?thesis by auto
    qed
  qed
qed

end

section \<open>The fixture keeps the contract\<close>

lemma update_present: "map_of al k = Some v \<Longrightarrow> AList.update k v al = al"
  by (induction al) auto

text \<open>Reads look at the values, not at the injected failures.\<close>

lemma fixture_node_failures [simp]: "fixture_node (fx\<lparr>fx_fail_writes := f\<rparr>) n = fixture_node fx n"
  by (cases n) (simp_all add: fixture_node_def fixture_policy_def)

lemma fixture_node_resolved [simp]: "fixture_node fx (resolved_node n st) = fixture_node fx n"
  by (cases n) (simp_all add: fixture_node_def resolved_node_def split: option.split)

lemma fixture_read_ok:
  "fixture_read n fx = (Inr st, fx') \<longleftrightarrow> fx' = fx \<and> (\<exists>raw. length raw \<le> MAX_PREIMAGE_BYTES
     \<and> fixture_node fx n = Inr (cs_typed st, cs_target_identity st, cs_boost_interface st, raw)
     \<and> cs_raw st = BoundedBytes (str_bytes raw)
     \<and> cs_fingerprint st = fingerprint_for_value (Typed (cs_typed st)))"
  by (cases st) (auto simp: fixture_read_def rbind_eq_Inr wf_bounded_bytes_def split: prod.splits)

lemma fixture_view:
  "view CpuFixture_io n fx = (case fixture_node fx n of Inl _ \<Rightarrow> None
     | Inr (t, i, b, raw) \<Rightarrow> if length raw \<le> MAX_PREIMAGE_BYTES then Some (t, i, b) else None)"
  by (auto simp: view_def fixture_read_def BoundedBytes_new_def split: sum.splits)

lemma set_policy_ok:
  "set_policy p f fx = (Inr (), fx') \<longleftrightarrow> (\<exists>v. map_of (fx_policies fx) p = Some v
     \<and> fx' = fx\<lparr>fx_policies := AList.update p (f v) (fx_policies fx)\<rparr>)"
  by (auto simp: set_policy_def split: option.splits)

text \<open>A refused assignment changes nothing.\<close>

lemma fixture_assign_refused: "fixture_assign n d fx = (Inl e, fx') \<Longrightarrow> fx' = fx"
  by (cases n; cases d) (auto simp: fixture_assign_def set_policy_def split: option.splits)

lemma fixture_assign_failures: "fixture_assign n d fx = (r, fx') \<Longrightarrow> fx_fail_writes fx' = fx_fail_writes fx"
  by (cases n; cases d) (auto simp: fixture_assign_def set_policy_def split: option.splits)

lemma fixture_write_refused:
  assumes "fixture_write n d fx = (Inl e, fx')"
  shows "fixture_node fx' k = fixture_node fx k"
proof (cases "n \<in> fx_fail_writes fx")
  case True
  with assms have "fx' = fx\<lparr>fx_fail_writes := fx_fail_writes fx - {n}\<rparr>" by (simp add: fixture_write_def)
  then show ?thesis by simp
next
  case False
  with assms have "fixture_assign n d fx = (Inl e, fx')" by (simp add: fixture_write_def)
  from fixture_assign_refused [OF this] show ?thesis by simp
qed

text \<open>The text of a bounded value fits a preimage.\<close>

lemma frequency_text_short:
  "length (dec_digits (unat (a :: u64)) @ nul # dec_digits (unat (b :: u64))) \<le> MAX_PREIMAGE_BYTES"
proof -
  have "unat (x :: u64) < 10 ^ 20" for x
  proof -
    have "unat x < 2 ^ 64" using unsigned_less [of x] by simp
    then show ?thesis by simp
  qed
  then have "length (dec_digits (unat (x :: u64))) \<le> 20" for x by (rule length_dec_digits) simp
  from this [of a] this [of b] show ?thesis by (simp add: MAX_PREIMAGE_BYTES_def)
qed

lemma short_texts [simp]:
  "length (render_energy e) \<le> 4096" "length (boost_text x y) = 1"
  by (cases e; simp) (simp add: boost_text_def split: cpu_boost_interface.split cpu_boost_state.split)

lemma fixture_assign_done:
  assumes "fixture_node fx n = Inr (t, i, b, raw)"
    and "fixture_assign (resolved_node n st) d fx = (Inr (), fx')" and "wf_value d"
  shows "view CpuFixture_io n fx' = Some (overlay d t, i, b)"
  using assms frequency_text_short
  by (cases n; cases d)
    (auto simp: fixture_view fixture_node_def fixture_assign_def fixture_policy_def set_policy_ok
      resolved_node_def rbind_eq_Inr overlay_def update_conv' wf_governor_def
      wf_platform_profile_def semantic_name_def MAX_PREIMAGE_BYTES_def split: option.splits)

lemma fixture_assign_undone:
  assumes "fixture_node fx n = Inr (t, i, b, raw)"
    and "fixture_assign (resolved_node n st) d fx = (Inr (), fx')"
  shows "fixture_assign (resolved_node n st) t fx' = (Inr (), fx)"
  using assms
  by (cases n; cases d)
    (auto simp: fixture_node_def fixture_assign_def fixture_policy_def set_policy_def resolved_node_def
      rbind_eq_Inr update_present update_conv' split: option.splits)

lemma fixture_assign_same:
  assumes "fixture_node fx n = Inr (t, i, b, raw)"
  shows "fixture_assign (resolved_node n st) t fx = (Inr (), fx)"
  using assms
  by (cases n) (auto simp: fixture_node_def fixture_assign_def fixture_policy_def set_policy_def
      resolved_node_def rbind_eq_Inr update_present split: option.splits)

interpretation fixture: cpu_port CpuFixture_io
proof
  fix n d w st w1 e w' k and r :: "unit result"
  show "pure_action (cpu_read CpuFixture_io n)"
    by (simp add: pure_action_def fixture_read_def)
  show "pure_action (cpu_validate_desired CpuFixture_io n d)"
    by (simp add: pure_action_def fixture_validate_desired_def)
  show "cs_fingerprint st = fingerprint_for_value (Typed (cs_typed st))"
    if "cpu_read CpuFixture_io n w = (Inr st, w1)"
    using that by (auto simp: fixture_read_ok)
  show "cpu_read CpuFixture_io (resolved_node n st) w = (Inr st, w1)"
    if "cpu_read CpuFixture_io n w = (Inr st, w1)"
    using that by (auto simp: fixture_read_def)
  show "view CpuFixture_io k w' = view CpuFixture_io k w" if "cpu_write CpuFixture_io n d w = (Inl e, w')"
    using that by (simp add: fixture_view fixture_write_refused)
  assume rd: "cpu_read CpuFixture_io n w = (Inr st, w1)"
  then obtain raw where node: "fixture_node w n = Inr (cs_typed st, cs_target_identity st, cs_boost_interface st, raw)"
    by (auto simp: fixture_read_ok)
  show "view CpuFixture_io n w' = Some (overlay d (cs_typed st), cs_target_identity st, cs_boost_interface st)"
    if "cpu_write CpuFixture_io (resolved_node n st) d w = (Inr (), w')" and "wf_value d"
    using that fixture_assign_done [OF node]
    by (auto simp: fixture_write_def split: if_splits)
  show "\<exists>w''. cpu_write CpuFixture_io (resolved_node n st) (cs_typed st) w' = (Inr (), w'')
      \<and> (\<forall>k. view CpuFixture_io k w'' = view CpuFixture_io k w)"
    if "cpu_write CpuFixture_io (resolved_node n st) d w = (Inr (), w')"
  proof -
    from that have a: "fixture_assign (resolved_node n st) d w = (Inr (), w')"
      and "resolved_node n st \<notin> fx_fail_writes w" by (simp_all add: fixture_write_def split: if_splits)
    moreover from a have "fx_fail_writes w' = fx_fail_writes w" by (rule fixture_assign_failures)
    ultimately show ?thesis
      using fixture_assign_undone [OF node a] by (simp add: fixture_write_def)
  qed
  show "view CpuFixture_io k w' = view CpuFixture_io k w"
    if "cpu_write CpuFixture_io (resolved_node n st) (cs_typed st) w = (r, w')"
    using that fixture_assign_same [OF node, of st]
    by (auto simp: fixture_write_def fixture_view split: if_splits)
qed

section \<open>Properties\<close>


text \<open>An example: the governor of one policy is changed, with and without an injected write failure.\<close>

definition example_policy :: cpu_fixture_policy where
  "example_policy = \<lparr>fp_identity = TargetIdentity (replicate 16 7), fp_governor = GovernorId ''schedutil'',
     fp_governor_choices = [GovernorId ''schedutil'', GovernorId ''performance''],
     fp_epp = BalancePower, fp_epp_choices = [BalancePower], fp_min_khz = FrequencyKHz 1000,
     fp_max_khz = FrequencyKHz 2000, fp_hardware_min = FrequencyKHz 500, fp_hardware_max = FrequencyKHz 3000\<rparr>"

definition example_cpu :: cpu_fixture where
  "example_cpu = add_policy (CpuPolicyId 0) example_policy CpuFixture_new"

definition example_governor :: planned_mutation where
  "example_governor = (let kind = mutation_kind.CpuGovernor (CpuPolicyId 0) (GovernorId ''performance'')
     in \<lparr>pm_mutation_id = MutationId 1, pm_capability = CapabilityId ''cpu.policy.governor'',
       pm_target = TargetId ''cpu.policy.0'', pm_kind = kind, pm_desired = kind_value kind,
       pm_precondition = fingerprint_for_value (Typed (typed_value.Governor (GovernorId ''schedutil''))),
       pm_equality = ScalarExact, pm_dependencies = [],
       pm_rollback = \<lparr>rb_equality = ScalarExact, rb_mode = CompareAndRestore\<rparr>\<rparr>)"

definition example_governor_snapshot :: snapshot where
  "example_governor_snapshot = projr (fst (cpu_snapshot CpuFixture_io example_governor (Timestamp 5) example_cpu))"

lemma example_governor_wf: "wf_mutation example_governor"
  by code_simp


end
