(* ===== verification/Host_Log.thy ===== *)
theory Host_Log
  imports Host_Files Backends
begin

text \<open>
  A host that records what is asked of it, rules for reasoning about the recorded log of an operation,
  and the sequences of backend calls over which the file-backed backends are proved to obey a rule.
\<close>

section \<open>Recording\<close>

datatype host_event =
    Inspected path "io_kind + metadata"
  | Opened open_options path "io_kind + fd"
  | Written fd "u8 list" "io_kind + unit"
  | Synced fd "io_kind + unit"
  | Made path "io_kind + unit"
  | Removed path "io_kind + unit"
  | Renamed path path "io_kind + unit"
  | Prioritised u32 int "io_kind + unit"
  | Asked

type_synonym 'w logged_host = "'w \<times> host_event list"

definition noting :: "('w, 'a) io \<Rightarrow> (io_kind + 'a \<Rightarrow> host_event) \<Rightarrow> ('w logged_host, 'a) io" where
  "noting f entry = (\<lambda>(w, log). case f w of (r, w) \<Rightarrow> (r, w, entry r # log))"

definition recording_host :: "'w host \<Rightarrow> 'w logged_host host" where
  "recording_host h = \<lparr>
     h_symlink_metadata = (\<lambda>p. noting (h_symlink_metadata h p) (Inspected p)),
     h_canonicalize = (\<lambda>p. noting (h_canonicalize h p) (\<lambda>_. Asked)),
     h_read_dir = (\<lambda>p. noting (h_read_dir h p) (\<lambda>_. Asked)),
     h_open = (\<lambda>opts p. noting (h_open h opts p) (Opened opts p)),
     h_metadata = (\<lambda>f. noting (h_metadata h f) (\<lambda>_. Asked)),
     h_read = (\<lambda>f limit. noting (h_read h f limit) (\<lambda>_. Asked)),
     h_write_all = (\<lambda>f bytes. noting (h_write_all h f bytes) (Written f bytes)),
     h_sync_all = (\<lambda>f. noting (h_sync_all h f) (Synced f)),
     h_create_dir = (\<lambda>mode p. noting (h_create_dir h mode p) (Made p)),
     h_remove_dir = (\<lambda>p. noting (h_remove_dir h p) (Removed p)),
     h_remove_file = (\<lambda>p. noting (h_remove_file h p) (Removed p)),
     h_rename = (\<lambda>p q. noting (h_rename h p q) (Renamed p q)),
     h_getpriority = (\<lambda>n. noting (h_getpriority h n) (\<lambda>_. Asked)),
     h_setpriority = (\<lambda>n v. noting (h_setpriority h n v) (Prioritised n v)),
     h_process_id = h_process_id h,
     h_read_to_string = (\<lambda>p. noting (h_read_to_string h p) (\<lambda>_. Asked)),
     h_clock_nanos = (\<lambda>(w, log). case h_clock_nanos h w of (n, w) \<Rightarrow> (n, w, Asked # log))\<rparr>"

lemma recording_host_simps [simp]:
  "h_symlink_metadata (recording_host h) p = noting (h_symlink_metadata h p) (Inspected p)"
  "h_canonicalize (recording_host h) p = noting (h_canonicalize h p) (\<lambda>_. Asked)"
  "h_read_dir (recording_host h) p = noting (h_read_dir h p) (\<lambda>_. Asked)"
  "h_open (recording_host h) opts p = noting (h_open h opts p) (Opened opts p)"
  "h_metadata (recording_host h) f = noting (h_metadata h f) (\<lambda>_. Asked)"
  "h_read (recording_host h) f limit = noting (h_read h f limit) (\<lambda>_. Asked)"
  "h_write_all (recording_host h) f bytes = noting (h_write_all h f bytes) (Written f bytes)"
  "h_sync_all (recording_host h) f = noting (h_sync_all h f) (Synced f)"
  "h_create_dir (recording_host h) mode p = noting (h_create_dir h mode p) (Made p)"
  "h_remove_dir (recording_host h) p = noting (h_remove_dir h p) (Removed p)"
  "h_remove_file (recording_host h) p = noting (h_remove_file h p) (Removed p)"
  "h_rename (recording_host h) p q = noting (h_rename h p q) (Renamed p q)"
  "h_getpriority (recording_host h) n = noting (h_getpriority h n) (\<lambda>_. Asked)"
  "h_setpriority (recording_host h) n v = noting (h_setpriority h n v) (Prioritised n v)"
  "h_process_id (recording_host h) = h_process_id h"
  "h_read_to_string (recording_host h) p = noting (h_read_to_string h p) (\<lambda>_. Asked)"
  "h_clock_nanos (recording_host h) = (\<lambda>(w, log). case h_clock_nanos h w of (n, w) \<Rightarrow> (n, w, Asked # log))"
  by (simp_all add: recording_host_def)

text \<open>A rule says which event may follow a log, newest event first; a log obeys it at every event.\<close>

fun obeys :: "(host_event \<Rightarrow> host_event list \<Rightarrow> bool) \<Rightarrow> host_event list \<Rightarrow> bool" where
  "obeys rule [] \<longleftrightarrow> True"
| "obeys rule (e # log) \<longleftrightarrow> rule e log \<and> obeys rule log"

lemma obeys_at: "obeys rule (later @ e # log) \<Longrightarrow> rule e log"
  by (induction later) auto

section \<open>Conditions on the log before and after an operation\<close>

definition hoare ::
    "(host_event list \<Rightarrow> bool) \<Rightarrow> ('w logged_host, 'a) action \<Rightarrow> ('a result \<Rightarrow> host_event list \<Rightarrow> bool) \<Rightarrow> bool" where
  "hoare P m Q \<longleftrightarrow> (\<forall>w log r w' log'. P log \<longrightarrow> m (w, log) = (r, w', log') \<longrightarrow> Q r log')"

text \<open>On an error one condition, on success another: the shape that sequencing needs.\<close>

definition outcome ::
    "(host_event list \<Rightarrow> bool) \<Rightarrow> ('a \<Rightarrow> host_event list \<Rightarrow> bool) \<Rightarrow> 'a result \<Rightarrow> host_event list \<Rightarrow> bool" where
  "outcome E Q r log = (case r of Inl _ \<Rightarrow> E log | Inr x \<Rightarrow> Q x log)"

lemma outcome_simps [simp]: "outcome E Q (Inl e) log = E log" "outcome E Q (Inr x) log = Q x log"
  by (simp_all add: outcome_def)

named_theorems hoare_intros

lemma hoare_return: "(\<And>log. P log \<Longrightarrow> outcome E Q r log) \<Longrightarrow> hoare P (areturn r) (outcome E Q)"
  by (simp add: hoare_def areturn_def)

lemma hoare_bind:
  assumes "hoare P m (outcome E R)" and "\<And>x. hoare (R x) (k x) (outcome E Q)"
  shows "hoare P (abind m k) (outcome E Q)"
  unfolding hoare_def
proof (intro allI impI)
  fix w log r w' log' assume P: "P log" and run: "abind m k (w, log) = (r, w', log')"
  from run show "outcome E Q r log'"
  proof (rule abindE)
    fix e assume "m (w, log) = (Inl e, w', log')" "r = Inl e"
    with assms(1) P show ?thesis by (fastforce simp: hoare_def)
  next
    fix x s1 assume m: "m (w, log) = (Inr x, s1)" and k: "k x s1 = (r, w', log')"
    obtain w1 log1 where s1: "s1 = (w1, log1)" by (cases s1)
    from assms(1) P m s1 have "R x log1" by (fastforce simp: hoare_def)
    with assms(2) [of x] k s1 show ?thesis by (fastforce simp: hoare_def)
  qed
qed

lemma hoare_weaken:
  assumes "hoare P m (outcome E Q)" "\<And>log. P' log \<Longrightarrow> P log" "\<And>log. E log \<Longrightarrow> E' log" "\<And>x log. Q x log \<Longrightarrow> Q' x log"
  shows "hoare P' m (outcome E' Q')"
  using assms unfolding hoare_def outcome_def by (fastforce split: sum.splits)

lemma hoare_call:
  assumes "\<And>log e. P log \<Longrightarrow> E (entry (Inl e) # log)" "\<And>log x. P log \<Longrightarrow> Q x (entry (Inr x) # log)"
  shows "hoare P (io_call (noting f entry) err) (outcome E Q)"
  using assms unfolding hoare_def io_call_def noting_def
  by (auto split: prod.splits sum.splits simp: outcome_def elim: map_err.elims)

lemma hoare_pure: "(b \<Longrightarrow> hoare P m Q) \<Longrightarrow> hoare (\<lambda>log. b \<and> P log) m Q"
  by (auto simp: hoare_def)

lemma hoare_ex: "(\<And>x. hoare (P x) m Q) \<Longrightarrow> hoare (\<lambda>log. \<exists>x. P x log) m Q"
  by (fastforce simp: hoare_def)

lemma hoareD: "hoare P m (outcome E Q) \<Longrightarrow> P log \<Longrightarrow> m (w, log) = (r, w', log') \<Longrightarrow> outcome E Q r log'"
  by (auto simp: hoare_def)

section \<open>Operations that keep a property of the world\<close>

definition keeps :: "('w \<Rightarrow> bool) \<Rightarrow> ('w \<Rightarrow> 'r \<times> 'w) \<Rightarrow> bool" where
  "keeps I m \<longleftrightarrow> (\<forall>w r w'. I w \<longrightarrow> m w = (r, w') \<longrightarrow> I w')"

named_theorems keeps_intros

lemma keepsD: "keeps I m \<Longrightarrow> I w \<Longrightarrow> m w = (r, w') \<Longrightarrow> I w'"
  by (auto simp: keeps_def)

lemma keeps_return [keeps_intros]: "keeps I (areturn r)"
  by (simp add: keeps_def areturn_def)

lemma keeps_pair [keeps_intros]: "keeps I (\<lambda>w. (r, w))"
  by (simp add: keeps_def)

lemma keeps_case [keeps_intros]:
  "keeps I m \<Longrightarrow> (\<And>r. keeps I (k r)) \<Longrightarrow> keeps I (\<lambda>w. case m w of (r, w) \<Rightarrow> k r w)"
  unfolding keeps_def by (metis case_prod_conv surj_pair)

lemma keeps_bind [keeps_intros]: "keeps I m \<Longrightarrow> (\<And>x. keeps I (k x)) \<Longrightarrow> keeps I (abind m k)"
  unfolding keeps_def by (blast elim: abindE)

lemma keeps_sum [keeps_intros]:
  "(\<And>e. keeps I (f e)) \<Longrightarrow> (\<And>x. keeps I (g x)) \<Longrightarrow> keeps I (\<lambda>w. case r of Inl e \<Rightarrow> f e w | Inr x \<Rightarrow> g x w)"
  by (cases r) simp_all

lemma keeps_if [keeps_intros]:
  "keeps I f \<Longrightarrow> keeps I g \<Longrightarrow> keeps I (\<lambda>w. if b then f w else g w)" "keeps I f \<Longrightarrow> keeps I g \<Longrightarrow> keeps I (if b then f else g)"
  by (cases b; simp)+

lemma keeps_hoare: "(\<And>w. hoare P m (outcome P (\<lambda>_. P))) \<Longrightarrow> keeps (\<lambda>(w, log). P log) m"
  unfolding keeps_def hoare_def outcome_def by (fastforce split: sum.splits)

text \<open>Sequences of backend calls, as the coordinator makes them.\<close>

datatype backend_call =
    Call_detect timestamp
  | Call_snapshot planned_mutation timestamp
  | Call_apply planned_mutation snapshot
  | Call_verify planned_mutation state_fingerprint target_identity
  | Call_restore planned_mutation snapshot state_fingerprint
  | Call_admission planned_mutation target_identity
  | Call_target planned_mutation target_identity

definition backend_step :: "'w backend \<Rightarrow> backend_call \<Rightarrow> 'w \<Rightarrow> 'w" where
  "backend_step B c w =
     (case c of
        Call_detect now \<Rightarrow> snd (be_detect B (areturn (Inr now)) w)
      | Call_snapshot m now \<Rightarrow> snd (be_snapshot B m now w)
      | Call_apply m s \<Rightarrow> snd (be_apply B m s w)
      | Call_verify m e i \<Rightarrow> snd (be_verify B m e i w)
      | Call_restore m s own \<Rightarrow> snd (be_restore B m s own w)
      | Call_admission m i \<Rightarrow> snd (be_admission B m i w)
      | Call_target m i \<Rightarrow> snd (be_target B m i w))"

definition backend_keeps :: "('w \<Rightarrow> bool) \<Rightarrow> 'w backend \<Rightarrow> bool" where
  "backend_keeps I B \<longleftrightarrow> (\<forall>now. keeps I (be_detect B (areturn (Inr now))))
     \<and> (\<forall>m now. keeps I (be_snapshot B m now)) \<and> (\<forall>m s. keeps I (be_apply B m s))
     \<and> (\<forall>m e i. keeps I (be_verify B m e i)) \<and> (\<forall>m s own. keeps I (be_restore B m s own))
     \<and> (\<forall>m i. keeps I (be_admission B m i)) \<and> (\<forall>m i. keeps I (be_target B m i))"

lemma keeps_snd: "keeps I m \<Longrightarrow> I w \<Longrightarrow> I (snd (m w))"
  by (metis keepsD prod.collapse)

lemma backend_run_keeps:
  assumes "backend_keeps I B" "I w"
  shows "I (fold (backend_step B) calls w)"
  using assms(2)
proof (induction calls arbitrary: w)
  case (Cons c calls)
  have "I (backend_step B c w)"
    using assms(1) Cons.prems by (cases c) (auto simp: backend_step_def backend_keeps_def intro: keeps_snd)
  with Cons.IH show ?case by simp
qed simp

end
