(* ===== verification/Cpu_Sysfs.thy ===== *)
theory Cpu_Sysfs
  imports Cpu_Backend Host_Files
begin

text \<open>
  \<open>CpuSysfs\<close> of \<open>sysboost-linux/src/cpu.rs\<close>: the production control port of the CPU backend over the
  host's files. Every operation derives its path from the closed node and checks each component of it
  before the final file is opened; values are parsed from and rendered to the text of the kernel.
\<close>

definition MAX_CPU_READ_BYTES :: nat where "MAX_CPU_READ_BYTES = 4096"
definition MAX_CPU_POLICIES :: nat where "MAX_CPU_POLICIES = 4096"

text \<open>A call of the host whose error is reported as one fixed error.\<close>

definition io_target :: "('w, 'a) io \<Rightarrow> string \<Rightarrow> ('w, 'a) action" where
  "io_target f message = io_call f (\<lambda>_. cpu_target_error message)"

definition is_real_directory :: "metadata \<Rightarrow> bool" where
  "is_real_directory m \<longleftrightarrow> md_type m = Directory"

definition is_real_file :: "metadata \<Rightarrow> bool" where
  "is_real_file m \<longleftrightarrow> md_type m = RegularFile"

section \<open>The text of the kernel\<close>

definition cpu_text :: "u8 list \<Rightarrow> string result" where
  "cpu_text raw = ok_or (cpu_target_error ''CPU kernel value is not valid UTF-8'')
     (map_option trim (from_utf8 raw))"

definition parse_governor :: "u8 list \<Rightarrow> governor_id result" where
  "parse_governor raw = rbind (cpu_text raw) (\<lambda>v.
     replace_err (cpu_target_error ''CPU governor value is malformed'') (GovernorId_new v))"

definition parse_energy :: "u8 list \<Rightarrow> energy_preference result" where
  "parse_energy raw = rbind (cpu_text raw) (\<lambda>v.
     if v = ''performance'' then Inr energy_preference.Performance
     else if v = ''balance_performance'' then Inr BalancePerformance
     else if v = ''balance_power'' then Inr BalancePower
     else if v = ''power'' then Inr Power
     else Inl (cpu_target_error ''CPU EPP value is not in the closed vocabulary''))"

definition parse_frequency :: "u8 list \<Rightarrow> frequency_khz result" where
  "parse_frequency raw = rbind (cpu_text raw) (\<lambda>v.
     rbind (ok_or (cpu_target_error ''CPU frequency value is malformed'') (parse_uint 64 v)) (\<lambda>n.
     replace_err (cpu_target_error ''CPU frequency value is invalid'') (FrequencyKHz_new (word_of_nat n))))"

definition parse_boost :: "cpu_boost_interface \<Rightarrow> u8 list \<Rightarrow> cpu_boost_state result" where
  "parse_boost interface raw = rbind (cpu_text raw) (\<lambda>v.
     if v = ''1'' \<and> interface = cpu_boost_interface.Boost \<or> v = ''0'' \<and> interface = NoTurbo
     then Inr cpu_boost_state.Enabled
     else if v = ''0'' \<and> interface = cpu_boost_interface.Boost \<or> v = ''1'' \<and> interface = NoTurbo
     then Inr cpu_boost_state.Disabled
     else Inl (cpu_target_error ''CPU boost value is malformed''))"

definition parse_profile :: "u8 list \<Rightarrow> platform_profile_id result" where
  "parse_profile raw = rbind (cpu_text raw) (\<lambda>v.
     replace_err (cpu_target_error ''platform profile is malformed'') (PlatformProfileId_new v))"

section \<open>Paths\<close>

text \<open>\<open>root\<close> is the canonical root of the adapter; this is how \<open>new\<close> finds it.\<close>

definition CpuSysfs_new :: "'w host \<Rightarrow> path \<Rightarrow> ('w, path) action" where
  "CpuSysfs_new h root =
     abind (io_target (h_symlink_metadata h root) ''CPU sysfs root cannot be inspected'') (\<lambda>supplied.
     if \<not> is_real_directory supplied
     then areturn (Inl (cpu_target_error ''CPU sysfs root is not a real directory''))
     else abind (io_target (h_canonicalize h root) ''CPU sysfs root cannot be resolved'') (\<lambda>root.
     abind (io_target (h_symlink_metadata h root) ''CPU sysfs root cannot be inspected'') (\<lambda>m.
     if \<not> is_real_directory m
     then areturn (Inl (cpu_target_error ''CPU sysfs root is not a directory''))
     else areturn (Inr root))))"

text \<open>The loop of \<open>cpufreq_dir\<close>.\<close>

fun cpufreq_walk :: "'w host \<Rightarrow> path \<Rightarrow> string list \<Rightarrow> ('w, path) action" where
  "cpufreq_walk h current [] w = (Inr current, w)"
| "cpufreq_walk h current (component # rest) w =
     (let current = path_join current component in
      case h_symlink_metadata h current w of
        (Inr m, w) \<Rightarrow>
          (if \<not> is_real_directory m
           then (Inl (cpu_target_error ''CPU sysfs cpufreq path has an unexpected type''), w)
           else cpufreq_walk h current rest w)
      | (Inl NotFound, w) \<Rightarrow> (Inl (cpu_unsupported ''CPUFreq policy interface is unavailable''), w)
      | (Inl _, w) \<Rightarrow> (Inl (cpu_target_error ''CPU sysfs cpufreq path cannot be inspected''), w))"

definition cpufreq_dir :: "'w host \<Rightarrow> path \<Rightarrow> ('w, path) action" where
  "cpufreq_dir h root = cpufreq_walk h root [''devices'', ''system'', ''cpu'', ''cpufreq'']"

text \<open>The loop of \<open>checked_component_path\<close>; the final component is a directory when the flag says so.\<close>

fun checked_walk :: "'w host \<Rightarrow> bool \<Rightarrow> path \<Rightarrow> string list \<Rightarrow> ('w, path) action" where
  "checked_walk h final_directory current [] w = (Inr current, w)"
| "checked_walk h final_directory current (component # rest) w =
     (if component = [] \<or> component = ''.'' \<or> component = ''..''
      then (Inl (cpu_target_error ''CPU backend component is not allowlisted''), w)
      else let current = path_join current component in
      case h_symlink_metadata h current w of
        (Inl _, w) \<Rightarrow> (Inl (cpu_target_error ''CPU sysfs target disappeared''), w)
      | (Inr m, w) \<Rightarrow>
          (if md_type m = Symlink \<or> (rest \<noteq> [] \<and> md_type m \<noteq> Directory)
              \<or> (rest = [] \<and> final_directory \<and> md_type m \<noteq> Directory)
           then (Inl (cpu_target_error ''CPU sysfs target has an unexpected type''), w)
           else checked_walk h final_directory current rest w))"

definition checked_component_path :: "'w host \<Rightarrow> path \<Rightarrow> string list \<Rightarrow> bool \<Rightarrow> ('w, path) action" where
  "checked_component_path h root components final_directory =
     abind (io_target (h_symlink_metadata h root) ''CPU sysfs root disappeared'') (\<lambda>m.
     if \<not> is_real_directory m
     then areturn (Inl (cpu_target_error ''CPU sysfs root has an unexpected type''))
     else checked_walk h final_directory root components)"

definition policy_dir :: "'w host \<Rightarrow> path \<Rightarrow> cpu_policy_id \<Rightarrow> ('w, path) action" where
  "policy_dir h root policy = checked_component_path h root
     [''devices'', ''system'', ''cpu'', ''cpufreq'', ''policy'' @ dec_digits (unat (policy_num policy))] True"

definition validate_final_file :: "'w host \<Rightarrow> path \<Rightarrow> ('w, unit) action" where
  "validate_final_file h p =
     abind (io_target (h_symlink_metadata h p) ''CPU kernel node disappeared'') (\<lambda>m.
     if \<not> is_real_file m
     then areturn (Inl (cpu_target_error ''CPU kernel node is not a regular file''))
     else areturn (Inr ()))"

definition policy_files :: "string list" where
  "policy_files = [''scaling_governor'', ''energy_performance_preference'', ''scaling_min_freq'',
     ''scaling_max_freq'', ''scaling_cur_freq'', ''scaling_available_governors'',
     ''energy_performance_available_preferences'', ''cpuinfo_min_freq'', ''cpuinfo_max_freq'']"

definition policy_file :: "'w host \<Rightarrow> path \<Rightarrow> cpu_policy_id \<Rightarrow> string \<Rightarrow> ('w, path) action" where
  "policy_file h root policy file_name =
     (if file_name \<notin> set policy_files
      then areturn (Inl (cpu_target_error ''CPU policy file is not allowlisted''))
      else abind (policy_dir h root policy) (\<lambda>directory.
      abind (validate_final_file h (path_join directory file_name)) (\<lambda>_.
      areturn (Inr (path_join directory file_name)))))"

text \<open>The candidates of a boost node, in the order they are tried, and the search.\<close>

definition boost_candidates :: "cpu_boost_interface option \<Rightarrow> (string \<times> cpu_boost_interface) list" where
  "boost_candidates interface =
     (case interface of
        Some cpu_boost_interface.Boost \<Rightarrow> [(''boost'', cpu_boost_interface.Boost)]
      | Some NoTurbo \<Rightarrow> [(''no_turbo'', NoTurbo)]
      | None \<Rightarrow> [(''boost'', cpu_boost_interface.Boost), (''no_turbo'', NoTurbo)])"

fun find_boost ::
    "'w host \<Rightarrow> path \<Rightarrow> (string \<times> cpu_boost_interface) list \<Rightarrow>
     ('w, path \<times> cpu_boost_interface option) action" where
  "find_boost h directory [] w = (Inl (cpu_unsupported ''CPU boost/turbo interface is unavailable''), w)"
| "find_boost h directory ((name, selected) # rest) w =
     (case h_symlink_metadata h (path_join directory name) w of
        (Inr m, w) \<Rightarrow>
          (if md_type m = Symlink then (Inl (cpu_target_error ''CPU boost node is a symlink''), w)
           else if is_real_file m then (Inr (path_join directory name, Some selected), w)
           else (Inl (cpu_target_error ''CPU boost node has an unexpected type''), w))
      | (Inl NotFound, w) \<Rightarrow> find_boost h directory rest w
      | (Inl _, w) \<Rightarrow> (Inl (cpu_target_error ''CPU boost node cannot be inspected''), w))"

definition node_path ::
    "'w host \<Rightarrow> path \<Rightarrow> cpu_node \<Rightarrow> ('w, path \<times> cpu_boost_interface option) action" where
  "node_path h root node =
     (case node of
        cpu_node.Governor policy \<Rightarrow> abind (policy_file h root policy ''scaling_governor'') (\<lambda>p.
          areturn (Inr (p, None)))
      | cpu_node.EnergyPreference policy \<Rightarrow>
          abind (policy_file h root policy ''energy_performance_preference'') (\<lambda>p. areturn (Inr (p, None)))
      | Frequency policy \<Rightarrow> abind (policy_dir h root policy) (\<lambda>p. areturn (Inr (p, None)))
      | cpu_node.Boost interface \<Rightarrow> abind (cpufreq_dir h root) (\<lambda>directory.
          find_boost h directory (boost_candidates interface))
      | cpu_node.PlatformProfile \<Rightarrow>
          abind (checked_component_path h root [''firmware'', ''acpi''] True) (\<lambda>p.
          areturn (Inr (path_join p ''platform_profile'', None))))"

section \<open>Reading and writing files\<close>

unbundle bit_operations_syntax

definition cpu_read_file :: "'w host \<Rightarrow> path \<Rightarrow> ('w, u8 list) action" where
  "cpu_read_file h p =
     abind (io_target (h_open h (read_options (open_cloexec_flags OR open_nofollow_flags)) p)
       ''CPU kernel interface cannot be opened'') (\<lambda>f.
     abind (io_target (h_metadata h f) ''CPU kernel interface cannot be inspected'') (\<lambda>m.
     if \<not> is_real_file m
     then areturn (Inl (cpu_target_error ''CPU kernel interface is not a regular node''))
     else abind (io_target (h_read h f (Some (MAX_CPU_READ_BYTES + 1)))
       ''CPU kernel interface cannot be read'') (\<lambda>bytes.
     if length bytes > MAX_CPU_READ_BYTES
     then areturn (Inl (cpu_target_error ''CPU kernel interface value is oversized''))
     else areturn (Inr bytes))))"

definition cpu_write_file :: "'w host \<Rightarrow> path \<Rightarrow> string \<Rightarrow> ('w, unit) action" where
  "cpu_write_file h p text =
     (if text = [] \<or> length text > 128 \<or> nul \<in> set text \<or> CHR 0x0A \<in> set text
      then areturn (Inl (SysboostError_new InvalidInput ''CPU backend generated an invalid kernel value''))
      else abind (validate_final_file h p) (\<lambda>_.
      abind (io_target (h_open h (write_options (open_cloexec_flags OR open_nofollow_flags)) p)
        ''CPU kernel interface cannot be opened for writing'') (\<lambda>f.
      io_call (h_write_all h f (str_bytes text))
        (\<lambda>_. SysboostError_new ApplyError ''CPU kernel write failed''))))"

text \<open>\<open>node_identity\<close> and \<open>directory_identity\<close>: device and inode, big-endian.\<close>

definition identity_of :: "metadata \<Rightarrow> target_identity" where
  "identity_of m = TargetIdentity (to_be 8 (md_dev m) @ to_be 8 (md_ino m))"

definition node_identity :: "'w host \<Rightarrow> path \<Rightarrow> ('w, target_identity) action" where
  "node_identity h p =
     abind (io_target (h_symlink_metadata h p) ''CPU kernel node identity cannot be inspected'') (\<lambda>m.
     if \<not> is_real_file m
     then areturn (Inl (cpu_target_error ''CPU kernel node identity has an unexpected type''))
     else areturn (Inr (identity_of m)))"

definition directory_identity :: "'w host \<Rightarrow> path \<Rightarrow> ('w, target_identity) action" where
  "directory_identity h p =
     abind (io_target (h_symlink_metadata h p) ''CPU policy identity cannot be inspected'') (\<lambda>m.
     if \<not> is_real_directory m
     then areturn (Inl (cpu_target_error ''CPU policy identity has an unexpected type''))
     else areturn (Inr (identity_of m)))"

definition read_policy_file :: "'w host \<Rightarrow> path \<Rightarrow> cpu_policy_id \<Rightarrow> string \<Rightarrow> ('w, u8 list) action" where
  "read_policy_file h root policy file_name =
     abind (policy_file h root policy file_name) (cpu_read_file h)"

definition raw_node ::
    "'w host \<Rightarrow> path \<Rightarrow> cpu_node \<Rightarrow> ('w, u8 list \<times> target_identity \<times> cpu_boost_interface option) action" where
  "raw_node h root node =
     abind (node_path h root node) (\<lambda>(p, interface).
     case node of
       Frequency policy \<Rightarrow>
         abind (read_policy_file h root policy ''scaling_min_freq'') (\<lambda>lo.
         abind (read_policy_file h root policy ''scaling_max_freq'') (\<lambda>hi.
         abind (policy_dir h root policy) (\<lambda>directory.
         abind (directory_identity h directory) (\<lambda>identity.
         areturn (Inr (lo @ 0 # hi, identity, interface))))))
     | _ \<Rightarrow>
         abind (cpu_read_file h p) (\<lambda>raw.
         abind (node_identity h p) (\<lambda>identity.
         areturn (Inr (raw, identity, interface)))))"

text \<open>\<open>parse_node\<close>: the typed value of a node with the bytes, identity and interface it came from.\<close>

definition parse_frequencies :: "u8 list \<Rightarrow> typed_value result" where
  "parse_frequencies raw =
     (case split_by (\<lambda>byte. byte = 0) raw of
        [lo, hi] \<Rightarrow> rbind (parse_frequency lo) (\<lambda>lo. rbind (parse_frequency hi) (\<lambda>hi.
          Inr (typed_value.CpuFrequency (Some lo) (Some hi))))
      | _ \<Rightarrow> Inl (cpu_target_error ''CPU frequency state is malformed''))"

definition parse_typed :: "cpu_node \<Rightarrow> u8 list \<Rightarrow> cpu_boost_interface option \<Rightarrow> typed_value result" where
  "parse_typed node raw interface =
     (case node of
        cpu_node.Governor _ \<Rightarrow> rbind (parse_governor raw) (\<lambda>v. Inr (typed_value.Governor v))
      | cpu_node.EnergyPreference _ \<Rightarrow> rbind (parse_energy raw) (\<lambda>v. Inr (typed_value.EnergyPreference v))
      | Frequency _ \<Rightarrow> parse_frequencies raw
      | cpu_node.Boost _ \<Rightarrow>
          rbind (ok_or (cpu_target_error ''CPU boost interface is unknown'') interface) (\<lambda>interface.
          rbind (parse_boost interface raw) (\<lambda>v. Inr (typed_value.CpuBoost v)))
      | cpu_node.PlatformProfile \<Rightarrow> rbind (parse_profile raw) (\<lambda>v. Inr (typed_value.PlatformProfile v)))"

definition parse_node ::
    "'w host \<Rightarrow> path \<Rightarrow> cpu_node
     \<Rightarrow> ('w, typed_value \<times> u8 list \<times> target_identity \<times> cpu_boost_interface option) action" where
  "parse_node h root node =
     abind (raw_node h root node) (\<lambda>(raw, identity, interface).
     abind (areturn (parse_typed node raw interface)) (\<lambda>typed.
     areturn (Inr (typed, raw, identity, interface))))"

section \<open>The control port\<close>

text \<open>The loop of \<open>list_policies\<close> over the entries of the directory.\<close>

fun list_entries ::
    "'w host \<Rightarrow> path \<Rightarrow> (io_kind + dir_entry) list \<Rightarrow> u32 list \<Rightarrow> ('w, u32 list) action" where
  "list_entries h directory [] policies w = (Inr policies, w)"
| "list_entries h directory (Inl _ # rest) policies w =
     (Inl (cpu_target_error ''CPU policy entry cannot be inspected''), w)"
| "list_entries h directory (Inr entry # rest) policies w =
     (case entry_str entry of
        None \<Rightarrow> list_entries h directory rest policies w
      | Some name \<Rightarrow>
        (case strip_prefix ''policy'' name of
           None \<Rightarrow> list_entries h directory rest policies w
         | Some number \<Rightarrow>
           (case parse_uint 32 number of
              None \<Rightarrow> (Inl (cpu_target_error ''CPU policy directory name is malformed''), w)
            | Some n \<Rightarrow>
              (case io_target (h_symlink_metadata h (path_join directory name))
                  ''CPU policy directory cannot be inspected'' w of
                 (Inl e, w) \<Rightarrow> (Inl e, w)
               | (Inr m, w) \<Rightarrow>
                 (if \<not> is_real_directory m
                  then (Inl (cpu_target_error ''CPU policy directory is not a real directory''), w)
                  else if length (policies @ [word_of_nat n]) > MAX_CPU_POLICIES
                  then (Inl (cpu_target_error ''CPU policy enumeration exceeds its bound''), w)
                  else list_entries h directory rest (policies @ [word_of_nat n]) w)))))"

definition cpu_sysfs_list_policies :: "'w host \<Rightarrow> path \<Rightarrow> ('w, cpu_policy_id list) action" where
  "cpu_sysfs_list_policies h root =
     abind (cpufreq_dir h root) (\<lambda>directory.
     abind (io_target (h_read_dir h directory) ''CPU policies cannot be enumerated'') (\<lambda>entries.
     abind (list_entries h directory entries []) (\<lambda>policies.
     areturn (Inr (map CpuPolicyId (remdups_adj (sort policies)))))))"

definition cpu_sysfs_read :: "'w host \<Rightarrow> path \<Rightarrow> cpu_node \<Rightarrow> ('w, cpu_node_state) action" where
  "cpu_sysfs_read h root node =
     abind (parse_node h root node) (\<lambda>(typed, raw, identity, interface).
     abind (areturn (BoundedBytes_new raw)) (\<lambda>bytes.
     areturn (Inr \<lparr>cs_raw = bytes, cs_typed = typed, cs_fingerprint = fingerprint_for_value (Typed typed),
       cs_target_identity = identity, cs_boost_interface = interface\<rparr>)))"

definition choices_text :: "'w host \<Rightarrow> path \<Rightarrow> cpu_node \<Rightarrow> ('w, string list) action" where
  "choices_text h root node =
     (let words = (\<lambda>bytes. areturn (rbind
            (ok_or (cpu_target_error ''CPU kernel choices are not valid text'') (from_utf8 bytes))
            (\<lambda>text. Inr (split_whitespace text))))
      in case node of
        cpu_node.Governor policy \<Rightarrow> abind (read_policy_file h root policy ''scaling_available_governors'') words
      | cpu_node.EnergyPreference policy \<Rightarrow>
          abind (read_policy_file h root policy ''energy_performance_available_preferences'') words
      | cpu_node.PlatformProfile \<Rightarrow>
          abind (checked_component_path h root [''firmware'', ''acpi''] True) (\<lambda>directory.
          abind (validate_final_file h (path_join directory ''platform_profile_choices'')) (\<lambda>_.
          abind (cpu_read_file h (path_join directory ''platform_profile_choices'')) words))
      | cpu_node.Boost _ \<Rightarrow> areturn (Inr [])
      | Frequency _ \<Rightarrow> areturn (Inr []))"

definition typed_choices :: "cpu_node \<Rightarrow> string list \<Rightarrow> typed_value list result" where
  "typed_choices node choices =
     (case node of
        cpu_node.Governor _ \<Rightarrow> try_map (\<lambda>v. rbind (GovernorId_new v) (\<lambda>g. Inr (typed_value.Governor g))) choices
      | cpu_node.EnergyPreference _ \<Rightarrow> try_map (\<lambda>v. rbind (parse_energy (str_bytes v))
          (\<lambda>p. Inr (typed_value.EnergyPreference p))) choices
      | cpu_node.PlatformProfile \<Rightarrow> try_map (\<lambda>v. rbind (PlatformProfileId_new v)
          (\<lambda>p. Inr (typed_value.PlatformProfile p))) choices
      | cpu_node.Boost _ \<Rightarrow> Inr [typed_value.CpuBoost cpu_boost_state.Enabled,
          typed_value.CpuBoost cpu_boost_state.Disabled]
      | Frequency _ \<Rightarrow> Inr [])"

definition cpu_sysfs_choices :: "'w host \<Rightarrow> path \<Rightarrow> cpu_node \<Rightarrow> ('w, typed_value list) action" where
  "cpu_sysfs_choices h root node =
     abind (choices_text h root node) (\<lambda>choices. areturn (typed_choices node choices))"

definition read_optional_frequency ::
    "'w host \<Rightarrow> path \<Rightarrow> cpu_policy_id \<Rightarrow> string \<Rightarrow> ('w, frequency_khz option) action" where
  "read_optional_frequency h root policy file_name =
     abind (policy_dir h root policy) (\<lambda>directory w.
     case h_symlink_metadata h (path_join directory file_name) w of
       (Inr m, w) \<Rightarrow>
         (if md_type m = Symlink then (Inl (cpu_target_error ''CPU hardware-bound node is a symlink''), w)
          else if \<not> is_real_file m
          then (Inl (cpu_target_error ''CPU hardware-bound node has an unexpected type''), w)
          else abind (cpu_read_file h (path_join directory file_name)) (\<lambda>raw.
            areturn (rbind (parse_frequency raw) (\<lambda>f. Inr (Some f)))) w)
     | (Inl NotFound, w) \<Rightarrow> (Inr None, w)
     | (Inl _, w) \<Rightarrow> (Inl (cpu_target_error ''CPU hardware-bound node cannot be inspected''), w))"

text \<open>The pair of frequencies a node state holds; both must be known.\<close>

definition current_range :: "typed_value \<Rightarrow> (frequency_khz \<times> frequency_khz) result" where
  "current_range typed =
     (case typed of
        typed_value.CpuFrequency lo hi \<Rightarrow>
          rbind (ok_or (cpu_target_error ''CPU minimum is unavailable'') lo) (\<lambda>lo.
          rbind (ok_or (cpu_target_error ''CPU maximum is unavailable'') hi) (\<lambda>hi. Inr (lo, hi)))
      | _ \<Rightarrow> Inl (cpu_target_error ''CPU frequency current state is malformed''))"

definition inverted :: "frequency_khz option \<Rightarrow> frequency_khz option \<Rightarrow> bool" where
  "inverted lo hi \<longleftrightarrow> (case (lo, hi) of (Some lo, Some hi) \<Rightarrow> khz lo > khz hi | _ \<Rightarrow> False)"

text \<open>One guarded write of a bound: only when it is requested and differs.\<close>

definition write_bound ::
    "'w host \<Rightarrow> path \<Rightarrow> cpu_policy_id \<Rightarrow> string \<Rightarrow> frequency_khz option \<Rightarrow> frequency_khz \<Rightarrow> ('w, unit) action" where
  "write_bound h root policy file_name bound current =
     (case bound of
        None \<Rightarrow> areturn (Inr ())
      | Some v \<Rightarrow>
        (if v = current then areturn (Inr ())
         else abind (policy_file h root policy file_name) (\<lambda>p.
           cpu_write_file h p (dec_digits (unat (khz v))))))"

definition write_frequency :: "'w host \<Rightarrow> path \<Rightarrow> cpu_policy_id \<Rightarrow> typed_value \<Rightarrow> ('w, unit) action" where
  "write_frequency h root policy desired =
     (case desired of
        typed_value.CpuFrequency min_khz max_khz \<Rightarrow>
          abind (cpu_sysfs_read h root (Frequency policy)) (\<lambda>current.
          abind (areturn (current_range (cs_typed current))) (\<lambda>(current_min, current_max).
          if inverted min_khz max_khz
          then areturn (Inl (cpu_target_error ''CPU desired minimum exceeds maximum''))
          else let desired_min = unwrap_or min_khz current_min;
                   desired_max = unwrap_or max_khz current_max in
          if khz desired_min > khz desired_max
          then areturn (Inl (cpu_target_error ''CPU desired frequency range is invalid''))
          else if khz desired_max < khz current_min
          then abind (write_bound h root policy ''scaling_min_freq'' min_khz current_min) (\<lambda>_.
            write_bound h root policy ''scaling_max_freq'' max_khz current_max)
          else abind (write_bound h root policy ''scaling_max_freq'' max_khz current_max) (\<lambda>_.
            write_bound h root policy ''scaling_min_freq'' min_khz current_min)))
      | _ \<Rightarrow> areturn (Inl (cpu_target_error ''CPU frequency operation has the wrong typed value'')))"

text \<open>\<open>validate_desired\<close>: a frequency within the hardware's bounds, any other value among the choices.\<close>

definition outside :: "frequency_khz option \<Rightarrow> frequency_khz option \<Rightarrow> frequency_khz \<Rightarrow> bool" where
  "outside hardware_min hardware_max v \<longleftrightarrow>
     (case hardware_min of None \<Rightarrow> False | Some lo \<Rightarrow> khz v < khz lo)
     \<or> (case hardware_max of None \<Rightarrow> False | Some hi \<Rightarrow> khz v > khz hi)"

definition cpu_sysfs_validate_desired ::
    "'w host \<Rightarrow> path \<Rightarrow> cpu_node \<Rightarrow> typed_value \<Rightarrow> ('w, unit) action" where
  "cpu_sysfs_validate_desired h root node desired =
     (case node of
        Frequency policy \<Rightarrow>
          (case desired of
             typed_value.CpuFrequency min_khz max_khz \<Rightarrow>
               (if inverted min_khz max_khz
                then areturn (Inl (cpu_target_error ''CPU desired minimum exceeds maximum''))
                else abind (cpu_sysfs_read h root (Frequency policy)) (\<lambda>current.
                abind (areturn (current_range (cs_typed current))) (\<lambda>(current_min, current_max).
                abind (read_optional_frequency h root policy ''cpuinfo_min_freq'') (\<lambda>hardware_min.
                abind (read_optional_frequency h root policy ''cpuinfo_max_freq'') (\<lambda>hardware_max.
                if outside hardware_min hardware_max (unwrap_or min_khz current_min)
                  \<or> outside hardware_min hardware_max (unwrap_or max_khz current_max)
                then areturn (Inl (cpu_target_error ''CPU desired frequency is outside kernel bounds''))
                else areturn (Inr ()))))))
           | _ \<Rightarrow> areturn (Inl (cpu_target_error ''CPU frequency desired value is not typed'')))
      | _ \<Rightarrow> abind (cpu_sysfs_choices h root node) (\<lambda>choices.
          if choices = [] \<or> desired \<notin> set choices
          then areturn (Inl (cpu_unsupported ''CPU desired value is not advertised by the kernel''))
          else areturn (Inr ())))"

definition cpu_sysfs_write :: "'w host \<Rightarrow> path \<Rightarrow> cpu_node \<Rightarrow> typed_value \<Rightarrow> ('w, unit) action" where
  "cpu_sysfs_write h root node desired =
     (case node of
        cpu_node.Governor policy \<Rightarrow>
          (case desired of
             typed_value.Governor v \<Rightarrow> abind (policy_file h root policy ''scaling_governor'') (\<lambda>p.
               cpu_write_file h p (governor_str v))
           | _ \<Rightarrow> areturn (Inl (cpu_target_error ''CPU governor desired value is not typed'')))
      | cpu_node.EnergyPreference policy \<Rightarrow>
          (case desired of
             typed_value.EnergyPreference v \<Rightarrow>
               abind (policy_file h root policy ''energy_performance_preference'') (\<lambda>p.
               cpu_write_file h p (render_energy v))
           | _ \<Rightarrow> areturn (Inl (cpu_target_error ''CPU EPP desired value is not typed'')))
      | Frequency policy \<Rightarrow> write_frequency h root policy desired
      | cpu_node.Boost (Some interface) \<Rightarrow>
          (case desired of
             typed_value.CpuBoost state \<Rightarrow>
               abind (node_path h root (cpu_node.Boost (Some interface))) (\<lambda>(p, _).
               cpu_write_file h p (boost_text interface state))
           | _ \<Rightarrow> areturn (Inl (cpu_target_error ''CPU boost desired value is not typed'')))
      | cpu_node.Boost None \<Rightarrow> areturn (Inl (cpu_target_error ''CPU boost write lacks a resolved interface''))
      | cpu_node.PlatformProfile \<Rightarrow>
          (case desired of
             typed_value.PlatformProfile v \<Rightarrow> abind (node_path h root cpu_node.PlatformProfile) (\<lambda>(p, _).
               cpu_write_file h p (platform_profile_str v))
           | _ \<Rightarrow> areturn (Inl (cpu_target_error ''platform profile desired value is not typed''))))"

definition CpuSysfs_io :: "'w host \<Rightarrow> path \<Rightarrow> 'w cpu_control_io" where
  "CpuSysfs_io h root = \<lparr>cpu_list_policies = cpu_sysfs_list_policies h root,
     cpu_read = cpu_sysfs_read h root, cpu_choices = cpu_sysfs_choices h root,
     cpu_validate_desired = cpu_sysfs_validate_desired h root, cpu_write = cpu_sysfs_write h root\<rparr>"

text \<open>\<open>CpuBackend::production\<close>.\<close>

definition cpu_production :: "'w host \<Rightarrow> ('w, 'w backend) action" where
  "cpu_production h = abind (CpuSysfs_new h ''/sys'') (\<lambda>root. areturn (Inr (CpuBackend (CpuSysfs_io h root))))"

end
