(* ===== verification/Cpu_Safety.thy ===== *)
theory Cpu_Safety
  imports Cpu_Sysfs Host_Log
begin

text \<open>
  What the production CPU adapter may do to the host, for any host. Every file it opens is one of a
  closed list below its root, reached through components that were inspected and are real
  directories; only the control files are written, each write directly after the checks and the open of
  its own file (rule \<open>cpu_rule\<close>, lemmas on the log of \<open>recording_host\<close>). A frequency change never
  passes through an inverted range.
\<close>

section \<open>What the port keeps, the backend keeps\<close>

locale cpu_invariant =
  fixes io :: "'w cpu_control_io" and I :: "'w \<Rightarrow> bool"
  assumes list_keeps: "keeps I (cpu_list_policies io)"
    and read_keeps: "\<And>n. keeps I (cpu_read io n)"
    and choices_keeps: "\<And>n. keeps I (cpu_choices io n)"
    and validate_keeps: "\<And>n d. keeps I (cpu_validate_desired io n d)"
    and write_keeps: "\<And>n d. keeps I (cpu_write io n d)"
begin

lemmas port_keeps = read_keeps choices_keeps validate_keeps write_keeps list_keeps

lemma target_state_keeps: "keeps I (validate_target_state io m i)"
  unfolding validate_target_state_def Let_def
  by (intro keeps_intros port_keeps)

lemma recover_keeps: "keeps I (recover_apply io n s e)"
  unfolding recover_apply_def [abs_def] restore_after_failed_apply_def Let_def
  by (intro keeps_intros port_keeps)

lemma apply_keeps: "keeps I (cpu_apply io m s)"
  unfolding cpu_apply_def Let_def
  by (intro keeps_intros port_keeps recover_keeps)

lemma readable_keeps: "keeps I (readable io n)"
  unfolding readable_def [abs_def] by (intro keeps_intros port_keeps)

lemma has_choices_keeps: "keeps I (has_choices io n)"
proof -
  have tail: "keeps I (\<lambda>w. case b of True \<Rightarrow> f w | False \<Rightarrow> g w)" if "keeps I f" "keeps I g" for b f g
    using that by (cases b) simp_all
  show ?thesis unfolding has_choices_def [abs_def]
    by (intro keeps_intros readable_keeps port_keeps tail)
qed

lemma any_policy_keeps: "(\<And>p. keeps I (test p)) \<Longrightarrow> keeps I (any_policy test ps)"
proof (induction ps)
  case (Cons p ps)
  have step: "any_policy test (p # ps) = (\<lambda>w. case test p w of (b, w) \<Rightarrow> if b then (True, w) else any_policy test ps w)"
    by (auto simp: fun_eq_iff split: prod.splits bool.splits)
  show ?case unfolding step by (intro keeps_intros Cons)
qed (simp add: keeps_def)

lemma detect_keeps: "keeps I clock \<Longrightarrow> keeps I (cpu_detect io clock)"
  unfolding cpu_detect_def [abs_def]
  by (intro keeps_intros port_keeps any_policy_keeps has_choices_keeps readable_keeps)

lemma all_keeps: "backend_keeps I (CpuBackend io)"
  unfolding backend_keeps_def CpuBackend_def
  by (auto simp: cpu_snapshot_def cpu_verify_def cpu_restore_def cpu_validate_admission_def cpu_validate_target_def
    Let_def intro!: keeps_intros port_keeps apply_keeps detect_keeps target_state_keeps split: option.splits)

end

section \<open>The files that are opened and written\<close>

unbundle bit_operations_syntax

definition cpufreq_components :: "string list" where
  "cpufreq_components = [''devices'', ''system'', ''cpu'', ''cpufreq'']"

definition policy_components :: "cpu_policy_id \<Rightarrow> string list" where
  "policy_components policy = cpufreq_components @ [''policy'' @ dec_digits (unat (policy_num policy))]"

definition descend :: "path \<Rightarrow> string list \<Rightarrow> path" where
  "descend root cs = foldl path_join root cs"

text \<open>The places of the interface: a directory below the root and a file in it.\<close>

definition cpu_place :: "string list \<Rightarrow> string \<Rightarrow> bool" where
  "cpu_place cs f \<longleftrightarrow> (\<exists>policy. cs = policy_components policy \<and> f \<in> set policy_files)
     \<or> cs = cpufreq_components \<and> f \<in> {''boost'', ''no_turbo''}
     \<or> cs = [''firmware'', ''acpi''] \<and> f \<in> {''platform_profile'', ''platform_profile_choices''}"

definition cpu_control_file :: "string \<Rightarrow> bool" where
  "cpu_control_file f \<longleftrightarrow> f \<in> {''scaling_governor'', ''energy_performance_preference'', ''scaling_min_freq'',
     ''scaling_max_freq'', ''boost'', ''no_turbo'', ''platform_profile''}"

text \<open>What was asked since the last open, and the components found to be real directories in it.\<close>

fun is_opened :: "host_event \<Rightarrow> bool" where
  "is_opened (Opened _ _ _) = True"
| "is_opened _ = False"

definition real_dirs :: "path \<Rightarrow> string list \<Rightarrow> host_event list \<Rightarrow> bool" where
  "real_dirs root cs log \<longleftrightarrow> (\<forall>i \<in> {1..length cs}. \<exists>m.
     Inspected (descend root (take i cs)) (Inr m) \<in> set (takeWhile (\<lambda>e. \<not> is_opened e) log)
     \<and> md_type m = Directory)"

definition just_inspected :: "path \<Rightarrow> host_event list \<Rightarrow> bool" where
  "just_inspected p log \<longleftrightarrow> (\<exists>m rest. log = Inspected p (Inr m) # rest \<and> md_type m = RegularFile)"

definition cpu_rule :: "path \<Rightarrow> host_event \<Rightarrow> host_event list \<Rightarrow> bool" where
  "cpu_rule root e log \<longleftrightarrow>
     (case e of
        Inspected _ _ \<Rightarrow> True
      | Asked \<Rightarrow> True
      | Opened opts p _ \<Rightarrow> oo_flags opts = open_cloexec_flags OR open_nofollow_flags \<and> \<not> oo_create_new opts
          \<and> (\<exists>cs f. cpu_place cs f \<and> p = path_join (descend root cs) f \<and> real_dirs root cs log
            \<and> (oo_write opts \<longrightarrow> cpu_control_file f \<and> just_inspected p log))
      | Written file bytes _ \<Rightarrow> (\<exists>opts p rest. log = Opened opts p (Inr file) # rest \<and> oo_write opts)
          \<and> (\<exists>text. bytes = str_bytes text \<and> text \<noteq> [] \<and> length text \<le> 128
            \<and> nul \<notin> set text \<and> CHR 0x0A \<notin> set text)
      | _ \<Rightarrow> False)"

abbreviation cpu_log :: "path \<Rightarrow> host_event list \<Rightarrow> bool" where
  "cpu_log root \<equiv> obeys (cpu_rule root)"

definition ready :: "path \<Rightarrow> string list \<Rightarrow> host_event list \<Rightarrow> bool" where
  "ready root cs log \<longleftrightarrow> cpu_log root log \<and> real_dirs root cs log"

lemma cpu_rule_quiet [simp]: "cpu_rule root (Inspected p r) log" "cpu_rule root Asked log"
  by (simp_all add: cpu_rule_def)

lemma real_dirs_quiet: "real_dirs root cs log \<Longrightarrow> \<not> is_opened e \<Longrightarrow> real_dirs root cs (e # log)"
  by (auto simp: real_dirs_def)

lemma ready_quiet [simp]: "ready root cs log \<Longrightarrow> ready root cs (Inspected p r # log)"
    "ready root cs log \<Longrightarrow> ready root cs (Asked # log)"
  by (auto simp: ready_def real_dirs_quiet)

lemma ready_log [simp]: "ready root cs log \<Longrightarrow> cpu_log root log"
  by (simp add: ready_def)

lemma ready_nil: "cpu_log root log \<Longrightarrow> ready root [] log"
  by (simp add: ready_def real_dirs_def)

lemma descend_snoc: "descend root (cs @ [c]) = path_join (descend root cs) c"
  by (simp add: descend_def)

lemma ready_snoc:
  assumes "ready root cs log" "md_type m = Directory"
  shows "ready root (cs @ [c]) (Inspected (path_join (descend root cs) c) (Inr m) # log)"
proof -
  have old: "real_dirs root cs log" and ok: "cpu_log root log" using assms(1) by (auto simp: ready_def)
  have "\<exists>m'. Inspected (descend root (take i (cs @ [c]))) (Inr m')
      \<in> set (takeWhile (\<lambda>e. \<not> is_opened e) (Inspected (path_join (descend root cs) c) (Inr m) # log))
      \<and> md_type m' = Directory" if "i \<in> {1..length (cs @ [c])}" for i
  proof (cases "i = Suc (length cs)")
    case True
    then show ?thesis using assms(2) by (auto simp: descend_snoc)
  next
    case False
    with that have i: "i \<in> {1..length cs}" by auto
    then have "take i (cs @ [c]) = take i cs" by simp
    with i old show ?thesis by (fastforce simp: real_dirs_def)
  qed
  with ok show ?thesis by (simp add: ready_def real_dirs_def del: takeWhile.simps)
qed

text \<open>The two walks over path components.\<close>

lemma checked_walk_ready:
  "ready root cs log \<Longrightarrow> checked_walk (recording_host h) True (descend root cs) rest (w, log) = (r, w', log')
   \<Longrightarrow> outcome (cpu_log root) (\<lambda>p log. p = descend root (cs @ rest) \<and> ready root (cs @ rest) log) r log'"
proof (induction rest arbitrary: cs w log)
  case (Cons c rest)
  obtain q w1 where q: "h_symlink_metadata h (path_join (descend root cs) c) w = (q, w1)" by fastforce
  from Cons.prems q show ?case
  proof (cases q)
    case (Inr m)
    show ?thesis
    proof (cases "c = [] \<or> c = ''.'' \<or> c = ''..'' \<or> md_type m \<noteq> Directory")
      case True
      then show ?thesis using Cons.prems q Inr by (auto simp: noting_def Let_def split: if_splits)
    next
      case False
      then have "checked_walk (recording_host h) True (descend root (cs @ [c])) rest
          (w1, Inspected (path_join (descend root cs) c) (Inr m) # log) = (r, w', log')"
        using Cons.prems(2) q Inr by (auto simp: noting_def Let_def descend_snoc split: if_splits)
      with Cons.IH [OF ready_snoc [OF Cons.prems(1)] this] False show ?thesis by simp
    qed
  qed (auto simp: noting_def Let_def split: if_splits)
qed auto

lemma cpufreq_walk_ready:
  "ready root cs log \<Longrightarrow> cpufreq_walk (recording_host h) (descend root cs) rest (w, log) = (r, w', log')
   \<Longrightarrow> outcome (cpu_log root) (\<lambda>p log. p = descend root (cs @ rest) \<and> ready root (cs @ rest) log) r log'"
proof (induction rest arbitrary: cs w log)
  case (Cons c rest)
  obtain q w1 where q: "h_symlink_metadata h (path_join (descend root cs) c) w = (q, w1)" by fastforce
  show ?case
  proof (cases q)
    case (Inl k)
    then show ?thesis using Cons.prems q by (cases k) (auto simp: noting_def Let_def)
  next
    case (Inr m)
    show ?thesis
    proof (cases "is_real_directory m")
      case False
      then show ?thesis using Cons.prems q Inr by (auto simp: noting_def Let_def)
    next
      case True
      then have "cpufreq_walk (recording_host h) (descend root (cs @ [c])) rest
          (w1, Inspected (path_join (descend root cs) c) (Inr m) # log) = (r, w', log')"
        using Cons.prems(2) q Inr by (auto simp: noting_def Let_def descend_snoc)
      with Cons.IH [OF ready_snoc [OF Cons.prems(1)] this] True show ?thesis by (simp add: is_real_directory_def)
    qed
  qed
qed auto

lemma hoare_inspect:
  assumes "\<And>log m. P log \<Longrightarrow> Q m (Inspected p (Inr m) # log)" "\<And>log e. P log \<Longrightarrow> E (Inspected p (Inl e) # log)"
  shows "hoare P (io_target (h_symlink_metadata (recording_host h) p) message) (outcome E Q)"
  unfolding io_target_def recording_host_simps using assms by (intro hoare_call) auto

lemma checked_path_ready:
  "hoare (cpu_log root) (checked_component_path (recording_host h) root cs True)
     (outcome (cpu_log root) (\<lambda>p log. p = descend root cs \<and> ready root cs log))"
  unfolding checked_component_path_def
proof (rule hoare_bind)
  show "hoare (cpu_log root) (io_target (h_symlink_metadata (recording_host h) root) ''CPU sysfs root disappeared'')
      (outcome (cpu_log root) (\<lambda>_. ready root []))"
    by (rule hoare_inspect) (auto intro: ready_nil)
  fix m
  have "hoare (ready root []) (checked_walk (recording_host h) True root cs)
      (outcome (cpu_log root) (\<lambda>p log. p = descend root cs \<and> ready root cs log))"
    unfolding hoare_def
    using checked_walk_ready [where cs = "[]"] by (fastforce simp: descend_def)
  then show "hoare (ready root []) (if \<not> is_real_directory m
      then areturn (Inl (cpu_target_error ''CPU sysfs root has an unexpected type''))
      else checked_walk (recording_host h) True root cs)
      (outcome (cpu_log root) (\<lambda>p log. p = descend root cs \<and> ready root cs log))"
    by (auto intro: hoare_return)
qed

lemma policy_dir_ready:
  "hoare (cpu_log root) (policy_dir (recording_host h) root policy) (outcome (cpu_log root)
     (\<lambda>p log. p = descend root (policy_components policy) \<and> ready root (policy_components policy) log))"
  using checked_path_ready [of root h "policy_components policy"]
  by (simp add: policy_dir_def policy_components_def cpufreq_components_def)

lemma cpufreq_dir_ready:
  "hoare (cpu_log root) (cpufreq_dir (recording_host h) root) (outcome (cpu_log root)
     (\<lambda>p log. p = descend root cpufreq_components \<and> ready root cpufreq_components log))"
  unfolding hoare_def cpufreq_dir_def
  using cpufreq_walk_ready [where cs = "[]" and rest = cpufreq_components] ready_nil
  by (fastforce simp: descend_def cpufreq_components_def)

lemma validate_final_inspected:
  "hoare (ready root cs) (validate_final_file (recording_host h) p)
     (outcome (cpu_log root) (\<lambda>_ log. ready root cs log \<and> just_inspected p log))"
  unfolding validate_final_file_def
proof (rule hoare_bind)
  show "hoare (ready root cs) (io_target (h_symlink_metadata (recording_host h) p) ''CPU kernel node disappeared'')
      (outcome (cpu_log root) (\<lambda>m log. ready root cs log \<and> (\<exists>rest. log = Inspected p (Inr m) # rest)))"
    by (rule hoare_inspect) auto
  show "hoare (\<lambda>log. ready root cs log \<and> (\<exists>rest. log = Inspected p (Inr m) # rest))
      (if \<not> is_real_file m then areturn (Inl (cpu_target_error ''CPU kernel node is not a regular file''))
       else areturn (Inr ()))
      (outcome (cpu_log root) (\<lambda>_ log. ready root cs log \<and> just_inspected p log))" for m
    by (auto intro!: hoare_return simp: just_inspected_def is_real_file_def dest: ready_log)
qed

lemma policy_file_ready:
  "hoare (cpu_log root) (policy_file (recording_host h) root policy f) (outcome (cpu_log root)
     (\<lambda>p log. (f \<in> set policy_files \<and> p = path_join (descend root (policy_components policy)) f)
       \<and> ready root (policy_components policy) log))"
  unfolding policy_file_def
proof (cases "f \<in> set policy_files")
  case True
  let ?cs = "policy_components policy"
  have "hoare (cpu_log root) (abind (policy_dir (recording_host h) root policy) (\<lambda>directory.
      abind (validate_final_file (recording_host h) (path_join directory f)) (\<lambda>_.
      areturn (Inr (path_join directory f)))))
    (outcome (cpu_log root) (\<lambda>p log. (f \<in> set policy_files \<and> p = path_join (descend root ?cs) f) \<and> ready root ?cs log))"
  proof (rule hoare_bind [OF policy_dir_ready], rule hoare_pure, rule hoare_bind)
    fix directory assume d: "directory = descend root ?cs"
    show "hoare (ready root ?cs) (validate_final_file (recording_host h) (path_join directory f))
        (outcome (cpu_log root) (\<lambda>_. ready root ?cs))"
      by (rule hoare_weaken [OF validate_final_inspected]) auto
    show "hoare (ready root ?cs) (areturn (Inr (path_join directory f)))
        (outcome (cpu_log root) (\<lambda>p log. (f \<in> set policy_files \<and> p = path_join (descend root ?cs) f) \<and> ready root ?cs log))"
      using True d by (intro hoare_return) auto
  qed
  with True show "hoare (cpu_log root) (if f \<notin> set policy_files
      then areturn (Inl (cpu_target_error ''CPU policy file is not allowlisted''))
      else abind (policy_dir (recording_host h) root policy) (\<lambda>directory.
      abind (validate_final_file (recording_host h) (path_join directory f)) (\<lambda>_.
      areturn (Inr (path_join directory f)))))
    (outcome (cpu_log root) (\<lambda>p log. (f \<in> set policy_files \<and> p = path_join (descend root ?cs) f) \<and> ready root ?cs log))"
    by simp
qed (auto intro: hoare_return)

text \<open>Opening to read, and to write: at a place of the interface whose directories are checked.\<close>

lemma hoare_asked:
  assumes "\<And>log. P log \<Longrightarrow> E (Asked # log)" "\<And>x log. P log \<Longrightarrow> Q x (Asked # log)"
  shows "hoare P (io_target (noting f (\<lambda>_. Asked)) message) (outcome E Q)"
  unfolding io_target_def using assms by (intro hoare_call) auto

lemma cpu_read_log:
  assumes "cpu_place cs f"
  shows "hoare (ready root cs) (cpu_read_file (recording_host h) (path_join (descend root cs) f))
    (outcome (cpu_log root) (\<lambda>_. cpu_log root))"
proof -
  let ?p = "path_join (descend root cs) f"
  have opened: "cpu_log root (Opened (read_options (open_cloexec_flags OR open_nofollow_flags)) ?p r # log)"
    if "ready root cs log" for r log
    using that assms by (auto simp: cpu_rule_def ready_def read_options_def)
  show ?thesis unfolding cpu_read_file_def
  proof (rule hoare_bind)
    show "hoare (ready root cs) (io_target (h_open (recording_host h)
        (read_options (open_cloexec_flags OR open_nofollow_flags)) ?p) ''CPU kernel interface cannot be opened'')
        (outcome (cpu_log root) (\<lambda>_. cpu_log root))"
      unfolding io_target_def recording_host_simps by (rule hoare_call) (auto intro: opened simp del: obeys.simps)
  next
    fix fl
    show "hoare (cpu_log root) (abind (io_target (h_metadata (recording_host h) fl) ''CPU kernel interface cannot be inspected'') (\<lambda>m.
       if \<not> is_real_file m then areturn (Inl (cpu_target_error ''CPU kernel interface is not a regular node''))
       else abind (io_target (h_read (recording_host h) fl (Some (MAX_CPU_READ_BYTES + 1)))
         ''CPU kernel interface cannot be read'') (\<lambda>bytes.
       if length bytes > MAX_CPU_READ_BYTES
       then areturn (Inl (cpu_target_error ''CPU kernel interface value is oversized''))
       else areturn (Inr bytes)))) (outcome (cpu_log root) (\<lambda>_. cpu_log root))"
      by (rule hoare_bind [where R = "\<lambda>_. cpu_log root"] hoare_return hoare_asked | simp | intro conjI impI)+
  qed
qed

lemma cpu_write_log:
  assumes "cpu_place cs f" "cpu_control_file f"
  shows "hoare (ready root cs) (cpu_write_file (recording_host h) (path_join (descend root cs) f) text)
    (outcome (cpu_log root) (\<lambda>_. cpu_log root))"
proof (cases "text = [] \<or> length text > 128 \<or> nul \<in> set text \<or> CHR 0x0A \<in> set text")
  case True
  then show ?thesis by (auto simp: cpu_write_file_def intro: hoare_return)
next
  case False
  let ?p = "path_join (descend root cs) f"
  let ?opts = "write_options (open_cloexec_flags OR open_nofollow_flags)"
  have opened: "cpu_log root (Opened ?opts ?p r # log)"
    if "ready root cs log" "just_inspected ?p log" for r log
    using that assms by (auto simp: cpu_rule_def ready_def write_options_def)
  have "hoare (ready root cs) (abind (validate_final_file (recording_host h) ?p) (\<lambda>_.
      abind (io_target (h_open (recording_host h) ?opts ?p) ''CPU kernel interface cannot be opened for writing'') (\<lambda>fl.
      io_call (h_write_all (recording_host h) fl (str_bytes text))
        (\<lambda>_. SysboostError_new ApplyError ''CPU kernel write failed'')))) (outcome (cpu_log root) (\<lambda>_. cpu_log root))"
  proof (rule hoare_bind [OF validate_final_inspected], rule hoare_bind)
    show "hoare (\<lambda>log. ready root cs log \<and> just_inspected ?p log)
        (io_target (h_open (recording_host h) ?opts ?p) ''CPU kernel interface cannot be opened for writing'')
        (outcome (cpu_log root) (\<lambda>fl log. cpu_log root log \<and> (\<exists>rest. log = Opened ?opts ?p (Inr fl) # rest)))"
      unfolding io_target_def recording_host_simps by (rule hoare_call) (auto intro: opened simp del: obeys.simps)
    show "hoare (\<lambda>log. cpu_log root log \<and> (\<exists>rest. log = Opened ?opts ?p (Inr fl) # rest))
        (io_call (h_write_all (recording_host h) fl (str_bytes text))
          (\<lambda>_. SysboostError_new ApplyError ''CPU kernel write failed''))
        (outcome (cpu_log root) (\<lambda>_. cpu_log root))" for fl
      unfolding recording_host_simps using False
      by (intro hoare_call) (auto simp: cpu_rule_def write_options_def)
  qed
  with False show ?thesis by (simp add: cpu_write_file_def)
qed

section \<open>The port and the backend\<close>

definition confined :: "path \<Rightarrow> ('w logged_host, 'a) action \<Rightarrow> bool" where
  "confined root m \<longleftrightarrow> hoare (cpu_log root) m (outcome (cpu_log root) (\<lambda>_. cpu_log root))"

definition control_place :: "path \<Rightarrow> path \<Rightarrow> host_event list \<Rightarrow> bool" where
  "control_place root p log \<longleftrightarrow> (\<exists>cs f. (cpu_place cs f \<and> cpu_control_file f \<and> p = path_join (descend root cs) f)
     \<and> ready root cs log)"

lemma confined_bind: "confined root m \<Longrightarrow> (\<And>x. confined root (k x)) \<Longrightarrow> confined root (abind m k)"
  unfolding confined_def by (rule hoare_bind)

lemma confined_return: "confined root (areturn r)"
  unfolding confined_def by (rule hoare_return) (auto simp: outcome_def split: sum.split)

lemma confined_if: "confined root m \<Longrightarrow> confined root m' \<Longrightarrow> confined root (if b then m else m')"
  by simp

lemma confined_asked: "confined root (io_target (noting f (\<lambda>_. Asked)) message)"
  unfolding confined_def by (rule hoare_asked) auto

lemma confined_inspect: "confined root (io_target (h_symlink_metadata (recording_host h) p) message)"
  unfolding confined_def by (rule hoare_inspect) auto

lemmas confined_intros = confined_bind confined_return confined_if confined_asked confined_inspect

lemma confined_weaken: "hoare (cpu_log root) m (outcome (cpu_log root) Q) \<Longrightarrow> (\<And>x log. Q x log \<Longrightarrow> cpu_log root log)
    \<Longrightarrow> confined root m"
  unfolding confined_def by (rule hoare_weaken)

lemma policy_place: "f \<in> set policy_files \<Longrightarrow> cpu_place (policy_components policy) f"
  by (auto simp: cpu_place_def)

lemma confined_read_policy_file: "confined root (read_policy_file (recording_host h) root policy f)"
  unfolding confined_def read_policy_file_def
  by (rule hoare_bind [OF policy_file_ready], rule hoare_pure)
    (auto intro: cpu_read_log policy_place)

lemma confined_policy_dir: "confined root (policy_dir (recording_host h) root policy)"
  by (rule confined_weaken [OF policy_dir_ready]) auto

lemma confined_policy_file: "confined root (policy_file (recording_host h) root policy f)"
  by (rule confined_weaken [OF policy_file_ready]) auto

lemma confined_policy_write:
  assumes "cpu_control_file f"
  shows "confined root (abind (policy_file (recording_host h) root policy f) (\<lambda>p. cpu_write_file (recording_host h) p text))"
  unfolding confined_def
  by (rule hoare_bind [OF policy_file_ready], rule hoare_pure)
    (auto intro: cpu_write_log policy_place assms)

text \<open>The boost search ends at one of its candidates.\<close>

lemma find_boost_ready:
  "ready root cs log \<Longrightarrow> find_boost (recording_host h) (descend root cs) candidates (w, log) = (r, w', log')
   \<Longrightarrow> outcome (cpu_log root) (\<lambda>(p, _) log. (\<exists>f \<in> fst ` set candidates. p = path_join (descend root cs) f)
     \<and> ready root cs log) r log'"
proof (induction candidates arbitrary: w log)
  case (Cons c candidates)
  obtain f i where c: "c = (f, i)" by (cases c)
  obtain q w1 where q: "h_symlink_metadata h (path_join (descend root cs) f) w = (q, w1)" by fastforce
  show ?case
  proof (cases "q = Inl NotFound")
    case True
    with Cons.prems q c have "find_boost (recording_host h) (descend root cs) candidates
        (w1, Inspected (path_join (descend root cs) f) q # log) = (r, w', log')"
      by (simp add: noting_def)
    from Cons.IH [OF _ this] Cons.prems(1) show ?thesis by (auto simp: outcome_def split: sum.splits)
  next
    case False
    show ?thesis
    proof (cases q)
      case (Inl k)
      with False Cons.prems q c show ?thesis by (cases k) (auto simp: noting_def)
    next
      case (Inr m)
      with Cons.prems q c show ?thesis by (auto simp: noting_def split: if_splits)
    qed
  qed
qed auto

lemma node_path_ready:
  assumes "\<And>policy. node \<noteq> Frequency policy"
  shows "hoare (cpu_log root) (node_path (recording_host h) root node)
    (outcome (cpu_log root) (\<lambda>(p, _). control_place root p))"
proof -
  have policy: "hoare (cpu_log root) (abind (policy_file (recording_host h) root policy f) (\<lambda>p. areturn (Inr (p, None))))
      (outcome (cpu_log root) (\<lambda>(p, _ :: cpu_boost_interface option). control_place root p))"
    if "cpu_control_file f" for policy f
    by (rule hoare_bind [OF policy_file_ready], rule hoare_pure, rule hoare_return)
      (auto simp: control_place_def intro: policy_place that)
  have boost: "hoare (cpu_log root) (abind (cpufreq_dir (recording_host h) root) (\<lambda>directory.
        find_boost (recording_host h) directory (boost_candidates i)))
      (outcome (cpu_log root) (\<lambda>(p, _). control_place root p))" for i
  proof (rule hoare_bind [OF cpufreq_dir_ready], rule hoare_pure)
    fix d assume d: "d = descend root cpufreq_components"
    have names: "f \<in> fst ` set (boost_candidates i) \<Longrightarrow> f = ''boost'' \<or> f = ''no_turbo''" for f
      by (auto simp: boost_candidates_def split: option.splits cpu_boost_interface.splits)
    have place: "cpu_place cpufreq_components f \<and> cpu_control_file f" if "f = ''boost'' \<or> f = ''no_turbo''" for f
      using that by (auto simp: cpu_place_def cpu_control_file_def)
    show "hoare (ready root cpufreq_components) (find_boost (recording_host h) d (boost_candidates i))
        (outcome (cpu_log root) (\<lambda>(p, _). control_place root p))"
      unfolding hoare_def d
    proof (intro allI impI)
      fix w log r w' log'
      assume "ready root cpufreq_components log"
        "find_boost (recording_host h) (descend root cpufreq_components) (boost_candidates i) (w, log) = (r, w', log')"
      from find_boost_ready [OF this] have found: "outcome (cpu_log root) (\<lambda>(p, _) log.
        (\<exists>f \<in> fst ` set (boost_candidates i). p = path_join (descend root cpufreq_components) f)
         \<and> ready root cpufreq_components log) r log'" .
      show "outcome (cpu_log root) (\<lambda>(p, _). control_place root p) r log'"
      proof (cases r)
        case (Inr x)
        obtain p j where x: "x = (p, j)" by fastforce
        from found Inr x obtain f where f: "f \<in> fst ` set (boost_candidates i)"
          "p = path_join (descend root cpufreq_components) f" "ready root cpufreq_components log'" by auto
        with place [OF names [OF f(1)]] Inr x show ?thesis by (auto simp: control_place_def)
      qed (use found in auto)
    qed
  qed
  have profile: "hoare (cpu_log root) (abind (checked_component_path (recording_host h) root [''firmware'', ''acpi''] True)
        (\<lambda>p. areturn (Inr (path_join p ''platform_profile'', None))))
      (outcome (cpu_log root) (\<lambda>(p, _ :: cpu_boost_interface option). control_place root p))"
  proof (rule hoare_bind [OF checked_path_ready], rule hoare_pure, rule hoare_return)
    fix p log assume p: "p = descend root [''firmware'', ''acpi'']" and log: "ready root [''firmware'', ''acpi''] log"
    have "cpu_place [''firmware'', ''acpi''] ''platform_profile''" "cpu_control_file ''platform_profile''"
      by (simp_all add: cpu_place_def cpu_control_file_def)
    with p log show "outcome (cpu_log root) (\<lambda>(p, _ :: cpu_boost_interface option). control_place root p)
        (Inr (path_join p ''platform_profile'', None)) log"
      unfolding control_place_def outcome_simps prod.case by blast
  qed
  show ?thesis
  proof (cases node)
    case (Governor p)
    then show ?thesis using policy [of "''scaling_governor''" p] by (simp add: node_path_def cpu_control_file_def)
  next
    case (EnergyPreference p)
    then show ?thesis using policy [of "''energy_performance_preference''" p]
      by (simp add: node_path_def cpu_control_file_def)
  next
    case (Boost i)
    then show ?thesis using boost [of i] by (simp add: node_path_def)
  next
    case PlatformProfile
    then show ?thesis using profile by (simp add: node_path_def)
  qed (use assms in auto)
qed

lemma control_read_log:
  "hoare (control_place root p) (cpu_read_file (recording_host h) p) (outcome (cpu_log root) (\<lambda>_. cpu_log root))"
  unfolding control_place_def by (intro hoare_ex hoare_pure) (auto intro: cpu_read_log)

lemma control_write_log:
  "hoare (control_place root p) (cpu_write_file (recording_host h) p text) (outcome (cpu_log root) (\<lambda>_. cpu_log root))"
  unfolding control_place_def by (intro hoare_ex hoare_pure) (auto intro: cpu_write_log)

lemma confined_identity:
  "confined root (node_identity (recording_host h) p)" "confined root (directory_identity (recording_host h) p)"
  unfolding node_identity_def directory_identity_def by (intro confined_intros)+

lemma confined_raw_node: "confined root (raw_node (recording_host h) root node)"
proof (cases "\<exists>policy. node = Frequency policy")
  case True
  then show ?thesis
    by (auto simp: raw_node_def node_path_def
      intro!: confined_intros confined_policy_dir confined_read_policy_file confined_identity split: prod.split)
next
  case False
  have "hoare (cpu_log root) (abind (node_path (recording_host h) root node) (\<lambda>(p, interface).
      abind (cpu_read_file (recording_host h) p) (\<lambda>raw.
      abind (node_identity (recording_host h) p) (\<lambda>identity.
      areturn (Inr (raw, identity, interface)))))) (outcome (cpu_log root) (\<lambda>_. cpu_log root))"
  proof (rule hoare_bind [OF node_path_ready])
    fix x :: "path \<times> cpu_boost_interface option"
    obtain p i where x: "x = (p, i)" by fastforce
    have "hoare (control_place root p) (abind (cpu_read_file (recording_host h) p) (\<lambda>raw.
        abind (node_identity (recording_host h) p) (\<lambda>identity. areturn (Inr (raw, identity, i)))))
        (outcome (cpu_log root) (\<lambda>_. cpu_log root))"
      by (rule hoare_bind [OF control_read_log], fold confined_def) (intro confined_intros confined_identity)
    with x show "hoare (case x of (p, _) \<Rightarrow> control_place root p) (case x of (p, interface) \<Rightarrow>
        abind (cpu_read_file (recording_host h) p) (\<lambda>raw.
        abind (node_identity (recording_host h) p) (\<lambda>identity.
        areturn (Inr (raw, identity, interface))))) (outcome (cpu_log root) (\<lambda>_. cpu_log root))" by simp
  qed (use False in auto)
  with False show ?thesis
    by (cases node) (simp_all add: raw_node_def confined_def)
qed

lemma confined_read: "confined root (cpu_sysfs_read (recording_host h) root node)"
  unfolding cpu_sysfs_read_def parse_node_def
  by (auto intro!: confined_intros confined_raw_node split: prod.split)

lemma confined_choices: "confined root (cpu_sysfs_choices (recording_host h) root node)"
proof -
  have profile: "confined root (abind (checked_component_path (recording_host h) root [''firmware'', ''acpi''] True)
      (\<lambda>d. abind (validate_final_file (recording_host h) (path_join d ''platform_profile_choices''))
        (\<lambda>_. abind (cpu_read_file (recording_host h) (path_join d ''platform_profile_choices'')) k)))"
    if "\<And>x. confined root (k x)" for k :: "u8 list \<Rightarrow> ('a logged_host, string list) action"
    unfolding confined_def
  proof (rule hoare_bind [OF checked_path_ready], rule hoare_pure, rule hoare_bind)
    fix d assume d: "d = descend root [''firmware'', ''acpi'']"
    let ?p = "path_join d ''platform_profile_choices''"
    show "hoare (ready root [''firmware'', ''acpi'']) (validate_final_file (recording_host h) ?p)
        (outcome (cpu_log root) (\<lambda>_. ready root [''firmware'', ''acpi'']))"
      by (rule hoare_weaken [OF validate_final_inspected]) auto
    show "hoare (ready root [''firmware'', ''acpi'']) (abind (cpu_read_file (recording_host h) ?p) k)
        (outcome (cpu_log root) (\<lambda>_. cpu_log root))"
      using that unfolding d confined_def
      by (intro hoare_bind [OF cpu_read_log]) (auto simp: cpu_place_def)
  qed
  show ?thesis unfolding cpu_sysfs_choices_def choices_text_def Let_def
    by (cases node) (auto intro!: confined_intros confined_read_policy_file profile)
qed

lemma confined_optional_frequency:
  assumes "f \<in> set policy_files"
  shows "confined root (read_optional_frequency (recording_host h) root policy f)"
  unfolding confined_def read_optional_frequency_def
proof (rule hoare_bind [OF policy_dir_ready], rule hoare_pure)
  let ?cs = "policy_components policy"
  let ?read = "\<lambda>d. abind (cpu_read_file (recording_host h) (path_join d f))
      (\<lambda>raw. areturn (rbind (parse_frequency raw) (\<lambda>f. Inr (Some f))))"
  fix d assume d: "d = descend root ?cs"
  have tail: "hoare (ready root ?cs) (?read d) (outcome (cpu_log root) (\<lambda>_. cpu_log root))"
    unfolding d by (rule hoare_bind [OF cpu_read_log [OF policy_place [OF assms]]], fold confined_def) (rule confined_return)
  show "hoare (ready root ?cs) (\<lambda>w. case h_symlink_metadata (recording_host h) (path_join d f) w of
       (Inr m, w) \<Rightarrow>
         (if md_type m = Symlink then (Inl (cpu_target_error ''CPU hardware-bound node is a symlink''), w)
          else if \<not> is_real_file m
          then (Inl (cpu_target_error ''CPU hardware-bound node has an unexpected type''), w)
          else ?read d w)
     | (Inl NotFound, w) \<Rightarrow> (Inr None, w)
     | (Inl _, w) \<Rightarrow> (Inl (cpu_target_error ''CPU hardware-bound node cannot be inspected''), w))
     (outcome (cpu_log root) (\<lambda>_. cpu_log root))"
    unfolding hoare_def
  proof (intro allI impI)
    fix w log r w' log'
    assume P: "ready root ?cs log" and run: "(case h_symlink_metadata (recording_host h) (path_join d f) (w, log) of
       (Inr m, w) \<Rightarrow>
         (if md_type m = Symlink then (Inl (cpu_target_error ''CPU hardware-bound node is a symlink''), w)
          else if \<not> is_real_file m
          then (Inl (cpu_target_error ''CPU hardware-bound node has an unexpected type''), w)
          else ?read d w)
     | (Inl NotFound, w) \<Rightarrow> (Inr None, w)
     | (Inl _, w) \<Rightarrow> (Inl (cpu_target_error ''CPU hardware-bound node cannot be inspected''), w)) = (r, w', log')"
    obtain q w1 where q: "h_symlink_metadata h (path_join d f) w = (q, w1)" by fastforce
    show "outcome (cpu_log root) (\<lambda>_. cpu_log root) r log'"
    proof (cases q)
      case (Inl k)
      with run q P show ?thesis by (cases k) (auto simp: noting_def)
    next
      case (Inr m)
      show ?thesis
      proof (cases "is_real_file m")
        case True
        with run q Inr have "?read d (w1, Inspected (path_join d f) (Inr m) # log) = (r, w', log')"
          by (simp add: noting_def is_real_file_def)
        from hoareD [OF tail _ this] P show ?thesis by simp
      next
        case False
        with run q Inr P show ?thesis by (auto simp: noting_def split: if_splits)
      qed
    qed
  qed
qed

lemma confined_validate: "confined root (cpu_sysfs_validate_desired (recording_host h) root node desired)"
  unfolding cpu_sysfs_validate_desired_def
  by (auto intro!: confined_intros confined_choices confined_read confined_optional_frequency
    simp: policy_files_def split: cpu_node.split typed_value.split prod.split)

lemma confined_write_bound: "cpu_control_file f \<Longrightarrow> confined root (write_bound (recording_host h) root policy f bound current)"
  unfolding write_bound_def by (auto intro!: confined_intros confined_policy_write split: option.split)

lemma confined_node_write:
  assumes "\<And>policy. node \<noteq> Frequency policy"
  shows "confined root (abind (node_path (recording_host h) root node) (\<lambda>(p, _). cpu_write_file (recording_host h) p text))"
  unfolding confined_def
proof (rule hoare_bind [OF node_path_ready [OF assms]])
  fix x :: "path \<times> cpu_boost_interface option"
  show "hoare (case x of (p, _) \<Rightarrow> control_place root p)
      (case x of (p, _) \<Rightarrow> cpu_write_file (recording_host h) p text) (outcome (cpu_log root) (\<lambda>_. cpu_log root))"
    by (cases x) (simp add: control_write_log)
qed

lemma confined_write_frequency: "confined root (write_frequency (recording_host h) root policy desired)"
proof (cases desired)
  case (CpuFrequency lo hi)
  have bounds: "cpu_control_file ''scaling_min_freq''" "cpu_control_file ''scaling_max_freq''"
    by (simp_all add: cpu_control_file_def)
  show ?thesis
    unfolding CpuFrequency write_frequency_def typed_value.case Let_def split_beta
    by (intro confined_intros confined_read confined_write_bound bounds)
qed (simp_all add: write_frequency_def confined_return)

lemma confined_write: "confined root (cpu_sysfs_write (recording_host h) root node desired)"
proof (cases node)
  case (Governor p)
  then show ?thesis
    by (cases desired) (simp_all add: cpu_sysfs_write_def confined_return confined_policy_write cpu_control_file_def)
next
  case (EnergyPreference p)
  then show ?thesis
    by (cases desired) (simp_all add: cpu_sysfs_write_def confined_return confined_policy_write cpu_control_file_def)
next
  case (Frequency p)
  then show ?thesis by (simp add: cpu_sysfs_write_def confined_write_frequency)
next
  case (Boost i)
  then show ?thesis
    by (cases i; cases desired) (simp_all add: cpu_sysfs_write_def confined_return confined_node_write)
next
  case PlatformProfile
  then show ?thesis
    by (cases desired) (simp_all add: cpu_sysfs_write_def confined_return confined_node_write)
qed

lemma confined_list: "confined root (cpu_sysfs_list_policies (recording_host h) root)"
proof -
  have entries: "cpu_log root log \<Longrightarrow> list_entries (recording_host h) d es ps (w, log) = (r, w', log')
      \<Longrightarrow> cpu_log root log'" for d es ps w log r w' log'
  proof (induction es arbitrary: ps w log)
    case (Cons e es)
    show ?case
    proof (cases e)
      case (Inr entry)
      from Cons.prems Cons.IH [of log] Cons.IH [of "Inspected p q # log" for p q] Inr show ?thesis
        by (auto simp: io_target_def io_call_def noting_def Let_def elim!: map_err.elims
          split: option.splits prod.splits sum.splits if_splits)
    qed (use Cons.prems in auto)
  qed auto
  have "confined root (list_entries (recording_host h) d es ps)" for d es ps
    unfolding confined_def hoare_def outcome_def using entries by (fastforce split: sum.splits)
  then show ?thesis unfolding cpu_sysfs_list_policies_def
    by (auto intro!: confined_intros confined_weaken [OF cpufreq_dir_ready])
qed

lemma confined_keeps: "confined root m \<Longrightarrow> keeps (\<lambda>(w, log). cpu_log root log) m"
  unfolding confined_def by (rule keeps_hoare)

interpretation sysfs: cpu_invariant "CpuSysfs_io (recording_host h) root" "\<lambda>(w, log). cpu_log root log"
  by unfold_locales (simp_all add: CpuSysfs_io_def confined_keeps confined_list confined_read confined_choices
    confined_validate confined_write)

text \<open>
  C29: the production CPU backend touches only its own files. Whatever the host answers, and whatever
  detect, snapshot, apply, verify, restore, admission and target calls are made in whatever order:
  every file it opens lies in the closed list of places below its root, is opened without following a
  link, and only after each directory on the way was found, since the last open, to be a real
  directory; it is opened for writing only when it is one of the seven control files and the call just
  before found it to be a regular file; a write follows the open of its own file directly, and holds
  one to 128 bytes without a line end or a zero byte. It creates, renames and removes nothing.
\<close>

theorem cpu_host_confined:
  "obeys (cpu_rule root) (snd (fold (backend_step (CpuBackend (CpuSysfs_io (recording_host h) root))) calls (w, [])))"
  using backend_run_keeps [OF sysfs.all_keeps [of root h], of "(w, [])" calls] by (simp add: case_prod_beta)

section \<open>The order of frequency writes\<close>

text \<open>The writes a change of the bounds needs, in their order, and what each makes of the range.\<close>

definition needed :: "string \<Rightarrow> frequency_khz option \<Rightarrow> frequency_khz \<Rightarrow> (string \<times> frequency_khz) list" where
  "needed f bound current = (case bound of Some v \<Rightarrow> if v = current then [] else [(f, v)] | None \<Rightarrow> [])"

definition frequency_steps ::
    "frequency_khz option \<Rightarrow> frequency_khz option \<Rightarrow> frequency_khz \<times> frequency_khz \<Rightarrow> (string \<times> frequency_khz) list" where
  "frequency_steps min_khz max_khz = (\<lambda>(current_min, current_max).
     let lower = needed ''scaling_min_freq'' min_khz current_min;
         upper = needed ''scaling_max_freq'' max_khz current_max
     in if khz (unwrap_or max_khz current_max) < khz current_min then lower @ upper else upper @ lower)"

fun range_after :: "(string \<times> frequency_khz) list \<Rightarrow> frequency_khz \<times> frequency_khz \<Rightarrow> frequency_khz \<times> frequency_khz" where
  "range_after [] bounds = bounds"
| "range_after ((f, v) # steps) (lo, hi) =
     range_after steps (if f = ''scaling_min_freq'' then (v, hi) else (lo, v))"

text \<open>Writing them one after the other, stopping at the first failure.\<close>

fun run_steps :: "'w host \<Rightarrow> path \<Rightarrow> cpu_policy_id \<Rightarrow> (string \<times> frequency_khz) list \<Rightarrow> ('w, unit) action" where
  "run_steps h root policy [] = areturn (Inr ())"
| "run_steps h root policy ((f, v) # steps) =
     abind (policy_file h root policy f) (\<lambda>p.
     abind (cpu_write_file h p (dec_digits (unat (khz v)))) (\<lambda>_. run_steps h root policy steps))"

lemma abind_assoc: "abind (abind m f) g = abind m (\<lambda>x. abind (f x) g)"
  by (auto simp: abind_def fun_eq_iff split: prod.splits sum.splits)

lemma abind_unit: "abind m (\<lambda>_. areturn (Inr ())) = (m :: ('w, unit) action)"
  by (auto simp: abind_def areturn_def fun_eq_iff split: prod.splits sum.splits)

lemma write_bound_steps:
  "abind (write_bound h root policy f bound current) (\<lambda>_. run_steps h root policy steps)
     = run_steps h root policy (needed f bound current @ steps)"
  by (simp add: write_bound_def needed_def abind_assoc split: option.split)

lemma two_bounds_steps:
  "abind (write_bound h root policy f bound current) (\<lambda>_. write_bound h root policy f' bound' current')
     = run_steps h root policy (needed f bound current @ needed f' bound' current')"
  using write_bound_steps [of h root policy f' bound' current' "[]"]
  by (simp add: write_bound_steps [symmetric] abind_unit)

definition desired_range ::
    "frequency_khz option \<Rightarrow> frequency_khz option \<Rightarrow> frequency_khz \<times> frequency_khz \<Rightarrow> (frequency_khz \<times> frequency_khz) result" where
  "desired_range min_khz max_khz = (\<lambda>(current_min, current_max).
     if inverted min_khz max_khz then Inl (cpu_target_error ''CPU desired minimum exceeds maximum'')
     else if khz (unwrap_or min_khz current_min) > khz (unwrap_or max_khz current_max)
     then Inl (cpu_target_error ''CPU desired frequency range is invalid'')
     else Inr (unwrap_or min_khz current_min, unwrap_or max_khz current_max))"

text \<open>
  C30: a frequency change never shows the kernel an inverted range. On every host, writing a frequency
  value is the same as reading the current range, refusing an inverted wish, and then performing the
  listed writes one after the other up to the first failure; and when the current range is in order,
  the range is in order after every prefix of these writes, the whole list ends at the wished range,
  and no bound is written twice or written back unchanged.
\<close>

theorem frequency_never_inverted:
  "write_frequency h root policy (typed_value.CpuFrequency min_khz max_khz) =
     abind (cpu_sysfs_read h root (Frequency policy)) (\<lambda>current.
     abind (areturn (current_range (cs_typed current))) (\<lambda>bounds.
     abind (areturn (desired_range min_khz max_khz bounds)) (\<lambda>_.
     run_steps h root policy (frequency_steps min_khz max_khz bounds))))
   \<and> (\<forall>lo hi wished n. khz lo \<le> khz hi \<longrightarrow> desired_range min_khz max_khz (lo, hi) = Inr wished \<longrightarrow>
       (let steps = frequency_steps min_khz max_khz (lo, hi); (a, b) = range_after (take n steps) (lo, hi) in
        khz a \<le> khz b \<and> range_after steps (lo, hi) = wished \<and> distinct (map fst steps)
        \<and> (\<forall>(f, v) \<in> set steps. v \<noteq> (if f = ''scaling_min_freq'' then lo else hi))))"
proof (intro conjI allI impI)
  show "write_frequency h root policy (typed_value.CpuFrequency min_khz max_khz) =
     abind (cpu_sysfs_read h root (Frequency policy)) (\<lambda>current.
     abind (areturn (current_range (cs_typed current))) (\<lambda>bounds.
     abind (areturn (desired_range min_khz max_khz bounds)) (\<lambda>_.
     run_steps h root policy (frequency_steps min_khz max_khz bounds))))"
    by (simp add: write_frequency_def desired_range_def frequency_steps_def two_bounds_steps Let_def split_beta
      cong: if_cong) (simp add: if_distrib [of areturn] if_distribR abind_def fun_eq_iff areturn_def split: prod.split sum.split)
next
  fix lo hi wished n
  assume "khz lo \<le> khz hi" and "desired_range min_khz max_khz (lo, hi) = Inr wished"
  then show "let steps = frequency_steps min_khz max_khz (lo, hi); (a, b) = range_after (take n steps) (lo, hi) in
        khz a \<le> khz b \<and> range_after steps (lo, hi) = wished \<and> distinct (map fst steps)
        \<and> (\<forall>(f, v) \<in> set steps. v \<noteq> (if f = ''scaling_min_freq'' then lo else hi))"
    by (cases n; cases "n - 1"; cases min_khz; cases max_khz)
      (auto simp: desired_range_def frequency_steps_def needed_def Let_def inverted_def split: if_splits)
qed

theorem frequency_never_inverted_witness:
  "let steps = frequency_steps (Some (FrequencyKHz 2500)) (Some (FrequencyKHz 3000)) (FrequencyKHz 1000, FrequencyKHz 2000);
     (a, b) = range_after (take 1 steps) (FrequencyKHz 1000, FrequencyKHz 2000)
   in khz a \<le> khz b \<and> steps = [(''scaling_max_freq'', FrequencyKHz 3000), (''scaling_min_freq'', FrequencyKHz 2500)]"
proof -
  have "khz (FrequencyKHz 1000) \<le> khz (FrequencyKHz 2000)"
    "desired_range (Some (FrequencyKHz 2500)) (Some (FrequencyKHz 3000)) (FrequencyKHz 1000, FrequencyKHz 2000)
      = Inr (FrequencyKHz 2500, FrequencyKHz 3000)" by code_simp+
  from frequency_never_inverted [THEN conjunct2, rule_format, OF this, of 1]
  show ?thesis by (auto simp: Let_def frequency_steps_def needed_def)
qed

end
