(* ===== verification/State_Files.thy ===== *)
theory State_Files
  imports Host_Files Process Codec
begin

text \<open>
  The durable session state of \<open>sysboost-platform/src/state.rs\<close>: the policy of the private state
  directory, the file store that replaces complete records by rename, the exclusive lock file with its
  owner, and the source of session identities, over the calls of a host.
\<close>

section \<open>Policy, errors and identities\<close>

record runtime_state_policy =
  rp_owner_uid :: u32
  rp_owner_gid :: u32
  rp_directory_mode :: u32
  rp_file_mode :: u32

definition root_owned :: runtime_state_policy where
  "root_owned = \<lparr>rp_owner_uid = 0, rp_owner_gid = 0, rp_directory_mode = 0x1C0, rp_file_mode = 0x180\<rparr>"

text \<open>The first line with the prefix that has a word after it, as a number.\<close>

fun find_line :: "string \<Rightarrow> string list \<Rightarrow> string option" where
  "find_line key [] = None"
| "find_line key (line # rest) =
     (case Option.bind (strip_prefix key line)
         (\<lambda>tail. case split_whitespace tail of [] \<Rightarrow> None | word # _ \<Rightarrow> Some word) of
        Some word \<Rightarrow> Some word
      | None \<Rightarrow> find_line key rest)"

definition current_process_credentials :: "'w host \<Rightarrow> 'w \<Rightarrow> (u32 \<times> u32) option \<times> 'w" where
  "current_process_credentials h w =
     (case h_read_to_string h ''/proc/self/status'' w of
        (Inl _, w) \<Rightarrow> (None, w)
      | (Inr status, w) \<Rightarrow>
          (Option.bind (Option.bind (find_line ''Uid:'' (lines status)) (parse_uint 32)) (\<lambda>uid.
           Option.bind (Option.bind (find_line ''Gid:'' (lines status)) (parse_uint 32)) (\<lambda>gid.
           Some (word_of_nat uid, word_of_nat gid))), w))"

definition current_process_policy :: "'w host \<Rightarrow> 'w \<Rightarrow> runtime_state_policy \<times> 'w" where
  "current_process_policy h w =
     (case current_process_credentials h w of (credentials, w) \<Rightarrow>
        (let (uid, gid) = (case credentials of None \<Rightarrow> (0, 0) | Some c \<Rightarrow> c)
         in (\<lparr>rp_owner_uid = uid, rp_owner_gid = gid, rp_directory_mode = 0x1C0, rp_file_mode = 0x180\<rparr>, w)))"

text \<open>\<open>io_error\<close>.\<close>

definition state_io_error :: "error_code \<Rightarrow> io_kind \<Rightarrow> sysboost_error" where
  "state_io_error code kind = SysboostError_new code
     (case kind of
        PermissionDenied \<Rightarrow> ''state I/O permission was denied''
      | NotFound \<Rightarrow> ''state I/O target was not found''
      | AlreadyExists \<Rightarrow> ''state I/O target already exists''
      | OtherKind \<Rightarrow> ''state I/O operation failed'')"

definition durably :: "('w, 'a) io \<Rightarrow> ('w, 'a) action" where
  "durably f = io_call f (state_io_error DurabilityError)"

datatype file_identity = FileIdentity (fi_device: u64) (fi_inode: u64)

definition from_metadata :: "metadata \<Rightarrow> file_identity" where
  "from_metadata m = FileIdentity (md_dev m) (md_ino m)"

section \<open>Checks of directories and files\<close>

unbundle bit_operations_syntax

definition private_flags :: u32 where
  "private_flags = open_cloexec_flags OR open_nofollow_flags"

definition validate_directory_metadata :: "metadata \<Rightarrow> runtime_state_policy \<Rightarrow> string \<Rightarrow> unit result" where
  "validate_directory_metadata m policy description =
     (if md_type m \<noteq> Directory
      then Inl (SysboostError_new JournalCorrupt (description @ '' is not a regular directory''))
      else if md_uid m \<noteq> rp_owner_uid policy \<or> md_gid m \<noteq> rp_owner_gid policy
      then Inl (SysboostError_new AuthorizationError (description @ '' owner is not authorized''))
      else if md_mode m AND 0xFFF \<noteq> rp_directory_mode policy
      then Inl (SysboostError_new JournalCorrupt (description @ '' permissions are not private''))
      else Inr ())"

definition validate_regular_metadata :: "metadata \<Rightarrow> runtime_state_policy \<Rightarrow> string \<Rightarrow> unit result" where
  "validate_regular_metadata m policy description =
     (if md_uid m \<noteq> rp_owner_uid policy \<or> md_gid m \<noteq> rp_owner_gid policy
      then Inl (SysboostError_new AuthorizationError (description @ '' owner is not authorized''))
      else if md_mode m AND 0xFFF \<noteq> rp_file_mode policy
      then Inl (SysboostError_new JournalCorrupt (description @ '' permissions are not private''))
      else if md_nlink m \<noteq> 1
      then Inl (SysboostError_new JournalCorrupt (description @ '' has unexpected hard links''))
      else Inr ())"

definition regular_identity :: "metadata \<Rightarrow> runtime_state_policy \<Rightarrow> string \<Rightarrow> file_identity result" where
  "regular_identity m policy description =
     (if md_type m \<noteq> RegularFile
      then Inl (SysboostError_new JournalCorrupt (description @ '' is not a regular file''))
      else rbind (validate_regular_metadata m policy description) (\<lambda>_. Inr (from_metadata m)))"

definition validate_regular_path ::
    "'w host \<Rightarrow> path \<Rightarrow> runtime_state_policy \<Rightarrow> string \<Rightarrow> ('w, file_identity) action" where
  "validate_regular_path h p policy description =
     abind (durably (h_symlink_metadata h p)) (\<lambda>m. areturn (regular_identity m policy description))"

definition validate_open_file ::
    "'w host \<Rightarrow> fd \<Rightarrow> runtime_state_policy \<Rightarrow> string \<Rightarrow> ('w, file_identity) action" where
  "validate_open_file h f policy description =
     abind (durably (h_metadata h f)) (\<lambda>m. areturn (regular_identity m policy description))"

definition validate_entry_metadata ::
    "'w host \<Rightarrow> path \<Rightarrow> file_type \<Rightarrow> runtime_state_policy \<Rightarrow> string \<Rightarrow> ('w, unit) action" where
  "validate_entry_metadata h p entry_type policy description =
     (if entry_type \<noteq> RegularFile
      then areturn (Inl (SysboostError_new JournalCorrupt (description @ '' is not a regular file'')))
      else abind (validate_regular_path h p policy description) (\<lambda>_. areturn (Inr ())))"

text \<open>
  \<open>Path::parent\<close> of a path without \<open>.\<close> components: trailing separators are dropped; the root and the
  empty path have none.
\<close>

definition drop_slashes :: "path \<Rightarrow> path" where
  "drop_slashes p = rev (dropWhile (\<lambda>c. c = CHR ''/'') (rev p))"

definition path_parent :: "path \<Rightarrow> path option" where
  "path_parent p =
     (let p = drop_slashes p in
      if p = [] then None
      else case rfind (CHR ''/'') p of
        None \<Rightarrow> Some []
      | Some i \<Rightarrow> Some (let q = drop_slashes (take i p) in if q = [] then ''/'' else q))"

definition sync_path :: "'w host \<Rightarrow> path \<Rightarrow> ('w, unit) io" where
  "sync_path h p = io_bind (h_open h (read_options 0) p) (h_sync_all h)"

definition create_directory :: "'w host \<Rightarrow> runtime_state_policy \<Rightarrow> path \<Rightarrow> ('w, unit) action" where
  "create_directory h policy p w =
     (case h_create_dir h (rp_directory_mode policy) p w of
        (Inl AlreadyExists, w) \<Rightarrow> (Inr (), w)
      | (Inl e, w) \<Rightarrow> (Inl (state_io_error DurabilityError e), w)
      | (Inr _, w) \<Rightarrow> (Inr (), w))"

definition create_runtime_root :: "'w host \<Rightarrow> path \<Rightarrow> runtime_state_policy \<Rightarrow> ('w, unit) action" where
  "create_runtime_root h p policy =
     abind (areturn (ok_or (SysboostError_new DurabilityError ''runtime state root has no trusted parent'')
       (path_parent p))) (\<lambda>parent.
     abind (durably (h_symlink_metadata h parent)) (\<lambda>m.
     if md_type m \<noteq> Directory
     then areturn (Inl (SysboostError_new JournalCorrupt ''runtime state root parent is not a directory''))
     else abind (create_directory h policy p) (\<lambda>_.
     abind (durably (sync_path h parent)) (\<lambda>_.
     abind (durably (h_symlink_metadata h p)) (\<lambda>m.
     areturn (validate_directory_metadata m policy ''runtime state root''))))))"

definition ensure_runtime_root :: "'w host \<Rightarrow> path \<Rightarrow> runtime_state_policy \<Rightarrow> ('w, unit) action" where
  "ensure_runtime_root h p policy w =
     (case h_symlink_metadata h p w of
        (Inr m, w) \<Rightarrow> (validate_directory_metadata m policy ''runtime state root'', w)
      | (Inl NotFound, w) \<Rightarrow> create_runtime_root h p policy w
      | (Inl e, w) \<Rightarrow> (Inl (state_io_error DurabilityError e), w))"

definition sync_directory :: "'w host \<Rightarrow> path \<Rightarrow> runtime_state_policy \<Rightarrow> ('w, unit) io" where
  "sync_directory h p policy =
     io_bind (h_open h (read_options (private_flags OR open_directory_flags)) p) (\<lambda>f.
     io_bind (\<lambda>w. case h_metadata h f w of (m, w) \<Rightarrow> (replace_err OtherKind m, w)) (\<lambda>m.
     io_bind (io_return (replace_err PermissionDenied
       (validate_directory_metadata m policy ''runtime state root''))) (\<lambda>_.
     h_sync_all h f)))"

definition read_verified_file ::
    "'w host \<Rightarrow> path \<Rightarrow> runtime_state_policy \<Rightarrow> nat \<Rightarrow> ('w, u8 list) action" where
  "read_verified_file h p policy maximum =
     abind (durably (h_open h (read_options private_flags) p)) (\<lambda>f.
     abind (validate_open_file h f policy ''runtime state file'') (\<lambda>_.
     abind (durably (h_read h f (Some (maximum + 1)))) (\<lambda>bytes.
     if length bytes > maximum
     then areturn (Inl (SysboostError_new JournalCorrupt ''runtime state file exceeds its decoder bound''))
     else areturn (Inr bytes))))"

definition remove_file_if_identity :: "'w host \<Rightarrow> path \<Rightarrow> file_identity \<Rightarrow> ('w, bool) io" where
  "remove_file_if_identity h p expected w =
     (case h_symlink_metadata h p w of
        (Inl NotFound, w) \<Rightarrow> (Inr False, w)
      | (Inl e, w) \<Rightarrow> (Inl e, w)
      | (Inr m, w) \<Rightarrow>
          (if md_type m \<noteq> RegularFile \<or> from_metadata m \<noteq> expected then (Inr False, w)
           else io_bind (h_remove_file h p) (\<lambda>_. io_return (Inr True)) w))"

section \<open>The state store\<close>

record file_state_store =
  fs_root :: path
  fs_policy :: runtime_state_policy

definition DEFAULT_STATE_ROOT :: path where "DEFAULT_STATE_ROOT = ''/run/sysboost''"

definition store_production :: file_state_store where
  "store_production = \<lparr>fs_root = DEFAULT_STATE_ROOT, fs_policy = root_owned\<rparr>"

definition store_root :: "'w host \<Rightarrow> file_state_store \<Rightarrow> ('w, unit) action" where
  "store_root h st = ensure_runtime_root h (fs_root st) (fs_policy st)"

definition state_path :: "file_state_store \<Rightarrow> session_id \<Rightarrow> path" where
  "state_path st session_id = path_join (fs_root st) (to_hex session_id @ ''.state'')"

definition temporary_name :: "session_id \<Rightarrow> u32 \<Rightarrow> nat \<Rightarrow> string" where
  "temporary_name session_id n tick =
     ''.'' @ to_hex session_id @ ''.state.tmp.'' @ dec_digits (unat n) @ ''.'' @ dec_digits tick"

definition validate_target_for_write ::
    "'w host \<Rightarrow> path \<Rightarrow> runtime_state_policy \<Rightarrow> bool \<Rightarrow> session_id \<Rightarrow> ('w, unit) action" where
  "validate_target_for_write h target policy replace session_id w =
     (case h_symlink_metadata h target w of
        (Inr _, w) \<Rightarrow>
          (if \<not> replace
           then (Inl (with_session session_id (SysboostError_new InvariantViolation
             ''session ID is already present in the durable state root'')), w)
           else case validate_regular_path h target policy ''session state replacement target'' w of
             (Inl e, w) \<Rightarrow> (Inl (with_session session_id e), w)
           | (Inr _, w) \<Rightarrow> (Inr (), w))
      | (Inl NotFound, w) \<Rightarrow>
          (if replace
           then (Inl (with_session session_id (SysboostError_new DurabilityError
             ''session state replacement target is missing'')), w)
           else (Inr (), w))
      | (Inl e, w) \<Rightarrow> (Inl (with_session session_id (state_io_error DurabilityError e)), w))"

text \<open>The steps of the closure of \<open>write_atomic\<close>: up to the rename, and after it.\<close>

definition fill_and_rename ::
    "'w host \<Rightarrow> file_state_store \<Rightarrow> bool \<Rightarrow> session_id \<Rightarrow> u8 list \<Rightarrow> path \<Rightarrow> fd \<Rightarrow> ('w, unit) io" where
  "fill_and_rename h st replace session_id bytes temporary f =
     io_bind (as_io PermissionDenied (validate_open_file h f (fs_policy st) ''temporary state file'')) (\<lambda>_.
     io_bind (h_write_all h f bytes) (\<lambda>_.
     io_bind (h_sync_all h f) (\<lambda>_.
     io_bind (as_io PermissionDenied (store_root h st)) (\<lambda>_.
     io_bind (as_io PermissionDenied
       (validate_target_for_write h (state_path st session_id) (fs_policy st) replace session_id)) (\<lambda>_.
     h_rename h temporary (state_path st session_id))))))"

definition settle :: "'w host \<Rightarrow> file_state_store \<Rightarrow> session_id \<Rightarrow> ('w, unit) io" where
  "settle h st session_id =
     io_bind (as_io PermissionDenied
       (validate_regular_path h (state_path st session_id) (fs_policy st) ''session state file'')) (\<lambda>_.
     sync_directory h (fs_root st) (fs_policy st))"

text \<open>The temporary file is removed when the closure failed between its creation and the rename.\<close>

definition write_through ::
    "'w host \<Rightarrow> file_state_store \<Rightarrow> bool \<Rightarrow> session_id \<Rightarrow> u8 list \<Rightarrow> path \<Rightarrow> ('w, unit) action" where
  "write_through h st replace session_id bytes temporary w =
     (let failed = \<lambda>e. Inl (with_session session_id (state_io_error DurabilityError e)) in
      case h_open h (create_options (rp_file_mode (fs_policy st)) private_flags) temporary w of
        (Inl e, w) \<Rightarrow> (failed e, w)
      | (Inr f, w) \<Rightarrow>
        (case fill_and_rename h st replace session_id bytes temporary f w of
           (Inl e, w) \<Rightarrow> (case h_remove_file h temporary w of (_, w) \<Rightarrow> (failed e, w))
         | (Inr _, w) \<Rightarrow>
           (case settle h st session_id w of
              (Inl e, w) \<Rightarrow> (failed e, w)
            | (Inr _, w) \<Rightarrow> (Inr (), w))))"

definition write_atomic :: "'w host \<Rightarrow> file_state_store \<Rightarrow> session_record \<Rightarrow> bool \<Rightarrow> ('w, unit) action" where
  "write_atomic h st record replace =
     (let session_id = sr_session_id record in
     abind (store_root h st) (\<lambda>_.
     abind (validate_target_for_write h (state_path st session_id) (fs_policy st) replace session_id) (\<lambda>_.
     abind (areturn (SessionRecord_encode record)) (\<lambda>bytes w.
     case h_clock_nanos h w of (tick, w) \<Rightarrow>
       write_through h st replace session_id bytes
         (path_join (fs_root st) (temporary_name session_id (h_process_id h) tick)) w))))"

definition file_create :: "'w host \<Rightarrow> file_state_store \<Rightarrow> session_record \<Rightarrow> ('w, unit) action" where
  "file_create h st record = write_atomic h st record False"

definition file_replace :: "'w host \<Rightarrow> file_state_store \<Rightarrow> session_record \<Rightarrow> ('w, unit) action" where
  "file_replace h st record = write_atomic h st record True"

definition load_path ::
    "'w host \<Rightarrow> file_state_store \<Rightarrow> path \<Rightarrow> session_id option \<Rightarrow> ('w, session_record) action" where
  "load_path h st p expected =
     abind (read_verified_file h p (fs_policy st) MAX_SESSION_RECORD_BYTES) (\<lambda>bytes.
     abind (areturn (SessionRecord_decode bytes)) (\<lambda>record.
     case expected of
       None \<Rightarrow> areturn (Inr record)
     | Some expected \<Rightarrow>
         (if sr_session_id record \<noteq> expected
          then areturn (Inl (SysboostError_new JournalCorrupt
            ''session state identity does not match its requested ID''))
          else areturn (Inr record))))"

definition file_load :: "'w host \<Rightarrow> file_state_store \<Rightarrow> session_id \<Rightarrow> ('w, session_record) action" where
  "file_load h st session_id =
     abind (store_root h st) (\<lambda>_. load_path h st (state_path st session_id) (Some session_id))"

definition file_remove :: "'w host \<Rightarrow> file_state_store \<Rightarrow> session_id \<Rightarrow> ('w, unit) action" where
  "file_remove h st session_id =
     (let p = state_path st session_id in
     abind (store_root h st) (\<lambda>_.
     abind (\<lambda>w. case h_symlink_metadata h p w of
         (Inl _, w) \<Rightarrow> (Inr (), w)
       | (Inr _, w) \<Rightarrow> abind (validate_regular_path h p (fs_policy st) ''session state file'')
           (\<lambda>_. areturn (Inr ())) w) (\<lambda>_ w.
     case h_remove_file h p w of
       (Inr _, w) \<Rightarrow> durably (sync_directory h (fs_root st) (fs_policy st)) w
     | (Inl NotFound, w) \<Rightarrow> (Inr (), w)
     | (Inl e, w) \<Rightarrow> (Inl (with_session session_id (state_io_error DurabilityError e)), w))))"

section \<open>Recovery listing\<close>

fun find_str :: "string \<Rightarrow> string \<Rightarrow> nat option" where
  "find_str sep [] = (if sep = [] then Some 0 else None)"
| "find_str sep (c # s) = (if starts_with sep (c # s) then Some 0 else map_option Suc (find_str sep s))"

text \<open>\<open>split_once\<close> with a string.\<close>

definition split_once_str :: "string \<Rightarrow> string \<Rightarrow> (string \<times> string) option" where
  "split_once_str sep s = map_option (\<lambda>i. (take i s, drop (i + length sep) s)) (find_str sep s)"

text \<open>\<open>trim_end_matches\<close>: the suffix is removed as often as it occurs.\<close>

function trim_end_matches :: "string \<Rightarrow> string \<Rightarrow> string" where
  "trim_end_matches p s =
     (if p \<noteq> [] \<and> ends_with p s then trim_end_matches p (take (length s - length p) s) else s)"
  by auto
termination
  by (relation "measure (length \<circ> snd)") (auto simp: ends_with_def starts_with_def intro!: diff_less)

declare trim_end_matches.simps [simp del]

definition parses_session :: "string \<Rightarrow> bool" where
  "parses_session s = (case SessionId_from_str s of Inr _ \<Rightarrow> True | Inl _ \<Rightarrow> False)"

definition is_valid_temporary_name :: "string \<Rightarrow> bool" where
  "is_valid_temporary_name name =
     (case strip_prefix ''.'' name of
        None \<Rightarrow> False
      | Some name \<Rightarrow>
        (case split_once_str ''.state.tmp.'' name of
           None \<Rightarrow> False
         | Some (session_hex, tail) \<Rightarrow>
           (case split_once (CHR ''.'') tail of
              None \<Rightarrow> False
            | Some (pid_text, tick) \<Rightarrow> parses_session session_hex
                \<and> (case parse_uint 32 pid_text of None \<Rightarrow> False | Some n \<Rightarrow> n \<noteq> 0)
                \<and> parse_uint 128 tick \<noteq> None)))"

text \<open>What one entry of the state root is: an object to skip after a check, or a state file.\<close>

definition load_entry ::
    "'w host \<Rightarrow> file_state_store \<Rightarrow> dir_entry \<Rightarrow> ('w, session_record option) action" where
  "load_entry h st entry =
     abind (areturn (map_err (state_io_error DurabilityError) (de_type entry))) (\<lambda>entry_type.
     abind (areturn (ok_or (SysboostError_new JournalCorrupt ''runtime state contains a non-text object name'')
       (entry_str entry))) (\<lambda>name.
     let p = path_join (fs_root st) name in
     if name = ''.mutating.lock''
     then abind (validate_entry_metadata h p entry_type (fs_policy st) ''lock file'') (\<lambda>_. areturn (Inr None))
     else if starts_with ''.'' name \<and> find_str ''.state.tmp.'' name \<noteq> None
     then (if \<not> is_valid_temporary_name name
       then areturn (Inl (SysboostError_new JournalCorrupt ''temporary runtime state filename is malformed''))
       else abind (validate_entry_metadata h p entry_type (fs_policy st) ''temporary state file'')
         (\<lambda>_. areturn (Inr None)))
     else if \<not> ends_with ''.state'' name
     then areturn (Inl (SysboostError_new JournalCorrupt
       ''runtime state contains an unexpected filesystem object''))
     else if entry_type \<noteq> RegularFile
     then areturn (Inl (SysboostError_new JournalCorrupt ''session state entry is not a regular file''))
     else abind (areturn (replace_err (SysboostError_new JournalCorrupt
         ''session state filename is not a valid session ID'')
         (SessionId_from_str (trim_end_matches ''.state'' name)))) (\<lambda>session_id.
     abind (load_path h st p (Some session_id)) (\<lambda>record.
     areturn (Inr (if se_state (sr_session record) = session_state.Restored then None else Some record))))))"

fun load_entries ::
    "'w host \<Rightarrow> file_state_store \<Rightarrow> (io_kind + dir_entry) list \<Rightarrow> session_record list
     \<Rightarrow> ('w, session_record list) action" where
  "load_entries h st [] records = areturn (Inr records)"
| "load_entries h st (Inl e # rest) records = areturn (Inl (state_io_error DurabilityError e))"
| "load_entries h st (Inr entry # rest) records =
     abind (load_entry h st entry) (\<lambda>r.
     load_entries h st rest (case r of None \<Rightarrow> records | Some record \<Rightarrow> records @ [record]))"

definition file_load_unfinished :: "'w host \<Rightarrow> file_state_store \<Rightarrow> ('w, session_record list) action" where
  "file_load_unfinished h st =
     abind (store_root h st) (\<lambda>_.
     abind (durably (h_read_dir h (fs_root st))) (\<lambda>entries.
     abind (load_entries h st entries []) (\<lambda>records.
     areturn (Inr (sort_key sr_session_id records)))))"

section \<open>The lock file\<close>

definition encode_lock_owner :: "process_identity \<Rightarrow> u8 list" where
  "encode_lock_owner identity = str_bytes (
     ''version=1'' @ [CHR 0x0A] @ ''pid='' @ dec_digits (unat (ps_pid identity)) @ [CHR 0x0A]
     @ ''start='' @ dec_digits (unat (ps_generation identity)) @ [CHR 0x0A]
     @ ''boot='' @ encode_hex (ps_boot_id identity) @ [CHR 0x0A])"

definition lock_corrupt :: "string \<Rightarrow> sysboost_error" where
  "lock_corrupt = SysboostError_new JournalCorrupt"

definition parse_lock_field :: "string \<Rightarrow> string \<Rightarrow> string result" where
  "parse_lock_field line name =
     ok_or (lock_corrupt ''lock metadata field is invalid'')
       (case strip_prefix (name @ ''='') line of
          None \<Rightarrow> None
        | Some v \<Rightarrow> if v = [] then None else Some v)"

definition decode_hex_16 :: "string \<Rightarrow> u8 list option" where
  "decode_hex_16 v =
     (if length v \<noteq> 32 then None
      else case decode_pairs (str_bytes v) of Inl _ \<Rightarrow> None | Inr bytes \<Rightarrow> Some bytes)"

definition parse_lock_owner :: "u8 list \<Rightarrow> process_identity result" where
  "parse_lock_owner bytes =
     rbind (ok_or (lock_corrupt ''lock metadata is not valid text'') (from_utf8 bytes)) (\<lambda>v.
     case lines v of
       [l0, l1, l2, l3] \<Rightarrow>
         (if l0 \<noteq> ''version=1'' then Inl (lock_corrupt ''lock metadata format is unsupported'')
          else rbind (parse_lock_field l1 ''pid'') (\<lambda>pid_text.
          rbind (ok_or (lock_corrupt ''lock PID metadata is invalid'') (parse_uint 32 pid_text)) (\<lambda>p.
          rbind (parse_lock_field l2 ''start'') (\<lambda>start.
          rbind (ok_or (lock_corrupt ''lock start metadata is invalid'') (parse_uint 64 start)) (\<lambda>generation.
          rbind (parse_lock_field l3 ''boot'') (\<lambda>boot.
          rbind (ok_or (lock_corrupt ''lock boot metadata is invalid'') (decode_hex_16 boot)) (\<lambda>boot_id.
          replace_err (lock_corrupt ''lock metadata contains a weak process identity'')
            (with_boot_id (word_of_nat p) (word_of_nat generation) boot_id))))))))
     | _ \<Rightarrow> Inl (lock_corrupt ''lock metadata format is unsupported''))"

text \<open>\<open>probe_process\<close> with its two reads: the boot identity is read after the start time was found.\<close>

definition read_as :: "'w host \<Rightarrow> path \<Rightarrow> 'w \<Rightarrow> string file_read \<times> 'w" where
  "read_as h p w =
     (case h_read_to_string h p w of
        (Inr text, w) \<Rightarrow> (Content text, w)
      | (Inl NotFound, w) \<Rightarrow> (Missing, w)
      | (Inl _, w) \<Rightarrow> (Unreadable, w))"

definition host_probe :: "'w host \<Rightarrow> u32 \<Rightarrow> ('w, process_identity option) action" where
  "host_probe h p w =
     (case read_as h (''/proc/'' @ dec_digits (unat p) @ ''/stat'') w of (stat, w) \<Rightarrow>
        (if (case stat of Content text \<Rightarrow> parse_start_time text \<noteq> None | _ \<Rightarrow> False)
         then (case read_as h ''/proc/sys/kernel/random/boot_id'' w of
           (boot, w) \<Rightarrow> (probe_process stat boot p, w))
         else (probe_process stat Unreadable p, w)))"

definition host_current :: "'w host \<Rightarrow> ('w, process_identity) action" where
  "host_current h = abind (host_probe h (h_process_id h)) (\<lambda>identity.
     areturn (ok_or (SysboostError_new DurabilityError ''current process identity disappeared'') identity))"

definition reclaim_stale_lock :: "'w host \<Rightarrow> path \<Rightarrow> runtime_state_policy \<Rightarrow> ('w, bool) action" where
  "reclaim_stale_lock h p policy =
     abind (validate_regular_path h p policy ''lock file'') (\<lambda>identity.
     abind (read_verified_file h p policy 256) (\<lambda>contents.
     abind (areturn (parse_lock_owner contents)) (\<lambda>owner.
     abind (host_probe h (ps_pid owner)) (\<lambda>found.
     if \<not> (case found of None \<Rightarrow> True | Some current \<Rightarrow> \<not> same_generation current owner)
     then areturn (Inr False)
     else abind (durably (remove_file_if_identity h p identity)) (\<lambda>removed.
     if \<not> removed then areturn (Inr False)
     else (\<lambda>w. case path_parent p of
         None \<Rightarrow> (Inr True, w)
       | Some parent \<Rightarrow> (case sync_path h parent w of (_, w) \<Rightarrow> (Inr True, w))))))))"

record lock_guard =
  lg_path :: path
  lg_identity :: file_identity

text \<open>One attempt to create the lock file; the identity is known once the open file was validated.\<close>

definition create_lock ::
    "'w host \<Rightarrow> file_state_store \<Rightarrow> path \<Rightarrow> process_identity
     \<Rightarrow> 'w \<Rightarrow> (io_kind + file_identity) \<times> file_identity option \<times> 'w" where
  "create_lock h st p owner w =
     (case io_bind (h_open h (create_options (rp_file_mode (fs_policy st)) private_flags) p)
         (\<lambda>f. io_bind (as_io PermissionDenied (validate_open_file h f (fs_policy st) ''lock file''))
         (\<lambda>identity. io_return (Inr (f, identity)))) w of
        (Inl e, w) \<Rightarrow> (Inl e, None, w)
      | (Inr (f, identity), w) \<Rightarrow>
        (case io_bind (h_write_all h f (encode_lock_owner owner)) (\<lambda>_.
            io_bind (h_sync_all h f) (\<lambda>_. sync_directory h (fs_root st) (fs_policy st))) w of
           (Inl e, w) \<Rightarrow> (Inl e, Some identity, w)
         | (Inr _, w) \<Rightarrow> (Inr identity, Some identity, w)))"

definition lock_held :: sysboost_error where
  "lock_held = retryable retryability.Retry (SysboostError_new AuthorizationError
     ''another mutating session owns the exclusive lock'')"

fun acquire_attempts ::
    "'w host \<Rightarrow> file_state_store \<Rightarrow> path \<Rightarrow> process_identity \<Rightarrow> nat \<Rightarrow> ('w, lock_guard) action" where
  "acquire_attempts h st p owner 0 w = (Inl lock_held, w)"
| "acquire_attempts h st p owner (Suc attempts) w =
     (case create_lock h st p owner w of
        (Inr identity, _, w) \<Rightarrow> (Inr \<lparr>lg_path = p, lg_identity = identity\<rparr>, w)
      | (Inl AlreadyExists, _, w) \<Rightarrow>
        (case reclaim_stale_lock h p (fs_policy st) w of
           (Inl e, w) \<Rightarrow> (Inl e, w)
         | (Inr True, w) \<Rightarrow> acquire_attempts h st p owner attempts w
         | (Inr False, w) \<Rightarrow> (Inl lock_held, w))
      | (Inl e, created, w) \<Rightarrow>
        (case created of
           None \<Rightarrow> (Inl (state_io_error DurabilityError e), w)
         | Some identity \<Rightarrow> (case remove_file_if_identity h p identity w of
             (_, w) \<Rightarrow> (Inl (state_io_error DurabilityError e), w))))"

definition lock_path :: "file_state_store \<Rightarrow> path" where
  "lock_path st = path_join (fs_root st) ''.mutating.lock''"

text \<open>\<open>FileSessionLock\<close> holds the same root and policy as a store.\<close>

definition file_acquire :: "'w host \<Rightarrow> file_state_store \<Rightarrow> ('w, lock_guard) action" where
  "file_acquire h st =
     abind (store_root h st) (\<lambda>_.
     abind (host_current h) (\<lambda>owner. acquire_attempts h st (lock_path st) owner 2))"

definition drop_guard :: "'w host \<Rightarrow> lock_guard \<Rightarrow> 'w \<Rightarrow> 'w" where
  "drop_guard h g w =
     (case h_symlink_metadata h (lg_path g) w of
        (Inl _, w) \<Rightarrow> w
      | (Inr m, w) \<Rightarrow>
          (if md_type m = RegularFile \<and> from_metadata m = lg_identity g
           then snd (h_remove_file h (lg_path g) w) else w))"

section \<open>Session identities\<close>

text \<open>
  \<open>read_exact\<close> of sixteen bytes, again while they are all zero. The loop need not end, so that not
  returning is a value of its own.
\<close>

partial_function (option) draw_id :: "'w host \<Rightarrow> fd \<Rightarrow> 'w \<Rightarrow> (session_id result \<times> 'w) option" where
  "draw_id h f w =
     (case h_read h f (Some 16) w of
        (Inl e, w) \<Rightarrow> Some (Inl (state_io_error DurabilityError e), w)
      | (Inr bytes, w) \<Rightarrow>
          (if length bytes < 16 then Some (Inl (state_io_error DurabilityError OtherKind), w)
           else if bytes \<noteq> replicate 16 0 then Some (Inr (SessionId bytes), w)
           else draw_id h f w))"

definition system_next_id ::
    "'w host \<Rightarrow> fd option \<Rightarrow> 'w \<Rightarrow> (session_id result \<times> fd option \<times> 'w) option" where
  "system_next_id h random w =
     (let draw = \<lambda>f w. map_option (\<lambda>(r, w). (r, Some f, w)) (draw_id h f w) in
      case random of
        Some f \<Rightarrow> draw f w
      | None \<Rightarrow>
        (case h_open h (read_options 0) ''/dev/urandom'' w of
           (Inl e, w) \<Rightarrow> Some (Inl (state_io_error DurabilityError e), None, w)
         | (Inr f, w) \<Rightarrow> draw f w))"

end
