(* ===== verification/State_Safety.thy ===== *)
theory State_Safety
  imports State_Files Host_Log
begin

text \<open>
  What the file store and the lock guarantee on any host: a state file holds the old or the complete
  new record at every point where the program can be cut off (\<open>crash_safe\<close>, over the contents that a
  recorded log of host calls implies), what a crash leaves behind does not stop recovery, and a lock is
  taken away only from a process that was found dead.
\<close>

section \<open>Operations that change no file\<close>

fun quiet :: "host_event \<Rightarrow> bool" where
  "quiet (Opened opts _ _) \<longleftrightarrow> \<not> oo_create_new opts"
| "quiet (Written _ _ _) \<longleftrightarrow> False"
| "quiet (Removed _ _) \<longleftrightarrow> False"
| "quiet (Renamed _ _ _) \<longleftrightarrow> False"
| "quiet _ \<longleftrightarrow> True"

definition quiet_op :: "('w logged_host \<Rightarrow> 'r \<times> 'w logged_host) \<Rightarrow> bool" where
  "quiet_op m \<longleftrightarrow> (\<forall>w log r w' log'. m (w, log) = (r, w', log') \<longrightarrow>
     (\<exists>new. log' = new @ log \<and> list_all quiet new))"

named_theorems quiet_intros

lemma quiet_opD:
  assumes "quiet_op m" "m (w, log) = (r, w', log')"
  obtains new where "log' = new @ log" "list_all quiet new"
  using assms unfolding quiet_op_def by blast

lemma quiet_case [quiet_intros]:
  assumes "quiet_op m" "\<And>r. quiet_op (k r)"
  shows "quiet_op (\<lambda>w. case m w of (r, w) \<Rightarrow> k r w)"
  unfolding quiet_op_def
proof (intro allI impI)
  fix w log r w' log' assume run: "(case m (w, log) of (r, w) \<Rightarrow> k r w) = (r, w', log')"
  obtain x w1 log1 where m: "m (w, log) = (x, w1, log1)" by (metis prod_cases3)
  from assms(1) m obtain a where a: "log1 = a @ log" "list_all quiet a" by (rule quiet_opD)
  from run m have "k x (w1, log1) = (r, w', log')" by simp
  with assms(2) obtain b where "log' = b @ log1" "list_all quiet b" by (rule quiet_opD)
  with a show "\<exists>new. log' = new @ log \<and> list_all quiet new" by (intro exI [of _ "b @ a"]) simp
qed

lemma quiet_pair [quiet_intros]: "quiet_op (\<lambda>w. (r, w))"
  by (simp add: quiet_op_def)

lemma quiet_sum [quiet_intros]:
  "(\<And>e. quiet_op (f e)) \<Longrightarrow> (\<And>x. quiet_op (g x)) \<Longrightarrow> quiet_op (\<lambda>w. case r of Inl e \<Rightarrow> f e w | Inr x \<Rightarrow> g x w)"
  by (cases r) simp_all

lemma quiet_if [quiet_intros]:
  "quiet_op f \<Longrightarrow> quiet_op g \<Longrightarrow> quiet_op (\<lambda>w. if b then f w else g w)"
  "quiet_op f \<Longrightarrow> quiet_op g \<Longrightarrow> quiet_op (if b then f else g)"
  by (cases b; simp)+

lemma quiet_kind [quiet_intros]:
  "quiet_op a \<Longrightarrow> quiet_op b \<Longrightarrow> quiet_op c \<Longrightarrow> quiet_op d \<Longrightarrow>
   quiet_op (\<lambda>w. case k of NotFound \<Rightarrow> a w | PermissionDenied \<Rightarrow> b w | AlreadyExists \<Rightarrow> c w | OtherKind \<Rightarrow> d w)"
  by (cases k) simp_all

lemma quiet_return [quiet_intros]: "quiet_op (areturn r)" "quiet_op (io_return r')"
  by (simp_all add: quiet_op_def areturn_def io_return_def)

lemma quiet_bind [quiet_intros]: "quiet_op m \<Longrightarrow> (\<And>x. quiet_op (k x)) \<Longrightarrow> quiet_op (abind m k)"
  unfolding abind_def [abs_def] by (intro quiet_case quiet_sum quiet_pair)

lemma quiet_io_bind [quiet_intros]: "quiet_op m \<Longrightarrow> (\<And>x. quiet_op (k x)) \<Longrightarrow> quiet_op (io_bind m k)"
  unfolding io_bind_def [abs_def] by (intro quiet_case quiet_sum quiet_pair)

lemma quiet_as_io [quiet_intros]: "quiet_op m \<Longrightarrow> quiet_op (as_io k m)"
  unfolding as_io_def [abs_def] by (intro quiet_case quiet_pair)

lemma quiet_noting [quiet_intros]: "(\<And>r. quiet (entry r)) \<Longrightarrow> quiet_op (noting f entry)"
  by (auto simp: quiet_op_def noting_def split: prod.splits)

lemma quiet_durably [quiet_intros]: "quiet_op f \<Longrightarrow> quiet_op (durably f)"
  unfolding durably_def io_call_def [abs_def] by (intro quiet_case quiet_pair)

lemma quiet_validate [quiet_intros]:
  "quiet_op (validate_regular_path (recording_host h) p policy d)"
  "quiet_op (validate_open_file (recording_host h) f policy d)"
  unfolding validate_regular_path_def validate_open_file_def recording_host_simps
  by (intro quiet_intros; simp)+

lemma quiet_open_read [quiet_intros]: "quiet_op (h_open (recording_host h) (read_options flags) p)"
  unfolding recording_host_simps by (intro quiet_intros) (simp add: read_options_def)

lemma quiet_sync [quiet_intros]: "quiet_op (h_sync_all (recording_host h) f)"
  unfolding recording_host_simps by (intro quiet_intros) simp

lemma quiet_inspect [quiet_intros]: "quiet_op (h_symlink_metadata (recording_host h) p)"
  unfolding recording_host_simps by (intro quiet_intros) simp

lemma quiet_metadata [quiet_intros]: "quiet_op (h_metadata (recording_host h) f)"
  unfolding recording_host_simps by (intro quiet_intros) simp

lemma quiet_make [quiet_intros]: "quiet_op (h_create_dir (recording_host h) mode p)"
  unfolding recording_host_simps by (intro quiet_intros) simp

lemma quiet_root [quiet_intros]: "quiet_op (store_root (recording_host h) st)"
  unfolding store_root_def ensure_runtime_root_def [abs_def] create_runtime_root_def create_directory_def [abs_def]
    sync_path_def
  by (intro quiet_intros)

lemma quiet_target [quiet_intros]:
  "quiet_op (validate_target_for_write (recording_host h) target policy replace session_id)"
  unfolding validate_target_for_write_def [abs_def] by (intro quiet_intros)

lemma quiet_settle [quiet_intros]: "quiet_op (settle (recording_host h) st session_id)"
  unfolding settle_def sync_directory_def by (intro quiet_intros)

section \<open>The contents that a log implies\<close>

text \<open>
  A file created by an open is empty; a write appends to the file that its descriptor was last opened
  for, and leaves anything (\<open>torn\<close>) when it fails; a rename moves the contents.
\<close>

fun last_open :: "fd \<Rightarrow> host_event list \<Rightarrow> path option" where
  "last_open f [] = None"
| "last_open f (Opened _ p (Inr g) # log) = (if f = g then Some p else last_open f log)"
| "last_open f (_ # log) = last_open f log"

fun contents ::
    "(host_event list \<Rightarrow> u8 list option) \<Rightarrow> (path \<rightharpoonup> u8 list) \<Rightarrow> host_event list \<Rightarrow> path \<rightharpoonup> u8 list" where
  "contents torn base [] = base"
| "contents torn base (Opened opts p (Inr f) # log) =
     (if oo_create_new opts then (contents torn base log)(p \<mapsto> []) else contents torn base log)"
| "contents torn base (Written f bytes r # log) =
     (case last_open f log of
        None \<Rightarrow> contents torn base log
      | Some p \<Rightarrow> (contents torn base log)(p := (case r of
          Inr _ \<Rightarrow> map_option (\<lambda>old. old @ bytes) (contents torn base log p)
        | Inl _ \<Rightarrow> torn log)))"
| "contents torn base (Renamed p q (Inr _) # log) =
     (contents torn base log)(p := None, q := contents torn base log p)"
| "contents torn base (Removed p (Inr _) # log) = (contents torn base log)(p := None)"
| "contents torn base (_ # log) = contents torn base log"

lemma contents_quiet_one: "quiet e \<Longrightarrow> contents torn base (e # log) = contents torn base log"
proof (cases e)
  case (Opened opts p r)
  then show "quiet e \<Longrightarrow> ?thesis" by (cases r) auto
qed auto

lemma contents_quiet: "list_all quiet new \<Longrightarrow> contents torn base (new @ log) = contents torn base log"
  by (induction new) (simp_all add: contents_quiet_one)

text \<open>The file was written with these bytes and flushed, and nothing has changed a file since.\<close>

definition flushed :: "u8 list \<Rightarrow> host_event list \<Rightarrow> bool" where
  "flushed bytes log \<longleftrightarrow> (\<exists>mid f rest. log = mid @ Synced f (Inr ()) # Written f bytes (Inr ()) # rest \<and> list_all quiet mid)"

text \<open>At every earlier point of the log the target holds what it held before or the new bytes.\<close>

definition crash_safe :: "path \<Rightarrow> u8 list \<Rightarrow> (path \<rightharpoonup> u8 list) \<Rightarrow> host_event list \<Rightarrow> bool" where
  "crash_safe target bytes base log \<longleftrightarrow> (\<forall>torn l. suffix l log \<longrightarrow>
     contents torn base l target = base target \<or> contents torn base l target = Some bytes)"

definition renames_flushed :: "path \<Rightarrow> u8 list \<Rightarrow> host_event \<Rightarrow> host_event list \<Rightarrow> bool" where
  "renames_flushed target bytes e log \<longleftrightarrow>
     (case e of Renamed _ q _ \<Rightarrow> q = target \<and> flushed bytes log | _ \<Rightarrow> True)"

lemma crash_safe_nil [simp]: "crash_safe target bytes base []"
  by (simp add: crash_safe_def)

lemma crash_safe_cons:
  "crash_safe target bytes base (e # log) \<longleftrightarrow> crash_safe target bytes base log
     \<and> (\<forall>torn. contents torn base (e # log) target = base target \<or> contents torn base (e # log) target = Some bytes)"
  by (auto simp: crash_safe_def suffix_Cons)

lemma crash_safe_quiet:
  "crash_safe target bytes base log \<Longrightarrow> list_all quiet new \<Longrightarrow> crash_safe target bytes base (new @ log)"
proof (induction new)
  case (Cons e new)
  moreover have "contents torn base (e # new @ log) target = contents torn base log target" for torn
    using Cons.prems contents_quiet [of "e # new" torn base log] by simp
  moreover have "contents torn base log target = base target \<or> contents torn base log target = Some bytes" for torn
    using Cons.prems(1) by (simp add: crash_safe_def)
  ultimately show ?case by (auto simp: crash_safe_cons)
qed simp

lemma renames_quiet: "list_all quiet new \<Longrightarrow> obeys (renames_flushed t b) (new @ log) = obeys (renames_flushed t b) log"
proof (induction new)
  case (Cons e new)
  then show ?case by (cases e) (auto simp: renames_flushed_def)
qed simp

section \<open>Replacing a record\<close>

text \<open>One recorded call.\<close>

lemma noting_run: "noting f entry (w, log) = (r, w', log') \<longleftrightarrow> f w = (r, w') \<and> log' = entry r # log"
  by (auto simp: noting_def split: prod.splits)

lemma io_bindE:
  assumes "io_bind m k s = (r, s')"
  obtains (error) e where "m s = (Inl e, s')" "r = Inl e" | (step) x s1 where "m s = (Inr x, s1)" "k x s1 = (r, s')"
  using assms by (auto simp: io_bind_def split: prod.splits sum.splits)

lemma validate_open_log:
  assumes "as_io k (validate_open_file (recording_host h) f policy d) (w, log) = (r, w', log')"
  shows "log' = Asked # log"
  using assms
  by (auto simp: as_io_def validate_open_file_def durably_def io_call_def abind_def areturn_def noting_def
    split: prod.splits sum.splits)

text \<open>The state of the log while a temporary file of its own is open for the bytes.\<close>

definition writable :: "path \<Rightarrow> u8 list \<Rightarrow> (path \<rightharpoonup> u8 list) \<Rightarrow> host_event list \<Rightarrow> bool" where
  "writable target bytes base log \<longleftrightarrow> crash_safe target bytes base log \<and> obeys (renames_flushed target bytes) log
     \<and> (\<forall>torn. contents torn base log target = base target)"

lemma writable_quiet:
  "writable t b base log \<Longrightarrow> list_all quiet new \<Longrightarrow> writable t b base (new @ log)"
  by (simp add: writable_def crash_safe_quiet renames_quiet contents_quiet)

lemma writable_other:
  assumes "writable t b base log" "\<And>torn. contents torn base (e # log) t = contents torn base log t"
    "renames_flushed t b e log"
  shows "writable t b base (e # log)"
  using assms by (auto simp: writable_def crash_safe_cons)

text \<open>A quiet call with a failure, or a quiet call and then the rest.\<close>

lemma quiet_then:
  assumes "quiet_op m" "io_bind m k (w, l) = (r, w', log')"
  obtains new w0 where "list_all quiet new" "(\<exists>e. r = Inl e \<and> log' = new @ l) \<or> (\<exists>x. k x (w0, new @ l) = (r, w', log'))"
  using assms(2)
proof (cases rule: io_bindE)
  case (error e)
  from quiet_opD [OF assms(1) error(1)] error(2) that show ?thesis by metis
next
  case (step x s1)
  obtain w1 l1 where s1: "s1 = (w1, l1)" by fastforce
  from quiet_opD [OF assms(1) step(1) [unfolded s1]] step(2) s1 that show ?thesis by metis
qed

lemma checked_rename:
  assumes "io_bind (as_io PermissionDenied (store_root (recording_host h) st)) (\<lambda>_.
      io_bind (as_io PermissionDenied (validate_target_for_write (recording_host h) t policy replace session_id))
        (\<lambda>_. rename)) (w, l) = (r, w', log')"
  shows "\<exists>new e w0. list_all quiet new \<and> (r = Inl e \<and> log' = new @ l \<or> rename (w0, new @ l) = (r, w', log'))"
proof -
  have "quiet_op (as_io PermissionDenied (store_root (recording_host h) st))"
    "quiet_op (as_io PermissionDenied (validate_target_for_write (recording_host h) t policy replace session_id))"
    by (intro quiet_intros)+
  from quiet_then [OF this(1) assms] obtain a w1 where a: "list_all quiet a"
    "(\<exists>e. r = Inl e \<and> log' = a @ l) \<or> io_bind (as_io PermissionDenied
      (validate_target_for_write (recording_host h) t policy replace session_id)) (\<lambda>_. rename) (w1, a @ l) = (r, w', log')"
    by metis
  from a(2) show ?thesis
  proof (elim disjE exE)
    assume "io_bind (as_io PermissionDenied (validate_target_for_write (recording_host h) t policy replace session_id))
      (\<lambda>_. rename) (w1, a @ l) = (r, w', log')"
    from quiet_then [OF \<open>quiet_op (as_io PermissionDenied (validate_target_for_write _ _ _ _ _))\<close> this]
    obtain b w2 where "list_all quiet b" "(\<exists>e. r = Inl e \<and> log' = b @ a @ l) \<or> rename (w2, b @ a @ l) = (r, w', log')"
      by metis
    with a(1) show ?thesis by (intro exI [of _ "b @ a"]) auto
  qed (use a(1) in blast)
qed

lemma fill_and_rename_log:
  assumes run: "fill_and_rename (recording_host h) st replace session_id bytes temporary f
      (w, Opened opts temporary (Inr f) # log) = (r, w', log')"
    and start: "writable (state_path st session_id) bytes base (Opened opts temporary (Inr f) # log)"
    and new: "oo_create_new opts" and other: "temporary \<noteq> state_path st session_id"
  shows "case r of Inl _ \<Rightarrow> writable (state_path st session_id) bytes base log'
    | Inr _ \<Rightarrow> crash_safe (state_path st session_id) bytes base log'
        \<and> obeys (renames_flushed (state_path st session_id) bytes) log'
        \<and> (\<forall>torn. contents torn base log' (state_path st session_id) = Some bytes)"
proof -
  let ?t = "state_path st session_id"
  let ?l0 = "Opened opts temporary (Inr f) # log"
  let ?l1 = "Asked # ?l0"
  have w1: "writable ?t bytes base ?l1" using writable_quiet [OF start, of "[Asked]"] by simp
  have w2: "writable ?t bytes base (Written f bytes q # ?l1)" for q
    by (rule writable_other [OF w1]) (use other in \<open>auto simp: renames_flushed_def\<close>)
  have w3: "writable ?t bytes base (Synced f s # Written f bytes q # ?l1)" for s q
    using writable_quiet [OF w2, of "[Synced f s]"] by simp
  let ?l3 = "Synced f (Inr ()) # Written f bytes (Inr ()) # ?l1"
  have c3: "contents torn base ?l3 temporary = Some bytes" for torn using new by simp
  show ?thesis using run unfolding fill_and_rename_def
  proof (cases rule: io_bindE)
    case (error e)
    with validate_open_log [OF error(1)] w1 show ?thesis by simp
  next
    case (step x s1)
    obtain w1' where s1: "s1 = (w1', ?l1)" using validate_open_log step(1) by (metis prod.collapse)
    from step(2) show ?thesis unfolding s1
    proof (cases rule: io_bindE)
      case (error e)
      then show ?thesis using w2 by (auto simp: noting_run)
    next
      case (step y s2)
      then obtain w2' where s2: "s2 = (w2', Written f bytes (Inr ()) # ?l1)" by (cases s2) (auto simp: noting_run)
      from step(2) show ?thesis unfolding s2
      proof (cases rule: io_bindE)
        case (error e)
        then show ?thesis using w3 by (auto simp: noting_run)
      next
        case (step z s3)
        then obtain w3' where s3: "s3 = (w3', ?l3)" by (cases s3) (auto simp: noting_run)
        let ?rename = "h_rename (recording_host h) temporary ?t"
        from checked_rename [OF step(2) [unfolded s3]] obtain new r0 w0 where new: "list_all quiet new"
          and cases: "r = Inl r0 \<and> log' = new @ ?l3 \<or> ?rename (w0, new @ ?l3) = (r, w', log')" by blast
        have w4: "writable ?t bytes base (new @ ?l3)" using writable_quiet [OF w3 new] .
        have flushed: "renames_flushed ?t bytes (Renamed temporary ?t q) (new @ ?l3)" for q
          using new by (auto simp: renames_flushed_def flushed_def)
        have c4: "contents torn base (new @ ?l3) temporary = Some bytes" for torn
          using contents_quiet [OF new] c3 by simp
        from cases show ?thesis
        proof
          assume "r = Inl r0 \<and> log' = new @ ?l3"
          with w4 show ?thesis by simp
        next
          assume "?rename (w0, new @ ?l3) = (r, w', log')"
          then have log': "log' = Renamed temporary ?t r # new @ ?l3" by (auto simp: noting_run)
          show ?thesis
          proof (cases r)
            case (Inl e)
            have "writable ?t bytes base (Renamed temporary ?t (Inl e) # new @ ?l3)"
              by (rule writable_other [OF w4 _ flushed]) simp
            with log' Inl show ?thesis by simp
          next
            case (Inr x)
            with log' w4 flushed c4 show ?thesis
              by (auto simp del: append.simps simp add: writable_def crash_safe_cons)
          qed
        qed
      qed
    qed
  qed
qed

lemma settled_log:
  assumes "settle (recording_host h) st session_id (w, l) = (Inr (), w', log')"
  shows "\<exists>f opts rest. log' = Synced f (Inr ()) # Asked # Opened opts (fs_root st) (Inr f) # rest"
  using assms
  by (auto simp: settle_def sync_directory_def io_bind_def noting_def io_return_def
    split: prod.splits sum.splits elim!: replace_err.elims)

text \<open>What one run of the closure guarantees about the target.\<close>

definition replaced :: "path \<Rightarrow> path \<Rightarrow> u8 list \<Rightarrow> (path \<rightharpoonup> u8 list) \<Rightarrow> unit result \<Rightarrow> host_event list \<Rightarrow> bool" where
  "replaced root target bytes base r log \<longleftrightarrow> crash_safe target bytes base log \<and> obeys (renames_flushed target bytes) log
     \<and> (r = Inr () \<longrightarrow> (\<forall>torn. contents torn base log target = Some bytes)
        \<and> (\<exists>f opts rest. log = Synced f (Inr ()) # Asked # Opened opts root (Inr f) # rest))"

lemma replaced_failed: "writable target bytes base log \<Longrightarrow> replaced root target bytes base (Inl e) log"
  by (simp add: replaced_def writable_def)

lemma write_through_log:
  assumes run: "write_through (recording_host h) st replace session_id bytes temporary (w, log) = (r, w', log')"
    and start: "writable (state_path st session_id) bytes base log"
    and other: "temporary \<noteq> state_path st session_id"
  shows "replaced (fs_root st) (state_path st session_id) bytes base r log'"
proof -
  let ?t = "state_path st session_id"
  let ?opts = "create_options (rp_file_mode (fs_policy st)) private_flags"
  obtain q w1 where q: "h_open h ?opts temporary w = (q, w1)" by fastforce
  have opened: "writable ?t bytes base (Opened ?opts temporary q # log)"
    by (rule writable_other [OF start]) (use other in \<open>cases q; auto simp: renames_flushed_def\<close>)+
  show ?thesis
  proof (cases q)
    case (Inl e)
    with run q opened show ?thesis by (auto simp: write_through_def noting_def Let_def intro: replaced_failed)
  next
    case (Inr f)
    obtain p w2 log2 where p: "fill_and_rename (recording_host h) st replace session_id bytes temporary f
        (w1, Opened ?opts temporary (Inr f) # log) = (p, w2, log2)" by (metis prod_cases3)
    note filled = fill_and_rename_log [OF p opened [unfolded Inr] _ other]
    show ?thesis
    proof (cases p)
      case (Inl e)
      with filled have "writable ?t bytes base log2" by (simp add: create_options_def)
      then have "writable ?t bytes base (Removed temporary s # log2)" for s
        by (rule writable_other) (use other in \<open>cases s; auto simp: renames_flushed_def\<close>)+
      with run q Inr p Inl show ?thesis
        by (auto simp: write_through_def noting_def Let_def split: prod.splits intro: replaced_failed)
    next
      case (Inr x)
      obtain s w3 log3 where s: "settle (recording_host h) st session_id (w2, log2) = (s, w3, log3)" by (metis prod_cases3)
      from quiet_opD [OF quiet_settle s] obtain new where new: "log3 = new @ log2" "list_all quiet new" .
      from filled Inr have done2: "crash_safe ?t bytes base log2" "obeys (renames_flushed ?t bytes) log2"
        "contents torn base log2 ?t = Some bytes" for torn by (auto simp: create_options_def)
      with new have "crash_safe ?t bytes base log3" "obeys (renames_flushed ?t bytes) log3"
        "contents torn base log3 ?t = Some bytes" for torn
        by (simp_all add: crash_safe_quiet renames_quiet contents_quiet)
      moreover have "(r = Inr () \<longrightarrow> s = Inr ()) \<and> log' = log3"
        using run q \<open>q = Inr f\<close> p Inr s by (cases s) (auto simp: write_through_def noting_def Let_def)
      ultimately show ?thesis using s settled_log by (auto simp: replaced_def)
    qed
  qed
qed

lemma temporary_is_other:
  "path_join root (temporary_name i n tick) \<noteq> path_join root (to_hex i @ ''.state'')"
proof
  assume "path_join root (temporary_name i n tick) = path_join root (to_hex i @ ''.state'')"
  then have "length (path_join root (temporary_name i n tick)) = length (path_join root (to_hex i @ ''.state''))" by simp
  moreover have "\<not> starts_with ''/'' (temporary_name i n tick)" by (simp add: temporary_name_def starts_with_def)
  ultimately show False by (auto simp: path_join_def temporary_name_def split: if_splits)
qed

text \<open>
  C31: a state file is replaced as a whole. Whatever the host answers, when a record is created or
  replaced: at every point of the run, so wherever it is cut off, the state file holds what it held
  before or the complete encoding of the new record, also when writes fail half way; the rename comes
  only after the bytes were written and flushed; and success means that the file holds the new record
  and that the directory was flushed after everything else.
\<close>

theorem write_atomic_crash_safe:
  assumes "write_atomic (recording_host h) st record replace (w, []) = (r, w', log)"
    and "SessionRecord_encode record = Inr bytes"
  shows "replaced (fs_root st) (state_path st (sr_session_id record)) bytes base r log"
proof -
  let ?t = "state_path st (sr_session_id record)"
  have "quiet_op (store_root (recording_host h) st)" by (intro quiet_intros)
  have idle: "replaced (fs_root st) ?t bytes base (Inl e) new" if "list_all quiet new" for e new
    using writable_quiet [of ?t bytes base "[]" new] that by (intro replaced_failed) (simp add: writable_def)
  from assms(1) show ?thesis unfolding write_atomic_def Let_def
  proof (cases rule: abindE)
    case (error e)
    from quiet_opD [OF quiet_root error(1)] idle error(2) show ?thesis by fastforce
  next
    case (step x s1)
    obtain w1 l1 where s1: "s1 = (w1, l1)" by fastforce
    from quiet_opD [OF quiet_root step(1) [unfolded s1]] obtain a where a: "l1 = a" "list_all quiet a" by auto
    from step(2) show ?thesis unfolding s1
    proof (cases rule: abindE)
      case (error e)
      from quiet_opD [OF quiet_target error(1)] a obtain b where "log = b @ a" "list_all quiet b" by metis
      with a error(2) idle [of "b @ a"] show ?thesis by simp
    next
      case (step y s2)
      obtain w2 l2 where s2: "s2 = (w2, l2)" by fastforce
      from quiet_opD [OF quiet_target step(1) [unfolded s2]] a obtain b where b: "l2 = b @ a" "list_all quiet b" by metis
      obtain tick w3 where tick: "h_clock_nanos h w2 = (tick, w3)" by fastforce
      have "write_through (recording_host h) st replace (sr_session_id record) bytes
          (path_join (fs_root st) (temporary_name (sr_session_id record) (h_process_id h) tick)) (w3, Asked # l2) = (r, w', log)"
        using step(2) assms(2) s2 tick by simp
      moreover have "writable ?t bytes base (Asked # l2)"
        using writable_quiet [of ?t bytes base "[]" "Asked # b @ a"] a b by (simp add: writable_def)
      ultimately show ?thesis
        unfolding state_path_def by (rule write_through_log [unfolded state_path_def, OF _ _ temporary_is_other])
    qed
  qed
qed

end
