(* ===== verification/State_Recovery.thy ===== *)
theory State_Recovery
  imports State_Files
begin

text \<open>
  Starting again after a crash: temporary files that were left behind are recognised and skipped, the
  lock file names its owner and is taken over only from an owner that is gone, an empty lock file
  blocks, and the source of session identities returns unless it is fed zeros for ever.
\<close>

section \<open>Names of temporary files\<close>

lemma find_str_skip: "sep \<noteq> [] \<Longrightarrow> hd sep \<notin> set a \<Longrightarrow> find_str sep (a @ sep @ b) = Some (length a)"
proof (induction a)
  case Nil
  then show ?case by (cases sep) (simp_all add: starts_with_def)
next
  case (Cons c a)
  then have "\<not> starts_with sep (c # a @ sep @ b)" by (cases sep) (auto simp: starts_with_def)
  with Cons show ?case by simp
qed

lemma position_skip: "c \<notin> set a \<Longrightarrow> position (\<lambda>d. d = c) (a @ c # b) = Some (length a)"
  by (induction a) auto

text \<open>The characters of numbers and of hexadecimal text.\<close>

lemma HEX_nth: "n < 16 \<Longrightarrow> HEX ! n \<in> set HEX"
  by (rule nth_mem) (simp add: HEX_def)

lemma encode_hex_chars: "set (encode_hex bs) \<subseteq> set HEX"
  by (induction bs) (simp_all add: HEX_nth nibbles_bound)

lemma dec_digits_chars: "set (dec_digits n) \<subseteq> set HEX"
proof (induction n rule: dec_digits.induct)
  case (1 n)
  have digit: "char_of (48 + k) \<in> set HEX" if "k < 10" for k :: nat
  proof -
    have "list_all (\<lambda>k. char_of (48 + k) = HEX ! k) [0..<10]" by code_simp
    with that have "char_of (48 + k) = HEX ! k" by (simp add: list_all_iff)
    with that show ?thesis by (simp add: HEX_nth)
  qed
  show ?case by (subst dec_digits.simps) (use 1 digit in \<open>simp\<close>)
qed

lemma to_hex_chars: "set (to_hex i) \<subseteq> set HEX"
  by (simp add: to_hex_def encode_hex_chars)

lemma HEX_plain:
  assumes "c \<in> set HEX"
  shows "c \<noteq> CHR ''.''" "c \<noteq> CHR 0x0A" "c \<noteq> CHR 0x0D" "c \<noteq> CHR ''m''" "word_of_nat (of_char c) < (0x80 :: u8)"
proof -
  have "list_all (\<lambda>c. c \<noteq> CHR ''.'' \<and> c \<noteq> CHR 0x0A \<and> c \<noteq> CHR 0x0D \<and> c \<noteq> CHR ''m''
      \<and> word_of_nat (of_char c) < (0x80 :: u8)) HEX" by code_simp
  with assms show "c \<noteq> CHR ''.''" "c \<noteq> CHR 0x0A" "c \<noteq> CHR 0x0D" "c \<noteq> CHR ''m''" "word_of_nat (of_char c) < (0x80 :: u8)"
    unfolding list_all_iff by blast+
qed

lemma utf8_plain: "\<forall>c \<in> set s. word_of_nat (of_char c) < (0x80 :: u8) \<Longrightarrow> utf8 s"
  unfolding utf8_def str_bytes_def by (rule utf8_ascii) simp

lemma no_dot: "CHR ''.'' \<notin> set (to_hex i)" "CHR ''.'' \<notin> set (dec_digits n)"
  using to_hex_chars dec_digits_chars HEX_plain(1) by blast+

lemma to_hex_parses: "wf_session_id i \<Longrightarrow> SessionId_from_str (to_hex i) = Inr i"
  by (simp add: SessionId_from_str_def decode_hex_def to_hex_def decode_pairs_encode_hex wf_session_id_def)

lemma temporary_name_valid:
  assumes "wf_session_id i" "n \<noteq> 0" "tick < 2 ^ 128"
  shows "is_valid_temporary_name (temporary_name i n tick)"
proof -
  have "split_once_str ''.state.tmp.'' (to_hex i @ ''.state.tmp.'' @ dec_digits (unat n) @ ''.'' @ dec_digits tick)
      = Some (to_hex i, dec_digits (unat n) @ ''.'' @ dec_digits tick)"
    using find_str_skip [of "''.state.tmp.''" "to_hex i" "dec_digits (unat n) @ ''.'' @ dec_digits tick"] no_dot
    by (simp add: split_once_str_def)
  moreover have "split_once (CHR ''.'') (dec_digits (unat n) @ ''.'' @ dec_digits tick) = Some (dec_digits (unat n), dec_digits tick)"
    using position_skip [OF no_dot(2) [of "unat n"], of "dec_digits tick"] by (simp add: split_once_def)
  moreover have "unat n < 2 ^ 32" using unsigned_less [of n] by simp
  moreover have "unat n \<noteq> 0" using assms(2) by (simp add: unat_eq_zero)
  ultimately show ?thesis using assms
    by (simp add: is_valid_temporary_name_def temporary_name_def strip_prefix_def starts_with_def parses_session_def
      to_hex_parses)
qed

lemma temporary_name_found: "find_str ''.state.tmp.'' (temporary_name i n tick) \<noteq> None"
proof -
  let ?name = "to_hex i @ ''.state.tmp.'' @ dec_digits (unat n) @ ''.'' @ dec_digits tick"
  have "find_str ''.state.tmp.'' ?name \<noteq> None"
    using find_str_skip [of "''.state.tmp.''" "to_hex i" "dec_digits (unat n) @ ''.'' @ dec_digits tick"] no_dot by simp
  then have "find_str ''.state.tmp.'' (CHR ''.'' # ?name) \<noteq> None" by (simp del: append.simps)
  then show ?thesis by (simp add: temporary_name_def del: find_str.simps)
qed

lemma temporary_name_utf8: "utf8 (temporary_name i n tick)"
  unfolding temporary_name_def
  by (rule utf8_plain)
    (auto dest!: subsetD [OF to_hex_chars] subsetD [OF dec_digits_chars] HEX_plain(5))

lemma temporary_name_not_lock: "temporary_name i n tick \<noteq> ''.mutating.lock''"
  using to_hex_chars [of i] HEX_plain(4) by (cases "to_hex i"; force simp: temporary_name_def)

text \<open>
  C32: a crash while a record was being written does not block recovery. A private regular file whose
  name the store gives to its temporary files, for any session, process and clock value, is skipped by
  the recovery listing.
\<close>

theorem leftover_skipped:
  assumes "wf_session_id i" "n \<noteq> 0" "tick < 2 ^ 128"
    and "h_symlink_metadata h (path_join (fs_root st) (temporary_name i n tick)) w = (Inr m, w')"
    and "md_type m = RegularFile" "validate_regular_metadata m (fs_policy st) ''temporary state file'' = Inr ()"
  shows "load_entry h st \<lparr>de_name = str_bytes (temporary_name i n tick), de_type = Inr RegularFile\<rparr> w = (Inr None, w')"
proof -
  have "temporary_name i n tick \<noteq> ''.mutating.lock''" "starts_with ''.'' (temporary_name i n tick)"
    by (rule temporary_name_not_lock) (simp add: temporary_name_def starts_with_def)
  with temporary_name_found temporary_name_valid [OF assms(1-3)] assms(4-6) temporary_name_utf8
  show ?thesis
    by (simp add: load_entry_def entry_str_def Let_def validate_entry_metadata_def validate_regular_path_def
      regular_identity_def durably_def io_call_def abind_def areturn_def)
qed

text \<open>The suffix is stripped as often as it occurs, so a doubled one names the same session.\<close>

lemma doubled_suffix_is_alias:
  assumes "\<not> ends_with ''.state'' s"
  shows "trim_end_matches ''.state'' (s @ ''.state.state'') = s"
proof -
  have ends: "ends_with ''.state'' (u @ ''.state'')" for u by (simp add: ends_with_def starts_with_def)
  have strip: "trim_end_matches ''.state'' (u @ ''.state'') = trim_end_matches ''.state'' u" for u
    using ends [of u] by (subst trim_end_matches.simps) simp
  have "trim_end_matches ''.state'' ((s @ ''.state'') @ ''.state'') = s"
    unfolding strip using assms by (subst trim_end_matches.simps) simp
  then show ?thesis by simp
qed

section \<open>The lock\<close>

definition wf_owner :: "process_identity \<Rightarrow> bool" where
  "wf_owner ident \<longleftrightarrow> ps_pid ident \<noteq> 0 \<and> ps_generation ident \<noteq> 0
     \<and> length (ps_boot_id ident) = 16 \<and> ps_boot_id ident \<noteq> replicate 16 0"

lemma lock_owner_roundtrip:
  assumes "wf_owner ident"
  shows "parse_lock_owner (encode_lock_owner ident) = Inr ident"
proof -
  let ?n = "CHR 0x0A :: char"
  let ?p = "dec_digits (unat (ps_pid ident))" and ?g = "dec_digits (unat (ps_generation ident))"
    and ?b = "encode_hex (ps_boot_id ident)"
  have one: "\<forall>c \<in> set s. c \<noteq> ?n \<and> c \<noteq> CHR 0x0D" if "set s \<subseteq> set HEX" for s
    using HEX_plain that by blast
  note plain = one [OF dec_digits_chars] one [OF encode_hex_chars]
  let ?t = "''version=1'' @ [?n] @ ''pid='' @ ?p @ [?n] @ ''start='' @ ?g @ [?n] @ ''boot='' @ ?b @ [?n]"
  have "utf8 ?t" by (rule utf8_plain)
    (auto dest!: subsetD [OF encode_hex_chars] subsetD [OF dec_digits_chars] HEX_plain(5))
  then have decoded: "from_utf8 (encode_lock_owner ident) = Some ?t" by (simp add: encode_lock_owner_def)
  have "lines ?t = [''version=1'', ''pid='' @ ?p, ''start='' @ ?g, ''boot='' @ ?b]"
  proof -
    have "lines (''version=1'' @ ?n # (''pid='' @ ?p) @ ?n # (''start='' @ ?g) @ ?n # (''boot='' @ ?b) @ ?n # [])
        = [''version=1'', ''pid='' @ ?p, ''start='' @ ?g, ''boot='' @ ?b]"
      using plain by (subst lines_of, force)+ (simp add: lines_nil)
    then show ?thesis by simp
  qed
  moreover have "parse_lock_field (''pid='' @ ?p) ''pid'' = Inr ?p" "parse_lock_field (''start='' @ ?g) ''start'' = Inr ?g"
    using dec_digits_nonempty by (auto simp: parse_lock_field_def strip_prefix_def starts_with_def)
  moreover have "parse_lock_field (''boot='' @ ?b) ''boot'' = Inr ?b" "decode_hex_16 ?b = Some (ps_boot_id ident)"
    using assms by (auto simp: parse_lock_field_def strip_prefix_def starts_with_def decode_hex_16_def
      decode_pairs_encode_hex wf_owner_def dest: arg_cong [where f = length])
  moreover have "unat (ps_pid ident) < 2 ^ 32" "unat (ps_generation ident) < 2 ^ 64"
    using unsigned_less [of "ps_pid ident"] unsigned_less [of "ps_generation ident"] by simp_all
  ultimately show ?thesis using assms decoded
    by (simp add: parse_lock_owner_def with_boot_id_def wf_owner_def)
qed

text \<open>
  C33: a held lock stays held while its owner lives, and a dead owner does not hold it. When the lock file
  exists and holds what an acquiring process writes into it, an attempt to acquire fails as held, and
  removes nothing, exactly if the process of that number is still the owner; otherwise the file is
  removed, provided it is still the inspected one, and the next attempt runs.
\<close>

theorem lock_follows_owner:
  assumes "wf_owner owner"
    and "create_lock h st p self w = (Inl AlreadyExists, None, w0)"
    and "validate_regular_path h p (fs_policy st) ''lock file'' w0 = (Inr identity, w1)"
    and "read_verified_file h p (fs_policy st) 256 w1 = (Inr (encode_lock_owner owner), w2)"
    and "host_probe h (ps_pid owner) w2 = (Inr found, w3)"
  shows "(found = Some owner \<longrightarrow> acquire_attempts h st p self (Suc n) w = (Inl lock_held, w3))
    \<and> (found \<noteq> Some owner \<longrightarrow> (case remove_file_if_identity h p identity w3 of
        (Inl e, w4) \<Rightarrow> acquire_attempts h st p self (Suc n) w = (Inl (state_io_error DurabilityError e), w4)
      | (Inr False, w4) \<Rightarrow> acquire_attempts h st p self (Suc n) w = (Inl lock_held, w4)
      | (Inr True, w4) \<Rightarrow> \<exists>w5. acquire_attempts h st p self (Suc n) w = acquire_attempts h st p self n w5))"
proof -
  have strong: "ps_generation owner \<noteq> 0" "ps_boot_id owner \<noteq> replicate 16 0" using assms(1) by (simp_all add: wf_owner_def)
  have live: "(case found of None \<Rightarrow> True | Some current \<Rightarrow> \<not> same_generation current owner) \<longleftrightarrow> found \<noteq> Some owner"
    using strong by (cases found) (auto simp: same_generation_iff)
  let ?tail = "\<lambda>removed. if \<not> removed then areturn (Inr False)
     else (\<lambda>w. case path_parent p of
         None \<Rightarrow> (Inr True, w)
       | Some parent \<Rightarrow> (case sync_path h parent w of (_, w) \<Rightarrow> (Inr True, w)))"
  have "reclaim_stale_lock h p (fs_policy st) w0 =
      (if found = Some owner then (Inr False, w3) else abind (durably (remove_file_if_identity h p identity)) ?tail w3)"
    using assms(3-5) lock_owner_roundtrip [OF assms(1)] live
    by (simp add: reclaim_stale_lock_def abind_def areturn_def)
  with assms(2) show ?thesis
    by (auto simp: durably_def io_call_def abind_def areturn_def split: prod.split sum.split bool.split option.split)
qed

text \<open>
  C34: an empty lock file is never reclaimed. The lock file is created first and its owner is written
  afterwards; a crash in between leaves a private empty file, and with it every later attempt to
  acquire the lock ends with an error instead of taking the lock over.
\<close>

theorem empty_lock_blocks:
  assumes "create_lock h st p self w = (Inl AlreadyExists, None, w0)"
    and "validate_regular_path h p (fs_policy st) ''lock file'' w0 = (Inr identity, w1)"
    and "read_verified_file h p (fs_policy st) 256 w1 = (Inr [], w2)"
  shows "acquire_attempts h st p self (Suc n) w = (Inl (lock_corrupt ''lock metadata format is unsupported''), w2)"
proof -
  have "parse_lock_owner [] = Inl (lock_corrupt ''lock metadata format is unsupported'')"
    by (simp add: parse_lock_owner_def from_utf8_def bytes_str_def lines_nil)
  with assms show ?thesis by (simp add: reclaim_stale_lock_def abind_def areturn_def)
qed

section \<open>Session identities\<close>

lemma draw_id_step: "h_read h f (Some 16) w = (Inr (replicate 16 0), w') \<Longrightarrow> draw_id h f w = draw_id h f w'"
  by (subst draw_id.simps) simp

definition endless_zeros :: "'w host \<Rightarrow> fd \<Rightarrow> 'w \<Rightarrow> bool" where
  "endless_zeros h f w \<longleftrightarrow> (\<exists>ws. ws 0 = w \<and> (\<forall>i. h_read h f (Some 16) (ws i) = (Inr (replicate 16 0), ws (Suc i))))"

lemma endless_zeros_step:
  assumes "endless_zeros h f w"
  obtains w' where "h_read h f (Some 16) w = (Inr (replicate 16 0), w')" "endless_zeros h f w'"
proof -
  from assms obtain ws where ws: "ws 0 = w" "\<And>i. h_read h f (Some 16) (ws i) = (Inr (replicate 16 0), ws (Suc i))"
    by (auto simp: endless_zeros_def)
  then have "endless_zeros h f (ws (Suc 0))" unfolding endless_zeros_def by (intro exI [of _ "\<lambda>i. ws (Suc i)"]) simp
  with ws that show thesis by metis
qed

lemma draw_id_returned:
  assumes "draw_id h f w = Some y"
  shows "\<not> endless_zeros h f w"
proof (rule draw_id.raw_induct [where P = "\<lambda>h f w y. \<not> endless_zeros h f w", OF _ assms])
  fix draw and h :: "'a host" and f w y
  assume ih: "\<And>h f w y. draw h f w = Some y \<Longrightarrow> \<not> endless_zeros h f w"
    and body: "(case h_read h f (Some 16) w of
        (Inl e, w) \<Rightarrow> Some (Inl (state_io_error DurabilityError e), w)
      | (Inr bytes, w) \<Rightarrow>
          (if length bytes < 16 then Some (Inl (state_io_error DurabilityError OtherKind), w)
           else if bytes \<noteq> replicate 16 0 then Some (Inr (SessionId bytes), w)
           else draw h f w)) = Some y"
  show "\<not> endless_zeros h f w"
  proof
    assume "endless_zeros h f w"
    then obtain w' where "h_read h f (Some 16) w = (Inr (replicate 16 0), w')" "endless_zeros h f w'"
      by (rule endless_zeros_step)
    with body ih [of h f w' y] show False by simp
  qed
qed

text \<open>
  C35: the entropy loop ends unless the kernel answers zeros for ever. Drawing an identity fails to
  return exactly if there is an endless sequence of reads that each give sixteen zero bytes.
\<close>

theorem draw_id_ends: "draw_id h f w = None \<longleftrightarrow> endless_zeros h f w"
proof
  assume none: "draw_id h f w = None"
  define ws where "ws i = ((\<lambda>w. snd (h_read h f (Some 16) w)) ^^ i) w" for i
  have zero: "h_read h f (Some 16) v = (Inr (replicate 16 0), snd (h_read h f (Some 16) v))"
    if "draw_id h f v = None" for v
    using that by (subst (asm) draw_id.simps) (auto split: prod.splits sum.splits if_splits)
  have "draw_id h f (ws i) = None" for i
  proof (induction i)
    case (Suc i)
    from draw_id_step [OF zero [OF Suc]] Suc show ?case by (simp add: ws_def)
  qed (simp add: ws_def none)
  with zero show "endless_zeros h f w"
    unfolding endless_zeros_def by (intro exI [of _ ws]) (simp add: ws_def)
qed (use draw_id_returned [of h f w] in \<open>cases "draw_id h f w"; blast\<close>)

end
