(* ===== verification/State_Witnesses.thy ===== *)
theory State_Witnesses
  imports State_Safety State_Recovery Codec_Roundtrip
begin

text \<open>
  A concrete host for the results on the state files: the state root and private files in it exist,
  every call on them succeeds, a file reads as given, and no process is running. Its world remembers whether
  the last file opened was a regular one.
\<close>

definition private_file :: metadata where
  "private_file = \<lparr>md_type = RegularFile, md_dev = 1, md_ino = 2, md_uid = 0, md_gid = 0, md_mode = 0x8180, md_nlink = 1\<rparr>"

definition private_directory :: metadata where
  "private_directory = private_file\<lparr>md_type := Directory, md_mode := 0x41C0\<rparr>"

definition answering_host :: "u8 list \<Rightarrow> bool host" where
  "answering_host content = \<lparr>
     h_symlink_metadata = (\<lambda>p w. (Inr (if p = DEFAULT_STATE_ROOT then private_directory else private_file), w)),
     h_canonicalize = (\<lambda>p w. (Inr p, w)), h_read_dir = (\<lambda>_ w. (Inr [], w)),
     h_open = (\<lambda>opts p w. if oo_create_new opts \<and> p = lock_path store_production then (Inl AlreadyExists, w)
       else (Inr 3, p \<noteq> DEFAULT_STATE_ROOT)),
     h_metadata = (\<lambda>_ w. (Inr (if w then private_file else private_directory), w)),
     h_read = (\<lambda>_ limit w. (Inr (limited limit content), w)), h_write_all = (\<lambda>_ _ w. (Inr (), w)),
     h_sync_all = (\<lambda>_ w. (Inr (), w)), h_create_dir = (\<lambda>_ _ w. (Inr (), w)), h_remove_dir = (\<lambda>_ w. (Inr (), w)),
     h_remove_file = (\<lambda>_ w. (Inr (), w)), h_rename = (\<lambda>_ _ w. (Inr (), w)), h_getpriority = (\<lambda>_ w. (Inr 0, w)),
     h_setpriority = (\<lambda>_ _ w. (Inr (), w)), h_process_id = 7,
     h_read_to_string = (\<lambda>_ w. (Inl NotFound, w)),
     h_clock_nanos = (\<lambda>w. (1000, w))\<rparr>"

definition example_owner :: process_identity where
  "example_owner = \<lparr>ps_pid = 7, ps_generation = 55, ps_boot_id = replicate 16 1\<rparr>"

theorem write_atomic_crash_safe_witness:
  "\<exists>bytes. SessionRecord_encode example_record = Inr bytes
    \<and> (case write_atomic (recording_host (answering_host [])) store_production example_record True (False, []) of
        (r, _, log) \<Rightarrow> r = Inr () \<and> replaced DEFAULT_STATE_ROOT
          (state_path store_production (sr_session_id example_record)) bytes Map.empty r log)"
proof -
  let ?run = "write_atomic (recording_host (answering_host [])) store_production example_record True (False, [])"
  obtain bytes where bytes: "SessionRecord_encode example_record = Inr bytes"
    using example_encodes by (cases "SessionRecord_encode example_record") auto
  have join: "path_join DEFAULT_STATE_ROOT s = ''/run/sysboost/'' @ s" if "\<not> starts_with ''/'' s" for s
    using that by (simp add: path_join_def DEFAULT_STATE_ROOT_def starts_with_def ends_with_def)
  have paths: "DEFAULT_STATE_ROOT \<noteq> state_path store_production (sr_session_id example_record)"
    "DEFAULT_STATE_ROOT \<noteq> path_join DEFAULT_STATE_ROOT (temporary_name i n tick)"
    "DEFAULT_STATE_ROOT \<noteq> lock_path store_production"
    "path_join DEFAULT_STATE_ROOT (temporary_name i n tick) \<noteq> lock_path store_production" for i n tick
  proof -
    have temp: "path_join DEFAULT_STATE_ROOT (temporary_name i n tick) = ''/run/sysboost/'' @ temporary_name i n tick"
      by (rule join) (simp add: temporary_name_def starts_with_def)
    have lock: "lock_path store_production = ''/run/sysboost/'' @ ''.mutating.lock''"
      unfolding lock_path_def by (simp add: store_production_def join starts_with_def)
    show "DEFAULT_STATE_ROOT \<noteq> path_join DEFAULT_STATE_ROOT (temporary_name i n tick)"
      "DEFAULT_STATE_ROOT \<noteq> lock_path store_production"
      unfolding temp lock by (simp_all add: DEFAULT_STATE_ROOT_def)
    show "path_join DEFAULT_STATE_ROOT (temporary_name i n tick) \<noteq> lock_path store_production"
      unfolding temp lock by (simp only: same_append_eq temporary_name_not_lock) simp
    show "DEFAULT_STATE_ROOT \<noteq> state_path store_production (sr_session_id example_record)"
      by (auto simp: state_path_def store_production_def path_join_def DEFAULT_STATE_ROOT_def starts_with_def
        ends_with_def split: if_splits dest: arg_cong [where f = length])
  qed
  have ok: "fst ?run = Inr ()" using bytes paths paths(2) [symmetric]
    by (simp add: write_atomic_def Let_def store_root_def ensure_runtime_root_def validate_target_for_write_def
      validate_regular_path_def regular_identity_def validate_regular_metadata_def validate_directory_metadata_def
      write_through_def fill_and_rename_def settle_def sync_directory_def validate_open_file_def
      noting_def io_bind_def io_return_def as_io_def durably_def io_call_def abind_def areturn_def
      answering_host_def store_production_def root_owned_def private_file_def private_directory_def
      read_options_def create_options_def)
  obtain r w' log where run: "?run = (r, w', log)" by (metis prod_cases3)
  from write_atomic_crash_safe [OF run bytes, of Map.empty] ok run bytes show ?thesis
    by (auto simp: store_production_def)
qed

theorem leftover_skipped_witness:
  "load_entry (answering_host []) store_production
     \<lparr>de_name = str_bytes (temporary_name (SessionId (replicate 16 1)) 7 1000), de_type = Inr RegularFile\<rparr> True = (Inr None, True)"
  by (rule leftover_skipped [where m = private_file])
    (simp_all add: answering_host_def store_production_def root_owned_def DEFAULT_STATE_ROOT_def wf_session_id_def
      temporary_name_def path_join_def starts_with_def ends_with_def private_file_def validate_regular_metadata_def)

theorem lock_follows_owner_witness:
  "\<exists>w. acquire_attempts (answering_host (encode_lock_owner example_owner)) store_production (lock_path store_production)
     example_owner 2 True = acquire_attempts (answering_host (encode_lock_owner example_owner)) store_production
       (lock_path store_production) example_owner 1 w"
proof -
  let ?h = "answering_host (encode_lock_owner example_owner)" and ?p = "lock_path store_production"
  have 1: "wf_owner example_owner" by code_simp
  have 2: "create_lock ?h store_production ?p example_owner True = (Inl AlreadyExists, None, True)" by code_simp
  have 3: "validate_regular_path ?h ?p (fs_policy store_production) ''lock file'' True = (Inr (FileIdentity 1 2), True)"
    by code_simp
  have 4: "read_verified_file ?h ?p (fs_policy store_production) 256 True = (Inr (encode_lock_owner example_owner), True)"
    by code_simp
  have 5: "host_probe ?h (ps_pid example_owner) True = (Inr None, True)"
    by (simp add: host_probe_def read_as_def answering_host_def probe_process_def)
  have 6: "remove_file_if_identity ?h ?p (FileIdentity 1 2) True = (Inr True, True)" by code_simp
  from lock_follows_owner [OF 1 2 3 4 5, of 1] 6 show ?thesis by (simp add: numeral_2_eq_2)
qed

theorem empty_lock_blocks_witness:
  "acquire_attempts (answering_host []) store_production (lock_path store_production) example_owner 2 True
     = (Inl (lock_corrupt ''lock metadata format is unsupported''), True)"
proof -
  let ?h = "answering_host []" and ?p = "lock_path store_production"
  have 1: "create_lock ?h store_production ?p example_owner True = (Inl AlreadyExists, None, True)" by code_simp
  have 2: "validate_regular_path ?h ?p (fs_policy store_production) ''lock file'' True = (Inr (FileIdentity 1 2), True)"
    by code_simp
  have 3: "read_verified_file ?h ?p (fs_policy store_production) 256 True = (Inr [], True)" by code_simp
  from empty_lock_blocks [OF 1 2 3, of 1] show ?thesis by (simp add: numeral_2_eq_2)
qed

end
