(* ===== verification/Workload_Backend.thy ===== *)
theory Workload_Backend
  imports Backends Plan_Text
begin

text \<open>
  The scheduler and cgroup-v2 backend of \<open>sysboost-linux/src/workload.rs\<close> over its control port: the
  closed node vocabulary, observations, the read-only inspection view, the snapshot, apply, verify and
  restore stages, the admission and target checks, the descriptor and the operation catalog. The
  \<open>expect\<close> of \<open>ProcessId::target_id\<close> never fails (\<open>process_target_id_injective\<close>), so \<open>the\<close> stands for it.
  \<open>Cgroup_Fixture\<close> and \<open>Cgroup_Sysfs\<close> hold the two implementations of the port.
\<close>

section \<open>Nodes, observations and the control port\<close>

datatype workload_node = WlCpuWeight | WlCpuMax | WlCpuset | WlIoWeight | WlUclampMin | WlUclampMax

fun controller :: "workload_node \<Rightarrow> string" where
  "controller WlCpuset = ''cpuset''"
| "controller WlIoWeight = ''io''"
| "controller _ = ''cpu''"

fun node_filename :: "workload_node \<Rightarrow> string" where
  "node_filename WlCpuWeight = ''cpu.weight''"
| "node_filename WlCpuMax = ''cpu.max''"
| "node_filename WlCpuset = ''cpuset.cpus''"
| "node_filename WlIoWeight = ''io.weight''"
| "node_filename WlUclampMin = ''cpu.uclamp.min''"
| "node_filename WlUclampMax = ''cpu.uclamp.max''"

record workload_target =
  wt_identity :: cgroup_id
  wt_relative_path :: string

record workload_observation =
  wo_raw :: bounded_bytes
  wo_typed :: typed_value
  wo_fingerprint :: state_fingerprint
  wo_target_identity :: target_identity

record 'w workload_io =
  wl_detect :: "('w, timestamp) action \<Rightarrow> ('w, capability_inventory) action"
  wl_targets :: "('w, workload_target list) action"
  wl_read_node :: "cgroup_id \<Rightarrow> workload_node \<Rightarrow> ('w, u8 list) action"
  wl_read_mutation :: "mutation_kind \<Rightarrow> ('w, workload_observation) action"
  wl_read_process :: "mutation_kind \<Rightarrow> ('w, workload_observation) action"
  wl_validate_desired :: "mutation_kind \<Rightarrow> typed_value \<Rightarrow> ('w, unit) action"
  wl_write_mutation :: "mutation_kind \<Rightarrow> typed_value \<Rightarrow> ('w, unit) action"

definition workload_error :: "error_code \<Rightarrow> string \<Rightarrow> sysboost_error" where
  "workload_error code message = with_stage Apply (SysboostError_new code message)"

definition wl_unsupported :: "string \<Rightarrow> sysboost_error" where
  "wl_unsupported message = workload_error error_code.Unsupported message"

definition wl_target_error :: "string \<Rightarrow> sysboost_error" where
  "wl_target_error message = workload_error TargetError message"

definition permission_error :: "string \<Rightarrow> sysboost_error" where
  "permission_error message = workload_error AuthorizationError message"

definition WorkloadObservation_new ::
    "u8 list \<Rightarrow> typed_value \<Rightarrow> target_identity \<Rightarrow> workload_observation result" where
  "WorkloadObservation_new raw typed identity =
     rbind (BoundedBytes_new raw) (\<lambda>raw. Inr \<lparr>wo_raw = raw, wo_typed = typed,
       wo_fingerprint = fingerprint_for_value (Typed typed), wo_target_identity = identity\<rparr>)"

definition typed_shape_matches :: "mutation_kind \<Rightarrow> typed_value \<Rightarrow> bool" where
  "typed_shape_matches kind typed \<longleftrightarrow>
     (case kind of
        mutation_kind.CgroupCpuWeight _ _ \<Rightarrow> (case typed of typed_value.CgroupCpuWeight _ \<Rightarrow> True | _ \<Rightarrow> False)
      | mutation_kind.CgroupCpuMax _ _ _ \<Rightarrow> (case typed of typed_value.CgroupCpuMax _ _ \<Rightarrow> True | _ \<Rightarrow> False)
      | mutation_kind.CgroupCpuset _ _ \<Rightarrow> (case typed of typed_value.CgroupCpuset _ \<Rightarrow> True | _ \<Rightarrow> False)
      | mutation_kind.CgroupIoWeight _ _ \<Rightarrow> (case typed of typed_value.CgroupIoWeight _ \<Rightarrow> True | _ \<Rightarrow> False)
      | mutation_kind.CgroupUclampMin _ _ \<Rightarrow> (case typed of typed_value.CgroupUclamp _ \<Rightarrow> True | _ \<Rightarrow> False)
      | mutation_kind.CgroupUclampMax _ _ \<Rightarrow> (case typed of typed_value.CgroupUclamp _ \<Rightarrow> True | _ \<Rightarrow> False)
      | mutation_kind.CgroupWorkload _ _ \<Rightarrow> (case typed of typed_value.CgroupLifecycle _ _ _ \<Rightarrow> True | _ \<Rightarrow> False)
      | mutation_kind.CgroupBackground _ _ \<Rightarrow> (case typed of typed_value.CgroupLifecycle _ _ _ \<Rightarrow> True | _ \<Rightarrow> False)
      | mutation_kind.ProcessNice _ _ \<Rightarrow> (case typed of typed_value.Nice _ \<Rightarrow> True | _ \<Rightarrow> False)
      | mutation_kind.ProcessIoPriority _ _ \<Rightarrow>
          (case typed of typed_value.IoPriorityValue _ \<Rightarrow> True | _ \<Rightarrow> False)
      | mutation_kind.ProcessPlacement _ _ \<Rightarrow>
          (case typed of typed_value.ProcessPlacement _ \<Rightarrow> True | _ \<Rightarrow> False)
      | _ \<Rightarrow> False)"

section \<open>Inspection\<close>

definition ROOT_TARGET :: string where "ROOT_TARGET = ''cgroup.root''"

definition read_nice :: "'w workload_io \<Rightarrow> process_id \<Rightarrow> ('w, nice_value) action" where
  "read_nice io process =
     abind (areturn (NiceValue_new 0)) (\<lambda>nice.
     abind (wl_read_process io (mutation_kind.ProcessNice process nice)) (\<lambda>observation.
     areturn (case wo_typed observation of
         typed_value.Nice v \<Rightarrow> Inr v
       | _ \<Rightarrow> Inl (workload_error InvariantViolation
           ''workload inspection returned a non-nice process value''))))"

definition read_placement :: "'w workload_io \<Rightarrow> process_id \<Rightarrow> ('w, cgroup_id) action" where
  "read_placement io process =
     abind (wl_read_process io
       (mutation_kind.ProcessPlacement process (CgroupId 0 0 (TargetId ROOT_TARGET)))) (\<lambda>observation.
     areturn (case wo_typed observation of
         typed_value.ProcessPlacement v \<Rightarrow> Inr v
       | _ \<Rightarrow> Inl (workload_error InvariantViolation
           ''workload inspection returned a non-placement process value'')))"

definition read_ioprio :: "'w workload_io \<Rightarrow> process_id \<Rightarrow> ('w, io_priority) action" where
  "read_ioprio io process =
     abind (areturn (IoPriority_new NoClass 0)) (\<lambda>priority.
     abind (wl_read_process io (mutation_kind.ProcessIoPriority process priority)) (\<lambda>observation.
     areturn (case wo_typed observation of
         typed_value.IoPriorityValue v \<Rightarrow> Inr v
       | _ \<Rightarrow> Inl (workload_error InvariantViolation
           ''workload inspection returned a non-ioprio process value''))))"

section \<open>Targets\<close>

definition wl_expected_target :: "planned_mutation \<Rightarrow> target_id result" where
  "wl_expected_target mutation =
     (case pm_kind mutation of
        mutation_kind.CgroupCpuWeight cgroup _ \<Rightarrow> Inr (handle cgroup)
      | mutation_kind.CgroupCpuMax cgroup _ _ \<Rightarrow> Inr (handle cgroup)
      | mutation_kind.CgroupCpuset cgroup _ \<Rightarrow> Inr (handle cgroup)
      | mutation_kind.CgroupIoWeight cgroup _ \<Rightarrow> Inr (handle cgroup)
      | mutation_kind.CgroupUclampMin cgroup _ \<Rightarrow> Inr (handle cgroup)
      | mutation_kind.CgroupUclampMax cgroup _ \<Rightarrow> Inr (handle cgroup)
      | mutation_kind.CgroupWorkload parent _ \<Rightarrow> Inr (handle parent)
      | mutation_kind.CgroupBackground parent _ \<Rightarrow> Inr (handle parent)
      | mutation_kind.ProcessPlacement process _ \<Rightarrow> Inr (the (process_target_id process))
      | mutation_kind.ProcessNice process _ \<Rightarrow> Inr (the (process_target_id process))
      | mutation_kind.ProcessIoPriority process _ \<Rightarrow> Inr (the (process_target_id process))
      | _ \<Rightarrow> Inl (wl_unsupported ''workload backend does not own this operation''))"

definition validate_observation ::
    "planned_mutation \<Rightarrow> workload_observation \<Rightarrow> target_identity \<Rightarrow> unit result" where
  "validate_observation mutation observation expected =
     (if wo_target_identity observation \<noteq> expected
      then Inl (wl_target_error ''workload target identity changed'')
      else if wo_fingerprint observation \<noteq> fingerprint_for_value (Typed (wo_typed observation))
      then Inl (wl_target_error ''workload adapter returned an invalid fingerprint'')
      else if typed_shape_matches (pm_kind mutation) (wo_typed observation)
        \<and> wo_fingerprint observation = pm_precondition mutation
      then Inr ()
      else Inl (wl_target_error ''workload target value or typed shape changed since planning''))"

definition wl_read :: "'w workload_io \<Rightarrow> planned_mutation \<Rightarrow> ('w, workload_observation) action" where
  "wl_read io mutation =
     (case pm_kind mutation of
        mutation_kind.ProcessNice _ _ \<Rightarrow> wl_read_process io (pm_kind mutation)
      | mutation_kind.ProcessIoPriority _ _ \<Rightarrow> wl_read_process io (pm_kind mutation)
      | mutation_kind.ProcessPlacement _ _ \<Rightarrow> wl_read_process io (pm_kind mutation)
      | _ \<Rightarrow> wl_read_mutation io (pm_kind mutation))"

definition validate_canonical_target ::
    "'w workload_io \<Rightarrow> planned_mutation \<Rightarrow> target_identity \<Rightarrow> ('w, workload_observation) action" where
  "validate_canonical_target io mutation expected =
     abind (areturn (wl_expected_target mutation)) (\<lambda>target.
     if pm_target mutation \<noteq> target
     then areturn (Inl (wl_target_error ''workload target is not the canonical discovered target''))
     else abind (wl_read io mutation) (\<lambda>observation.
     if wo_target_identity observation \<noteq> expected
     then areturn (Inl (wl_target_error ''workload target identity does not match the plan''))
     else abind (wl_validate_desired io (pm_kind mutation) (pm_desired mutation)) (\<lambda>_.
       areturn (Inr observation))))"

section \<open>The mutation stages\<close>

definition wl_snapshot :: "'w workload_io \<Rightarrow> planned_mutation \<Rightarrow> timestamp \<Rightarrow> ('w, snapshot) action" where
  "wl_snapshot io mutation now =
     abind (wl_read io mutation) (\<lambda>observation.
     abind (areturn (validate_observation mutation observation (wo_target_identity observation))) (\<lambda>_.
     if wo_typed observation = pm_desired mutation
     then areturn (Inl (workload_error InvariantViolation
       ''workload mutation already equals its current value''))
     else areturn (Inr \<lparr>sn_mutation_id = pm_mutation_id mutation, sn_target = pm_target mutation,
       sn_original_raw = wo_raw observation, sn_original_typed = wo_typed observation,
       sn_original_fingerprint = wo_fingerprint observation, sn_equality = pm_equality mutation,
       sn_target_identity = wo_target_identity observation, sn_captured_at = now\<rparr>)))"

definition wl_apply :: "'w workload_io \<Rightarrow> planned_mutation \<Rightarrow> snapshot \<Rightarrow> ('w, apply_receipt) action" where
  "wl_apply io mutation snapshot =
     abind (wl_read io mutation) (\<lambda>current.
     if wo_target_identity current \<noteq> sn_target_identity snapshot
        \<or> wo_fingerprint current \<noteq> pm_precondition mutation
     then areturn (Inl (wl_target_error ''workload target changed before apply''))
     else abind (wl_validate_desired io (pm_kind mutation) (pm_desired mutation)) (\<lambda>_.
     abind (wl_write_mutation io (pm_kind mutation) (pm_desired mutation)) (\<lambda>_.
     abind (wl_read io mutation) (\<lambda>after.
     if wo_target_identity after \<noteq> sn_target_identity snapshot
        \<or> wo_fingerprint after \<noteq> fingerprint_for_value (Typed (pm_desired mutation))
     then areturn (Inl (workload_error VerificationError
       ''workload apply readback did not prove the desired value''))
     else areturn (Inr \<lparr>ar_mutation_id = pm_mutation_id mutation,
       ar_observed_precondition = wo_fingerprint current,
       ar_observed_postcondition = wo_fingerprint after,
       ar_ownership_fingerprint = wo_fingerprint after\<rparr>)))))"

definition wl_verify ::
    "'w workload_io \<Rightarrow> planned_mutation \<Rightarrow> target_identity \<Rightarrow> ('w, state_fingerprint) action" where
  "wl_verify io mutation expected =
     abind (wl_read io mutation) (\<lambda>observation.
     if wo_target_identity observation \<noteq> expected
     then areturn (Inl (wl_target_error ''workload target identity changed during verification''))
     else areturn (Inr (wo_fingerprint observation)))"

definition wl_restore ::
    "'w workload_io \<Rightarrow> planned_mutation \<Rightarrow> snapshot \<Rightarrow> state_fingerprint \<Rightarrow> ('w, restore_receipt) action" where
  "wl_restore io mutation snapshot ownership =
     abind (wl_read io mutation) (\<lambda>current.
     if wo_target_identity current \<noteq> sn_target_identity snapshot
     then areturn (Inl (wl_target_error ''workload target identity changed before restore''))
     else if wo_fingerprint current \<noteq> ownership
     then areturn (Inl (workload_error RestoreConflict
       ''workload target changed outside this session; restore refused''))
     else abind (wl_write_mutation io (pm_kind mutation) (sn_original_typed snapshot)) (\<lambda>_.
     abind (wl_read io mutation) (\<lambda>restored.
     if wo_target_identity restored \<noteq> sn_target_identity snapshot
        \<or> wo_fingerprint restored \<noteq> sn_original_fingerprint snapshot
     then areturn (Inl (workload_error RestoreError
       ''workload restore readback did not prove the captured original''))
     else areturn (Inr \<lparr>rr_mutation_id = pm_mutation_id mutation,
       rr_restored_fingerprint = wo_fingerprint restored, rr_verified = True\<rparr>))))"

section \<open>Ownership, admission and the backend\<close>

definition WORKLOAD_BACKEND_ID :: string where "WORKLOAD_BACKEND_ID = ''linux.workload''"

definition workload_descriptor :: backend_descriptor where
  "workload_descriptor = \<lparr>bd_id = BackendId WORKLOAD_BACKEND_ID, bd_version = ''prompt8'',
     bd_capabilities = map CapabilityId [''cgroup.cpu.weight'', ''cgroup.cpu.max'', ''cgroup.cpuset.cpus'',
       ''cgroup.io.weight'', ''cgroup.uclamp'', ''cgroup.workload'', ''cgroup.background'',
       ''scheduler.process.placement'', ''scheduler.nice'', ''scheduler.ioprio''],
     bd_operations = map OperationId [''cgroup.cpu.weight'', ''cgroup.cpu.max'', ''cgroup.cpuset.cpus'',
       ''cgroup.io.weight'', ''cgroup.uclamp.min'', ''cgroup.uclamp.max'', ''cgroup.workload'',
       ''cgroup.background'', ''scheduler.process.placement'', ''scheduler.nice'', ''scheduler.ioprio'']\<rparr>"

text \<open>The capability that owns each operation of this backend; \<open>None\<close> for the operations of others.\<close>

definition workload_owner :: "mutation_kind \<Rightarrow> string option" where
  "workload_owner kind =
     (case kind of
        mutation_kind.CgroupCpuWeight _ _ \<Rightarrow> Some ''cgroup.cpu.weight''
      | mutation_kind.CgroupCpuMax _ _ _ \<Rightarrow> Some ''cgroup.cpu.max''
      | mutation_kind.CgroupCpuset _ _ \<Rightarrow> Some ''cgroup.cpuset.cpus''
      | mutation_kind.CgroupIoWeight _ _ \<Rightarrow> Some ''cgroup.io.weight''
      | mutation_kind.CgroupUclampMin _ _ \<Rightarrow> Some ''cgroup.uclamp''
      | mutation_kind.CgroupUclampMax _ _ \<Rightarrow> Some ''cgroup.uclamp''
      | mutation_kind.CgroupWorkload _ _ \<Rightarrow> Some ''cgroup.workload''
      | mutation_kind.CgroupBackground _ _ \<Rightarrow> Some ''cgroup.background''
      | mutation_kind.ProcessPlacement _ _ \<Rightarrow> Some ''scheduler.process.placement''
      | mutation_kind.ProcessNice _ _ \<Rightarrow> Some ''scheduler.nice''
      | mutation_kind.ProcessIoPriority _ _ \<Rightarrow> Some ''scheduler.ioprio''
      | _ \<Rightarrow> None)"

definition wl_validate_admission ::
    "'w workload_io \<Rightarrow> planned_mutation \<Rightarrow> target_identity \<Rightarrow> ('w, unit) action" where
  "wl_validate_admission io mutation expected =
     (if \<not> owns_operation workload_descriptor mutation
         \<or> workload_owner (pm_kind mutation) \<noteq> Some (capability_str (pm_capability mutation))
         \<or> pm_capability mutation \<notin> set (bd_capabilities workload_descriptor)
      then areturn (Inl (wl_unsupported ''workload backend does not own operation/capability''))
      else abind (validate_canonical_target io mutation expected) (\<lambda>observation.
        if wo_fingerprint observation \<noteq> pm_precondition mutation
        then areturn (Inl (wl_target_error ''workload target value changed since planning''))
        else areturn (Inr ())))"

definition wl_validate_target ::
    "'w workload_io \<Rightarrow> planned_mutation \<Rightarrow> target_identity \<Rightarrow> ('w, unit) action" where
  "wl_validate_target io mutation expected =
     abind (validate_canonical_target io mutation expected) (\<lambda>_. areturn (Inr ()))"

definition WorkloadBackend :: "'w workload_io \<Rightarrow> 'w backend" where
  "WorkloadBackend io = \<lparr>be_descriptor = workload_descriptor, be_owns = default_owns workload_descriptor,
     be_detect = wl_detect io, be_snapshot = wl_snapshot io, be_apply = wl_apply io,
     be_verify = (\<lambda>m _ identity. wl_verify io m identity), be_restore = wl_restore io,
     be_admission = wl_validate_admission io, be_target = wl_validate_target io\<rparr>"

text \<open>\<open>ChildProcessSupervisor\<close>: the placement an observed child is given; its exit does nothing.\<close>

record child_process_supervisor =
  sv_destination :: cgroup_id

definition placement_for_child :: "child_process_supervisor \<Rightarrow> process_id \<Rightarrow> mutation_kind" where
  "placement_for_child self process = mutation_kind.ProcessPlacement process (sv_destination self)"

section \<open>The catalog and the capability descriptors\<close>

definition workload_contract ::
    "string \<Rightarrow> string \<Rightarrow> target_kind \<Rightarrow> control_id \<Rightarrow> equality_kind \<Rightarrow> risk_class \<Rightarrow> feature_class
     \<Rightarrow> bool \<Rightarrow> operation_contract" where
  "workload_contract operation capability target_kind control equality risk classification opt_in =
     OperationContract_complete (OperationId operation) (CapabilityId capability)
       (BackendId WORKLOAD_BACKEND_ID) target_kind control equality risk classification opt_in"

definition workload_operation_catalog :: operation_catalog where
  "workload_operation_catalog = OperationCatalog_new
     [workload_contract ''cgroup.cpu.weight'' ''cgroup.cpu.weight'' target_kind.Cgroup
        control_id.CgroupCpuWeight ScalarExact Medium RuntimeMutable False,
      workload_contract ''cgroup.cpu.max'' ''cgroup.cpu.max'' target_kind.Cgroup
        control_id.CgroupCpuMax ScalarExact Medium RuntimeMutable False,
      workload_contract ''cgroup.cpuset.cpus'' ''cgroup.cpuset.cpus'' target_kind.Cgroup
        control_id.CgroupCpuset SetExact Medium Conditional True,
      workload_contract ''cgroup.io.weight'' ''cgroup.io.weight'' target_kind.Cgroup
        control_id.CgroupIoWeight ScalarExact Medium Conditional True,
      workload_contract ''cgroup.uclamp.min'' ''cgroup.uclamp'' target_kind.Cgroup
        control_id.CgroupUclampMin ScalarExact Medium Conditional True,
      workload_contract ''cgroup.uclamp.max'' ''cgroup.uclamp'' target_kind.Cgroup
        control_id.CgroupUclampMax ScalarExact Medium Conditional True,
      workload_contract ''cgroup.workload'' ''cgroup.workload'' target_kind.Cgroup
        control_id.CgroupWorkload ScalarExact Medium Conditional True,
      workload_contract ''cgroup.background'' ''cgroup.background'' target_kind.Cgroup
        control_id.CgroupBackground ScalarExact Medium Conditional True,
      workload_contract ''scheduler.process.placement'' ''scheduler.process.placement'' target_kind.Process
        control_id.ProcessPlacement ScalarExact Medium Conditional True,
      workload_contract ''scheduler.nice'' ''scheduler.nice'' target_kind.Process
        control_id.ProcessNice ScalarExact Low RuntimeMutable True,
      workload_contract ''scheduler.ioprio'' ''scheduler.ioprio'' target_kind.Process
        control_id.ProcessIoPriority ScalarExact Low feature_class.Experimental True]"

definition workload_operation_descriptor ::
    "string \<Rightarrow> equality_kind \<Rightarrow> feature_class \<Rightarrow> operation_descriptor" where
  "workload_operation_descriptor operation equality classification =
     \<lparr>od_id = OperationId operation, od_privilege = PrivilegedMutation,
      od_equality = equality, od_classification = classification\<rparr>"

definition workload_capability ::
    "string \<Rightarrow> string \<Rightarrow> target_kind \<Rightarrow> equality_kind \<Rightarrow> capability_state \<Rightarrow> feature_class \<Rightarrow> string
     \<Rightarrow> capability_descriptor" where
  "workload_capability capability operation target_kind equality state classification evidence =
     \<lparr>cd_id = CapabilityId capability, cd_backend = BackendId WORKLOAD_BACKEND_ID,
      cd_target_kind = target_kind, cd_state = state,
      cd_operations = [workload_operation_descriptor operation equality classification],
      cd_privilege = PrivilegedMutation, cd_equality = equality, cd_risk = Medium,
      cd_classification = classification,
      cd_evidence = [\<lparr>ev_source = CgroupV2, ev_detail = evidence\<rparr>]\<rparr>"

definition uclamp_capability :: "capability_state \<Rightarrow> string \<Rightarrow> capability_descriptor" where
  "uclamp_capability state evidence =
     \<lparr>cd_id = CapabilityId ''cgroup.uclamp'', cd_backend = BackendId WORKLOAD_BACKEND_ID,
      cd_target_kind = target_kind.Cgroup, cd_state = state,
      cd_operations = map (\<lambda>operation. workload_operation_descriptor operation ScalarExact Conditional)
        [''cgroup.uclamp.min'', ''cgroup.uclamp.max''],
      cd_privilege = PrivilegedMutation, cd_equality = ScalarExact, cd_risk = Medium,
      cd_classification = Conditional,
      cd_evidence = [\<lparr>ev_source = CgroupV2, ev_detail = evidence\<rparr>]\<rparr>"

definition process_capability ::
    "string \<Rightarrow> string \<Rightarrow> capability_state \<Rightarrow> feature_class \<Rightarrow> string \<Rightarrow> capability_descriptor" where
  "process_capability capability operation state classification evidence =
     (let descriptor = workload_capability capability operation target_kind.Process ScalarExact state
        classification evidence
      in descriptor\<lparr>
        cd_risk := (if operation = ''scheduler.nice'' \<or> operation = ''scheduler.ioprio'' then Low else Medium),
        cd_evidence := (case cd_evidence descriptor of [] \<Rightarrow> []
          | item # rest \<Rightarrow> item\<lparr>ev_source := Procfs\<rparr> # rest)\<rparr>)"

section \<open>Identities and rendered values\<close>

definition process_identity_of :: "process_id \<Rightarrow> target_identity" where
  "process_identity_of process =
     TargetIdentity (to_be 4 (pid process) @ replicate 4 0 @ to_be 8 (start_time_ticks process))"

definition cgroup_identity_of :: "cgroup_id \<Rightarrow> target_identity" where
  "cgroup_identity_of cgroup = TargetIdentity (to_be 8 (mount_id cgroup) @ to_be 8 (inode cgroup))"

definition child_target :: "target_id \<Rightarrow> cgroup_name \<Rightarrow> target_id result" where
  "child_target parent name =
     replace_err (wl_target_error ''managed cgroup child target is invalid'')
       (TargetId_new (target_str parent @ ''.'' @ cgroup_name_str name))"

definition child_path :: "string \<Rightarrow> cgroup_name \<Rightarrow> string" where
  "child_path parent name =
     (if parent = [] then cgroup_name_str name else parent @ ''/'' @ cgroup_name_str name)"

definition render_quota :: "cpu_quota \<Rightarrow> string" where
  "render_quota quota = (case quota of cpu_quota.Max \<Rightarrow> ''max'' | Micros v \<Rightarrow> dec_digits (unat v))"

definition render_cpuset :: "cpu_set \<Rightarrow> string" where
  "render_cpuset cpus = join '','' (map (\<lambda>c. dec_digits (unat c)) (cpus_list cpus))"

definition render_clamp :: "uclamp_value \<Rightarrow> string" where
  "render_clamp v = (case v of Value n \<Rightarrow> dec_digits (unat n) | uclamp_value.Max \<Rightarrow> ''max'')"

definition render_typed_process :: "typed_value \<Rightarrow> u8 list" where
  "render_typed_process v = str_bytes (render_value (Typed v))"

definition clamp_level :: "uclamp_value \<Rightarrow> u16" where
  "clamp_level v = (case v of Value n \<Rightarrow> n | uclamp_value.Max \<Rightarrow> 1024)"

definition validate_uclamp_pair :: "uclamp_value \<Rightarrow> uclamp_value \<Rightarrow> unit result" where
  "validate_uclamp_pair lo hi =
     (if clamp_level lo > clamp_level hi
      then Inl (wl_target_error ''cgroup uclamp minimum exceeds maximum'') else Inr ())"

end
