(* ===== verification/Workload_Text.thy ===== *)
theory Workload_Text
  imports Workload_Backend Process
begin

text \<open>
  The kernel's text for the cgroup-v2 nodes (\<open>sysboost-linux/src/workload.rs\<close>): tokens of the control
  files, the parsers of each closed node, and the text the production adapter writes. Parsing what was
  written gives back the value, and a parsed CPU set is bounded.
\<close>

section \<open>Parsing\<close>

definition text_tokens :: "u8 list \<Rightarrow> string set" where
  "text_tokens raw = (case from_utf8 raw of None \<Rightarrow> {} | Some text \<Rightarrow> set (split_whitespace text))"

text \<open>\<open>value.parse().map_err(|_| target_error(message))\<close> at an unsigned width.\<close>

definition parsed :: "nat \<Rightarrow> string \<Rightarrow> string \<Rightarrow> 'a::len word result" where
  "parsed w message s = ok_or (wl_target_error message) (map_option word_of_nat (parse_uint w s))"

definition parse_uclamp :: "u8 list \<Rightarrow> uclamp_value result" where
  "parse_uclamp raw =
     rbind (ok_or (wl_target_error ''uclamp value is not valid UTF-8'') (from_utf8 raw)) (\<lambda>text.
     if trim text = ''max'' then Inr uclamp_value.Max
     else rbind (parsed 16 ''uclamp value is malformed'' (trim text)) UclampValue_new)"

text \<open>One comma-separated part of a CPU list, and the loop over the parts.\<close>

definition parse_cpu_part :: "string \<Rightarrow> u32 list result" where
  "parse_cpu_part part =
     (if part = [] then Inl (wl_target_error ''cpuset.cpus is malformed'')
      else case split_once (CHR ''-'') part of
        Some (a, b) \<Rightarrow>
          rbind (parsed 32 ''cpuset range is malformed'' a) (\<lambda>low :: u32.
          rbind (parsed 32 ''cpuset range is malformed'' b) (\<lambda>high :: u32.
          if low > high \<or> unat high - unat low > 4096
          then Inl (wl_target_error ''cpuset range is outside the bounded contract'')
          else Inr (map word_of_nat [unat low ..< Suc (unat high)])))
      | None \<Rightarrow> rbind (parsed 32 ''cpuset CPU is malformed'' part) (\<lambda>cpu. Inr [cpu]))"

fun parse_cpu_parts :: "string list \<Rightarrow> u32 list \<Rightarrow> u32 list result" where
  "parse_cpu_parts [] cpus = Inr cpus"
| "parse_cpu_parts (part # rest) cpus =
     rbind (parse_cpu_part part) (\<lambda>more.
     if length (cpus @ more) > 4096 then Inl (wl_target_error ''cpuset value is oversized'')
     else parse_cpu_parts rest (cpus @ more))"

definition parse_cpuset :: "string \<Rightarrow> cpu_set result" where
  "parse_cpuset text =
     rbind (parse_cpu_parts (split_char (CHR '','') (trim text)) []) (\<lambda>cpus.
     replace_err (wl_target_error ''cpuset.cpus is empty'') (CpuSet_new cpus))"

definition parse_cpu_max :: "string \<Rightarrow> typed_value result" where
  "parse_cpu_max text =
     (let parts = split_whitespace text in
      rbind (case parts of
          [] \<Rightarrow> Inl (wl_target_error ''cpu.max is malformed'')
        | value # _ \<Rightarrow> (if value = ''max'' then Inr cpu_quota.Max
            else rbind (parsed 64 ''cpu.max quota is malformed'' value) CpuQuota_micros)) (\<lambda>quota.
      rbind (ok_or (wl_target_error ''cpu.max period is missing'')
        (if 1 < length parts then Some (parts ! 1) else None)) (\<lambda>value.
      rbind (rbind (parsed 64 ''cpu.max period is malformed'' value) CpuPeriod_new) (\<lambda>period.
      if 2 < length parts then Inl (wl_target_error ''cpu.max has unexpected fields'')
      else Inr (typed_value.CgroupCpuMax quota period)))))"

fun parse_io_lines :: "string list \<Rightarrow> io_weight option \<Rightarrow> io_weight option result" where
  "parse_io_lines [] found = Inr found"
| "parse_io_lines (l # rest) found =
     (case split_whitespace l of
        a # b # extra \<Rightarrow>
          (if a = ''default'' \<and> extra = [] then
             (if found \<noteq> None then Inl (wl_target_error ''io.weight has duplicate default entries'')
              else rbind (rbind (parsed 16 ''io.weight is malformed'' b) IoWeight_new) (\<lambda>weight.
                parse_io_lines rest (Some weight)))
           else Inl (wl_unsupported ''per-device io.weight entries are outside the closed operation''))
      | _ \<Rightarrow> Inl (wl_target_error ''io.weight is malformed''))"

definition parse_workload_node :: "workload_node \<Rightarrow> u8 list \<Rightarrow> typed_value result" where
  "parse_workload_node node raw =
     rbind (ok_or (wl_target_error ''cgroup controller value is not valid UTF-8'') (from_utf8 raw)) (\<lambda>text.
     case node of
       WlCpuWeight \<Rightarrow> rbind (rbind (parsed 16 ''cpu.weight is malformed'' (trim text)) CpuWeight_new) (\<lambda>v.
         Inr (typed_value.CgroupCpuWeight v))
     | WlCpuMax \<Rightarrow> parse_cpu_max text
     | WlCpuset \<Rightarrow> rbind (parse_cpuset text) (\<lambda>v. Inr (typed_value.CgroupCpuset v))
     | WlIoWeight \<Rightarrow> rbind (parse_io_lines (lines text) None) (\<lambda>found.
         rbind (ok_or (wl_target_error ''io.weight default entry is missing'') found) (\<lambda>v.
         Inr (typed_value.CgroupIoWeight v)))
     | WlUclampMin \<Rightarrow> rbind (parse_uclamp raw) (\<lambda>v. Inr (typed_value.CgroupUclamp v))
     | WlUclampMax \<Rightarrow> rbind (parse_uclamp raw) (\<lambda>v. Inr (typed_value.CgroupUclamp v)))"

section \<open>Rendering\<close>

text \<open>What \<open>write_mutation\<close> writes into the file of a node; \<open>None\<close> for a value of another shape.\<close>

definition written_text :: "workload_node \<Rightarrow> typed_value \<Rightarrow> string option" where
  "written_text node v =
     (case (node, v) of
        (WlCpuWeight, typed_value.CgroupCpuWeight weight) \<Rightarrow> Some (dec_digits (unat (cpu_weight_get weight)))
      | (WlCpuMax, typed_value.CgroupCpuMax quota period) \<Rightarrow>
          Some (render_quota quota @ '' '' @ dec_digits (unat (period_micros period)))
      | (WlCpuset, typed_value.CgroupCpuset cpus) \<Rightarrow> Some (render_cpuset cpus)
      | (WlIoWeight, typed_value.CgroupIoWeight weight) \<Rightarrow>
          Some (''default '' @ dec_digits (unat (io_weight_get weight)))
      | (WlUclampMin, typed_value.CgroupUclamp clamp) \<Rightarrow> Some (render_clamp clamp)
      | (WlUclampMax, typed_value.CgroupUclamp clamp) \<Rightarrow> Some (render_clamp clamp)
      | _ \<Rightarrow> None)"

section \<open>Text without spaces\<close>

definition graphic :: "string \<Rightarrow> bool" where
  "graphic s \<longleftrightarrow> s \<noteq> [] \<and> list_all (\<lambda>c. 32 < (of_char c :: nat) \<and> (of_char c :: nat) < 0x80) s"

lemma graphicD:
  assumes "graphic s"
  shows "s \<noteq> []" "\<forall>c \<in> set s. \<not> is_whitespace [c]" "\<forall>c \<in> set s. (of_char c :: nat) < 0x80"
    "CHR 0x0A \<notin> set s" "CHR 0x0D \<notin> set s"
proof -
  have chars: "32 < (of_char c :: nat) \<and> (of_char c :: nat) < 0x80" if "c \<in> set s" for c
    using assms that unfolding graphic_def list_all_iff by blast
  show "\<forall>c \<in> set s. \<not> is_whitespace [c]"
  proof
    fix c assume "c \<in> set s"
    from chars [OF this] show "\<not> is_whitespace [c]" using is_whitespace_ascii [of c] by linarith
  qed
  show "s \<noteq> []" using assms by (simp add: graphic_def)
  show "\<forall>c \<in> set s. (of_char c :: nat) < 0x80" using chars by blast
  show "CHR 0x0A \<notin> set s" "CHR 0x0D \<notin> set s" using chars by force+
qed

lemma graphic_digits [simp]: "graphic (dec_digits n)"
proof -
  have "32 < (of_char c :: nat) \<and> (of_char c :: nat) < 0x80" if "c \<in> set (dec_digits n)" for c
    using dec_digits_digits [OF that] by (auto simp: is_ascii_digit_def)
  then show ?thesis using dec_digits_nonempty by (auto simp: graphic_def list_all_iff)
qed

lemma graphic_append: "graphic a \<Longrightarrow> graphic b \<Longrightarrow> graphic (a @ b)"
  by (simp add: graphic_def)

text \<open>A value and what may end it: nothing, or the kernel's line feed.\<close>

definition line_end :: "string \<Rightarrow> bool" where
  "line_end nl \<longleftrightarrow> nl = [] \<or> nl = [CHR 0x0A]"

lemma trim_graphic:
  assumes "graphic s" "line_end nl"
  shows "trim (s @ nl) = s"
proof -
  have ascii: "\<forall>c \<in> set (s @ nl). (of_char c :: nat) < 0x80"
    using graphicD(3) [OF assms(1)] assms(2) by (auto simp: line_end_def)
  have plain: "\<forall>x \<in> set (map (\<lambda>c. [c]) s). \<not> is_whitespace x" using graphicD(2) [OF assms(1)] by simp
  have feed: "is_whitespace [CHR 0x0A]" by (simp add: is_whitespace_ascii)
  have front: "dropWhile is_whitespace (map (\<lambda>c. [c]) s @ ys) = map (\<lambda>c. [c]) s @ ys" for ys
    using plain graphicD(1) [OF assms(1)] by (cases s) auto
  have rear: "dropWhile is_whitespace (rev (map (\<lambda>c. [c]) s)) = rev (map (\<lambda>c. [c]) s)"
    using plain graphicD(1) [OF assms(1)] by (cases s rule: rev_cases) auto
  have joined: "concat (map (\<lambda>c. [c]) s) = s" by (induction s) simp_all
  show ?thesis
    using assms(2) front [of "[]"] front [of "[[CHR 0x0A]]"] rear feed joined
    unfolding trim_def chars_ascii [OF ascii] by (auto simp: line_end_def)
qed

lemma split_graphic:
  assumes "graphic s" "line_end nl"
  shows "split_by (\<lambda>c. is_whitespace [c]) (s @ nl) = (if nl = [] then [s] else [s, []])"
proof -
  have feed: "is_whitespace [CHR 0x0A]" by (simp add: is_whitespace_ascii)
  show ?thesis
    using assms graphicD(2) [OF assms(1)] feed split_by_append [of "\<lambda>c. is_whitespace [c]" "CHR 0x0A" s "[]"]
    by (auto simp: line_end_def split_by_none)
qed

lemma words_two:
  assumes "graphic a" "graphic b" "line_end nl"
  shows "split_whitespace (a @ '' '' @ b @ nl) = [a, b]"
proof -
  have ascii: "\<forall>c \<in> set (a @ '' '' @ b @ nl). (of_char c :: nat) < 0x80"
    using graphicD(3) [OF assms(1)] graphicD(3) [OF assms(2)] assms(3) by (auto simp: line_end_def)
  have "split_by (\<lambda>c. is_whitespace [c]) (a @ CHR '' '' # (b @ nl)) = a # split_by (\<lambda>c. is_whitespace [c]) (b @ nl)"
    using graphicD(2) [OF assms(1)] by (intro split_by_append) (simp_all add: is_whitespace_ascii)
  with split_graphic [OF assms(2,3)] graphicD(1) [OF assms(1)] graphicD(1) [OF assms(2)] show ?thesis
    unfolding split_whitespace_ascii [OF ascii] by simp
qed

section \<open>What was written parses back\<close>

lemma utf8_below: "\<forall>c \<in> set s. (of_char c :: nat) < 0x80 \<Longrightarrow> utf8 s"
  unfolding utf8_def str_bytes_def
  by (rule utf8_ascii) (auto simp: word_less_nat_alt unat_of_nat take_bit_eq_mod)

lemma utf8_graphic: "graphic s \<Longrightarrow> line_end nl \<Longrightarrow> utf8 (s @ nl)"
  by (rule utf8_below) (use graphicD(3) in \<open>auto simp: line_end_def\<close>)

lemma utf8_two: "graphic a \<Longrightarrow> graphic b \<Longrightarrow> line_end nl \<Longrightarrow> utf8 (a @ '' '' @ b @ nl)"
  by (rule utf8_below) (use graphicD(3) in \<open>auto simp: line_end_def\<close>)

lemma digits_not_max [simp]: "dec_digits n \<noteq> ''max''"
proof
  assume "dec_digits n = ''max''"
  then have "CHR ''m'' \<in> set (dec_digits n)" by simp
  then show False using dec_digits_digits by (fastforce simp: is_ascii_digit_def)
qed

lemma parsed_digits [simp]:
  "w = LENGTH('a::len) \<Longrightarrow> parsed w message (dec_digits (unat (v :: 'a word))) = Inr v"
  using unsigned_less [of v] by (simp add: parsed_def)

lemma split_char_join:
  assumes "\<forall>p \<in> set ps. c \<notin> set p" "ps \<noteq> []"
  shows "split_char c (join [c] ps) = ps"
  using assms
proof (induction "[c]" ps rule: join.induct)
  case (3 s t rest)
  then have "split_char c (s @ c # join [c] (t # rest)) = s # split_char c (join [c] (t # rest))"
    unfolding split_char_def by (intro split_by_append) auto
  with 3 show ?case by simp
qed (auto simp: split_char_def intro!: split_by_none)

lemma digits_plain: "CHR '','' \<notin> set (dec_digits n)" "CHR ''-'' \<notin> set (dec_digits n)"
  using dec_digits_digits by (fastforce simp: is_ascii_digit_def)+

lemma parse_cpu_part_digits [simp]: "parse_cpu_part (dec_digits (unat cpu)) = Inr [cpu]"
proof -
  have "split_once (CHR ''-'') (dec_digits (unat cpu)) = None"
    using digits_plain(2) [of "unat cpu"] by (auto simp: split_once_def position_None)
  then show ?thesis by (simp add: parse_cpu_part_def dec_digits_nonempty)
qed

lemma parse_cpu_parts_digits:
  "length (cpus @ cs) \<le> 4096 \<Longrightarrow> parse_cpu_parts (map (\<lambda>c. dec_digits (unat c)) cs) cpus = Inr (cpus @ cs)"
  by (induction cs arbitrary: cpus) simp_all

lemma join_graphic: "ps \<noteq> [] \<Longrightarrow> \<forall>p \<in> set ps. graphic p \<Longrightarrow> graphic (join '','' ps)"
  by (induction "'',''" ps rule: join.induct) (simp_all add: graphic_append, simp add: graphic_def)

lemma graphic_max: "graphic ''max''" "graphic ''default''"
  by code_simp+

lemma graphic_render [simp]: "graphic (render_clamp v)" "graphic (render_quota q)"
    "cpus_list s \<noteq> [] \<Longrightarrow> graphic (render_cpuset s)"
  by (auto simp: render_clamp_def render_quota_def render_cpuset_def graphic_max
    split: uclamp_value.splits cpu_quota.splits intro!: join_graphic)

lemma parse_cpuset_render:
  assumes "wf_cpu_set s" "cpu_len s \<le> 4096" "line_end nl"
  shows "parse_cpuset (render_cpuset s @ nl) = Inr s"
proof -
  have ne: "cpus_list s \<noteq> []" and canonical: "remdups_adj (sort (cpus_list s)) = cpus_list s"
    using assms(1) canonical_id by (auto simp: wf_cpu_set_def)
  have "split_char (CHR '','') (render_cpuset s) = map (\<lambda>c. dec_digits (unat c)) (cpus_list s)"
    unfolding render_cpuset_def using ne digits_plain(1) by (intro split_char_join) auto
  with assms ne canonical trim_graphic [OF graphic_render(3) assms(3)] parse_cpu_parts_digits [of "[]" "cpus_list s"]
  show ?thesis by (cases s) (simp add: parse_cpuset_def cpu_len_def CpuSet_new_def)
qed

lemma parse_clamp_render:
  assumes "wf_uclamp v" "line_end nl"
  shows "parse_uclamp (str_bytes (render_clamp v @ nl)) = Inr v"
proof -
  have "parse_uclamp (str_bytes (render_clamp v @ nl))
      = (if render_clamp v = ''max'' then Inr uclamp_value.Max
         else rbind (parsed 16 ''uclamp value is malformed'' (render_clamp v)) UclampValue_new)"
    using assms(2) utf8_graphic [of "render_clamp v" nl] trim_graphic [of "render_clamp v" nl]
    by (simp add: parse_uclamp_def)
  also have "\<dots> = Inr v"
    using assms(1) by (cases v) (simp_all add: render_clamp_def UclampValue_new_def)
  finally show ?thesis .
qed

lemma parse_cpu_max_render:
  assumes "wf_cpu_quota quota" "wf_cpu_period period" "line_end nl"
  shows "parse_cpu_max (render_quota quota @ '' '' @ dec_digits (unat (period_micros period)) @ nl)
    = Inr (typed_value.CgroupCpuMax quota period)"
proof -
  let ?q = "render_quota quota" and ?p = "dec_digits (unat (period_micros period))"
  have "(if ?q = ''max'' then Inr cpu_quota.Max
      else rbind (parsed 64 ''cpu.max quota is malformed'' ?q) CpuQuota_micros) = Inr quota"
    using assms(1) by (cases quota) (simp_all add: render_quota_def CpuQuota_micros_def)
  moreover have "rbind (CpuPeriod_new (period_micros period)) f = f period" for f :: "cpu_period \<Rightarrow> typed_value result"
    using assms(2) by (cases period) (simp add: CpuPeriod_new_def wf_cpu_period_def)
  ultimately show ?thesis
    unfolding parse_cpu_max_def words_two [OF graphic_render(2) graphic_digits assms(3)] by simp
qed

lemma lines_single:
  assumes "\<forall>c \<in> set a. c \<noteq> CHR 0x0A \<and> c \<noteq> CHR 0x0D" "a \<noteq> []" "line_end nl"
  shows "lines (a @ nl) = [a]"
proof (cases nl)
  case Nil
  with assms(1,2) show ?thesis by (simp add: lines_def Let_def split_char_def split_by_none)
next
  case (Cons c rest)
  with assms(3) lines_of [OF assms(1), of "[]"] lines_nil show ?thesis by (simp add: line_end_def)
qed

lemma parse_io_weight_render:
  assumes "wf_io_weight weight" "line_end nl"
  shows "parse_io_lines (lines (''default'' @ '' '' @ dec_digits (unat (io_weight_get weight)) @ nl)) None
    = Inr (Some weight)"
proof -
  let ?d = "dec_digits (unat (io_weight_get weight))"
  have chars: "\<forall>c \<in> set (''default'' @ '' '' @ ?d). c \<noteq> CHR 0x0A \<and> c \<noteq> CHR 0x0D"
    using graphicD(4,5) [OF graphic_digits, of "unat (io_weight_get weight)"] by auto
  have "lines (''default'' @ '' '' @ ?d @ nl) = [''default'' @ '' '' @ ?d]"
    using lines_single [OF chars _ assms(2)] unfolding append_assoc by blast
  moreover have "split_whitespace (''default'' @ '' '' @ ?d) = [''default'', ?d]"
    using words_two [OF graphic_max(2) graphic_digits, of "[]"] by (simp add: line_end_def)
  moreover have "rbind (IoWeight_new (io_weight_get weight)) f = f weight"
      for f :: "io_weight \<Rightarrow> io_weight option result"
    using assms(1) by (cases weight) (simp add: IoWeight_new_def wf_io_weight_def)
  ultimately show ?thesis by simp
qed

text \<open>
  C38: what the workload backend writes into a cgroup node is read back as the same value, with or without
  the kernel's line feed: CPU weights, quotas and periods, CPU sets of up to 4096 CPUs, the default
  \<open>I/O\<close> weight and both utilization clamps.
\<close>

theorem node_text_roundtrip:
  assumes "written_text node v = Some s" "wf_value v" "\<forall>c. v = typed_value.CgroupCpuset c \<longrightarrow> cpu_len c \<le> 4096"
    and "line_end nl"
  shows "parse_workload_node node (str_bytes (s @ nl)) = Inr v"
proof (cases node)
  case WlCpuWeight
  with assms obtain weight where v: "v = typed_value.CgroupCpuWeight weight" "s = dec_digits (unat (cpu_weight_get weight))"
    by (auto simp: written_text_def split: typed_value.splits)
  with WlCpuWeight assms(2,4) utf8_graphic trim_graphic show ?thesis
    by (cases weight) (simp add: parse_workload_node_def CpuWeight_new_def wf_cpu_weight_def)
next
  case WlCpuMax
  with assms obtain quota period where v: "v = typed_value.CgroupCpuMax quota period"
      "s @ nl = render_quota quota @ '' '' @ dec_digits (unat (period_micros period)) @ nl"
    by (auto simp: written_text_def split: typed_value.splits)
  with assms(2,4) parse_cpu_max_render utf8_two [OF graphic_render(2) graphic_digits] WlCpuMax
  show ?thesis unfolding v(2) by (simp add: parse_workload_node_def)
next
  case WlCpuset
  with assms(1) obtain cpus where v: "v = typed_value.CgroupCpuset cpus" "s = render_cpuset cpus"
    by (auto simp: written_text_def split: typed_value.splits)
  with assms(2) have "cpus_list cpus \<noteq> []" by (simp add: wf_cpu_set_def)
  with v assms(2-4) parse_cpuset_render utf8_graphic [OF graphic_render(3)] WlCpuset
  show ?thesis by (simp add: parse_workload_node_def)
next
  case WlIoWeight
  with assms(1) obtain weight where v: "v = typed_value.CgroupIoWeight weight"
      "s @ nl = ''default'' @ '' '' @ dec_digits (unat (io_weight_get weight)) @ nl"
    by (auto simp: written_text_def split: typed_value.splits)
  with assms(2,4) parse_io_weight_render utf8_two [OF graphic_max(2) graphic_digits] WlIoWeight
  show ?thesis unfolding v(2) by (simp add: parse_workload_node_def)
next
  case WlUclampMin
  with assms(1) obtain clamp where v: "v = typed_value.CgroupUclamp clamp" "s = render_clamp clamp"
    by (auto simp: written_text_def split: typed_value.splits)
  with assms(2,4) parse_clamp_render utf8_graphic [OF graphic_render(1)] WlUclampMin
  show ?thesis by (simp add: parse_workload_node_def)
next
  case WlUclampMax
  with assms(1) obtain clamp where v: "v = typed_value.CgroupUclamp clamp" "s = render_clamp clamp"
    by (auto simp: written_text_def split: typed_value.splits)
  with assms(2,4) parse_clamp_render utf8_graphic [OF graphic_render(1)] WlUclampMax
  show ?thesis by (simp add: parse_workload_node_def)
qed

theorem node_text_roundtrip_witness:
  "parse_workload_node WlCpuset (str_bytes (''0,1,7'' @ [CHR 0x0A])) = Inr (typed_value.CgroupCpuset (CpuSet [0, 1, 7]))"
  by (rule node_text_roundtrip)
    (code_simp, simp add: wf_cpu_set_def, simp add: cpu_len_def, simp add: line_end_def)

section \<open>Bounds\<close>

lemma parse_cpu_parts_bound: "parse_cpu_parts ps cpus = Inr cs \<Longrightarrow> length cpus \<le> 4096 \<Longrightarrow> length cs \<le> 4096"
  by (induction ps arbitrary: cpus) (auto simp: rbind_eq_Inr split: if_splits)

text \<open>
  C39: a CPU set parsed from the kernel is canonical and bounded. Whatever the text of \<open>cpuset.cpus\<close>, an
  accepted set is non-empty, strictly ascending and has at most 4096 members, also where the text names
  ranges up to the largest CPU number; the text of an over-long range is refused.
\<close>

theorem parse_cpuset_bounded:
  "parse_cpuset text = Inr s \<Longrightarrow> wf_cpu_set s \<and> cpu_len s \<le> 4096"
proof -
  assume "parse_cpuset text = Inr s"
  then obtain cpus where cpus: "parse_cpu_parts (split_char (CHR '','') (trim text)) [] = Inr cpus"
      and s: "CpuSet_new cpus = Inr s"
    by (auto simp: parse_cpuset_def rbind_eq_Inr)
  have "length (remdups_adj (sort cpus)) \<le> length cpus"
    using remdups_adj_length [of "sort cpus"] by simp
  with parse_cpu_parts_bound [OF cpus] s sorted_distinct_canonical [of cpus] show ?thesis
    by (auto simp: CpuSet_new_def wf_cpu_set_def cpu_len_def Let_def split: if_splits)
qed

theorem parse_cpuset_bounded_witness:
  "wf_cpu_set (CpuSet [2, 3, 4, 9]) \<and> cpu_len (CpuSet [2, 3, 4, 9]) \<le> 4096"
proof (rule parse_cpuset_bounded)
  have digits: "dec_digits 2 = ''2''" "dec_digits 4 = ''4''" "dec_digits 9 = ''9''" by code_simp+
  have two: "parsed 32 message ''2'' = Inr (2 :: u32)" and four: "parsed 32 message ''4'' = Inr (4 :: u32)" for message
    using parsed_digits [of 32 message "2 :: u32"] parsed_digits [of 32 message "4 :: u32"] by (simp_all add: digits)
  have "split_once (CHR ''-'') ''2-4'' = Some (''2'', ''4'')" by code_simp
  then have "parse_cpu_part ''2-4'' = Inr [2, 3, 4]"
    by (simp add: parse_cpu_part_def two four upt_rec)
  moreover have "parse_cpu_part ''9'' = Inr [9]"
    using parse_cpu_part_digits [of 9] by (simp add: digits)
  moreover have "split_char (CHR '','') ''2-4,9'' = [''2-4'', ''9'']" by code_simp
  moreover have "trim (''2-4,9'' @ [CHR 0x0A]) = ''2-4,9''"
    by (rule trim_graphic) (code_simp, simp add: line_end_def)
  moreover have "CpuSet_new [2, 3, 4, 9] = Inr (CpuSet [2, 3, 4, 9])" by code_simp
  ultimately show "parse_cpuset (''2-4,9'' @ [CHR 0x0A]) = Inr (CpuSet [2, 3, 4, 9])"
    by (simp add: parse_cpuset_def)
qed

end
