(* ===== verification/Cgroup_Fixture.thy ===== *)
theory Cgroup_Fixture
  imports Workload_Backend Ordered_Maps
begin

text \<open>
  \<open>CgroupFixture\<close> of \<open>sysboost-linux/src/workload.rs\<close>: the in-memory cgroup hierarchy that implements
  the control port of the workload backend. Its two \<open>BTreeMap\<close>s are ordered association lists, its
  \<open>BTreeSet\<close>s are sets. An operation that fails part way leaves what it has changed so far.
\<close>

section \<open>The hierarchy\<close>

text \<open>The derived order on process identities: by number, then by start time.\<close>

instantiation process_id :: linorder
begin

definition less_eq_process_id :: "process_id \<Rightarrow> process_id \<Rightarrow> bool" where
  "less_eq_process_id a b \<longleftrightarrow> (pid a, start_time_ticks a) \<le> (pid b, start_time_ticks b)"

definition less_process_id :: "process_id \<Rightarrow> process_id \<Rightarrow> bool" where
  "less_process_id a b \<longleftrightarrow> (pid a, start_time_ticks a) < (pid b, start_time_ticks b)"

instance
  by standard (auto simp: less_eq_process_id_def less_process_id_def intro: process_id.expand)

end

record fixture_group =
  fg_identity :: cgroup_id
  fg_relative_path :: string
  fg_controllers :: "string set"
  fg_delegated :: "string set"
  fg_cpu_weight :: cpu_weight
  fg_cpu_quota :: cpu_quota
  fg_cpu_period :: cpu_period
  fg_cpuset :: cpu_set
  fg_io_weight :: io_weight
  fg_uclamp_min :: uclamp_value
  fg_uclamp_max :: uclamp_value
  fg_processes :: "process_id set"

record fixture_process =
  fr_identity :: process_id
  fr_cgroup :: target_id
  fr_nice :: nice_value
  fr_ioprio :: io_priority

record cgroup_fixture =
  cg_groups :: "(target_id \<times> fixture_group) list"
  cg_processes :: "(process_id \<times> fixture_process) list"

definition missing_group :: sysboost_error where
  "missing_group = wl_target_error ''cgroup target was not discovered''"

definition missing_process :: sysboost_error where
  "missing_process = wl_target_error ''fixture process disappeared''"

text \<open>A zero mount or inode in the named identity matches any.\<close>

definition resolve_group :: "cgroup_fixture \<Rightarrow> cgroup_id \<Rightarrow> fixture_group result" where
  "resolve_group st cgroup =
     rbind (ok_or missing_group (map_of (cg_groups st) (handle cgroup))) (\<lambda>grp.
     if mount_id cgroup \<noteq> 0 \<and> mount_id cgroup \<noteq> mount_id (fg_identity grp)
        \<or> inode cgroup \<noteq> 0 \<and> inode cgroup \<noteq> inode (fg_identity grp)
     then Inl (wl_target_error ''cgroup target identity does not match discovery'')
     else Inr grp)"

text \<open>An assignment through \<open>resolve_group_mut\<close>.\<close>

definition change_group ::
    "cgroup_id \<Rightarrow> (fixture_group \<Rightarrow> fixture_group) \<Rightarrow> (cgroup_fixture, unit) action" where
  "change_group cgroup f st =
     (case resolve_group st cgroup of
        Inl e \<Rightarrow> (Inl e, st)
      | Inr grp \<Rightarrow> (Inr (), st\<lparr>cg_groups := bt_insert (handle cgroup) (f grp) (cg_groups st)\<rparr>))"

definition change_process ::
    "process_id \<Rightarrow> (fixture_process \<Rightarrow> fixture_process) \<Rightarrow> (cgroup_fixture, unit) action" where
  "change_process process f st =
     (case map_of (cg_processes st) process of
        None \<Rightarrow> (Inl missing_process, st)
      | Some p \<Rightarrow> (Inr (), st\<lparr>cg_processes := bt_insert process (f p) (cg_processes st)\<rparr>))"

text \<open>\<open>groups.get_mut(handle)\<close> on the members of a grp; an absent grp is left alone.\<close>

definition update_members ::
    "target_id \<Rightarrow> (process_id set \<Rightarrow> process_id set) \<Rightarrow> cgroup_fixture \<Rightarrow> cgroup_fixture" where
  "update_members key f st =
     (case map_of (cg_groups st) key of
        None \<Rightarrow> st
      | Some grp \<Rightarrow> st\<lparr>cg_groups := bt_insert key
          (grp\<lparr>fg_processes := f (fg_processes grp)\<rparr>) (cg_groups st)\<rparr>)"

section \<open>Building a hierarchy\<close>

definition base_controllers :: "string set" where
  "base_controllers = {''cpu'', ''cpuset'', ''io''}"

definition new_group :: "cgroup_id \<Rightarrow> string \<Rightarrow> string set \<Rightarrow> string set \<Rightarrow> cpu_set \<Rightarrow> fixture_group" where
  "new_group identity path controllers delegated cpus =
     \<lparr>fg_identity = identity, fg_relative_path = path, fg_controllers = controllers,
      fg_delegated = delegated, fg_cpu_weight = CpuWeight 100, fg_cpu_quota = cpu_quota.Max,
      fg_cpu_period = CpuPeriod 100000, fg_cpuset = cpus, fg_io_weight = IoWeight 100,
      fg_uclamp_min = Value 0, fg_uclamp_max = uclamp_value.Max, fg_processes = {}\<rparr>"

definition add_group :: "cgroup_id \<Rightarrow> string \<Rightarrow> cgroup_fixture \<Rightarrow> cgroup_fixture" where
  "add_group identity path st =
     st\<lparr>cg_groups := bt_insert (handle identity)
       (new_group identity path base_controllers base_controllers (CpuSet [0, 1])) (cg_groups st)\<rparr>"

definition root_id :: cgroup_id where
  "root_id = CgroupId 1 1 (TargetId ROOT_TARGET)"

definition CgroupFixture_new :: cgroup_fixture where
  "CgroupFixture_new = add_group root_id '''' \<lparr>cg_groups = [], cg_processes = []\<rparr>"

definition add_child_group ::
    "cgroup_id \<Rightarrow> cgroup_name \<Rightarrow> cgroup_id \<Rightarrow> (cgroup_fixture, cgroup_id) action" where
  "add_child_group parent name identity st =
     (case rbind (resolve_group st parent) (\<lambda>grp.
        rbind (child_target (handle parent) name) (\<lambda>target.
        if target \<noteq> handle identity
        then Inl (wl_target_error ''fixture child identity handle is not canonical'')
        else Inr (grp, target))) of
        Inl e \<Rightarrow> (Inl e, st)
      | Inr (grp, target) \<Rightarrow>
          (Inr identity, st\<lparr>cg_groups := bt_insert target
            (new_group identity (child_path (fg_relative_path grp) name) (fg_controllers grp)
              (fg_delegated grp) (fg_cpuset grp)) (cg_groups st)\<rparr>))"

definition set_delegation :: "cgroup_id \<Rightarrow> string \<Rightarrow> bool \<Rightarrow> (cgroup_fixture, unit) action" where
  "set_delegation cgroup name delegated = change_group cgroup (\<lambda>g. g\<lparr>fg_delegated :=
     (if delegated then insert name (fg_delegated g) else fg_delegated g - {name})\<rparr>)"

definition set_controller :: "cgroup_id \<Rightarrow> string \<Rightarrow> bool \<Rightarrow> (cgroup_fixture, unit) action" where
  "set_controller cgroup name available = change_group cgroup (\<lambda>g. g\<lparr>fg_controllers :=
     (if available then insert name (fg_controllers g) else fg_controllers g - {name})\<rparr>)"

definition add_process ::
    "process_id \<Rightarrow> cgroup_id \<Rightarrow> nice_value \<Rightarrow> io_priority \<Rightarrow> (cgroup_fixture, unit) action" where
  "add_process process cgroup nice ioprio st =
     (case resolve_group st cgroup of
        Inl e \<Rightarrow> (Inl e, st)
      | Inr grp \<Rightarrow>
        (let key = handle (fg_identity grp);
             st = (case map_of (cg_processes st) process of
               None \<Rightarrow> st
             | Some previous \<Rightarrow> (if fr_cgroup previous \<noteq> key
                 then update_members (fr_cgroup previous) (\<lambda>ps. ps - {process}) st else st))
         in if map_of (cg_groups st) key = None then (Inl missing_group, st)
            else (Inr (), (update_members key (insert process) st)
              \<lparr>cg_processes := bt_insert process \<lparr>fr_identity = process, fr_cgroup = key,
                fr_nice = nice, fr_ioprio = ioprio\<rparr> (cg_processes st)\<rparr>)))"

definition replace_identity :: "cgroup_id \<Rightarrow> cgroup_id \<Rightarrow> (cgroup_fixture, unit) action" where
  "replace_identity cgroup identity = change_group cgroup (\<lambda>g. g\<lparr>fg_identity := identity\<rparr>)"

definition external_set_cpu_weight :: "cgroup_id \<Rightarrow> cpu_weight \<Rightarrow> (cgroup_fixture, unit) action" where
  "external_set_cpu_weight cgroup weight = change_group cgroup (\<lambda>g. g\<lparr>fg_cpu_weight := weight\<rparr>)"

definition remove_process :: "process_id \<Rightarrow> cgroup_fixture \<Rightarrow> cgroup_fixture" where
  "remove_process process st =
     (case map_of (cg_processes st) process of
        None \<Rightarrow> st
      | Some p \<Rightarrow> update_members (fr_cgroup p) (\<lambda>ps. ps - {process})
          (st\<lparr>cg_processes := bt_remove process (cg_processes st)\<rparr>))"

section \<open>Reading\<close>

definition fixture_controller :: "fixture_group \<Rightarrow> string \<Rightarrow> unit result" where
  "fixture_controller grp name =
     (if name \<notin> fg_controllers grp then Inl (wl_unsupported ''cgroup controller is unavailable'')
      else if name \<notin> fg_delegated grp
      then Inl (permission_error ''cgroup controller is not delegated'')
      else Inr ())"

definition observation_for_group :: "fixture_group \<Rightarrow> typed_value \<Rightarrow> string \<Rightarrow> workload_observation result" where
  "observation_for_group grp typed raw =
     WorkloadObservation_new (str_bytes raw) typed (cgroup_identity_of (fg_identity grp))"

definition render_fixture_node :: "fixture_group \<Rightarrow> workload_node \<Rightarrow> string" where
  "render_fixture_node grp node =
     (case node of
        WlCpuWeight \<Rightarrow> dec_digits (unat (cpu_weight_get (fg_cpu_weight grp)))
      | WlCpuMax \<Rightarrow> render_quota (fg_cpu_quota grp) @ '' ''
          @ dec_digits (unat (period_micros (fg_cpu_period grp)))
      | WlCpuset \<Rightarrow> render_cpuset (fg_cpuset grp)
      | WlIoWeight \<Rightarrow> dec_digits (unat (io_weight_get (fg_io_weight grp)))
      | WlUclampMin \<Rightarrow> render_clamp (fg_uclamp_min grp)
      | WlUclampMax \<Rightarrow> render_clamp (fg_uclamp_max grp)) @ [CHR 0x0A]"

definition node_value :: "fixture_group \<Rightarrow> workload_node \<Rightarrow> typed_value" where
  "node_value grp node =
     (case node of
        WlCpuWeight \<Rightarrow> typed_value.CgroupCpuWeight (fg_cpu_weight grp)
      | WlCpuMax \<Rightarrow> typed_value.CgroupCpuMax (fg_cpu_quota grp) (fg_cpu_period grp)
      | WlCpuset \<Rightarrow> typed_value.CgroupCpuset (fg_cpuset grp)
      | WlIoWeight \<Rightarrow> typed_value.CgroupIoWeight (fg_io_weight grp)
      | WlUclampMin \<Rightarrow> typed_value.CgroupUclamp (fg_uclamp_min grp)
      | WlUclampMax \<Rightarrow> typed_value.CgroupUclamp (fg_uclamp_max grp))"

text \<open>The six arms of \<open>read_mutation\<close> that read a node of a grp.\<close>

definition fixture_observe :: "cgroup_fixture \<Rightarrow> cgroup_id \<Rightarrow> workload_node \<Rightarrow> workload_observation result" where
  "fixture_observe st cgroup node =
     rbind (resolve_group st cgroup) (\<lambda>grp.
     rbind (fixture_controller grp (controller node)) (\<lambda>_.
     observation_for_group grp (node_value grp node) (render_fixture_node grp node)))"

definition fixture_lifecycle ::
    "cgroup_fixture \<Rightarrow> cgroup_id \<Rightarrow> cgroup_name \<Rightarrow> cgroup_group_kind \<Rightarrow> workload_observation result" where
  "fixture_lifecycle st parent name kind =
     rbind (resolve_group st parent) (\<lambda>grp.
     rbind (fixture_controller grp ''cpu'') (\<lambda>_.
     rbind (child_target (handle parent) name) (\<lambda>target.
     let present = map_of (cg_groups st) target \<noteq> None in
     observation_for_group grp (typed_value.CgroupLifecycle kind name present)
       ((if present then ''present'' else ''absent'') @ [CHR 0x0A]))))"

definition fixture_read_mutation :: "mutation_kind \<Rightarrow> (cgroup_fixture, workload_observation) action" where
  "fixture_read_mutation kind st =
     (case kind of
        mutation_kind.CgroupCpuWeight cgroup _ \<Rightarrow> fixture_observe st cgroup WlCpuWeight
      | mutation_kind.CgroupCpuMax cgroup _ _ \<Rightarrow> fixture_observe st cgroup WlCpuMax
      | mutation_kind.CgroupCpuset cgroup _ \<Rightarrow> fixture_observe st cgroup WlCpuset
      | mutation_kind.CgroupIoWeight cgroup _ \<Rightarrow> fixture_observe st cgroup WlIoWeight
      | mutation_kind.CgroupUclampMin cgroup _ \<Rightarrow> fixture_observe st cgroup WlUclampMin
      | mutation_kind.CgroupUclampMax cgroup _ \<Rightarrow> fixture_observe st cgroup WlUclampMax
      | mutation_kind.CgroupWorkload parent name \<Rightarrow> fixture_lifecycle st parent name Workload
      | mutation_kind.CgroupBackground parent name \<Rightarrow> fixture_lifecycle st parent name ConservativeBackground
      | _ \<Rightarrow> Inl (wl_unsupported ''fixture mutation is not a cgroup operation''), st)"

text \<open>The process a mutation is about.\<close>

definition process_of :: "mutation_kind \<Rightarrow> process_id option" where
  "process_of kind =
     (case kind of
        mutation_kind.ProcessNice process _ \<Rightarrow> Some process
      | mutation_kind.ProcessIoPriority process _ \<Rightarrow> Some process
      | mutation_kind.ProcessPlacement process _ \<Rightarrow> Some process
      | _ \<Rightarrow> None)"

definition process_value :: "mutation_kind \<Rightarrow> fixture_process \<Rightarrow> fixture_group \<Rightarrow> typed_value" where
  "process_value kind p grp =
     (case kind of
        mutation_kind.ProcessNice _ _ \<Rightarrow> typed_value.Nice (fr_nice p)
      | mutation_kind.ProcessIoPriority _ _ \<Rightarrow> typed_value.IoPriorityValue (fr_ioprio p)
      | _ \<Rightarrow> typed_value.ProcessPlacement (fg_identity grp))"

definition fixture_read_process :: "mutation_kind \<Rightarrow> (cgroup_fixture, workload_observation) action" where
  "fixture_read_process kind st =
     (rbind (ok_or (wl_unsupported ''fixture mutation is not a process operation'') (process_of kind)) (\<lambda>process.
      rbind (ok_or missing_process (map_of (cg_processes st) process)) (\<lambda>current.
      if fr_identity current \<noteq> process
      then Inl (wl_target_error ''fixture process identity was replaced'')
      else rbind (ok_or (wl_target_error ''fixture process cgroup disappeared'')
        (map_of (cg_groups st) (fr_cgroup current))) (\<lambda>grp.
      let typed = process_value kind current grp in
      WorkloadObservation_new (render_typed_process typed) typed (process_identity_of process)))), st)"

definition fixture_read_node :: "cgroup_id \<Rightarrow> workload_node \<Rightarrow> (cgroup_fixture, u8 list) action" where
  "fixture_read_node cgroup node st =
     (rbind (resolve_group st cgroup) (\<lambda>grp.
      rbind (fixture_controller grp (controller node)) (\<lambda>_.
      Inr (str_bytes (render_fixture_node grp node)))), st)"

definition fixture_targets :: "(cgroup_fixture, workload_target list) action" where
  "fixture_targets st = (Inr (map (\<lambda>(_, grp). \<lparr>wt_identity = fg_identity grp,
     wt_relative_path = fg_relative_path grp\<rparr>) (cg_groups st)), st)"

definition cgroup_validate_desired :: "mutation_kind \<Rightarrow> typed_value \<Rightarrow> (cgroup_fixture, unit) action" where
  "cgroup_validate_desired kind desired st =
     (if kind_value kind \<noteq> desired
      then Inl (workload_error PlanningError ''workload kind and desired value disagree'')
      else case kind of
        mutation_kind.CgroupUclampMin cgroup v \<Rightarrow>
          (if v = uclamp_value.Max then Inl (workload_error InvalidInput ''uclamp.min cannot be max'')
           else rbind (resolve_group st cgroup) (\<lambda>grp.
             rbind (fixture_controller grp ''cpu'') (\<lambda>_. validate_uclamp_pair v (fg_uclamp_max grp))))
      | mutation_kind.CgroupUclampMax cgroup v \<Rightarrow>
          rbind (resolve_group st cgroup) (\<lambda>grp.
          rbind (fixture_controller grp ''cpu'') (\<lambda>_. validate_uclamp_pair (fg_uclamp_min grp) v))
      | mutation_kind.ProcessPlacement _ cgroup \<Rightarrow> rbind (resolve_group st cgroup) (\<lambda>_. Inr ())
      | mutation_kind.CgroupWorkload parent _ \<Rightarrow>
          rbind (resolve_group st parent) (\<lambda>grp. fixture_controller grp ''cpu'')
      | mutation_kind.CgroupBackground parent _ \<Rightarrow>
          rbind (resolve_group st parent) (\<lambda>grp. fixture_controller grp ''cpu'')
      | _ \<Rightarrow> Inr (), st)"

section \<open>Writing\<close>

text \<open>The inode after the greatest in use, saturating at the largest.\<close>

definition next_inode :: "cgroup_fixture \<Rightarrow> u64" where
  "next_inode st =
     (let inodes = map (\<lambda>(_, grp). inode (fg_identity grp)) (cg_groups st);
          greatest = (if inodes = [] then 1 else fold max inodes 0)
      in if greatest = -1 then greatest else greatest + 1)"

definition create_fixture_group :: "cgroup_id \<Rightarrow> cgroup_name \<Rightarrow> (cgroup_fixture, unit) action" where
  "create_fixture_group parent name st =
     (case rbind (resolve_group st parent) (\<lambda>grp.
        rbind (child_target (handle parent) name) (\<lambda>target.
        if map_of (cg_groups st) target \<noteq> None
        then Inl (workload_error ApplyError ''managed cgroup already exists'')
        else Inr (grp, target))) of
        Inl e \<Rightarrow> (Inl e, st)
      | Inr (grp, target) \<Rightarrow>
          (Inr (), st\<lparr>cg_groups := bt_insert target
            (new_group (CgroupId (mount_id (fg_identity grp)) (next_inode st) target)
              (child_path (fg_relative_path grp) name) (fg_controllers grp) (fg_delegated grp)
              (fg_cpuset grp)) (cg_groups st)\<rparr>))"

definition nested_under :: "cgroup_fixture \<Rightarrow> fixture_group \<Rightarrow> bool" where
  "nested_under st grp \<longleftrightarrow> list_ex (\<lambda>(_, candidate).
     take (length (fg_relative_path grp @ ''/'')) (fg_relative_path candidate)
       = fg_relative_path grp @ ''/'') (cg_groups st)"

definition remove_fixture_group :: "cgroup_id \<Rightarrow> cgroup_name \<Rightarrow> (cgroup_fixture, unit) action" where
  "remove_fixture_group parent name st =
     (case rbind (resolve_group st parent) (\<lambda>parent_group.
        rbind (child_target (handle parent) name) (\<lambda>target.
        rbind (ok_or (wl_target_error ''managed cgroup disappeared before cleanup'')
          (map_of (cg_groups st) target)) (\<lambda>grp.
        if fg_processes grp \<noteq> {} \<or> nested_under st grp
        then Inl (workload_error RestoreError ''managed cgroup is not empty and cannot be removed safely'')
        else if fg_relative_path parent_group = fg_relative_path grp
        then Inl (wl_target_error ''managed cgroup parent and child are identical'')
        else Inr target))) of
        Inl e \<Rightarrow> (Inl e, st)
      | Inr target \<Rightarrow> (Inr (), st\<lparr>cg_groups := bt_remove target (cg_groups st)\<rparr>))"

definition move_fixture_process :: "process_id \<Rightarrow> cgroup_id \<Rightarrow> (cgroup_fixture, unit) action" where
  "move_fixture_process process destination st =
     (case rbind (resolve_group st destination) (\<lambda>grp.
        rbind (ok_or missing_process (map_of (cg_processes st) process)) (\<lambda>p.
        Inr (handle (fg_identity grp), fr_cgroup p))) of
        Inl e \<Rightarrow> (Inl e, st)
      | Inr (target, current) \<Rightarrow>
        (let st = update_members current (\<lambda>ps. ps - {process}) st in
         if map_of (cg_groups st) target = None
         then (Inl (wl_target_error ''fixture destination cgroup disappeared''), st)
         else change_process process (\<lambda>p. p\<lparr>fr_cgroup := target\<rparr>) (update_members target (insert process) st)))"

definition shape_error :: sysboost_error where
  "shape_error = workload_error InvariantViolation ''fixture write shape is not closed''"

definition fixture_write_lifecycle ::
    "cgroup_id \<Rightarrow> cgroup_name \<Rightarrow> typed_value \<Rightarrow> (cgroup_fixture, unit) action" where
  "fixture_write_lifecycle parent name desired =
     (case desired of
        typed_value.CgroupLifecycle _ _ present \<Rightarrow>
          (if present then create_fixture_group parent name else remove_fixture_group parent name)
      | _ \<Rightarrow> areturn (Inl shape_error))"

definition fixture_write_mutation :: "mutation_kind \<Rightarrow> typed_value \<Rightarrow> (cgroup_fixture, unit) action" where
  "fixture_write_mutation kind desired =
     (case kind of
        mutation_kind.CgroupCpuWeight cgroup _ \<Rightarrow> (case desired of
          typed_value.CgroupCpuWeight v \<Rightarrow> change_group cgroup (\<lambda>g. g\<lparr>fg_cpu_weight := v\<rparr>)
        | _ \<Rightarrow> areturn (Inl shape_error))
      | mutation_kind.CgroupCpuMax cgroup _ _ \<Rightarrow> (case desired of
          typed_value.CgroupCpuMax q p \<Rightarrow> change_group cgroup (\<lambda>g. g\<lparr>fg_cpu_quota := q, fg_cpu_period := p\<rparr>)
        | _ \<Rightarrow> areturn (Inl shape_error))
      | mutation_kind.CgroupCpuset cgroup _ \<Rightarrow> (case desired of
          typed_value.CgroupCpuset v \<Rightarrow> change_group cgroup (\<lambda>g. g\<lparr>fg_cpuset := v\<rparr>)
        | _ \<Rightarrow> areturn (Inl shape_error))
      | mutation_kind.CgroupIoWeight cgroup _ \<Rightarrow> (case desired of
          typed_value.CgroupIoWeight v \<Rightarrow> change_group cgroup (\<lambda>g. g\<lparr>fg_io_weight := v\<rparr>)
        | _ \<Rightarrow> areturn (Inl shape_error))
      | mutation_kind.CgroupUclampMin cgroup _ \<Rightarrow> (case desired of
          typed_value.CgroupUclamp v \<Rightarrow> change_group cgroup (\<lambda>g. g\<lparr>fg_uclamp_min := v\<rparr>)
        | _ \<Rightarrow> areturn (Inl shape_error))
      | mutation_kind.CgroupUclampMax cgroup _ \<Rightarrow> (case desired of
          typed_value.CgroupUclamp v \<Rightarrow> change_group cgroup (\<lambda>g. g\<lparr>fg_uclamp_max := v\<rparr>)
        | _ \<Rightarrow> areturn (Inl shape_error))
      | mutation_kind.CgroupWorkload parent name \<Rightarrow> fixture_write_lifecycle parent name desired
      | mutation_kind.CgroupBackground parent name \<Rightarrow> fixture_write_lifecycle parent name desired
      | mutation_kind.ProcessNice process _ \<Rightarrow> (case desired of
          typed_value.Nice v \<Rightarrow> change_process process (\<lambda>p. p\<lparr>fr_nice := v\<rparr>)
        | _ \<Rightarrow> areturn (Inl shape_error))
      | mutation_kind.ProcessIoPriority process _ \<Rightarrow> (case desired of
          typed_value.IoPriorityValue v \<Rightarrow> change_process process (\<lambda>p. p\<lparr>fr_ioprio := v\<rparr>)
        | _ \<Rightarrow> areturn (Inl shape_error))
      | mutation_kind.ProcessPlacement process _ \<Rightarrow> (case desired of
          typed_value.ProcessPlacement cgroup \<Rightarrow> move_fixture_process process cgroup
        | _ \<Rightarrow> areturn (Inl shape_error))
      | _ \<Rightarrow> areturn (Inl shape_error))"

section \<open>Detection and the port\<close>

definition fixture_cgroup_state :: "cgroup_fixture \<Rightarrow> string \<Rightarrow> capability_state" where
  "fixture_cgroup_state st name =
     (let groups = map snd (cg_groups st) in
      if groups = [] \<or> \<not> list_ex (\<lambda>g. name \<in> fg_controllers g) groups then capability_state.Unsupported
      else if list_ex (\<lambda>g. name \<in> fg_controllers g \<and> name \<in> fg_delegated g) groups then Available
      else Denied)"

definition fixture_process_state :: "cgroup_fixture \<Rightarrow> bool \<Rightarrow> capability_state" where
  "fixture_process_state st available =
     (if available then Available else if cg_processes st = [] then capability_state.Unsupported else Denied)"

definition fixture_workload_detect ::
    "(cgroup_fixture, timestamp) action \<Rightarrow> (cgroup_fixture, capability_inventory) action" where
  "fixture_workload_detect clock =
     abind clock (\<lambda>observed_at st.
     let cpu = fixture_cgroup_state st ''cpu''; populated = cg_processes st \<noteq> [] in
     (Inr \<lparr>ci_observed_at = observed_at, ci_capabilities =
       [workload_capability ''cgroup.cpu.weight'' ''cgroup.cpu.weight'' target_kind.Cgroup ScalarExact cpu
          RuntimeMutable ''fixture cgroup v2 cpu controller delegation'',
        workload_capability ''cgroup.cpu.max'' ''cgroup.cpu.max'' target_kind.Cgroup ScalarExact cpu
          RuntimeMutable ''fixture cgroup v2 cpu controller delegation'',
        workload_capability ''cgroup.cpuset.cpus'' ''cgroup.cpuset.cpus'' target_kind.Cgroup SetExact
          (fixture_cgroup_state st ''cpuset'') Conditional
          ''fixture cgroup v2 cpuset controller delegation'',
        workload_capability ''cgroup.io.weight'' ''cgroup.io.weight'' target_kind.Cgroup ScalarExact
          (fixture_cgroup_state st ''io'') Conditional ''fixture cgroup v2 io controller delegation'',
        uclamp_capability cpu ''fixture cgroup v2 CPU uclamp delegation'',
        workload_capability ''cgroup.workload'' ''cgroup.workload'' target_kind.Cgroup ScalarExact cpu
          Conditional ''fixture delegated parent permits explicit workload group management'',
        workload_capability ''cgroup.background'' ''cgroup.background'' target_kind.Cgroup ScalarExact cpu
          Conditional ''fixture delegated parent permits conservative background management'',
        workload_capability ''scheduler.process.placement'' ''scheduler.process.placement''
          target_kind.Process ScalarExact (fixture_process_state st (cg_groups st \<noteq> [] \<and> populated))
          Conditional ''fixture explicitly identified process and cgroup targets'',
        workload_capability ''scheduler.nice'' ''scheduler.nice'' target_kind.Process ScalarExact
          (fixture_process_state st populated) RuntimeMutable ''fixture explicitly identified process target'',
        workload_capability ''scheduler.ioprio'' ''scheduler.ioprio'' target_kind.Process ScalarExact
          (fixture_process_state st populated) feature_class.Experimental
          ''fixture explicitly identified process target'']\<rparr>, st))"

definition CgroupFixture_io :: "cgroup_fixture workload_io" where
  "CgroupFixture_io = \<lparr>wl_detect = fixture_workload_detect, wl_targets = fixture_targets,
     wl_read_node = fixture_read_node, wl_read_mutation = fixture_read_mutation,
     wl_read_process = fixture_read_process, wl_validate_desired = cgroup_validate_desired,
     wl_write_mutation = fixture_write_mutation\<rparr>"

end
