(* ===== verification/Workload_Invariant.thy ===== *)
theory Workload_Invariant
  imports Workload_Backend Host_Log
begin

text \<open>
  What the operations of a control port keep, the workload backend keeps in every sequence of calls. The
  kinds and values that reach the port are restricted by two predicates, since the checked constructors
  of the source admit only well-formed ones.
\<close>

text \<open>A call whose mutation has an admitted kind and that writes an admitted value.\<close>

definition admitted_call ::
    "(mutation_kind \<Rightarrow> bool) \<Rightarrow> (typed_value \<Rightarrow> bool) \<Rightarrow> backend_call \<Rightarrow> bool" where
  "admitted_call K V c \<longleftrightarrow>
     (case c of
        Call_detect _ \<Rightarrow> True
      | Call_snapshot m _ \<Rightarrow> K (pm_kind m)
      | Call_apply m _ \<Rightarrow> K (pm_kind m) \<and> V (pm_desired m)
      | Call_verify m _ _ \<Rightarrow> K (pm_kind m)
      | Call_restore m s _ \<Rightarrow> K (pm_kind m) \<and> V (sn_original_typed s)
      | Call_admission m _ \<Rightarrow> K (pm_kind m)
      | Call_target m _ \<Rightarrow> K (pm_kind m))"

locale workload_port =
  fixes io :: "'w workload_io" and I :: "'w \<Rightarrow> bool"
    and K :: "mutation_kind \<Rightarrow> bool" and V :: "typed_value \<Rightarrow> bool"
  assumes detect_keeps: "\<And>now. keeps I (wl_detect io (areturn (Inr now)))"
    and mutation_keeps: "\<And>k. K k \<Longrightarrow> keeps I (wl_read_mutation io k)"
    and process_keeps: "\<And>k. K k \<Longrightarrow> keeps I (wl_read_process io k)"
    and validate_keeps: "\<And>k d. K k \<Longrightarrow> keeps I (wl_validate_desired io k d)"
    and write_keeps: "\<And>k d. K k \<Longrightarrow> V d \<Longrightarrow> keeps I (wl_write_mutation io k d)"
begin

lemma read_keeps: "K (pm_kind m) \<Longrightarrow> keeps I (wl_read io m)"
  unfolding wl_read_def by (cases "pm_kind m") (auto intro: mutation_keeps process_keeps)

lemma canonical_keeps: "K (pm_kind m) \<Longrightarrow> keeps I (validate_canonical_target io m i)"
  unfolding validate_canonical_target_def by (intro keeps_intros read_keeps validate_keeps)

lemma call_keeps:
  assumes "admitted_call K V c" "I w"
  shows "I (backend_step (WorkloadBackend io) c w)"
  using assms
  by (cases c)
    (auto simp: admitted_call_def backend_step_def WorkloadBackend_def wl_snapshot_def wl_apply_def wl_verify_def
      wl_restore_def wl_validate_admission_def wl_validate_target_def
      intro!: keeps_snd [of I] keeps_intros read_keeps canonical_keeps validate_keeps write_keeps detect_keeps)

lemma run_keeps: "list_all (admitted_call K V) calls \<Longrightarrow> I w \<Longrightarrow> I (fold (backend_step (WorkloadBackend io)) calls w)"
  by (induction calls arbitrary: w) (auto intro: call_keeps)

end

end
