(* ===== verification/Cgroup_Placement.thy ===== *)
theory Cgroup_Placement
  imports Cgroup_Fixture Workload_Invariant
begin

text \<open>
  What the workload backend guarantees over its fixture: every process stays a member of exactly the
  cgroup it is recorded in, whatever calls are made, and the restore of a successful apply brings the
  whole hierarchy back.
\<close>

section \<open>Ordered maps with the same lookups\<close>

lemma bt_ext:
  assumes "bt_sorted m" "bt_sorted n" "map_of m = map_of n"
  shows "m = n"
proof -
  have canonical: "l = map (\<lambda>k. (k, the (map_of l k))) (map fst l)" if "bt_sorted l" for l :: "('a::linorder \<times> 'b) list"
  proof -
    have "map (\<lambda>x. (fst x, the (map_of l (fst x)))) l = l"
      by (rule map_idI) (use map_of_in_set [OF that] in fastforce)
    then show ?thesis by (simp add: comp_def)
  qed
  have keys: "set (map fst m) = set (map fst n)"
    using assms(3) by (metis dom_map_of_conv_image_fst list.set_map)
  with assms(1,2) have "map fst m = map fst n"
    by (intro sorted_distinct_set_unique) (auto simp: bt_sorted_def strict_sorted_iff)
  with canonical [OF assms(1)] canonical [OF assms(2)] assms(3) show ?thesis by metis
qed

section \<open>The invariant\<close>

abbreviation group_at :: "cgroup_fixture \<Rightarrow> target_id \<Rightarrow> fixture_group option" where
  "group_at st \<equiv> map_of (cg_groups st)"

abbreviation process_at :: "cgroup_fixture \<Rightarrow> process_id \<Rightarrow> fixture_process option" where
  "process_at st \<equiv> map_of (cg_processes st)"

definition placed :: "cgroup_fixture \<Rightarrow> process_id \<Rightarrow> target_id \<Rightarrow> bool" where
  "placed st q k \<longleftrightarrow> (\<exists>p. process_at st q = Some p \<and> fr_cgroup p = k)"

definition ordered :: "cgroup_fixture \<Rightarrow> bool" where
  "ordered st \<longleftrightarrow> bt_sorted (cg_groups st) \<and> bt_sorted (cg_processes st)"

text \<open>Every group has its key as its handle, every process is recorded under its own identity in a group
  of the hierarchy, and the members of a group are exactly the processes recorded in it.\<close>

definition hierarchy_ok :: "cgroup_fixture \<Rightarrow> bool" where
  "hierarchy_ok st \<longleftrightarrow> ordered st
     \<and> (\<forall>k g. group_at st k = Some g \<longrightarrow> handle (fg_identity g) = k
         \<and> (\<forall>q. q \<in> fg_processes g \<longleftrightarrow> placed st q k))
     \<and> (\<forall>q p. process_at st q = Some p \<longrightarrow> fr_identity p = q \<and> group_at st (fr_cgroup p) \<noteq> None)"

lemma hierarchy_okD:
  assumes "hierarchy_ok st"
  shows "ordered st" "bt_sorted (cg_groups st)" "bt_sorted (cg_processes st)"
    "group_at st k = Some g \<Longrightarrow> handle (fg_identity g) = k"
    "group_at st k = Some g \<Longrightarrow> q \<in> fg_processes g \<longleftrightarrow> placed st q k"
    "process_at st q = Some p \<Longrightarrow> fr_identity p = q"
    "process_at st q = Some p \<Longrightarrow> group_at st (fr_cgroup p) \<noteq> None"
  using assms by (auto simp: hierarchy_ok_def ordered_def)

lemma state_ext:
  "ordered a \<Longrightarrow> ordered b \<Longrightarrow> group_at a = group_at b \<Longrightarrow> process_at a = process_at b \<Longrightarrow> a = b"
  unfolding ordered_def by (auto intro!: cgroup_fixture.equality bt_ext)

lemma resolve_group_ok:
  "resolve_group st c = Inr g \<longleftrightarrow> group_at st (handle c) = Some g
     \<and> (mount_id c = 0 \<or> mount_id c = mount_id (fg_identity g))
     \<and> (inode c = 0 \<or> inode c = inode (fg_identity g))"
  by (auto simp: resolve_group_def rbind_eq_Inr)

lemma change_group_ok:
  "change_group c f st = (Inr u, st') \<longleftrightarrow> (\<exists>g. resolve_group st c = Inr g
     \<and> st' = st\<lparr>cg_groups := bt_insert (handle c) (f g) (cg_groups st)\<rparr>)"
  by (auto simp: change_group_def split: sum.splits)

lemma change_process_ok:
  "change_process q f st = (Inr u, st') \<longleftrightarrow> (\<exists>p. process_at st q = Some p
     \<and> st' = st\<lparr>cg_processes := bt_insert q (f p) (cg_processes st)\<rparr>)"
  by (auto simp: change_process_def split: option.splits)

lemma update_members_simps [simp]:
  "cg_processes (update_members k f st) = cg_processes st"
  "bt_sorted (cg_groups st) \<Longrightarrow> bt_sorted (cg_groups (update_members k f st))"
  "bt_sorted (cg_groups st) \<Longrightarrow> group_at (update_members k f st) =
     (\<lambda>k'. if k' = k then map_option (\<lambda>g. g\<lparr>fg_processes := f (fg_processes g)\<rparr>) (group_at st k) else group_at st k')"
  by (auto simp: update_members_def fun_eq_iff split: option.splits)

section \<open>Every call keeps the invariant\<close>

lemma change_group_keeps:
  assumes "\<And>g. fg_identity (f g) = fg_identity g" "\<And>g. fg_processes (f g) = fg_processes g"
  shows "keeps hierarchy_ok (change_group c f)"
  unfolding keeps_def
proof (intro allI impI)
  fix st r st' assume ok: "hierarchy_ok st" and run: "change_group c f st = (r, st')"
  show "hierarchy_ok st'"
  proof (cases "resolve_group st c")
    case (Inr g)
    with run have st': "st' = st\<lparr>cg_groups := bt_insert (handle c) (f g) (cg_groups st)\<rparr>"
      by (simp add: change_group_def)
    have g: "group_at st (handle c) = Some g" using Inr by (simp add: resolve_group_ok)
    have groups: "group_at st' = (group_at st)(handle c \<mapsto> f g)" "process_at st' = process_at st" "ordered st'"
      using hierarchy_okD(1-3) [OF ok] by (auto simp: st' ordered_def)
    then show ?thesis
      using ok g assms unfolding hierarchy_ok_def placed_def by auto
  qed (use ok run in \<open>simp add: change_group_def\<close>)
qed

lemma change_process_keeps:
  assumes "\<And>p. fr_identity (f p) = fr_identity p" "\<And>p. fr_cgroup (f p) = fr_cgroup p"
  shows "keeps hierarchy_ok (change_process q f)"
  unfolding keeps_def
proof (intro allI impI)
  fix st r st' assume ok: "hierarchy_ok st" and run: "change_process q f st = (r, st')"
  show "hierarchy_ok st'"
  proof (cases "process_at st q")
    case (Some p)
    with run have st': "st' = st\<lparr>cg_processes := bt_insert q (f p) (cg_processes st)\<rparr>"
      by (simp add: change_process_def)
    have "process_at st' = (process_at st)(q \<mapsto> f p)" "group_at st' = group_at st" "ordered st'"
      using hierarchy_okD(1-3) [OF ok] by (auto simp: st' ordered_def)
    then show ?thesis
      using ok Some assms unfolding hierarchy_ok_def placed_def by auto
  qed (use ok run in \<open>simp add: change_process_def\<close>)
qed

lemma new_group_simps [simp]:
  "fg_processes (new_group i p c d s) = {}" "fg_identity (new_group i p c d s) = i"
  by (simp_all add: new_group_def)

lemma create_ok:
  "create_fixture_group parent name st = (Inr u, st') \<longleftrightarrow> (\<exists>g target. resolve_group st parent = Inr g
     \<and> child_target (handle parent) name = Inr target \<and> group_at st target = None
     \<and> st' = st\<lparr>cg_groups := bt_insert target
         (new_group (CgroupId (mount_id (fg_identity g)) (next_inode st) target)
           (child_path (fg_relative_path g) name) (fg_controllers g) (fg_delegated g) (fg_cpuset g)) (cg_groups st)\<rparr>)"
  by (auto simp: create_fixture_group_def rbind_eq_Inr rbind_eq_Inl split: sum.splits if_splits)

lemma create_error: "create_fixture_group parent name st = (Inl e, st') \<Longrightarrow> st' = st"
  by (auto simp: create_fixture_group_def split: sum.splits)

lemma remove_ok:
  "remove_fixture_group parent name st = (Inr u, st') \<Longrightarrow> \<exists>g target. child_target (handle parent) name = Inr target
     \<and> group_at st target = Some g \<and> fg_processes g = {} \<and> st' = st\<lparr>cg_groups := bt_remove target (cg_groups st)\<rparr>"
  by (auto simp: remove_fixture_group_def rbind_eq_Inr split: sum.splits if_splits)

lemma remove_error: "remove_fixture_group parent name st = (Inl e, st') \<Longrightarrow> st' = st"
  by (auto simp: remove_fixture_group_def split: sum.splits)

lemma create_keeps: "keeps hierarchy_ok (create_fixture_group parent name)"
  unfolding keeps_def
proof (intro allI impI)
  fix st r st' assume ok: "hierarchy_ok st" and run: "create_fixture_group parent name st = (r, st')"
  show "hierarchy_ok st'"
  proof (cases r)
    case (Inr u)
    have "\<exists>g target. group_at st target = None \<and> fg_processes g = {} \<and> handle (fg_identity g) = target
        \<and> st' = st\<lparr>cg_groups := bt_insert target g (cg_groups st)\<rparr>"
      using run [unfolded Inr create_ok] by (elim exE conjE) (intro exI conjI; simp)
    then obtain g target where "group_at st target = None" and g: "fg_processes g = {}" "handle (fg_identity g) = target"
        and st': "st' = st\<lparr>cg_groups := bt_insert target g (cg_groups st)\<rparr>" by blast
    have groups: "group_at st' = (group_at st)(target \<mapsto> g)" "process_at st' = process_at st" "ordered st'"
      using hierarchy_okD(1-3) [OF ok] by (auto simp: st' ordered_def)
    have "\<not> placed st q target" for q
      using hierarchy_okD(7) [OF ok] \<open>group_at st target = None\<close> unfolding placed_def by blast
    then show ?thesis
      using ok groups g unfolding hierarchy_ok_def placed_def by auto
  qed (use ok run create_error in blast)
qed

lemma remove_keeps: "keeps hierarchy_ok (remove_fixture_group parent name)"
  unfolding keeps_def
proof (intro allI impI)
  fix st r st' assume ok: "hierarchy_ok st" and run: "remove_fixture_group parent name st = (r, st')"
  show "hierarchy_ok st'"
  proof (cases r)
    case (Inr u)
    with run remove_ok obtain g target where g: "group_at st target = Some g" "fg_processes g = {}"
        and st': "st' = st\<lparr>cg_groups := bt_remove target (cg_groups st)\<rparr>" by blast
    have groups: "group_at st' = (group_at st)(target := None)" "process_at st' = process_at st" "ordered st'"
      using hierarchy_okD(1-3) [OF ok] by (auto simp: st' ordered_def)
    have "\<not> placed st q target" for q
      using hierarchy_okD(5) [OF ok g(1)] g(2) by auto
    then show ?thesis
      using ok groups unfolding hierarchy_ok_def placed_def by auto
  qed (use ok run remove_error in blast)
qed

text \<open>A process put into one group and taken out of every other.\<close>

definition put :: "process_id \<Rightarrow> target_id \<Rightarrow> target_id \<Rightarrow> fixture_group \<Rightarrow> fixture_group" where
  "put q key k g = g\<lparr>fg_processes := (if k = key then insert q (fg_processes g) else fg_processes g - {q})\<rparr>"

lemma put_simps [simp]:
  "fg_identity (put q key k g) = fg_identity g" "q' \<in> fg_processes (put q key k g) \<longleftrightarrow>
     (if q' = q then k = key else q' \<in> fg_processes g)"
  by (auto simp: put_def)

lemma put_keeps:
  assumes "hierarchy_ok st" "group_at st key = Some g" "ordered st'"
    and P: "process_at st' = (process_at st)(q \<mapsto> p)" and p: "fr_identity p = q" "fr_cgroup p = key"
    and G: "group_at st' = (\<lambda>k. map_option (put q key k) (group_at st k))"
  shows "hierarchy_ok st'"
proof -
  have placed': "placed st' q' k \<longleftrightarrow> (if q' = q then k = key else placed st q' k)" for q' k
    using p by (auto simp: placed_def P)
  note ok = hierarchy_okD [OF assms(1)]
  show ?thesis
    unfolding hierarchy_ok_def
  proof (intro conjI allI impI)
    fix k g' assume "group_at st' k = Some g'"
    then obtain g0 where g0: "group_at st k = Some g0" and g': "g' = put q key k g0" by (auto simp: G)
    show "handle (fg_identity g') = k" using ok(4) [OF g0] by (simp add: g')
    show "q' \<in> fg_processes g' \<longleftrightarrow> placed st' q' k" for q'
      using ok(5) [OF g0, of q'] by (simp add: g' placed')
  next
    fix q' p' assume p': "process_at st' q' = Some p'"
    show "fr_identity p' = q'" using p' ok(6) p by (auto simp: P split: if_splits)
    show "group_at st' (fr_cgroup p') \<noteq> None" using p' ok(7) [of q'] assms(2) p by (auto simp: P G split: if_splits)
  qed (rule assms(3))
qed

lemma put_elsewhere:
  assumes "hierarchy_ok st" "group_at st k = Some g" "\<not> placed st q k" "k \<noteq> key"
  shows "put q key k g = g"
  using hierarchy_okD(5) [OF assms(1,2), of q] assms(3,4) by (auto simp: put_def)

text \<open>Where a successful move leaves the hierarchy.\<close>

lemma move_ok:
  assumes "hierarchy_ok st" "move_fixture_process q c st = (r, st')"
  shows "r \<noteq> Inr () \<and> st' = st \<or> (\<exists>p g. r = Inr () \<and> process_at st q = Some p \<and> resolve_group st c = Inr g
     \<and> ordered st' \<and> process_at st' = (process_at st)(q \<mapsto> p\<lparr>fr_cgroup := handle c\<rparr>)
     \<and> group_at st' = (\<lambda>k. map_option (put q (handle c) k) (group_at st k)))"
proof -
  note ok = hierarchy_okD [OF assms(1)]
  show ?thesis
  proof (cases "resolve_group st c")
    case (Inr g)
    then have g: "group_at st (handle c) = Some g" by (simp add: resolve_group_ok)
    then have key: "handle (fg_identity g) = handle c" by (rule ok(4))
    show ?thesis
    proof (cases "process_at st q")
      case (Some p)
      let ?st = "update_members (handle c) (insert q) (update_members (fr_cgroup p) (\<lambda>ps. ps - {q}) st)"
      have st': "r = Inr ()" "st' = ?st\<lparr>cg_processes := bt_insert q (p\<lparr>fr_cgroup := handle c\<rparr>) (cg_processes st)\<rparr>"
        using assms(2) Inr Some g key ok(2)
        by (cases "handle c = fr_cgroup p"; auto simp: move_fixture_process_def Let_def change_process_def)+
      have "group_at st' k = map_option (put q (handle c) k) (group_at st k)" for k
        using ok(2) put_elsewhere [OF assms(1), of k _ q "handle c"] Some
        by (cases "group_at st k") (auto simp: st'(2) placed_def put_def)
      moreover have "ordered st'" "process_at st' = (process_at st)(q \<mapsto> p\<lparr>fr_cgroup := handle c\<rparr>)"
        using ok(2,3) by (auto simp: st'(2) ordered_def)
      ultimately show ?thesis using Some Inr st'(1) by blast
    qed (use assms(2) Inr in \<open>auto simp: move_fixture_process_def\<close>)
  qed (use assms(2) in \<open>auto simp: move_fixture_process_def\<close>)
qed

lemma move_keeps: "keeps hierarchy_ok (move_fixture_process q c)"
  unfolding keeps_def
proof (intro allI impI)
  fix st r st' assume ok: "hierarchy_ok st" and run: "move_fixture_process q c st = (r, st')"
  from move_ok [OF this] show "hierarchy_ok st'"
  proof (elim disjE exE conjE)
    fix p g assume "process_at st q = Some p" "resolve_group st c = Inr g" "ordered st'"
      and "process_at st' = (process_at st)(q \<mapsto> p\<lparr>fr_cgroup := handle c\<rparr>)"
      and "group_at st' = (\<lambda>k. map_option (put q (handle c) k) (group_at st k))"
    then show ?thesis
      using hierarchy_okD(6) [OF ok] by (intro put_keeps [OF ok]) (auto simp: resolve_group_ok)
  qed (use ok in simp)
qed

text \<open>Processes that are added or exit, and the empty hierarchy.\<close>

lemma add_process_keeps: "keeps hierarchy_ok (add_process q c nice ioprio)"
  unfolding keeps_def
proof (intro allI impI)
  fix st r st' assume ok: "hierarchy_ok st" and run: "add_process q c nice ioprio st = (r, st')"
  note okD = hierarchy_okD [OF ok]
  show "hierarchy_ok st'"
  proof (cases "resolve_group st c")
    case (Inr g)
    then have g: "group_at st (handle c) = Some g" by (simp add: resolve_group_ok)
    then have key: "handle (fg_identity g) = handle c" by (rule okD(4))
    define mid where "mid = (case process_at st q of None \<Rightarrow> st | Some previous \<Rightarrow>
      (if fr_cgroup previous \<noteq> handle c then update_members (fr_cgroup previous) (\<lambda>ps. ps - {q}) st else st))"
    have mid: "cg_processes mid = cg_processes st" "bt_sorted (cg_groups mid)"
      "group_at mid k = map_option (\<lambda>g. if k = handle c then g else put q (handle c) k g) (group_at st k)" for k
    proof -
      show "cg_processes mid = cg_processes st" "bt_sorted (cg_groups mid)"
        using okD(2) by (auto simp: mid_def split: option.split)
      show "group_at mid k = map_option (\<lambda>g. if k = handle c then g else put q (handle c) k g) (group_at st k)"
        using okD(2) put_elsewhere [OF ok, of k _ q "handle c"]
        by (cases "group_at st k") (auto simp: mid_def placed_def put_def split: option.split)
    qed
    then have "group_at mid (handle c) \<noteq> None" using g by simp
    with run Inr key have st': "st' = (update_members (handle c) (insert q) mid)
        \<lparr>cg_processes := bt_insert q \<lparr>fr_identity = q, fr_cgroup = handle c, fr_nice = nice, fr_ioprio = ioprio\<rparr>
          (cg_processes mid)\<rparr>"
      by (auto simp: add_process_def mid_def [symmetric] Let_def)
    have "group_at st' k = map_option (put q (handle c) k) (group_at st k)" for k
      using mid by (cases "group_at st k") (auto simp: st' put_def)
    with okD(3) mid g show ?thesis
      by (intro put_keeps [OF ok g]) (auto simp: st' ordered_def)
  qed (use ok run in \<open>simp add: add_process_def\<close>)
qed

lemma new_hierarchy_ok: "hierarchy_ok CgroupFixture_new"
  by (auto simp: hierarchy_ok_def ordered_def CgroupFixture_new_def add_group_def root_id_def placed_def bt_sorted_def
    split: if_splits)

lemma lifecycle_keeps: "keeps hierarchy_ok (fixture_write_lifecycle parent name desired)"
  unfolding fixture_write_lifecycle_def
  by (cases desired) (auto intro: create_keeps remove_keeps keeps_return)

lemma write_keeps: "keeps hierarchy_ok (fixture_write_mutation kind desired)"
  unfolding fixture_write_mutation_def
  by (cases kind)
    (auto intro!: change_group_keeps change_process_keeps lifecycle_keeps move_keeps keeps_return split: typed_value.split)

text \<open>The reads and checks of the port leave the fixture alone.\<close>

lemma fixture_reads_pure [pure_intros]:
  "pure_action (fixture_read_mutation kind)" "pure_action (fixture_read_process kind)"
  "pure_action (cgroup_validate_desired kind desired)"
  by (simp_all add: pure_action_def fixture_read_mutation_def fixture_read_process_def cgroup_validate_desired_def)

lemma wl_read_fixture [pure_intros]: "pure_action (wl_read CgroupFixture_io m)"
  unfolding wl_read_def CgroupFixture_io_def by (cases "pm_kind m") (auto intro: pure_intros)

lemma keeps_pure: "pure_action m \<Longrightarrow> keeps I m"
  unfolding keeps_def by (metis pure_actionD)

lemma port_simps [simp]:
  "wl_validate_desired CgroupFixture_io = cgroup_validate_desired"
  "wl_write_mutation CgroupFixture_io = fixture_write_mutation"
  "wl_detect CgroupFixture_io = fixture_workload_detect"
  by (simp_all add: CgroupFixture_io_def)

lemma fixture_detect_keeps: "keeps hierarchy_ok (fixture_workload_detect (areturn (Inr now)))"
  by (simp add: fixture_workload_detect_def keeps_def Let_def)

interpretation fixture_port: workload_port CgroupFixture_io hierarchy_ok "\<lambda>_. True" "\<lambda>_. True"
  by unfold_locales
    (simp_all add: CgroupFixture_io_def fixture_detect_keeps write_keeps keeps_pure [OF fixture_reads_pure(1)]
      keeps_pure [OF fixture_reads_pure(2)] keeps_pure [OF fixture_reads_pure(3)])

text \<open>
  C37: under the workload backend a process is never in two cgroups, in none, or in another than the one
  it is recorded in. Any sequence of backend calls on a consistent hierarchy, successful or refused,
  leaves it consistent: groups keep the handle they are stored under, and the members of each group are
  exactly the processes recorded in it.
\<close>

theorem placement_invariant:
  "hierarchy_ok fx \<Longrightarrow> hierarchy_ok (fold (backend_step (WorkloadBackend CgroupFixture_io)) calls fx)"
  by (rule fixture_port.run_keeps) (simp_all add: list_all_iff admitted_call_def split: backend_call.splits)

section \<open>Restoration brings the whole hierarchy back\<close>

lemma observation_typed: "WorkloadObservation_new raw typed identity = Inr ob \<Longrightarrow> wo_typed ob = typed"
  by (auto simp: WorkloadObservation_new_def rbind_eq_Inr)

lemma change_group_undo:
  assumes "hierarchy_ok st" "resolve_group st c = Inr g" "change_group c f st = (Inr u, st1)"
    and "fg_identity (f g) = fg_identity g" "h (f g) = g"
  shows "change_group c h st1 = (Inr (), st)"
proof -
  note ok = hierarchy_okD [OF assms(1)]
  have g: "group_at st (handle c) = Some g" using assms(2) by (simp add: resolve_group_ok)
  have st1: "st1 = st\<lparr>cg_groups := bt_insert (handle c) (f g) (cg_groups st)\<rparr>"
    using assms(2,3) by (auto simp: change_group_ok)
  have "resolve_group st1 c = Inr (f g)"
    using ok(2) assms(2,4) by (simp add: st1 resolve_group_ok)
  moreover have "st1\<lparr>cg_groups := bt_insert (handle c) g (cg_groups st1)\<rparr> = st"
    using ok(2,3) g by (intro state_ext) (auto simp: st1 ordered_def fun_eq_iff)
  ultimately show ?thesis using assms(5) by (simp add: change_group_ok)
qed

lemma change_process_undo:
  assumes "hierarchy_ok st" "process_at st q = Some p" "change_process q f st = (Inr u, st1)" "h (f p) = p"
  shows "change_process q h st1 = (Inr (), st)"
proof -
  note ok = hierarchy_okD [OF assms(1)]
  have st1: "st1 = st\<lparr>cg_processes := bt_insert q (f p) (cg_processes st)\<rparr>"
    using assms(2,3) by (auto simp: change_process_ok)
  have "st1\<lparr>cg_processes := bt_insert q p (cg_processes st1)\<rparr> = st"
    using ok(2,3) assms(2) by (intro state_ext) (auto simp: st1 ordered_def fun_eq_iff)
  with ok(3) assms(4) show ?thesis by (simp add: change_process_ok) (simp add: st1)
qed

lemma move_undo:
  assumes "hierarchy_ok st" "process_at st q = Some p" "group_at st (fr_cgroup p) = Some g"
    and "move_fixture_process q c st = (Inr u, st1)"
  shows "move_fixture_process q (fg_identity g) st1 = (Inr (), st)"
proof -
  note ok = hierarchy_okD [OF assms(1)]
  have key: "handle (fg_identity g) = fr_cgroup p" using ok(4) [OF assms(3)] .
  have ok1: "hierarchy_ok st1" using keepsD [OF move_keeps assms(1,4)] .
  from move_ok [OF assms(1,4)] assms(2) have
    one: "process_at st1 = (process_at st)(q \<mapsto> p\<lparr>fr_cgroup := handle c\<rparr>)"
      "group_at st1 = (\<lambda>k. map_option (put q (handle c) k) (group_at st k))"
    by auto
  obtain r st2 where run: "move_fixture_process q (fg_identity g) st1 = (r, st2)" by fastforce
  obtain g1 where g1: "resolve_group st1 (fg_identity g) = Inr g1" "handle (fg_identity g1) = fr_cgroup p"
    using assms(3) key by (auto simp: resolve_group_ok one(2))
  have present: "group_at (update_members k f st1) (fr_cgroup p) \<noteq> None" for k f
    using hierarchy_okD(2) [OF ok1] assms(3) by (auto simp: one(2))
  have "r = Inr ()"
    using run g1 present by (auto simp: move_fixture_process_def Let_def one(1) change_process_def)
  with move_ok [OF ok1 run] obtain p1 where
    two: "process_at st1 q = Some p1" "ordered st2"
      "process_at st2 = (process_at st1)(q \<mapsto> p1\<lparr>fr_cgroup := handle (fg_identity g)\<rparr>)"
      "group_at st2 = (\<lambda>k. map_option (put q (handle (fg_identity g)) k) (group_at st1 k))"
    by auto
  have procs: "process_at st2 = process_at st"
    using one(1) two(1,3) assms(2) by (auto simp: key fun_eq_iff)
  have "group_at st2 k = group_at st k" for k
  proof (cases "group_at st k")
    case (Some g')
    have "q \<in> fg_processes g' \<longleftrightarrow> k = fr_cgroup p"
      using ok(5) [OF Some, of q] assms(2) by (auto simp: placed_def)
    then have "put q (fr_cgroup p) k (put q (handle c) k g') = g'" by (cases g') (auto simp: put_def)
    then show ?thesis by (simp add: two(4) one(2) Some key)
  qed (simp add: two(4) one(2))
  then have "st2 = st" using two(2) ok(1) procs by (intro state_ext) auto
  with run \<open>r = Inr ()\<close> show ?thesis by simp
qed

lemma create_undo:
  assumes "hierarchy_ok st" "create_fixture_group parent name st = (Inr u, st1)"
    and "remove_fixture_group parent name st1 = (Inr v, st2)"
  shows "st2 = st"
proof -
  note ok = hierarchy_okD [OF assms(1)]
  from assms(2) obtain g target where target: "child_target (handle parent) name = Inr target" "group_at st target = None"
      and st1: "st1 = st\<lparr>cg_groups := bt_insert target g (cg_groups st)\<rparr>"
    unfolding create_ok by blast
  from remove_ok [OF assms(3)] target(1) have st2: "st2 = st1\<lparr>cg_groups := bt_remove target (cg_groups st1)\<rparr>" by auto
  show ?thesis using ok(2,3) target(2)
    by (intro state_ext) (auto simp: st1 st2 ordered_def fun_eq_iff)
qed

text \<open>What the reads found.\<close>

lemma observe_found:
  assumes "fixture_observe st c n = Inr ob"
  obtains g where "resolve_group st c = Inr g" "wo_typed ob = node_value g n"
  using assms by (auto simp: fixture_observe_def observation_for_group_def rbind_eq_Inr dest: observation_typed)

lemma read_process_found:
  assumes "fixture_read_process kind st = (Inr ob, st')" "process_of kind = Some q"
  obtains p g where "process_at st q = Some p" "group_at st (fr_cgroup p) = Some g" "wo_typed ob = process_value kind p g"
  using assms
  by (auto simp: fixture_read_process_def rbind_eq_Inr Let_def dest: observation_typed split: if_splits)

lemma lifecycle_found:
  assumes "fixture_lifecycle st parent name kind = Inr ob"
  obtains t where "child_target (handle parent) name = Inr t"
    "wo_typed ob = typed_value.CgroupLifecycle kind name (group_at st t \<noteq> None)"
  using assms
  by (auto simp: fixture_lifecycle_def observation_for_group_def rbind_eq_Inr Let_def dest!: observation_typed)

definition is_lifecycle :: "mutation_kind \<Rightarrow> bool" where
  "is_lifecycle kind \<longleftrightarrow> (case kind of mutation_kind.CgroupWorkload _ _ \<Rightarrow> True
     | mutation_kind.CgroupBackground _ _ \<Rightarrow> True | _ \<Rightarrow> False)"

lemma lifecycle_undo:
  assumes "hierarchy_ok st" "fixture_lifecycle st parent name kind = Inr ob"
    and "fixture_write_lifecycle parent name (typed_value.CgroupLifecycle kind' name' True) st = (Inr u, st1)"
  shows "\<exists>v st2. fixture_write_lifecycle parent name (wo_typed ob) st1 = (v, st2) \<and> st2 = (if v = Inr () then st else st1)"
proof -
  from assms(3) have one: "create_fixture_group parent name st = (Inr u, st1)" by (simp add: fixture_write_lifecycle_def)
  from lifecycle_found [OF assms(2)] obtain t where t: "child_target (handle parent) name = Inr t"
    "wo_typed ob = typed_value.CgroupLifecycle kind name (group_at st t \<noteq> None)" by metis
  have "group_at st t = None" using one t(1) by (auto simp: create_ok)
  with t(2) have same: "fixture_write_lifecycle parent name (wo_typed ob) st1 = remove_fixture_group parent name st1"
    by (simp add: fixture_write_lifecycle_def)
  obtain v st2 where run: "remove_fixture_group parent name st1 = (v, st2)" by fastforce
  show ?thesis
  proof (cases v)
    case (Inl e)
    with run remove_error same show ?thesis by fastforce
  next
    case (Inr x)
    with run create_undo [OF assms(1) one] same show ?thesis by fastforce
  qed
qed

lemma write_undo:
  assumes ok: "hierarchy_ok st" and ob: "wl_read CgroupFixture_io m st = (Inr ob, st)"
    and one: "fixture_write_mutation (pm_kind m) (kind_value (pm_kind m)) st = (Inr u, st1)"
  shows "\<exists>v st2. fixture_write_mutation (pm_kind m) (wo_typed ob) st1 = (v, st2)
    \<and> st2 = (if v = Inr () then st else st1) \<and> (is_lifecycle (pm_kind m) \<or> v = Inr ())"
proof -
  note read = ob [unfolded wl_read_def CgroupFixture_io_def]
  note simps = fixture_read_mutation_def fixture_write_mutation_def node_value_def process_of_def process_value_def
    is_lifecycle_def
  show ?thesis
  proof (cases "pm_kind m")
    case (CgroupCpuWeight c w)
    with read have "fixture_observe st c WlCpuWeight = Inr ob" by (simp add: simps)
    then obtain g where g: "resolve_group st c = Inr g" "wo_typed ob = node_value g WlCpuWeight" by (rule observe_found)
    have "change_group c (\<lambda>g. g\<lparr>fg_cpu_weight := w\<rparr>) st = (Inr u, st1)"
      using one CgroupCpuWeight by (simp add: simps)
    from change_group_undo [OF ok g(1) this, of "\<lambda>g'. g'\<lparr>fg_cpu_weight := fg_cpu_weight g\<rparr>"] CgroupCpuWeight g(2)
    show ?thesis by (simp add: simps)
  next
    case (CgroupCpuMax c quota period)
    with read have "fixture_observe st c WlCpuMax = Inr ob" by (simp add: simps)
    then obtain g where g: "resolve_group st c = Inr g" "wo_typed ob = node_value g WlCpuMax" by (rule observe_found)
    have "change_group c (\<lambda>g. g\<lparr>fg_cpu_quota := quota, fg_cpu_period := period\<rparr>) st = (Inr u, st1)"
      using one CgroupCpuMax by (simp add: simps)
    from change_group_undo [OF ok g(1) this, of "\<lambda>g'. g'\<lparr>fg_cpu_quota := fg_cpu_quota g, fg_cpu_period := fg_cpu_period g\<rparr>"] CgroupCpuMax g(2)
    show ?thesis by (simp add: simps)
  next
    case (CgroupCpuset c w)
    with read have "fixture_observe st c WlCpuset = Inr ob" by (simp add: simps)
    then obtain g where g: "resolve_group st c = Inr g" "wo_typed ob = node_value g WlCpuset" by (rule observe_found)
    have "change_group c (\<lambda>g. g\<lparr>fg_cpuset := w\<rparr>) st = (Inr u, st1)"
      using one CgroupCpuset by (simp add: simps)
    from change_group_undo [OF ok g(1) this, of "\<lambda>g'. g'\<lparr>fg_cpuset := fg_cpuset g\<rparr>"] CgroupCpuset g(2)
    show ?thesis by (simp add: simps)
  next
    case (CgroupIoWeight c w)
    with read have "fixture_observe st c WlIoWeight = Inr ob" by (simp add: simps)
    then obtain g where g: "resolve_group st c = Inr g" "wo_typed ob = node_value g WlIoWeight" by (rule observe_found)
    have "change_group c (\<lambda>g. g\<lparr>fg_io_weight := w\<rparr>) st = (Inr u, st1)"
      using one CgroupIoWeight by (simp add: simps)
    from change_group_undo [OF ok g(1) this, of "\<lambda>g'. g'\<lparr>fg_io_weight := fg_io_weight g\<rparr>"] CgroupIoWeight g(2)
    show ?thesis by (simp add: simps)
  next
    case (CgroupUclampMin c w)
    with read have "fixture_observe st c WlUclampMin = Inr ob" by (simp add: simps)
    then obtain g where g: "resolve_group st c = Inr g" "wo_typed ob = node_value g WlUclampMin" by (rule observe_found)
    have "change_group c (\<lambda>g. g\<lparr>fg_uclamp_min := w\<rparr>) st = (Inr u, st1)"
      using one CgroupUclampMin by (simp add: simps)
    from change_group_undo [OF ok g(1) this, of "\<lambda>g'. g'\<lparr>fg_uclamp_min := fg_uclamp_min g\<rparr>"] CgroupUclampMin g(2)
    show ?thesis by (simp add: simps)
  next
    case (CgroupUclampMax c w)
    with read have "fixture_observe st c WlUclampMax = Inr ob" by (simp add: simps)
    then obtain g where g: "resolve_group st c = Inr g" "wo_typed ob = node_value g WlUclampMax" by (rule observe_found)
    have "change_group c (\<lambda>g. g\<lparr>fg_uclamp_max := w\<rparr>) st = (Inr u, st1)"
      using one CgroupUclampMax by (simp add: simps)
    from change_group_undo [OF ok g(1) this, of "\<lambda>g'. g'\<lparr>fg_uclamp_max := fg_uclamp_max g\<rparr>"] CgroupUclampMax g(2)
    show ?thesis by (simp add: simps)
  next
    case (CgroupWorkload parent name)
    with read one have "fixture_lifecycle st parent name Workload = Inr ob"
      "fixture_write_lifecycle parent name (typed_value.CgroupLifecycle Workload name True) st = (Inr u, st1)"
      by (simp_all add: simps)
    from lifecycle_undo [OF ok this] CgroupWorkload show ?thesis by (simp add: simps)
  next
    case (CgroupBackground parent name)
    with read one have "fixture_lifecycle st parent name ConservativeBackground = Inr ob"
      "fixture_write_lifecycle parent name (typed_value.CgroupLifecycle ConservativeBackground name True) st = (Inr u, st1)"
      by (simp_all add: simps)
    from lifecycle_undo [OF ok this] CgroupBackground show ?thesis by (simp add: simps)
  next
    case (ProcessNice q w)
    with read obtain p g where p: "process_at st q = Some p" "wo_typed ob = typed_value.Nice (fr_nice p)"
      using read_process_found [of "pm_kind m" st ob st q] by (auto simp: simps)
    have "change_process q (\<lambda>p. p\<lparr>fr_nice := w\<rparr>) st = (Inr u, st1)"
      using one ProcessNice by (simp add: simps)
    from change_process_undo [OF ok p(1) this, of "\<lambda>p'. p'\<lparr>fr_nice := fr_nice p\<rparr>"] ProcessNice p(2)
    show ?thesis by (simp add: simps)
  next
    case (ProcessIoPriority q w)
    with read obtain p g where p: "process_at st q = Some p" "wo_typed ob = typed_value.IoPriorityValue (fr_ioprio p)"
      using read_process_found [of "pm_kind m" st ob st q] by (auto simp: simps)
    have "change_process q (\<lambda>p. p\<lparr>fr_ioprio := w\<rparr>) st = (Inr u, st1)"
      using one ProcessIoPriority by (simp add: simps)
    from change_process_undo [OF ok p(1) this, of "\<lambda>p'. p'\<lparr>fr_ioprio := fr_ioprio p\<rparr>"] ProcessIoPriority p(2)
    show ?thesis by (simp add: simps)
  next
    case (ProcessPlacement q c)
    with read obtain p g where p: "process_at st q = Some p" "group_at st (fr_cgroup p) = Some g"
        "wo_typed ob = typed_value.ProcessPlacement (fg_identity g)"
      using read_process_found [of "pm_kind m" st ob st q] by (auto simp: simps)
    have "move_fixture_process q c st = (Inr u, st1)" using one ProcessPlacement by (simp add: simps)
    from move_undo [OF ok p(1,2) this] ProcessPlacement p(3) show ?thesis by (simp add: simps)
  qed (use read in \<open>simp_all add: simps\<close>)
qed


section \<open>An example\<close>

text \<open>A process of the root, beside a managed cgroup, is given another priority.\<close>

definition example_name :: cgroup_name where "example_name = CgroupName ''game''"

definition example_process :: process_id where "example_process = ProcessId 42 7"

definition example_cgroups :: cgroup_fixture where
  "example_cgroups = snd (add_process example_process root_id (NiceValue 0) (IoPriority NoClass 0)
     (snd (create_fixture_group root_id example_name CgroupFixture_new)))"

definition example_nice :: planned_mutation where
  "example_nice = (let kind = mutation_kind.ProcessNice example_process (NiceValue 5)
     in \<lparr>pm_mutation_id = MutationId 1, pm_capability = CapabilityId ''scheduler.nice'',
       pm_target = TargetId ''process.42.7'', pm_kind = kind, pm_desired = kind_value kind,
       pm_precondition = fingerprint_for_value (Typed (typed_value.Nice (NiceValue 0))),
       pm_equality = ScalarExact, pm_dependencies = [],
       pm_rollback = \<lparr>rb_equality = ScalarExact, rb_mode = CompareAndRestore\<rparr>\<rparr>)"

definition example_nice_snapshot :: snapshot where
  "example_nice_snapshot =
     projr (fst (wl_snapshot CgroupFixture_io example_nice (Timestamp 5) example_cgroups))"

lemma example_cgroups_ok: "hierarchy_ok example_cgroups"
  unfolding example_cgroups_def
  by (intro keeps_snd [OF add_process_keeps] keeps_snd [OF create_keeps] new_hierarchy_ok)

theorem placement_invariant_witness:
  "hierarchy_ok (fold (backend_step (WorkloadBackend CgroupFixture_io))
     [Call_apply example_nice example_nice_snapshot] example_cgroups)"
  by (rule placement_invariant [OF example_cgroups_ok])


end
