(* ===== verification/Cgroup_Sysfs.thy ===== *)
theory Cgroup_Sysfs
  imports Workload_Text Host_Files Ordered_Maps
begin

text \<open>
  \<open>WorkloadSysfs\<close> of \<open>sysboost-linux/src/workload.rs\<close>: the production control port of the workload
  backend over the host's cgroup-v2 and procfs files. The adapter keeps the groups it discovered; every
  operation looks its group up there and compares the directory's identity again before it uses it.
\<close>

unbundle bit_operations_syntax

definition MAX_READ_BYTES :: nat where "MAX_READ_BYTES = 4096"
definition MAX_WORKLOAD_GROUPS :: nat where "MAX_WORKLOAD_GROUPS = 4096"

section \<open>Files\<close>

text \<open>\<open>io_error\<close>: the kind of an operating-system error decides the code.\<close>

definition wl_io_error :: "string \<Rightarrow> io_kind \<Rightarrow> sysboost_error" where
  "wl_io_error message kind =
     (case kind of
        PermissionDenied \<Rightarrow> permission_error message
      | NotFound \<Rightarrow> wl_target_error message
      | _ \<Rightarrow> workload_error ApplyError message)"

definition wl_call :: "('w, 'a) io \<Rightarrow> string \<Rightarrow> ('w, 'a) action" where
  "wl_call f message = io_call f (wl_io_error message)"

definition wl_validate_directory :: "'w host \<Rightarrow> path \<Rightarrow> string \<Rightarrow> ('w, unit) action" where
  "wl_validate_directory h p message =
     abind (wl_call (h_symlink_metadata h p) message) (\<lambda>m.
     if md_type m \<noteq> Directory then areturn (Inl (wl_target_error message)) else areturn (Inr ()))"

definition wl_validate_regular_file :: "'w host \<Rightarrow> path \<Rightarrow> string \<Rightarrow> ('w, metadata) action" where
  "wl_validate_regular_file h p message =
     abind (wl_call (h_symlink_metadata h p) message) (\<lambda>m.
     if md_type m \<noteq> RegularFile then areturn (Inl (wl_target_error message)) else areturn (Inr m))"

definition cgroup_id_from_path :: "'w host \<Rightarrow> string \<Rightarrow> path \<Rightarrow> string \<Rightarrow> ('w, cgroup_id) action" where
  "cgroup_id_from_path h name p message =
     abind (wl_call (h_symlink_metadata h p) message) (\<lambda>m.
     if md_type m \<noteq> Directory then areturn (Inl (wl_target_error message))
     else areturn (rbind (replace_err (wl_target_error ''cgroup target handle is invalid'') (TargetId_new name)) (\<lambda>target.
       Inr (CgroupId (md_dev m) (md_ino m) target))))"

definition read_closed_file :: "'w host \<Rightarrow> path \<Rightarrow> string \<Rightarrow> ('w, u8 list) action" where
  "read_closed_file h p message =
     abind (wl_validate_regular_file h p message) (\<lambda>_.
     abind (wl_call (h_open h (read_options (open_cloexec_flags OR open_nofollow_flags)) p) message) (\<lambda>f.
     abind (wl_call (h_read h f None) message) (\<lambda>bytes.
     if length bytes > MAX_READ_BYTES
     then areturn (Inl (wl_target_error ''workload control file is oversized''))
     else areturn (Inr bytes))))"

text \<open>\<open>flush\<close> of a \<open>File\<close> does nothing.\<close>

definition write_closed_file :: "'w host \<Rightarrow> path \<Rightarrow> string \<Rightarrow> string \<Rightarrow> ('w, unit) action" where
  "write_closed_file h p text message =
     (if text = [] \<or> length text > 128 \<or> nul \<in> set text
      then areturn (Inl (workload_error InvalidInput ''generated workload value is invalid''))
      else abind (wl_validate_regular_file h p message) (\<lambda>m.
      if is_readonly m then areturn (Inl (permission_error message))
      else abind (wl_call (h_open h (write_options (open_cloexec_flags OR open_nofollow_flags)) p) message) (\<lambda>f.
      wl_call (h_write_all h f (str_bytes text)) message)))"

section \<open>Discovery\<close>

record sysfs_group =
  sg_identity :: cgroup_id
  sg_relative_path :: string
  sg_path :: path

type_synonym sysfs_groups = "(target_id \<times> sysfs_group) list"

text \<open>
  The loop over the entries of a directory; \<open>descend\<close> is the recursive call for a child. Entries that
  are no directories, or whose names are no cgroup names, are passed over; a symbolic link is refused.
\<close>

fun collect_entries ::
    "'w host \<Rightarrow> (path \<Rightarrow> string \<Rightarrow> cgroup_id \<Rightarrow> sysfs_groups \<Rightarrow> ('w, sysfs_groups) action)
     \<Rightarrow> path \<Rightarrow> string \<Rightarrow> cgroup_id \<Rightarrow> (io_kind + dir_entry) list \<Rightarrow> sysfs_groups \<Rightarrow> ('w, sysfs_groups) action" where
  "collect_entries h descend p relative identity [] groups = areturn (Inr groups)"
| "collect_entries h descend p relative identity (item # rest) groups =
     abind (areturn (map_err (wl_io_error ''cgroup hierarchy entry cannot be read'') item)) (\<lambda>entry.
     let child = path_join p (bytes_str (de_name entry)) in
     abind (wl_call (h_symlink_metadata h child) ''cgroup hierarchy entry identity cannot be read'') (\<lambda>m.
     if md_type m = Symlink
     then areturn (Inl (wl_target_error ''cgroup hierarchy contains a symlinked directory''))
     else if md_type m \<noteq> Directory then collect_entries h descend p relative identity rest groups
     else case Option.bind (entry_str entry) (\<lambda>s. case CgroupName_new s of Inl _ \<Rightarrow> None | Inr name \<Rightarrow> Some name) of
       None \<Rightarrow> collect_entries h descend p relative identity rest groups
     | Some name \<Rightarrow>
         abind (areturn (child_target (handle identity) name)) (\<lambda>target.
         abind (descend child (child_path relative name) (CgroupId (md_dev m) (md_ino m) target) groups) (\<lambda>groups.
         collect_entries h descend p relative identity rest groups))))"

text \<open>
  \<open>levels\<close> counts the depths that are left: the source refuses depth \<open>MAX_WORKLOAD_GROUPS + 1\<close>, which is
  level 0 of a walk that starts with \<open>MAX_WORKLOAD_GROUPS + 1\<close> levels.
\<close>

primrec collect_sysfs_groups ::
    "nat \<Rightarrow> 'w host \<Rightarrow> path \<Rightarrow> string \<Rightarrow> cgroup_id \<Rightarrow> sysfs_groups \<Rightarrow> ('w, sysfs_groups) action" where
  "collect_sysfs_groups 0 h p relative identity groups =
     areturn (Inl (wl_target_error ''cgroup hierarchy exceeds the bounded discovery limit''))"
| "collect_sysfs_groups (Suc levels) h p relative identity groups =
     (if length groups \<ge> MAX_WORKLOAD_GROUPS
      then areturn (Inl (wl_target_error ''cgroup hierarchy exceeds the bounded discovery limit''))
      else let groups = bt_insert (handle identity)
          \<lparr>sg_identity = identity, sg_relative_path = relative, sg_path = p\<rparr> groups in
        abind (wl_call (h_read_dir h p) ''cgroup hierarchy cannot be enumerated'') (\<lambda>entries.
        collect_entries h (collect_sysfs_groups levels h) p relative identity entries groups))"

section \<open>The adapter\<close>

record 'w workload_sysfs =
  ws_proc_root :: path
  ws_groups :: sysfs_groups
  ws_world :: 'w

definition on_host :: "('w, 'a) action \<Rightarrow> ('w workload_sysfs, 'a) action" where
  "on_host f self = (case f (ws_world self) of (r, w) \<Rightarrow> (r, self\<lparr>ws_world := w\<rparr>))"

definition WorkloadSysfs_new :: "'w host \<Rightarrow> path \<Rightarrow> path \<Rightarrow> 'w \<Rightarrow> 'w workload_sysfs result \<times> 'w" where
  "WorkloadSysfs_new h root proc_root w =
     (case abind (wl_validate_directory h root ''cgroup v2 root is unavailable'') (\<lambda>_.
        abind (cgroup_id_from_path h ROOT_TARGET root ''cgroup v2 root identity cannot be inspected'') (\<lambda>identity.
        abind (collect_sysfs_groups (Suc MAX_WORKLOAD_GROUPS) h root '''' identity []) (\<lambda>groups.
        if groups = []
        then areturn (Inl (wl_unsupported ''cgroup v2 hierarchy contains no discoverable targets''))
        else areturn (Inr groups)))) w of
        (Inl e, w) \<Rightarrow> (Inl e, w)
      | (Inr groups, w) \<Rightarrow> (Inr \<lparr>ws_proc_root = proc_root, ws_groups = groups, ws_world = w\<rparr>, w))"

text \<open>The discovered group of an identity, if its directory still has that identity.\<close>

definition group_for :: "'w host \<Rightarrow> cgroup_id \<Rightarrow> ('w workload_sysfs, sysfs_group) action" where
  "group_for h cgroup self =
     (if mount_id cgroup = 0 \<or> inode cgroup = 0
      then (Inl (wl_target_error ''production cgroup target lacks complete mount/inode identity''), self)
      else case map_of (ws_groups self) (handle cgroup) of
        None \<Rightarrow> (Inl (wl_target_error ''cgroup target was not discovered by the backend''), self)
      | Some found \<Rightarrow>
        (if sg_identity found \<noteq> cgroup
         then (Inl (wl_target_error ''cgroup target identity does not match discovery''), self)
         else abind (on_host (cgroup_id_from_path h (target_str (handle (sg_identity found))) (sg_path found)
             ''cgroup target disappeared or changed identity'')) (\<lambda>identity.
           if mount_id identity \<noteq> mount_id (sg_identity found) \<or> inode identity \<noteq> inode (sg_identity found)
           then areturn (Inl (wl_target_error ''cgroup target was replaced after discovery''))
           else areturn (Inr found)) self))"

definition root_group :: "'w host \<Rightarrow> ('w workload_sysfs, sysfs_group) action" where
  "root_group h self =
     (case map_of (ws_groups self) (TargetId ROOT_TARGET) of
        None \<Rightarrow> (Inl (wl_target_error ''cgroup v2 root was not discovered''), self)
      | Some root \<Rightarrow> group_for h (sg_identity root) self)"

definition insert_child :: "'w host \<Rightarrow> sysfs_group \<Rightarrow> cgroup_name \<Rightarrow> ('w workload_sysfs, cgroup_id) action" where
  "insert_child h parent name =
     (let p = path_join (sg_path parent) (cgroup_name_str name) in
      abind (areturn (child_target (handle (sg_identity parent)) name)) (\<lambda>target.
      abind (on_host (cgroup_id_from_path h (target_str target) p
        ''managed cgroup identity cannot be inspected after creation'')) (\<lambda>identity self.
      (Inr identity, self\<lparr>ws_groups := bt_insert target \<lparr>sg_identity = identity,
         sg_relative_path = child_path (sg_relative_path parent) name, sg_path = p\<rparr> (ws_groups self)\<rparr>))))"

datatype control_file = Controllers | SubtreeControl | Procs

primrec control_filename :: "control_file \<Rightarrow> string" where
  "control_filename Controllers = ''cgroup.controllers''"
| "control_filename SubtreeControl = ''cgroup.subtree_control''"
| "control_filename Procs = ''cgroup.procs''"

definition read_control :: "'w host \<Rightarrow> sysfs_group \<Rightarrow> control_file \<Rightarrow> ('w, u8 list) action" where
  "read_control h found control =
     read_closed_file h (path_join (sg_path found) (control_filename control)) ''cgroup control file cannot be read''"

definition require_controller :: "'w host \<Rightarrow> sysfs_group \<Rightarrow> string \<Rightarrow> ('w, unit) action" where
  "require_controller h found name =
     abind (read_control h found Controllers) (\<lambda>controllers.
     abind (read_control h found SubtreeControl) (\<lambda>subtree.
     if name \<notin> text_tokens controllers \<and> name \<notin> text_tokens subtree
     then areturn (Inl (wl_unsupported ''cgroup controller is unavailable''))
     else abind (wl_call (h_symlink_metadata h (sg_path found)) ''cgroup delegation cannot be inspected'') (\<lambda>m.
     if is_readonly m
     then areturn (Inl (permission_error ''cgroup controller is not delegated for writing''))
     else areturn (Inr ()))))"

definition node_file :: "sysfs_group \<Rightarrow> workload_node \<Rightarrow> path" where
  "node_file found node = path_join (sg_path found) (node_filename node)"

definition require_node :: "'w host \<Rightarrow> sysfs_group \<Rightarrow> workload_node \<Rightarrow> ('w, unit) action" where
  "require_node h found node =
     abind (wl_validate_regular_file h (node_file found node) ''cgroup controller file is unavailable'') (\<lambda>m.
     abind (require_controller h found (controller node)) (\<lambda>_.
     if is_readonly m
     then areturn (Inl (permission_error ''cgroup controller is not writable by the backend''))
     else areturn (Inr ())))"

definition read_node_value ::
    "'w host \<Rightarrow> sysfs_group \<Rightarrow> workload_node \<Rightarrow> ('w, typed_value \<times> u8 list) action" where
  "read_node_value h found node =
     abind (require_node h found node) (\<lambda>_.
     abind (read_closed_file h (node_file found node) ''cgroup controller file cannot be read'') (\<lambda>raw.
     areturn (rbind (parse_workload_node node raw) (\<lambda>typed. Inr (typed, raw)))))"

definition remove_child :: "'w host \<Rightarrow> sysfs_group \<Rightarrow> cgroup_name \<Rightarrow> ('w workload_sysfs, unit) action" where
  "remove_child h parent name =
     abind (areturn (child_target (handle (sg_identity parent)) name)) (\<lambda>target self.
     case map_of (ws_groups self) target of
       None \<Rightarrow> (Inl (wl_target_error ''managed cgroup was not discovered by the backend''), self)
     | Some known \<Rightarrow>
         abind (group_for h (sg_identity known)) (\<lambda>child.
         abind (on_host (read_control h child Procs)) (\<lambda>procs.
         if \<not> list_all is_ascii_whitespace (bytes_str procs)
         then areturn (Inl (workload_error RestoreError
           ''managed cgroup still contains processes; cleanup refused''))
         else abind (on_host (wl_call (h_read_dir h (sg_path child)) ''managed cgroup children cannot be inspected'')) (\<lambda>entries.
         if list_ex (\<lambda>item. case item of Inl _ \<Rightarrow> False
              | Inr entry \<Rightarrow> (case entry_str entry of None \<Rightarrow> True | Some s \<Rightarrow> \<not> starts_with ''cgroup.'' s)) entries
         then areturn (Inl (workload_error RestoreError ''managed cgroup has nested groups; cleanup refused''))
         else abind (on_host (wl_call (h_remove_dir h (sg_path child)) ''managed cgroup could not be removed safely'')) (\<lambda>_ self.
         (Inr (), self\<lparr>ws_groups := bt_remove (handle (sg_identity child)) (ws_groups self)\<rparr>))))) self)"

section \<open>Processes\<close>

definition process_path :: "path \<Rightarrow> u32 \<Rightarrow> string \<Rightarrow> path" where
  "process_path proc_root n leaf = path_join (path_join proc_root (dec_digits (unat n))) leaf"

text \<open>The start time in a \<open>stat\<close> file, with the messages of its two readers.\<close>

definition stat_start_time :: "string \<Rightarrow> string \<Rightarrow> string \<Rightarrow> u8 list \<Rightarrow> u64 result" where
  "stat_start_time encoding malformed unavailable raw =
     rbind (ok_or (wl_target_error encoding) (from_utf8 raw)) (\<lambda>text.
     rbind (ok_or (wl_target_error malformed) (rfind (CHR '')'') text)) (\<lambda>_.
     ok_or (wl_target_error unavailable) (parse_start_time text)))"

definition read_proc_identity :: "'w host \<Rightarrow> path \<Rightarrow> process_id \<Rightarrow> ('w, process_id) action" where
  "read_proc_identity h proc_root process =
     abind (read_closed_file h (process_path proc_root (pid process) ''stat'')
       ''process identity cannot be inspected'') (\<lambda>raw.
     abind (areturn (rbind (stat_start_time ''process stat is not valid UTF-8'' ''process stat is malformed''
       ''process start time is unavailable'' raw) (ProcessId_new (pid process)))) (\<lambda>observed.
     if observed \<noteq> process
     then areturn (Inl (wl_target_error ''process PID was recycled or identity changed''))
     else areturn (Inr observed)))"

definition current_process :: "'w host \<Rightarrow> path \<Rightarrow> ('w, process_id) action" where
  "current_process h proc_root =
     abind (read_closed_file h (process_path proc_root (h_process_id h) ''stat'')
       ''current process identity cannot be inspected'') (\<lambda>raw.
     areturn (rbind (stat_start_time ''current process stat is not valid UTF-8'' ''current process stat is malformed''
       ''current process start time is unavailable'' raw) (ProcessId_new (h_process_id h))))"

text \<open>The cgroup-v2 line of a process: \<open>0::\<close> and the path below the root.\<close>

definition unified_path :: "string \<Rightarrow> string option" where
  "unified_path text =
     map_option (\<lambda>l. dropWhile (\<lambda>c. c = CHR ''/'') (drop 3 l)) (find (starts_with ''0::'') (lines text))"

definition read_process_cgroup :: "'w host \<Rightarrow> process_id \<Rightarrow> ('w workload_sysfs, sysfs_group) action" where
  "read_process_cgroup h process self =
     (let root = ws_proc_root self in
      abind (on_host (read_proc_identity h root process)) (\<lambda>_.
      abind (on_host (read_closed_file h (process_path root (pid process) ''cgroup'')
        ''process cgroup placement cannot be inspected'')) (\<lambda>raw.
      abind (areturn (rbind (ok_or (wl_target_error ''process cgroup record is not valid UTF-8'') (from_utf8 raw)) (\<lambda>text.
        ok_or (wl_unsupported ''process is not in a cgroup-v2 hierarchy'') (unified_path text)))) (\<lambda>relative self.
      case find (\<lambda>(_, g). sg_relative_path g = relative) (ws_groups self) of
        None \<Rightarrow> (Inl (wl_target_error ''process cgroup target was not discovered''), self)
      | Some (_, known) \<Rightarrow>
          abind (group_for h (sg_identity known)) (\<lambda>found.
          abind (on_host (read_proc_identity h root process)) (\<lambda>_.
          areturn (Inr found))) self)))) self"

text \<open>\<open>Pid::from_raw(pid as i32)\<close>: a positive process number.\<close>

definition pid_from_raw :: "u32 \<Rightarrow> u32 result" where
  "pid_from_raw n = (if 0 < sint n then Inr n else Inl (wl_target_error ''process PID is invalid''))"

definition write_process_placement ::
    "'w host \<Rightarrow> path \<Rightarrow> process_id \<Rightarrow> sysfs_group \<Rightarrow> ('w, unit) action" where
  "write_process_placement h proc_root process target =
     abind (areturn (pid_from_raw (pid process))) (\<lambda>n.
     abind (read_proc_identity h proc_root process) (\<lambda>_.
     abind (write_closed_file h (path_join (sg_path target) (control_filename Procs))
       (dec_digits (unat n) @ [CHR 0x0A]) ''process cgroup placement write failed'') (\<lambda>_.
     abind (read_proc_identity h proc_root process) (\<lambda>_. areturn (Inr ())))))"

definition write_node :: "'w host \<Rightarrow> sysfs_group \<Rightarrow> workload_node \<Rightarrow> string \<Rightarrow> ('w, unit) action" where
  "write_node h found node text =
     abind (require_node h found node) (\<lambda>_.
     write_closed_file h (node_file found node) text ''cgroup controller write failed'')"

section \<open>The control port\<close>

definition read_cgroup_node ::
    "'w host \<Rightarrow> cgroup_id \<Rightarrow> workload_node \<Rightarrow> ('w workload_sysfs, workload_observation) action" where
  "read_cgroup_node h cgroup node =
     abind (group_for h cgroup) (\<lambda>found.
     abind (on_host (read_node_value h found node)) (\<lambda>(typed, raw).
     areturn (WorkloadObservation_new raw typed (cgroup_identity_of (sg_identity found)))))"

text \<open>Whether the managed directory is there, from the answer about its path.\<close>

definition managed_present :: "io_kind + metadata \<Rightarrow> bool result" where
  "managed_present answer =
     (case answer of
        Inr m \<Rightarrow> (if md_type m = Directory then Inr True
          else Inl (wl_target_error ''managed cgroup path is not a directory''))
      | Inl NotFound \<Rightarrow> Inr False
      | Inl kind \<Rightarrow> Inl (wl_io_error ''managed cgroup presence cannot be inspected'' kind))"

definition sysfs_read_lifecycle ::
    "'w host \<Rightarrow> cgroup_id \<Rightarrow> cgroup_name \<Rightarrow> cgroup_group_kind \<Rightarrow> ('w workload_sysfs, workload_observation) action" where
  "sysfs_read_lifecycle h parent name kind =
     abind (group_for h parent) (\<lambda>found.
     abind (on_host (require_controller h found ''cpu'')) (\<lambda>_.
     abind (on_host (\<lambda>w. case h_symlink_metadata h (path_join (sg_path found) (cgroup_name_str name)) w of
       (answer, w) \<Rightarrow> (managed_present answer, w))) (\<lambda>present.
     areturn (WorkloadObservation_new (str_bytes ((if present then ''present'' else ''absent'') @ [CHR 0x0A]))
       (typed_value.CgroupLifecycle kind name present) (cgroup_identity_of (sg_identity found))))))"

definition sysfs_read_mutation ::
    "'w host \<Rightarrow> mutation_kind \<Rightarrow> ('w workload_sysfs, workload_observation) action" where
  "sysfs_read_mutation h kind =
     (case kind of
        mutation_kind.CgroupCpuWeight cgroup _ \<Rightarrow> read_cgroup_node h cgroup WlCpuWeight
      | mutation_kind.CgroupCpuMax cgroup _ _ \<Rightarrow> read_cgroup_node h cgroup WlCpuMax
      | mutation_kind.CgroupCpuset cgroup _ \<Rightarrow> read_cgroup_node h cgroup WlCpuset
      | mutation_kind.CgroupIoWeight cgroup _ \<Rightarrow> read_cgroup_node h cgroup WlIoWeight
      | mutation_kind.CgroupUclampMin cgroup _ \<Rightarrow> read_cgroup_node h cgroup WlUclampMin
      | mutation_kind.CgroupUclampMax cgroup _ \<Rightarrow> read_cgroup_node h cgroup WlUclampMax
      | mutation_kind.CgroupWorkload parent name \<Rightarrow> sysfs_read_lifecycle h parent name Workload
      | mutation_kind.CgroupBackground parent name \<Rightarrow> sysfs_read_lifecycle h parent name ConservativeBackground
      | _ \<Rightarrow> areturn (Inl (wl_unsupported ''production mutation is not a cgroup operation'')))"

text \<open>The value of a process that a mutation is about; \<open>value as i8\<close> keeps the low eight bits.\<close>

definition sysfs_process_value ::
    "'w host \<Rightarrow> mutation_kind \<Rightarrow> process_id \<Rightarrow> ('w workload_sysfs, typed_value) action" where
  "sysfs_process_value h kind process =
     (case kind of
        mutation_kind.ProcessNice _ _ \<Rightarrow>
          abind (areturn (pid_from_raw (pid process))) (\<lambda>n.
          abind (on_host (io_call (h_getpriority h n)
            (\<lambda>_. wl_target_error ''process nice value cannot be read''))) (\<lambda>v.
          areturn (rbind (NiceValue_new (word_of_int v)) (\<lambda>nice. Inr (typed_value.Nice nice)))))
      | mutation_kind.ProcessPlacement _ _ \<Rightarrow>
          abind (read_process_cgroup h process) (\<lambda>found.
          areturn (Inr (typed_value.ProcessPlacement (sg_identity found))))
      | _ \<Rightarrow> areturn (Inl (wl_unsupported ''production ioprio adapter is unavailable'')))"

definition process_named :: "mutation_kind \<Rightarrow> process_id option" where
  "process_named kind =
     (case kind of
        mutation_kind.ProcessNice process _ \<Rightarrow> Some process
      | mutation_kind.ProcessIoPriority process _ \<Rightarrow> Some process
      | mutation_kind.ProcessPlacement process _ \<Rightarrow> Some process
      | _ \<Rightarrow> None)"

definition sysfs_read_process ::
    "'w host \<Rightarrow> mutation_kind \<Rightarrow> ('w workload_sysfs, workload_observation) action" where
  "sysfs_read_process h kind self =
     (let root = ws_proc_root self in
      abind (areturn (ok_or (wl_unsupported ''production mutation is not a process operation'') (process_named kind))) (\<lambda>process.
      abind (on_host (read_proc_identity h root process)) (\<lambda>_.
      abind (sysfs_process_value h kind process) (\<lambda>typed.
      abind (on_host (read_proc_identity h root process)) (\<lambda>_.
      areturn (WorkloadObservation_new (render_typed_process typed) typed (process_identity_of process)))))) self)"

definition sysfs_read_node :: "'w host \<Rightarrow> cgroup_id \<Rightarrow> workload_node \<Rightarrow> ('w workload_sysfs, u8 list) action" where
  "sysfs_read_node h cgroup node =
     abind (group_for h cgroup) (\<lambda>found.
     on_host (abind (require_node h found node) (\<lambda>_.
       read_closed_file h (node_file found node) ''cgroup controller file cannot be read'')))"

definition sysfs_targets :: "('w workload_sysfs, workload_target list) action" where
  "sysfs_targets self = (Inr (sort_key wt_relative_path (map (\<lambda>(_, g).
     \<lparr>wt_identity = sg_identity g, wt_relative_path = sg_relative_path g\<rparr>) (ws_groups self))), self)"

text \<open>\<open>self.require_node(&self.group_for(cgroup)?, node)\<close>.\<close>

definition group_node :: "'w host \<Rightarrow> cgroup_id \<Rightarrow> workload_node \<Rightarrow> ('w workload_sysfs, unit) action" where
  "group_node h cgroup node = abind (group_for h cgroup) (\<lambda>found. on_host (require_node h found node))"

text \<open>Both clamp files must be there; the other bound is read and compared with the desired one.\<close>

definition validate_clamp ::
    "'w host \<Rightarrow> sysfs_group \<Rightarrow> workload_node \<Rightarrow> (uclamp_value \<Rightarrow> unit result) \<Rightarrow> ('w, unit) action" where
  "validate_clamp h found other check =
     abind (require_node h found WlUclampMin) (\<lambda>_.
     abind (require_node h found WlUclampMax) (\<lambda>_.
     abind (read_node_value h found other) (\<lambda>(_, raw).
     areturn (rbind (parse_uclamp raw) check))))"

definition sysfs_validate_desired ::
    "'w host \<Rightarrow> mutation_kind \<Rightarrow> typed_value \<Rightarrow> ('w workload_sysfs, unit) action" where
  "sysfs_validate_desired h kind desired self =
     (if kind_value kind \<noteq> desired
      then (Inl (workload_error PlanningError ''workload kind and desired value disagree''), self)
      else (case kind of
        mutation_kind.CgroupCpuWeight cgroup _ \<Rightarrow> group_node h cgroup WlCpuWeight
      | mutation_kind.CgroupCpuMax cgroup _ _ \<Rightarrow> group_node h cgroup WlCpuMax
      | mutation_kind.CgroupCpuset cgroup _ \<Rightarrow> group_node h cgroup WlCpuset
      | mutation_kind.CgroupIoWeight cgroup _ \<Rightarrow> group_node h cgroup WlIoWeight
      | mutation_kind.CgroupUclampMin cgroup v \<Rightarrow>
          abind (group_for h cgroup) (\<lambda>found.
          if v = uclamp_value.Max
          then areturn (Inl (workload_error InvalidInput ''uclamp.min cannot use the max sentinel''))
          else on_host (validate_clamp h found WlUclampMax (validate_uclamp_pair v)))
      | mutation_kind.CgroupUclampMax cgroup v \<Rightarrow>
          abind (group_for h cgroup) (\<lambda>found.
          on_host (validate_clamp h found WlUclampMin (\<lambda>low. validate_uclamp_pair low v)))
      | mutation_kind.CgroupWorkload parent _ \<Rightarrow>
          abind (group_for h parent) (\<lambda>found. on_host (require_controller h found ''cpu''))
      | mutation_kind.CgroupBackground parent _ \<Rightarrow>
          abind (group_for h parent) (\<lambda>found. on_host (require_controller h found ''cpu''))
      | mutation_kind.ProcessPlacement process cgroup \<Rightarrow>
          abind (group_for h cgroup) (\<lambda>_.
          abind (on_host (read_proc_identity h (ws_proc_root self) process)) (\<lambda>_. areturn (Inr ())))
      | mutation_kind.ProcessNice process _ \<Rightarrow>
          abind (on_host (read_proc_identity h (ws_proc_root self) process)) (\<lambda>_. areturn (Inr ()))
      | mutation_kind.ProcessIoPriority _ _ \<Rightarrow>
          areturn (Inl (wl_unsupported ''production ioprio adapter is unavailable''))
      | _ \<Rightarrow> areturn (Inl (wl_unsupported ''production backend does not own this workload operation''))) self)"

section \<open>Writing\<close>

text \<open>A created directory whose identity cannot be recorded is removed again.\<close>

definition create_child :: "'w host \<Rightarrow> sysfs_group \<Rightarrow> cgroup_name \<Rightarrow> ('w workload_sysfs, unit) action" where
  "create_child h parent name =
     (let p = path_join (sg_path parent) (cgroup_name_str name) in
      abind (on_host (\<lambda>w. case h_symlink_metadata h p w of
          (Inr _, w) \<Rightarrow> (Inl (workload_error ApplyError ''managed cgroup already exists''), w)
        | (Inl _, w) \<Rightarrow> (Inr (), w))) (\<lambda>_.
      abind (on_host (wl_call (h_create_dir h 0x1FF p) ''managed cgroup could not be created'')) (\<lambda>_ self.
      case insert_child h parent name self of
        (Inr _, self) \<Rightarrow> (Inr (), self)
      | (Inl error, self) \<Rightarrow>
          (case on_host (wl_call (h_remove_dir h p) ''managed cgroup setup cleanup failed'') self of
             (Inl cleanup, self) \<Rightarrow> (Inl cleanup, self)
           | (Inr _, self) \<Rightarrow> (Inl error, self)))))"

definition production_shape_error :: sysboost_error where
  "production_shape_error = workload_error InvariantViolation ''production workload write shape is not closed''"

text \<open>The six arms that write a node: the group is checked again, then the text of the value.\<close>

definition write_group_node ::
    "'w host \<Rightarrow> cgroup_id \<Rightarrow> workload_node \<Rightarrow> typed_value \<Rightarrow> ('w workload_sysfs, unit) action" where
  "write_group_node h cgroup node desired =
     (case written_text node desired of
        None \<Rightarrow> areturn (Inl production_shape_error)
      | Some text \<Rightarrow> abind (group_for h cgroup) (\<lambda>found. on_host (write_node h found node text)))"

definition write_lifecycle ::
    "'w host \<Rightarrow> cgroup_id \<Rightarrow> cgroup_name \<Rightarrow> typed_value \<Rightarrow> ('w workload_sysfs, unit) action" where
  "write_lifecycle h parent name desired =
     (case desired of
        typed_value.CgroupLifecycle _ _ present \<Rightarrow>
          abind (group_for h parent) (\<lambda>found.
            if present then create_child h found name else remove_child h found name)
      | _ \<Rightarrow> areturn (Inl production_shape_error))"

definition sysfs_write_mutation ::
    "'w host \<Rightarrow> mutation_kind \<Rightarrow> typed_value \<Rightarrow> ('w workload_sysfs, unit) action" where
  "sysfs_write_mutation h kind desired self =
     (case kind of
        mutation_kind.CgroupCpuWeight cgroup _ \<Rightarrow> write_group_node h cgroup WlCpuWeight desired
      | mutation_kind.CgroupCpuMax cgroup _ _ \<Rightarrow> write_group_node h cgroup WlCpuMax desired
      | mutation_kind.CgroupCpuset cgroup _ \<Rightarrow> write_group_node h cgroup WlCpuset desired
      | mutation_kind.CgroupIoWeight cgroup _ \<Rightarrow> write_group_node h cgroup WlIoWeight desired
      | mutation_kind.CgroupUclampMin cgroup _ \<Rightarrow> write_group_node h cgroup WlUclampMin desired
      | mutation_kind.CgroupUclampMax cgroup _ \<Rightarrow> write_group_node h cgroup WlUclampMax desired
      | mutation_kind.CgroupWorkload parent name \<Rightarrow> write_lifecycle h parent name desired
      | mutation_kind.CgroupBackground parent name \<Rightarrow> write_lifecycle h parent name desired
      | mutation_kind.ProcessNice process _ \<Rightarrow> (case desired of
          typed_value.Nice v \<Rightarrow>
            abind (areturn (pid_from_raw (pid process))) (\<lambda>n.
            abind (on_host (read_proc_identity h (ws_proc_root self) process)) (\<lambda>_.
            abind (on_host (io_call (h_setpriority h n (sint (nice_get v)))
              (\<lambda>_. permission_error ''process nice write was denied''))) (\<lambda>_.
            abind (on_host (read_proc_identity h (ws_proc_root self) process)) (\<lambda>_. areturn (Inr ())))))
        | _ \<Rightarrow> areturn (Inl production_shape_error))
      | mutation_kind.ProcessPlacement process cgroup \<Rightarrow> (case desired of
          typed_value.ProcessPlacement _ \<Rightarrow>
            abind (group_for h cgroup) (\<lambda>found.
            on_host (write_process_placement h (ws_proc_root self) process found))
        | _ \<Rightarrow> areturn (Inl production_shape_error))
      | mutation_kind.ProcessIoPriority _ _ \<Rightarrow> (case desired of
          typed_value.IoPriorityValue _ \<Rightarrow> areturn (Inl (wl_unsupported ''production ioprio adapter is unavailable''))
        | _ \<Rightarrow> areturn (Inl production_shape_error))
      | _ \<Rightarrow> areturn (Inl production_shape_error)) self"

section \<open>Detection\<close>

definition error_capability :: "sysboost_error \<Rightarrow> capability_state" where
  "error_capability error =
     (if err_code error = AuthorizationError then Denied
      else if err_code error = error_code.Unsupported then capability_state.Unsupported
      else capability_state.Indeterminate)"

definition capability_state_of :: "'a result \<Rightarrow> capability_state" where
  "capability_state_of r = (case r of Inr _ \<Rightarrow> Available | Inl error \<Rightarrow> error_capability error)"

definition combine_capability_states :: "capability_state \<Rightarrow> capability_state \<Rightarrow> capability_state" where
  "combine_capability_states left right =
     (if left = Available \<and> right = Available then Available
      else if left = Denied \<or> right = Denied then Denied
      else if left = capability_state.Unsupported \<or> right = capability_state.Unsupported
      then capability_state.Unsupported
      else capability_state.Indeterminate)"

text \<open>The probe of one node over the groups: the state after a failed read, and the loop.\<close>

definition probe_error :: "sysboost_error \<Rightarrow> capability_state \<Rightarrow> capability_state" where
  "probe_error error state =
     (if err_code error = AuthorizationError then Denied
      else if err_code error = InvariantViolation then capability_state.Indeterminate
      else if err_code error = TargetError then state
      else if err_code error = error_code.Unsupported
      then (if state \<noteq> Denied then capability_state.Unsupported else state)
      else capability_state.Indeterminate)"

fun probe_node ::
    "'w host \<Rightarrow> workload_node \<Rightarrow> sysfs_group list \<Rightarrow> capability_state \<Rightarrow> 'w \<Rightarrow> capability_state \<times> 'w" where
  "probe_node h node [] state w = (state, w)"
| "probe_node h node (found # rest) state w =
     (case read_node_value h found node w of
        (Inr _, w) \<Rightarrow> (Available, w)
      | (Inl error, w) \<Rightarrow> probe_node h node rest (probe_error error state) w)"

text \<open>The table of \<open>detect\<close>, from what the probes found.\<close>

definition workload_capabilities ::
    "capability_state \<Rightarrow> capability_state \<Rightarrow> capability_state \<Rightarrow> capability_state \<Rightarrow> capability_state
     \<Rightarrow> capability_state \<Rightarrow> capability_state \<Rightarrow> capability_state \<Rightarrow> capability_descriptor list" where
  "workload_capabilities weight quota cpuset io_weight clamp cpu placement nice =
     [workload_capability ''cgroup.cpu.weight'' ''cgroup.cpu.weight'' target_kind.Cgroup ScalarExact weight
        RuntimeMutable ''cgroup v2 cpu.weight and fixed controller evidence'',
      workload_capability ''cgroup.cpu.max'' ''cgroup.cpu.max'' target_kind.Cgroup ScalarExact quota
        RuntimeMutable ''cgroup v2 cpu.max and fixed controller evidence'',
      workload_capability ''cgroup.cpuset.cpus'' ''cgroup.cpuset.cpus'' target_kind.Cgroup SetExact cpuset
        Conditional ''cgroup v2 cpuset.cpus and fixed controller evidence'',
      workload_capability ''cgroup.io.weight'' ''cgroup.io.weight'' target_kind.Cgroup ScalarExact io_weight
        Conditional ''cgroup v2 io.weight default entry'',
      uclamp_capability clamp ''cgroup v2 cpu.uclamp min/max entries'',
      workload_capability ''cgroup.workload'' ''cgroup.workload'' target_kind.Cgroup ScalarExact cpu
        Conditional ''explicit managed workload child cgroup under a delegated parent'',
      workload_capability ''cgroup.background'' ''cgroup.background'' target_kind.Cgroup ScalarExact cpu
        Conditional ''explicit conservative background child cgroup under a delegated parent'',
      process_capability ''scheduler.process.placement'' ''scheduler.process.placement'' placement
        Conditional ''procfs PID/start-time identity and cgroup-v2 placement'',
      process_capability ''scheduler.nice'' ''scheduler.nice'' nice RuntimeMutable
        ''procfs PID/start-time identity and getpriority'',
      process_capability ''scheduler.ioprio'' ''scheduler.ioprio'' capability_state.Unsupported
        feature_class.Experimental ''safe ioprio syscall adapter is not enabled; operation degrades closed'']"

text \<open>A probe through the process port; without a current process the capability is unsupported.\<close>

definition probe_port ::
    "'w host \<Rightarrow> process_id option \<Rightarrow> (process_id \<Rightarrow> mutation_kind) \<Rightarrow> 'w workload_sysfs \<Rightarrow> capability_state \<times> 'w workload_sysfs" where
  "probe_port h process kind self =
     (case process of
        None \<Rightarrow> (capability_state.Unsupported, self)
      | Some q \<Rightarrow> (case sysfs_read_process h (kind q) self of (r, self) \<Rightarrow> (capability_state_of r, self)))"

definition sysfs_workload_detect ::
    "'w host \<Rightarrow> ('w workload_sysfs, timestamp) action \<Rightarrow> ('w workload_sysfs, capability_inventory) action" where
  "sysfs_workload_detect h clock =
     abind clock (\<lambda>observed_at.
     abind (root_group h) (\<lambda>root self.
     let groups = map snd (ws_groups self);
         probe = (\<lambda>node. probe_node h node groups capability_state.Unsupported) in
     (case probe WlCpuWeight (ws_world self) of (weight, w) \<Rightarrow>
     (case probe WlCpuMax w of (quota, w) \<Rightarrow>
     (case probe WlCpuset w of (cpuset, w) \<Rightarrow>
     (case probe WlIoWeight w of (io_weight, w) \<Rightarrow>
     (case probe WlUclampMin w of (low, w) \<Rightarrow>
     (case probe WlUclampMax w of (high, w) \<Rightarrow>
     (case require_controller h root ''cpu'' w of (r, w) \<Rightarrow>
     (case current_process h (ws_proc_root self) w of (current, w) \<Rightarrow>
     let process = (case current of Inl _ \<Rightarrow> None | Inr q \<Rightarrow> Some q) in
     (case probe_port h process (\<lambda>q. mutation_kind.ProcessNice q (NiceValue 0)) (self\<lparr>ws_world := w\<rparr>) of (nice, self) \<Rightarrow>
     (case probe_port h process (\<lambda>q. mutation_kind.ProcessPlacement q (sg_identity root)) self of (placement, self) \<Rightarrow>
     (Inr \<lparr>ci_observed_at = observed_at, ci_capabilities = workload_capabilities weight quota cpuset io_weight
        (combine_capability_states low high) (capability_state_of r) placement nice\<rparr>, self)))))))))))))"

definition WorkloadSysfs_io :: "'w host \<Rightarrow> 'w workload_sysfs workload_io" where
  "WorkloadSysfs_io h = \<lparr>wl_detect = sysfs_workload_detect h, wl_targets = sysfs_targets,
     wl_read_node = sysfs_read_node h, wl_read_mutation = sysfs_read_mutation h,
     wl_read_process = sysfs_read_process h, wl_validate_desired = sysfs_validate_desired h,
     wl_write_mutation = sysfs_write_mutation h\<rparr>"

text \<open>\<open>WorkloadBackend::production\<close>.\<close>

definition workload_production :: "'w host \<Rightarrow> 'w \<Rightarrow> 'w workload_sysfs result \<times> 'w" where
  "workload_production h = WorkloadSysfs_new h ''/sys/fs/cgroup'' ''/proc''"

end
