(* ===== verification/Cgroup_Safety.thy ===== *)
theory Cgroup_Safety
  imports Cgroup_Sysfs Workload_Invariant
begin

text \<open>
  What the production workload adapter may do to the host, for any host. Every file it opens was just
  inspected and is a regular one; it writes only the closed cgroup nodes of the directories below its
  root, changes a priority only right after reading the process's identity, and removes a directory only
  if it has just created it or has just read its process list (rule \<open>wl_rule\<close> on the log of
  \<open>recording_host\<close>).
\<close>

section \<open>The rule\<close>

definition plain_name :: "string \<Rightarrow> bool" where
  "plain_name n \<longleftrightarrow> wf_cgroup_name (CgroupName n)"

definition group_dir :: "path \<Rightarrow> path \<Rightarrow> bool" where
  "group_dir root p \<longleftrightarrow> (\<exists>names. list_all plain_name names \<and> p = foldl path_join root names)"

definition written_files :: "string set" where
  "written_files = {''cpu.weight'', ''cpu.max'', ''cpuset.cpus'', ''io.weight'', ''cpu.uclamp.min'', ''cpu.uclamp.max'',
     ''cgroup.procs''}"

definition read_files :: "string set" where
  "read_files = written_files \<union> {''cgroup.controllers'', ''cgroup.subtree_control''}"

definition group_file :: "path \<Rightarrow> string set \<Rightarrow> path \<Rightarrow> bool" where
  "group_file root names p \<longleftrightarrow> (\<exists>d f. group_dir root d \<and> f \<in> names \<and> p = path_join d f)"

definition process_file :: "path \<Rightarrow> path \<Rightarrow> bool" where
  "process_file proc p \<longleftrightarrow> (\<exists>n f. f \<in> {''stat'', ''cgroup''} \<and> p = process_path proc n f)"

text \<open>The last event found a regular file at the path, a writable one where it is to be written.\<close>

definition just_found :: "path \<Rightarrow> bool \<Rightarrow> host_event list \<Rightarrow> bool" where
  "just_found p writable log \<longleftrightarrow> (\<exists>m rest. log = Inspected p (Inr m) # rest \<and> md_type m = RegularFile
     \<and> (writable \<longrightarrow> \<not> is_readonly m))"

text \<open>The file at the path has just been read.\<close>

definition just_read :: "path \<Rightarrow> host_event list \<Rightarrow> bool" where
  "just_read p log \<longleftrightarrow> (\<exists>opts f rest. log = Asked # Opened opts p (Inr f) # rest)"

unbundle bit_operations_syntax

definition wl_rule :: "path \<Rightarrow> path \<Rightarrow> host_event \<Rightarrow> host_event list \<Rightarrow> bool" where
  "wl_rule root proc e log \<longleftrightarrow>
     (case e of
        Inspected _ _ \<Rightarrow> True
      | Asked \<Rightarrow> True
      | Opened opts p _ \<Rightarrow> oo_flags opts = open_cloexec_flags OR open_nofollow_flags \<and> \<not> oo_create_new opts
          \<and> just_found p (oo_write opts) log
          \<and> (if oo_write opts then group_file root written_files p
             else group_file root read_files p \<or> process_file proc p)
      | Written file bytes _ \<Rightarrow> (\<exists>opts p rest. log = Opened opts p (Inr file) # rest \<and> oo_write opts)
          \<and> (\<exists>text. bytes = str_bytes text \<and> text \<noteq> [] \<and> length text \<le> 128 \<and> nul \<notin> set text)
      | Made p _ \<Rightarrow> (\<exists>e rest. log = Inspected p (Inl e) # rest) \<and> group_file root {n. plain_name n} p
      | Removed p _ \<Rightarrow> group_dir root p
          \<and> ((\<exists>rest. log = Made p (Inr ()) # rest) \<or> (\<exists>r rest. log = Inspected p r # Made p (Inr ()) # rest)
            \<or> (\<exists>rest. log = Asked # rest \<and> just_read (path_join p ''cgroup.procs'') rest))
      | Prioritised n v _ \<Rightarrow> NICE_MIN \<le> v \<and> v \<le> NICE_MAX \<and> just_read (process_path proc n ''stat'') log
      | _ \<Rightarrow> False)"

abbreviation wl_log :: "path \<Rightarrow> path \<Rightarrow> host_event list \<Rightarrow> bool" where
  "wl_log root proc \<equiv> obeys (wl_rule root proc)"

lemma wl_rule_quiet [simp]: "wl_rule root proc (Inspected p r) log" "wl_rule root proc Asked log"
  by (simp_all add: wl_rule_def)

lemma group_dir_root: "group_dir root root"
  unfolding group_dir_def by (intro exI [of _ "[]"]) simp

lemma group_dir_child: "group_dir root p \<Longrightarrow> plain_name n \<Longrightarrow> group_dir root (path_join p n)"
  unfolding group_dir_def by (elim exE conjE) (rule_tac x = "names @ [n]" in exI, simp)

lemma group_file_dir: "group_file root {n. plain_name n} p \<Longrightarrow> group_dir root p"
  by (auto simp: group_file_def intro: group_dir_child)

section \<open>Operations on files\<close>

definition tame :: "path \<Rightarrow> path \<Rightarrow> ('w logged_host, 'a) action \<Rightarrow> bool" where
  "tame root proc m \<longleftrightarrow> hoare (wl_log root proc) m (outcome (wl_log root proc) (\<lambda>_. wl_log root proc))"

lemma tame_bind: "tame root proc m \<Longrightarrow> (\<And>x. tame root proc (k x)) \<Longrightarrow> tame root proc (abind m k)"
  unfolding tame_def by (rule hoare_bind)

lemma tame_return: "tame root proc (areturn r)"
  unfolding tame_def by (rule hoare_return) (auto simp: outcome_def split: sum.split)

lemma tame_if: "tame root proc m \<Longrightarrow> tame root proc m' \<Longrightarrow> tame root proc (if b then m else m')"
  by simp

lemma wl_inspect:
  assumes "\<And>log m. P log \<Longrightarrow> Q m (Inspected p (Inr m) # log)" "\<And>log e. P log \<Longrightarrow> E (Inspected p (Inl e) # log)"
  shows "hoare P (wl_call (h_symlink_metadata (recording_host h) p) message) (outcome E Q)"
  unfolding wl_call_def recording_host_simps using assms by (intro hoare_call) auto

lemma wl_asked:
  assumes "\<And>log. P log \<Longrightarrow> E (Asked # log)" "\<And>x log. P log \<Longrightarrow> Q x (Asked # log)"
  shows "hoare P (wl_call (noting f (\<lambda>_. Asked)) message) (outcome E Q)"
  unfolding wl_call_def using assms by (intro hoare_call) auto

lemma tame_inspect: "tame root proc (wl_call (h_symlink_metadata (recording_host h) p) message)"
  unfolding tame_def by (rule wl_inspect) auto

lemma tame_asked: "tame root proc (wl_call (noting f (\<lambda>_. Asked)) message)"
  unfolding tame_def by (rule wl_asked) auto

lemma tame_read_dir: "tame root proc (wl_call (h_read_dir (recording_host h) p) message)"
  unfolding recording_host_simps by (rule tame_asked)

lemmas tame_intros = tame_bind tame_return tame_if tame_inspect tame_asked tame_read_dir

lemma validate_regular_log:
  "hoare (wl_log root proc) (wl_validate_regular_file (recording_host h) p message)
     (outcome (wl_log root proc) (\<lambda>m log. wl_log root proc log
       \<and> (\<exists>rest. log = Inspected p (Inr m) # rest \<and> md_type m = RegularFile)))"
  unfolding wl_validate_regular_file_def
proof (rule hoare_bind)
  show "hoare (wl_log root proc) (wl_call (h_symlink_metadata (recording_host h) p) message)
      (outcome (wl_log root proc) (\<lambda>m log. wl_log root proc log \<and> (\<exists>rest. log = Inspected p (Inr m) # rest)))"
    by (rule wl_inspect) auto
qed (auto intro: hoare_return)

lemma tame_regular: "tame root proc (wl_validate_regular_file (recording_host h) p message)"
  unfolding tame_def by (rule hoare_weaken [OF validate_regular_log]) auto

lemma tame_identity:
  "tame root proc (cgroup_id_from_path (recording_host h) name p message)"
  "tame root proc (wl_validate_directory (recording_host h) p message)"
  unfolding cgroup_id_from_path_def wl_validate_directory_def by (intro tame_intros)+

lemma read_closed_log:
  assumes "group_file root read_files p \<or> process_file proc p"
  shows "hoare (wl_log root proc) (read_closed_file (recording_host h) p message)
     (outcome (wl_log root proc) (\<lambda>_ log. wl_log root proc log \<and> just_read p log))"
  unfolding read_closed_file_def
proof (rule hoare_bind [OF validate_regular_log], rule hoare_bind)
  let ?opts = "read_options (open_cloexec_flags OR open_nofollow_flags)"
  let ?found = "\<lambda>m log. wl_log root proc log \<and> (\<exists>rest. log = Inspected p (Inr m) # rest \<and> md_type m = RegularFile)"
  have opened: "wl_log root proc (Opened ?opts p r # log)" if "?found m log" for m r log
    using that assms by (auto simp: wl_rule_def read_options_def just_found_def)
  show "hoare (?found m) (wl_call (h_open (recording_host h) ?opts p) message)
      (outcome (wl_log root proc) (\<lambda>f log. wl_log root proc log \<and> (\<exists>rest. log = Opened ?opts p (Inr f) # rest)))" for m
    unfolding wl_call_def recording_host_simps by (rule hoare_call) (use opened in \<open>auto simp del: obeys.simps\<close>)
  show "hoare (\<lambda>log. wl_log root proc log \<and> (\<exists>rest. log = Opened ?opts p (Inr f) # rest))
      (abind (wl_call (h_read (recording_host h) f None) message) (\<lambda>bytes.
        if length bytes > MAX_READ_BYTES
        then areturn (Inl (wl_target_error ''workload control file is oversized'')) else areturn (Inr bytes)))
      (outcome (wl_log root proc) (\<lambda>_ log. wl_log root proc log \<and> just_read p log))" for f
  proof (rule hoare_bind)
    show "hoare (\<lambda>log. wl_log root proc log \<and> (\<exists>rest. log = Opened ?opts p (Inr f) # rest))
        (wl_call (h_read (recording_host h) f None) message)
        (outcome (wl_log root proc) (\<lambda>_ log. wl_log root proc log \<and> just_read p log))"
      unfolding recording_host_simps by (rule wl_asked) (auto simp: just_read_def)
  qed (auto intro: hoare_return)
qed

lemma tame_read_closed:
  "group_file root read_files p \<or> process_file proc p \<Longrightarrow> tame root proc (read_closed_file (recording_host h) p message)"
  unfolding tame_def by (rule hoare_weaken [OF read_closed_log]) auto

lemma tame_write_closed:
  assumes "group_file root written_files p"
  shows "tame root proc (write_closed_file (recording_host h) p text message)"
proof (cases "text = [] \<or> length text > 128 \<or> nul \<in> set text")
  case True
  then show ?thesis by (auto simp: write_closed_file_def intro: tame_return)
next
  case False
  let ?opts = "write_options (open_cloexec_flags OR open_nofollow_flags)"
  let ?found = "\<lambda>m log. wl_log root proc log \<and> (\<exists>rest. log = Inspected p (Inr m) # rest \<and> md_type m = RegularFile)"
  have opened: "wl_log root proc (Opened ?opts p r # log)" if "?found m log" "\<not> is_readonly m" for m r log
    using that assms by (auto simp: wl_rule_def write_options_def just_found_def)
  have "hoare (wl_log root proc) (abind (wl_validate_regular_file (recording_host h) p message) (\<lambda>m.
      if is_readonly m then areturn (Inl (permission_error message))
      else abind (wl_call (h_open (recording_host h) ?opts p) message) (\<lambda>f.
      wl_call (h_write_all (recording_host h) f (str_bytes text)) message)))
      (outcome (wl_log root proc) (\<lambda>_. wl_log root proc))"
  proof (rule hoare_bind [OF validate_regular_log])
    fix m
    have "hoare (?found m) (abind (wl_call (h_open (recording_host h) ?opts p) message) (\<lambda>f.
        wl_call (h_write_all (recording_host h) f (str_bytes text)) message))
        (outcome (wl_log root proc) (\<lambda>_. wl_log root proc))" if "\<not> is_readonly m"
    proof (rule hoare_bind)
      show "hoare (?found m) (wl_call (h_open (recording_host h) ?opts p) message)
          (outcome (wl_log root proc) (\<lambda>f log. wl_log root proc log \<and> (\<exists>rest. log = Opened ?opts p (Inr f) # rest)))"
        unfolding wl_call_def recording_host_simps
        by (rule hoare_call) (use opened that in \<open>auto simp del: obeys.simps\<close>)
      show "hoare (\<lambda>log. wl_log root proc log \<and> (\<exists>rest. log = Opened ?opts p (Inr f) # rest))
          (wl_call (h_write_all (recording_host h) f (str_bytes text)) message)
          (outcome (wl_log root proc) (\<lambda>_. wl_log root proc))" for f
        unfolding wl_call_def recording_host_simps using False
        by (intro hoare_call) (auto simp: wl_rule_def write_options_def)
    qed
    then show "hoare (?found m) (if is_readonly m then areturn (Inl (permission_error message))
        else abind (wl_call (h_open (recording_host h) ?opts p) message) (\<lambda>f.
        wl_call (h_write_all (recording_host h) f (str_bytes text)) message))
        (outcome (wl_log root proc) (\<lambda>_. wl_log root proc))"
      by (auto intro: hoare_return)
  qed
  with False show ?thesis by (simp add: write_closed_file_def tame_def)
qed

section \<open>Groups and processes\<close>

lemma group_fileI: "group_dir root d \<Longrightarrow> f \<in> names \<Longrightarrow> group_file root names (path_join d f)"
  by (auto simp: group_file_def)

lemma node_written: "node_filename n \<in> written_files" "node_filename n \<in> read_files"
  by (cases n; simp add: written_files_def read_files_def)+

lemma control_read: "control_filename c \<in> read_files" "control_filename Procs \<in> written_files"
  by (cases c; simp add: written_files_def read_files_def)+

lemma process_fileI: "process_file proc (process_path proc n ''stat'')" "process_file proc (process_path proc n ''cgroup'')"
  by (auto simp: process_file_def)

lemma tame_require_controller:
  assumes dir: "group_dir root (sg_path found)"
  shows "tame root proc (require_controller (recording_host h) found name)"
  unfolding require_controller_def read_control_def
  by (intro tame_intros tame_read_closed) (blast intro: group_fileI dir control_read)+

lemma tame_require_node:
  assumes dir: "group_dir root (sg_path found)"
  shows "tame root proc (require_node (recording_host h) found node)"
  unfolding require_node_def by (intro tame_intros tame_regular tame_require_controller dir)

lemma tame_read_node:
  assumes dir: "group_dir root (sg_path found)"
  shows "tame root proc (read_node_value (recording_host h) found node)"
  unfolding read_node_value_def node_file_def
  by (intro tame_intros tame_require_node dir tame_read_closed) (blast intro: group_fileI dir node_written)

lemma tame_write_node:
  assumes dir: "group_dir root (sg_path found)"
  shows "tame root proc (write_node (recording_host h) found node text)"
  unfolding write_node_def node_file_def
  by (intro tame_intros tame_require_node tame_write_closed group_fileI dir node_written)

lemma tame_validate_clamp:
  assumes dir: "group_dir root (sg_path found)"
  shows "tame root proc (validate_clamp (recording_host h) found node check)"
  unfolding validate_clamp_def
  by (auto intro!: tame_intros tame_require_node tame_read_node dir)

lemma read_identity_log:
  "hoare (wl_log root proc) (read_proc_identity (recording_host h) proc q)
     (outcome (wl_log root proc) (\<lambda>_ log. wl_log root proc log \<and> just_read (process_path proc (pid q) ''stat'') log))"
  unfolding read_proc_identity_def
proof (rule hoare_bind)
  let ?read = "\<lambda>log. wl_log root proc log \<and> just_read (process_path proc (pid q) ''stat'') log"
  show "hoare (wl_log root proc) (read_closed_file (recording_host h) (process_path proc (pid q) ''stat'')
      ''process identity cannot be inspected'') (outcome (wl_log root proc) (\<lambda>_. ?read))"
    by (rule read_closed_log) (simp add: process_fileI)
  show "hoare ?read (abind (areturn (rbind (stat_start_time ''process stat is not valid UTF-8'' ''process stat is malformed''
       ''process start time is unavailable'' raw) (ProcessId_new (pid q)))) (\<lambda>observed.
     if observed \<noteq> q then areturn (Inl (wl_target_error ''process PID was recycled or identity changed''))
     else areturn (Inr observed))) (outcome (wl_log root proc) (\<lambda>_. ?read))" for raw
    by (rule hoare_bind [where R = "\<lambda>_. ?read"]; (rule hoare_return)?) (auto simp: outcome_def areturn_def hoare_def split: sum.splits)
qed

lemma tame_read_identity: "tame root proc (read_proc_identity (recording_host h) proc q)"
  unfolding tame_def by (rule hoare_weaken [OF read_identity_log]) auto

lemma tame_current_process: "tame root proc (current_process (recording_host h) proc)"
  unfolding current_process_def by (intro tame_intros tame_read_closed disjI2 process_fileI)

lemma tame_placement:
  assumes "group_dir root (sg_path target)"
  shows "tame root proc (write_process_placement (recording_host h) proc q target)"
  unfolding write_process_placement_def
  by (intro tame_intros tame_read_identity tame_write_closed group_fileI assms control_read)

text \<open>A priority is set between two reads of the process's identity.\<close>

lemma tame_set_priority:
  assumes "wf_nice v"
  shows "tame root proc (abind (areturn (pid_from_raw (pid q))) (\<lambda>n.
    abind (read_proc_identity (recording_host h) proc q) (\<lambda>_.
    abind (io_call (h_setpriority (recording_host h) n (sint (nice_get v))) err) (\<lambda>_.
    abind (read_proc_identity (recording_host h) proc q) (\<lambda>_. areturn (Inr ()))))))"
proof (cases "pid_from_raw (pid q)")
  case (Inr n)
  then have n: "n = pid q" by (simp add: pid_from_raw_def split: if_splits)
  have "hoare (wl_log root proc) (abind (read_proc_identity (recording_host h) proc q) (\<lambda>_.
    abind (io_call (h_setpriority (recording_host h) n (sint (nice_get v))) err) (\<lambda>_.
    abind (read_proc_identity (recording_host h) proc q) (\<lambda>_. areturn (Inr ())))))
    (outcome (wl_log root proc) (\<lambda>_. wl_log root proc))"
  proof (rule hoare_bind [OF read_identity_log], rule hoare_bind)
    show "hoare (\<lambda>log. wl_log root proc log \<and> just_read (process_path proc (pid q) ''stat'') log)
        (io_call (h_setpriority (recording_host h) n (sint (nice_get v))) err)
        (outcome (wl_log root proc) (\<lambda>_. wl_log root proc))"
      unfolding recording_host_simps using assms n
      by (intro hoare_call) (auto simp: wl_rule_def wf_nice_def)
    show "hoare (wl_log root proc) (abind (read_proc_identity (recording_host h) proc q) (\<lambda>_. areturn (Inr ())))
        (outcome (wl_log root proc) (\<lambda>_. wl_log root proc))" for x
      using tame_bind [OF tame_read_identity tame_return] by (simp add: tame_def)
  qed
  with Inr show ?thesis by (simp add: tame_def)
qed (simp add: tame_return)

section \<open>The adapter\<close>

definition groups_ok :: "path \<Rightarrow> sysfs_groups \<Rightarrow> bool" where
  "groups_ok root groups \<longleftrightarrow> (\<forall>(k, g) \<in> set groups. group_dir root (sg_path g))"

definition adapter_ok :: "path \<Rightarrow> path \<Rightarrow> 'w logged_host workload_sysfs \<Rightarrow> bool" where
  "adapter_ok root proc self \<longleftrightarrow> wl_log root proc (snd (ws_world self)) \<and> ws_proc_root self = proc
     \<and> groups_ok root (ws_groups self)"

text \<open>An operation that keeps a property of the state and whose result has a property.\<close>

definition gives :: "('s \<Rightarrow> bool) \<Rightarrow> ('s, 'a) action \<Rightarrow> ('a \<Rightarrow> bool) \<Rightarrow> bool" where
  "gives I m R \<longleftrightarrow> (\<forall>s r s'. I s \<longrightarrow> m s = (r, s') \<longrightarrow> I s' \<and> (\<forall>x. r = Inr x \<longrightarrow> R x))"

lemma gives_bind: "gives I m R \<Longrightarrow> (\<And>x. R x \<Longrightarrow> keeps I (k x)) \<Longrightarrow> keeps I (abind m k)"
  unfolding gives_def keeps_def by (blast elim: abindE)

lemma gives_keeps: "gives I m R \<Longrightarrow> keeps I m"
  unfolding gives_def keeps_def by blast

lemma groups_ok_insert: "groups_ok root gs \<Longrightarrow> group_dir root (sg_path g) \<Longrightarrow> groups_ok root (bt_insert k g gs)"
  by (induction k g gs rule: bt_insert.induct) (auto simp: groups_ok_def)

lemma groups_ok_remove: "groups_ok root gs \<Longrightarrow> groups_ok root (bt_remove k gs)"
  by (auto simp: groups_ok_def bt_remove_def)

lemma groups_ok_lookup: "groups_ok root gs \<Longrightarrow> map_of gs k = Some g \<Longrightarrow> group_dir root (sg_path g)"
  by (force simp: groups_ok_def dest: map_of_SomeD)

lemma on_host_world:
  assumes "keeps (\<lambda>(w, log). wl_log root proc log) m"
  shows "keeps (adapter_ok root proc) (\<lambda>self. case m (ws_world self) of (r, w) \<Rightarrow> (r, self\<lparr>ws_world := w\<rparr>))"
  unfolding keeps_def
proof (intro allI impI)
  fix s r s' assume ok: "adapter_ok root proc s"
    and run: "(case m (ws_world s) of (r, w) \<Rightarrow> (r, s\<lparr>ws_world := w\<rparr>)) = (r, s')"
  obtain q w where m: "m (ws_world s) = (q, w)" by (cases "m (ws_world s)")
  have "case ws_world s of (w, log) \<Rightarrow> wl_log root proc log" using ok by (simp add: adapter_ok_def case_prod_unfold)
  from keepsD [OF assms this m] show "adapter_ok root proc s'"
    using ok run m by (auto simp: adapter_ok_def case_prod_unfold)
qed

lemma tame_keeps: "tame root proc m \<Longrightarrow> keeps (\<lambda>(w, log). wl_log root proc log) m"
  unfolding tame_def by (rule keeps_hoare)

lemma on_host_keeps: "tame root proc m \<Longrightarrow> keeps (adapter_ok root proc) (on_host m)"
  unfolding on_host_def [abs_def] by (rule on_host_world [OF tame_keeps])

lemma group_for_gives:
  "gives (adapter_ok root proc) (group_for (recording_host h) c) (\<lambda>g. group_dir root (sg_path g))"
  unfolding gives_def
proof (intro allI impI conjI)
  fix s r s' assume ok: "adapter_ok root proc s" and run: "group_for (recording_host h) c s = (r, s')"
  have inner: "keeps (adapter_ok root proc) (abind (on_host (cgroup_id_from_path (recording_host h)
      (target_str (handle (sg_identity g))) (sg_path g) ''cgroup target disappeared or changed identity'')) (\<lambda>identity.
        if mount_id identity \<noteq> mount_id (sg_identity g) \<or> inode identity \<noteq> inode (sg_identity g)
        then areturn (Inl (wl_target_error ''cgroup target was replaced after discovery'')) else areturn (Inr g)))" for g
    by (intro keeps_intros on_host_keeps tame_identity)
  show "adapter_ok root proc s'"
    using ok run keepsD [OF inner ok] by (auto simp: group_for_def split: if_splits option.splits)
  fix g assume "r = Inr g"
  with run have "map_of (ws_groups s) (handle c) = Some g"
    by (auto simp: group_for_def abind_ok areturn_def split: if_splits option.splits)
  with ok groups_ok_lookup show "group_dir root (sg_path g)" by (auto simp: adapter_ok_def)
qed

lemmas group_for_keeps = gives_keeps [OF group_for_gives]

text \<open>\<open>self.group_for(..)?\<close> followed by an operation on its files.\<close>

lemma with_group:
  assumes "\<And>g. group_dir root (sg_path g) \<Longrightarrow> keeps (adapter_ok root proc) (k g)"
  shows "keeps (adapter_ok root proc) (abind (group_for (recording_host h) c) k)"
  using gives_bind [OF group_for_gives] assms by blast

lemma read_cgroup_node_keeps: "keeps (adapter_ok root proc) (read_cgroup_node (recording_host h) c n)"
  unfolding read_cgroup_node_def
  by (rule with_group) (auto intro!: keeps_intros on_host_keeps tame_read_node)

lemma tame_presence:
  "tame root proc (\<lambda>w. case h_symlink_metadata (recording_host h) p w of (answer, w) \<Rightarrow> (managed_present answer, w))"
  unfolding tame_def hoare_def by (auto simp: noting_def outcome_def split: prod.splits sum.splits)

lemma read_lifecycle_keeps: "keeps (adapter_ok root proc) (sysfs_read_lifecycle (recording_host h) c name kind)"
  unfolding sysfs_read_lifecycle_def
  by (rule with_group) (intro keeps_intros on_host_keeps tame_require_controller tame_presence)

lemma read_mutation_keeps: "keeps (adapter_ok root proc) (sysfs_read_mutation (recording_host h) k)"
  unfolding sysfs_read_mutation_def
  by (cases k) (auto intro: read_cgroup_node_keeps read_lifecycle_keeps keeps_return)

lemma adapter_proc: "adapter_ok root proc self \<Longrightarrow> ws_proc_root self = proc"
  by (simp add: adapter_ok_def)

text \<open>An operation may look at the state it starts from.\<close>

lemma keeps_like: "keeps I m \<Longrightarrow> (\<And>s. I s \<Longrightarrow> m' s = m s) \<Longrightarrow> keeps I m'"
  unfolding keeps_def by metis

lemma read_process_cgroup_keeps: "keeps (adapter_ok root proc) (read_process_cgroup (recording_host h) q)"
proof (rule keeps_like)
  have found: "keeps (adapter_ok root proc) (abind (group_for (recording_host h) c) (\<lambda>found.
      abind (on_host (read_proc_identity (recording_host h) proc q)) (\<lambda>_. areturn (Inr found))))" for c
    by (intro keeps_intros group_for_keeps on_host_keeps tame_read_identity)
  have known: "keeps (adapter_ok root proc) (\<lambda>self. case find (\<lambda>(_, g). sg_relative_path g = relative) (ws_groups self) of
      None \<Rightarrow> (Inl (wl_target_error ''process cgroup target was not discovered''), self)
    | Some (_, known) \<Rightarrow> abind (group_for (recording_host h) (sg_identity known)) (\<lambda>found.
        abind (on_host (read_proc_identity (recording_host h) proc q)) (\<lambda>_. areturn (Inr found))) self)" for relative
    unfolding keeps_def by (auto split: option.splits prod.splits elim: keepsD [OF found, rotated])
  show "keeps (adapter_ok root proc) (abind (on_host (read_proc_identity (recording_host h) proc q)) (\<lambda>_.
      abind (on_host (read_closed_file (recording_host h) (process_path proc (pid q) ''cgroup'')
        ''process cgroup placement cannot be inspected'')) (\<lambda>raw.
      abind (areturn (rbind (ok_or (wl_target_error ''process cgroup record is not valid UTF-8'') (from_utf8 raw)) (\<lambda>text.
        ok_or (wl_unsupported ''process is not in a cgroup-v2 hierarchy'') (unified_path text)))) (\<lambda>relative self.
      case find (\<lambda>(_, g). sg_relative_path g = relative) (ws_groups self) of
        None \<Rightarrow> (Inl (wl_target_error ''process cgroup target was not discovered''), self)
      | Some (_, known) \<Rightarrow> abind (group_for (recording_host h) (sg_identity known)) (\<lambda>found.
          abind (on_host (read_proc_identity (recording_host h) proc q)) (\<lambda>_. areturn (Inr found))) self))))"
    by (intro keeps_intros known on_host_keeps tame_read_identity tame_read_closed disjI2 process_fileI)
qed (simp add: read_process_cgroup_def Let_def adapter_proc)

lemma tame_priority: "tame root proc (io_call (h_getpriority (recording_host h) n) err)"
  unfolding tame_def recording_host_simps by (rule hoare_call) auto

lemma process_value_keeps: "keeps (adapter_ok root proc) (sysfs_process_value (recording_host h) k q)"
  unfolding sysfs_process_value_def
  by (cases k) (auto simp del: recording_host_simps intro!: keeps_intros on_host_keeps tame_priority read_process_cgroup_keeps)

lemma read_process_keeps: "keeps (adapter_ok root proc) (sysfs_read_process (recording_host h) k)"
proof (rule keeps_like)
  show "keeps (adapter_ok root proc) (abind (areturn (ok_or (wl_unsupported ''production mutation is not a process operation'')
      (process_named k))) (\<lambda>process.
      abind (on_host (read_proc_identity (recording_host h) proc process)) (\<lambda>_.
      abind (sysfs_process_value (recording_host h) k process) (\<lambda>typed.
      abind (on_host (read_proc_identity (recording_host h) proc process)) (\<lambda>_.
      areturn (WorkloadObservation_new (render_typed_process typed) typed (process_identity_of process)))))))"
    by (intro keeps_intros on_host_keeps tame_read_identity process_value_keeps)
qed (simp add: sysfs_read_process_def Let_def adapter_proc)

lemma group_node_keeps: "keeps (adapter_ok root proc) (group_node (recording_host h) c n)"
  unfolding group_node_def by (rule with_group) (intro on_host_keeps tame_require_node)

lemma identity_keeps:
  "keeps (adapter_ok root proc) (\<lambda>s. abind (on_host (read_proc_identity (recording_host h) (ws_proc_root s) q)) k s)"
  if "\<And>x. keeps (adapter_ok root proc) (k x)"
proof (rule keeps_like)
  show "keeps (adapter_ok root proc) (abind (on_host (read_proc_identity (recording_host h) proc q)) k)"
    by (intro keeps_bind on_host_keeps tame_read_identity that)
qed (simp add: adapter_proc)

lemma validate_placement_keeps:
  "keeps (adapter_ok root proc) (\<lambda>s. abind (group_for (recording_host h) c) (\<lambda>_.
     abind (on_host (read_proc_identity (recording_host h) (ws_proc_root s) q)) (\<lambda>_. areturn (Inr ()))) s)"
proof (rule keeps_like)
  show "keeps (adapter_ok root proc) (abind (group_for (recording_host h) c) (\<lambda>_.
      abind (on_host (read_proc_identity (recording_host h) proc q)) (\<lambda>_. areturn (Inr ()))))"
    by (intro keeps_intros group_for_keeps on_host_keeps tame_read_identity)
qed (simp add: adapter_proc)

lemma sysfs_validate_keeps: "keeps (adapter_ok root proc) (sysfs_validate_desired (recording_host h) k d)"
proof (cases "kind_value k = d")
  case False
  then show ?thesis by (simp add: sysfs_validate_desired_def [abs_def] keeps_pair)
next
  case True
  then show ?thesis
    by (cases k)
      (simp_all add: sysfs_validate_desired_def [abs_def] group_node_keeps validate_placement_keeps identity_keeps keeps_return,
       (auto intro!: with_group keeps_intros on_host_keeps tame_validate_clamp tame_require_controller)+)
qed

section \<open>Writing\<close>

lemma write_group_node_keeps: "keeps (adapter_ok root proc) (write_group_node (recording_host h) c n d)"
  unfolding write_group_node_def
  by (cases "written_text n d") (auto intro!: keeps_return with_group on_host_keeps tame_write_node)

lemma insert_child_step:
  assumes run: "insert_child (recording_host h) g name s = (r, s')" and ok: "adapter_ok root proc s"
    and dir: "group_dir root (sg_path g)" "plain_name (cgroup_name_str name)"
  shows "adapter_ok root proc s' \<and> (snd (ws_world s') = snd (ws_world s)
    \<or> (\<exists>q. snd (ws_world s') = Inspected (path_join (sg_path g) (cgroup_name_str name)) q # snd (ws_world s)))"
proof -
  let ?p = "path_join (sg_path g) (cgroup_name_str name)"
  have dir': "group_dir root ?p" using dir by (rule group_dir_child)
  show ?thesis
  proof (cases "child_target (handle (sg_identity g)) name")
    case (Inl e)
    with run ok show ?thesis by (simp add: insert_child_def abind_def areturn_def)
  next
    case (Inr target)
    obtain q w where q: "h_symlink_metadata h ?p (fst (ws_world s)) = (q, w)"
      by (cases "h_symlink_metadata h ?p (fst (ws_world s))")
    have "\<exists>r1. on_host (cgroup_id_from_path (recording_host h) (target_str target) ?p
        ''managed cgroup identity cannot be inspected after creation'') s
      = (r1, s\<lparr>ws_world := (w, Inspected ?p q # snd (ws_world s))\<rparr>)"
      using q by (cases "ws_world s"; cases q)
        (auto simp: on_host_def cgroup_id_from_path_def wl_call_def io_call_def noting_def abind_def areturn_def)
    then obtain r1 where id: "on_host (cgroup_id_from_path (recording_host h) (target_str target) ?p
        ''managed cgroup identity cannot be inspected after creation'') s
      = (r1, s\<lparr>ws_world := (w, Inspected ?p q # snd (ws_world s))\<rparr>)" by blast
    from run Inr id ok dir' show ?thesis
      by (cases r1) (auto simp: insert_child_def abind_def areturn_def Let_def adapter_ok_def groups_ok_insert)
  qed
qed

lemma remove_made:
  assumes "on_host (wl_call (h_remove_dir (recording_host h) p) message) s = (r, s')" "adapter_ok root proc s"
    "group_dir root p"
    "(\<exists>rest. snd (ws_world s) = Made p (Inr ()) # rest) \<or> (\<exists>q rest. snd (ws_world s) = Inspected p q # Made p (Inr ()) # rest)"
  shows "adapter_ok root proc s'"
  using assms by (cases "ws_world s")
    (auto simp: on_host_def wl_call_def io_call_def noting_def adapter_ok_def wl_rule_def split: prod.splits sum.splits)

lemma create_child_keeps:
  assumes dir: "group_dir root (sg_path g)" and name: "plain_name (cgroup_name_str name)"
  shows "keeps (adapter_ok root proc) (create_child (recording_host h) g name)"
  unfolding keeps_def
proof (intro allI impI)
  fix s r s' assume ok: "adapter_ok root proc s" and run: "create_child (recording_host h) g name s = (r, s')"
  let ?p = "path_join (sg_path g) (cgroup_name_str name)"
  have dir': "group_dir root ?p" and made: "group_file root {n. plain_name n} ?p"
    using dir name by (auto intro: group_dir_child simp: group_file_def)
  obtain w log where start: "ws_world s = (w, log)" by (cases "ws_world s")
  obtain a w1 where a: "h_symlink_metadata h ?p w = (a, w1)" by (cases "h_symlink_metadata h ?p w")
  obtain b w2 where b: "h_create_dir h 0x1FF ?p w1 = (b, w2)" by (cases "h_create_dir h 0x1FF ?p w1")
  let ?s2 = "s\<lparr>ws_world := (w2, Made ?p b # Inspected ?p a # log)\<rparr>"
  have ok2: "adapter_ok root proc ?s2" if "a = Inl e" for e
    using ok start that made by (simp add: adapter_ok_def wl_rule_def)
  show "adapter_ok root proc s'"
  proof (cases a)
    case (Inr m)
    with run ok start a show ?thesis
      by (auto simp: create_child_def Let_def abind_def on_host_def noting_def adapter_ok_def)
  next
    case (Inl e)
    note ok2 = ok2 [OF this]
    show ?thesis
    proof (cases b)
      case (Inl e')
      with run start a b \<open>a = Inl e\<close> ok2 show ?thesis
        by (auto simp: create_child_def Let_def abind_def on_host_def noting_def wl_call_def io_call_def)
    next
      case (Inr u)
      obtain r3 s3 where ins: "insert_child (recording_host h) g name ?s2 = (r3, s3)"
        by (cases "insert_child (recording_host h) g name ?s2")
      from insert_child_step [OF ins ok2 dir name] Inr have s3: "adapter_ok root proc s3"
        "(\<exists>rest. snd (ws_world s3) = Made ?p (Inr ()) # rest) \<or> (\<exists>q rest. snd (ws_world s3) = Inspected ?p q # Made ?p (Inr ()) # rest)"
        by auto
      obtain r4 s4 where rem: "on_host (wl_call (h_remove_dir (recording_host h) ?p) ''managed cgroup setup cleanup failed'') s3 = (r4, s4)"
        by (cases "on_host (wl_call (h_remove_dir (recording_host h) ?p) ''managed cgroup setup cleanup failed'') s3")
      have "adapter_ok root proc s4" by (rule remove_made [OF rem s3(1) dir' s3(2)])
      moreover have "s' = s3 \<or> s' = s4"
        using run start a b Inr \<open>a = Inl e\<close> ins rem
        by (auto simp: create_child_def Let_def abind_def on_host_def noting_def wl_call_def io_call_def
          simp del: recording_host_simps(12) split: sum.splits prod.splits)
      ultimately show ?thesis using s3(1) by auto
    qed
  qed
qed

text \<open>The cleanup of a managed directory: its process list is read, it is listed, and it is removed.\<close>

lemma tame_cleanup:
  assumes dir: "group_dir root (sg_path g)"
  shows "tame root proc (abind (read_control (recording_host h) g Procs) (\<lambda>procs.
      if b procs then areturn (Inl e) else abind (wl_call (h_read_dir (recording_host h) (sg_path g)) m1) (\<lambda>entries.
      if b' entries then areturn (Inl e') else wl_call (h_remove_dir (recording_host h) (sg_path g)) m2)))"
  unfolding tame_def
proof (rule hoare_bind)
  let ?read = "\<lambda>log. wl_log root proc log \<and> just_read (path_join (sg_path g) ''cgroup.procs'') log"
  let ?listed = "\<lambda>log. wl_log root proc log \<and> (\<exists>rest. log = Asked # rest \<and> just_read (path_join (sg_path g) ''cgroup.procs'') rest)"
  show "hoare (wl_log root proc) (read_control (recording_host h) g Procs) (outcome (wl_log root proc) (\<lambda>_. ?read))"
    unfolding read_control_def control_filename.simps
    by (rule read_closed_log) (intro disjI1 group_fileI dir, simp add: read_files_def written_files_def)
  have removed: "hoare ?listed (wl_call (h_remove_dir (recording_host h) (sg_path g)) m2)
      (outcome (wl_log root proc) (\<lambda>_. wl_log root proc))"
    unfolding wl_call_def recording_host_simps by (rule hoare_call) (use dir in \<open>auto simp: wl_rule_def\<close>)
  have "hoare ?read (abind (wl_call (h_read_dir (recording_host h) (sg_path g)) m1) (\<lambda>entries.
      if b' entries then areturn (Inl e') else wl_call (h_remove_dir (recording_host h) (sg_path g)) m2))
      (outcome (wl_log root proc) (\<lambda>_. wl_log root proc))"
  proof (rule hoare_bind)
    show "hoare ?read (wl_call (h_read_dir (recording_host h) (sg_path g)) m1) (outcome (wl_log root proc) (\<lambda>_. ?listed))"
      unfolding recording_host_simps by (rule wl_asked) auto
    show "hoare ?listed (if b' entries then areturn (Inl e') else wl_call (h_remove_dir (recording_host h) (sg_path g)) m2)
        (outcome (wl_log root proc) (\<lambda>_. wl_log root proc))" for entries
      using removed by (auto intro: hoare_return)
  qed
  then show "hoare ?read (if b procs then areturn (Inl e) else abind (wl_call (h_read_dir (recording_host h) (sg_path g)) m1) (\<lambda>entries.
      if b' entries then areturn (Inl e') else wl_call (h_remove_dir (recording_host h) (sg_path g)) m2))
      (outcome (wl_log root proc) (\<lambda>_. wl_log root proc))" for procs
    by (auto intro: hoare_return)
qed

lemma forget_keeps: "keeps (adapter_ok root proc) (\<lambda>self. (Inr (), self\<lparr>ws_groups := bt_remove k (ws_groups self)\<rparr>))"
  by (auto simp: keeps_def adapter_ok_def groups_ok_remove)

lemma cleanup_keeps:
  assumes dir: "group_dir root (sg_path g)"
  shows "keeps (adapter_ok root proc) (abind (on_host (read_control (recording_host h) g Procs)) (\<lambda>procs.
      if b procs then areturn (Inl e) else abind (on_host (wl_call (h_read_dir (recording_host h) (sg_path g)) m1)) (\<lambda>entries.
      if b' entries then areturn (Inl e') else abind (on_host (wl_call (h_remove_dir (recording_host h) (sg_path g)) m2)) (\<lambda>_ self.
      (Inr (), self\<lparr>ws_groups := bt_remove k (ws_groups self)\<rparr>)))))"
proof (rule keeps_like)
  show "keeps (adapter_ok root proc) (abind (on_host (abind (read_control (recording_host h) g Procs) (\<lambda>procs.
      if b procs then areturn (Inl e) else abind (wl_call (h_read_dir (recording_host h) (sg_path g)) m1) (\<lambda>entries.
      if b' entries then areturn (Inl e') else wl_call (h_remove_dir (recording_host h) (sg_path g)) m2)))) (\<lambda>_ self.
      (Inr (), self\<lparr>ws_groups := bt_remove k (ws_groups self)\<rparr>)))"
    by (intro keeps_bind on_host_keeps tame_cleanup dir forget_keeps)
qed (auto simp: abind_def on_host_def areturn_def split: prod.splits sum.splits)

lemma remove_child_keeps: "keeps (adapter_ok root proc) (remove_child (recording_host h) g name)"
proof -
  have known: "keeps (adapter_ok root proc) (abind (group_for (recording_host h) c) (\<lambda>child.
      abind (on_host (read_control (recording_host h) child Procs)) (\<lambda>procs.
      if b procs then areturn (Inl e) else abind (on_host (wl_call (h_read_dir (recording_host h) (sg_path child)) m1)) (\<lambda>entries.
      if b' entries then areturn (Inl e') else abind (on_host (wl_call (h_remove_dir (recording_host h) (sg_path child)) m2)) (\<lambda>_ self.
      (Inr (), self\<lparr>ws_groups := bt_remove (handle (sg_identity child)) (ws_groups self)\<rparr>))))))" for c b b' e e' m1 m2
    by (intro with_group cleanup_keeps)
  show ?thesis
    unfolding remove_child_def
    by (rule keeps_bind [OF keeps_return], unfold keeps_def) (auto split: option.splits elim: keepsD [OF known, rotated])
qed

lemma write_lifecycle_keeps:
  assumes "wf_cgroup_name name"
  shows "keeps (adapter_ok root proc) (write_lifecycle (recording_host h) c name d)"
proof -
  have "plain_name (cgroup_name_str name)" using assms by (cases name) (simp add: plain_name_def)
  then show ?thesis
    unfolding write_lifecycle_def
    by (cases d) (auto intro!: keeps_return with_group create_child_keeps remove_child_keeps)
qed

lemma write_nice_keeps:
  assumes "wf_nice v"
  shows "keeps (adapter_ok root proc) (\<lambda>s. abind (areturn (pid_from_raw (pid q))) (\<lambda>n.
    abind (on_host (read_proc_identity (recording_host h) (ws_proc_root s) q)) (\<lambda>_.
    abind (on_host (io_call (h_setpriority (recording_host h) n (sint (nice_get v))) err)) (\<lambda>_.
    abind (on_host (read_proc_identity (recording_host h) (ws_proc_root s) q)) (\<lambda>_. areturn (Inr ()))))) s)"
proof (rule keeps_like)
  show "keeps (adapter_ok root proc) (on_host (abind (areturn (pid_from_raw (pid q))) (\<lambda>n.
    abind (read_proc_identity (recording_host h) proc q) (\<lambda>_.
    abind (io_call (h_setpriority (recording_host h) n (sint (nice_get v))) err) (\<lambda>_.
    abind (read_proc_identity (recording_host h) proc q) (\<lambda>_. areturn (Inr ())))))))"
    by (intro on_host_keeps tame_set_priority assms)
qed (auto simp: adapter_proc abind_def on_host_def areturn_def split: prod.splits sum.splits)

lemma write_placement_keeps:
  "keeps (adapter_ok root proc) (\<lambda>s. abind (group_for (recording_host h) c) (\<lambda>found.
     on_host (write_process_placement (recording_host h) (ws_proc_root s) q found)) s)"
proof (rule keeps_like)
  show "keeps (adapter_ok root proc) (abind (group_for (recording_host h) c) (\<lambda>found.
      on_host (write_process_placement (recording_host h) proc q found)))"
    by (intro with_group on_host_keeps tame_placement)
qed (simp add: adapter_proc)

lemma sysfs_write_keeps:
  assumes "wf_kind k" "wf_value d"
  shows "keeps (adapter_ok root proc) (sysfs_write_mutation (recording_host h) k d)"
  using assms
  by (cases k)
    (simp_all add: sysfs_write_mutation_def [abs_def] write_group_node_keeps write_lifecycle_keeps keeps_return,
     (cases d; simp add: keeps_return write_nice_keeps write_placement_keeps del: recording_host_simps)+)

section \<open>Detection\<close>

abbreviation logged_ok :: "path \<Rightarrow> path \<Rightarrow> 'w logged_host \<Rightarrow> bool" where
  "logged_ok root proc \<equiv> \<lambda>(w, log). wl_log root proc log"

lemma probe_node_keeps:
  "list_all (\<lambda>g. group_dir root (sg_path g)) gs \<Longrightarrow> keeps (logged_ok root proc) (probe_node (recording_host h) n gs st)"
proof (induction gs arbitrary: st)
  case (Cons g gs)
  have "keeps (logged_ok root proc) (read_node_value (recording_host h) g n)"
    using Cons.prems by (intro tame_keeps tame_read_node) simp
  moreover have "keeps (logged_ok root proc) (\<lambda>w. (case r of Inl e \<Rightarrow> probe_node (recording_host h) n gs (probe_error e st) w
      | Inr _ \<Rightarrow> (Available, w)))" for r :: "(typed_value \<times> u8 list) result"
    using Cons by (cases r) (auto intro: keeps_pair)
  ultimately have "keeps (logged_ok root proc) (\<lambda>w. case read_node_value (recording_host h) g n w of (r, w) \<Rightarrow>
      (case r of Inl e \<Rightarrow> probe_node (recording_host h) n gs (probe_error e st) w | Inr _ \<Rightarrow> (Available, w)))"
    by (rule keeps_case)
  then show ?case by (rule keeps_like) (simp split: prod.split sum.split)
qed (simp add: keeps_def)

lemma probe_port_keeps: "keeps (adapter_ok root proc) (probe_port (recording_host h) q kind)"
  unfolding probe_port_def [abs_def]
  by (cases q) (auto intro!: keeps_pair keeps_case [OF read_process_keeps])

lemma root_group_keeps: "keeps (adapter_ok root proc) (root_group (recording_host h))"
  unfolding root_group_def [abs_def] keeps_def by (auto split: option.splits elim: keepsD [OF group_for_keeps, rotated])

lemma root_group_dir:
  "root_group (recording_host h) s = (Inr g, s') \<Longrightarrow> adapter_ok root proc s \<Longrightarrow> group_dir root (sg_path g)"
  using group_for_gives [of root proc h] unfolding gives_def by (auto simp: root_group_def split: option.splits)

lemma groups_ok_all: "groups_ok root gs \<Longrightarrow> list_all (\<lambda>g. group_dir root (sg_path g)) (map snd gs)"
  by (auto simp: groups_ok_def list_all_iff)

lemma adapter_world: "adapter_ok root proc s \<Longrightarrow> logged_ok root proc (ws_world s)"
  by (simp add: adapter_ok_def case_prod_unfold)

lemma adapter_set_world: "adapter_ok root proc s \<Longrightarrow> logged_ok root proc w \<Longrightarrow> adapter_ok root proc (s\<lparr>ws_world := w\<rparr>)"
  by (simp add: adapter_ok_def case_prod_unfold)

lemma workload_detect_keeps:
  "keeps (adapter_ok root proc) (sysfs_workload_detect (recording_host h) (areturn (Inr now)))"
  unfolding keeps_def
proof (intro allI impI)
  fix s r s' assume ok: "adapter_ok root proc s"
    and run: "sysfs_workload_detect (recording_host h) (areturn (Inr now)) s = (r, s')"
  show "adapter_ok root proc s'"
  proof (cases "root_group (recording_host h) s")
    case (Pair q s1)
    have ok1: "adapter_ok root proc s1" by (rule keepsD [OF root_group_keeps ok Pair])
    show ?thesis
    proof (cases q)
      case (Inl e)
      with run Pair ok1 show ?thesis by (simp add: sysfs_workload_detect_def abind_def areturn_def)
    next
      case (Inr g)
      have dir: "group_dir root (sg_path g)" using root_group_dir Pair Inr ok by blast
      have probe: "keeps (logged_ok root proc) (probe_node (recording_host h) n (map snd (ws_groups s1)) st)" for n st
        using ok1 by (intro probe_node_keeps groups_ok_all) (simp add: adapter_ok_def)
      have "keeps (adapter_ok root proc) (\<lambda>self. case probe_port (recording_host h) x (\<lambda>q. mutation_kind.ProcessNice q (NiceValue 0)) self of
          (nice, self) \<Rightarrow> (case probe_port (recording_host h) x (\<lambda>q. mutation_kind.ProcessPlacement q (sg_identity g)) self of
          (placement, self) \<Rightarrow> (f nice placement, self)))" for x and f :: "_ \<Rightarrow> _ \<Rightarrow> capability_inventory result"
        by (intro keeps_case probe_port_keeps keeps_pair)
      note ports = keepsD [OF this adapter_set_world [OF ok1]]
      let ?probe = "\<lambda>n. probe_node (recording_host h) n (map snd (ws_groups s1)) capability_state.Unsupported"
      let ?scan = "\<lambda>w. (case ?probe WlCpuWeight w of (a, w) \<Rightarrow> (case ?probe WlCpuMax w of (b, w) \<Rightarrow>
        (case ?probe WlCpuset w of (c, w) \<Rightarrow> (case ?probe WlIoWeight w of (d, w) \<Rightarrow>
        (case ?probe WlUclampMin w of (e, w) \<Rightarrow> (case ?probe WlUclampMax w of (f, w) \<Rightarrow>
        (case require_controller (recording_host h) g ''cpu'' w of (cpu, w) \<Rightarrow>
        (case current_process (recording_host h) proc w of (current, w) \<Rightarrow> ((a, b, c, d, e, f, cpu, current), w)))))))))"
      have scan: "keeps (logged_ok root proc) ?scan"
        by (intro keeps_case keeps_pair probe tame_keeps tame_current_process tame_require_controller dir)
      obtain x w where w: "?scan (ws_world s1) = (x, w)" by (cases "?scan (ws_world s1)")
      have "logged_ok root proc w" by (rule keepsD [OF scan adapter_world [OF ok1] w])
      from ports [OF this] run Pair Inr w show ?thesis
        by (auto simp: sysfs_workload_detect_def abind_def areturn_def Let_def adapter_proc [OF ok1] split: prod.splits)
    qed
  qed
qed

section \<open>Limits of the adapter\<close>

text \<open>
  Every listed processor takes two characters of the text, so that a set of 65 or more, which the kernel
  reports in a few characters and the adapter reads, is refused when it is to be written back.
\<close>

lemma length_join: "list_all (\<lambda>x. x \<noteq> []) xs \<Longrightarrow> length sep = 1 \<Longrightarrow> 2 * length xs \<le> Suc (length (join sep xs))"
proof (induction sep xs rule: join.induct)
  case (2 sep s)
  then show ?case by (cases s) simp_all
next
  case (3 sep s t rest)
  then have "Suc 0 \<le> length s" by (cases s) simp_all
  with 3 show ?case by (auto simp del: length_greater_0_conv)
qed simp

lemma wide_cpuset_refused:
  assumes "65 \<le> length (cpus_list c)"
  shows "fst (write_closed_file h p (render_cpuset c) message w) = Inl (workload_error InvalidInput ''generated workload value is invalid'')"
proof -
  have "128 < length (render_cpuset c)"
    using length_join [of "map (\<lambda>c. dec_digits (unat c)) (cpus_list c)" "'',''"] assms
    by (simp add: render_cpuset_def list_all_length dec_digits_nonempty)
  then show ?thesis by (simp add: write_closed_file_def areturn_def)
qed
text \<open>The placement that is written back is the one of the mutation, whatever the snapshot has.\<close>

lemma placement_ignores_desired:
  "sysfs_write_mutation h (mutation_kind.ProcessPlacement q c) (typed_value.ProcessPlacement d)
   = sysfs_write_mutation h (mutation_kind.ProcessPlacement q c) (typed_value.ProcessPlacement d')"
  by (simp add: fun_eq_iff sysfs_write_mutation_def)

section \<open>Discovery\<close>

lemma gives_then: "gives I m R \<Longrightarrow> (\<And>x. R x \<Longrightarrow> gives I (k x) R') \<Longrightarrow> gives I (abind m k) R'"
  unfolding gives_def by (blast elim: abindE)

lemma givesD: "gives I m R \<Longrightarrow> I s \<Longrightarrow> m s = (Inr x, s') \<Longrightarrow> I s' \<and> R x"
  unfolding gives_def by blast

lemma gives_return: "(\<And>x. r = Inr x \<Longrightarrow> R x) \<Longrightarrow> gives I (areturn r) R"
  by (auto simp: gives_def areturn_def)

lemma gives_any: "keeps I m \<Longrightarrow> gives I m (\<lambda>_. True)"
  by (auto simp: gives_def keeps_def)

lemma tame_gives: "tame root proc m \<Longrightarrow> gives (logged_ok root proc) m (\<lambda>_. True)"
  by (intro gives_any tame_keeps)

lemma named_entry:
  assumes "Option.bind (entry_str e) (\<lambda>s. case CgroupName_new s of Inl _ \<Rightarrow> None | Inr name \<Rightarrow> Some name) = Some name"
  shows "plain_name (bytes_str (de_name e))"
proof -
  obtain s where s: "entry_str e = Some s" "(case CgroupName_new s of Inl _ \<Rightarrow> None | Inr name \<Rightarrow> Some name) = Some name"
    using assms by (cases "entry_str e") simp_all
  have "wf_cgroup_name (CgroupName s)"
    using s(2) by (cases "CgroupName_new s") auto
  moreover have "s = bytes_str (de_name e)" using s(1) by (auto simp: entry_str_def from_utf8_def split: if_splits)
  ultimately show ?thesis by (simp add: plain_name_def)
qed

lemma collect_entries_gives:
  assumes "\<And>child relative identity groups. group_dir root child \<Longrightarrow> groups_ok root groups
      \<Longrightarrow> gives (logged_ok root proc) (descend child relative identity groups) (groups_ok root)"
    and "group_dir root p" "groups_ok root groups"
  shows "gives (logged_ok root proc) (collect_entries (recording_host h) descend p relative identity entries groups) (groups_ok root)"
  using assms(3)
proof (induction entries arbitrary: groups)
  case (Cons item rest)
  have deeper: "group_dir root (path_join p (bytes_str (de_name e)))"
    if "Option.bind (entry_str e) (\<lambda>s. case CgroupName_new s of Inl _ \<Rightarrow> None | Inr name \<Rightarrow> Some name) = Some name" for e name
    using named_entry [OF that] assms(2) by (rule group_dir_child [rotated])
  show ?case
    unfolding collect_entries.simps Let_def
    by (rule gives_then [OF gives_any [OF keeps_return]], rule gives_then [OF tame_gives [OF tame_inspect]])
      (auto intro!: gives_return gives_then [OF gives_any [OF keeps_return]] gives_then [OF assms(1)] Cons deeper split: option.split)
qed (auto intro: gives_return)

lemma collect_groups_gives:
  assumes "group_dir root p" "groups_ok root groups"
  shows "gives (logged_ok root proc) (collect_sysfs_groups levels (recording_host h) p relative identity groups) (groups_ok root)"
  using assms
proof (induction levels arbitrary: p relative identity groups)
  case (Suc levels)
  show ?case
    unfolding collect_sysfs_groups.simps Let_def
    using Suc by (auto simp del: recording_host_simps intro!: gives_return gives_then [OF tame_gives [OF tame_read_dir]] collect_entries_gives groups_ok_insert)
qed (auto intro: gives_return)

lemma new_adapter:
  assumes "WorkloadSysfs_new (recording_host h) root proc (w, []) = (Inr self, w')"
  shows "adapter_ok root proc self"
proof -
  have kept: "gives (logged_ok root proc) (abind (wl_validate_directory (recording_host h) root ''cgroup v2 root is unavailable'') (\<lambda>_.
      abind (cgroup_id_from_path (recording_host h) ROOT_TARGET root ''cgroup v2 root identity cannot be inspected'') (\<lambda>identity.
      abind (collect_sysfs_groups (Suc MAX_WORKLOAD_GROUPS) (recording_host h) root '''' identity []) (\<lambda>groups.
      if groups = [] then areturn (Inl (wl_unsupported ''cgroup v2 hierarchy contains no discoverable targets''))
      else areturn (Inr groups))))) (groups_ok root)" (is "gives _ ?m _")
    by (intro gives_then [OF tame_gives [OF tame_identity(2)]] gives_then [OF tame_gives [OF tame_identity(1)]]
        gives_then [OF collect_groups_gives [OF group_dir_root]])
      (auto simp: groups_ok_def intro: gives_return)
  obtain gs where run: "?m (w, []) = (Inr gs, w')" and self: "self = \<lparr>ws_proc_root = proc, ws_groups = gs, ws_world = w'\<rparr>"
    using assms unfolding WorkloadSysfs_new_def by (auto split: prod.splits sum.splits)
  have "logged_ok root proc w' \<and> groups_ok root gs" by (rule givesD [OF kept _ run]) simp
  with self show ?thesis by (simp add: adapter_ok_def case_prod_unfold)
qed

interpretation sysfs_port: workload_port "WorkloadSysfs_io (recording_host h)" "adapter_ok root proc" wf_kind wf_value
  for h :: "'w host" and root proc
  by unfold_locales
    (simp_all add: WorkloadSysfs_io_def workload_detect_keeps read_mutation_keeps read_process_keeps sysfs_validate_keeps sysfs_write_keeps)

text \<open>
  C40: the production workload backend is confined, on any host: after it was opened on a cgroup root, any
  sequence of backend calls whose kinds and values came through their checked constructors leaves a log
  in which every step obeys \<open>wl_rule\<close>. It opens only files it has just seen to be regular, writable ones
  for writing, without following links or creating them; it writes only the closed node files of directories
  below its root, at most 128 bytes; it sets a priority in the Linux range only right after reading the
  identity of the process; and it removes a directory only if it has just created it or has just read its
  process list.
\<close>

theorem workload_host_confined:
  assumes "WorkloadSysfs_new (recording_host h) root proc (w, []) = (Inr self, w')"
    and "list_all (admitted_call wf_kind wf_value) calls"
  shows "obeys (wl_rule root proc)
     (snd (ws_world (fold (backend_step (WorkloadBackend (WorkloadSysfs_io (recording_host h)))) calls self)))"
proof -
  have "adapter_ok root proc (fold (backend_step (WorkloadBackend (WorkloadSysfs_io (recording_host h)))) calls self)"
    by (rule sysfs_port.run_keeps [OF assms(2) new_adapter [OF assms(1)]])
  then show ?thesis by (simp add: adapter_ok_def)
qed

text \<open>A host with one cgroup, whose only state is the contents of its \<open>cpu.weight\<close>.\<close>

definition one_group_host :: "u8 list host" where
  "one_group_host = \<lparr>
     h_symlink_metadata = (\<lambda>p w. (Inr \<lparr>md_type = (if p = ''/c'' then Directory else RegularFile), md_dev = 3, md_ino = 7,
       md_uid = 0, md_gid = 0, md_mode = 0x1A4, md_nlink = 1\<rparr>, w)),
     h_canonicalize = (\<lambda>p w. (Inr p, w)),
     h_read_dir = (\<lambda>p w. (Inr [], w)),
     h_open = (\<lambda>opts p w. (Inr (if p = ''/c/cpu.weight'' then 1 else 2), w)),
     h_metadata = (\<lambda>f w. (Inl OtherKind, w)),
     h_read = (\<lambda>f limit w. (Inr (if f = 1 then w else str_bytes ''cpu''), w)),
     h_write_all = (\<lambda>f bytes w. (Inr (), if f = 1 then bytes else w)),
     h_sync_all = (\<lambda>f w. (Inl OtherKind, w)),
     h_create_dir = (\<lambda>mode p w. (Inl OtherKind, w)),
     h_remove_dir = (\<lambda>p w. (Inl OtherKind, w)),
     h_remove_file = (\<lambda>p w. (Inl OtherKind, w)),
     h_rename = (\<lambda>p q w. (Inl OtherKind, w)),
     h_getpriority = (\<lambda>n w. (Inl OtherKind, w)),
     h_setpriority = (\<lambda>n v w. (Inl OtherKind, w)),
     h_process_id = 5,
     h_read_to_string = (\<lambda>p w. (Inl OtherKind, w)),
     h_clock_nanos = (\<lambda>w. (0, w))\<rparr>"

definition one_group_weight :: planned_mutation where
  "one_group_weight = \<lparr>pm_mutation_id = MutationId 1, pm_capability = CapabilityId ''cgroup.cpu.weight'',
     pm_target = TargetId ROOT_TARGET,
     pm_kind = mutation_kind.CgroupCpuWeight (CgroupId 3 7 (TargetId ROOT_TARGET)) (CpuWeight 200),
     pm_desired = typed_value.CgroupCpuWeight (CpuWeight 200), pm_precondition = StateFingerprint (str_bytes ''100''),
     pm_equality = ScalarExact, pm_dependencies = [],
     pm_rollback = \<lparr>rb_equality = ScalarExact, rb_mode = CompareAndRestore\<rparr>\<rparr>"

theorem workload_host_confined_witness:
  "\<exists>self w'. WorkloadSysfs_new (recording_host one_group_host) ''/c'' ''/p'' (str_bytes ''100'', []) = (Inr self, w')
     \<and> obeys (wl_rule ''/c'' ''/p'') (snd (ws_world (fold (backend_step (WorkloadBackend (WorkloadSysfs_io (recording_host one_group_host))))
          [Call_detect (Timestamp 5), Call_snapshot one_group_weight (Timestamp 6)] self)))"
proof -
  have "\<not> isl (fst (WorkloadSysfs_new (recording_host one_group_host) ''/c'' ''/p'' (str_bytes ''100'', [])))" by code_simp
  then obtain self w' where new: "WorkloadSysfs_new (recording_host one_group_host) ''/c'' ''/p'' (str_bytes ''100'', []) = (Inr self, w')"
    by (cases "WorkloadSysfs_new (recording_host one_group_host) ''/c'' ''/p'' (str_bytes ''100'', [])"; cases "fst (WorkloadSysfs_new (recording_host one_group_host) ''/c'' ''/p'' (str_bytes ''100'', []))") auto
  have "list_all (admitted_call wf_kind wf_value) [Call_detect (Timestamp 5), Call_snapshot one_group_weight (Timestamp 6)]"
    by code_simp
  from workload_host_confined [OF new this] new show ?thesis by blast
qed

end
