(* ===== verification/Spec2Isabelle.thy ===== *)
theory Spec2Isabelle
  imports
    Sysboost_Prelude Identifiers Errors Actions Mutations Plans Orders Ordered_Maps
    Planner_Input Planner_Specs Planner_Candidates Planner Planner_Order Planner_Safety
    Plan_Text Planner_Build Planner_Results Planner_Witnesses Sessions Records Record_Frames
    Codec Codec_Roundtrip Engine Engine_Safety Engine_Log Engine_Outcome Backends Testkit
    Honest_Restore Config Rust_Strings Process Protocol Privilege Privilege_Safety Host_Files
    Cpu_Backend Cpu_Fixture Cpu_Atomic Host_Log Cpu_Sysfs Cpu_Safety State_Files State_Safety
    State_Recovery State_Witnesses Workload_Backend Workload_Text Cgroup_Fixture
    Workload_Invariant Cgroup_Placement Cgroup_Sysfs Cgroup_Safety
begin

text \<open>
  Sysboost: a verification library for a transactional system tuner.

  \<^bold>\<open>The program.\<close> The controller plans reversible changes of kernel and device settings and asks
  a privileged helper to apply them. A planned change is a typed mutation with the fingerprint its
  target must have; a plan is a dependency-ordered list of mutations with the items that explain
  them. The helper captures a preimage of every target, persists a session record as durable
  intent, and only then applies one mutation at a time, recording each step before and after it; on
  failure, on request or after a crash it restores what it still owns. A session record is stored as
  a checksummed binary file.

  \<^bold>\<open>The theories\<close>, in the order the code builds on itself (paths under \<open>src/crates\<close>):

  \<^item> \<open>Sysboost_Prelude\<close>: Rust integers as words, big-endian bytes, UTF-8 strings, the \<open>?\<close> operator,
    search and update of vectors, binary search. \<open>Ordered_Maps\<close>: \<open>BTreeMap\<close>. \<open>Rust_Strings\<close>: the
    string methods of the standard library (characters, splitting, trimming, integer parsing).
  \<^item> \<open>Identifiers\<close> (\<open>sysboost-core/src/ids.rs\<close>, \<open>time.rs\<close>), \<open>Errors\<close> (\<open>error.rs\<close>, \<open>capability.rs\<close>),
    \<open>Mutations\<close> (\<open>mutation.rs\<close>): checked constructors, the closed mutation vocabulary.
  \<^item> \<open>Plans\<close> (\<open>plan.rs\<close> and the plan items of \<open>planner.rs\<close>): what \<open>Plan::validate\<close> accepts.
  \<^item> \<open>Orders\<close>: the derived orders of the identifiers, risk classes, controls and actions.
    \<open>Planner_Input\<close>, \<open>Planner_Specs\<close>, \<open>Planner_Candidates\<close>, \<open>Planner\<close>, \<open>Plan_Text\<close> (\<open>planner.rs\<close>):
    profiles, policy, current state and operation contracts; the feature table and the profile's
    wishes; candidates, their merge and the topological numbering; the resolution of proposals and
    features; names, dry-run text and digests. \<open>Planner_Order\<close> is the invariant of the ordering
    loop, \<open>Planner_Safety\<close> what every candidate satisfies, \<open>Planner_Build\<close> carries both through
    finalisation to \<open>Plan::validate\<close>, \<open>Planner_Results\<close> and \<open>Planner_Witnesses\<close> hold the results.
  \<^item> \<open>Sessions\<close> (\<open>session.rs\<close>), \<open>Records\<close> and \<open>Record_Frames\<close> (\<open>transaction.rs\<close>): the session state
    machine, the record of a session with its operations, receipts, failures and journal, the
    lifecycle operations and the structural validation.
  \<^item> \<open>Codec\<close>, \<open>Codec_Roundtrip\<close> (\<open>transaction.rs\<close>): the state-file format.
  \<^item> \<open>Engine\<close> (\<open>sysboost-platform/src/transaction.rs\<close>): the coordinator. Its ports (backend, store,
    lock, ID source, clock) are a record of functions on an arbitrary world, and every method
    performs the calls, updates and early returns of the source in order. \<open>Engine_Safety\<close> states
    what the engine relies on as the locales \<open>passive_ports\<close>, \<open>restore_protocol\<close> and
    \<open>engine_protocol\<close>; \<open>Engine_Log\<close> interprets them on logging ports, for any backend and store;
    \<open>Engine_Outcome\<close> says what a successful return proves.
  \<^item> \<open>Backends\<close> (\<open>backend.rs\<close>): the backend interface and the registry that routes by ownership.
    \<open>Testkit\<close> (\<open>sysboost-testkit/src/lib.rs\<close>): the in-memory store, which implements the locale
    \<open>session_store\<close>, and the fake backend. \<open>Honest_Restore\<close>: over ports that report the target's
    value honestly (locale \<open>honest_ports\<close>, interpreted on the test kit), restoration really puts
    the originals back.
  \<^item> \<open>Config\<close> (\<open>sysboost-config/src/lib.rs\<close>): the configuration hierarchy.
  \<^item> \<open>Process\<close> (\<open>process.rs\<close>), \<open>Protocol\<close> (\<open>sysboost-protocol/src/lib.rs\<close>), \<open>Privilege\<close>
    (\<open>privilege.rs\<close>): process identities, the wire protocol, and the helper service between a peer
    and the engine. \<open>Privilege_Safety\<close> extends the engine's locales to the helper
    (\<open>passive_helper\<close>, \<open>active_helper\<close>) and interprets them on its logging ports.

  \<^bold>\<open>What the theorems show.\<close> The codec round trips and detects torn files and any single changed
  byte; what decodes is valid, and a valid record's journal is a legal run that went through durable
  intent. In every run of the engine, and of the helper over any number of lifetimes, a backend
  apply directly follows the durable record of its own intent, and a backend restore directly
  follows a readback of the session's own value. Success of prepare, apply and restore is durable
  and proven. A plan the planner builds passes \<open>Plan::validate\<close> and holds only mutations that every
  gate of the policy admitted; a required request is met or the plan is refused. Only a fresh, authenticated request of a session's owner reaches a mutating call. The
  registry's ownership is exclusive, wire messages have one encoding each, and configuration layers
  only narrow.

  \<^bold>\<open>Conventions.\<close> A fallible function returns \<open>result = sysboost_error + 'a\<close>; a method on mutable
  state is an \<open>action\<close>, which returns the result and the state it leaves, also on an error. Rust
  strings are byte lists, \<open>usize\<close> is 64 bits. Every
  recursion terminates by structure or a measure (the cycle search of a plan by the unvisited
  mutations, the retry loop of session IDs by its 32 attempts), except the planner's ready loop,
  which runs on fuel: one step per mutation, enough because every step orders another one (lemma
  \<open>order_candidates_done\<close>).

  \<^bold>\<open>Not modelled yet\<close>: the file state store, and the Linux
  backends, discovery and workload parsers; \<open>Display\<close> implementations, the log sinks and the entry
  points, which only format and print.
\<close>

end
